(* ===== verification/Prelude.thy ===== *)
theory Prelude
  imports Complex_Main "HOL-Library.AList" "HOL-Library.List_Lexorder" "HOL-Library.Char_ord"
begin

text \<open>
  What the components share: Python exceptions as values, the result type and its
  sequencing, and generic lemmas on lists and association lists. A Python dictionary is an
  association list kept in insertion order; assigning to a key is \<^const>\<open>AList.update\<close>,
  which overwrites in place or appends, and popping a key is \<^const>\<open>AList.delete\<close>, so the
  order that \<^verbatim>\<open>dict.items()\<close> shows is the order of the list.
\<close>

section \<open>Exceptions and results\<close>

text \<open>
  \<open>RuntimeErr\<close> carries the exact message of the source's \<^verbatim>\<open>raise RuntimeError(...)\<close>.
  The other Python exceptions carry no text here. \<open>LeaseLost\<close> and \<open>StepTimeout\<close> are the
  runtime's own \<^verbatim>\<open>RuntimeLeaseLostError\<close> and \<^verbatim>\<open>RuntimeStepTimeoutError\<close>, \<open>NotFound\<close> and
  \<open>Invalid\<close> are \<^verbatim>\<open>SkillNotFoundError\<close> and \<^verbatim>\<open>SkillValidationError\<close> (with the name of the
  failed check for the sentence), \<open>Gateway\<close> and \<open>GatewayTimeout\<close> are \<^verbatim>\<open>SkillsGatewayError\<close> and
  \<^verbatim>\<open>SkillsGatewayTimeoutError\<close> with their message, \<open>DbErr\<close> is the database's \<^verbatim>\<open>IntegrityError\<close>,
  and \<open>Conflict\<close> the two conflicts of the skill service: a name that is taken, a source that has moved.
\<close>

datatype exc =
    TypeErr | AttrErr | KeyErr | ValueErr | IndexErr
  | RuntimeErr string
  | StepTimeout string
  | LeaseLost
  | NotFound
  | Invalid string
  | Gateway string
  | GatewayTimeout string
  | DbErr
  | Conflict string

type_synonym 'a res = "exc + 'a"

definition rbind :: "'a res \<Rightarrow> ('a \<Rightarrow> 'b res) \<Rightarrow> 'b res" where
  "rbind m f = (case m of Inl e \<Rightarrow> Inl e | Inr x \<Rightarrow> f x)"

named_theorems res_simps "sequencing of results"

lemma rbind_Inl [simp, res_simps]: "rbind (Inl e) f = Inl e"
  by (simp add: rbind_def)

lemma rbind_Inr [simp, res_simps]: "rbind (Inr x) f = f x"
  by (simp add: rbind_def)

lemma rbind_eq_Inr [res_simps]: "rbind m f = Inr y \<longleftrightarrow> (\<exists>x. m = Inr x \<and> f x = Inr y)"
  by (cases m) auto

lemma rbind_eq_Inl [res_simps]:
  "rbind m f = Inl e \<longleftrightarrow> m = Inl e \<or> (\<exists>x. m = Inr x \<and> f x = Inl e)"
  by (cases m) auto

lemma rbind_InrE: "rbind m f = Inr y \<Longrightarrow> (\<And>x. m = Inr x \<Longrightarrow> f x = Inr y \<Longrightarrow> P) \<Longrightarrow> P"
  by (auto simp: rbind_eq_Inr)

lemma rbind_cong [fundef_cong]:
  "m = m' \<Longrightarrow> (\<And>x. m' = Inr x \<Longrightarrow> f x = f' x) \<Longrightarrow> rbind m f = rbind m' f'"
  by (cases m') auto

text \<open>A Python loop whose body may raise: the first error stops it.\<close>

fun rmap :: "('a \<Rightarrow> 'b res) \<Rightarrow> 'a list \<Rightarrow> 'b list res" where
  "rmap f [] = Inr []"
| "rmap f (x # xs) = rbind (f x) (\<lambda>y. rbind (rmap f xs) (\<lambda>ys. Inr (y # ys)))"

lemma rmap_eq_Inr: "rmap f xs = Inr ys \<longleftrightarrow> list_all2 (\<lambda>x y. f x = Inr y) xs ys"
proof (induction xs arbitrary: ys)
  case Nil
  then show ?case by auto
next
  case (Cons x xs)
  show ?case
    by (cases ys) (auto simp: rbind_eq_Inr Cons.IH)
qed

lemma rmap_total: "(\<And>x. x \<in> set xs \<Longrightarrow> \<exists>y. f x = Inr y) \<Longrightarrow> \<exists>ys. rmap f xs = Inr ys"
proof (induction xs)
  case Nil
  then show ?case by simp
next
  case (Cons x xs)
  then obtain y ys where "f x = Inr y" and "rmap f xs = Inr ys"
    by (meson list.set_intros(1) list.set_intros(2))
  then show ?case by simp
qed

lemma rmap_pure: "(\<And>x. x \<in> set xs \<Longrightarrow> f x = Inr (g x)) \<Longrightarrow> rmap f xs = Inr (map g xs)"
  by (induction xs) auto

section \<open>Association lists in insertion order\<close>

named_theorems dict_simps "lookups after dictionary writes"

declare update_conv [dict_simps] delete_conv [dict_simps]

lemma map_of_update [simp, dict_simps]:
  "map_of (AList.update k v al) k' = (if k' = k then Some v else map_of al k')"
  by (simp add: update_conv)

lemma map_of_delete [simp, dict_simps]:
  "map_of (AList.delete k al) k' = (if k' = k then None else map_of al k')"
  by (simp add: delete_conv)

lemma distinct_keys_update [intro]:
  "distinct (map fst al) \<Longrightarrow> distinct (map fst (AList.update k v al))"
  by (rule distinct_update)

lemma update_keys_present: "k \<in> fst ` set al \<Longrightarrow> map fst (AList.update k v al) = map fst al"
  by (induction al) (auto split: if_splits)

lemma update_keys_absent:
  "k \<notin> fst ` set al \<Longrightarrow> AList.update k v al = al @ [(k, v)]"
  by (induction al) auto

lemma length_update_le: "length al \<le> length (AList.update k v al)"
  by (induction al) auto

section \<open>Lists\<close>

lemma distinct_snoc_iff: "distinct (xs @ [x]) \<longleftrightarrow> distinct xs \<and> x \<notin> set xs"
  by auto

lemma concat_eq_Nil: "concat xss = [] \<longleftrightarrow> (\<forall>xs \<in> set xss. xs = [])"
  by auto

lemma list_all_concat_map: "list_all P (concat (map f xs)) \<longleftrightarrow> (\<forall>x \<in> set xs. list_all P (f x))"
  by (auto simp: list_all_iff)

lemma list_all_map: "list_all P (map f xs) \<longleftrightarrow> (\<forall>x \<in> set xs. P (f x))"
  by (auto simp: list_all_iff)

lemma list_all_if: "list_all P (if b then xs else ys) \<longleftrightarrow> (if b then list_all P xs else list_all P ys)"
  by simp

lemma set_enumerate_snd: "(i, x) \<in> set (enumerate n xs) \<Longrightarrow> x \<in> set xs"
  by (metis in_set_enumerate_eq nth_mem snd_conv fst_conv add_diff_inverse_nat
      diff_less_mono le_add_diff_inverse less_diff_conv2 nat_add_left_cancel_less not_less)

lemma ex_enumerate: "x \<in> set xs \<Longrightarrow> \<exists>i. (i, x) \<in> set (enumerate n xs)"
  by (metis in_set_conv_nth length_enumerate nth_enumerate_eq)

lemma ball_enumerate_snd:
  "(\<forall>p \<in> set (enumerate n xs). P (snd p)) \<longleftrightarrow> (\<forall>x \<in> set xs. P x)"
  by (metis ex_enumerate prod.collapse set_enumerate_snd snd_conv)

end
