(* ===== verification/PyJson.thy ===== *)
theory PyJson
  imports PyStr
begin

text \<open>
  The JSON values the program keeps in its tokens, artifacts and payloads, with the Python
  operations it applies to them: truth value, equality, \<^verbatim>\<open>str\<close>, \<^verbatim>\<open>int\<close>, \<^verbatim>\<open>json.dumps\<close>, dictionary
  reads and writes, and the dotted paths of \<^verbatim>\<open>_get_path\<close> and \<^verbatim>\<open>_set_path\<close>. A float carries its
  value and its \<^verbatim>\<open>repr\<close> (which Python determines from the value); NaN and the infinities are
  not JSON values. Values are immutable here: where the code updates a nested dictionary in
  place, the model rebuilds the path down to it. A \<^verbatim>\<open>json.loads(json.dumps(x))\<close> copy is the
  identity on these values and does not appear in the definitions.
\<close>

section \<open>Values\<close>

datatype json =
    JNull
  | JBool bool
  | JInt int
  | JFloat rat string
  | JStr string
  | JArr "json list"
  | JObj "(string \<times> json) list"

type_synonym dict = "(string \<times> json) list"

lemma size_map_of [termination_simp]: "map_of o1 k = Some v \<Longrightarrow> size v < size (JObj o1)"
  by (induction o1) (auto split: if_splits)

lemma size_dict_value [termination_simp]: "(k, v) \<in> set o1 \<Longrightarrow> size v < size (JObj o1)"
  by (induction o1) auto

lemma size_dict_pair [termination_simp]: "p \<in> set o1 \<Longrightarrow> size (snd p) < size (JObj o1)"
  by (metis prod.collapse size_dict_value)

lemma size_arr_elem [termination_simp]: "v \<in> set xs \<Longrightarrow> size v < size (JArr xs)"
  by (induction xs) auto

text \<open>The \<^verbatim>\<open>isinstance\<close> tests. A Python \<^verbatim>\<open>bool\<close> is an \<^verbatim>\<open>int\<close>.\<close>

fun is_str :: "json \<Rightarrow> bool" where "is_str (JStr s) = True" | "is_str _ = False"
fun is_obj :: "json \<Rightarrow> bool" where "is_obj (JObj p) = True" | "is_obj _ = False"
fun is_arr :: "json \<Rightarrow> bool" where "is_arr (JArr p) = True" | "is_arr _ = False"
fun is_bool :: "json \<Rightarrow> bool" where "is_bool (JBool p) = True" | "is_bool _ = False"
fun is_int :: "json \<Rightarrow> bool" where
  "is_int (JBool b) = True" | "is_int (JInt i) = True" | "is_int _ = False"

fun int_of_json :: "json \<Rightarrow> int" where
  "int_of_json (JBool b) = (if b then 1 else 0)"
| "int_of_json (JInt i) = i"
| "int_of_json _ = 0"

lemma is_str_iff: "is_str j \<longleftrightarrow> (\<exists>s. j = JStr s)" by (cases j) auto
lemma is_obj_iff: "is_obj j \<longleftrightarrow> (\<exists>p. j = JObj p)" by (cases j) auto
lemma is_arr_iff: "is_arr j \<longleftrightarrow> (\<exists>p. j = JArr p)" by (cases j) auto
lemma is_bool_iff: "is_bool j \<longleftrightarrow> (\<exists>b. j = JBool b)" by (cases j) auto
lemma is_int_iff: "is_int j \<longleftrightarrow> (\<exists>b. j = JBool b) \<or> (\<exists>i. j = JInt i)" by (cases j) auto

lemmas is_type_iffs = is_str_iff is_obj_iff is_arr_iff is_bool_iff is_int_iff

text \<open>\<^verbatim>\<open>x if isinstance(x, dict) else {}\<close> and its list and string companions.\<close>

fun dict_or_empty :: "json \<Rightarrow> dict" where
  "dict_or_empty (JObj p) = p" | "dict_or_empty _ = []"

fun list_or_empty :: "json \<Rightarrow> json list" where
  "list_or_empty (JArr xs) = xs" | "list_or_empty _ = []"

fun str_or_empty :: "json \<Rightarrow> string" where
  "str_or_empty (JStr s) = s" | "str_or_empty _ = []"

text \<open>
  The branches on \<^verbatim>\<open>isinstance(x, dict)\<close>, \<^verbatim>\<open>isinstance(x, list)\<close> and \<^verbatim>\<open>isinstance(x, str)\<close>, as
  combinators with their own split rules: a case split has two cases, not seven.
\<close>

definition if_obj :: "json \<Rightarrow> (dict \<Rightarrow> 'a) \<Rightarrow> 'a \<Rightarrow> 'a" where
  "if_obj j f d = (case j of JObj g \<Rightarrow> f g | _ \<Rightarrow> d)"

definition if_arr :: "json \<Rightarrow> (json list \<Rightarrow> 'a) \<Rightarrow> 'a \<Rightarrow> 'a" where
  "if_arr j f d = (case j of JArr xs \<Rightarrow> f xs | _ \<Rightarrow> d)"

definition if_str :: "json \<Rightarrow> (string \<Rightarrow> 'a) \<Rightarrow> 'a \<Rightarrow> 'a" where
  "if_str j f d = (case j of JStr s \<Rightarrow> f s | _ \<Rightarrow> d)"

lemma if_obj_simps [simp]:
  "if_obj (JObj g) f d = f g" "if_obj JNull f d = d" "if_obj (JBool b) f d = d"
  "if_obj (JInt i) f d = d" "if_obj (JFloat q r) f d = d" "if_obj (JStr s) f d = d"
  "if_obj (JArr xs) f d = d"
  by (simp_all add: if_obj_def)

lemma if_arr_simps [simp]:
  "if_arr (JArr xs) f d = f xs" "if_arr JNull f d = d" "if_arr (JBool b) f d = d"
  "if_arr (JInt i) f d = d" "if_arr (JFloat q r) f d = d" "if_arr (JStr s) f d = d"
  "if_arr (JObj g) f d = d"
  by (simp_all add: if_arr_def)

lemma if_str_simps [simp]:
  "if_str (JStr s) f d = f s" "if_str JNull f d = d" "if_str (JBool b) f d = d"
  "if_str (JInt i) f d = d" "if_str (JFloat q r) f d = d" "if_str (JArr xs) f d = d"
  "if_str (JObj g) f d = d"
  by (simp_all add: if_str_def)

lemma if_obj_split:
  "P (if_obj j f d) \<longleftrightarrow> (\<forall>g. j = JObj g \<longrightarrow> P (f g)) \<and> (\<not> is_obj j \<longrightarrow> P d)"
  by (cases j) auto

lemma if_obj_split_asm:
  "P (if_obj j f d) \<longleftrightarrow> \<not> ((\<exists>g. j = JObj g \<and> \<not> P (f g)) \<or> \<not> is_obj j \<and> \<not> P d)"
  by (cases j) auto

lemma if_arr_split:
  "P (if_arr j f d) \<longleftrightarrow> (\<forall>g. j = JArr g \<longrightarrow> P (f g)) \<and> (\<not> is_arr j \<longrightarrow> P d)"
  by (cases j) auto

lemma if_arr_split_asm:
  "P (if_arr j f d) \<longleftrightarrow> \<not> ((\<exists>g. j = JArr g \<and> \<not> P (f g)) \<or> \<not> is_arr j \<and> \<not> P d)"
  by (cases j) auto

lemma if_str_split:
  "P (if_str j f d) \<longleftrightarrow> (\<forall>g. j = JStr g \<longrightarrow> P (f g)) \<and> (\<not> is_str j \<longrightarrow> P d)"
  by (cases j) auto

lemma if_str_split_asm:
  "P (if_str j f d) \<longleftrightarrow> \<not> ((\<exists>g. j = JStr g \<and> \<not> P (f g)) \<or> \<not> is_str j \<and> \<not> P d)"
  by (cases j) auto

lemmas type_splits =
  if_obj_split if_obj_split_asm if_arr_split if_arr_split_asm if_str_split if_str_split_asm

lemma in_set_if_type:
  "x \<in> set (if_obj j f d) \<longleftrightarrow> (\<exists>g. j = JObj g \<and> x \<in> set (f g)) \<or> \<not> is_obj j \<and> x \<in> set d"
  "x \<in> set (if_arr j f' d) \<longleftrightarrow> (\<exists>g. j = JArr g \<and> x \<in> set (f' g)) \<or> \<not> is_arr j \<and> x \<in> set d"
  "x \<in> set (if_str j f'' d) \<longleftrightarrow> (\<exists>g. j = JStr g \<and> x \<in> set (f'' g)) \<or> \<not> is_str j \<and> x \<in> set d"
  by (cases j; auto)+

lemma if_type_eq_Nil:
  "if_obj j f d = [] \<longleftrightarrow> (\<forall>g. j = JObj g \<longrightarrow> f g = []) \<and> (is_obj j \<or> d = [])"
  "if_arr j f' d = [] \<longleftrightarrow> (\<forall>g. j = JArr g \<longrightarrow> f' g = []) \<and> (is_arr j \<or> d = [])"
  "if_str j f'' d = [] \<longleftrightarrow> (\<forall>g. j = JStr g \<longrightarrow> f'' g = []) \<and> (is_str j \<or> d = [])"
  by (cases j; auto)+

lemma list_all_if_type:
  "list_all P (if_obj j f d) \<longleftrightarrow> (\<forall>g. j = JObj g \<longrightarrow> list_all P (f g)) \<and> (is_obj j \<or> list_all P d)"
  "list_all P (if_arr j f' d) \<longleftrightarrow> (\<forall>g. j = JArr g \<longrightarrow> list_all P (f' g)) \<and> (is_arr j \<or> list_all P d)"
  "list_all P (if_str j f'' d) \<longleftrightarrow> (\<forall>g. j = JStr g \<longrightarrow> list_all P (f'' g)) \<and> (is_str j \<or> list_all P d)"
  by (cases j; auto)+

lemma if_obj_cong [fundef_cong]:
  "j = j' \<Longrightarrow> (\<And>g. j' = JObj g \<Longrightarrow> f g = f' g) \<Longrightarrow> (\<not> is_obj j' \<Longrightarrow> d = d') \<Longrightarrow>
   if_obj j f d = if_obj j' f' d'"
  by (cases j') auto

lemma if_arr_cong [fundef_cong]:
  "j = j' \<Longrightarrow> (\<And>g. j' = JArr g \<Longrightarrow> f g = f' g) \<Longrightarrow> (\<not> is_arr j' \<Longrightarrow> d = d') \<Longrightarrow>
   if_arr j f d = if_arr j' f' d'"
  by (cases j') auto

lemma if_str_cong [fundef_cong]:
  "j = j' \<Longrightarrow> (\<And>g. j' = JStr g \<Longrightarrow> f g = f' g) \<Longrightarrow> (\<not> is_str j' \<Longrightarrow> d = d') \<Longrightarrow>
   if_str j f d = if_str j' f' d'"
  by (cases j') auto

section \<open>Dictionaries\<close>

text \<open>\<^verbatim>\<open>d.get(k, v)\<close>, \<^verbatim>\<open>d.get(k)\<close>, \<^verbatim>\<open>k in d\<close>, \<^verbatim>\<open>d[k]\<close>, \<^verbatim>\<open>d[k] = v\<close>, \<^verbatim>\<open>d.setdefault(k, v)\<close>,
  \<^verbatim>\<open>d.pop(k, None)\<close>.\<close>

definition dget_or :: "dict \<Rightarrow> string \<Rightarrow> json \<Rightarrow> json" where
  "dget_or d k v = (case map_of d k of None \<Rightarrow> v | Some w \<Rightarrow> w)"

definition dget :: "dict \<Rightarrow> string \<Rightarrow> json" where
  "dget d k = dget_or d k JNull"

definition dhas :: "dict \<Rightarrow> string \<Rightarrow> bool" where
  "dhas d k \<longleftrightarrow> map_of d k \<noteq> None"

definition dset :: "string \<Rightarrow> json \<Rightarrow> dict \<Rightarrow> dict" where
  "dset k v d = AList.update k v d"

definition dsetdefault :: "string \<Rightarrow> json \<Rightarrow> dict \<Rightarrow> dict" where
  "dsetdefault k v d = (if dhas d k then d else dset k v d)"

definition dpop :: "string \<Rightarrow> dict \<Rightarrow> dict" where
  "dpop k d = AList.delete k d"

lemma dget_dset [simp, dict_simps]: "dget (dset k v d) k' = (if k' = k then v else dget d k')"
  by (simp add: dget_def dget_or_def dset_def)

lemma dget_or_dset [simp, dict_simps]:
  "dget_or (dset k v d) k' w = (if k' = k then v else dget_or d k' w)"
  by (simp add: dget_or_def dset_def)

lemma dhas_dset [simp, dict_simps]: "dhas (dset k v d) k' \<longleftrightarrow> k' = k \<or> dhas d k'"
  by (simp add: dhas_def dset_def)

lemma dget_dpop [simp, dict_simps]: "dget (dpop k d) k' = (if k' = k then JNull else dget d k')"
  by (simp add: dget_def dget_or_def dpop_def)

lemma dhas_dpop [simp, dict_simps]: "dhas (dpop k d) k' \<longleftrightarrow> k' \<noteq> k \<and> dhas d k'"
  by (simp add: dhas_def dpop_def)

lemma dget_dsetdefault [simp, dict_simps]:
  "dget (dsetdefault k v d) k' = (if k' = k \<and> \<not> dhas d k then v else dget d k')"
  by (simp add: dsetdefault_def)

lemma dhas_dsetdefault [simp, dict_simps]: "dhas (dsetdefault k v d) k' \<longleftrightarrow> k' = k \<or> dhas d k'"
  by (auto simp: dsetdefault_def)

lemma dhas_dget: "dget d k \<noteq> JNull \<Longrightarrow> dhas d k"
  by (auto simp: dget_def dget_or_def dhas_def split: option.splits)

lemma dget_in: "dhas d k \<Longrightarrow> (k, dget d k) \<in> set d"
  by (auto simp: dget_def dget_or_def dhas_def split: option.splits intro: map_of_SomeD)

lemma size_dget: "dhas d k \<Longrightarrow> size (dget d k) < size (JObj d)"
  by (rule size_dict_value [OF dget_in])

lemma distinct_dset [intro]: "distinct (map fst d) \<Longrightarrow> distinct (map fst (dset k v d))"
  by (simp add: dset_def distinct_update)

text \<open>The same on a dictionary written out.\<close>

lemma dict_literal_simps [simp, dict_simps]:
  "dget [] k = JNull" "dget ((k', v) # d) k = (if k' = k then v else dget d k)"
  "dget_or [] k w = w" "dget_or ((k', v) # d) k w = (if k' = k then v else dget_or d k w)"
  "dhas [] k = False" "dhas ((k', v) # d) k = (k' = k \<or> dhas d k)"
  "dset k w [] = [(k, w)]"
  "dset k w ((k', v) # d) = (if k' = k then (k, w) # d else (k', v) # dset k w d)"
  "dpop k [] = []" "dpop k ((k', v) # d) = (if k' = k then dpop k d else (k', v) # dpop k d)"
  by (auto simp: dget_def dget_or_def dhas_def dset_def dpop_def AList.delete_eq)

section \<open>Truth value, equality, conversions\<close>

fun truthy :: "json \<Rightarrow> bool" where
  "truthy JNull = False"
| "truthy (JBool b) = b"
| "truthy (JInt i) = (i \<noteq> 0)"
| "truthy (JFloat q r) = (q \<noteq> 0)"
| "truthy (JStr s) = (s \<noteq> [])"
| "truthy (JArr xs) = (xs \<noteq> [])"
| "truthy (JObj d) = (d \<noteq> [])"

definition py_or :: "json \<Rightarrow> json \<Rightarrow> json" where
  "py_or a b = (if truthy a then a else b)"

text \<open>
  \<^verbatim>\<open>==\<close>: numbers compare by value whatever their type (\<^verbatim>\<open>True == 1 == 1.0\<close>), dictionaries
  compare without their order.
\<close>

fun num_val :: "json \<Rightarrow> rat option" where
  "num_val (JBool b) = Some (if b then 1 else 0)"
| "num_val (JInt i) = Some (of_int i)"
| "num_val (JFloat q r) = Some q"
| "num_val _ = None"

function py_eq :: "json \<Rightarrow> json \<Rightarrow> bool" where
  "py_eq (JArr xs) b =
     (case b of JArr ys \<Rightarrow> list_all2 py_eq xs ys | _ \<Rightarrow> False)"
| "py_eq (JObj d) b =
     (case b of
        JObj e \<Rightarrow> length d = length e
          \<and> list_all (\<lambda>p. case map_of e (fst p) of None \<Rightarrow> False | Some w \<Rightarrow> py_eq (snd p) w) d
      | _ \<Rightarrow> False)"
| "py_eq (JStr s) b = (b = JStr s)"
| "py_eq JNull b = (b = JNull)"
| "py_eq (JBool x) b = (num_val b = num_val (JBool x))"
| "py_eq (JInt x) b = (num_val b = num_val (JInt x))"
| "py_eq (JFloat x r) b = (num_val b = num_val (JFloat x r))"
  by pat_completeness auto
termination
  by (relation "measure (\<lambda>(a, b). size a)")
    (auto simp: size_arr_elem size_dict_pair simp del: json.size)

text \<open>\<^verbatim>\<open>repr\<close> of a string: single quotes unless the string holds one and no double quote.\<close>

definition hex_digit :: "nat \<Rightarrow> char" where
  "hex_digit n = (if n < 10 then char_of (48 + n) else char_of (87 + n))"

definition repr_char :: "char \<Rightarrow> char \<Rightarrow> string" where
  "repr_char q c =
     (let n = (of_char c :: nat) in
      if c = q \<or> n = 92 then [char_of (92 :: nat), c]
      else if n = 10 then [char_of (92 :: nat), CHR ''n'']
      else if n = 13 then [char_of (92 :: nat), CHR ''r'']
      else if n = 9 then [char_of (92 :: nat), CHR ''t'']
      else if n < 32 \<or> n = 127
        then [char_of (92 :: nat), CHR ''x'', hex_digit (n div 16), hex_digit (n mod 16)]
      else [c])"

definition repr_str :: "string \<Rightarrow> string" where
  "repr_str s =
     (let sq = char_of (39 :: nat); dq = char_of (34 :: nat);
          q = (if sq \<in> set s \<and> dq \<notin> set s then dq else sq)
      in q # concat (map (repr_char q) s) @ [q])"

fun py_repr :: "json \<Rightarrow> string" where
  "py_repr JNull = ''None''"
| "py_repr (JBool b) = (if b then ''True'' else ''False'')"
| "py_repr (JInt i) = int_str i"
| "py_repr (JFloat q r) = r"
| "py_repr (JStr s) = repr_str s"
| "py_repr (JArr xs) = ''['' @ join_with '', '' (map py_repr xs) @ '']''"
| "py_repr (JObj d) =
     ''{'' @ join_with '', '' (map (\<lambda>p. repr_str (fst p) @ '': '' @ py_repr (snd p)) d) @ ''}''"

definition py_str :: "json \<Rightarrow> string" where
  "py_str j = (case j of JStr s \<Rightarrow> s | _ \<Rightarrow> py_repr j)"

lemma py_str_JStr [simp]: "py_str (JStr s) = s"
  by (simp add: py_str_def)

text \<open>\<^verbatim>\<open>str(x or "")\<close>\<close>

definition str_or :: "json \<Rightarrow> string" where
  "str_or j = (if truthy j then py_str j else [])"

lemma str_or_JStr [simp]: "str_or (JStr s) = s"
  by (simp add: str_or_def)

lemma str_or_JNull [simp]: "str_or JNull = []"
  by (simp add: str_or_def)

definition trunc_rat :: "rat \<Rightarrow> int" where
  "trunc_rat q = (if 0 \<le> q then \<lfloor>q\<rfloor> else \<lceil>q\<rceil>)"

fun py_int :: "json \<Rightarrow> int res" where
  "py_int JNull = Inl TypeErr"
| "py_int (JBool b) = Inr (if b then 1 else 0)"
| "py_int (JInt i) = Inr i"
| "py_int (JFloat q r) = Inr (trunc_rat q)"
| "py_int (JStr s) = (case parse_int s of None \<Rightarrow> Inl ValueErr | Some i \<Rightarrow> Inr i)"
| "py_int (JArr xs) = Inl TypeErr"
| "py_int (JObj d) = Inl TypeErr"

text \<open>\<^verbatim>\<open>int(x or 0)\<close>\<close>

definition int_or0 :: "json \<Rightarrow> int res" where
  "int_or0 j = (if truthy j then py_int j else Inr 0)"

lemma int_or0_JInt [simp]: "int_or0 (JInt i) = Inr i"
  by (simp add: int_or0_def)

text \<open>\<^verbatim>\<open>json.dumps(x, ensure_ascii=False)\<close>\<close>

definition dumps_char :: "char \<Rightarrow> string" where
  "dumps_char c =
     (let n = (of_char c :: nat); bs = char_of (92 :: nat) in
      if n = 34 \<or> n = 92 then [bs, c]
      else if n = 10 then [bs, CHR ''n'']
      else if n = 13 then [bs, CHR ''r'']
      else if n = 9 then [bs, CHR ''t'']
      else if n = 8 then [bs, CHR ''b'']
      else if n = 12 then [bs, CHR ''f'']
      else if n < 32 then bs # ''u00'' @ [hex_digit (n div 16), hex_digit (n mod 16)]
      else [c])"

definition dumps_str :: "string \<Rightarrow> string" where
  "dumps_str s = char_of (34 :: nat) # concat (map dumps_char s) @ [char_of (34 :: nat)]"

fun dumps :: "json \<Rightarrow> string" where
  "dumps JNull = ''null''"
| "dumps (JBool b) = (if b then ''true'' else ''false'')"
| "dumps (JInt i) = int_str i"
| "dumps (JFloat q r) = r"
| "dumps (JStr s) = dumps_str s"
| "dumps (JArr xs) = ''['' @ join_with '', '' (map dumps xs) @ '']''"
| "dumps (JObj d) =
     ''{'' @ join_with '', '' (map (\<lambda>p. dumps_str (fst p) @ '': '' @ dumps (snd p)) d) @ ''}''"

text \<open>The order that \<^verbatim>\<open>sort_keys=True\<close> writes: UTF-8 keeps the order of code points.\<close>

fun sort_keys :: "json \<Rightarrow> json" where
  "sort_keys (JArr xs) = JArr (map sort_keys xs)"
| "sort_keys (JObj d) = JObj (sort_key fst (map (\<lambda>p. (fst p, sort_keys (snd p))) d))"
| "sort_keys j = j"

text \<open>Membership of a value in a Python set of strings: an unhashable value raises.\<close>

fun hashable :: "json \<Rightarrow> bool" where
  "hashable (JArr xs) = False" | "hashable (JObj d) = False" | "hashable _ = True"

definition in_str_set :: "json \<Rightarrow> string list \<Rightarrow> bool res" where
  "in_str_set j S = (if hashable j then Inr (j \<in> JStr ` set S) else Inl TypeErr)"

end
