(* ===== verification/TokenPath.thy ===== *)
theory TokenPath
  imports PyJson
begin

text \<open>
  Dotted paths into a token: \<^verbatim>\<open>_get_path\<close> and \<^verbatim>\<open>_set_path\<close> of
  \<^verbatim>\<open>backend/app/domain/runtime/service.py\<close>. The laws are those of the locale \<open>path_store\<close>;
  what the kernel proves about a sequence of writes rests on that interface only.
\<close>

section \<open>Reading and writing\<close>

text \<open>A missing key and a non-dictionary on the way both read as \<^verbatim>\<open>None\<close>.\<close>

fun get_parts :: "string list \<Rightarrow> json \<Rightarrow> json" where
  "get_parts [] j = j"
| "get_parts (p # ps) j =
     (case j of
        JObj d \<Rightarrow> (case map_of d p of None \<Rightarrow> JNull | Some w \<Rightarrow> get_parts ps w)
      | _ \<Rightarrow> JNull)"

definition get_path :: "json \<Rightarrow> string \<Rightarrow> json" where
  "get_path payload path =
     (if path = [] then JNull else get_parts (split_on CHR ''.'' path) payload)"

text \<open>Writing replaces whatever is not a dictionary on the way by a new dictionary.\<close>

fun set_parts :: "string list \<Rightarrow> json \<Rightarrow> dict \<Rightarrow> dict" where
  "set_parts [] v d = d"
| "set_parts [p] v d = dset p v d"
| "set_parts (p # q # ps) v d =
     dset p (JObj (set_parts (q # ps) v (dict_or_empty (dget d p)))) d"

definition set_path :: "string \<Rightarrow> json \<Rightarrow> dict \<Rightarrow> dict" where
  "set_path path v d = set_parts (split_on CHR ''.'' path) v d"

section \<open>Laws on part lists\<close>

lemma map_of_dset: "map_of (dset k v d) k' = (if k' = k then Some v else map_of d k')"
  by (simp add: dset_def)

lemma get_parts_JNull [simp]: "ps \<noteq> [] \<Longrightarrow> get_parts ps JNull = JNull"
  by (cases ps) auto

lemma get_parts_Cons:
  "get_parts (p # ps) (JObj d) = (case map_of d p of None \<Rightarrow> JNull | Some w \<Rightarrow> get_parts ps w)"
  by simp

lemma get_parts_empty [simp]: "ps \<noteq> [] \<Longrightarrow> get_parts ps (JObj []) = JNull"
  by (cases ps) auto

lemma get_set_below:
  "ps \<noteq> [] \<Longrightarrow> get_parts (ps @ qs) (JObj (set_parts ps v d)) = get_parts qs v"
  by (induction ps v d rule: set_parts.induct) (auto simp: map_of_dset)

lemma get_dict_or_empty:
  "ps \<noteq> [] \<Longrightarrow> get_parts ps (JObj (dict_or_empty (dget d p))) = get_parts (p # ps) (JObj d)"
  by (cases ps; cases "dget d p")
    (auto simp: dget_def dget_or_def split: option.splits)

lemma get_set_parallel:
  "parallel ps qs \<Longrightarrow> get_parts qs (JObj (set_parts ps v d)) = get_parts qs (JObj d)"
proof (induction ps v d arbitrary: qs rule: set_parts.induct)
  case (1 v d)
  then show ?case by simp
next
  case (2 p v d)
  then obtain q qs' where "qs = q # qs'" and "q \<noteq> p"
    by (cases qs) (auto simp: parallel_def)
  then show ?case by (simp add: map_of_dset)
next
  case (3 p q ps v d)
  from "3.prems" obtain r rs where qs: "qs = r # rs"
    by (cases qs) (auto simp: parallel_def)
  show ?case
  proof (cases "r = p")
    case False
    with qs show ?thesis by (simp add: map_of_dset)
  next
    case True
    with "3.prems" qs have par: "parallel (q # ps) rs"
      by (auto simp: parallel_def)
    then have "rs \<noteq> []" by (auto simp: parallel_def)
    from "3.IH" [OF par] True qs \<open>rs \<noteq> []\<close> show ?thesis
      by (simp add: map_of_dset get_dict_or_empty del: get_parts.simps(2) set_parts.simps)
        (simp add: map_of_dset)
  qed
qed

lemma dset_dset [simp]: "dset k v (dset k w d) = dset k v d"
  by (induction d) (auto simp: dset_def)

lemma set_set_parts: "set_parts ps v (set_parts ps w d) = set_parts ps v d"
  by (induction ps v d rule: set_parts.induct) auto

lemma set_parts_distinct:
  "ps \<noteq> [] \<Longrightarrow> distinct (map fst d) \<Longrightarrow> distinct (map fst (set_parts ps v d))"
  by (cases ps rule: remdups_adj.cases) (auto simp: distinct_dset)

section \<open>The store interface\<close>

text \<open>
  A store of values under paths. The client of the interface applies a list of writes, each
  value computed from the store reached so far, as a merge of a node's observation does.
\<close>

locale path_store =
  fixes get :: "'s \<Rightarrow> 'p \<Rightarrow> 'v"
    and set_at :: "'p \<Rightarrow> 'v \<Rightarrow> 's \<Rightarrow> 's"
    and valid :: "'p \<Rightarrow> bool"
    and indep :: "'p \<Rightarrow> 'p \<Rightarrow> bool"
  assumes get_set: "valid p \<Longrightarrow> get (set_at p v s) p = v"
    and get_indep: "indep p q \<Longrightarrow> get (set_at p v s) q = get s q"
    and set_set: "set_at p v (set_at p w s) = set_at p v s"
begin

lemma writes_frame:
  "(\<And>w. w \<in> set ws \<Longrightarrow> indep (fst w) q) \<Longrightarrow>
   get (fold (\<lambda>w s. set_at (fst w) (snd w s) s) ws s) q = get s q"
  by (induction ws arbitrary: s) (auto simp: get_indep)

lemma writes_last:
  assumes "valid p" and later: "\<And>w. w \<in> set later \<Longrightarrow> indep (fst w) p"
  shows "get (fold (\<lambda>w s. set_at (fst w) (snd w s) s) (ws @ (p, f) # later) s) p
    = f (fold (\<lambda>w s. set_at (fst w) (snd w s) s) ws s)"
proof -
  let ?s = "fold (\<lambda>w s. set_at (fst w) (snd w s) s) ws s"
  have "get (fold (\<lambda>w s. set_at (fst w) (snd w s) s) later (set_at p (f ?s) ?s)) p
      = get (set_at p (f ?s) ?s) p"
    by (rule writes_frame) (rule later)
  then show ?thesis by (simp add: get_set [OF \<open>valid p\<close>])
qed

lemma write_twice: "get (set_at p v (set_at p w s)) q = get (set_at p v s) q"
  by (simp add: set_set)

end

definition indep_paths :: "string \<Rightarrow> string \<Rightarrow> bool" where
  "indep_paths p q \<longleftrightarrow>
     (let ps = split_on CHR ''.'' p; qs = split_on CHR ''.'' q
      in take (length ps) qs \<noteq> ps \<and> take (length qs) ps \<noteq> qs)"

lemma take_prefix_iff: "take (length ps) qs = ps \<longleftrightarrow> prefix ps qs"
  by (metis append_eq_conv_conj prefix_def)

lemma indep_paths_parallel:
  "indep_paths p q \<longleftrightarrow> parallel (split_on CHR ''.'' p) (split_on CHR ''.'' q)"
  by (auto simp: indep_paths_def parallel_def take_prefix_iff)

interpretation tp: path_store
  "\<lambda>d. get_path (JObj d)" set_path "\<lambda>p. p \<noteq> []" indep_paths
proof unfold_locales
  show "get_path (JObj (set_path p v s)) p = v" if "p \<noteq> []" for p v s
    using that get_set_below [of "split_on CHR ''.'' p" "[]" v s]
    by (simp add: get_path_def set_path_def)
  show "get_path (JObj (set_path p v s)) q = get_path (JObj s) q" if "indep_paths p q" for p q v s
    using that by (simp add: get_path_def set_path_def indep_paths_parallel get_set_parallel)
  show "set_path p v (set_path p w s) = set_path p v s" for p v w s
    by (simp add: set_path_def set_set_parts)
qed

lemmas get_path_set_path = tp.get_set
lemmas get_path_frame = tp.get_indep

lemma get_path_key: "CHR ''.'' \<notin> set k \<Longrightarrow> k \<noteq> [] \<Longrightarrow> get_path (JObj d) k = dget d k"
  by (simp add: get_path_def split_on_atom dget_def dget_or_def split: option.splits)

end
