(* ===== verification/FormalNormalize.thy ===== *)
theory FormalNormalize
  imports TokenPath
begin

text \<open>
  The normalisation half of \<^verbatim>\<open>backend/app/domain/compiler/formal_v5.py\<close>: the shapes an
  agent's candidate artifact may have are rewritten to the shapes the Runtime reads.
\<close>

section \<open>Constants\<close>

definition FORMAL_REVISION :: string where
  "FORMAL_REVISION = ''psop-eg-formal/v5''"

definition ARTIFACT_VERSION :: string where
  "ARTIFACT_VERSION = ''psop-eg-formal-v5/llm-compiler-mvp-v1''"

definition SUPPORTED_NODE_KINDS :: "string list" where
  "SUPPORTED_NODE_KINDS = [''start'', ''input'', ''llm'', ''tool'', ''terminal'']"

definition KNOWN_NODE_KINDS :: "string list" where
  "KNOWN_NODE_KINDS = SUPPORTED_NODE_KINDS @ [''approval'', ''timer'', ''skill'']"

definition SUPPORTED_ACTORS :: "string list" where
  "SUPPORTED_ACTORS =
     [''runtime.start'', ''runtime.input'', ''agent.llm'', ''capability.demo_tool'',
      ''runtime.terminal'']"

definition SUPPORTED_TOOLS :: "string list" where
  "SUPPORTED_TOOLS = [''psop.demo.inspect_input'']"

definition SCAFFOLD_NODE_IDS :: "string list" where
  "SCAFFOLD_NODE_IDS =
     [''start'', ''input'', ''llm'', ''tool'', ''terminal'', ''final'', ''finalize'',
      ''finish'', ''end'']"

definition DEFAULT_TOKEN_FIELDS :: "string list" where
  "DEFAULT_TOKEN_FIELDS =
     [''phase'', ''input_envelope'', ''observations'', ''budgets'', ''outputs'', ''control'',
      ''metadata'', ''facts'', ''registers'', ''memory'', ''trace'', ''status'']"

section \<open>Paths\<close>

definition normalize_token_path :: "bool \<Rightarrow> string \<Rightarrow> string" where
  "normalize_token_path target path =
     (let s = removeprefix ''token.'' path in
      if s \<in> {''phase'', ''status''} then s
      else if target then
        (if s \<in> {''user_input'', ''input'', ''input_text''} then ''observations.input.user_input''
         else if s \<in> {''llm_response'', ''response'', ''answer''} then ''observations.llm.content''
         else if s \<in> {''final_response'', ''final''} then ''outputs.final_response''
         else if s \<in> {''tool_result'', ''tool''} then ''observations.tool''
         else s)
      else
        (if s \<in> {''user_input'', ''input'', ''input_text''} then ''input_envelope.user_input''
         else if s \<in> {''llm_response'', ''response'', ''answer''} then ''observations.llm.content''
         else if s \<in> {''final_response'', ''final''} then ''outputs.final_response''
         else s))"

definition normalize_merge_source_path :: "string \<Rightarrow> string" where
  "normalize_merge_source_path path =
     (let s = removeprefix ''token.'' path in
      if s \<in> {''user_input'', ''input'', ''input_text''} then ''input.user_input''
      else if s \<in> {''llm_response'', ''response'', ''answer''} then ''observation.content''
      else if s \<in> {''final_response'', ''final''} then ''observation.final_response''
      else path)"

section \<open>Guards\<close>

text \<open>The conditions an \<^verbatim>\<open>and\<close> or \<^verbatim>\<open>or\<close> operator lists, wherever the agent put them.\<close>

definition op_values :: "dict \<Rightarrow> json" where
  "op_values g =
     dget_or g ''conditions'' (dget_or g ''items'' (dget_or g ''value'' (JArr [])))"

lemma size_dget_or: "size (dget_or g k v) < size (JObj g) \<or> dget_or g k v = v"
  by (auto simp: dget_or_def split: option.splits dest: size_map_of)

lemma size_op_values:
  assumes "op_values g = JArr vs" and "x \<in> set vs"
  shows "size x < size (JObj g)"
proof -
  have "size (JArr vs) < size (JObj g) \<or> vs = []"
    using size_dget_or [of g "''conditions''"] size_dget_or [of g "''items''"]
      size_dget_or [of g "''value''"] assms(1)
    by (metis json.inject(5) op_values_def)
  moreover have "size x < size (JArr vs)"
    using assms(2) by (rule size_arr_elem)
  ultimately show ?thesis
    using assms(2) by auto
qed

lemma size_dget_or_null: "size (dget_or g k (dget g k')) < size (JObj g)"
proof -
  have "size JNull < size (JObj g)" by simp
  then show ?thesis
    using size_dget_or [of g k "dget g k'"] size_dget_or [of g k' JNull] by (metis dget_def)
qed

lemma size_dget_elem:
  assumes "dget g k = JArr vs" and "x \<in> set vs"
  shows "size x < size (JObj g)"
proof -
  have "dhas g k" using assms(1) by (auto intro: dhas_dget)
  then have "size (JArr vs) < size (JObj g)"
    using size_dget [of g k] assms(1) by simp
  moreover have "size x < size (JArr vs)"
    using assms(2) by (rule size_arr_elem)
  ultimately show ?thesis by linarith
qed

lemma size_dget_le: "size (dget g k) < size (JObj g)"
  using size_dget_or [of g k JNull] by (auto simp: dget_def)

definition norm_exists :: "dict \<Rightarrow> dict" where
  "norm_exists g =
     (if_str (dget g ''field_exists'') (\<lambda>p. dset ''field_exists'' (JStr (normalize_token_path False p)) g) g)"

definition norm_equals :: "dict \<Rightarrow> dict" where
  "norm_equals g =
     (if_obj (dget g ''field_equals'') (\<lambda>fe. (if_str (dget fe ''path'') (\<lambda>p. dset ''field_equals''
                 (JObj (dset ''path'' (JStr (normalize_token_path False p)) fe)) g) g)) g)"

function normalize_guard_shape :: "json \<Rightarrow> json" where
  "normalize_guard_shape guard =
     (if_obj guard (\<lambda>g. (let op = (if dhas g ''op'' then lower (str_or (dget g ''op'')) else []);
               phase = dget_or g ''value'' (dget g ''phase'');
               epath = dget_or g ''path'' (dget g ''value'');
               qpath = dget_or g ''path'' (dget g ''field'')
           in
           if op \<in> {''always'', ''true''} then JObj [(''always'', JBool True)]
           else if op = ''phase_is'' then
             (if phase \<noteq> JNull then JObj [(''phase_is'', JStr (py_str phase))] else guard)
           else if op = ''field_exists'' then
             (if epath \<noteq> JNull
              then JObj [(''field_exists'', JStr (normalize_token_path False (py_str epath)))]
              else guard)
           else if op \<in> {''field_equals'', ''equals'', ''eq''} \<and> qpath \<noteq> JNull then
             JObj [(''field_equals'',
               JObj [(''path'', JStr (normalize_token_path False (py_str qpath))),
                     (''value'', dget g ''value'')])]
           else if op \<in> {''and'', ''all''} then
             (if_arr (op_values g) (\<lambda>vs. JObj [(''all'', JArr (map normalize_guard_shape vs))]) guard)
           else if op \<in> {''or'', ''any''} then
             (if_arr (op_values g) (\<lambda>vs. JObj [(''any'', JArr (map normalize_guard_shape vs))]) guard)
           else if op = ''not'' then
             JObj [(''not'', normalize_guard_shape (dget_or g ''condition'' (dget g ''value'')))]
           else
             (let n1 = norm_equals (norm_exists g);
                  n2 = (if_arr (dget g ''all'') (\<lambda>vs. dset ''all'' (JArr (map normalize_guard_shape vs)) n1) n1);
                  n3 = (if_arr (dget g ''any'') (\<lambda>vs. dset ''any'' (JArr (map normalize_guard_shape vs)) n2) n2);
                  n4 = (if dhas g ''not''
                        then dset ''not'' (normalize_guard_shape (dget g ''not'')) n3
                        else n3)
              in JObj n4))) guard)"
  by pat_completeness auto
termination
  by (relation "measure size")
    (auto simp: size_op_values size_dget_or_null size_dget_elem size_dget_le simp del: json.size)

declare normalize_guard_shape.simps [simp del]

section \<open>Merges\<close>

definition normalize_merge_operation :: "json \<Rightarrow> json res" where
  "normalize_merge_operation operation =
     (if_obj operation (\<lambda>o0. rbind (in_str_set (dget o0 ''op'') [''assign'', ''write'']) (\<lambda>renamed.
            let o1 = (if renamed then dset ''op'' (JStr ''set'') o0 else o0);
                o2 = (if_str (dget o1 ''path'') (\<lambda>p. dset ''path'' (JStr (normalize_token_path True p)) o1) o1);
                o3 = (if_str (dget o2 ''from'') (\<lambda>p. dset ''from'' (JStr (normalize_merge_source_path p)) o2) o2)
            in Inr (JObj o3))) (Inr operation))"

definition normalize_merge_shape :: "json list \<Rightarrow> json list res" where
  "normalize_merge_shape merge = rmap normalize_merge_operation merge"

section \<open>Candidates\<close>

definition default_actor :: "string \<Rightarrow> string option" where
  "default_actor kind =
     map_of [(''start'', ''runtime.start''), (''input'', ''runtime.input''),
             (''llm'', ''agent.llm''), (''tool'', ''capability.demo_tool''),
             (''terminal'', ''runtime.terminal'')] kind"

definition normalize_node :: "json \<Rightarrow> json res" where
  "normalize_node node =
     (if_obj node (\<lambda>n0. (let n1 = dset ''guard'' (normalize_guard_shape (dget n0 ''guard'')) n0 in
           rbind
             (if_arr (dget n1 ''merge'') (\<lambda>ops. rbind (normalize_merge_shape ops) (\<lambda>ops'. Inr (dset ''merge'' (JArr ops') n1))) (Inr n1)) (\<lambda>n2.
           Inr (JObj
             (if_str (dget n2 ''kind'') (\<lambda>kind. (case default_actor kind of
                     Some a \<Rightarrow>
                       (if dhas n2 ''actor'' then n2
                        else dset ''actor'' (JObj [(''name'', JStr a)]) n2)
                   | None \<Rightarrow> n2)) n2))))) (Inr node))"

definition normalize_halt_field :: "string \<Rightarrow> dict \<Rightarrow> dict" where
  "normalize_halt_field k halt =
     (if dhas halt k then dset k (normalize_guard_shape (dget halt k)) halt else halt)"

definition normalize_halt :: "dict \<Rightarrow> dict" where
  "normalize_halt halt =
     (if \<not> dhas halt ''success'' \<and> \<not> dhas halt ''failure''
      then [(''success'', normalize_guard_shape (JObj halt))]
      else normalize_halt_field ''aborted''
             (normalize_halt_field ''failure'' (normalize_halt_field ''success'' halt)))"

definition normalize_candidate :: "dict \<Rightarrow> dict res" where
  "normalize_candidate candidate =
     rbind
       (if_arr (dget candidate ''nodes'') (\<lambda>nodes. rbind (rmap normalize_node nodes) (\<lambda>nodes'.
              Inr (dset ''nodes'' (JArr nodes') candidate))) (Inr candidate)) (\<lambda>artifact.
     Inr (if_obj (dget artifact ''halt'') (\<lambda>halt. dset ''halt'' (JObj (normalize_halt halt)) artifact) artifact))"

end
