(* ===== verification/FormalDiag.thy ===== *)
theory FormalDiag
  imports FormalNormalize
begin

text \<open>
  Diagnostics of \<^verbatim>\<open>formal_v5.py\<close> and its validators of guards, merges and transitions. The
  messages of the source are Chinese sentences with interpolated values; \<open>dmsg\<close> has one
  constructor per message of the source, carrying what the sentence interpolates. Every
  other field of a diagnostic (severity, code, path, category) is kept as it is.
\<close>

section \<open>Diagnostics\<close>

datatype node_msg =
    MNotObject | MMissingField string | MFormalRevision | MSchemaNotObject
  | MNodesEmpty | MNodeNotObject | MNodeIdInvalid | MNodeIdDuplicate string
  | MKindUnknown json | MKindUnsupported json
  | MActorUnsupported string | MToolUnsupported string
  | MGuardMissing | MMergeNotArray | MNoStart | MNoTerminal
  | MInitNotObject | MEntryMissing string | MHaltNotObject | MHaltEmpty
  | MContractNotObject

datatype shape_msg =
    MGuardShape | MGuardOp string | MPhaseIsNotStr | MFieldEqualsPath | MGuardNotArray string
  | MMergeOpNotObject | MMergeOpNotSet | MMergeNoPath | MMergeValueXorFrom
  | MTransitionsNotObject | MTransitionTargetType | MTransitionTargetEmpty
  | MTransitionTargetMissing string
  | MPathNotStr | MPathUnknownRoot string string

datatype contract_msg =
    MContractFieldRequired string | MWorkflowStepsEmpty | MStepNotObject | MStepIdInvalid
  | MStepIdDuplicate string | MStepIdScaffold string
  | MStepNoInstruct string string | MStepNoEvaluate string string
  | MStepTitle | MStepGoal | MStepEvidence | MStepNoCheckpoint string | MCheckpointsNotArray

datatype evidence_msg =
    MEvidenceVersion string | MEvidenceNotObject | MEvidenceStepMissing string
  | MRequirementsEmpty | MRequirementNotObject | MRequirementKeyInvalid
  | MRequirementKeyDuplicate string | MRequirementDescription | MRequirementRequired
  | MOptionsEmpty | MOptionNotObject | MOptionKeyInvalid | MOptionKeyDuplicate string
  | MOptionKind string | MOptionEventKind | MProofMode string | MVisualKind | MAttestationKind

datatype flow_msg =
    MLinearNodes | MNoFinalVerify | MFinalVerifyKind
  | MInstructKind string | MInstructInteraction string | MInstructTurnKind string string
  | MInstructOutput string | MInstructWait string | MInstructResume string string
  | MInstructExpected string | MEvaluateKind string | MEvaluateFlag string
  | MEvaluateTurnKind string | MEvaluateTemplate string | MOwnObservation string

datatype dmsg =
    Node node_msg | Shape shape_msg | Contract contract_msg | Evidence evidence_msg
  | Flow flow_msg

record diag =
  d_severity :: string
  d_code :: string
  d_message :: dmsg
  d_path :: string
  d_category :: string

definition formal_diag :: "string \<Rightarrow> dmsg \<Rightarrow> string \<Rightarrow> diag" where
  "formal_diag code msg path =
     \<lparr>d_severity = ''error'', d_code = code, d_message = msg, d_path = path,
      d_category = ''compiler''\<rparr>"

definition err :: "dmsg \<Rightarrow> string \<Rightarrow> diag" where
  "err msg path = formal_diag ''compile.formal_v5.validation_failed'' msg path"

definition workflow_err :: "dmsg \<Rightarrow> string \<Rightarrow> diag" where
  "workflow_err msg path = formal_diag ''compile.workflow.not_extracted'' msg path"

definition unsupported :: "dmsg \<Rightarrow> string \<Rightarrow> diag" where
  "unsupported msg path = formal_diag ''compile.unsupported_actor'' msg path"

definition is_error :: "diag \<Rightarrow> bool" where
  "is_error d \<longleftrightarrow> d_severity d = ''error''"

definition has_errors :: "diag list \<Rightarrow> bool" where
  "has_errors ds \<longleftrightarrow> list_ex is_error ds"

named_theorems diag_simps "every diagnostic of the compiler is an error"

lemma is_error_formal_diag [simp, diag_simps]: "is_error (formal_diag c m p)"
  by (simp add: is_error_def formal_diag_def)

lemma is_error_err [simp, diag_simps]: "is_error (err m p)"
  by (simp add: err_def)

lemma is_error_workflow_err [simp, diag_simps]: "is_error (workflow_err m p)"
  by (simp add: workflow_err_def)

lemma is_error_unsupported [simp, diag_simps]: "is_error (unsupported m p)"
  by (simp add: unsupported_def)

definition index_path :: "string \<Rightarrow> nat \<Rightarrow> string" where
  "index_path path i = path @ ''['' @ nat_str i @ '']''"

section \<open>Token paths, guards\<close>

definition token_fields :: "dict \<Rightarrow> string list" where
  "token_fields schema =
     DEFAULT_TOKEN_FIELDS
     @ concat (map (\<lambda>item. if_str item (\<lambda>s. if s = [] then [] else [s]) [])
         (list_or_empty (dget schema ''token_fields'')))"

definition path_root :: "string \<Rightarrow> string" where
  "path_root value = hd (split_on CHR ''.'' value)"

definition validate_token_path :: "string list \<Rightarrow> string \<Rightarrow> string \<Rightarrow> diag list" where
  "validate_token_path tf path value =
     (if path_root value \<in> set tf then []
      else [err (Shape (MPathUnknownRoot value (path_root value))) path])"

definition validate_path_value :: "string list \<Rightarrow> string \<Rightarrow> json \<Rightarrow> diag list" where
  "validate_path_value tf path value =
     (if_str value (\<lambda>s. validate_token_path tf path s) [err (Shape MPathNotStr) path])"

definition GUARD_KEYS :: "string list" where
  "GUARD_KEYS =
     [''always'', ''phase_is'', ''field_exists'', ''field_equals'', ''all'', ''any'', ''not'']"

definition unknown_guard_keys :: "dict \<Rightarrow> string list" where
  "unknown_guard_keys g = sort (remdups (filter (\<lambda>k. k \<notin> set GUARD_KEYS) (map fst g)))"

definition validate_field_equals :: "string list \<Rightarrow> string \<Rightarrow> json \<Rightarrow> diag list" where
  "validate_field_equals tf path fe =
     (if_str (dget (dict_or_empty fe) ''path'') (\<lambda>s. validate_token_path tf (path @ ''.field_equals.path'') s) [err (Shape MFieldEqualsPath) (path @ ''.field_equals'')])"

function validate_guard :: "string list \<Rightarrow> string \<Rightarrow> json \<Rightarrow> diag list" where
  "validate_guard tf path guard =
     (if is_bool guard then []
      else if_obj guard (\<lambda>g.
          map (\<lambda>k. err (Shape (MGuardOp k)) (path @ ''.'' @ k)) (unknown_guard_keys g)
          @ (if dhas g ''phase_is'' \<and> \<not> is_str (dget g ''phase_is'')
             then [err (Shape MPhaseIsNotStr) (path @ ''.phase_is'')] else [])
          @ (if dhas g ''field_exists''
             then validate_path_value tf (path @ ''.field_exists'') (dget g ''field_exists'')
             else [])
          @ (if dhas g ''field_equals''
             then validate_field_equals tf path (dget g ''field_equals'')
             else [])
          @ (if dhas g ''all''
             then if_arr (dget g ''all'')
                    (\<lambda>vs. concat (map (\<lambda>p. validate_guard tf
                       (index_path (path @ ''.all'') (fst p)) (snd p)) (enumerate 0 vs)))
                    [err (Shape (MGuardNotArray ''all'')) (path @ ''.all'')]
             else [])
          @ (if dhas g ''any''
             then if_arr (dget g ''any'')
                    (\<lambda>vs. concat (map (\<lambda>p. validate_guard tf
                       (index_path (path @ ''.any'') (fst p)) (snd p)) (enumerate 0 vs)))
                    [err (Shape (MGuardNotArray ''any'')) (path @ ''.any'')]
             else [])
          @ (if dhas g ''not'' then validate_guard tf (path @ ''.not'') (dget g ''not'') else []))
        [err (Shape MGuardShape) path])"
  by pat_completeness auto
termination
  by (relation "measure (\<lambda>(tf, path, guard). size guard)")
    (auto simp: size_dget_le simp del: json.size dest!: set_enumerate_snd intro: size_dget_elem)

declare validate_guard.simps [simp del]

lemma validate_guard_shape:
  "\<not> is_obj guard \<Longrightarrow>
   validate_guard tf path guard = (if is_bool guard then [] else [err (Shape MGuardShape) path])"
  by (cases guard) (simp_all add: validate_guard.simps)

lemmas validate_guard_obj = validate_guard.simps [where guard = "JObj g" for g, simplified]

section \<open>Merges and transitions\<close>

definition validate_merge_operation :: "string list \<Rightarrow> string \<Rightarrow> json \<Rightarrow> diag list" where
  "validate_merge_operation tf op_path operation =
     (if_obj operation (\<lambda>o1. (if dget o1 ''op'' \<noteq> JStr ''set'' then [err (Shape MMergeOpNotSet) (op_path @ ''.op'')] else [])
          @ (if_str (dget o1 ''path'') (\<lambda>p. validate_token_path tf (op_path @ ''.path'') p) [err (Shape MMergeNoPath) (op_path @ ''.path'')])
          @ (if dhas o1 ''value'' = dhas o1 ''from'' then [err (Shape MMergeValueXorFrom) op_path] else [])) [err (Shape MMergeOpNotObject) op_path])"

definition validate_merge :: "string list \<Rightarrow> string \<Rightarrow> json list \<Rightarrow> diag list" where
  "validate_merge tf path merge =
     concat (map (\<lambda>p. validate_merge_operation tf (index_path path (fst p)) (snd p))
       (enumerate 0 merge))"

definition transition_target :: "json \<Rightarrow> string option" where
  "transition_target raw =
     (if is_str raw then Some (str_or_empty raw)
      else if_obj raw
        (\<lambda>t. Some (str_or_empty
           (py_or (py_or (dget t ''phase'') (dget t ''next_phase'')) (dget t ''to''))))
        None)"

definition validate_transition :: "string list \<Rightarrow> string \<Rightarrow> string \<times> json \<Rightarrow> diag list" where
  "validate_transition node_ids path tr =
     (let p = path @ ''.'' @ fst tr in
      case transition_target (snd tr) of
        None \<Rightarrow> [err (Shape MTransitionTargetType) p]
      | Some target \<Rightarrow>
          if target = [] then [err (Shape MTransitionTargetEmpty) p]
          else if target \<notin> set node_ids then [err (Shape (MTransitionTargetMissing target)) p]
          else [])"

definition validate_transitions_of :: "string list \<Rightarrow> nat \<times> json \<Rightarrow> diag list" where
  "validate_transitions_of node_ids inode =
     (let path = index_path ''nodes'' (fst inode) @ ''.interaction.transitions'' in
      if_obj (snd inode)
        (\<lambda>node. if_obj (dget node ''interaction'')
           (\<lambda>interaction.
              if dhas interaction ''transitions''
              then if_obj (dget interaction ''transitions'')
                     (\<lambda>ts. concat (map (validate_transition node_ids path) ts))
                     [err (Shape MTransitionsNotObject) path]
              else [])
           [])
        [])"

definition validate_node_transitions :: "string list \<Rightarrow> json list \<Rightarrow> diag list" where
  "validate_node_transitions node_ids nodes =
     concat (map (validate_transitions_of node_ids) (enumerate 0 nodes))"

section \<open>Every diagnostic is an error\<close>

lemmas all_err_simps = list_all_if_type list_all_concat_map list_all_map list_all_if list_all_append

lemma err_in_token_path: "list_all is_error (validate_token_path tf path s)"
  by (simp add: validate_token_path_def)

lemma err_in_path_value: "list_all is_error (validate_path_value tf path j)"
  by (simp add: validate_path_value_def all_err_simps err_in_token_path)

lemma err_in_field_equals: "list_all is_error (validate_field_equals tf path j)"
  by (simp add: validate_field_equals_def all_err_simps err_in_token_path)

lemma err_in_guard: "list_all is_error (validate_guard tf path guard)"
proof (induction tf path guard rule: validate_guard.induct)
  case (1 tf path guard)
  show ?case
  proof (cases "is_obj guard")
    case False
    then show ?thesis by (simp add: validate_guard_shape)
  next
    case True
    then obtain g where g: "guard = JObj g" by (auto simp: is_obj_iff)
    then have nb: "\<not> is_bool guard" by simp
    note ih = "1.IH"[OF nb g]
    show ?thesis
      unfolding g validate_guard_obj
      by (simp add: all_err_simps err_in_path_value err_in_field_equals ih)
  qed
qed

lemma err_in_merge_operation: "list_all is_error (validate_merge_operation tf path j)"
  by (simp add: validate_merge_operation_def all_err_simps err_in_token_path)

lemma err_in_merge: "list_all is_error (validate_merge tf path merge)"
  by (simp add: validate_merge_def all_err_simps err_in_merge_operation)

lemma err_in_transition: "list_all is_error (validate_transition ids path tr)"
  by (simp add: validate_transition_def Let_def split: option.split)

lemma err_in_transitions: "list_all is_error (validate_node_transitions ids nodes)"
  by (simp add: validate_node_transitions_def validate_transitions_of_def Let_def all_err_simps
      err_in_transition)

end
