(* ===== verification/FormalContract.thy ===== *)
theory FormalContract
  imports FormalDiag
begin

text \<open>
  The validators of the runtime contract in \<^verbatim>\<open>formal_v5.py\<close>: the workflow steps, the evidence
  contract, and the nodes every workflow step must have.
\<close>

text \<open>\<^verbatim>\<open>value in (None, "", [], {})\<close>\<close>

definition is_blank :: "json \<Rightarrow> bool" where
  "is_blank j \<longleftrightarrow> j \<in> {JNull, JStr [], JArr [], JObj []}"

text \<open>\<^verbatim>\<open>not isinstance(x, str) or not x.strip()\<close>\<close>

definition blank_text :: "json \<Rightarrow> bool" where
  "blank_text j = if_str j (\<lambda>s. strip s = []) True"

section \<open>Workflow steps\<close>

definition REQUIRED_CONTRACT_FIELDS :: "string list" where
  "REQUIRED_CONTRACT_FIELDS =
     [''execution_goal'', ''applicability'', ''workflow_steps'', ''expected_evidence'',
      ''safety_constraints'', ''wait_checkpoints'', ''completion_criteria'', ''recovery_paths'']"

definition missing_contract_fields :: "dict \<Rightarrow> diag list" where
  "missing_contract_fields contract =
     map (\<lambda>f. workflow_err (Contract (MContractFieldRequired f)) (''runtime_contract.'' @ f))
       (filter (\<lambda>f. is_blank (dget contract f)) REQUIRED_CONTRACT_FIELDS)"

text \<open>One step with a usable id; \<open>seen\<close> are the ids of the steps before it.\<close>

definition validate_step :: "string list \<Rightarrow> string list \<Rightarrow> string \<Rightarrow> dict \<Rightarrow> string \<Rightarrow> diag list" where
  "validate_step node_ids seen path step step_id =
     (let instruct_id = ''instruct_'' @ step_id; evaluate_id = ''evaluate_'' @ step_id in
      (if step_id \<in> set seen
       then [workflow_err (Contract (MStepIdDuplicate step_id)) (path @ ''.id'')] else [])
      @ (if step_id \<in> set SCAFFOLD_NODE_IDS
         then [workflow_err (Contract (MStepIdScaffold step_id)) (path @ ''.id'')] else [])
      @ (if node_ids \<noteq> [] \<and> instruct_id \<notin> set node_ids
         then [workflow_err (Contract (MStepNoInstruct step_id instruct_id)) (path @ ''.id'')]
         else [])
      @ (if node_ids \<noteq> [] \<and> evaluate_id \<notin> set node_ids
         then [workflow_err (Contract (MStepNoEvaluate step_id evaluate_id)) (path @ ''.id'')]
         else [])
      @ (if blank_text (dget step ''title'')
         then [workflow_err (Contract MStepTitle) (path @ ''.title'')] else [])
      @ (if blank_text (dget step ''goal'')
         then [workflow_err (Contract MStepGoal) (path @ ''.goal'')] else [])
      @ (if blank_text (dget step ''source_evidence'')
         then [workflow_err (Contract MStepEvidence) (path @ ''.source_evidence'')] else []))"

fun validate_steps :: "string list \<Rightarrow> string list \<Rightarrow> nat \<Rightarrow> json list \<Rightarrow> diag list \<times> string list" where
  "validate_steps node_ids seen i [] = ([], seen)"
| "validate_steps node_ids seen i (step # steps) =
     (let path = index_path ''runtime_contract.workflow_steps'' i in
      if \<not> is_obj step then
        (let (ds, ids) = validate_steps node_ids seen (Suc i) steps
         in (workflow_err (Contract MStepNotObject) path # ds, ids))
      else
        (let step_id = str_or_empty (dget (dict_or_empty step) ''id'') in
         if step_id = [] then
           (let (ds, ids) = validate_steps node_ids seen (Suc i) steps
            in (workflow_err (Contract MStepIdInvalid) (path @ ''.id'') # ds, ids))
         else
           (let (ds, ids) = validate_steps node_ids (seen @ [step_id]) (Suc i) steps
            in (validate_step node_ids seen path (dict_or_empty step) step_id @ ds, ids))))"

definition checkpoint_step_ids :: "json list \<Rightarrow> string list" where
  "checkpoint_step_ids cps =
     concat (map (\<lambda>item. if_obj item
       (\<lambda>c. if_str (dget c ''workflow_step_id'') (\<lambda>s. [s]) []) []) cps)"

definition validate_checkpoints :: "string list \<Rightarrow> json \<Rightarrow> diag list" where
  "validate_checkpoints step_ids checkpoints =
     if_arr checkpoints
       (\<lambda>cps. map (\<lambda>s. workflow_err (Contract (MStepNoCheckpoint s))
                ''runtime_contract.wait_checkpoints'')
          (sort (remdups (filter (\<lambda>s. s \<notin> set (checkpoint_step_ids cps)) step_ids))))
       [workflow_err (Contract MCheckpointsNotArray) ''runtime_contract.wait_checkpoints'']"

definition validate_workflow_contract :: "dict \<Rightarrow> string list \<Rightarrow> diag list \<times> string list" where
  "validate_workflow_contract contract node_ids =
     (let ds0 = missing_contract_fields contract;
          steps = list_or_empty (dget contract ''workflow_steps'') in
      if steps = [] then
        (ds0 @ [workflow_err (Contract MWorkflowStepsEmpty) ''runtime_contract.workflow_steps''], [])
      else
        (let (ds1, ordered) = validate_steps node_ids [] 0 steps
         in (ds0 @ ds1 @ validate_checkpoints ordered (dget contract ''wait_checkpoints''), ordered)))"

section \<open>Evidence contract\<close>

definition validate_option_kind :: "string \<Rightarrow> dict \<Rightarrow> diag list" where
  "validate_option_kind path option =
     (let kind = str_or (dget option ''kind''); proof_mode = str_or (dget option ''proof_mode'') in
      (if kind \<notin> {''image'', ''text'', ''audio'', ''video''}
       then [workflow_err (Evidence (MOptionKind kind)) (path @ ''.kind'')] else [])
      @ (if blank_text (dget option ''event_kind'')
         then [workflow_err (Evidence MOptionEventKind) (path @ ''.event_kind'')] else [])
      @ (if proof_mode \<notin> {''visual'', ''attestation'', ''measurement''}
         then [workflow_err (Evidence (MProofMode proof_mode)) (path @ ''.proof_mode'')] else [])
      @ (if proof_mode = ''visual'' \<and> kind \<notin> {''image'', ''video''}
         then [workflow_err (Evidence MVisualKind) path] else [])
      @ (if proof_mode = ''attestation'' \<and> kind \<notin> {''text'', ''audio''}
         then [workflow_err (Evidence MAttestationKind) path] else []))"

text \<open>The key of an option or requirement against the keys before it: diagnostics, new keys.\<close>

definition check_key ::
    "evidence_msg \<Rightarrow> (string \<Rightarrow> evidence_msg) \<Rightarrow> string \<Rightarrow> string list \<Rightarrow> json \<Rightarrow> diag list \<times> string list" where
  "check_key invalid dup path keys key =
     (if blank_text key then ([workflow_err (Evidence invalid) path], keys)
      else (let k = str_or_empty key in
        if k \<in> set keys then ([workflow_err (Evidence (dup k)) path], keys)
        else ([], keys @ [k])))"

fun validate_options :: "string \<Rightarrow> string list \<Rightarrow> nat \<Rightarrow> json list \<Rightarrow> diag list" where
  "validate_options rpath keys i [] = []"
| "validate_options rpath keys i (option # options) =
     (let path = index_path (rpath @ ''.evidence_options'') i in
      if \<not> is_obj option then
        workflow_err (Evidence MOptionNotObject) path # validate_options rpath keys (Suc i) options
      else
        (let opt = dict_or_empty option;
             (ds, keys') = check_key MOptionKeyInvalid MOptionKeyDuplicate (path @ ''.option_key'')
                             keys (dget opt ''option_key'')
         in ds @ validate_option_kind path opt @ validate_options rpath keys' (Suc i) options))"

definition validate_requirement_fields :: "string \<Rightarrow> dict \<Rightarrow> diag list" where
  "validate_requirement_fields path r =
     (if blank_text (dget r ''description'')
      then [workflow_err (Evidence MRequirementDescription) (path @ ''.description'')] else [])
     @ (if \<not> is_bool (dget r ''required'')
        then [workflow_err (Evidence MRequirementRequired) (path @ ''.required'')] else [])
     @ (let options = list_or_empty (dget r ''evidence_options'') in
        if options = [] then [workflow_err (Evidence MOptionsEmpty) (path @ ''.evidence_options'')]
        else validate_options path [] 0 options)"

fun validate_requirements :: "string \<Rightarrow> string list \<Rightarrow> nat \<Rightarrow> json list \<Rightarrow> diag list" where
  "validate_requirements spath keys i [] = []"
| "validate_requirements spath keys i (requirement # requirements) =
     (let path = index_path (spath @ ''.requirements'') i in
      if \<not> is_obj requirement then
        workflow_err (Evidence MRequirementNotObject) path
          # validate_requirements spath keys (Suc i) requirements
      else
        (let r = dict_or_empty requirement;
             (ds, keys') = check_key MRequirementKeyInvalid MRequirementKeyDuplicate
                             (path @ ''.requirement_key'') keys (dget r ''requirement_key'')
         in ds @ validate_requirement_fields path r
              @ validate_requirements spath keys' (Suc i) requirements))"

definition validate_step_evidence :: "dict \<Rightarrow> string \<Rightarrow> diag list" where
  "validate_step_evidence expected step_id =
     (let path = ''runtime_contract.expected_evidence.'' @ step_id in
      if_obj (dget expected step_id)
        (\<lambda>sc. let requirements = list_or_empty (dget sc ''requirements'') in
           if requirements = []
           then [workflow_err (Evidence MRequirementsEmpty) (path @ ''.requirements'')]
           else validate_requirements path [] 0 requirements)
        [workflow_err (Evidence (MEvidenceStepMissing step_id)) path])"

definition validate_evidence_contract :: "dict \<Rightarrow> string list \<Rightarrow> diag list" where
  "validate_evidence_contract contract step_ids =
     (let version = str_or (dget contract ''evidence_contract_version'') in
      if version = [] then []
      else if version \<noteq> ''psop-evidence/v2'' then
        [workflow_err (Evidence (MEvidenceVersion version))
           ''runtime_contract.evidence_contract_version'']
      else if_obj (dget contract ''expected_evidence'')
        (\<lambda>expected. concat (map (validate_step_evidence expected) step_ids))
        [workflow_err (Evidence MEvidenceNotObject) ''runtime_contract.expected_evidence''])"

section \<open>Nodes of the workflow\<close>

text \<open>\<^verbatim>\<open>node_map\<close>: the nodes with a truthy id, by the id's text; a later node wins.\<close>

definition node_map :: "json list \<Rightarrow> (string \<times> dict) list" where
  "node_map nodes =
     fold (\<lambda>node m. if_obj node
         (\<lambda>n. if truthy (dget n ''id'') then AList.update (py_str (dget n ''id'')) n m else m) m)
       nodes []"

definition turn_kind :: "json \<Rightarrow> json" where
  "turn_kind interaction = dget (dict_or_empty interaction) ''runner_turn_kind''"

definition node_path :: "string \<Rightarrow> string \<Rightarrow> string" where
  "node_path node_id field = ''nodes['' @ node_id @ '']'' @ field"

definition validate_instruct :: "string \<Rightarrow> string \<Rightarrow> string \<Rightarrow> dict \<Rightarrow> diag list" where
  "validate_instruct instruct_id evaluate_id expected_turn instruct =
     (let interaction = dget instruct ''interaction''; it = dict_or_empty interaction in
      (if dget instruct ''kind'' \<noteq> JStr ''llm''
       then [workflow_err (Flow (MInstructKind instruct_id)) (node_path instruct_id ''.kind'')]
       else [])
      @ (if \<not> is_obj interaction
         then [workflow_err (Flow (MInstructInteraction instruct_id))
                 (node_path instruct_id ''.interaction'')] else [])
      @ (if dget it ''runner_turn_kind'' \<noteq> JStr expected_turn
         then [workflow_err (Flow (MInstructTurnKind instruct_id expected_turn))
                 (node_path instruct_id ''.interaction.runner_turn_kind'')] else [])
      @ (if dget it ''output_to_terminal'' \<noteq> JBool True
         then [workflow_err (Flow (MInstructOutput instruct_id))
                 (node_path instruct_id ''.interaction.output_to_terminal'')] else [])
      @ (if dget it ''wait_after_output'' \<noteq> JBool True
         then [workflow_err (Flow (MInstructWait instruct_id))
                 (node_path instruct_id ''.interaction.wait_after_output'')] else [])
      @ (if dget it ''resume_phase'' \<noteq> JStr evaluate_id
         then [workflow_err (Flow (MInstructResume instruct_id evaluate_id))
                 (node_path instruct_id ''.interaction.resume_phase'')] else [])
      @ (if list_or_empty (dget it ''expected_inputs'') = []
         then [workflow_err (Flow (MInstructExpected instruct_id))
                 (node_path instruct_id ''.interaction.expected_inputs'')] else []))"

definition validate_evaluate :: "string \<Rightarrow> dict \<Rightarrow> diag list" where
  "validate_evaluate evaluate_id evaluate =
     (let it = dict_or_empty (dget evaluate ''interaction'') in
      (if dget evaluate ''kind'' \<noteq> JStr ''llm''
       then [workflow_err (Flow (MEvaluateKind evaluate_id)) (node_path evaluate_id ''.kind'')]
       else [])
      @ (if dget it ''evaluation'' \<noteq> JBool True
         then [workflow_err (Flow (MEvaluateFlag evaluate_id))
                 (node_path evaluate_id ''.interaction'')] else [])
      @ (if dget it ''runner_turn_kind'' \<noteq> JStr ''evidence_evaluation''
         then [workflow_err (Flow (MEvaluateTurnKind evaluate_id))
                 (node_path evaluate_id ''.interaction.runner_turn_kind'')] else [])
      @ (if \<not> truthy (dget (dict_or_empty (dget evaluate ''projection'')) ''user_template'')
         then [workflow_err (Flow (MEvaluateTemplate evaluate_id))
                 (node_path evaluate_id ''.projection'')] else []))"

definition writes_own_observation :: "string \<Rightarrow> dict \<Rightarrow> bool" where
  "writes_own_observation node_id node =
     list_ex (\<lambda>operation. if_obj operation
         (\<lambda>o1. dget o1 ''op'' = JStr ''set''
            \<and> dget o1 ''path'' = JStr (''observations.'' @ node_id)
            \<and> dget o1 ''from'' = JStr ''observation'') False)
       (list_or_empty (dget node ''merge''))"

definition validate_own_observation :: "string \<Rightarrow> dict \<Rightarrow> diag list" where
  "validate_own_observation node_id node =
     (if writes_own_observation node_id node then []
      else [workflow_err (Flow (MOwnObservation node_id)) (node_path node_id ''.merge'')])"

definition validate_step_nodes :: "(string \<times> dict) list \<Rightarrow> nat \<Rightarrow> string \<Rightarrow> diag list" where
  "validate_step_nodes nmap step_index step_id =
     (let instruct_id = ''instruct_'' @ step_id; evaluate_id = ''evaluate_'' @ step_id in
      case (map_of nmap instruct_id, map_of nmap evaluate_id) of
        (Some instruct, Some evaluate) \<Rightarrow>
          validate_instruct instruct_id evaluate_id
            (if step_index = 0 then ''first_step_instruction'' else ''step_instruction'') instruct
          @ validate_evaluate evaluate_id evaluate
          @ validate_own_observation instruct_id instruct
          @ validate_own_observation evaluate_id evaluate
      | _ \<Rightarrow> [])"

definition validate_workflow_nodes :: "json list \<Rightarrow> string list \<Rightarrow> diag list" where
  "validate_workflow_nodes nodes step_ids =
     (if step_ids = [] then []
      else let nmap = node_map nodes in
        (if list_ex (\<lambda>s. map_of nmap s \<noteq> None) step_ids
         then [workflow_err (Flow MLinearNodes) ''nodes''] else [])
        @ (case map_of nmap ''final_verify'' of
             None \<Rightarrow> [workflow_err (Flow MNoFinalVerify) ''nodes.final_verify'']
           | Some fv \<Rightarrow>
               (if turn_kind (dget fv ''interaction'') \<noteq> JStr ''final_verification''
                then [workflow_err (Flow MFinalVerifyKind)
                        ''nodes[final_verify].interaction.runner_turn_kind''] else []))
        @ concat (map (\<lambda>p. validate_step_nodes nmap (fst p) (snd p)) (enumerate 0 step_ids)))"

end
