(* ===== verification/FormalValidate.thy ===== *)
theory FormalValidate
  imports FormalContract
begin

text \<open>
  The nodes' validation, the summaries, and \<^verbatim>\<open>validate_and_normalize_artifact\<close> itself, with
  what an accepted artifact guarantees.
\<close>

section \<open>Actors and tools\<close>

definition actor_name :: "json \<Rightarrow> string" where
  "actor_name actor =
     (if is_str actor then str_or_empty actor
      else if_obj actor
        (\<lambda>a. if is_str (dget a ''name'') then str_or_empty (dget a ''name'')
             else if dget a ''type'' = JStr ''llm'' then ''agent.llm''
             else if dget a ''type'' = JStr ''tool'' then ''capability.demo_tool''
             else if dget a ''type'' = JStr ''runtime'' \<and> is_str (dget a ''operation'')
               then ''runtime.'' @ str_or_empty (dget a ''operation'')
             else [])
        [])"

definition tool_name :: "json \<Rightarrow> string" where
  "tool_name actor =
     if_obj actor (\<lambda>a. str_or_empty (py_or (dget a ''tool_name'') (dget a ''tool''))) []"

section \<open>One node\<close>

definition validate_node_id :: "string list \<Rightarrow> string \<Rightarrow> dict \<Rightarrow> diag list \<times> string list" where
  "validate_node_id ids path node =
     (let node_id = str_or_empty (dget node ''id'') in
      if node_id = [] then ([err (Node MNodeIdInvalid) (path @ ''.id'')], ids)
      else if node_id \<in> set ids
        then ([err (Node (MNodeIdDuplicate node_id)) (path @ ''.id'')], ids)
      else ([], ids @ [node_id]))"

text \<open>A list or dictionary as kind raises, since the test is on a Python set.\<close>

definition validate_node_kind :: "string \<Rightarrow> json \<Rightarrow> diag list res" where
  "validate_node_kind path kind =
     rbind (in_str_set kind KNOWN_NODE_KINDS) (\<lambda>known.
       if \<not> known then Inr [err (Node (MKindUnknown kind)) (path @ ''.kind'')]
       else rbind (in_str_set kind SUPPORTED_NODE_KINDS) (\<lambda>supported.
         if \<not> supported then Inr [unsupported (Node (MKindUnsupported kind)) (path @ ''.kind'')]
         else Inr []))"

definition validate_node_actor :: "string \<Rightarrow> json \<Rightarrow> diag list" where
  "validate_node_actor path actor =
     (let name = actor_name actor; tool = tool_name actor in
      (if name \<notin> set SUPPORTED_ACTORS
       then [unsupported (Node (MActorUnsupported (if name = [] then ''<missing>'' else name)))
               (path @ ''.actor'')] else [])
      @ (if name = ''capability.demo_tool'' \<and> tool \<noteq> [] \<and> tool \<notin> set SUPPORTED_TOOLS
         then [unsupported (Node (MToolUnsupported tool)) (path @ ''.actor.tool_name'')]
         else []))"

definition validate_node_guard :: "string list \<Rightarrow> string \<Rightarrow> json \<Rightarrow> diag list" where
  "validate_node_guard tf path guard =
     (if guard = JNull then [err (Node MGuardMissing) (path @ ''.guard'')]
      else validate_guard tf (path @ ''.guard'') guard)"

definition validate_node_merge :: "string list \<Rightarrow> string \<Rightarrow> json \<Rightarrow> diag list" where
  "validate_node_merge tf path merge =
     if_arr merge (validate_merge tf (path @ ''.merge''))
       [err (Node MMergeNotArray) (path @ ''.merge'')]"

definition validate_node_body :: "string list \<Rightarrow> string \<Rightarrow> dict \<Rightarrow> diag list" where
  "validate_node_body tf path node =
     validate_node_actor path (dget node ''actor'')
     @ validate_node_guard tf path (dget node ''guard'')
     @ validate_node_merge tf path (dget node ''merge'')"

section \<open>The loop over the nodes\<close>

record node_scan =
  scan_diags :: "diag list"
  scan_ids :: "string list"
  scan_start :: bool
  scan_terminal :: bool

definition empty_scan :: node_scan where
  "empty_scan = \<lparr>scan_diags = [], scan_ids = [], scan_start = False, scan_terminal = False\<rparr>"

definition scan_node :: "string list \<Rightarrow> node_scan \<Rightarrow> nat \<times> json \<Rightarrow> node_scan res" where
  "scan_node tf st inode =
     (let path = index_path ''nodes'' (fst inode) in
      if_obj (snd inode)
        (\<lambda>node.
           let (ds, ids) = validate_node_id (scan_ids st) path node; kind = dget node ''kind'' in
           rbind (validate_node_kind path kind) (\<lambda>kds.
             Inr \<lparr>scan_diags = scan_diags st @ ds @ kds @ validate_node_body tf path node,
                  scan_ids = ids,
                  scan_start = (scan_start st \<or> kind = JStr ''start''),
                  scan_terminal = (scan_terminal st \<or> kind = JStr ''terminal'')\<rparr>))
        (Inr (st\<lparr>scan_diags := scan_diags st @ [err (Node MNodeNotObject) path]\<rparr>)))"

fun scan_nodes :: "string list \<Rightarrow> node_scan \<Rightarrow> (nat \<times> json) list \<Rightarrow> node_scan res" where
  "scan_nodes tf st [] = Inr st"
| "scan_nodes tf st (p # ps) = rbind (scan_node tf st p) (\<lambda>st'. scan_nodes tf st' ps)"

section \<open>The top-level fields\<close>

definition REQUIRED_FIELDS :: "string list" where
  "REQUIRED_FIELDS =
     [''formal_revision'', ''schema'', ''nodes'', ''init'', ''halt'', ''policies'',
      ''dependency_graph_for_view'', ''runtime_contract'']"

definition validate_required :: "dict \<Rightarrow> diag list" where
  "validate_required artifact =
     map (\<lambda>f. err (Node (MMissingField f)) f) (filter (\<lambda>f. \<not> dhas artifact f) REQUIRED_FIELDS)
     @ (if dget artifact ''formal_revision'' \<noteq> JStr FORMAL_REVISION
        then [err (Node MFormalRevision) ''formal_revision''] else [])
     @ (if \<not> is_obj (dget artifact ''schema'')
        then [err (Node MSchemaNotObject) ''schema''] else [])"

definition validate_init :: "string list \<Rightarrow> json \<Rightarrow> diag list" where
  "validate_init node_ids init =
     (if \<not> is_obj init then [err (Node MInitNotObject) ''init''] else [])
     @ (let entry = str_or_empty (dget (dict_or_empty init) ''entry_node'') in
        if entry \<noteq> [] \<and> node_ids \<noteq> [] \<and> entry \<notin> set node_ids
        then [err (Node (MEntryMissing entry)) ''init.entry_node''] else [])"

definition validate_halt :: "json \<Rightarrow> diag list" where
  "validate_halt halt =
     if_obj halt
       (\<lambda>h. if \<not> dhas h ''success'' \<and> \<not> dhas h ''failure'' then [err (Node MHaltEmpty) ''halt'']
            else [])
       [err (Node MHaltNotObject) ''halt'']"

definition validate_contract :: "json list \<Rightarrow> string list \<Rightarrow> json \<Rightarrow> diag list" where
  "validate_contract nodes node_ids contract =
     if_obj contract
       (\<lambda>rc. let (ds, step_ids) = validate_workflow_contract rc node_ids in
          ds @ validate_evidence_contract rc step_ids @ validate_workflow_nodes nodes step_ids)
       [err (Node MContractNotObject) ''runtime_contract'']"

section \<open>Summaries\<close>

definition obj_nodes :: "json list \<Rightarrow> dict list" where
  "obj_nodes nodes = concat (map (\<lambda>node. if_obj node (\<lambda>n. [n]) []) nodes)"

definition build_graph_summary :: "json list \<Rightarrow> dict" where
  "build_graph_summary nodes =
     (let ns = obj_nodes nodes;
          named = map (\<lambda>n. py_str (dget n ''id'')) (filter (\<lambda>n. truthy (dget n ''id'')) ns) in
      [(''node_count'', JInt (int (length ns))),
       (''template'', JStr ''formal-v5 skill workflow graph''),
       (''nodes'', JArr (map JStr named)),
       (''workflow_nodes'', JArr (map JStr (filter (\<lambda>s. s \<notin> set SCAFFOLD_NODE_IDS) named)))])"

definition build_capability_summary :: "json list \<Rightarrow> json \<Rightarrow> dict" where
  "build_capability_summary nodes contract =
     (let ns = obj_nodes nodes;
          of_kind = (\<lambda>k. filter (\<lambda>n. dget n ''kind'' = JStr k) ns) in
      [(''llm_route_key'', JStr (if_obj contract
          (\<lambda>rc. py_str (py_or (dget rc ''llm_route_key'') (JStr ''text''))) ''text'')),
       (''llm_nodes'', JArr (map (\<lambda>n. dget n ''id'') (of_kind ''llm''))),
       (''tools'', JArr (map (\<lambda>n. JStr (let t = tool_name (dget n ''actor'') in
          if t = [] then ''psop.demo.inspect_input'' else t)) (of_kind ''tool''))),
       (''terminal_enabled'', JBool (of_kind ''terminal'' \<noteq> []))])"

section \<open>The validator\<close>

definition artifact_nodes :: "dict \<Rightarrow> json list" where
  "artifact_nodes artifact = list_or_empty (dget artifact ''nodes'')"

definition artifact_token_fields :: "dict \<Rightarrow> string list" where
  "artifact_token_fields artifact = token_fields (dict_or_empty (dget artifact ''schema''))"

definition check_artifact :: "dict \<Rightarrow> diag list res" where
  "check_artifact artifact =
     (let nodes = artifact_nodes artifact in
      rbind (scan_nodes (artifact_token_fields artifact) empty_scan (enumerate 0 nodes)) (\<lambda>st.
        Inr (validate_required artifact
          @ (if nodes = [] then [err (Node MNodesEmpty) ''nodes''] else [])
          @ scan_diags st
          @ (if \<not> scan_start st then [err (Node MNoStart) ''nodes''] else [])
          @ (if \<not> scan_terminal st then [err (Node MNoTerminal) ''nodes''] else [])
          @ validate_node_transitions (scan_ids st) nodes
          @ validate_init (scan_ids st) (dget artifact ''init'')
          @ validate_halt (dget artifact ''halt'')
          @ validate_contract nodes (scan_ids st) (dget artifact ''runtime_contract''))))"

definition finish_artifact :: "dict \<Rightarrow> dict" where
  "finish_artifact artifact =
     dset ''capability_summary''
       (JObj (build_capability_summary (artifact_nodes artifact) (dget artifact ''runtime_contract'')))
       (dset ''graph_summary'' (JObj (build_graph_summary (artifact_nodes artifact)))
         (dsetdefault ''artifact_version'' (JStr ARTIFACT_VERSION) artifact))"

definition validate_and_normalize_artifact :: "json \<Rightarrow> (dict option \<times> diag list) res" where
  "validate_and_normalize_artifact candidate =
     if_obj candidate
       (\<lambda>c. rbind (normalize_candidate c) (\<lambda>artifact.
          rbind (check_artifact artifact) (\<lambda>ds.
            Inr (if has_errors ds then None else Some (finish_artifact artifact), ds))))
       (Inr (None, [err (Node MNotObject) ''$'']))"

end
