(* ===== verification/FormalSound.thy ===== *)
theory FormalSound
  imports FormalValidate
begin

text \<open>
  What the validator guarantees. \<open>wf_guard\<close>, \<open>wf_merge_op\<close> and \<open>wf_node\<close> say, without
  diagnostics, which shapes are right; the validator's silence is equivalent to them, and an
  artifact it hands on satisfies \<open>wf_artifact\<close>.
\<close>

section \<open>Guards\<close>

inductive wf_guard :: "string list \<Rightarrow> json \<Rightarrow> bool" for tf where
  wf_bool: "wf_guard tf (JBool b)"
| wf_obj: "wf_guard tf (JObj g)"
  if "\<forall>k \<in> fst ` set g. k \<in> set GUARD_KEYS"
    and "dhas g ''phase_is'' \<longrightarrow> is_str (dget g ''phase_is'')"
    and "dhas g ''field_exists'' \<longrightarrow>
      (\<exists>s. dget g ''field_exists'' = JStr s \<and> path_root s \<in> set tf)"
    and "dhas g ''field_equals'' \<longrightarrow>
      (\<exists>s. dget (dict_or_empty (dget g ''field_equals'')) ''path'' = JStr s \<and> path_root s \<in> set tf)"
    and "dhas g ''all'' \<longrightarrow>
      (\<exists>vs. dget g ''all'' = JArr vs \<and> (\<forall>v \<in> set vs. wf_guard tf v))"
    and "dhas g ''any'' \<longrightarrow>
      (\<exists>vs. dget g ''any'' = JArr vs \<and> (\<forall>v \<in> set vs. wf_guard tf v))"
    and "dhas g ''not'' \<longrightarrow> wf_guard tf (dget g ''not'')"

inductive_simps wf_guard_obj_iff: "wf_guard tf (JObj g)"
inductive_cases wf_guardE: "wf_guard tf j"

lemma unknown_guard_keys_Nil:
  "unknown_guard_keys g = [] \<longleftrightarrow> (\<forall>k \<in> fst ` set g. k \<in> set GUARD_KEYS)"
proof -
  have "sort xs = [] \<longleftrightarrow> xs = []" for xs :: "string list"
    by (metis set_empty set_sort)
  then show ?thesis
    by (auto simp: unknown_guard_keys_def filter_empty_conv)
qed

lemma validate_path_value_Nil:
  "validate_path_value tf p j = [] \<longleftrightarrow> (\<exists>s. j = JStr s \<and> path_root s \<in> set tf)"
  by (cases j) (auto simp: validate_path_value_def validate_token_path_def)

lemma validate_field_equals_Nil:
  "validate_field_equals tf p j = [] \<longleftrightarrow>
     (\<exists>s. dget (dict_or_empty j) ''path'' = JStr s \<and> path_root s \<in> set tf)"
  by (cases "dget (dict_or_empty j) ''path''")
    (auto simp: validate_field_equals_def validate_token_path_def)

lemma concat_enumerate_Nil:
  assumes "\<And>p. p \<in> set (enumerate n vs) \<Longrightarrow> f p = [] \<longleftrightarrow> Q (snd p)"
  shows "concat (map f (enumerate n vs)) = [] \<longleftrightarrow> (\<forall>v \<in> set vs. Q v)"
proof -
  have "concat (map f (enumerate n vs)) = [] \<longleftrightarrow> (\<forall>p \<in> set (enumerate n vs). f p = [])"
    by (simp add: concat_eq_Nil)
  also have "\<dots> \<longleftrightarrow> (\<forall>p \<in> set (enumerate n vs). Q (snd p))"
    using assms by blast
  finally show ?thesis by (simp only: ball_enumerate_snd)
qed

lemma validate_guard_Nil: "validate_guard tf path guard = [] \<longleftrightarrow> wf_guard tf guard"
proof (induction tf path guard rule: validate_guard.induct)
  case (1 tf path guard)
  show ?case
  proof (cases "is_obj guard")
    case False
    then have "wf_guard tf guard \<longleftrightarrow> is_bool guard"
      by (cases guard) (auto intro: wf_bool elim: wf_guardE)
    with False show ?thesis by (simp add: validate_guard_shape)
  next
    case True
    then obtain g where g: "guard = JObj g" by (auto simp: is_obj_iff)
    then have nb: "\<not> is_bool guard" by simp
    note ih = "1.IH"[OF nb g]
    have all: "concat (map (\<lambda>p. validate_guard tf (index_path (path @ ''.all'') (fst p)) (snd p))
        (enumerate 0 vs)) = [] \<longleftrightarrow> (\<forall>v \<in> set vs. wf_guard tf v)"
      if "dhas g ''all''" "dget g ''all'' = JArr vs" for vs
      by (rule concat_enumerate_Nil) (rule ih(1)[OF that])
    have any: "concat (map (\<lambda>p. validate_guard tf (index_path (path @ ''.any'') (fst p)) (snd p))
        (enumerate 0 vs)) = [] \<longleftrightarrow> (\<forall>v \<in> set vs. wf_guard tf v)"
      if "dhas g ''any''" "dget g ''any'' = JArr vs" for vs
      by (rule concat_enumerate_Nil) (rule ih(2)[OF that])
    have all': "(if dhas g ''all'' then if_arr (dget g ''all'')
          (\<lambda>vs. concat (map (\<lambda>p. validate_guard tf (index_path (path @ ''.all'') (fst p)) (snd p))
             (enumerate 0 vs))) [err (Shape (MGuardNotArray ''all'')) (path @ ''.all'')] else []) = []
        \<longleftrightarrow> (dhas g ''all'' \<longrightarrow> (\<exists>vs. dget g ''all'' = JArr vs \<and> (\<forall>v \<in> set vs. wf_guard tf v)))"
      using all by (cases "dget g ''all''") simp_all
    have any': "(if dhas g ''any'' then if_arr (dget g ''any'')
          (\<lambda>vs. concat (map (\<lambda>p. validate_guard tf (index_path (path @ ''.any'') (fst p)) (snd p))
             (enumerate 0 vs))) [err (Shape (MGuardNotArray ''any'')) (path @ ''.any'')] else []) = []
        \<longleftrightarrow> (dhas g ''any'' \<longrightarrow> (\<exists>vs. dget g ''any'' = JArr vs \<and> (\<forall>v \<in> set vs. wf_guard tf v)))"
      using any by (cases "dget g ''any''") simp_all
    have "validate_guard tf path guard = [] \<longleftrightarrow>
        (\<forall>k \<in> fst ` set g. k \<in> set GUARD_KEYS)
        \<and> (dhas g ''phase_is'' \<longrightarrow> is_str (dget g ''phase_is''))
        \<and> (dhas g ''field_exists'' \<longrightarrow>
             (\<exists>s. dget g ''field_exists'' = JStr s \<and> path_root s \<in> set tf))
        \<and> (dhas g ''field_equals'' \<longrightarrow>
             (\<exists>s. dget (dict_or_empty (dget g ''field_equals'')) ''path'' = JStr s \<and> path_root s \<in> set tf))
        \<and> (dhas g ''all'' \<longrightarrow>
             (\<exists>vs. dget g ''all'' = JArr vs \<and> (\<forall>v \<in> set vs. wf_guard tf v)))
        \<and> (dhas g ''any'' \<longrightarrow>
             (\<exists>vs. dget g ''any'' = JArr vs \<and> (\<forall>v \<in> set vs. wf_guard tf v)))
        \<and> (dhas g ''not'' \<longrightarrow> wf_guard tf (dget g ''not''))"
      unfolding g validate_guard_obj append_is_Nil_conv all' any' unknown_guard_keys_Nil
        validate_path_value_Nil validate_field_equals_Nil
      using ih(3) by (simp add: unknown_guard_keys_Nil validate_path_value_Nil validate_field_equals_Nil)
    then show ?thesis
      unfolding g wf_guard_obj_iff by simp
  qed
qed

section \<open>Merges, transitions\<close>

definition wf_merge_op :: "string list \<Rightarrow> json \<Rightarrow> bool" where
  "wf_merge_op tf operation \<longleftrightarrow>
     (\<exists>o1 p. operation = JObj o1 \<and> dget o1 ''op'' = JStr ''set'' \<and> dget o1 ''path'' = JStr p
        \<and> path_root p \<in> set tf \<and> dhas o1 ''value'' \<noteq> dhas o1 ''from'')"

lemma validate_merge_operation_Nil:
  "validate_merge_operation tf path operation = [] \<longleftrightarrow> wf_merge_op tf operation"
proof (cases operation)
  case (JObj o1)
  then show ?thesis
    by (cases "dget o1 ''path''")
      (simp_all add: validate_merge_operation_def wf_merge_op_def validate_token_path_def)
qed (simp_all add: validate_merge_operation_def wf_merge_op_def)

lemma validate_merge_Nil:
  "validate_merge tf path merge = [] \<longleftrightarrow> (\<forall>operation \<in> set merge. wf_merge_op tf operation)"
  unfolding validate_merge_def
  by (rule concat_enumerate_Nil) (rule validate_merge_operation_Nil)

definition wf_transitions :: "string list \<Rightarrow> json \<Rightarrow> bool" where
  "wf_transitions ids node \<longleftrightarrow>
     (\<forall>d it. node = JObj d \<longrightarrow> dget d ''interaction'' = JObj it \<longrightarrow> dhas it ''transitions'' \<longrightarrow>
        (\<exists>ts. dget it ''transitions'' = JObj ts
           \<and> (\<forall>tr \<in> set ts. \<exists>t. transition_target (snd tr) = Some t \<and> t \<noteq> [] \<and> t \<in> set ids)))"

lemma validate_transition_Nil:
  "validate_transition ids path tr = [] \<longleftrightarrow>
     (\<exists>t. transition_target (snd tr) = Some t \<and> t \<noteq> [] \<and> t \<in> set ids)"
  by (cases "transition_target (snd tr)") (auto simp: validate_transition_def Let_def)

lemma validate_transitions_of_Nil:
  "validate_transitions_of ids inode = [] \<longleftrightarrow> wf_transitions ids (snd inode)"
  unfolding validate_transitions_of_def wf_transitions_def Let_def
  by (cases "snd inode"; simp; cases "dget (dict_or_empty (snd inode)) ''interaction''"; simp;
      cases "dget (dict_or_empty (dget (dict_or_empty (snd inode)) ''interaction'')) ''transitions''")
    (auto simp: concat_eq_Nil validate_transition_Nil)

lemma validate_node_transitions_Nil:
  "validate_node_transitions ids nodes = [] \<longleftrightarrow> (\<forall>node \<in> set nodes. wf_transitions ids node)"
  unfolding validate_node_transitions_def
  by (rule concat_enumerate_Nil) (rule validate_transitions_of_Nil)

section \<open>Nodes\<close>

definition node_id_of :: "json \<Rightarrow> string" where
  "node_id_of node = str_or_empty (dget (dict_or_empty node) ''id'')"

definition wf_node :: "string list \<Rightarrow> json \<Rightarrow> bool" where
  "wf_node tf node \<longleftrightarrow>
     (\<exists>d. node = JObj d \<and> node_id_of node \<noteq> []
        \<and> (\<exists>k \<in> set SUPPORTED_NODE_KINDS. dget d ''kind'' = JStr k)
        \<and> actor_name (dget d ''actor'') \<in> set SUPPORTED_ACTORS
        \<and> (actor_name (dget d ''actor'') = ''capability.demo_tool'' \<longrightarrow>
             tool_name (dget d ''actor'') \<in> insert [] (set SUPPORTED_TOOLS))
        \<and> dget d ''guard'' \<noteq> JNull \<and> wf_guard tf (dget d ''guard'')
        \<and> (\<exists>ops. dget d ''merge'' = JArr ops \<and> (\<forall>operation \<in> set ops. wf_merge_op tf operation)))"

lemma validate_node_body_Nil:
  "validate_node_body tf path d = [] \<longleftrightarrow>
     actor_name (dget d ''actor'') \<in> set SUPPORTED_ACTORS
     \<and> (actor_name (dget d ''actor'') = ''capability.demo_tool'' \<longrightarrow>
          tool_name (dget d ''actor'') \<in> insert [] (set SUPPORTED_TOOLS))
     \<and> dget d ''guard'' \<noteq> JNull \<and> wf_guard tf (dget d ''guard'')
     \<and> (\<exists>ops. dget d ''merge'' = JArr ops \<and> (\<forall>operation \<in> set ops. wf_merge_op tf operation))"
  by (cases "dget d ''merge''")
    (auto simp: validate_node_body_def validate_node_actor_def validate_node_guard_def
      validate_node_merge_def validate_guard_Nil validate_merge_Nil Let_def)

lemma validate_node_kind_Nil:
  "validate_node_kind path kind = Inr [] \<longleftrightarrow> (\<exists>k \<in> set SUPPORTED_NODE_KINDS. kind = JStr k)"
  by (auto simp: validate_node_kind_def in_str_set_def res_simps KNOWN_NODE_KINDS_def)

lemma err_in_node_kind: "validate_node_kind path kind = Inr ds \<Longrightarrow> list_all is_error ds"
  by (auto simp: validate_node_kind_def in_str_set_def res_simps split: if_splits)

lemma err_in_node_body: "list_all is_error (validate_node_body tf path d)"
  by (simp add: validate_node_body_def validate_node_actor_def validate_node_guard_def
      validate_node_merge_def all_err_simps err_in_guard err_in_merge Let_def)

lemma err_in_node_id: "list_all is_error (fst (validate_node_id ids path d))"
  by (simp add: validate_node_id_def Let_def)

lemma validate_node_id_Nil:
  "validate_node_id ids path d = ([], ids') \<longleftrightarrow>
     node_id_of (JObj d) \<noteq> [] \<and> node_id_of (JObj d) \<notin> set ids \<and> ids' = ids @ [node_id_of (JObj d)]"
  by (auto simp: validate_node_id_def node_id_of_def Let_def)

section \<open>The scan\<close>

lemma scan_node_obj:
  assumes "scan_node tf st (i, JObj d) = Inr st'"
  shows "\<exists>ds ids kds. validate_node_id (scan_ids st) (index_path ''nodes'' i) d = (ds, ids)
    \<and> validate_node_kind (index_path ''nodes'' i) (dget d ''kind'') = Inr kds
    \<and> st' = \<lparr>scan_diags = scan_diags st @ ds @ kds @ validate_node_body tf (index_path ''nodes'' i) d,
           scan_ids = ids,
           scan_start = (scan_start st \<or> dget d ''kind'' = JStr ''start''),
           scan_terminal = (scan_terminal st \<or> dget d ''kind'' = JStr ''terminal'')\<rparr>"
proof -
  obtain ds ids where "validate_node_id (scan_ids st) (index_path ''nodes'' i) d = (ds, ids)"
    by fastforce
  then show ?thesis
    using assms by (auto simp: scan_node_def Let_def rbind_eq_Inr)
qed

lemma scan_node_nonobj:
  "\<not> is_obj node \<Longrightarrow> scan_node tf st (i, node) =
     Inr (st\<lparr>scan_diags := scan_diags st @ [err (Node MNodeNotObject) (index_path ''nodes'' i)]\<rparr>)"
  by (cases node) (simp_all add: scan_node_def Let_def)

lemma scan_node_diags:
  assumes "scan_node tf st (i, node) = Inr st'"
  shows "\<exists>ds. scan_diags st' = scan_diags st @ ds \<and> list_all is_error ds"
proof (cases node)
  case (JObj d)
  with assms show ?thesis
    using err_in_node_id [of "scan_ids st" "index_path ''nodes'' i" d]
    by (auto dest!: scan_node_obj err_in_node_kind simp: err_in_node_body)
qed (use assms in \<open>auto simp: scan_node_nonobj\<close>)

lemma scan_nodes_diags:
  "scan_nodes tf st ps = Inr st' \<Longrightarrow> \<exists>ds. scan_diags st' = scan_diags st @ ds \<and> list_all is_error ds"
proof (induction ps arbitrary: st)
  case Nil
  then show ?case by simp
next
  case (Cons p ps)
  obtain st1 where st1: "scan_node tf st p = Inr st1" "scan_nodes tf st1 ps = Inr st'"
    using Cons.prems by (auto simp: rbind_eq_Inr)
  obtain d1 where "scan_diags st1 = scan_diags st @ d1" "list_all is_error d1"
    using st1(1) scan_node_diags [of tf st "fst p" "snd p" st1] by auto
  moreover obtain d2 where "scan_diags st' = scan_diags st1 @ d2" "list_all is_error d2"
    using Cons.IH [OF st1(2)] by auto
  ultimately show ?case by simp
qed

lemma scan_node_clean:
  assumes "scan_node tf st (i, node) = Inr st'" and "scan_diags st' = []"
  shows "wf_node tf node \<and> node_id_of node \<notin> set (scan_ids st)
    \<and> scan_ids st' = scan_ids st @ [node_id_of node]
    \<and> (scan_start st' \<longleftrightarrow> scan_start st \<or> dget (dict_or_empty node) ''kind'' = JStr ''start'')
    \<and> (scan_terminal st' \<longleftrightarrow> scan_terminal st \<or> dget (dict_or_empty node) ''kind'' = JStr ''terminal'')"
proof (cases "is_obj node")
  case False
  with assms show ?thesis by (auto simp: scan_node_nonobj)
next
  case True
  then obtain d where d: "node = JObj d" by (auto simp: is_obj_iff)
  obtain ds ids kds where r: "validate_node_id (scan_ids st) (index_path ''nodes'' i) d = (ds, ids)"
    "validate_node_kind (index_path ''nodes'' i) (dget d ''kind'') = Inr kds"
    "st' = \<lparr>scan_diags = scan_diags st @ ds @ kds @ validate_node_body tf (index_path ''nodes'' i) d,
           scan_ids = ids,
           scan_start = (scan_start st \<or> dget d ''kind'' = JStr ''start''),
           scan_terminal = (scan_terminal st \<or> dget d ''kind'' = JStr ''terminal'')\<rparr>"
    using scan_node_obj assms(1) unfolding d by blast
  with assms(2) have clean: "ds = []" "kds = []"
    "validate_node_body tf (index_path ''nodes'' i) d = []"
    by auto
  have idd: "node_id_of (JObj d) \<noteq> [] \<and> node_id_of (JObj d) \<notin> set (scan_ids st)
      \<and> ids = scan_ids st @ [node_id_of (JObj d)]"
    using r(1) unfolding clean(1) validate_node_id_Nil .
  have kind: "\<exists>k \<in> set SUPPORTED_NODE_KINDS. dget d ''kind'' = JStr k"
    using r(2) unfolding clean(2) validate_node_kind_Nil .
  have "wf_node tf node"
    unfolding wf_node_def
    using idd kind clean(3)[unfolded validate_node_body_Nil] d by blast
  with idd r(3) d show ?thesis by simp
qed

lemma scan_nodes_clean:
  assumes "scan_nodes tf st ps = Inr st'" and "scan_diags st' = []"
  shows "(\<forall>p \<in> set ps. wf_node tf (snd p))
    \<and> scan_ids st' = scan_ids st @ map (node_id_of \<circ> snd) ps
    \<and> (distinct (scan_ids st) \<longrightarrow> distinct (scan_ids st'))
    \<and> (scan_start st' \<longleftrightarrow> scan_start st \<or>
         (\<exists>p \<in> set ps. dget (dict_or_empty (snd p)) ''kind'' = JStr ''start''))
    \<and> (scan_terminal st' \<longleftrightarrow> scan_terminal st \<or>
         (\<exists>p \<in> set ps. dget (dict_or_empty (snd p)) ''kind'' = JStr ''terminal''))"
  using assms
proof (induction ps arbitrary: st)
  case Nil
  then show ?case by simp
next
  case (Cons p ps)
  obtain st1 where st1: "scan_node tf st p = Inr st1" "scan_nodes tf st1 ps = Inr st'"
    using Cons.prems(1) by (auto simp: rbind_eq_Inr)
  have "scan_diags st1 = []"
    using scan_nodes_diags [OF st1(2)] Cons.prems(2) by auto
  then have "wf_node tf (snd p) \<and> node_id_of (snd p) \<notin> set (scan_ids st)
    \<and> scan_ids st1 = scan_ids st @ [node_id_of (snd p)]
    \<and> (scan_start st1 \<longleftrightarrow> scan_start st \<or> dget (dict_or_empty (snd p)) ''kind'' = JStr ''start'')
    \<and> (scan_terminal st1 \<longleftrightarrow> scan_terminal st \<or> dget (dict_or_empty (snd p)) ''kind'' = JStr ''terminal'')"
    using scan_node_clean [of tf st "fst p" "snd p" st1] st1(1) by simp
  note one = this and rest = Cons.IH [OF st1(2) Cons.prems(2)]
  have "distinct (scan_ids st) \<Longrightarrow> distinct (scan_ids st1)"
    using one by (simp add: distinct_snoc_iff)
  moreover have "distinct (scan_ids st1) \<longrightarrow> distinct (scan_ids st')"
    using rest by (elim conjE)
  moreover have "scan_ids st' = scan_ids st @ map (node_id_of \<circ> snd) (p # ps)"
    using one rest by simp
  ultimately show ?case
    using one rest by (simp add: comp_def)
qed

section \<open>Accepted artifacts\<close>

definition wf_artifact :: "dict \<Rightarrow> bool" where
  "wf_artifact a \<longleftrightarrow>
     (let nodes = artifact_nodes a; ids = map node_id_of nodes in
      (\<forall>f \<in> set REQUIRED_FIELDS. dhas a f)
      \<and> dget a ''formal_revision'' = JStr FORMAL_REVISION
      \<and> is_obj (dget a ''schema'')
      \<and> nodes \<noteq> [] \<and> distinct ids
      \<and> (\<forall>node \<in> set nodes. wf_node (artifact_token_fields a) node)
      \<and> (\<exists>node \<in> set nodes. dget (dict_or_empty node) ''kind'' = JStr ''start'')
      \<and> (\<exists>node \<in> set nodes. dget (dict_or_empty node) ''kind'' = JStr ''terminal'')
      \<and> (\<forall>node \<in> set nodes. wf_transitions ids node)
      \<and> is_obj (dget a ''init'')
      \<and> (\<forall>e. dget (dict_or_empty (dget a ''init'')) ''entry_node'' = JStr e \<longrightarrow> e = [] \<or> e \<in> set ids)
      \<and> (\<exists>h. dget a ''halt'' = JObj h \<and> (dhas h ''success'' \<or> dhas h ''failure''))
      \<and> is_obj (dget a ''runtime_contract''))"

lemma err_in_check_key: "list_all is_error (fst (check_key i dup path keys key))"
  by (simp add: check_key_def Let_def)


lemma err_in_option_kind: "list_all is_error (validate_option_kind path option)"
  by (simp add: validate_option_kind_def Let_def)

lemma err_in_options: "list_all is_error (validate_options rpath keys i xs)"
  by (induction xs arbitrary: keys i)
    (simp_all add: Let_def split_beta err_in_check_key err_in_option_kind)

lemma err_in_requirement_fields: "list_all is_error (validate_requirement_fields path r)"
  by (simp add: validate_requirement_fields_def Let_def err_in_options)

lemma err_in_requirements: "list_all is_error (validate_requirements spath keys i xs)"
  by (induction xs arbitrary: keys i)
    (simp_all add: Let_def split_beta err_in_check_key err_in_requirement_fields)

lemma err_in_evidence_contract: "list_all is_error (validate_evidence_contract contract step_ids)"
  by (simp add: validate_evidence_contract_def validate_step_evidence_def Let_def all_err_simps
      err_in_requirements)

lemma err_in_steps: "list_all is_error (fst (validate_steps node_ids seen i steps))"
  by (induction steps arbitrary: seen i)
    (simp_all add: Let_def split_beta validate_step_def)

lemma err_in_workflow_contract:
  "list_all is_error (fst (validate_workflow_contract contract node_ids))"
  by (simp add: validate_workflow_contract_def missing_contract_fields_def validate_checkpoints_def
      Let_def split_beta err_in_steps all_err_simps)

lemma err_in_instruct: "list_all is_error (validate_instruct i e t d)"
  by (simp add: validate_instruct_def Let_def)

lemma err_in_evaluate: "list_all is_error (validate_evaluate e d)"
  by (simp add: validate_evaluate_def Let_def)

lemma err_in_own_observation: "list_all is_error (validate_own_observation i d)"
  by (simp add: validate_own_observation_def)

lemma err_in_step_nodes: "list_all is_error (validate_step_nodes nmap i s)"
proof (cases "map_of nmap (''instruct_'' @ s)"; cases "map_of nmap (''evaluate_'' @ s)")
qed (simp_all only: validate_step_nodes_def Let_def prod.case option.case list_all_append
      err_in_instruct err_in_evaluate err_in_own_observation list.pred_inject simp_thms)

lemma err_in_workflow_nodes: "list_all is_error (validate_workflow_nodes nodes step_ids)"
  by (simp add: validate_workflow_nodes_def Let_def err_in_step_nodes all_err_simps
      split: option.split)

lemma err_in_contract: "list_all is_error (validate_contract nodes ids contract)"
  by (simp add: validate_contract_def all_err_simps split_beta err_in_workflow_contract
      err_in_evidence_contract err_in_workflow_nodes)

lemma err_in_top_level:
  "list_all is_error (validate_required a)" "list_all is_error (validate_init ids init)"
  "list_all is_error (validate_halt halt)"
  by (simp_all add: validate_required_def validate_init_def validate_halt_def Let_def all_err_simps)

lemma err_in_check_artifact: "check_artifact a = Inr ds \<Longrightarrow> list_all is_error ds"
  using scan_nodes_diags [where st = empty_scan]
  by (auto simp: check_artifact_def Let_def rbind_eq_Inr err_in_top_level err_in_contract
      err_in_transitions empty_scan_def list_all_if)

lemma has_errors_iff: "list_all is_error ds \<Longrightarrow> has_errors ds \<longleftrightarrow> ds \<noteq> []"
  by (cases ds) (auto simp: has_errors_def list_all_iff list_ex_iff)

lemma validate_init_Nil:
  "validate_init ids init = [] \<longleftrightarrow> is_obj init \<and>
     (\<forall>e. dget (dict_or_empty init) ''entry_node'' = JStr e \<longrightarrow> e = [] \<or> ids = [] \<or> e \<in> set ids)"
  by (cases "dget (dict_or_empty init) ''entry_node''") (auto simp: validate_init_def Let_def)

lemma validate_halt_Nil:
  "validate_halt halt = [] \<longleftrightarrow> (\<exists>h. halt = JObj h \<and> (dhas h ''success'' \<or> dhas h ''failure''))"
  by (cases halt) (auto simp: validate_halt_def)

lemma validate_required_Nil:
  "validate_required a = [] \<longleftrightarrow> (\<forall>f \<in> set REQUIRED_FIELDS. dhas a f)
     \<and> dget a ''formal_revision'' = JStr FORMAL_REVISION \<and> is_obj (dget a ''schema'')"
  by (auto simp: validate_required_def filter_empty_conv)

lemma check_artifact_Nil:
  assumes "check_artifact a = Inr []"
  shows "wf_artifact a \<and>
    validate_contract (artifact_nodes a) (map node_id_of (artifact_nodes a)) (dget a ''runtime_contract'') = []"
proof -
  let ?nodes = "artifact_nodes a"
  obtain st where st: "scan_nodes (artifact_token_fields a) empty_scan (enumerate 0 ?nodes) = Inr st"
    and clean: "validate_required a = []" "?nodes \<noteq> []" "scan_diags st = []"
      "scan_start st" "scan_terminal st" "validate_node_transitions (scan_ids st) ?nodes = []"
      "validate_init (scan_ids st) (dget a ''init'') = []"
      "validate_halt (dget a ''halt'') = []"
      "validate_contract ?nodes (scan_ids st) (dget a ''runtime_contract'') = []"
    using assms by (auto simp: check_artifact_def Let_def rbind_eq_Inr split: if_splits)
  note scan = scan_nodes_clean [OF st clean(3)]
  have ids: "scan_ids st = map node_id_of ?nodes"
    using scan by (simp add: empty_scan_def flip: map_map)
  have "distinct (scan_ids empty_scan) \<longrightarrow> distinct (scan_ids st)"
    using scan by (elim conjE)
  then have "distinct (scan_ids st)"
    by (simp add: empty_scan_def)
  then have dist: "distinct (map node_id_of ?nodes)"
    unfolding ids .
  have nodes: "\<forall>node \<in> set ?nodes. wf_node (artifact_token_fields a) node"
    using scan by (simp add: ball_enumerate_snd)
  have kinds: "\<exists>node \<in> set ?nodes. dget (dict_or_empty node) ''kind'' = JStr ''start''"
    "\<exists>node \<in> set ?nodes. dget (dict_or_empty node) ''kind'' = JStr ''terminal''"
    using scan clean(4,5) by (auto simp: empty_scan_def dest: set_enumerate_snd)
  have contract: "is_obj (dget a ''runtime_contract'')"
    using clean(9) by (cases "dget a ''runtime_contract''") (simp_all add: validate_contract_def)
  show ?thesis
    unfolding wf_artifact_def Let_def
    using clean(1)[unfolded validate_required_Nil] clean(2) dist nodes kinds contract
      clean(6)[unfolded ids validate_node_transitions_Nil] clean(7)[unfolded ids validate_init_Nil]
      clean(8)[unfolded validate_halt_Nil] clean(9)[unfolded ids]
    by simp
qed

end
