(* ===== verification/FormalAccept.thy ===== *)
theory FormalAccept
  imports FormalSound
begin

text \<open>
  The converse of \<open>FormalSound\<close>: a well-formed artifact passes the scan and the top-level
  checks without a diagnostic. And the evidence contract without diagnostics: \<open>wf_option\<close>,
  \<open>wf_requirement\<close> and \<open>wf_evidence_contract\<close> are what the validators' silence means.
\<close>

section \<open>The scan accepts well-formed nodes\<close>

lemma scan_node_wf:
  assumes wf: "wf_node tf node" and fresh: "node_id_of node \<notin> set (scan_ids st)"
  shows "\<exists>st'. scan_node tf st (i, node) = Inr st' \<and> scan_diags st' = scan_diags st
    \<and> scan_ids st' = scan_ids st @ [node_id_of node]"
proof -
  obtain d where d: "node = JObj d" using wf by (auto simp: wf_node_def)
  have body: "validate_node_body tf path d = []" for path
    using wf d unfolding validate_node_body_Nil wf_node_def by simp
  have kind: "validate_node_kind path (dget d ''kind'') = Inr []" for path
    using wf d unfolding validate_node_kind_Nil wf_node_def by simp
  have "node_id_of node \<noteq> []"
    using wf unfolding wf_node_def by blast
  then have idd: "validate_node_id (scan_ids st) path d = ([], scan_ids st @ [node_id_of node])" for path
    using fresh unfolding d validate_node_id_Nil by simp
  show ?thesis
    unfolding d scan_node_def Let_def by (simp add: kind body idd [unfolded d])
qed

lemma scan_nodes_wf:
  assumes "\<forall>p \<in> set ps. wf_node tf (snd p)" and "distinct (scan_ids st @ map (node_id_of \<circ> snd) ps)"
  shows "\<exists>st'. scan_nodes tf st ps = Inr st' \<and> scan_diags st' = scan_diags st"
  using assms
proof (induction ps arbitrary: st)
  case Nil
  then show ?case by simp
next
  case (Cons p ps)
  obtain st1 where st1: "scan_node tf st p = Inr st1" "scan_diags st1 = scan_diags st"
    "scan_ids st1 = scan_ids st @ [node_id_of (snd p)]"
    using scan_node_wf [of tf "snd p" st "fst p"] Cons.prems by auto
  then have "distinct (scan_ids st1 @ map (node_id_of \<circ> snd) ps)"
    using Cons.prems(2) by (simp add: comp_def)
  with Cons.IH [of st1] Cons.prems(1) st1 show ?case by (simp add: comp_def)
qed

lemma check_artifact_wf:
  assumes wf: "wf_artifact a"
    and contract: "validate_contract (artifact_nodes a) (map node_id_of (artifact_nodes a))
      (dget a ''runtime_contract'') = []"
  shows "check_artifact a = Inr []"
proof -
  let ?nodes = "artifact_nodes a"
  note wf' = wf [unfolded wf_artifact_def Let_def]
  have nodes: "\<forall>p \<in> set (enumerate 0 ?nodes). wf_node (artifact_token_fields a) (snd p)"
    using wf' by (simp add: ball_enumerate_snd)
  have ids: "map (node_id_of \<circ> snd) (enumerate 0 ?nodes) = map node_id_of ?nodes"
    by (simp flip: map_map)
  have dist: "distinct (scan_ids empty_scan @ map (node_id_of \<circ> snd) (enumerate 0 ?nodes))"
    using wf' unfolding ids by (simp add: empty_scan_def)
  obtain st where st: "scan_nodes (artifact_token_fields a) empty_scan (enumerate 0 ?nodes) = Inr st"
    and clean: "scan_diags st = []"
    using scan_nodes_wf [OF nodes dist] by (auto simp: empty_scan_def)
  note scan = scan_nodes_clean [OF st clean]
  have ids': "scan_ids st = map node_id_of ?nodes"
    using scan unfolding ids by (simp add: empty_scan_def)
  have kinds: "scan_start st" "scan_terminal st"
    using scan wf' by (metis ex_enumerate snd_conv)+
  have "validate_required a = []" "validate_init (scan_ids st) (dget a ''init'') = []"
    "validate_halt (dget a ''halt'') = []" "validate_node_transitions (scan_ids st) ?nodes = []"
    using wf' unfolding ids' validate_required_Nil validate_init_Nil validate_halt_Nil
      validate_node_transitions_Nil by simp_all
  with st clean kinds contract wf' ids' show ?thesis
    by (simp add: check_artifact_def Let_def)
qed

section \<open>Evidence contracts\<close>

definition wf_option :: "json \<Rightarrow> bool" where
  "wf_option option \<longleftrightarrow>
     (\<exists>o1. option = JObj o1 \<and> \<not> blank_text (dget o1 ''option_key'')
        \<and> \<not> blank_text (dget o1 ''event_kind'')
        \<and> str_or (dget o1 ''kind'') \<in> {''image'', ''text'', ''audio'', ''video''}
        \<and> (str_or (dget o1 ''proof_mode'') = ''measurement''
           \<or> str_or (dget o1 ''proof_mode'') = ''visual''
             \<and> str_or (dget o1 ''kind'') \<in> {''image'', ''video''}
           \<or> str_or (dget o1 ''proof_mode'') = ''attestation''
             \<and> str_or (dget o1 ''kind'') \<in> {''text'', ''audio''}))"

definition key_of :: "string \<Rightarrow> json \<Rightarrow> string" where
  "key_of k j = str_or_empty (dget (dict_or_empty j) k)"

definition wf_requirement :: "json \<Rightarrow> bool" where
  "wf_requirement r \<longleftrightarrow>
     (\<exists>d. r = JObj d \<and> \<not> blank_text (dget d ''requirement_key'')
        \<and> \<not> blank_text (dget d ''description'') \<and> is_bool (dget d ''required'')
        \<and> (let opts = list_or_empty (dget d ''evidence_options'') in
           opts \<noteq> [] \<and> (\<forall>option \<in> set opts. wf_option option)
           \<and> distinct (map (key_of ''option_key'') opts)))"

lemma validate_option_kind_Nil:
  "validate_option_kind path o1 = [] \<longleftrightarrow>
     str_or (dget o1 ''kind'') \<in> {''image'', ''text'', ''audio'', ''video''}
     \<and> \<not> blank_text (dget o1 ''event_kind'')
     \<and> (str_or (dget o1 ''proof_mode'') = ''measurement''
         \<or> str_or (dget o1 ''proof_mode'') = ''visual'' \<and> str_or (dget o1 ''kind'') \<in> {''image'', ''video''}
         \<or> str_or (dget o1 ''proof_mode'') = ''attestation'' \<and> str_or (dget o1 ''kind'') \<in> {''text'', ''audio''})"
proof -
  have aux: "(k \<in> K \<and> (p = m \<or> p = v \<and> k \<in> V \<or> p = a \<and> k \<in> A)) \<longleftrightarrow>
      (k \<in> K \<and> p \<in> {v, a, m} \<and> (p = v \<longrightarrow> k \<in> V) \<and> (p = a \<longrightarrow> k \<in> A))"
    if "v \<noteq> a" "v \<noteq> m" "a \<noteq> m" for k p m v a :: string and K V A
    using that by auto
  show ?thesis
    unfolding validate_option_kind_def Let_def append_is_Nil_conv
    using aux [of "''visual''" "''attestation''" "''measurement''"] by auto
qed

lemma wf_option_obj:
  "wf_option (JObj o1) \<longleftrightarrow>
     \<not> blank_text (dget o1 ''option_key'') \<and> validate_option_kind path o1 = []"
  unfolding validate_option_kind_Nil wf_option_def by (simp only: json.inject ex_simps) blast

lemma check_key_Nil:
  "check_key i dup path keys key = ([], keys') \<longleftrightarrow>
     \<not> blank_text key \<and> str_or_empty key \<notin> set keys \<and> keys' = keys @ [str_or_empty key]"
  by (auto simp: check_key_def Let_def)

lemma check_key_fails:
  "check_key i dup path keys key = (ds, keys') \<Longrightarrow> ds \<noteq> [] \<Longrightarrow>
   blank_text key \<or> str_or_empty key \<in> set keys"
  by (simp add: check_key_def Let_def split: if_splits)

lemma validate_options_Nil:
  "distinct keys \<Longrightarrow> validate_options rpath keys i opts = [] \<longleftrightarrow>
     (\<forall>option \<in> set opts. wf_option option) \<and> distinct (keys @ map (key_of ''option_key'') opts)"
proof (induction opts arbitrary: keys i)
  case Nil
  then show ?case by simp
next
  case (Cons option opts)
  show ?case
  proof (cases option)
    case (JObj o1)
    let ?p = "index_path (rpath @ ''.evidence_options'') i"
    have key: "key_of ''option_key'' option = str_or_empty (dget o1 ''option_key'')"
      using JObj by (simp add: key_of_def)
    obtain ds keys' where ck: "check_key MOptionKeyInvalid MOptionKeyDuplicate
        (index_path (rpath @ ''.evidence_options'') i @ ''.option_key'') keys (dget o1 ''option_key'')
        = (ds, keys')" by fastforce
    have step: "validate_options rpath keys i (option # opts) = [] \<longleftrightarrow>
        ds = [] \<and> validate_option_kind ?p o1 = []
        \<and> validate_options rpath keys' (Suc i) opts = []"
      using JObj ck by (simp add: Let_def)
    show ?thesis
    proof (cases "ds = []")
      case False
      have "blank_text (dget o1 ''option_key'') \<or> str_or_empty (dget o1 ''option_key'') \<in> set keys"
        by (rule check_key_fails [OF ck False])
      then have "\<not> wf_option option \<or> key_of ''option_key'' option \<in> set keys"
        unfolding JObj wf_option_obj [of o1 ?p] key [unfolded JObj] by blast
      then show ?thesis
        unfolding step using False by (elim disjE) simp_all
    next
      case True
      with ck have k: "\<not> blank_text (dget o1 ''option_key'')"
        "str_or_empty (dget o1 ''option_key'') \<notin> set keys"
        "keys' = keys @ [str_or_empty (dget o1 ''option_key'')]"
        by (simp_all add: check_key_Nil)
      then have "distinct keys'" using Cons.prems by simp
      note ih = Cons.IH [OF this]
      have wf: "wf_option option \<longleftrightarrow> validate_option_kind ?p o1 = []"
        using wf_option_obj [of o1 ?p] k(1) JObj by simp
      have keys: "keys @ map (key_of ''option_key'') (option # opts) = keys' @ map (key_of ''option_key'') opts"
        using key k(3) by simp
      show ?thesis
        unfolding step ih keys using True wf by simp
    qed
  qed (simp_all add: wf_option_def)
qed

lemma wf_requirement_obj:
  "wf_requirement (JObj d) \<longleftrightarrow>
     \<not> blank_text (dget d ''requirement_key'') \<and> validate_requirement_fields path d = []"
proof -
  have "(let opts = list_or_empty (dget d ''evidence_options'') in
      if opts = [] then [workflow_err (Evidence MOptionsEmpty) (path @ ''.evidence_options'')]
      else validate_options path [] 0 opts) = [] \<longleftrightarrow>
    (let opts = list_or_empty (dget d ''evidence_options'') in
      opts \<noteq> [] \<and> (\<forall>option \<in> set opts. wf_option option)
      \<and> distinct (map (key_of ''option_key'') opts))"
    by (simp add: Let_def validate_options_Nil)
  then show ?thesis
    unfolding wf_requirement_def validate_requirement_fields_def append_is_Nil_conv by simp
qed

lemma validate_requirements_Nil:
  "distinct keys \<Longrightarrow> validate_requirements spath keys i rs = [] \<longleftrightarrow>
     (\<forall>r \<in> set rs. wf_requirement r) \<and> distinct (keys @ map (key_of ''requirement_key'') rs)"
proof (induction rs arbitrary: keys i)
  case Nil
  then show ?case by simp
next
  case (Cons r rs)
  show ?case
  proof (cases r)
    case (JObj d)
    let ?p = "index_path (spath @ ''.requirements'') i"
    have key: "key_of ''requirement_key'' r = str_or_empty (dget d ''requirement_key'')"
      using JObj by (simp add: key_of_def)
    obtain ds keys' where ck: "check_key MRequirementKeyInvalid MRequirementKeyDuplicate
        (?p @ ''.requirement_key'') keys (dget d ''requirement_key'') = (ds, keys')" by fastforce
    have step: "validate_requirements spath keys i (r # rs) = [] \<longleftrightarrow>
        ds = [] \<and> validate_requirement_fields ?p d = []
        \<and> validate_requirements spath keys' (Suc i) rs = []"
      using JObj ck by (simp add: Let_def)
    show ?thesis
    proof (cases "ds = []")
      case False
      have "blank_text (dget d ''requirement_key'')
          \<or> str_or_empty (dget d ''requirement_key'') \<in> set keys"
        by (rule check_key_fails [OF ck False])
      then have "\<not> wf_requirement r \<or> key_of ''requirement_key'' r \<in> set keys"
        unfolding JObj wf_requirement_obj [of d ?p] key [unfolded JObj] by blast
      then show ?thesis
        unfolding step using False by (elim disjE) simp_all
    next
      case True
      with ck have k: "\<not> blank_text (dget d ''requirement_key'')"
        "str_or_empty (dget d ''requirement_key'') \<notin> set keys"
        "keys' = keys @ [str_or_empty (dget d ''requirement_key'')]"
        by (simp_all add: check_key_Nil)
      then have "distinct keys'" using Cons.prems by simp
      note ih = Cons.IH [OF this]
      have wf: "wf_requirement r \<longleftrightarrow> validate_requirement_fields ?p d = []"
        using wf_requirement_obj [of d ?p] k(1) JObj by simp
      have keys: "keys @ map (key_of ''requirement_key'') (r # rs)
          = keys' @ map (key_of ''requirement_key'') rs"
        using key k(3) by simp
      show ?thesis
        unfolding step ih keys using True wf by simp
    qed
  qed (simp_all add: wf_requirement_def)
qed

text \<open>What version 2 of the evidence contract asks of every workflow step.\<close>

definition wf_step_evidence :: "dict \<Rightarrow> string \<Rightarrow> bool" where
  "wf_step_evidence expected step_id \<longleftrightarrow>
     (\<exists>sc. dget expected step_id = JObj sc
        \<and> (let rs = list_or_empty (dget sc ''requirements'') in
           rs \<noteq> [] \<and> (\<forall>r \<in> set rs. wf_requirement r) \<and> distinct (map (key_of ''requirement_key'') rs)))"

definition wf_evidence_contract :: "dict \<Rightarrow> string list \<Rightarrow> bool" where
  "wf_evidence_contract contract step_ids \<longleftrightarrow>
     str_or (dget contract ''evidence_contract_version'') = []
     \<or> str_or (dget contract ''evidence_contract_version'') = ''psop-evidence/v2''
       \<and> (\<exists>expected. dget contract ''expected_evidence'' = JObj expected
            \<and> (\<forall>s \<in> set step_ids. wf_step_evidence expected s))"

lemma validate_step_evidence_Nil:
  "validate_step_evidence expected s = [] \<longleftrightarrow> wf_step_evidence expected s"
  unfolding validate_step_evidence_def wf_step_evidence_def Let_def
  by (cases "dget expected s") (simp_all add: validate_requirements_Nil)

lemma validate_evidence_contract_Nil:
  "validate_evidence_contract contract step_ids = [] \<longleftrightarrow> wf_evidence_contract contract step_ids"
  unfolding validate_evidence_contract_def wf_evidence_contract_def Let_def
  by (cases "dget contract ''expected_evidence''")
    (simp_all add: concat_eq_Nil validate_step_evidence_Nil)

end
