(* ===== verification/FormalWorkflow.thy ===== *)
theory FormalWorkflow
  imports FormalAccept
begin

text \<open>
  The workflow steps of the runtime contract and the nodes each of them must have, without
  diagnostics: \<open>wf_workflow_contract\<close> and \<open>wf_workflow_nodes\<close>.
\<close>

section \<open>Workflow steps\<close>

definition wf_step :: "string list \<Rightarrow> json \<Rightarrow> bool" where
  "wf_step node_ids step \<longleftrightarrow>
     (\<exists>d. step = JObj d \<and> key_of ''id'' step \<noteq> [] \<and> key_of ''id'' step \<notin> set SCAFFOLD_NODE_IDS
        \<and> (node_ids \<noteq> [] \<longrightarrow> ''instruct_'' @ key_of ''id'' step \<in> set node_ids
             \<and> ''evaluate_'' @ key_of ''id'' step \<in> set node_ids)
        \<and> \<not> blank_text (dget d ''title'') \<and> \<not> blank_text (dget d ''goal'')
        \<and> \<not> blank_text (dget d ''source_evidence''))"

lemma if_single_Nil: "(if b then [x] else []) = [] \<longleftrightarrow> \<not> b"
  by simp

lemma validate_step_Nil:
  "validate_step node_ids seen path d s = [] \<and> s \<noteq> [] \<longleftrightarrow> s \<noteq> [] \<and> s \<notin> set seen
     \<and> s \<notin> set SCAFFOLD_NODE_IDS
     \<and> (node_ids \<noteq> [] \<longrightarrow> ''instruct_'' @ s \<in> set node_ids \<and> ''evaluate_'' @ s \<in> set node_ids)
     \<and> \<not> blank_text (dget d ''title'') \<and> \<not> blank_text (dget d ''goal'')
     \<and> \<not> blank_text (dget d ''source_evidence'')"
  unfolding validate_step_def Let_def append_is_Nil_conv if_single_Nil by blast

lemma wf_step_obj:
  "s = str_or_empty (dget d ''id'') \<Longrightarrow>
   validate_step node_ids seen path d s = [] \<and> s \<noteq> [] \<longleftrightarrow> wf_step node_ids (JObj d) \<and> s \<notin> set seen"
  unfolding validate_step_Nil wf_step_def by (simp add: key_of_def) blast

lemma validate_steps_Nil:
  "distinct seen \<Longrightarrow> fst (validate_steps node_ids seen i steps) = [] \<longleftrightarrow>
     (\<forall>step \<in> set steps. wf_step node_ids step) \<and> distinct (seen @ map (key_of ''id'') steps)"
proof (induction steps arbitrary: seen i)
  case Nil
  then show ?case by simp
next
  case (Cons step steps)
  show ?case
  proof (cases "is_obj step")
    case False
    then have "\<not> wf_step node_ids step" by (auto simp: wf_step_def)
    with False show ?thesis by (simp add: Let_def split_beta)
  next
    case True
    then obtain d where d: "step = JObj d" by (auto simp: is_obj_iff)
    let ?s = "str_or_empty (dget d ''id'')" and ?p = "index_path ''runtime_contract.workflow_steps'' i"
    have key: "key_of ''id'' step = ?s" using d by (simp add: key_of_def)
    show ?thesis
    proof (cases "?s = []")
      case True
      then have "\<not> wf_step node_ids step" using key by (auto simp: wf_step_def)
      with True d show ?thesis by (simp add: Let_def split_beta)
    next
      case False
      have split: "fst (validate_steps node_ids seen i (step # steps)) = [] \<longleftrightarrow>
          validate_step node_ids seen ?p d ?s = []
          \<and> fst (validate_steps node_ids (seen @ [?s]) (Suc i) steps) = []"
        using d False by (simp add: Let_def split_beta)
      have one: "validate_step node_ids seen ?p d ?s = [] \<longleftrightarrow> wf_step node_ids step \<and> ?s \<notin> set seen"
        using wf_step_obj [OF refl, of node_ids seen ?p d] False unfolding d by blast
      have keys: "seen @ map (key_of ''id'') (step # steps) = (seen @ [?s]) @ map (key_of ''id'') steps"
        using key by simp
      show ?thesis
      proof (cases "?s \<in> set seen")
        case True
        then show ?thesis unfolding split one keys by simp
      next
        case fresh: False
        then have "distinct (seen @ [?s])" using Cons.prems by simp
        note ih = Cons.IH [OF this]
        show ?thesis unfolding split one keys ih using fresh by simp
      qed
    qed
  qed
qed

lemma validate_steps_ids:
  "\<forall>step \<in> set steps. wf_step node_ids step \<Longrightarrow>
   snd (validate_steps node_ids seen i steps) = seen @ map (key_of ''id'') steps"
proof (induction steps arbitrary: seen i)
  case Nil
  then show ?case by simp
next
  case (Cons step steps)
  then obtain d where d: "step = JObj d" "key_of ''id'' step \<noteq> []" by (auto simp: wf_step_def)
  then have "str_or_empty (dget d ''id'') = key_of ''id'' step" by (simp add: key_of_def)
  with d Cons show ?case by (simp add: Let_def split_beta)
qed

definition step_ids_of :: "dict \<Rightarrow> string list" where
  "step_ids_of contract = map (key_of ''id'') (list_or_empty (dget contract ''workflow_steps''))"

definition wf_workflow_contract :: "dict \<Rightarrow> string list \<Rightarrow> bool" where
  "wf_workflow_contract contract node_ids \<longleftrightarrow>
     (\<forall>f \<in> set REQUIRED_CONTRACT_FIELDS. \<not> is_blank (dget contract f))
     \<and> step_ids_of contract \<noteq> [] \<and> distinct (step_ids_of contract)
     \<and> (\<forall>step \<in> set (list_or_empty (dget contract ''workflow_steps'')). wf_step node_ids step)
     \<and> (\<exists>cps. dget contract ''wait_checkpoints'' = JArr cps
          \<and> set (step_ids_of contract) \<subseteq> set (checkpoint_step_ids cps))"

lemma validate_checkpoints_Nil:
  "validate_checkpoints ids j = [] \<longleftrightarrow> (\<exists>cps. j = JArr cps \<and> set ids \<subseteq> set (checkpoint_step_ids cps))"
proof -
  have "sort xs = [] \<longleftrightarrow> xs = []" for xs :: "string list"
    by (metis set_empty set_sort)
  then show ?thesis
    by (cases j) (auto simp: validate_checkpoints_def filter_empty_conv)
qed

lemma missing_contract_fields_Nil:
  "missing_contract_fields contract = [] \<longleftrightarrow>
     (\<forall>f \<in> set REQUIRED_CONTRACT_FIELDS. \<not> is_blank (dget contract f))"
  by (simp add: missing_contract_fields_def filter_empty_conv)

lemma validate_workflow_contract_clean:
  "fst (validate_workflow_contract contract node_ids) = [] \<longleftrightarrow> wf_workflow_contract contract node_ids"
proof (cases "list_or_empty (dget contract ''workflow_steps'')")
  case Nil
  then show ?thesis
    unfolding validate_workflow_contract_def wf_workflow_contract_def step_ids_of_def Let_def by simp
next
  case (Cons s ss)
  let ?steps = "list_or_empty (dget contract ''workflow_steps'')"
  have "fst (validate_workflow_contract contract node_ids) = [] \<longleftrightarrow>
      missing_contract_fields contract = [] \<and> fst (validate_steps node_ids [] 0 ?steps) = []
      \<and> validate_checkpoints (snd (validate_steps node_ids [] 0 ?steps))
          (dget contract ''wait_checkpoints'') = []"
    using Cons by (simp only: validate_workflow_contract_def Let_def split_beta if_False
        list.distinct fst_conv append_is_Nil_conv)
  also have "\<dots> \<longleftrightarrow> wf_workflow_contract contract node_ids"
  proof -
    have steps: "fst (validate_steps node_ids [] 0 ?steps) = [] \<longleftrightarrow>
        (\<forall>step \<in> set ?steps. wf_step node_ids step) \<and> distinct (step_ids_of contract)"
      by (simp add: validate_steps_Nil step_ids_of_def)
    have ids: "(\<forall>step \<in> set ?steps. wf_step node_ids step) \<Longrightarrow>
        snd (validate_steps node_ids [] 0 ?steps) = step_ids_of contract"
      by (simp add: validate_steps_ids step_ids_of_def)
    have ne: "step_ids_of contract \<noteq> []"
      using Cons by (simp add: step_ids_of_def)
    show ?thesis
      unfolding wf_workflow_contract_def missing_contract_fields_Nil validate_checkpoints_Nil steps
      using ne by (cases "\<forall>step \<in> set ?steps. wf_step node_ids step") (simp only: ids simp_thms ac_simps, blast)+
  qed
  finally show ?thesis .
qed

lemma validate_workflow_contract_ids:
  "wf_workflow_contract contract node_ids \<Longrightarrow>
   snd (validate_workflow_contract contract node_ids) = step_ids_of contract"
  unfolding wf_workflow_contract_def
  using validate_steps_ids [of "list_or_empty (dget contract ''workflow_steps'')" node_ids "[]" 0]
  by (auto simp: validate_workflow_contract_def Let_def split_beta step_ids_of_def)

section \<open>Nodes of the workflow\<close>

text \<open>
  What a workflow step asks of its two nodes: the instruct node speaks, waits and resumes at
  the evaluate node; the evaluate node is an evaluation turn; both keep their observation.
\<close>

definition wf_instruct :: "string \<Rightarrow> string \<Rightarrow> string \<Rightarrow> dict \<Rightarrow> bool" where
  "wf_instruct iid eid turn d \<longleftrightarrow>
     dget d ''kind'' = JStr ''llm''
     \<and> (\<exists>it. dget d ''interaction'' = JObj it
          \<and> dget it ''runner_turn_kind'' = JStr turn
          \<and> dget it ''output_to_terminal'' = JBool True
          \<and> dget it ''wait_after_output'' = JBool True
          \<and> dget it ''resume_phase'' = JStr eid
          \<and> list_or_empty (dget it ''expected_inputs'') \<noteq> [])
     \<and> writes_own_observation iid d"

definition wf_evaluate :: "string \<Rightarrow> dict \<Rightarrow> bool" where
  "wf_evaluate eid d \<longleftrightarrow>
     dget d ''kind'' = JStr ''llm''
     \<and> (\<exists>it. dget d ''interaction'' = JObj it
          \<and> dget it ''evaluation'' = JBool True
          \<and> dget it ''runner_turn_kind'' = JStr ''evidence_evaluation'')
     \<and> truthy (dget (dict_or_empty (dget d ''projection'')) ''user_template'')
     \<and> writes_own_observation eid d"

definition expected_turn :: "nat \<Rightarrow> string" where
  "expected_turn i = (if i = 0 then ''first_step_instruction'' else ''step_instruction'')"

lemma validate_instruct_Nil:
  "validate_instruct iid eid turn d = [] \<and> validate_own_observation iid d = []
   \<longleftrightarrow> wf_instruct iid eid turn d"
proof (cases "is_obj (dget d ''interaction'')")
  case False
  then show ?thesis
    by (auto simp: wf_instruct_def validate_instruct_def Let_def)
next
  case True
  then obtain it where "dget d ''interaction'' = JObj it" by (auto simp: is_obj_iff)
  then show ?thesis
    unfolding wf_instruct_def validate_instruct_def validate_own_observation_def Let_def
      append_is_Nil_conv if_single_Nil
    by (simp add: ac_simps)
qed

lemma validate_evaluate_Nil:
  "validate_evaluate eid d = [] \<and> validate_own_observation eid d = [] \<longleftrightarrow> wf_evaluate eid d"
proof (cases "is_obj (dget d ''interaction'')")
  case False
  then have "dict_or_empty (dget d ''interaction'') = []"
    by (cases "dget d ''interaction''") simp_all
  with False show ?thesis
    by (auto simp: wf_evaluate_def validate_evaluate_def Let_def dget_def dget_or_def)
next
  case True
  then obtain it where "dget d ''interaction'' = JObj it" by (auto simp: is_obj_iff)
  then show ?thesis
    unfolding wf_evaluate_def validate_evaluate_def validate_own_observation_def Let_def
      append_is_Nil_conv if_single_Nil
    by (simp add: ac_simps)
qed

text \<open>A node's id is unique in an accepted artifact, so the map finds exactly that node.\<close>

lemma node_map_step:
  "node_map (nodes @ [node]) =
     if_obj node (\<lambda>n. if truthy (dget n ''id'')
        then AList.update (py_str (dget n ''id'')) n (node_map nodes) else node_map nodes)
       (node_map nodes)"
  unfolding node_map_def by simp

lemma node_map_Some:
  "map_of (node_map nodes) s = Some d \<Longrightarrow> JObj d \<in> set nodes \<and> py_str (dget d ''id'') = s"
proof (induction nodes rule: rev_induct)
  case Nil
  then show ?case by (simp add: node_map_def)
next
  case (snoc node nodes)
  then show ?case
    unfolding node_map_step by (cases node) (auto split: if_splits)
qed

lemma node_map_present:
  "JObj d \<in> set nodes \<Longrightarrow> truthy (dget d ''id'') \<Longrightarrow>
   map_of (node_map nodes) (py_str (dget d ''id'')) \<noteq> None"
proof (induction nodes rule: rev_induct)
  case Nil
  then show ?case by simp
next
  case (snoc node nodes)
  then show ?case
    unfolding node_map_step by (cases node) auto
qed

lemma node_map_unique:
  assumes dist: "distinct (map node_id_of nodes)"
    and ids: "\<forall>node \<in> set nodes. node_id_of node \<noteq> []"
  shows "map_of (node_map nodes) s = Some d \<longleftrightarrow> JObj d \<in> set nodes \<and> dget d ''id'' = JStr s"
proof -
  have id_str: "dget d ''id'' = JStr (py_str (dget d ''id''))" if "JObj d \<in> set nodes" for d
    using that ids by (cases "dget d ''id''") (auto simp: node_id_of_def)
  have found: "JObj d \<in> set nodes \<and> dget d ''id'' = JStr s" if "map_of (node_map nodes) s = Some d" for d
    using node_map_Some [OF that] id_str by metis
  have "map_of (node_map nodes) s = Some d" if d: "JObj d \<in> set nodes" "dget d ''id'' = JStr s"
  proof -
    have "s \<noteq> []" using d ids by (auto simp: node_id_of_def)
    then obtain e where e: "map_of (node_map nodes) s = Some e"
      using node_map_present [OF d(1)] d(2) by auto
    then have "node_id_of (JObj e) = node_id_of (JObj d)" "JObj e \<in> set nodes"
      using found [OF e] d by (auto simp: node_id_of_def)
    then have "JObj e = JObj d"
      using dist d(1) by (metis distinct_map inj_onD)
    with e show ?thesis by simp
  qed
  with found show ?thesis by blast
qed

definition wf_workflow_nodes :: "json list \<Rightarrow> string list \<Rightarrow> bool" where
  "wf_workflow_nodes nodes ids \<longleftrightarrow>
     (\<forall>s \<in> set ids. s \<notin> set (map node_id_of nodes))
     \<and> (\<exists>fv. JObj fv \<in> set nodes \<and> dget fv ''id'' = JStr ''final_verify''
          \<and> turn_kind (dget fv ''interaction'') = JStr ''final_verification'')
     \<and> (\<forall>i < length ids. \<exists>di de. JObj di \<in> set nodes \<and> JObj de \<in> set nodes
          \<and> dget di ''id'' = JStr (''instruct_'' @ ids ! i)
          \<and> dget de ''id'' = JStr (''evaluate_'' @ ids ! i)
          \<and> wf_instruct (''instruct_'' @ ids ! i) (''evaluate_'' @ ids ! i) (expected_turn i) di
          \<and> wf_evaluate (''evaluate_'' @ ids ! i) de)"

lemma validate_step_nodes_Nil:
  assumes "map_of nmap (''instruct_'' @ s) = Some di" and "map_of nmap (''evaluate_'' @ s) = Some de"
  shows "validate_step_nodes nmap i s = [] \<longleftrightarrow>
    wf_instruct (''instruct_'' @ s) (''evaluate_'' @ s) (expected_turn i) di
    \<and> wf_evaluate (''evaluate_'' @ s) de"
proof -
  have "validate_step_nodes nmap i s =
      validate_instruct (''instruct_'' @ s) (''evaluate_'' @ s) (expected_turn i) di
      @ validate_evaluate (''evaluate_'' @ s) de
      @ validate_own_observation (''instruct_'' @ s) di
      @ validate_own_observation (''evaluate_'' @ s) de"
    unfolding validate_step_nodes_def Let_def assms expected_turn_def prod.case option.case ..
  then show ?thesis
    unfolding validate_instruct_Nil [symmetric] validate_evaluate_Nil [symmetric] by auto
qed

lemma node_id_JStr:
  assumes "node_id_of node \<noteq> []"
  shows "\<exists>d. node = JObj d \<and> dget d ''id'' = JStr (node_id_of node)"
proof (cases node)
  case (JObj d)
  with assms show ?thesis
    by (cases "dget d ''id''") (simp_all add: node_id_of_def)
qed (use assms in \<open>simp_all add: node_id_of_def\<close>)

lemma node_with_id:
  "s \<in> set (map node_id_of nodes) \<Longrightarrow> s \<noteq> [] \<Longrightarrow> \<exists>d. JObj d \<in> set nodes \<and> dget d ''id'' = JStr s"
  using node_id_JStr by fastforce

lemma validate_workflow_nodes_clean:
  assumes dist: "distinct (map node_id_of nodes)"
    and ids: "\<forall>node \<in> set nodes. node_id_of node \<noteq> []"
    and steps: "\<forall>s \<in> set step_ids. ''instruct_'' @ s \<in> set (map node_id_of nodes)
      \<and> ''evaluate_'' @ s \<in> set (map node_id_of nodes)"
    and ne: "step_ids \<noteq> []" and clean: "validate_workflow_nodes nodes step_ids = []"
  shows "wf_workflow_nodes nodes step_ids"
proof -
  let ?m = "node_map nodes"
  note lookup = node_map_unique [OF dist ids]
  have parts: "\<not> list_ex (\<lambda>s. map_of ?m s \<noteq> None) step_ids" "map_of ?m ''final_verify'' \<noteq> None"
    "map_of ?m ''final_verify'' = Some fv \<Longrightarrow> turn_kind (dget fv ''interaction'') = JStr ''final_verification''"
    "\<forall>p \<in> set (enumerate 0 step_ids). validate_step_nodes ?m (fst p) (snd p) = []" for fv
    using clean ne
    by (simp_all add: validate_workflow_nodes_def Let_def split: option.splits if_splits)
  have none: "s \<notin> set (map node_id_of nodes)" if "s \<in> set step_ids" for s
  proof
    assume s: "s \<in> set (map node_id_of nodes)"
    then have "s \<noteq> []" using ids by auto
    then obtain d where "map_of ?m s = Some d"
      using node_with_id [OF s] lookup by blast
    then show False using parts(1) that by (auto simp: list_ex_iff)
  qed
  obtain fv where fv: "JObj fv \<in> set nodes" "dget fv ''id'' = JStr ''final_verify''"
    "turn_kind (dget fv ''interaction'') = JStr ''final_verification''"
    using parts(2,3) lookup by blast
  have "\<exists>di de. JObj di \<in> set nodes \<and> JObj de \<in> set nodes
          \<and> dget di ''id'' = JStr (''instruct_'' @ step_ids ! i)
          \<and> dget de ''id'' = JStr (''evaluate_'' @ step_ids ! i)
          \<and> wf_instruct (''instruct_'' @ step_ids ! i) (''evaluate_'' @ step_ids ! i) (expected_turn i) di
          \<and> wf_evaluate (''evaluate_'' @ step_ids ! i) de" if i: "i < length step_ids" for i
  proof -
    let ?s = "step_ids ! i"
    have "''instruct_'' @ ?s \<in> set (map node_id_of nodes)" "''evaluate_'' @ ?s \<in> set (map node_id_of nodes)"
      using steps i by simp_all
    then obtain di de where d: "JObj di \<in> set nodes" "dget di ''id'' = JStr (''instruct_'' @ ?s)"
      "JObj de \<in> set nodes" "dget de ''id'' = JStr (''evaluate_'' @ ?s)"
      using node_with_id [of "''instruct_'' @ ?s" nodes] node_with_id [of "''evaluate_'' @ ?s" nodes]
      by auto
    have "(i, ?s) \<in> set (enumerate 0 step_ids)"
      using i by (simp add: in_set_enumerate_eq)
    then have "validate_step_nodes ?m i ?s = []" using parts(4) by auto
    with d show ?thesis
      using validate_step_nodes_Nil lookup by blast
  qed
  with none fv show ?thesis unfolding wf_workflow_nodes_def by blast
qed

lemma validate_workflow_nodes_wf:
  assumes dist: "distinct (map node_id_of nodes)"
    and ids: "\<forall>node \<in> set nodes. node_id_of node \<noteq> []"
    and wf: "wf_workflow_nodes nodes step_ids"
  shows "validate_workflow_nodes nodes step_ids = []"
proof -
  let ?m = "node_map nodes"
  note lookup = node_map_unique [OF dist ids] and wf' = wf [unfolded wf_workflow_nodes_def]
  have linear: "\<not> list_ex (\<lambda>s. map_of ?m s \<noteq> None) step_ids"
  proof
    assume "list_ex (\<lambda>s. map_of ?m s \<noteq> None) step_ids"
    then obtain s d where s: "s \<in> set step_ids" "map_of ?m s = Some d" by (auto simp: list_ex_iff)
    then have "JObj d \<in> set nodes" "node_id_of (JObj d) = s"
      using lookup by (auto simp: node_id_of_def)
    then have "s \<in> set (map node_id_of nodes)" by force
    with wf' s(1) show False by blast
  qed
  obtain fv where fv: "map_of ?m ''final_verify'' = Some fv"
    "turn_kind (dget fv ''interaction'') = JStr ''final_verification''"
    using wf' lookup by blast
  have "validate_step_nodes ?m (fst p) (snd p) = []" if p: "p \<in> set (enumerate 0 step_ids)" for p
  proof -
    have p': "fst p < length step_ids" "snd p = step_ids ! fst p"
      using p by (auto simp: in_set_enumerate_eq)
    then obtain di de where "map_of ?m (''instruct_'' @ snd p) = Some di"
      "map_of ?m (''evaluate_'' @ snd p) = Some de"
      "wf_instruct (''instruct_'' @ snd p) (''evaluate_'' @ snd p) (expected_turn (fst p)) di"
      "wf_evaluate (''evaluate_'' @ snd p) de"
      using wf' lookup unfolding p'(2) by blast
    then show ?thesis using validate_step_nodes_Nil by blast
  qed
  then have "concat (map (\<lambda>p. validate_step_nodes ?m (fst p) (snd p)) (enumerate 0 step_ids)) = []"
    by (simp add: concat_eq_Nil)
  with linear fv show ?thesis
    by (simp add: validate_workflow_nodes_def Let_def del: concat_eq_Nil_conv)
qed

section \<open>The contract as a whole\<close>

lemma validate_contract_Nil:
  "validate_contract nodes ids (JObj rc) = [] \<longleftrightarrow>
     wf_workflow_contract rc ids \<and> wf_evidence_contract rc (step_ids_of rc)
     \<and> validate_workflow_nodes nodes (step_ids_of rc) = []"
proof (cases "wf_workflow_contract rc ids")
  case True
  then show ?thesis
    using validate_workflow_contract_clean [of rc ids] validate_workflow_contract_ids [of rc ids]
    by (simp add: validate_contract_def split_beta validate_evidence_contract_Nil)
next
  case False
  then show ?thesis
    using validate_workflow_contract_clean [of rc ids]
    by (simp add: validate_contract_def split_beta)
qed

text \<open>
  In a well-formed artifact the contract draws no diagnostic exactly when every workflow step
  has the nodes the Runtime walks through, among the nodes of the artifact itself.
\<close>

definition wf_contract :: "dict \<Rightarrow> bool" where
  "wf_contract a \<longleftrightarrow>
     (\<exists>rc. dget a ''runtime_contract'' = JObj rc
        \<and> wf_workflow_contract rc (map node_id_of (artifact_nodes a))
        \<and> wf_evidence_contract rc (step_ids_of rc)
        \<and> wf_workflow_nodes (artifact_nodes a) (step_ids_of rc))"

lemma contract_nodes:
  assumes wf: "wf_artifact a"
  shows "validate_contract (artifact_nodes a) (map node_id_of (artifact_nodes a))
    (dget a ''runtime_contract'') = [] \<longleftrightarrow> wf_contract a"
proof -
  let ?nodes = "artifact_nodes a" and ?ids = "map node_id_of (artifact_nodes a)"
  have dist: "distinct ?ids" "?nodes \<noteq> []" "\<forall>node \<in> set ?nodes. node_id_of node \<noteq> []"
    using wf unfolding wf_artifact_def Let_def wf_node_def by blast+
  have "is_obj (dget a ''runtime_contract'')"
    using wf unfolding wf_artifact_def Let_def by blast
  then obtain rc where rc: "dget a ''runtime_contract'' = JObj rc" by (auto simp: is_obj_iff)
  have "validate_workflow_nodes ?nodes (step_ids_of rc) = [] \<longleftrightarrow> wf_workflow_nodes ?nodes (step_ids_of rc)"
    if contract: "wf_workflow_contract rc ?ids"
  proof -
    have "\<forall>s \<in> set (step_ids_of rc). ''instruct_'' @ s \<in> set ?ids \<and> ''evaluate_'' @ s \<in> set ?ids"
    proof
      fix s assume "s \<in> set (step_ids_of rc)"
      then obtain step where "step \<in> set (list_or_empty (dget rc ''workflow_steps''))" "s = key_of ''id'' step"
        unfolding step_ids_of_def by auto
      then have "wf_step ?ids step" "s = key_of ''id'' step"
        using contract unfolding wf_workflow_contract_def by blast+
      then show "''instruct_'' @ s \<in> set ?ids \<and> ''evaluate_'' @ s \<in> set ?ids"
        using dist(2) unfolding wf_step_def by blast
    qed
    moreover have "step_ids_of rc \<noteq> []"
      using contract unfolding wf_workflow_contract_def by blast
    ultimately show ?thesis
      using validate_workflow_nodes_clean validate_workflow_nodes_wf dist by blast
  qed
  then show ?thesis
    unfolding wf_contract_def rc validate_contract_Nil json.inject by blast
qed

end
