(* ===== verification/FormalTheorems.thy ===== *)
theory FormalTheorems
  imports FormalWorkflow
begin

text \<open>
  The properties of the compiler's validator, with a small candidate on which they are
  applied: five nodes, one workflow step, evidence contract version 2.
\<close>

section \<open>A candidate\<close>

definition sample_llm :: "string \<Rightarrow> dict \<Rightarrow> json" where
  "sample_llm i interaction =
     JObj [(''id'', JStr i), (''kind'', JStr ''llm''),
       (''guard'', JObj [(''op'', JStr ''phase_is''), (''value'', JStr i)]),
       (''merge'', JArr [JObj [(''op'', JStr ''assign''), (''path'', JStr (''token.observations.'' @ i)),
          (''from'', JStr ''observation'')]]),
       (''projection'', JObj [(''user_template'', JStr ''t'')]),
       (''interaction'', JObj interaction)]"

definition sample_candidate :: dict where
  "sample_candidate =
     [(''formal_revision'', JStr FORMAL_REVISION), (''schema'', JObj []),
      (''nodes'', JArr
        [JObj [(''id'', JStr ''start''), (''kind'', JStr ''start''), (''guard'', JBool True),
           (''merge'', JArr [])],
         sample_llm ''instruct_a'' [(''runner_turn_kind'', JStr ''first_step_instruction''),
           (''output_to_terminal'', JBool True), (''wait_after_output'', JBool True),
           (''resume_phase'', JStr ''evaluate_a''), (''expected_inputs'', JArr [JStr ''text''])],
         sample_llm ''evaluate_a'' [(''runner_turn_kind'', JStr ''evidence_evaluation''),
           (''evaluation'', JBool True),
           (''transitions'', JObj [(''pass'', JStr ''final_verify''), (''fail'', JStr ''instruct_a'')])],
         sample_llm ''final_verify'' [(''runner_turn_kind'', JStr ''final_verification'')],
         JObj [(''id'', JStr ''terminal''), (''kind'', JStr ''terminal''), (''guard'', JBool True),
           (''merge'', JArr [])]]),
      (''init'', JObj [(''entry_node'', JStr ''start'')]),
      (''halt'', JObj [(''success'', JObj [(''op'', JStr ''eq''), (''path'', JStr ''token.status''),
          (''value'', JStr ''done'')])]),
      (''policies'', JObj []), (''dependency_graph_for_view'', JObj []),
      (''runtime_contract'', JObj
        [(''execution_goal'', JStr ''g''), (''applicability'', JStr ''a''),
         (''workflow_steps'', JArr [JObj [(''id'', JStr ''a''), (''title'', JStr ''t''),
            (''goal'', JStr ''g''), (''source_evidence'', JStr ''e'')]]),
         (''expected_evidence'', JObj [(''a'', JObj [(''requirements'', JArr
            [JObj [(''requirement_key'', JStr ''r''), (''description'', JStr ''d''),
               (''required'', JBool True),
               (''evidence_options'', JArr [JObj [(''option_key'', JStr ''o''),
                  (''kind'', JStr ''image''), (''event_kind'', JStr ''terminal.message''),
                  (''proof_mode'', JStr ''visual'')]])]])])]),
         (''safety_constraints'', JArr [JStr ''s'']),
         (''wait_checkpoints'', JArr [JObj [(''workflow_step_id'', JStr ''a'')]]),
         (''completion_criteria'', JStr ''c''), (''recovery_paths'', JArr [JStr ''p'']),
         (''evidence_contract_version'', JStr ''psop-evidence/v2'')])]"



definition sample_normal_llm :: "string \<Rightarrow> dict \<Rightarrow> json" where
  "sample_normal_llm i interaction =
     JObj [(''id'', JStr i), (''kind'', JStr ''llm''),
       (''guard'', JObj [(''phase_is'', JStr i)]),
       (''merge'', JArr [JObj [(''op'', JStr ''set''), (''path'', JStr (''observations.'' @ i)),
          (''from'', JStr ''observation'')]]),
       (''projection'', JObj [(''user_template'', JStr ''t'')]),
       (''interaction'', JObj interaction),
       (''actor'', JObj [(''name'', JStr ''agent.llm'')])]"

lemma normalize_phase_guard:
  "normalize_guard_shape (JObj [(''op'', JStr ''phase_is''), (''value'', JStr i)])
   = JObj [(''phase_is'', JStr i)]"
  by (simp add: normalize_guard_shape.simps Let_def lower_def lower_char_def)

lemma normalize_bool_guard: "normalize_guard_shape (JBool b) = JBool b"
  by (simp add: normalize_guard_shape.simps)

definition sample_artifact :: dict where
  "sample_artifact = dset ''nodes'' (JArr
      [JObj [(''id'', JStr ''start''), (''kind'', JStr ''start''), (''guard'', JBool True),
         (''merge'', JArr []), (''actor'', JObj [(''name'', JStr ''runtime.start'')])],
       sample_normal_llm ''instruct_a'' [(''runner_turn_kind'', JStr ''first_step_instruction''),
         (''output_to_terminal'', JBool True), (''wait_after_output'', JBool True),
         (''resume_phase'', JStr ''evaluate_a''), (''expected_inputs'', JArr [JStr ''text''])],
       sample_normal_llm ''evaluate_a'' [(''runner_turn_kind'', JStr ''evidence_evaluation''),
         (''evaluation'', JBool True),
         (''transitions'', JObj [(''pass'', JStr ''final_verify''), (''fail'', JStr ''instruct_a'')])],
       sample_normal_llm ''final_verify'' [(''runner_turn_kind'', JStr ''final_verification'')],
       JObj [(''id'', JStr ''terminal''), (''kind'', JStr ''terminal''), (''guard'', JBool True),
         (''merge'', JArr []), (''actor'', JObj [(''name'', JStr ''runtime.terminal'')])]])
     (dset ''halt'' (JObj [(''success'', JObj [(''field_equals'',
         JObj [(''path'', JStr ''status''), (''value'', JStr ''done'')])])]) sample_candidate)"

lemma sample_normalized: "normalize_candidate sample_candidate = Inr sample_artifact"
  by (simp add: sample_candidate_def sample_artifact_def sample_normal_llm_def normalize_candidate_def
      sample_llm_def normalize_node_def normalize_phase_guard normalize_bool_guard
      normalize_merge_shape_def normalize_merge_operation_def in_str_set_def Let_def
      normalize_token_path_def removeprefix_def starts_with_def normalize_merge_source_path_def
      default_actor_def normalize_halt_def normalize_halt_field_def normalize_guard_shape.simps
      lower_def lower_char_def)

lemma sample_wf: "wf_artifact sample_artifact"
  by (simp add: wf_artifact_def sample_artifact_def sample_candidate_def artifact_nodes_def
      artifact_token_fields_def token_fields_def DEFAULT_TOKEN_FIELDS_def REQUIRED_FIELDS_def Let_def
      sample_normal_llm_def wf_node_def node_id_of_def SUPPORTED_NODE_KINDS_def SUPPORTED_ACTORS_def
      actor_name_def tool_name_def wf_guard_obj_iff wf_bool GUARD_KEYS_def wf_merge_op_def path_root_def
      wf_transitions_def transition_target_def)
lemma plain_text [simp]: "s \<noteq> [] \<Longrightarrow> printable (hd s) \<Longrightarrow> printable (last s) \<Longrightarrow> \<not> blank_text (JStr s)"
  by (simp add: blank_text_def strip_plain)

definition sample_rc :: dict where
  "sample_rc = dict_or_empty (dget sample_candidate ''runtime_contract'')"

lemma sample_rc: "dget sample_artifact ''runtime_contract'' = JObj sample_rc"
  by (simp add: sample_artifact_def sample_rc_def sample_candidate_def)

lemma sample_contract:
  "validate_contract (artifact_nodes sample_artifact) (map node_id_of (artifact_nodes sample_artifact))
     (JObj sample_rc) = []"
proof -
  let ?ids = "map node_id_of (artifact_nodes sample_artifact)"
  have steps: "step_ids_of sample_rc = [''a'']"
    by (simp add: sample_rc_def sample_candidate_def step_ids_of_def key_of_def)
  have "wf_workflow_contract sample_rc ?ids"
    unfolding wf_workflow_contract_def steps
    by (simp add: sample_rc_def sample_artifact_def sample_candidate_def is_blank_def
        REQUIRED_CONTRACT_FIELDS_def wf_step_def key_of_def SCAFFOLD_NODE_IDS_def printable_def
        checkpoint_step_ids_def artifact_nodes_def sample_normal_llm_def node_id_of_def)
  moreover have "wf_evidence_contract sample_rc [''a'']"
    by (simp add: sample_rc_def sample_candidate_def wf_evidence_contract_def
        wf_step_evidence_def wf_requirement_def wf_option_def key_of_def printable_def)
  moreover have "validate_workflow_nodes (artifact_nodes sample_artifact) [''a''] = []"
    by (simp add: sample_artifact_def sample_candidate_def validate_workflow_nodes_def
        node_map_def sample_normal_llm_def artifact_nodes_def turn_kind_def validate_step_nodes_def
        validate_instruct_def validate_evaluate_def validate_own_observation_def
        writes_own_observation_def Let_def)
  ultimately show ?thesis
    unfolding validate_contract_Nil steps by blast
qed

lemma sample_wf_contract: "wf_contract sample_artifact"
  using sample_contract contract_nodes [OF sample_wf] sample_rc by simp

lemma sample_accepted:
  "validate_and_normalize_artifact (JObj sample_candidate) = Inr (Some (finish_artifact sample_artifact), [])"
  using check_artifact_wf [OF sample_wf] sample_contract sample_rc
  by (simp add: validate_and_normalize_artifact_def sample_normalized has_errors_def)

section \<open>Properties\<close>

text \<open>
  C5. The validator hands an artifact on exactly when the normalised candidate is well formed,
  and then it draws no diagnostic: node ids are distinct, kinds, actors, guards and merges are
  the supported ones, every transition leads to a node of the artifact, a start and a terminal
  node exist, and every workflow step has its instruct node, which resumes at its evaluate
  node, its checkpoint and its evidence options.
\<close>

theorem validator_accepts_exactly:
  assumes "normalize_candidate c = Inr a"
  shows "((\<exists>x ds. validate_and_normalize_artifact (JObj c) = Inr (Some x, ds)) \<longleftrightarrow>
           wf_artifact a \<and> wf_contract a)
    \<and> (wf_artifact a \<and> wf_contract a \<longrightarrow>
           validate_and_normalize_artifact (JObj c) = Inr (Some (finish_artifact a), []))"
proof -
  have run: "validate_and_normalize_artifact (JObj c) =
      rbind (check_artifact a) (\<lambda>ds. Inr (if has_errors ds then None else Some (finish_artifact a), ds))"
    using assms by (simp add: validate_and_normalize_artifact_def)
  have clean: "ds = []" if "check_artifact a = Inr ds" "\<not> has_errors ds" for ds
    using err_in_check_artifact [OF that(1)] that(2) has_errors_iff by blast
  have accept: "validate_and_normalize_artifact (JObj c) = Inr (Some (finish_artifact a), [])"
    if "wf_artifact a \<and> wf_contract a"
    using that check_artifact_wf [of a] contract_nodes [of a] run by (simp add: has_errors_def)
  have "(\<exists>x ds. validate_and_normalize_artifact (JObj c) = Inr (Some x, ds)) \<longleftrightarrow>
      wf_artifact a \<and> wf_contract a"
  proof
    assume "\<exists>x ds. validate_and_normalize_artifact (JObj c) = Inr (Some x, ds)"
    then obtain ds where "check_artifact a = Inr ds" "\<not> has_errors ds"
      unfolding run by (auto simp: rbind_eq_Inr split: if_splits)
    then have "check_artifact a = Inr []" using clean by blast
    from check_artifact_Nil [OF this] show "wf_artifact a \<and> wf_contract a"
      using contract_nodes by blast
  qed (use accept in blast)
  with accept show ?thesis by blast
qed

theorem validator_accepts_exactly_witness:
  "validate_and_normalize_artifact (JObj sample_candidate)
   = Inr (Some (finish_artifact sample_artifact), [])"
  using validator_accepts_exactly [OF sample_normalized] sample_wf sample_wf_contract by blast

text \<open>
  Every diagnostic of the validator has severity \<^verbatim>\<open>error\<close>, so a run that returns has
  either an artifact and no diagnostics, or no artifact and at least one.
\<close>

theorem validator_artifact_xor_diagnostics:
  assumes "validate_and_normalize_artifact j = Inr (r, ds)"
  shows "list_all is_error ds \<and> (r = None \<longleftrightarrow> ds \<noteq> [])"
proof (cases j)
  case (JObj c)
  then obtain a where a: "check_artifact a = Inr ds"
    "r = (if has_errors ds then None else Some (finish_artifact a))"
    using assms by (auto simp: validate_and_normalize_artifact_def rbind_eq_Inr)
  have "list_all is_error ds"
    by (rule err_in_check_artifact [OF a(1)])
  with a(2) has_errors_iff [of ds] show ?thesis by auto
qed (use assms in \<open>auto simp: validate_and_normalize_artifact_def\<close>)

theorem validator_artifact_xor_diagnostics_witness:
  "list_all is_error [] \<and> (Some (finish_artifact sample_artifact) = None \<longleftrightarrow> ([] :: diag list) \<noteq> [])"
  using validator_artifact_xor_diagnostics [OF sample_accepted] .

text \<open>
  The guard validator is silent exactly on the well-formed guards: a Boolean, or an object
  with the documented keys only, whose paths start at a token field and whose nested guards are
  well formed, at any depth.
\<close>

theorem guard_validator_exact: "validate_guard tf path guard = [] \<longleftrightarrow> wf_guard tf guard"
  by (rule validate_guard_Nil)

lemma validate_node_kind_raises:
  "validate_node_kind path kind = Inl e \<longleftrightarrow> e = TypeErr \<and> \<not> hashable kind"
  by (auto simp: validate_node_kind_def in_str_set_def res_simps)

lemma scan_node_raises:
  "scan_node tf st p = Inl e \<longleftrightarrow> e = TypeErr \<and> (\<exists>n. snd p = JObj n \<and> \<not> hashable (dget n ''kind''))"
  by (cases "snd p") (auto simp: scan_node_def Let_def split_beta rbind_eq_Inl validate_node_kind_raises)

lemma scan_nodes_raises:
  "scan_nodes tf st ps = Inl e \<longleftrightarrow>
     e = TypeErr \<and> (\<exists>p \<in> set ps. \<exists>n. snd p = JObj n \<and> \<not> hashable (dget n ''kind''))"
proof (induction ps arbitrary: st)
  case Nil
  then show ?case by simp
next
  case (Cons p ps)
  show ?case
  proof (cases "scan_node tf st p")
    case (Inl x)
    then show ?thesis using scan_node_raises [of tf st p x] by auto
  next
    case (Inr st1)
    then have "\<not> (\<exists>n. snd p = JObj n \<and> \<not> hashable (dget n ''kind''))"
      using scan_node_raises [of tf st p TypeErr] by auto
    with Inr Cons.IH show ?thesis by auto
  qed
qed

text \<open>
  The checks raise exactly when a node's \<^verbatim>\<open>kind\<close> is a list or a dictionary, and then with
  \<^verbatim>\<open>TypeError\<close> from the set membership test rather than with a diagnostic.
\<close>

theorem validator_raises_on_unhashable_kind:
  "check_artifact a = Inl e \<longleftrightarrow>
     e = TypeErr \<and> (\<exists>n. JObj n \<in> set (artifact_nodes a) \<and> \<not> hashable (dget n ''kind''))"
proof -
  have "check_artifact a = Inl e \<longleftrightarrow> scan_nodes (artifact_token_fields a) empty_scan
      (enumerate 0 (artifact_nodes a)) = Inl e"
    by (simp add: check_artifact_def Let_def rbind_eq_Inl)
  also have "\<dots> \<longleftrightarrow> e = TypeErr \<and>
      (\<exists>p \<in> set (enumerate 0 (artifact_nodes a)). \<exists>n. snd p = JObj n \<and> \<not> hashable (dget n ''kind''))"
    by (rule scan_nodes_raises)
  also have "\<dots> \<longleftrightarrow> e = TypeErr \<and>
      (\<exists>n. JObj n \<in> set (artifact_nodes a) \<and> \<not> hashable (dget n ''kind''))"
    using ball_enumerate_snd [of 0 "artifact_nodes a"
        "\<lambda>node. \<not> (\<exists>n. node = JObj n \<and> \<not> hashable (dget n ''kind''))"] by blast
  finally show ?thesis .
qed

section \<open>Operator guards\<close>

text \<open>The guards in operator notation that agents write, with usable operands.\<close>

definition guard_op :: "dict \<Rightarrow> string" where
  "guard_op g = (if dhas g ''op'' then lower (str_or (dget g ''op'')) else [])"

inductive op_guard :: "string list \<Rightarrow> json \<Rightarrow> bool" for tf where
  op_bool: "op_guard tf (JBool b)"
| op_always: "op_guard tf (JObj g)" if "guard_op g \<in> {''always'', ''true''}"
| op_phase: "op_guard tf (JObj g)"
  if "guard_op g = ''phase_is''" and "dget_or g ''value'' (dget g ''phase'') \<noteq> JNull"
| op_exists: "op_guard tf (JObj g)"
  if "guard_op g = ''field_exists''" and "dget_or g ''path'' (dget g ''value'') = JStr s"
    and "path_root (normalize_token_path False s) \<in> set tf"
| op_equals: "op_guard tf (JObj g)"
  if "guard_op g \<in> {''field_equals'', ''equals'', ''eq''}"
    and "dget_or g ''path'' (dget g ''field'') = JStr s"
    and "path_root (normalize_token_path False s) \<in> set tf"
| op_all: "op_guard tf (JObj g)"
  if "guard_op g \<in> {''and'', ''all''}" and "op_values g = JArr vs" and "\<forall>v \<in> set vs. op_guard tf v"
| op_any: "op_guard tf (JObj g)"
  if "guard_op g \<in> {''or'', ''any''}" and "op_values g = JArr vs" and "\<forall>v \<in> set vs. op_guard tf v"
| op_not: "op_guard tf (JObj g)"
  if "guard_op g = ''not''" and "op_guard tf (dget_or g ''condition'' (dget g ''value''))"

lemmas normalize_obj =
  normalize_guard_shape.simps [of "JObj g" for g, unfolded Let_def if_obj_simps,
    folded guard_op_def]

lemma normalize_op_guard: "op_guard tf guard \<Longrightarrow> wf_guard tf (normalize_guard_shape guard)"
proof (induction rule: op_guard.induct)
  case (op_bool b)
  then show ?case by (simp add: normalize_guard_shape.simps wf_bool)
next
  case (op_always g)
  then have "normalize_guard_shape (JObj g) = JObj [(''always'', JBool True)]"
    by (simp add: normalize_obj)
  then show ?case by (simp add: wf_guard_obj_iff GUARD_KEYS_def)
next
  case (op_phase g)
  then have "normalize_guard_shape (JObj g) =
      JObj [(''phase_is'', JStr (py_str (dget_or g ''value'' (dget g ''phase''))))]"
    by (simp add: normalize_obj)
  then show ?case by (simp add: wf_guard_obj_iff GUARD_KEYS_def)
next
  case (op_exists g s)
  then have "normalize_guard_shape (JObj g) =
      JObj [(''field_exists'', JStr (normalize_token_path False s))]"
    by (simp add: normalize_obj)
  with op_exists show ?case by (simp add: wf_guard_obj_iff GUARD_KEYS_def)
next
  case (op_equals g s)
  then have "normalize_guard_shape (JObj g) =
      JObj [(''field_equals'', JObj [(''path'', JStr (normalize_token_path False s)),
        (''value'', dget g ''value'')])]"
    by (auto simp: normalize_obj)
  with op_equals show ?case by (simp add: wf_guard_obj_iff GUARD_KEYS_def)
next
  case (op_all g vs)
  then have "normalize_guard_shape (JObj g) = JObj [(''all'', JArr (map normalize_guard_shape vs))]"
    by (auto simp: normalize_obj)
  with op_all show ?case by (simp add: wf_guard_obj_iff GUARD_KEYS_def)
next
  case (op_any g vs)
  then have "normalize_guard_shape (JObj g) = JObj [(''any'', JArr (map normalize_guard_shape vs))]"
    by (auto simp: normalize_obj)
  with op_any show ?case by (simp add: wf_guard_obj_iff GUARD_KEYS_def)
next
  case (op_not g)
  then have "normalize_guard_shape (JObj g) =
      JObj [(''not'', normalize_guard_shape (dget_or g ''condition'' (dget g ''value'')))]"
    by (simp add: normalize_obj)
  with op_not show ?case by (simp add: wf_guard_obj_iff GUARD_KEYS_def)
qed

text \<open>
  A guard written with operators (\<^verbatim>\<open>and\<close>, \<^verbatim>\<open>or\<close>, \<^verbatim>\<open>not\<close>, \<^verbatim>\<open>phase_is\<close>, \<^verbatim>\<open>eq\<close>, ...) over token
  fields is rewritten by the normaliser to a guard that the validator accepts, wherever the
  node stands in the artifact.
\<close>

theorem operator_guards_are_accepted:
  assumes "op_guard tf guard"
  shows "validate_guard tf path (normalize_guard_shape guard) = []"
  unfolding validate_guard_Nil by (rule normalize_op_guard [OF assms])

theorem operator_guards_are_accepted_witness:
  "validate_guard [''status''] ''nodes[0].guard'' (normalize_guard_shape
     (JObj [(''op'', JStr ''NOT''), (''condition'',
        JObj [(''op'', JStr ''eq''), (''path'', JStr ''token.status''), (''value'', JStr ''done'')])])) = []"
proof (rule operator_guards_are_accepted, rule op_not)
  show "guard_op [(''op'', JStr ''NOT''), (''condition'',
        JObj [(''op'', JStr ''eq''), (''path'', JStr ''token.status''), (''value'', JStr ''done'')])] = ''not''"
    by (simp add: guard_op_def lower_def lower_char_def char_of_eq_iff)
  show "op_guard [''status''] (dget_or [(''op'', JStr ''NOT''), (''condition'',
        JObj [(''op'', JStr ''eq''), (''path'', JStr ''token.status''), (''value'', JStr ''done'')])]
      ''condition'' (dget [(''op'', JStr ''NOT''), (''condition'',
        JObj [(''op'', JStr ''eq''), (''path'', JStr ''token.status''), (''value'', JStr ''done'')])] ''value''))"
    by (simp, rule op_equals [where s = "''token.status''"])
      (simp_all add: guard_op_def lower_def lower_char_def normalize_token_path_def
        removeprefix_def starts_with_def path_root_def)
qed

end
