(* ===== verification/Guards.thy ===== *)
theory Guards
  imports TokenPath "HOL-Library.Product_Lexorder"
begin

text \<open>
  Guards, halting conditions and the choice of the next node, from \<^verbatim>\<open>RuntimeService\<close> in
  \<^verbatim>\<open>backend/app/domain/runtime/service.py\<close>. The boolean meaning of a guard is given apart from
  the code's early returns (\<open>guard_holds\<close>), and the code is proved equal to it.
\<close>

section \<open>Iteration and literals\<close>

text \<open>UTF-8 bytes of the literals that are not ASCII.\<close>

definition u8 :: "nat list \<Rightarrow> string" where
  "u8 bs = map char_of bs"

text \<open>The code points of a string, each as a string of its own.\<close>

fun code_points :: "string \<Rightarrow> string list" where
  "code_points [] = []"
| "code_points (c # cs) =
     (case code_points cs of
        [] \<Rightarrow> [[c]]
      | p # ps \<Rightarrow> (case p of [] \<Rightarrow> [c] # ps | d # _ \<Rightarrow> if is_cont d then (c # p) # ps else [c] # p # ps))"

text \<open>\<^verbatim>\<open>for item in value\<close>\<close>

fun iter_items :: "json \<Rightarrow> json list res" where
  "iter_items (JArr xs) = Inr xs"
| "iter_items (JObj d) = Inr (map (JStr \<circ> fst) d)"
| "iter_items (JStr s) = Inr (map JStr (code_points s))"
| "iter_items _ = Inl TypeErr"

section \<open>Guards\<close>

lemma size_dget_all: "size (dget g k) < size (JObj g)"
  using size_map_of [of g k] by (auto simp: dget_def dget_or_def split: option.splits)

lemma size_dget_item: "dget g k = JArr vs \<Longrightarrow> v \<in> set vs \<Longrightarrow> size v < size (JObj g)"
  using size_dget_all [of g k] size_arr_elem [of v vs] by simp

function evaluate_guard :: "dict \<Rightarrow> json \<Rightarrow> bool" where
  "evaluate_guard token guard =
     (if is_bool guard then guard = JBool True
      else if_obj guard
          (\<lambda>g.
             if dget g ''always'' = JBool True then True
             else if dhas g ''phase_is'' \<and> \<not> py_eq (dget token ''phase'') (dget g ''phase_is'') then False
             else if dhas g ''field_exists''
                \<and> get_path (JObj token) (py_str (dget g ''field_exists'')) = JNull then False
             else if dhas g ''field_equals'' \<and>
                if_obj (dget g ''field_equals'')
                  (\<lambda>fe. \<not> py_eq (get_path (JObj token) (py_str (dget fe ''path''))) (dget fe ''value''))
                  True then False
             else if dhas g ''all'' \<and>
                if_arr (dget g ''all'') (\<lambda>vs. \<not> list_all (evaluate_guard token) vs) True then False
             else if dhas g ''any'' \<and>
                if_arr (dget g ''any'') (\<lambda>vs. \<not> list_ex (evaluate_guard token) vs) True then False
             else if dhas g ''not'' \<and> evaluate_guard token (dget g ''not'') then False
             else True)
          False)"
  by pat_completeness auto

termination
  by (relation "measure (\<lambda>(token, guard). size guard)")
    (auto simp: size_dget_all simp del: json.size intro: size_dget_item)

declare evaluate_guard.simps [simp del]

lemmas evaluate_guard_obj =
  evaluate_guard.simps [of token "JObj g" for token g, unfolded is_bool.simps if_False if_obj_simps]

section \<open>What a guard says\<close>

text \<open>
  A guard read as a formula: an object is the conjunction of the conditions it lists, \<^verbatim>\<open>all\<close>,
  \<^verbatim>\<open>any\<close> and \<^verbatim>\<open>not\<close> are the connectives, and a value of the wrong type is false.
\<close>

datatype formula =
    FConst bool | FPhase json | FExists string | FEquals string json
  | FAnd "formula list" | FOr "formula list" | FNot formula

fun holds :: "dict \<Rightarrow> formula \<Rightarrow> bool" where
  "holds token (FConst b) = b"
| "holds token (FPhase v) = py_eq (dget token ''phase'') v"
| "holds token (FExists p) = (get_path (JObj token) p \<noteq> JNull)"
| "holds token (FEquals p v) = py_eq (get_path (JObj token) p) v"
| "holds token (FAnd fs) = (\<forall>f \<in> set fs. holds token f)"
| "holds token (FOr fs) = (\<exists>f \<in> set fs. holds token f)"
| "holds token (FNot f) = (\<not> holds token f)"

definition field_formulas :: "dict \<Rightarrow> formula list" where
  "field_formulas g =
     (if dhas g ''phase_is'' then [FPhase (dget g ''phase_is'')] else [])
     @ (if dhas g ''field_exists'' then [FExists (py_str (dget g ''field_exists''))] else [])
     @ (if dhas g ''field_equals''
        then [if_obj (dget g ''field_equals'')
                (\<lambda>fe. FEquals (py_str (dget fe ''path'')) (dget fe ''value'')) (FConst False)]
        else [])"

function guard_formula :: "json \<Rightarrow> formula" where
  "guard_formula guard =
     (if is_bool guard then FConst (guard = JBool True)
      else if_obj guard
          (\<lambda>g. if dget g ''always'' = JBool True then FConst True
             else FAnd (field_formulas g
               @ (if dhas g ''all''
                  then [if_arr (dget g ''all'') (\<lambda>vs. FAnd (map guard_formula vs)) (FConst False)]
                  else [])
               @ (if dhas g ''any''
                  then [if_arr (dget g ''any'') (\<lambda>vs. FOr (map guard_formula vs)) (FConst False)]
                  else [])
               @ (if dhas g ''not'' then [FNot (guard_formula (dget g ''not''))] else [])))
          (FConst False))"
  by pat_completeness auto
termination
  by (relation "measure size")
    (auto simp: size_dget_all simp del: json.size intro: size_dget_item)

declare guard_formula.simps [simp del]

lemmas guard_formula_obj =
  guard_formula.simps [of "JObj g" for g, unfolded is_bool.simps if_False if_obj_simps]

lemma field_formulas_hold:
  "(\<forall>f \<in> set (field_formulas g). holds token f) \<longleftrightarrow>
     (dhas g ''phase_is'' \<longrightarrow> py_eq (dget token ''phase'') (dget g ''phase_is''))
     \<and> (dhas g ''field_exists'' \<longrightarrow>
          get_path (JObj token) (py_str (dget g ''field_exists'')) \<noteq> JNull)
     \<and> (dhas g ''field_equals'' \<longrightarrow> \<not> if_obj (dget g ''field_equals'')
          (\<lambda>fe. \<not> py_eq (get_path (JObj token) (py_str (dget fe ''path''))) (dget fe ''value'')) True)"
proof -
  have "holds token (if_obj j (\<lambda>fe. FEquals (py_str (dget fe ''path'')) (dget fe ''value'')) (FConst False))
      \<longleftrightarrow> \<not> if_obj j (\<lambda>fe. \<not> py_eq (get_path (JObj token) (py_str (dget fe ''path''))) (dget fe ''value'')) True"
    for j by (cases j) simp_all
  then show ?thesis
    by (auto simp: field_formulas_def)
qed

lemma evaluate_guard_formula: "evaluate_guard token guard = holds token (guard_formula guard)"
proof (induction guard rule: guard_formula.induct)
  case (1 guard)
  show ?case
  proof (cases "is_obj guard")
    case False
    then show ?thesis
      by (cases guard) (simp_all add: evaluate_guard.simps guard_formula.simps)
  next
    case True
    then obtain g where g: "guard = JObj g" by (auto simp: is_obj_iff)
    show ?thesis
    proof (cases "dget g ''always'' = JBool True")
      case True
      with g show ?thesis by (simp add: evaluate_guard_obj guard_formula_obj)
    next
      case na: False
      then have nb: "\<not> is_bool guard" using g by simp
      note ih = "1.IH" [OF nb g na]
      have all: "holds token (if_arr (dget g ''all'') (\<lambda>vs. FAnd (map guard_formula vs)) (FConst False))
          \<longleftrightarrow> \<not> if_arr (dget g ''all'') (\<lambda>vs. \<not> list_all (evaluate_guard token) vs) True"
        if "dhas g ''all''"
        using ih(1) that by (cases "dget g ''all''") (auto simp: list_all_iff)
      have any: "holds token (if_arr (dget g ''any'') (\<lambda>vs. FOr (map guard_formula vs)) (FConst False))
          \<longleftrightarrow> \<not> if_arr (dget g ''any'') (\<lambda>vs. \<not> list_ex (evaluate_guard token) vs) True"
        if "dhas g ''any''"
        using ih(2) that by (cases "dget g ''any''") (auto simp: list_ex_iff)
      have neg: "evaluate_guard token (dget g ''not'') = holds token (guard_formula (dget g ''not''))"
        if "dhas g ''not''"
        using ih(3) that by simp
      have parts: "dhas g ''all'' \<and> if_arr (dget g ''all'') (\<lambda>vs. \<not> list_all (evaluate_guard token) vs) True
          \<longleftrightarrow> \<not> (dhas g ''all'' \<longrightarrow>
            holds token (if_arr (dget g ''all'') (\<lambda>vs. FAnd (map guard_formula vs)) (FConst False)))"
        "dhas g ''any'' \<and> if_arr (dget g ''any'') (\<lambda>vs. \<not> list_ex (evaluate_guard token) vs) True
          \<longleftrightarrow> \<not> (dhas g ''any'' \<longrightarrow>
            holds token (if_arr (dget g ''any'') (\<lambda>vs. FOr (map guard_formula vs)) (FConst False)))"
        "dhas g ''not'' \<and> evaluate_guard token (dget g ''not'')
          \<longleftrightarrow> \<not> (dhas g ''not'' \<longrightarrow> \<not> holds token (guard_formula (dget g ''not'')))"
        using all any neg by blast+
      have single: "(\<forall>f \<in> set (if b then [x] else []). P f) \<longleftrightarrow> (b \<longrightarrow> P x)" for b x and P :: "formula \<Rightarrow> bool"
        by simp
      show ?thesis
        unfolding g evaluate_guard_obj guard_formula_obj
        unfolding if_not_P [OF na] holds.simps set_append ball_Un field_formulas_hold single parts
        by argo
    qed
  qed
qed

section \<open>Enabled nodes\<close>

definition only_objs :: "json list \<Rightarrow> dict list" where
  "only_objs items = concat (map (\<lambda>j. if_obj j (\<lambda>d. [d]) []) items)"

lemma set_only_objs [simp]: "d \<in> set (only_objs items) \<longleftrightarrow> JObj d \<in> set items"
  by (auto simp: only_objs_def in_set_if_type)

definition enabled_nodes :: "dict \<Rightarrow> dict \<Rightarrow> dict list res" where
  "enabled_nodes artifact token =
     rbind (iter_items (dget_or artifact ''nodes'' (JArr []))) (\<lambda>items.
       Inr (filter (\<lambda>node. evaluate_guard token
           (dget_or node ''guard'' (JObj [(''always'', JBool True)]))) (only_objs items)))"

lemma set_enabled_nodes:
  "enabled_nodes artifact token = Inr ns \<Longrightarrow> dget artifact ''nodes'' = JArr items \<Longrightarrow>
   set ns = {n. JObj n \<in> set items
     \<and> evaluate_guard token (dget_or n ''guard'' (JObj [(''always'', JBool True)]))}"
  by (auto simp: enabled_nodes_def dget_def dget_or_def rbind_eq_Inr split: option.splits)

section \<open>Selection\<close>

definition select_key :: "dict \<Rightarrow> (int \<times> string) res" where
  "select_key node =
     rbind
       (if_obj (dget_or node ''policy'' (JObj []))
          (\<lambda>policy. py_int (dget_or policy ''priority'' (dget_or node ''priority'' (JInt 100))))
          (Inr 100))
       (\<lambda>priority. Inr (priority, py_str (dget_or node ''id'' (JStr []))))"

definition select_node :: "dict list \<Rightarrow> dict res" where
  "select_node nodes =
     rbind (rmap select_key nodes) (\<lambda>keys.
       case sort_key fst (zip keys nodes) of
         [] \<Rightarrow> Inl IndexErr
       | kn # _ \<Rightarrow> Inr (snd kn))"

lemma sort_key_hd_min:
  assumes "sort_key f xs = y # ys"
  shows "y \<in> set xs \<and> (\<forall>x \<in> set xs. f y \<le> f x)"
proof -
  have "sorted (map f (y # ys))" "set (y # ys) = set xs"
    using sorted_sort_key [of f xs] set_sort [of f xs] unfolding assms by auto
  then show ?thesis by auto
qed

lemma sort_key_hd_first:
  assumes "sort_key f xs = y # ys"
  shows "\<exists>i < length xs. xs ! i = y \<and> (\<forall>j < i. f y < f (xs ! j))"
proof -
  have "filter (\<lambda>x. f x = f y) xs = filter (\<lambda>x. f x = f y) (sort_key f xs)"
    by (rule sort_key_stable [symmetric])
  also have "\<dots> = y # filter (\<lambda>x. f x = f y) ys"
    unfolding assms by simp
  finally obtain us vs where us: "xs = us @ y # vs" "\<forall>u \<in> set us. f u \<noteq> f y"
    using filter_eq_ConsD [of "\<lambda>x. f x = f y" xs y] by blast
  have "f y < f (xs ! j)" if "j < length us" for j
  proof -
    have u: "xs ! j = us ! j" "us ! j \<in> set us" using that us(1) by (simp_all add: nth_append)
    then have "f y \<le> f (us ! j)" using sort_key_hd_min [OF assms] us(1) by auto
    with us(2) u show ?thesis by fastforce
  qed
  with us(1) show ?thesis by (intro exI [of _ "length us"]) auto
qed

lemma select_node_first_min:
  assumes "select_node nodes = Inr n"
  shows "\<exists>i < length nodes. nodes ! i = n
    \<and> (\<exists>k. select_key n = Inr k
         \<and> (\<forall>j < length nodes. \<exists>kj. select_key (nodes ! j) = Inr kj \<and> k \<le> kj \<and> (j < i \<longrightarrow> k < kj)))"
proof -
  obtain keys where keys: "rmap select_key nodes = Inr keys"
    using assms by (auto simp: select_node_def rbind_eq_Inr)
  then obtain p ps where sorted: "sort_key fst (zip keys nodes) = p # ps" and n: "n = snd p"
    using assms by (cases "sort_key fst (zip keys nodes)") (auto simp: select_node_def)
  have all2: "list_all2 (\<lambda>x y. select_key x = Inr y) nodes keys"
    using keys by (simp add: rmap_eq_Inr)
  then have len: "length keys = length nodes" by (simp add: list_all2_lengthD)
  have nth: "select_key (nodes ! i) = Inr (keys ! i)" if "i < length nodes" for i
    using all2 that by (simp add: list_all2_conv_all_nth)
  obtain i where i: "i < length nodes" "(keys ! i, nodes ! i) = p"
    and first: "\<forall>j < i. fst p < keys ! j"
    using sort_key_hd_first [OF sorted] len by auto
  have min: "fst p \<le> keys ! j" if "j < length nodes" for j
  proof -
    have "(keys ! j, nodes ! j) \<in> set (zip keys nodes)" using that len by (auto simp: set_zip)
    then show ?thesis using sort_key_hd_min [OF sorted] by fastforce
  qed
  have "fst p = keys ! i" "n = nodes ! i" using i(2) n by auto
  with i(1) nth min first show ?thesis by auto
qed

lemma select_node_in: "select_node nodes = Inr n \<Longrightarrow> n \<in> set nodes"
  using select_node_first_min nth_mem by blast

section \<open>Halting\<close>

definition halt_condition :: "dict \<Rightarrow> dict \<Rightarrow> string \<Rightarrow> string \<Rightarrow> bool" where
  "halt_condition artifact token key status =
     (let cond = if_obj (dget_or artifact ''halt'' (JObj [])) (\<lambda>h. dget h key) JNull;
          fallback = py_eq (dget token ''status'') (JStr status) in
      if_obj cond
        (\<lambda>c. if dhas c ''field_equals''
           then if_obj (dget c ''field_equals'')
             (\<lambda>fe. py_eq (get_path (JObj token) (py_str (dget fe ''path''))) (dget fe ''value''))
             fallback
           else fallback)
        fallback)"

definition halt_success :: "dict \<Rightarrow> dict \<Rightarrow> bool" where
  "halt_success artifact token = halt_condition artifact token ''success'' ''success''"

definition halt_aborted :: "dict \<Rightarrow> dict \<Rightarrow> bool" where
  "halt_aborted artifact token = halt_condition artifact token ''aborted'' ''aborted''"

definition halt_wait :: "dict \<Rightarrow> dict \<Rightarrow> bool" where
  "halt_wait artifact token = halt_condition artifact token ''wait'' ''waiting''"

definition initial_phase :: "dict \<Rightarrow> string" where
  "initial_phase artifact =
     if_obj (dget_or artifact ''init'' (JObj []))
       (\<lambda>init. if_str (dget init ''entry_node'') (\<lambda>s. s) ''start'') ''start''"

end
