(* ===== verification/Texts.thy ===== *)
theory Texts
  imports Guards
begin

text \<open>
  The user-visible sentences of \<^verbatim>\<open>service.py\<close> that end up in tokens, events and runs, as UTF-8
  bytes.
\<close>

definition STARTED_SUMMARY :: string where
  "STARTED_SUMMARY =
     ''Runtime '' @ u8 [229, 183, 178, 229, 136, 157, 229, 167, 139, 229, 140, 150] @
      '' Session Token'' @ u8 [227, 128, 130]"

definition INPUT_SUMMARY :: string where
  "INPUT_SUMMARY =
     u8 [229, 183, 178, 230, 142, 165, 230, 148, 182, 231, 148, 168, 230, 136, 183,
      232, 190, 147, 229, 133, 165, 227, 128, 130]"

definition RUN_DONE :: string where
  "RUN_DONE =
     ''Run '' @ u8 [229, 183, 178, 229, 174, 140, 230, 136, 144, 227, 128, 130]"

definition DEMO_RESULT :: string where
  "DEMO_RESULT =
     ''demo tool '' @ u8 [229, 183, 178, 229, 174, 140, 230, 136, 144, 232, 190, 147,
      229, 133, 165, 230, 163, 128, 230, 159, 165, 227, 128, 130]"

definition WIDE_QUESTION :: string where
  "WIDE_QUESTION =
     u8 [239, 188, 159]"

definition TOOL_CHECK :: string where
  "TOOL_CHECK =
     u8 [229, 183, 165, 229, 133, 183, 230, 163, 128, 230, 159, 165, 239, 188, 154]"

definition INPUT_LENGTH_TEXT :: string where
  "INPUT_LENGTH_TEXT =
     u8 [232, 190, 147, 229, 133, 165, 233, 149, 191, 229, 186, 166] @ '' ''"

definition QUESTION_TEXT :: string where
  "QUESTION_TEXT =
     u8 [239, 188, 140, 230, 152, 175, 229, 144, 166, 229, 140, 133, 229, 144, 171,
      233, 151, 174, 233, 162, 152, 239, 188, 154]"

definition YES_TEXT :: string where
  "YES_TEXT =
     u8 [230, 152, 175]"

definition NO_TEXT :: string where
  "NO_TEXT =
     u8 [229, 144, 166]"

definition FULL_STOP :: string where
  "FULL_STOP =
     u8 [227, 128, 130]"

definition STEP_TIMEOUT_TEXT :: string where
  "STEP_TIMEOUT_TEXT =
     ''Runtime '' @ u8 [232, 138, 130, 231, 130, 185, 230, 137, 167, 232, 161, 140,
      232, 182, 133, 232, 191, 135, 230, 128, 187, 230, 151, 182, 233, 153, 144, 227,
      128, 130]"

definition RUNNER_FAILED_TEXT :: string where
  "RUNNER_FAILED_TEXT =
     ''psop.runner '' @ u8 [230, 137, 167, 232, 161, 140, 229, 164, 177, 232, 180,
      165, 239, 188, 154]"

definition AWAIT_EVIDENCE_TEXT :: string where
  "AWAIT_EVIDENCE_TEXT =
     u8 [231, 173, 137, 229, 190, 133, 231, 148, 168, 230, 136, 183, 230, 143, 144,
      228, 186, 164, 231, 142, 176, 229, 156, 186, 232, 175, 129, 230, 141, 174, 227,
      128, 130]"

definition MORE_EVIDENCE_TEXT :: string where
  "MORE_EVIDENCE_TEXT =
     u8 [231, 173, 137, 229, 190, 133, 230, 155, 180, 229, 164, 154, 231, 142, 176,
      229, 156, 186, 232, 175, 129, 230, 141, 174, 227, 128, 130]"

definition TERMINATED_TEXT :: string where
  "TERMINATED_TEXT =
     u8 [228, 187, 187, 229, 138, 161, 229, 183, 178, 231, 187, 136, 230, 173, 162,
      227, 128, 130]"

definition RECOVERABLE_TEXT :: string where
  "RECOVERABLE_TEXT =
     u8 [229, 136, 154, 230, 137, 141, 230, 156, 141, 229, 138, 161, 229, 153, 168,
      229, 188, 128, 229, 176, 143, 229, 183, 174, 228, 186, 134, 239, 188, 140, 232,
      175, 183, 230, 130, 168, 233, 135, 141, 232, 175, 149, 239, 188, 129]"

definition RUNNER_NOT_OBJECT_TEXT :: string where
  "RUNNER_NOT_OBJECT_TEXT =
     ''runner-observation.json '' @ u8 [229, 191, 133, 233, 161, 187, 230, 152, 175]
      @ '' JSON object'' @ u8 [227, 128, 130]"

definition RUN_STOPPED_TEXT :: string where
  "RUN_STOPPED_TEXT =
     u8 [230, 137, 167, 232, 161, 140, 229, 164, 177, 232, 180, 165, 239, 188, 140, 229,
      189, 147, 229, 137, 141, 232, 191, 144, 232, 161, 140, 229, 183, 178, 229, 129, 156,
      230, 173, 162, 227, 128, 130]"

definition REASON_TEXT :: string where
  "REASON_TEXT = u8 [233, 148, 153, 232, 175, 175, 229, 142, 159, 229, 155, 160, 239, 188, 154]"

definition SEE_TRACE_TEXT :: string where
  "SEE_TRACE_TEXT =
     u8 [232, 175, 183, 230, 159, 165, 231, 156, 139, 232, 191, 144, 232, 161, 140, 229, 155,
      158, 230, 148, 190, 230, 136, 150] @ '' Trace Events '' @
     u8 [232, 142, 183, 229, 143, 150, 230, 155, 180, 229, 164, 154, 230, 142, 146, 233, 154,
      156, 228, 191, 161, 230, 129, 175, 227, 128, 130]"

definition UNKNOWN_ERROR_TEXT :: string where
  "UNKNOWN_ERROR_TEXT = u8 [230, 156, 170, 231, 159, 165, 233, 148, 153, 232, 175, 175]"

definition NEWLINES :: string where
  "NEWLINES = u8 [10, 10]"

end
