(* ===== verification/Observation.thy ===== *)
theory Observation
  imports Texts
begin

text \<open>
  Executing a node and merging what it observed into the token: \<^verbatim>\<open>_execute_node\<close>,
  \<^verbatim>\<open>_execute_runner_agent_node\<close> and \<^verbatim>\<open>_merge_observation\<close>. The agent harness stands behind a
  record of functions (\<open>runner_env\<close>): what it returns for a node and a token, the file its
  sandbox holds, and the validation of that file.

  Values are copied here where Python shares them: a merge starts from a fresh copy of the
  token, but a value that one of its operations copies stays shared with its source, so a later
  operation that writes below either changes both. \<open>unshared_writes\<close> is the condition on a
  node's merge under which this cannot happen.
\<close>

section \<open>Reading\<close>

text \<open>\<^verbatim>\<open>x.get(k, d)\<close>, \<^verbatim>\<open>k in x\<close> and \<^verbatim>\<open>x[k]\<close> on a value of any type.\<close>

definition obj_get :: "json \<Rightarrow> string \<Rightarrow> json \<Rightarrow> json res" where
  "obj_get j k v = if_obj j (\<lambda>d. Inr (dget_or d k v)) (Inl AttrErr)"

fun py_in :: "json \<Rightarrow> json \<Rightarrow> bool res" where
  "py_in x (JObj d) = (if hashable x then Inr (if_str x (dhas d) False) else Inl TypeErr)"
| "py_in x (JArr xs) = Inr (list_ex (\<lambda>y. py_eq y x) xs)"
| "py_in x (JStr s) = if_str x (\<lambda>t. Inr (str_contains t s)) (Inl TypeErr)"
| "py_in x _ = Inl TypeErr"

definition py_index :: "json \<Rightarrow> string \<Rightarrow> json res" where
  "py_index j k =
     if_obj j (\<lambda>d. if dhas d k then Inr (dget d k) else Inl KeyErr) (Inl TypeErr)"

definition actor_name_of :: "json \<Rightarrow> string" where
  "actor_name_of actor =
     (if is_str actor then str_or_empty actor
      else if_obj actor
        (\<lambda>a. if is_str (dget a ''name'') then str_or_empty (dget a ''name'')
             else if dget a ''type'' = JStr ''llm'' then ''agent.llm''
             else if dget a ''type'' = JStr ''tool'' then ''capability.demo_tool''
             else if dget a ''type'' = JStr ''runtime'' \<and> is_str (dget a ''operation'')
               then ''runtime.'' @ str_or_empty (dget a ''operation'')
             else [])
        [])"

definition extract_user_input :: "json \<Rightarrow> dict \<Rightarrow> string res" where
  "extract_user_input envelope artifact =
     rbind (obj_get (dget_or artifact ''schema'' (JObj [])) ''input_name'' JNull) (\<lambda>n1.
     rbind (if truthy n1 then Inr n1
            else obj_get (dget_or artifact ''interface'' (JObj [])) ''input_name'' (JStr ''user_input''))
       (\<lambda>name.
     rbind (py_in name envelope) (\<lambda>has_name.
       if has_name then rbind (py_index envelope (str_or_empty name)) (\<lambda>v. Inr (py_str v))
       else rbind (py_in (JStr ''user_input'') envelope) (\<lambda>has_user.
         if has_user then rbind (py_index envelope ''user_input'') (\<lambda>v. Inr (py_str v))
         else rbind (py_in (JStr ''text'') envelope) (\<lambda>has_text.
           if has_text then rbind (py_index envelope ''text'') (\<lambda>v. Inr (py_str v))
           else Inr (dumps envelope))))))"

text \<open>\<^verbatim>\<open>_last_observation_content\<close>: the newest observation that has something to say.\<close>

definition observation_content :: "json \<Rightarrow> json" where
  "observation_content value =
     if_obj value
       (\<lambda>o1. py_or (py_or (dget o1 ''content'') (dget o1 ''final_response'')) (dget o1 ''summary''))
       JNull"

definition last_observation_content :: "dict \<Rightarrow> string" where
  "last_observation_content token =
     if_obj (dget_or token ''observations'' (JObj []))
       (\<lambda>obs. case find truthy (map (observation_content \<circ> snd) (rev obs)) of
          Some c \<Rightarrow> py_str c
        | None \<Rightarrow> [])
       []"

section \<open>The demo tool and the final output\<close>

definition run_demo_tool :: "string \<Rightarrow> string \<Rightarrow> dict" where
  "run_demo_tool user_input llm_output =
     [(''tool_name'', JStr ''psop.demo.inspect_input''),
      (''input_length'', JInt (int (py_len user_input))),
      (''llm_output_length'', JInt (int (py_len llm_output))),
      (''contains_question'',
        JBool (str_contains ''?'' user_input \<or> str_contains WIDE_QUESTION user_input)),
      (''result'', JStr DEMO_RESULT)]"

definition compose_final_output :: "string \<Rightarrow> dict \<Rightarrow> string res" where
  "compose_final_output llm_output tool_result =
     rbind (py_index (JObj tool_result) ''result'') (\<lambda>result.
     rbind (py_index (JObj tool_result) ''input_length'') (\<lambda>len.
     rbind (py_index (JObj tool_result) ''contains_question'') (\<lambda>question.
       Inr (strip llm_output @ [char_of (10 :: nat), char_of (10 :: nat)] @ ''---'' @ [char_of (10 :: nat)]
         @ TOOL_CHECK @ py_str result @ INPUT_LENGTH_TEXT @ py_str len @ QUESTION_TEXT
         @ (if truthy question then YES_TEXT else NO_TEXT) @ FULL_STOP))))"

section \<open>Usage\<close>

definition add_usage :: "string \<Rightarrow> json \<Rightarrow> dict \<Rightarrow> dict res" where
  "add_usage key v budgets =
     (if is_int v \<and> \<not> is_bool v then
        rbind (py_int (dget_or budgets key (JInt 0))) (\<lambda>old.
          Inr (dset key (JInt (old + int_of_json v)) budgets))
      else Inr budgets)"

definition accumulate_llm_usage :: "dict \<Rightarrow> dict \<Rightarrow> dict res" where
  "accumulate_llm_usage budgets usage =
     rbind (add_usage ''llm_input_tokens'' (dget usage ''input_tokens'') budgets) (\<lambda>b1.
     rbind (add_usage ''llm_output_tokens'' (dget usage ''output_tokens'') b1) (\<lambda>b2.
       add_usage ''llm_total_tokens'' (dget usage ''total_tokens'') b2))"

record usage =
  u_calls :: int
  u_input :: int
  u_output :: int
  u_total :: int

definition plain_int :: "json \<Rightarrow> int" where
  "plain_int v = (case v of JInt i \<Rightarrow> i | _ \<Rightarrow> 0)"

definition usage_event :: "usage \<Rightarrow> string \<times> dict \<Rightarrow> usage" where
  "usage_event u ev =
     (let u1 = (if fst ev = ''agent.model.completed'' then u\<lparr>u_calls := u_calls u + 1\<rparr> else u) in
      if fst ev \<noteq> ''agent.token.usage'' then u1
      else if_obj (dget (snd ev) ''usage'')
        (\<lambda>item. u1\<lparr>u_input := u_input u1 + plain_int (dget item ''input_tokens''),
                   u_output := u_output u1 + plain_int (dget item ''output_tokens''),
                   u_total := u_total u1 + plain_int (dget item ''total_tokens'')\<rparr>)
        u1)"

definition agent_result_usage :: "(string \<times> dict) list \<Rightarrow> usage" where
  "agent_result_usage events =
     foldl usage_event \<lparr>u_calls = 0, u_input = 0, u_output = 0, u_total = 0\<rparr> events"

definition usage_json :: "usage \<Rightarrow> dict" where
  "usage_json u =
     [(''llm_calls'', JInt (u_calls u)), (''input_tokens'', JInt (u_input u)),
      (''output_tokens'', JInt (u_output u)), (''total_tokens'', JInt (u_total u))]"

section \<open>Event references\<close>

text \<open>\<^verbatim>\<open>terminal_event:(\d+)(?::[^:\s]+)?\<close>, matched in full; the digits are the ASCII ones.\<close>

definition has_ws :: "string \<Rightarrow> bool" where
  "has_ws s \<longleftrightarrow> list_ex (\<lambda>w. str_contains w s) ws_codes"

definition digits_value :: "string \<Rightarrow> int option" where
  "digits_value s =
     (if s \<noteq> [] \<and> list_all is_digit s
      then Some (int (foldl (\<lambda>n c. 10 * n + digit_val c) 0 s)) else None)"

definition event_ref_seq :: "string \<Rightarrow> int option" where
  "event_ref_seq ref =
     (if starts_with ''terminal_event:'' ref then
        (case split_on CHR '':'' (removeprefix ''terminal_event:'' ref) of
           [ds] \<Rightarrow> digits_value ds
         | [ds, rest] \<Rightarrow> if rest \<noteq> [] \<and> \<not> has_ws rest then digits_value ds else None
         | _ \<Rightarrow> None)
      else None)"

definition max_int :: "int \<Rightarrow> int list \<Rightarrow> int" where
  "max_int d xs = (case xs of [] \<Rightarrow> d | y # ys \<Rightarrow> foldl max y ys)"

definition ref_seqs :: "string list \<Rightarrow> int list" where
  "ref_seqs refs = concat (map (\<lambda>r. case event_ref_seq r of Some n \<Rightarrow> [n] | None \<Rightarrow> []) refs)"

definition runner_evaluation_terminal_seq :: "dict \<Rightarrow> int res" where
  "runner_evaluation_terminal_seq evaluation =
     (case dget evaluation ''based_on_terminal_seq'' of
        JInt i \<Rightarrow> Inr i
      | _ \<Rightarrow> if_obj (dget evaluation ''evidence_assessment'')
          (\<lambda>assessment.
             rbind (iter_items (py_or (dget assessment ''evaluated_event_refs'') (JArr []))) (\<lambda>r1.
             rbind (iter_items (py_or (dget assessment ''requirement_results'') (JArr []))) (\<lambda>results.
             rbind (rmap (\<lambda>r. if_obj r (\<lambda>d. iter_items (py_or (dget d ''event_refs'') (JArr []))) (Inr []))
                     results) (\<lambda>r2.
               Inr (max_int 0 (ref_seqs (map py_str (r1 @ concat r2))))))))
          (Inr 0))"

section \<open>The runner node\<close>

record agent_result =
  ar_run_id :: string
  ar_status :: string
  ar_structured :: dict
  ar_error_message :: string
  ar_final_output :: string
  ar_artifact :: "json res"
  ar_events :: "(string \<times> dict) list"

text \<open>
  What the step's agent invocation provides: \<open>re_invoke\<close> builds the invocation for a node and
  token and runs the harness, giving its result, the context size and the attachment roles;
  \<open>re_validate\<close> is the validation of the observation file; \<open>re_late\<close> is whether the step's
  deadline has passed when the harness returns.
\<close>

record runner_env =
  re_invoke :: "dict \<Rightarrow> dict \<Rightarrow> (agent_result \<times> json \<times> string list) res"
  re_validate :: "dict \<Rightarrow> dict res"
  re_late :: bool

definition TIMEOUT_ERRORS :: "string list" where
  "TIMEOUT_ERRORS =
     [''AgentDeadlineExceededError'', ''TimeoutError'', ''APITimeoutError'', ''ReadTimeout'',
      ''ConnectTimeout'', ''TimeoutException'']"

definition read_runner_artifact :: "agent_result \<Rightarrow> dict res" where
  "read_runner_artifact r =
     rbind (ar_artifact r) (\<lambda>payload.
       if_obj payload Inr (Inl (RuntimeErr RUNNER_NOT_OBJECT_TEXT)))"

definition list_field :: "dict \<Rightarrow> string \<Rightarrow> json" where
  "list_field d k = (if is_arr (dget d k) then dget d k else JArr [])"

definition obj_field :: "dict \<Rightarrow> string \<Rightarrow> json" where
  "obj_field d k = (if is_obj (dget d k) then dget d k else JObj [])"

definition str_field :: "dict \<Rightarrow> string \<Rightarrow> string" where
  "str_field d k = str_or (dget d k)"

definition map_runner_observation :: "dict \<Rightarrow> agent_result \<Rightarrow> dict \<Rightarrow> dict \<Rightarrow> dict" where
  "map_runner_observation obs r usage extra =
     (let msg = str_or (py_or (dget obs ''terminal_message'') (dget obs ''final_response''));
          decision = str_or (py_or (dget obs ''runtime_decision'') (dget obs ''decision'')) in
      [(''content'', JStr msg), (''decision'', JStr decision),
       (''reason'', JStr (str_field obs ''reason'')),
       (''next_phase'', JStr (str_field obs ''next_phase'')),
       (''terminal_message'', JStr msg),
       (''wait_reason'', JStr (str_field obs ''wait_reason'')),
       (''expected_inputs'', list_field obs ''expected_inputs''),
       (''evidence_assessment'', obj_field obs ''evidence_assessment''),
       (''safety_flags'', list_field obs ''safety_flags''),
       (''final_response'', JStr (str_field obs ''final_response'')),
       (''runner'', JObj
         ([(''agent_key'', JStr ''psop.runner''), (''agent_run_id'', JStr (ar_run_id r)),
           (''artifact_ref'', JStr ''sandbox://outputs/runner-observation.json''),
           (''source_refs'', list_field obs ''source_refs''),
           (''safety_flags'', list_field obs ''safety_flags''),
           (''original_decision'', JStr (str_field obs ''decision'')),
           (''suggested_next_phase'', JStr (str_field obs ''next_phase''))] @ extra)),
       (''usage'', JObj usage),
       (''summary'', JStr (''Runner decision: '' @ decision))])"

definition requirement_statuses :: "dict \<Rightarrow> dict res" where
  "requirement_statuses obs =
     rbind (obj_get (py_or (dget obs ''evidence_assessment'') (JObj [])) ''requirement_results'' JNull)
       (\<lambda>rr. rbind (iter_items (py_or rr (JArr []))) (\<lambda>items.
         Inr (fold (\<lambda>item m. dset (str_field item ''requirement_key'') (JStr (str_field item ''status'')) m)
                (filter (\<lambda>item. str_field item ''requirement_key'' \<noteq> []) (only_objs items)) [])))"

definition validator_failures :: "(string \<times> dict) list \<Rightarrow> json list" where
  "validator_failures events =
     map (\<lambda>ev. JStr (str_field (snd ev) ''failure_code''))
       (filter (\<lambda>ev. fst ev = ''agent.validation.failed'' \<and> truthy (dget (snd ev) ''failure_code''))
         events)"

definition previous_evaluation :: "dict \<Rightarrow> dict" where
  "previous_evaluation token =
     dict_or_empty (get_path (JObj token) ''control.latest_evaluation'')"

definition runner_extra :: "dict \<Rightarrow> int \<Rightarrow> dict \<Rightarrow> agent_result \<Rightarrow> json \<Rightarrow> string list \<Rightarrow> dict res" where
  "runner_extra token prev obs r chars roles =
     (let latest = plain_int (get_path (JObj token) ''control.latest_evidence.seq_no'') in
      rbind (int_or0 chars) (\<lambda>context_chars.
      rbind (requirement_statuses obs) (\<lambda>statuses.
        Inr [(''latest_evidence_seq'', JInt latest), (''previous_evaluation_seq'', JInt prev),
             (''stale_gap'', JInt (if prev \<noteq> 0 then max 0 (latest - prev) else latest)),
             (''context_chars'', JInt context_chars),
             (''attachment_roles'', JArr (map JStr roles)),
             (''validator_failure_codes'', JArr (validator_failures (ar_events r))),
             (''effective_requirement_statuses'', JObj statuses)])))"

definition spend_budgets :: "usage \<Rightarrow> dict \<Rightarrow> dict res" where
  "spend_budgets u token =
     if_obj (dget_or token ''budgets'' (JObj []))
       (\<lambda>b0. rbind (py_int (dget_or b0 ''llm_calls'' (JInt 0))) (\<lambda>calls.
          rbind (accumulate_llm_usage (dset ''llm_calls'' (JInt (calls + u_calls u)) b0) (usage_json u))
            (\<lambda>b1. Inr (dset ''budgets'' (JObj b1) token))))
       (Inl AttrErr)"

text \<open>The step up to the charge: the validated observation, the harness result, the token.\<close>

definition runner_spends ::
    "runner_env \<Rightarrow> dict \<Rightarrow> dict \<Rightarrow> (dict \<times> (agent_result \<times> json \<times> string list) \<times> int \<times> dict) res" where
  "runner_spends env node token =
     rbind (re_invoke env node token) (\<lambda>rcr.
       let r = fst rcr in
       if re_late env then Inl (StepTimeout STEP_TIMEOUT_TEXT)
       else if ar_status r \<noteq> ''succeeded'' then
         rbind (in_str_set (dget (ar_structured r) ''error_type'') TIMEOUT_ERRORS) (\<lambda>timed_out.
           if timed_out then Inl (StepTimeout STEP_TIMEOUT_TEXT)
           else Inl (RuntimeErr (RUNNER_FAILED_TEXT
             @ (if ar_error_message r = [] then ar_final_output r else ar_error_message r))))
       else
         rbind (read_runner_artifact r) (\<lambda>o0.
         rbind (re_validate env o0) (\<lambda>obs.
         rbind (runner_evaluation_terminal_seq (previous_evaluation token)) (\<lambda>prev.
         rbind (spend_budgets (agent_result_usage (ar_events r)) token) (\<lambda>token'.
           Inr (obs, rcr, prev, token'))))))"

definition execute_runner_node :: "runner_env \<Rightarrow> dict \<Rightarrow> dict \<Rightarrow> (dict \<times> dict) res" where
  "execute_runner_node env node token =
     rbind (runner_spends env node token) (\<lambda>spent.
       let obs = fst spent; r = fst (fst (snd spent)); chars = fst (snd (fst (snd spent)));
           roles = snd (snd (fst (snd spent))); prev = fst (snd (snd spent)) in
       rbind (runner_extra token prev obs r chars roles) (\<lambda>extra.
         Inr (map_runner_observation obs r (usage_json (agent_result_usage (ar_events r))) extra,
              snd (snd (snd spent)))))"

section \<open>Executing a node\<close>

definition spend_tool_call :: "dict \<Rightarrow> dict res" where
  "spend_tool_call token =
     if_obj (dget_or token ''budgets'' (JObj []))
       (\<lambda>b. rbind (py_int (dget_or b ''tool_calls'' (JInt 0))) (\<lambda>n.
          Inr (dset ''budgets'' (JObj (dset ''tool_calls'' (JInt (n + 1)) b)) token)))
       (Inl AttrErr)"

definition llm_content :: "dict \<Rightarrow> json" where
  "llm_content token =
     py_or (get_path (JObj token) ''observations.llm.content'')
           (get_path (JObj token) ''observations.plan_repair.content'')"

definition final_observation :: "dict \<Rightarrow> dict res" where
  "final_observation token =
     (let content = str_or (llm_content token);
          tool = get_path (JObj token) ''observations.tool'' in
      rbind
        (if content \<noteq> [] \<and> truthy (dget (dict_or_empty tool) ''result'')
         then compose_final_output content (dict_or_empty tool)
         else Inr (py_str
           (py_or (py_or (py_or (get_path (JObj token) ''outputs.final_response'') (JStr content))
             (JStr (last_observation_content token))) (JStr RUN_DONE))))
        (\<lambda>response. Inr [(''final_response'', JStr response), (''summary'', JStr RUN_DONE)]))"

definition execute_node :: "runner_env \<Rightarrow> dict \<Rightarrow> dict \<Rightarrow> dict \<Rightarrow> (dict \<times> dict) res" where
  "execute_node env artifact node token =
     (let kind = dget node ''kind''; actor = actor_name_of (dget node ''actor'') in
      if kind = JStr ''start'' \<or> actor = ''runtime.start'' then
        Inr ([(''started'', JBool True), (''summary'', JStr STARTED_SUMMARY)], token)
      else if kind = JStr ''input'' \<or> actor = ''runtime.input'' then
        rbind (extract_user_input (dget_or token ''input_envelope'' (JObj [])) artifact) (\<lambda>text.
          Inr ([(''user_input'', JStr text), (''summary'', JStr INPUT_SUMMARY)], token))
      else if kind = JStr ''llm'' \<or> actor = ''agent.llm'' then execute_runner_node env node token
      else if kind = JStr ''tool'' \<or> actor = ''capability.demo_tool'' then
        rbind (extract_user_input (dget_or token ''input_envelope'' (JObj [])) artifact) (\<lambda>text.
        rbind (spend_tool_call token) (\<lambda>token'.
          Inr (run_demo_tool text
                 (str_or (py_or (llm_content token) (JStr (last_observation_content token)))), token')))
      else if kind = JStr ''terminal'' \<or> actor = ''runtime.terminal'' then
        rbind (final_observation token) (\<lambda>obs. Inr (obs, token))
      else Inl (RuntimeErr (''Unsupported runtime node actor: ''
                 @ (if actor = [] then py_str kind else actor))))"

definition is_runner_node :: "dict \<Rightarrow> bool" where
  "is_runner_node node \<longleftrightarrow>
     (let kind = dget node ''kind''; actor = actor_name_of (dget node ''actor'') in
      kind \<notin> {JStr ''start'', JStr ''input''} \<and> actor \<notin> {''runtime.start'', ''runtime.input''}
      \<and> (kind = JStr ''llm'' \<or> actor = ''agent.llm''))"

text \<open>The token a failed node leaves: what a runner step has charged stays charged.\<close>

definition failed_token :: "runner_env \<Rightarrow> dict \<Rightarrow> dict \<Rightarrow> dict" where
  "failed_token env node token =
     (if is_runner_node node
      then (case runner_spends env node token of Inl e \<Rightarrow> token | Inr spent \<Rightarrow> snd (snd (snd spent)))
      else token)"

section \<open>Merging an observation\<close>

definition resolve_merge_source :: "string \<Rightarrow> dict \<Rightarrow> dict \<Rightarrow> json" where
  "resolve_merge_source source token obs =
     (if starts_with ''observation.'' source
        then get_path (JObj obs) (removeprefix ''observation.'' source)
      else if source = ''observation'' then JObj obs
      else if starts_with ''token.'' source
        then get_path (JObj token) (removeprefix ''token.'' source)
      else if starts_with ''input.'' source
        then get_path (dget_or token ''input_envelope'' (JObj [])) (removeprefix ''input.'' source)
      else JNull)"

definition observation_for_token :: "dict \<Rightarrow> dict" where
  "observation_for_token obs = dpop ''_trace_request'' obs"

definition observation_for_trace :: "dict \<Rightarrow> dict" where
  "observation_for_trace obs =
     (let o1 = dpop ''_trace_request'' obs; request = dget obs ''_trace_request'' in
      if truthy request then dset ''request'' request o1 else o1)"

definition merge_value :: "dict \<Rightarrow> dict \<Rightarrow> dict \<Rightarrow> json" where
  "merge_value obs o1 token =
     (if dhas o1 ''value'' then dget o1 ''value''
      else resolve_merge_source (py_str (dget o1 ''from'')) token obs)"

text \<open>The writes of a merge list: the target paths with their values as functions of the token.\<close>

definition merge_write :: "dict \<Rightarrow> json \<Rightarrow> (string \<times> (dict \<Rightarrow> json)) list" where
  "merge_write obs operation =
     if_obj operation
       (\<lambda>o1. if dget o1 ''op'' = JStr ''set''
          then if_str (dget o1 ''path'') (\<lambda>p. [(p, merge_value obs o1)]) [] else [])
       []"

definition merge_writes :: "dict \<Rightarrow> json list \<Rightarrow> (string \<times> (dict \<Rightarrow> json)) list" where
  "merge_writes obs ops = concat (map (merge_write obs) ops)"

definition apply_writes :: "(string \<times> (dict \<Rightarrow> json)) list \<Rightarrow> dict \<Rightarrow> dict" where
  "apply_writes ws token = fold (\<lambda>w t. set_path (fst w) (snd w t) t) ws token"

definition keep_observation :: "dict \<Rightarrow> dict \<Rightarrow> dict \<Rightarrow> dict res" where
  "keep_observation node obs token =
     if_obj (dget_or token ''observations'' (JObj []))
       (\<lambda>os. Inr (dset ''observations''
          (JObj (dsetdefault (py_str (dget node ''id'')) (JObj obs) os)) token))
       (Inl AttrErr)"

definition merge_observation :: "dict \<Rightarrow> dict \<Rightarrow> dict \<Rightarrow> dict res" where
  "merge_observation node token observation =
     (let obs = observation_for_token observation in
      rbind (iter_items (dget_or node ''merge'' (JArr []))) (\<lambda>ops.
        keep_observation node obs (apply_writes (merge_writes obs ops) token)))"

definition strictly_below :: "string \<Rightarrow> string \<Rightarrow> bool" where
  "strictly_below p q \<longleftrightarrow>
     (let ps = split_on CHR ''.'' p; qs = split_on CHR ''.'' q in
      length qs < length ps \<and> take (length qs) ps = qs)"

definition merge_target :: "json \<Rightarrow> string list" where
  "merge_target operation = map fst (merge_write [] operation)"

definition merge_token_source :: "json \<Rightarrow> string list" where
  "merge_token_source operation =
     (let source = py_str (dget (dict_or_empty operation) ''from'') in
      if starts_with ''token.'' source then [removeprefix ''token.'' source]
      else if starts_with ''input.'' source then [''input_envelope.'' @ removeprefix ''input.'' source]
      else [])"

fun unshared_writes :: "json list \<Rightarrow> bool" where
  "unshared_writes [] = True"
| "unshared_writes (operation # ops) =
     ((\<forall>later \<in> set ops. \<forall>p \<in> set (merge_target later).
        \<forall>q \<in> set (merge_target operation @ merge_token_source operation). \<not> strictly_below p q)
      \<and> unshared_writes ops)"

section \<open>What a merge changes\<close>

lemma get_path_keep:
  assumes "keep_observation node obs t = Inr t'" and "hd (split_on CHR ''.'' q) \<noteq> ''observations''"
    and "q \<noteq> []"
  shows "get_path (JObj t') q = get_path (JObj t) q"
proof -
  obtain os where t': "t' = dset ''observations'' os t"
    using assms(1) by (cases "dget_or t ''observations'' (JObj [])") (auto simp: keep_observation_def)
  obtain r rs where parts: "split_on CHR ''.'' q = r # rs"
    by (metis list.exhaust split_on_nonempty)
  then have "r \<noteq> ''observations''" using assms(2) by simp
  then show ?thesis
    using assms(3) unfolding t' by (simp add: get_path_def parts map_of_dset)
qed

lemma get_path_keep_below:
  assumes "keep_observation node obs t = Inr t'" and "split_on CHR ''.'' q \<noteq> [''observations'']"
    and "get_path (JObj t) q \<noteq> JNull"
  shows "get_path (JObj t') q = get_path (JObj t) q"
proof (cases "hd (split_on CHR ''.'' q) = ''observations''")
  case False
  moreover have "q \<noteq> []" using assms(3) by (auto simp: get_path_def)
  ultimately show ?thesis using get_path_keep [OF assms(1)] by blast
next
  case True
  obtain os where os: "dget_or t ''observations'' (JObj []) = JObj os"
    and t': "t' = dset ''observations'' (JObj (dsetdefault (py_str (dget node ''id'')) (JObj obs) os)) t"
    using assms(1) by (cases "dget_or t ''observations'' (JObj [])") (auto simp: keep_observation_def)
  obtain p ps where parts: "split_on CHR ''.'' q = ''observations'' # p # ps"
    using True assms(2) by (metis list.exhaust list.sel(1) split_on_nonempty)
  have q: "q \<noteq> []" using assms(3) by (auto simp: get_path_def)
  have "map_of t ''observations'' = Some (JObj os)"
    using assms(3) q os unfolding get_path_def parts
    by (auto simp: dget_or_def split: option.splits)
  moreover have "map_of os p \<noteq> None"
    using assms(3) q calculation unfolding get_path_def parts by (auto split: option.splits)
  ultimately show ?thesis
    unfolding t' get_path_def parts using q
    by (auto simp: map_of_dset dsetdefault_def dhas_def split: option.splits)
qed

lemma merge_observation_eq:
  assumes "merge_observation node token observation = Inr token'" and "dget node ''merge'' = JArr ops"
  shows "keep_observation node (observation_for_token observation)
    (apply_writes (merge_writes (observation_for_token observation) ops) token) = Inr token'"
proof -
  have "dget_or node ''merge'' (JArr []) = JArr ops"
    using assms(2) by (auto simp: dget_def dget_or_def split: option.splits)
  with assms(1) show ?thesis by (simp add: merge_observation_def Let_def)
qed

lemma apply_writes_frame:
  "(\<And>w. w \<in> set ws \<Longrightarrow> indep_paths (fst w) q) \<Longrightarrow>
   get_path (JObj (apply_writes ws token)) q = get_path (JObj token) q"
  unfolding apply_writes_def by (rule tp.writes_frame)

lemma apply_writes_last:
  "p \<noteq> [] \<Longrightarrow> (\<And>w. w \<in> set later \<Longrightarrow> indep_paths (fst w) p) \<Longrightarrow>
   get_path (JObj (apply_writes (ws @ (p, v) # later) token)) p = v (apply_writes ws token)"
  unfolding apply_writes_def by (rule tp.writes_last)

section \<open>What a node costs\<close>

definition reported :: "string \<Rightarrow> string \<times> dict \<Rightarrow> int" where
  "reported k e = (if fst e = ''agent.token.usage''
     then plain_int (dget (dict_or_empty (dget (snd e) ''usage'')) k) else 0)"

lemma usage_event_adds:
  "u_calls (usage_event u e) = u_calls u + (if fst e = ''agent.model.completed'' then 1 else 0)"
  "u_input (usage_event u e) = u_input u + reported ''input_tokens'' e"
  "u_output (usage_event u e) = u_output u + reported ''output_tokens'' e"
  "u_total (usage_event u e) = u_total u + reported ''total_tokens'' e"
  by (cases "dget (snd e) ''usage''"; simp add: usage_event_def Let_def plain_int_def reported_def)+

lemma usage_fold:
  "u_calls (foldl usage_event u evs)
     = u_calls u + int (length (filter (\<lambda>e. fst e = ''agent.model.completed'') evs))"
  "u_input (foldl usage_event u evs) = u_input u + (\<Sum>e\<leftarrow>evs. reported ''input_tokens'' e)"
  "u_output (foldl usage_event u evs) = u_output u + (\<Sum>e\<leftarrow>evs. reported ''output_tokens'' e)"
  "u_total (foldl usage_event u evs) = u_total u + (\<Sum>e\<leftarrow>evs. reported ''total_tokens'' e)"
  by (induction evs arbitrary: u) (simp_all add: usage_event_adds)

lemma accumulate_total:
  assumes "accumulate_llm_usage budgets (usage_json u) = Inr b"
    and "py_int (dget_or budgets ''llm_total_tokens'' (JInt 0)) = Inr n"
  shows "dget b ''llm_total_tokens'' = JInt (n + u_total u)"
  using assms by (auto simp: accumulate_llm_usage_def add_usage_def usage_json_def rbind_eq_Inr)

lemma spend_budgets_total:
  assumes "spend_budgets u token = Inr token'" and "dget token ''budgets'' = JObj b"
    and "py_int (dget_or b ''llm_total_tokens'' (JInt 0)) = Inr n"
    and "py_int (dget_or b ''llm_calls'' (JInt 0)) = Inr c"
  shows "get_path (JObj token') ''budgets.llm_total_tokens'' = JInt (n + u_total u)
    \<and> get_path (JObj token') ''budgets.llm_calls'' = JInt (c + u_calls u)"
proof -
  have "dget_or token ''budgets'' (JObj []) = JObj b"
    using assms(2) by (auto simp: dget_def dget_or_def split: option.splits)
  then obtain b1 where b1: "accumulate_llm_usage (dset ''llm_calls'' (JInt (c + u_calls u)) b) (usage_json u) = Inr b1"
    and t': "token' = dset ''budgets'' (JObj b1) token"
    using assms(1,4) by (auto simp: spend_budgets_def rbind_eq_Inr)
  have total: "dget b1 ''llm_total_tokens'' = JInt (n + u_total u)"
    using accumulate_total [OF b1] assms(3) by simp
  have calls: "dget b1 ''llm_calls'' = JInt (c + u_calls u)"
    using b1 by (auto simp: accumulate_llm_usage_def add_usage_def usage_json_def rbind_eq_Inr)
  have "split_on CHR ''.'' ''budgets.llm_total_tokens'' = [''budgets'', ''llm_total_tokens'']"
    "split_on CHR ''.'' ''budgets.llm_calls'' = [''budgets'', ''llm_calls'']" by simp_all
  then show ?thesis
    using total calls unfolding t' get_path_def
    by (auto simp: map_of_dset dget_def dget_or_def split: option.splits)
qed

end
