(* ===== verification/Evidence.thy ===== *)
theory Evidence
  imports Observation
begin

text \<open>
  Evidence progress: the requirements a checkpoint starts with
  (\<^verbatim>\<open>_build_evidence_progress\<close>, \<^verbatim>\<open>_evidence_requirements_for_workflow_step\<close>) and how the runner's
  assessment updates them (\<^verbatim>\<open>_merge_evidence_progress_from_observation\<close>). The clock is an
  argument: one reading per operation.
\<close>

section \<open>String lists\<close>

definition string_list :: "json \<Rightarrow> string list" where
  "string_list value =
     if_arr value (\<lambda>xs. filter (\<lambda>s. s \<noteq> []) (map (\<lambda>j. strip (py_str j)) xs)) []"

fun unique_from :: "string list \<Rightarrow> string list \<Rightarrow> string list" where
  "unique_from seen [] = []"
| "unique_from seen (v # vs) =
     (if v \<in> set seen then unique_from seen vs else v # unique_from (v # seen) vs)"

definition unique_strings :: "string list \<Rightarrow> string list" where
  "unique_strings values = unique_from [] values"

lemma unique_from_remdups:
  "unique_from seen vs = rev (remdups (rev (filter (\<lambda>v. v \<notin> set seen) vs)))"
proof (induction vs arbitrary: seen)
  case Nil
  then show ?case by simp
next
  case (Cons v vs)
  have "rev (remdups (rev (v # xs))) = v # rev (remdups (rev (filter (\<lambda>x. x \<noteq> v) xs)))" for xs :: "string list"
  proof -
    have app: "remdups (ys @ [v]) = remdups (filter (\<lambda>x. x \<noteq> v) ys) @ [v]" for ys :: "string list"
      by (induction ys) auto
    show ?thesis by (simp add: app rev_filter)
  qed
  then show ?case
    by (simp add: Cons.IH filter_filter conj_commute)
qed

lemma unique_strings_remdups: "unique_strings vs = rev (remdups (rev vs))"
  by (simp add: unique_strings_def unique_from_remdups)

lemma distinct_unique_strings [simp]: "distinct (unique_strings vs)"
  by (simp add: unique_strings_remdups)

lemma set_unique_strings [simp]: "set (unique_strings vs) = set vs"
  by (simp add: unique_strings_remdups)

text \<open>Stripping a list of stripped strings again changes nothing.\<close>

lemma strip_front_suffix: "\<exists>p. s = p @ strip_front ws s"
proof (induction ws s rule: strip_front.induct)
  case (1 ws s)
  show ?case
  proof (cases "find (\<lambda>w. w \<noteq> [] \<and> starts_with w s) ws")
    case None
    then show ?thesis by (subst strip_front.simps) simp
  next
    case (Some w)
    then obtain p where "drop (length w) s = p @ strip_front ws (drop (length w) s)"
      using "1" by blast
    then have "s = (take (length w) s @ p) @ strip_front ws (drop (length w) s)"
      by (metis append.assoc append_take_drop_id)
    moreover have "strip_front ws s = strip_front ws (drop (length w) s)"
      using Some by (subst strip_front.simps) simp
    ultimately show ?thesis by metis
  qed
qed

lemma strip_front_fixed_iff:
  "strip_front ws s = s \<longleftrightarrow> (\<forall>w \<in> set ws. w \<noteq> [] \<longrightarrow> \<not> starts_with w s)"
proof (cases "find (\<lambda>w. w \<noteq> [] \<and> starts_with w s) ws")
  case None
  then have "strip_front ws s = s" by (subst strip_front.simps) simp
  with None show ?thesis by (auto simp: find_None_iff)
next
  case (Some w)
  then have w: "w \<in> set ws" "w \<noteq> []" "starts_with w s" "length w \<le> length s"
    using find_strip_code [OF Some] by (auto simp: find_Some_iff)
  have "strip_front ws s = strip_front ws (drop (length w) s)"
    using Some by (subst strip_front.simps) simp
  moreover have "length (strip_front ws (drop (length w) s)) \<le> length s - length w"
    using length_strip_front_le [of ws "drop (length w) s"] by simp
  ultimately have "length (strip_front ws s) < length s"
    using w(2,4) by (cases w) auto
  then show ?thesis using w by auto
qed

lemma strip_idem [simp]: "strip (strip s) = strip s"
proof -
  let ?t = "strip_front ws_codes s"
  let ?u = "strip_front (map rev ws_codes) (rev ?t)"
  have t: "\<forall>w \<in> set ws_codes. w \<noteq> [] \<longrightarrow> \<not> starts_with w ?t"
    using strip_front_fixed_iff strip_front_idem by blast
  obtain p where "rev ?t = p @ ?u" using strip_front_suffix by blast
  then have "?t = rev ?u @ rev p" by (metis rev_append rev_rev_ident)
  then have "\<forall>w \<in> set ws_codes. w \<noteq> [] \<longrightarrow> \<not> starts_with w (rev ?u)"
    using t by (metis append.assoc starts_with_iff)
  then have "strip_front ws_codes (rev ?u) = rev ?u"
    by (simp add: strip_front_fixed_iff)
  then show ?thesis
    by (simp add: strip_def strip_front_idem)
qed

lemma string_list_stripped: "s \<in> set (string_list j) \<Longrightarrow> strip s = s \<and> s \<noteq> []"
  by (cases j) (auto simp: string_list_def)

lemma string_list_again:
  "\<forall>s \<in> set ss. strip s = s \<and> s \<noteq> [] \<Longrightarrow> string_list (JArr (map JStr ss)) = ss"
  by (induction ss) (auto simp: string_list_def)

section \<open>The requirements of a workflow step\<close>

definition with_key :: "string \<times> json \<Rightarrow> json" where
  "with_key kv =
     JObj (if_obj (snd kv) (\<lambda>d. foldl (\<lambda>m p. dset (fst p) (snd p) m) [(''requirement_key'', JStr (fst kv))] d)
       [(''requirement_key'', JStr (fst kv)), (''description'', JStr (py_str (snd kv)))])"

definition raw_requirements :: "json \<Rightarrow> json list" where
  "raw_requirements raw =
     if_obj raw
       (\<lambda>d. if is_arr (dget d ''requirements'') then list_or_empty (dget d ''requirements'')
          else if is_arr (dget d ''items'') then list_or_empty (dget d ''items'')
          else map with_key d)
       (list_or_empty raw)"

definition option_view :: "dict \<Rightarrow> json" where
  "option_view option =
     JObj (map (\<lambda>k. (k, dget option k))
       (filter (dhas option) [''option_key'', ''kind'', ''event_kind'', ''proof_mode'']))"

definition requirement_of :: "nat \<Rightarrow> json \<Rightarrow> dict" where
  "requirement_of index j =
     (let item = if_obj j (\<lambda>d. d) [(''description'', JStr (py_str j))];
          fallback = ''evidence_'' @ nat_str index;
          key0 = strip (py_str (py_or (py_or (py_or (dget item ''requirement_key'') (dget item ''id''))
                   (dget item ''key'')) (JStr fallback)));
          key = (if key0 = [] then fallback else key0) in
      [(''requirement_key'', JStr key),
       (''description'',
         JStr (py_str (py_or (py_or (dget item ''description'') (dget item ''title'')) (JStr key)))),
       (''required'', JBool (dget item ''required'' \<noteq> JBool False))]
      @ (if truthy (dget item ''kind'') then [(''kind'', dget item ''kind'')] else [])
      @ (if truthy (dget item ''event_kind'') then [(''event_kind'', dget item ''event_kind'')] else [])
      @ if_arr (dget item ''evidence_options'')
          (\<lambda>opts. [(''evidence_options'', JArr (map option_view (only_objs opts)))]) [])"

definition evidence_requirements :: "dict \<Rightarrow> string \<Rightarrow> dict list" where
  "evidence_requirements artifact step_id =
     (let expected = if_obj (dget artifact ''runtime_contract'')
            (\<lambda>rc. dget rc ''expected_evidence'') (JObj []) in
      map (\<lambda>p. requirement_of (fst p) (snd p))
        (enumerate 1 (raw_requirements (if_obj expected (\<lambda>e. dget e step_id) JNull))))"

section \<open>Building progress\<close>

definition fresh_requirement :: "string \<Rightarrow> string \<Rightarrow> dict \<Rightarrow> dict" where
  "fresh_requirement now by_node requirement =
     requirement @
     [(''status'', JStr ''missing''), (''accepted_event_refs'', JArr []),
      (''rejected_event_refs'', JArr []), (''latest_event_refs'', JArr []), (''reason'', JStr []),
      (''updated_at'', JStr now), (''updated_by_node'', JStr by_node)]"

definition build_evidence_progress :: "string \<Rightarrow> dict \<Rightarrow> dict \<Rightarrow> string \<Rightarrow> dict" where
  "build_evidence_progress now wait artifact by_node =
     [(''checkpoint_id'', JStr (str_field wait ''checkpoint_id'')),
      (''workflow_step_id'', JStr (str_field wait ''workflow_step_id'')),
      (''requirements'', JArr (map (JObj \<circ> fresh_requirement now by_node)
         (evidence_requirements artifact (str_field wait ''workflow_step_id'')))),
      (''updated_at'', JStr now), (''updated_by_node'', JStr by_node)]"

section \<open>Merging an assessment\<close>

definition STATUSES :: "string list" where
  "STATUSES = [''accepted'', ''rejected'', ''missing'', ''ambiguous'', ''not_applicable'']"

definition merge_refs :: "string \<Rightarrow> string list \<Rightarrow> dict \<Rightarrow> dict" where
  "merge_refs key refs requirement =
     dset key (JArr (map JStr (unique_strings (string_list (dget requirement key) @ refs)))) requirement"

definition result_status :: "dict \<Rightarrow> string" where
  "result_status result = lower (strip (str_field result ''status''))"

definition update_requirement :: "string \<Rightarrow> string \<Rightarrow> dict \<Rightarrow> dict \<Rightarrow> dict" where
  "update_requirement now by_node result requirement =
     (let status = result_status result; refs = string_list (dget result ''event_refs'') in
      if status \<notin> set STATUSES then requirement
      else if dget requirement ''status'' = JStr ''accepted'' \<and> status \<in> {''missing'', ''ambiguous''}
        then requirement
      else
        (let r = dset ''updated_by_node'' (JStr by_node)
               (dset ''updated_at'' (JStr now)
               (dset ''satisfied_by'' (JStr (str_field result ''satisfied_by''))
               (dset ''reason'' (JStr (str_field result ''reason''))
               (dset ''latest_event_refs'' (JArr (map JStr refs))
               (dset ''status'' (JStr status) requirement))))) in
         if status = ''accepted'' then merge_refs ''accepted_event_refs'' refs r
         else if status = ''rejected'' then merge_refs ''rejected_event_refs'' refs r
         else r))"

text \<open>\<^verbatim>\<open>by_key\<close>: of two requirements with the same key the later one is updated.\<close>

definition requirement_index :: "json list \<Rightarrow> string \<Rightarrow> nat option" where
  "requirement_index requirements key =
     (if key = [] then None
      else case filter (\<lambda>i. if_obj (requirements ! i) (\<lambda>d. str_field d ''requirement_key'' = key) False)
             (rev [0 ..< length requirements]) of
        [] \<Rightarrow> None
      | i # _ \<Rightarrow> Some i)"

definition apply_result :: "string \<Rightarrow> string \<Rightarrow> json list \<Rightarrow> json \<Rightarrow> json list" where
  "apply_result now by_node requirements result =
     if_obj result
       (\<lambda>r. case requirement_index requirements (strip (str_field r ''requirement_key'')) of
          None \<Rightarrow> requirements
        | Some i \<Rightarrow> requirements[i :=
            JObj (update_requirement now by_node r (dict_or_empty (requirements ! i)))])
       requirements"

definition progress_matches_wait :: "dict \<Rightarrow> dict \<Rightarrow> bool" where
  "progress_matches_wait progress wait \<longleftrightarrow>
     str_field progress ''checkpoint_id'' = str_field wait ''checkpoint_id''
     \<and> str_field progress ''workflow_step_id'' = str_field wait ''workflow_step_id''"

definition merge_progress :: "string \<Rightarrow> string \<Rightarrow> json list \<Rightarrow> dict \<Rightarrow> dict" where
  "merge_progress now by_node results progress =
     (let p = (if is_arr (dget progress ''requirements'')
               then dset ''requirements'' (JArr (foldl (apply_result now by_node)
                      (list_or_empty (dget progress ''requirements'')) results)) progress
               else progress)
      in dset ''updated_by_node'' (JStr by_node) (dset ''updated_at'' (JStr now) p))"

text \<open>
  A progress object that is not yet in the token is either built, and then stored, or, when
  neither it nor the wait has any id, an empty object that is updated and dropped.
\<close>

definition merge_evidence :: "string \<Rightarrow> dict \<Rightarrow> dict \<Rightarrow> dict \<Rightarrow> dict \<Rightarrow> dict res" where
  "merge_evidence now artifact node observation token =
     (let results = list_or_empty (dget (dict_or_empty (dget observation ''evidence_assessment''))
            ''requirement_results'');
          by_node = str_field node ''id'' in
      if results = [] then Inr token
      else if_obj (dget_or token ''control'' (JObj []))
        (\<lambda>control.
           let wait = dict_or_empty (dget control ''wait'');
               progress = dict_or_empty (dget control ''evidence_progress'');
               control' =
                 (if \<not> progress_matches_wait progress wait then
                    dset ''evidence_progress'' (JObj (merge_progress now by_node results
                      (build_evidence_progress now wait artifact by_node))) control
                  else if is_obj (dget control ''evidence_progress'') then
                    dset ''evidence_progress'' (JObj (merge_progress now by_node results progress)) control
                  else control)
           in Inr (dset ''control'' (JObj control') token))
        (Inl AttrErr))"

section \<open>What progress guarantees\<close>

text \<open>
  The abstract view of a requirement: its key, its status and the references accepted for it.
  One assessment moves it along \<open>evidence_step\<close>: an accepted requirement is not reopened by
  \<^verbatim>\<open>missing\<close> or \<^verbatim>\<open>ambiguous\<close>, and accepted references are only added.
\<close>

definition req_key :: "json \<Rightarrow> string" where
  "req_key j = str_field (dict_or_empty j) ''requirement_key''"

definition req_status :: "json \<Rightarrow> json" where
  "req_status j = dget (dict_or_empty j) ''status''"

definition req_accepted :: "json \<Rightarrow> string list" where
  "req_accepted j = string_list (dget (dict_or_empty j) ''accepted_event_refs'')"

definition evidence_le :: "json \<Rightarrow> json \<Rightarrow> bool" where
  "evidence_le a b \<longleftrightarrow>
     req_key b = req_key a
     \<and> set (req_accepted a) \<subseteq> set (req_accepted b)
     \<and> (req_status a = JStr ''accepted'' \<longrightarrow>
          req_status b \<noteq> JStr ''missing'' \<and> req_status b \<noteq> JStr ''ambiguous'')
     \<and> (req_status b = req_status a \<or> (\<exists>s \<in> set STATUSES. req_status b = JStr s))"

lemma evidence_le_refl [simp]: "evidence_le a a"
  by (auto simp: evidence_le_def)

lemma string_list_append_refs:
  "set (string_list (dget (merge_refs key refs r) key)) = set (string_list (dget r key)) \<union> set refs"
  if "\<forall>s \<in> set refs. strip s = s \<and> s \<noteq> []"
proof -
  have "\<forall>s \<in> set (unique_strings (string_list (dget r key) @ refs)). strip s = s \<and> s \<noteq> []"
    using that string_list_stripped by auto
  from string_list_again [OF this] show ?thesis
    by (simp add: merge_refs_def)
qed

lemma update_requirement_key:
  "dget (update_requirement now by_node result r) ''requirement_key'' = dget r ''requirement_key''"
  by (simp add: update_requirement_def merge_refs_def Let_def)

lemma update_requirement_le:
  "evidence_le (JObj r) (JObj (update_requirement now by_node result r))"
proof -
  let ?s = "result_status result" and ?refs = "string_list (dget result ''event_refs'')"
  have refs: "\<forall>s \<in> set ?refs. strip s = s \<and> s \<noteq> []" using string_list_stripped by blast
  show ?thesis
  proof (cases "?s \<notin> set STATUSES \<or>
      dget r ''status'' = JStr ''accepted'' \<and> ?s \<in> {''missing'', ''ambiguous''}")
    case True
    then have "update_requirement now by_node result r = r"
      unfolding update_requirement_def Let_def by presburger
    then show ?thesis by simp
  next
    case False
    let ?u = "update_requirement now by_node result r"
    have status: "dget ?u ''status'' = JStr ?s"
      using False by (simp add: update_requirement_def Let_def merge_refs_def)
    have acc: "set (string_list (dget ?u ''accepted_event_refs''))
        \<supseteq> set (string_list (dget r ''accepted_event_refs''))"
    proof (cases "?s = ''accepted''")
      case True
      then obtain r' where "?u = merge_refs ''accepted_event_refs'' ?refs r'"
        "dget r' ''accepted_event_refs'' = dget r ''accepted_event_refs''"
        using False by (simp add: update_requirement_def Let_def)
      then show ?thesis using string_list_append_refs [OF refs] by simp
    next
      case na: False
      then have "dget ?u ''accepted_event_refs'' = dget r ''accepted_event_refs''"
        by (simp add: update_requirement_def Let_def merge_refs_def)
      then show ?thesis by simp
    qed
    show ?thesis
      unfolding evidence_le_def req_key_def req_status_def req_accepted_def str_field_def
      using status acc False update_requirement_key by auto
  qed
qed

lemma requirement_index_Some:
  assumes "requirement_index rs key = Some i"
  shows "key \<noteq> [] \<and> i < length rs \<and> (\<exists>d. rs ! i = JObj d \<and> str_field d ''requirement_key'' = key)"
proof -
  let ?P = "\<lambda>i. if_obj (rs ! i) (\<lambda>d. str_field d ''requirement_key'' = key) False"
  have key: "key \<noteq> []" using assms by (auto simp: requirement_index_def)
  then obtain js where "filter ?P (rev [0 ..< length rs]) = i # js"
    using assms by (auto simp: requirement_index_def split: list.splits)
  then have "i \<in> set (filter ?P (rev [0 ..< length rs]))" by simp
  then have "i < length rs" and P: "?P i" by simp_all
  moreover from P have "\<exists>d. rs ! i = JObj d \<and> str_field d ''requirement_key'' = key"
    by (cases "rs ! i") simp_all
  ultimately show ?thesis using key by blast
qed

lemma apply_result_cases:
  assumes "i < length rs"
  shows "apply_result now by_node rs result ! i = rs ! i \<or>
    (\<exists>r d. result = JObj r \<and> rs ! i = JObj d
       \<and> strip (str_field r ''requirement_key'') = req_key (rs ! i)
       \<and> apply_result now by_node rs result ! i = JObj (update_requirement now by_node r d))"
proof (cases result)
  case (JObj r)
  show ?thesis
  proof (cases "requirement_index rs (strip (str_field r ''requirement_key''))")
    case None
    with JObj show ?thesis by (simp add: apply_result_def)
  next
    case (Some j)
    then show ?thesis
      using requirement_index_Some [OF Some] JObj assms
      by (cases "i = j") (auto simp: apply_result_def req_key_def)
  qed
qed (simp_all add: apply_result_def)

lemma length_apply_result [simp]: "length (apply_result now by_node rs result) = length rs"
  by (cases result) (auto simp: apply_result_def split: option.splits)

lemma apply_result_le: "list_all2 evidence_le rs (apply_result now by_node rs result)"
proof (rule list_all2_all_nthI)
  fix i assume "i < length rs"
  from apply_result_cases [OF this, of now by_node result]
  show "evidence_le (rs ! i) (apply_result now by_node rs result ! i)"
    using update_requirement_le by auto
qed simp

lemma length_apply_results [simp]: "length (foldl (apply_result now by_node) rs results) = length rs"
  by (induction results arbitrary: rs) simp_all

lemma apply_results_refs:
  assumes "i < length rs"
  shows "req_key (foldl (apply_result now by_node) rs results ! i) = req_key (rs ! i)
    \<and> set (req_accepted (rs ! i)) \<subseteq> set (req_accepted (foldl (apply_result now by_node) rs results ! i))"
  using assms
proof (induction results arbitrary: rs)
  case Nil
  then show ?case by simp
next
  case (Cons result results)
  let ?rs = "apply_result now by_node rs result"
  have "evidence_le (rs ! i) (?rs ! i)"
    using apply_result_le [of rs now by_node result] Cons.prems by (simp add: list_all2_conv_all_nth)
  moreover have "req_key (foldl (apply_result now by_node) ?rs results ! i) = req_key (?rs ! i)
    \<and> set (req_accepted (?rs ! i)) \<subseteq> set (req_accepted (foldl (apply_result now by_node) ?rs results ! i))"
    using Cons by simp
  ultimately show ?case unfolding evidence_le_def by auto
qed

text \<open>A batch reopens an accepted requirement only by rejecting it or finding it not applicable.\<close>

definition reopens :: "string \<Rightarrow> json \<Rightarrow> bool" where
  "reopens key result \<longleftrightarrow>
     (\<exists>r. result = JObj r \<and> strip (str_field r ''requirement_key'') = key
        \<and> result_status r \<in> {''rejected'', ''not_applicable''})"

lemma update_keeps_accepted:
  assumes "dget d ''status'' = JStr ''accepted''" and "result_status r \<notin> {''rejected'', ''not_applicable''}"
  shows "dget (update_requirement now by_node r d) ''status'' = JStr ''accepted''"
proof (cases "result_status r = ''accepted''")
  case True
  then show ?thesis
    by (simp add: update_requirement_def Let_def merge_refs_def STATUSES_def assms(1))
next
  case False
  then have "update_requirement now by_node r d = d"
    using assms unfolding update_requirement_def Let_def STATUSES_def by auto
  with assms(1) show ?thesis by simp
qed

lemma apply_results_sticky:
  assumes "i < length rs" and "req_status (rs ! i) = JStr ''accepted''"
    and "\<forall>result \<in> set results. \<not> reopens (req_key (rs ! i)) result"
  shows "req_status (foldl (apply_result now by_node) rs results ! i) = JStr ''accepted''"
  using assms
proof (induction results arbitrary: rs)
  case Nil
  then show ?case by simp
next
  case (Cons result results)
  let ?rs = "apply_result now by_node rs result"
  have "evidence_le (rs ! i) (?rs ! i)"
    using apply_result_le [of rs now by_node result] Cons.prems by (simp add: list_all2_conv_all_nth)
  then have key: "req_key (?rs ! i) = req_key (rs ! i)" by (simp add: evidence_le_def)
  have "req_status (?rs ! i) = JStr ''accepted''"
    using apply_result_cases [OF Cons.prems(1), of now by_node result]
  proof
    assume "?rs ! i = rs ! i"
    then show ?thesis using Cons.prems(2) by simp
  next
    assume "\<exists>r d. result = JObj r \<and> rs ! i = JObj d
       \<and> strip (str_field r ''requirement_key'') = req_key (rs ! i)
       \<and> ?rs ! i = JObj (update_requirement now by_node r d)"
    then obtain r d where u: "result = JObj r" "rs ! i = JObj d"
      "strip (str_field r ''requirement_key'') = req_key (rs ! i)"
      "?rs ! i = JObj (update_requirement now by_node r d)" by blast
    then have "result_status r \<notin> {''rejected'', ''not_applicable''}"
      using Cons.prems(3) unfolding reopens_def by auto
    then show ?thesis
      using update_keeps_accepted [of d r now by_node] Cons.prems(2) u(2,4) by (simp add: req_status_def)
  qed
  with Cons.IH [of ?rs] Cons.prems key show ?case by simp
qed

end
