(* ===== verification/Terminal.thy ===== *)
theory Terminal
  imports Evidence
begin

text \<open>
  Terminal events as the token sees them: the payloads, the input text, the window of a wait
  checkpoint, the record of consumed inputs, and the two operations that bring events of the
  durable stream into a waiting token, \<^verbatim>\<open>_sync_terminal_events\<close> and
  \<^verbatim>\<open>_consume_pending_terminal_inputs_for_wait\<close>.
\<close>

section \<open>Events and parts\<close>

record tpart =
  tp_id :: string
  tp_part_id :: string
  tp_order :: int
  tp_kind :: string
  tp_mime :: string
  tp_text :: string
  tp_artifact :: "string option"
  tp_size :: int
  tp_checksum :: string
  tp_metadata :: json

record tevent =
  te_id :: string
  te_seq :: int
  te_direction :: string
  te_kind :: string
  te_mime :: string
  te_payload :: json
  te_artifact :: "string option"
  te_binding :: "string option"
  te_source :: json
  te_external :: "string option"
  te_trace :: "string option"
  te_at :: string
  te_parts :: "tpart list"

definition opt_str :: "string option \<Rightarrow> json" where
  "opt_str x = (case x of None \<Rightarrow> JNull | Some s \<Rightarrow> JStr s)"

definition part_payload :: "tpart \<Rightarrow> dict" where
  "part_payload p =
     [(''id'', JStr (tp_id p)), (''part_id'', JStr (tp_part_id p)), (''order_index'', JInt (tp_order p)),
      (''kind'', JStr (tp_kind p)), (''mime_type'', JStr (tp_mime p)), (''text'', JStr (tp_text p)),
      (''artifact_object_id'', opt_str (tp_artifact p)), (''size_bytes'', JInt (tp_size p)),
      (''checksum'', JStr (tp_checksum p)), (''metadata'', tp_metadata p)]"

definition event_payload :: "tevent \<Rightarrow> dict" where
  "event_payload ev =
     [(''id'', JStr (te_id ev)), (''seq_no'', JInt (te_seq ev)),
      (''direction'', JStr (te_direction ev)), (''event_kind'', JStr (te_kind ev)),
      (''mime_type'', JStr (te_mime ev)), (''payload_inline'', te_payload ev),
      (''artifact_object_id'', opt_str (te_artifact ev)), (''binding_id'', opt_str (te_binding ev)),
      (''source_ref'', te_source ev), (''occurred_at'', JStr (te_at ev))]"

section \<open>Input text\<close>

definition text_from_payload :: "json \<Rightarrow> string" where
  "text_from_payload value =
     (if is_str value then str_or_empty value
      else case find (\<lambda>k. truthy (dget (dict_or_empty value) k))
             [''user_input'', ''text'', ''value'', ''content'', ''description'', ''summary'',
              ''name'', ''filename''] of
          Some k \<Rightarrow> py_str (dget (dict_or_empty value) k)
        | None \<Rightarrow> if value = JNull then [] else dumps value)"

definition part_line :: "dict \<Rightarrow> string list" where
  "part_line part =
     (let kind = str_field part ''kind''; text = strip (str_field part ''text'');
          metadata = dict_or_empty (dget part ''metadata'');
          filename = strip (str_or (py_or (dget metadata ''filename'') (dget metadata ''name''))) in
      if kind = ''text'' \<and> text \<noteq> [] then [text]
      else if filename \<noteq> [] then [(if kind = [] then ''attachment'' else kind) @ '': '' @ filename]
      else if kind \<noteq> [] then [kind @ '' input'']
      else [])"

definition input_summary :: "dict list \<Rightarrow> json \<Rightarrow> string" where
  "input_summary parts payload =
     (let lines = concat (map part_line parts) in
      if lines \<noteq> [] then join_with [char_of (10 :: nat)] lines else text_from_payload payload)"

definition input_bundle :: "tevent \<Rightarrow> dict list \<Rightarrow> dict" where
  "input_bundle ev parts =
     [(''event_id'', JStr (te_id ev)), (''seq_no'', JInt (te_seq ev)),
      (''event_kind'', JStr (te_kind ev)), (''mime_type'', JStr (te_mime ev)),
      (''text'', JStr (input_summary parts (te_payload ev))), (''parts'', JArr (map JObj parts))]"

definition event_parts :: "tevent \<Rightarrow> dict list" where
  "event_parts ev = map part_payload (te_parts ev)"

definition payload_with_parts :: "tevent \<Rightarrow> dict" where
  "payload_with_parts ev =
     event_payload ev
     @ (if event_parts ev = [] then []
        else [(''parts'', JArr (map JObj (event_parts ev))),
              (''input_bundle'', JObj (input_bundle ev (event_parts ev)))])"

definition input_text :: "tevent \<Rightarrow> string" where
  "input_text ev =
     (if event_parts ev \<noteq> [] then input_summary (event_parts ev) (te_payload ev)
      else text_from_payload (te_payload ev))"

definition evidence_of :: "tevent \<Rightarrow> dict" where
  "evidence_of ev =
     dset ''input_bundle'' (JObj (input_bundle ev (event_parts ev)))
       (dset ''text'' (JStr (input_text ev)) (payload_with_parts ev))"

lemma evidence_of_seq [simp]: "dget (evidence_of ev) ''seq_no'' = JInt (te_seq ev)"
  by (simp add: evidence_of_def payload_with_parts_def event_payload_def)

lemma evidence_of_id [simp]: "dget (evidence_of ev) ''id'' = JStr (te_id ev)"
  by (simp add: evidence_of_def payload_with_parts_def event_payload_def)

section \<open>The window of a wait checkpoint\<close>

definition ensure_wait_window :: "int \<Rightarrow> dict \<Rightarrow> dict" where
  "ensure_wait_window after wait =
     (let fallback = [(''accept_after_seq'', JInt after), (''policy'', JStr ''checkpoint_scoped'')] in
      if_obj (dget wait ''input_window'')
        (\<lambda>w. let w1 = dsetdefault ''policy'' (JStr ''checkpoint_scoped'') w in
           dset ''input_window'' (JObj (dset ''accept_after_seq''
             (JInt (case int_or0 (dget w1 ''accept_after_seq'') of Inr n \<Rightarrow> n | Inl _ \<Rightarrow> after)) w1)) wait)
        (dset ''input_window'' (JObj fallback) wait))"

definition accept_after :: "dict \<Rightarrow> int" where
  "accept_after wait =
     (case int_or0 (dget (dict_or_empty (dget wait ''input_window'')) ''accept_after_seq'') of
        Inr n \<Rightarrow> n | Inl _ \<Rightarrow> 0)"

definition has_seq :: "int \<Rightarrow> json \<Rightarrow> bool" where
  "has_seq n item = if_obj item (\<lambda>d. py_eq (dget d ''seq_no'') (JInt n)) False"

definition can_consume :: "int \<Rightarrow> dict \<Rightarrow> dict \<Rightarrow> bool" where
  "can_consume seq_no wait control \<longleftrightarrow>
     accept_after wait < seq_no
     \<and> \<not> list_ex (has_seq seq_no) (list_or_empty (dget control ''terminal_consumption''))"

definition record_consumption :: "string \<Rightarrow> dict \<Rightarrow> tevent \<Rightarrow> dict \<Rightarrow> dict" where
  "record_consumption now wait ev control =
     (let consumed = list_or_empty (dget control ''terminal_consumption'');
          entry = JObj [(''seq_no'', JInt (te_seq ev)), (''event_id'', JStr (te_id ev)),
            (''checkpoint_id'', JStr (str_field wait ''checkpoint_id'')),
            (''workflow_step_id'', JStr (str_field wait ''workflow_step_id'')),
            (''consumed_at'', JStr now)] in
      dset ''terminal_consumption''
        (JArr (if list_ex (has_seq (te_seq ev)) consumed then consumed else consumed @ [entry])) control)"

definition append_to :: "string \<Rightarrow> json \<Rightarrow> dict \<Rightarrow> dict res" where
  "append_to k item d =
     if_arr (dget_or d k (JArr [])) (\<lambda>xs. Inr (dset k (JArr (xs @ [item])) d)) (Inl AttrErr)"

definition put_user_input :: "string \<Rightarrow> json \<Rightarrow> json res" where
  "put_user_input text envelope =
     (if text = [] then Inr envelope
      else if_obj envelope
        (\<lambda>d. Inr (JObj (dsetdefault ''text'' (JStr text) (dset ''user_input'' (JStr text) d))))
        (Inl TypeErr))"

definition put_item :: "string \<Rightarrow> json \<Rightarrow> json \<Rightarrow> json res" where
  "put_item k v j = if_obj j (\<lambda>d. Inr (JObj (dset k v d))) (Inl TypeErr)"

section \<open>Synchronising a waiting token\<close>

definition waiting_for_input :: "dict \<Rightarrow> bool" where
  "waiting_for_input token \<longleftrightarrow>
     dget token ''status'' = JStr ''waiting''
     \<and> is_obj (dget (dict_or_empty (dget token ''control'')) ''wait'')"

definition terminal_cursor :: "dict \<Rightarrow> int res" where
  "terminal_cursor token = int_or0 (get_path (JObj token) ''metadata.terminal_cursor'')"

text \<open>The parts of the token that a synchronisation writes.\<close>

record sync_state =
  sy_terminal :: dict
  sy_envelope :: json
  sy_metadata :: json
  sy_control :: dict
  sy_wait :: dict
  sy_consumed :: "tevent list"

definition load_sync :: "dict \<Rightarrow> sync_state res" where
  "load_sync token =
     if_obj (dget_or token ''terminal'' (JObj []))
       (\<lambda>t. Inr \<lparr>sy_terminal = dsetdefault ''events'' (JArr []) t,
            sy_envelope = dget_or token ''input_envelope'' (JObj []),
            sy_metadata = dget_or token ''metadata'' (JObj []),
            sy_control = dict_or_empty (dget token ''control''),
            sy_wait = dict_or_empty (dget (dict_or_empty (dget token ''control'')) ''wait''),
            sy_consumed = []\<rparr>)
       (Inl AttrErr)"

definition stored_control :: "sync_state \<Rightarrow> dict" where
  "stored_control s = dset ''wait'' (JObj (sy_wait s)) (sy_control s)"

definition store_sync :: "sync_state \<Rightarrow> dict \<Rightarrow> dict" where
  "store_sync s token =
     (let t = dset ''control'' (JObj (stored_control s))
            (dset ''input_envelope'' (sy_envelope s)
              (dset ''terminal'' (JObj (sy_terminal s)) token)) in
      if sy_metadata s = dget_or token ''metadata'' (JObj []) then t
      else dset ''metadata'' (sy_metadata s) t)"

definition consume_event :: "string \<Rightarrow> tevent \<Rightarrow> sync_state \<Rightarrow> sync_state res" where
  "consume_event now ev s =
     rbind (append_to ''evidence'' (JObj (evidence_of ev)) (sy_wait s)) (\<lambda>w.
       Inr (s\<lparr>sy_wait := w,
              sy_control := record_consumption now w ev (sy_control s),
              sy_consumed := sy_consumed s @ [ev]\<rparr>))"

definition sync_event :: "string \<Rightarrow> tevent \<Rightarrow> sync_state \<Rightarrow> sync_state res" where
  "sync_event now ev s =
     rbind (append_to ''events'' (JObj (payload_with_parts ev)) (sy_terminal s)) (\<lambda>t.
     rbind (put_item ''terminal_cursor'' (JInt (te_seq ev)) (sy_metadata s)) (\<lambda>m.
     let s1 = s\<lparr>sy_terminal := dset ''latest_seq'' (JInt (te_seq ev)) t, sy_metadata := m\<rparr> in
     if te_direction ev \<noteq> ''input'' then Inr s1
     else rbind (put_user_input (input_text ev) (sy_envelope s1)) (\<lambda>env.
       let s2 = s1\<lparr>sy_envelope := env\<rparr> in
       if can_consume (te_seq ev) (sy_wait s2) (sy_control s2) then consume_event now ev s2
       else Inr s2)))"

fun sync_all :: "string \<Rightarrow> tevent list \<Rightarrow> sync_state \<Rightarrow> sync_state res" where
  "sync_all now [] s = Inr s"
| "sync_all now (ev # evs) s = rbind (sync_event now ev s) (sync_all now evs)"

text \<open>What happens to the wait and the token when at least one input was consumed.\<close>

definition receive_evidence :: "sync_state \<Rightarrow> dict \<Rightarrow> dict" where
  "receive_evidence s token =
     (if sy_consumed s = [] then store_sync s token
      else (let ev = last (sy_consumed s);
            w = dset ''status'' (JStr ''received'') (dset ''latest_event_seq'' (JInt (te_seq ev)) (sy_wait s));
            c = dset ''latest_evidence'' (JObj (evidence_of ev)) (sy_control s);
            t = store_sync (s\<lparr>sy_wait := w, sy_control := c\<rparr>) token in
        dset ''phase'' (JStr (py_str (py_or (py_or (dget w ''resume_phase'') (dget t ''phase'')) (JStr ''start''))))
          (dset ''status'' (JStr ''running'') t)))"

definition events_after :: "int \<Rightarrow> tevent list \<Rightarrow> tevent list" where
  "events_after n evs = sort_key te_seq (filter (\<lambda>ev. n < te_seq ev) evs)"

definition sync_terminal_events :: "string \<Rightarrow> tevent list \<Rightarrow> dict \<Rightarrow> dict res" where
  "sync_terminal_events now events token =
     (if \<not> waiting_for_input token then Inr token
      else rbind (terminal_cursor token) (\<lambda>cursor.
        let evs = events_after cursor events in
        if evs = [] then Inr token
        else rbind (load_sync token) (\<lambda>s0.
          let s1 = s0\<lparr>sy_wait := ensure_wait_window cursor (sy_wait s0)\<rparr> in
          rbind (sync_all now evs s1) (\<lambda>s. Inr (receive_evidence s token)))))"

section \<open>Consuming inputs that are already there when a wait opens\<close>

definition event_ids :: "json list \<Rightarrow> string list" where
  "event_ids items = filter (\<lambda>s. s \<noteq> []) (map (\<lambda>d. str_field d ''id'') (only_objs items))"

definition pending_event :: "string \<Rightarrow> tevent \<Rightarrow> sync_state \<Rightarrow> sync_state res" where
  "pending_event now ev s =
     (if te_direction ev \<noteq> ''input'' \<or> \<not> can_consume (te_seq ev) (sy_wait s) (sy_control s) then Inr s
      else rbind (put_user_input (input_text ev) (sy_envelope s)) (\<lambda>env.
        rbind (if te_id ev \<in> set (event_ids (list_or_empty (dget (sy_terminal s) ''events''))) then Inr (sy_terminal s)
               else append_to ''events'' (JObj (evidence_of ev)) (sy_terminal s)) (\<lambda>t.
        rbind (int_or0 (dget t ''latest_seq'')) (\<lambda>latest.
        rbind (int_or0 (get_path (JObj [(''metadata'', sy_metadata s)]) ''metadata.terminal_cursor'')) (\<lambda>cursor.
        rbind (put_item ''terminal_cursor'' (JInt (max cursor (te_seq ev))) (sy_metadata s)) (\<lambda>m.
          consume_event now ev
            (s\<lparr>sy_envelope := env, sy_terminal := dset ''latest_seq'' (JInt (max latest (te_seq ev))) t,
               sy_metadata := m\<rparr>)))))))"

fun pending_all :: "string \<Rightarrow> tevent list \<Rightarrow> sync_state \<Rightarrow> sync_state res" where
  "pending_all now [] s = Inr s"
| "pending_all now (ev # evs) s = rbind (pending_event now ev s) (pending_all now evs)"

definition events_between :: "int \<Rightarrow> int \<Rightarrow> tevent list \<Rightarrow> tevent list" where
  "events_between lo hi evs =
     sort_key te_seq (filter (\<lambda>ev. lo < te_seq ev \<and> te_seq ev \<le> hi) evs)"

definition consume_pending :: "string \<Rightarrow> int \<Rightarrow> tevent list \<Rightarrow> dict \<Rightarrow> (dict \<times> bool) res" where
  "consume_pending now latest_seq events token =
     (if \<not> waiting_for_input token then Inr (token, False)
      else (let after = accept_after (dict_or_empty (dget (dict_or_empty (dget token ''control'')) ''wait'')) in
        if latest_seq \<le> after then Inr (token, False)
        else rbind (load_sync token) (\<lambda>s0.
          rbind (iter_items (dget (sy_terminal s0) ''events'')) (\<lambda>items.
          rbind (pending_all now (events_between after latest_seq events) s0) (\<lambda>s.
            Inr (receive_evidence s token, sy_consumed s \<noteq> []))))))"

section \<open>Each input is consumed at most once\<close>

definition seq_entry :: "json \<Rightarrow> bool" where
  "seq_entry item \<longleftrightarrow> (\<exists>d n. item = JObj d \<and> dget d ''seq_no'' = JInt n)"

definition entry_seq :: "json \<Rightarrow> int" where
  "entry_seq item = plain_int (dget (dict_or_empty item) ''seq_no'')"

definition consumption :: "dict \<Rightarrow> json list" where
  "consumption control = list_or_empty (dget control ''terminal_consumption'')"

definition consumed_seqs :: "dict \<Rightarrow> int list" where
  "consumed_seqs control = map entry_seq (consumption control)"

definition wf_consumption :: "dict \<Rightarrow> bool" where
  "wf_consumption control \<longleftrightarrow> list_all seq_entry (consumption control)"

lemma has_seq_entry: "seq_entry item \<Longrightarrow> has_seq n item \<longleftrightarrow> entry_seq item = n"
  by (auto simp: seq_entry_def has_seq_def entry_seq_def plain_int_def)

lemma ex_has_seq:
  "wf_consumption control \<Longrightarrow> list_ex (has_seq n) (consumption control) \<longleftrightarrow> n \<in> set (consumed_seqs control)"
  by (auto simp: wf_consumption_def consumed_seqs_def list_ex_iff list_all_iff has_seq_entry)

lemma can_consume_iff:
  "wf_consumption control \<Longrightarrow>
   can_consume n wait control \<longleftrightarrow> accept_after wait < n \<and> n \<notin> set (consumed_seqs control)"
  using ex_has_seq [of control n] by (simp add: can_consume_def consumption_def)

lemma record_consumption_seqs:
  assumes "wf_consumption control"
  shows "wf_consumption (record_consumption now wait ev control)
    \<and> consumed_seqs (record_consumption now wait ev control) =
      (if te_seq ev \<in> set (consumed_seqs control) then consumed_seqs control
       else consumed_seqs control @ [te_seq ev])"
proof -
  have "seq_entry (JObj [(''seq_no'', JInt (te_seq ev)), (''event_id'', JStr (te_id ev)),
            (''checkpoint_id'', JStr (str_field wait ''checkpoint_id'')),
            (''workflow_step_id'', JStr (str_field wait ''workflow_step_id'')),
            (''consumed_at'', JStr now)])"
    by (simp add: seq_entry_def)
  then show ?thesis
    using assms ex_has_seq [OF assms, of "te_seq ev"]
    by (auto simp: record_consumption_def consumption_def consumed_seqs_def wf_consumption_def Let_def
        entry_seq_def plain_int_def)
qed

lemma append_to_other: "append_to k v d = Inr d' \<Longrightarrow> k' \<noteq> k \<Longrightarrow> dget d' k' = dget d k'"
  by (cases "dget_or d k (JArr [])") (auto simp: append_to_def)

lemma consume_event_seqs:
  assumes "consume_event now ev s = Inr s'" and "wf_consumption (sy_control s)"
    and "te_seq ev \<notin> set (consumed_seqs (sy_control s))"
  shows "wf_consumption (sy_control s') \<and> accept_after (sy_wait s') = accept_after (sy_wait s)
    \<and> consumed_seqs (sy_control s') = consumed_seqs (sy_control s) @ [te_seq ev]
    \<and> sy_consumed s' = sy_consumed s @ [ev] \<and> sy_metadata s' = sy_metadata s
    \<and> sy_terminal s' = sy_terminal s \<and> dget (sy_wait s') ''resume_phase'' = dget (sy_wait s) ''resume_phase''"
  using assms record_consumption_seqs [OF assms(2)]
  by (auto simp: consume_event_def rbind_eq_Inr accept_after_def append_to_other)

text \<open>The inputs that a wait still accepts.\<close>

definition fresh_input :: "dict \<Rightarrow> dict \<Rightarrow> tevent \<Rightarrow> bool" where
  "fresh_input wait control ev \<longleftrightarrow>
     te_direction ev = ''input'' \<and> accept_after wait < te_seq ev
     \<and> te_seq ev \<notin> set (consumed_seqs control)"

definition sync_invariant :: "sync_state \<Rightarrow> bool" where
  "sync_invariant s \<longleftrightarrow> wf_consumption (sy_control s)"

lemma sync_event_step:
  assumes "sync_event now ev s = Inr s'" and "wf_consumption (sy_control s)"
  shows "wf_consumption (sy_control s') \<and> accept_after (sy_wait s') = accept_after (sy_wait s)
    \<and> dget (dict_or_empty (sy_metadata s')) ''terminal_cursor'' = JInt (te_seq ev)
    \<and> is_obj (sy_metadata s')
    \<and> dget (sy_wait s') ''resume_phase'' = dget (sy_wait s) ''resume_phase''
    \<and> consumed_seqs (sy_control s') = consumed_seqs (sy_control s)
        @ (if fresh_input (sy_wait s) (sy_control s) ev then [te_seq ev] else [])
    \<and> sy_consumed s' = sy_consumed s
        @ (if fresh_input (sy_wait s) (sy_control s) ev then [ev] else [])"
proof -
  obtain t m where t: "append_to ''events'' (JObj (payload_with_parts ev)) (sy_terminal s) = Inr t"
    and m: "put_item ''terminal_cursor'' (JInt (te_seq ev)) (sy_metadata s) = Inr m"
    using assms(1) by (auto simp: sync_event_def rbind_eq_Inr)
  define s1 where "s1 = s\<lparr>sy_terminal := dset ''latest_seq'' (JInt (te_seq ev)) t, sy_metadata := m\<rparr>"
  have m': "is_obj m" "dget (dict_or_empty m) ''terminal_cursor'' = JInt (te_seq ev)"
    using m by (cases "sy_metadata s"; auto simp: put_item_def)+
  show ?thesis
  proof (cases "te_direction ev = ''input''")
    case False
    then have "s' = s1" using assms(1) t m by (simp add: sync_event_def s1_def Let_def)
    with False m' assms(2) show ?thesis by (simp add: s1_def fresh_input_def)
  next
    case True
    then obtain env where put: "put_user_input (input_text ev) (sy_envelope s) = Inr env"
      using assms(1) t m by (auto simp: sync_event_def Let_def rbind_eq_Inr)
    have step: "(if can_consume (te_seq ev) (sy_wait s) (sy_control s)
        then consume_event now ev (s1\<lparr>sy_envelope := env\<rparr>) else Inr (s1\<lparr>sy_envelope := env\<rparr>)) = Inr s'"
      using assms(1) t m True put by (auto simp: sync_event_def Let_def s1_def split: if_splits)
    have fresh: "can_consume (te_seq ev) (sy_wait s) (sy_control s) \<longleftrightarrow> fresh_input (sy_wait s) (sy_control s) ev"
      using True can_consume_iff [OF assms(2)] by (simp add: fresh_input_def)
    show ?thesis
    proof (cases "fresh_input (sy_wait s) (sy_control s) ev")
      case False
      then have "s' = s1\<lparr>sy_envelope := env\<rparr>" using step fresh by simp
      with False m' assms(2) show ?thesis by (simp add: s1_def)
    next
      case fr: True
      then have "consume_event now ev (s1\<lparr>sy_envelope := env\<rparr>) = Inr s'" using step fresh by simp
      from consume_event_seqs [OF this] fr m' assms(2) show ?thesis
        by (simp add: s1_def fresh_input_def)
    qed
  qed
qed

lemma sync_all_consumes:
  assumes "sync_all now evs s = Inr s'" and "wf_consumption (sy_control s)" and "distinct (map te_seq evs)"
  shows "wf_consumption (sy_control s') \<and> accept_after (sy_wait s') = accept_after (sy_wait s)
    \<and> dget (sy_wait s') ''resume_phase'' = dget (sy_wait s) ''resume_phase''
    \<and> (evs \<noteq> [] \<longrightarrow> is_obj (sy_metadata s')
         \<and> dget (dict_or_empty (sy_metadata s')) ''terminal_cursor'' = JInt (te_seq (last evs)))
    \<and> consumed_seqs (sy_control s') = consumed_seqs (sy_control s)
        @ map te_seq (filter (fresh_input (sy_wait s) (sy_control s)) evs)
    \<and> sy_consumed s' = sy_consumed s @ filter (fresh_input (sy_wait s) (sy_control s)) evs"
  using assms
proof (induction evs arbitrary: s)
  case Nil
  then show ?case by simp
next
  case (Cons ev evs)
  obtain s1 where s1: "sync_event now ev s = Inr s1" "sync_all now evs s1 = Inr s'"
    using Cons.prems(1) by (auto simp: rbind_eq_Inr)
  note one = sync_event_step [OF s1(1) Cons.prems(2)]
  have other: "te_seq x \<noteq> te_seq ev" if "x \<in> set evs" for x
    using Cons.prems(3) that by (auto simp: image_iff)
  have "filter (fresh_input (sy_wait s1) (sy_control s1)) evs = filter (fresh_input (sy_wait s) (sy_control s)) evs"
    using one other by (intro filter_cong) (auto simp: fresh_input_def)
  moreover note Cons.IH [OF s1(2)]
  ultimately show ?case
    using one Cons.prems(3) s1(2) by (cases "evs = []") auto
qed


lemma pending_event_step:
  assumes "pending_event now ev s = Inr s'" and "wf_consumption (sy_control s)"
  shows "wf_consumption (sy_control s') \<and> accept_after (sy_wait s') = accept_after (sy_wait s)
    \<and> dget (sy_wait s') ''resume_phase'' = dget (sy_wait s) ''resume_phase''
    \<and> consumed_seqs (sy_control s') = consumed_seqs (sy_control s)
        @ (if fresh_input (sy_wait s) (sy_control s) ev then [te_seq ev] else [])
    \<and> sy_consumed s' = sy_consumed s
        @ (if fresh_input (sy_wait s) (sy_control s) ev then [ev] else [])"
proof (cases "fresh_input (sy_wait s) (sy_control s) ev")
  case False
  then have "s' = s"
    using assms can_consume_iff [OF assms(2)] by (auto simp: pending_event_def fresh_input_def)
  with False assms(2) show ?thesis by simp
next
  case True
  then have guard: "\<not> (te_direction ev \<noteq> ''input'' \<or> \<not> can_consume (te_seq ev) (sy_wait s) (sy_control s))"
    using can_consume_iff [OF assms(2)] by (simp add: fresh_input_def)
  then obtain env t latest m where
    "consume_event now ev (s\<lparr>sy_envelope := env, sy_terminal := dset ''latest_seq'' (JInt (max latest (te_seq ev))) t,
               sy_metadata := m\<rparr>) = Inr s'"
    using assms(1) unfolding pending_event_def if_not_P [OF guard] by (auto simp: rbind_eq_Inr)
  from consume_event_seqs [OF this] True assms(2) show ?thesis
    by (simp add: fresh_input_def)
qed

lemma pending_all_consumes:
  assumes "pending_all now evs s = Inr s'" and "wf_consumption (sy_control s)" and "distinct (map te_seq evs)"
  shows "wf_consumption (sy_control s')
    \<and> dget (sy_wait s') ''resume_phase'' = dget (sy_wait s) ''resume_phase''
    \<and> consumed_seqs (sy_control s') = consumed_seqs (sy_control s)
        @ map te_seq (filter (fresh_input (sy_wait s) (sy_control s)) evs)
    \<and> sy_consumed s' = sy_consumed s @ filter (fresh_input (sy_wait s) (sy_control s)) evs"
  using assms
proof (induction evs arbitrary: s)
  case Nil
  then show ?case by simp
next
  case (Cons ev evs)
  obtain s1 where s1: "pending_event now ev s = Inr s1" "pending_all now evs s1 = Inr s'"
    using Cons.prems(1) by (auto simp: rbind_eq_Inr)
  note one = pending_event_step [OF s1(1) Cons.prems(2)]
  have other: "te_seq x \<noteq> te_seq ev" if "x \<in> set evs" for x
    using Cons.prems(3) that by (auto simp: image_iff)
  have "filter (fresh_input (sy_wait s1) (sy_control s1)) evs = filter (fresh_input (sy_wait s) (sy_control s)) evs"
    using one other by (intro filter_cong) (auto simp: fresh_input_def)
  with Cons.IH [OF s1(2)] show ?case
    using one Cons.prems(3) by auto
qed

section \<open>What a synchronised token says\<close>

definition token_control :: "dict \<Rightarrow> dict" where
  "token_control token = dict_or_empty (dget token ''control'')"

definition token_wait :: "dict \<Rightarrow> dict" where
  "token_wait token = dict_or_empty (dget (token_control token) ''wait'')"

lemma store_sync_fields:
  "dget (store_sync s token) ''control'' = JObj (stored_control s)"
  "dget (store_sync s token) ''status'' = dget token ''status''"
  "dget (store_sync s token) ''phase'' = dget token ''phase''"
  "dget (store_sync s token) ''metadata'' = (if sy_metadata s = dget_or token ''metadata'' (JObj [])
     then dget token ''metadata'' else sy_metadata s)"
  by (simp_all add: store_sync_def Let_def)

lemma consumed_seqs_stored [simp]:
  "consumed_seqs (stored_control s) = consumed_seqs (sy_control s)"
  by (simp add: consumed_seqs_def consumption_def stored_control_def)

lemma receive_evidence_idle:
  assumes "sy_consumed s = []"
  shows "token_control (receive_evidence s token) = stored_control s
    \<and> dget (receive_evidence s token) ''status'' = dget token ''status''
    \<and> dget (receive_evidence s token) ''phase'' = dget token ''phase''
    \<and> dget (receive_evidence s token) ''metadata'' = dget (store_sync s token) ''metadata''"
  using assms by (simp add: receive_evidence_def token_control_def store_sync_fields)

lemma receive_evidence_resumes:
  assumes "sy_consumed s \<noteq> []"
  shows "consumed_seqs (token_control (receive_evidence s token)) = consumed_seqs (sy_control s)
    \<and> dget (receive_evidence s token) ''status'' = JStr ''running''
    \<and> (\<forall>p. dget (sy_wait s) ''resume_phase'' = JStr p \<and> p \<noteq> [] \<longrightarrow>
         dget (receive_evidence s token) ''phase'' = JStr p)
    \<and> dget (token_wait (receive_evidence s token)) ''status'' = JStr ''received''
    \<and> dget (token_control (receive_evidence s token)) ''latest_evidence''
        = JObj (evidence_of (last (sy_consumed s)))
    \<and> dget (receive_evidence s token) ''metadata'' = dget (store_sync s token) ''metadata''"
  using assms
  by (simp add: receive_evidence_def token_control_def token_wait_def Let_def store_sync_fields
      stored_control_def py_or_def consumed_seqs_def consumption_def)

lemma sorted_events: "set (events_after n evs) = {ev \<in> set evs. n < te_seq ev}"
  "distinct (map te_seq evs) \<Longrightarrow> distinct (map te_seq (events_after n evs))"
  "set (events_between lo hi evs) = {ev \<in> set evs. lo < te_seq ev \<and> te_seq ev \<le> hi}"
  "distinct (map te_seq evs) \<Longrightarrow> distinct (map te_seq (events_between lo hi evs))"
  by (auto simp: events_after_def events_between_def distinct_map_filter distinct_map inj_on_def)

lemma ensure_wait_window_other:
  "k \<noteq> ''input_window'' \<Longrightarrow> dget (ensure_wait_window n w) k = dget w k"
  by (cases "dget w ''input_window''") (simp_all add: ensure_wait_window_def Let_def)

lemma load_sync_fields:
  assumes "load_sync token = Inr s0"
  shows "sy_control s0 = token_control token \<and> sy_wait s0 = token_wait token \<and> sy_consumed s0 = []
    \<and> sy_metadata s0 = dget_or token ''metadata'' (JObj [])"
  using assms
  by (cases "dget_or token ''terminal'' (JObj [])") (auto simp: load_sync_def token_control_def token_wait_def)

lemma cursor_of_metadata:
  assumes "dget token ''metadata'' = JObj m" and "dget m ''terminal_cursor'' = JInt n"
  shows "terminal_cursor token = Inr n"
proof -
  have "split_on CHR ''.'' ''metadata.terminal_cursor'' = [''metadata'', ''terminal_cursor'']" by simp
  then have "get_path (JObj token) ''metadata.terminal_cursor'' = JInt n"
    using assms by (auto simp: get_path_def dget_def dget_or_def split: option.splits)
  then show ?thesis by (simp add: terminal_cursor_def)
qed

lemma stored_metadata:
  assumes "is_obj (sy_metadata s)" and "dget (dict_or_empty (sy_metadata s)) ''terminal_cursor'' = JInt n"
  shows "\<exists>m. dget (store_sync s token) ''metadata'' = JObj m \<and> dget m ''terminal_cursor'' = JInt n"
proof -
  obtain m where m: "sy_metadata s = JObj m" using assms(1) by (auto simp: is_obj_iff)
  show ?thesis
  proof (cases "dhas token ''metadata''")
    case True
    then have "dget_or token ''metadata'' (JObj []) = dget token ''metadata''"
      by (auto simp: dhas_def dget_def dget_or_def)
    then have "dget (store_sync s token) ''metadata'' = JObj m"
      by (metis m store_sync_fields(4))
    with m assms(2) show ?thesis by simp
  next
    case False
    then have "dget_or token ''metadata'' (JObj []) = JObj []"
      by (auto simp: dhas_def dget_or_def)
    moreover have "m \<noteq> []" using assms(2) m by auto
    ultimately show ?thesis using m assms(2) by (simp add: store_sync_fields)
  qed
qed

text \<open>The inputs that a synchronisation consumes, said without the loop.\<close>

definition fresh_inputs :: "int \<Rightarrow> tevent list \<Rightarrow> dict \<Rightarrow> tevent list" where
  "fresh_inputs cursor events token =
     filter (fresh_input (ensure_wait_window cursor (token_wait token)) (token_control token))
       (events_after cursor events)"

lemma waiting_fields:
  "waiting_for_input token \<Longrightarrow> dget token ''status'' = JStr ''waiting''
     \<and> dget (token_control token) ''wait'' = JObj (token_wait token)"
  by (auto simp: waiting_for_input_def token_control_def token_wait_def is_obj_iff)

lemma sync_terminal_consumes:
  assumes sync: "sync_terminal_events now events token = Inr token'"
    and waiting: "waiting_for_input token" and cursor: "terminal_cursor token = Inr cursor"
    and wf: "wf_consumption (token_control token)" and dist: "distinct (map te_seq events)"
  shows "consumed_seqs (token_control token') =
           consumed_seqs (token_control token) @ map te_seq (fresh_inputs cursor events token)
    \<and> (events_after cursor events \<noteq> [] \<longrightarrow>
         terminal_cursor token' = Inr (te_seq (last (events_after cursor events))))
    \<and> (fresh_inputs cursor events token = [] \<longrightarrow> dget token' ''status'' = JStr ''waiting'')
    \<and> (fresh_inputs cursor events token \<noteq> [] \<longrightarrow> dget token' ''status'' = JStr ''running''
         \<and> (\<forall>p. dget (token_wait token) ''resume_phase'' = JStr p \<and> p \<noteq> [] \<longrightarrow>
              dget token' ''phase'' = JStr p)
         \<and> dget (token_control token') ''latest_evidence''
             = JObj (evidence_of (last (fresh_inputs cursor events token))))"
proof (cases "events_after cursor events = []")
  case True
  then have "token' = token" using sync waiting cursor by (simp add: sync_terminal_events_def Let_def)
  with True waiting_fields [OF waiting] show ?thesis by (simp add: fresh_inputs_def)
next
  case False
  let ?evs = "events_after cursor events" and ?new = "fresh_inputs cursor events token"
  obtain s0 s where s0: "load_sync token = Inr s0"
    and s: "sync_all now ?evs (s0\<lparr>sy_wait := ensure_wait_window cursor (sy_wait s0)\<rparr>) = Inr s"
    and t': "token' = receive_evidence s token"
    using sync waiting cursor False by (auto simp: sync_terminal_events_def Let_def rbind_eq_Inr)
  have init: "sy_control s0 = token_control token" "sy_wait s0 = token_wait token" "sy_consumed s0 = []"
    using load_sync_fields [OF s0] by simp_all
  have all: "is_obj (sy_metadata s)"
    "dget (dict_or_empty (sy_metadata s)) ''terminal_cursor'' = JInt (te_seq (last ?evs))"
    "dget (sy_wait s) ''resume_phase'' = dget (token_wait token) ''resume_phase''"
    "consumed_seqs (sy_control s) = consumed_seqs (token_control token) @ map te_seq ?new"
    "sy_consumed s = ?new"
    using sync_all_consumes [OF s] init wf sorted_events(2) [OF dist, of cursor] False
    by (simp_all add: fresh_inputs_def ensure_wait_window_other)
  obtain m where m: "dget (store_sync s token) ''metadata'' = JObj m"
    "dget m ''terminal_cursor'' = JInt (te_seq (last ?evs))"
    using stored_metadata [OF all(1,2)] by blast
  show ?thesis
  proof (cases "?new = []")
    case True
    note idle = receive_evidence_idle [of s token]
    have "terminal_cursor token' = Inr (te_seq (last ?evs))"
      using cursor_of_metadata [of token' m] m idle all(5) True unfolding t' by simp
    with True idle all t' waiting_fields [OF waiting] show ?thesis by simp
  next
    case False
    note res = receive_evidence_resumes [of s token]
    have "terminal_cursor token' = Inr (te_seq (last ?evs))"
      using cursor_of_metadata [of token' m] m res all(5) False unfolding t' by simp
    with False res all t' show ?thesis by simp
  qed
qed

lemma consume_pending_consumes:
  assumes consume: "consume_pending now latest events token = Inr (token', resumed)"
    and waiting: "waiting_for_input token"
    and wf: "wf_consumption (token_control token)" and dist: "distinct (map te_seq events)"
  shows "(let new = (if latest \<le> accept_after (token_wait token) then []
            else filter (fresh_input (token_wait token) (token_control token))
                   (events_between (accept_after (token_wait token)) latest events)) in
      consumed_seqs (token_control token') = consumed_seqs (token_control token) @ map te_seq new
      \<and> (resumed \<longleftrightarrow> new \<noteq> [])
      \<and> dget token' ''status'' = JStr (if new = [] then ''waiting'' else ''running''))"
proof (cases "latest \<le> accept_after (token_wait token)")
  case True
  then have "token' = token \<and> \<not> resumed"
    using consume waiting by (auto simp: consume_pending_def Let_def token_wait_def token_control_def)
  with True waiting_fields [OF waiting] show ?thesis by simp
next
  case False
  let ?evs = "events_between (accept_after (token_wait token)) latest events"
  obtain s0 s where s0: "load_sync token = Inr s0" and s: "pending_all now ?evs s0 = Inr s"
    and t': "token' = receive_evidence s token" "resumed \<longleftrightarrow> sy_consumed s \<noteq> []"
    using consume waiting False
    by (auto simp: consume_pending_def Let_def rbind_eq_Inr token_wait_def token_control_def)
  note init = load_sync_fields [OF s0]
  let ?new = "filter (fresh_input (token_wait token) (token_control token)) ?evs"
  have all: "consumed_seqs (sy_control s) = consumed_seqs (token_control token) @ map te_seq ?new"
    "sy_consumed s = ?new"
    using pending_all_consumes [OF s] init wf sorted_events(4) [OF dist, of "accept_after (token_wait token)" latest]
    by simp_all
  show ?thesis
  proof (cases "?new = []")
    case True
    then show ?thesis
      using receive_evidence_idle [of s token] all t' waiting_fields [OF waiting] False by simp
  next
    case ne: False
    then show ?thesis
      using receive_evidence_resumes [of s token] all t' False by simp
  qed
qed

end
