(* ===== verification/RuntimeTheorems.thy ===== *)
theory RuntimeTheorems
  imports Terminal
begin

text \<open>
  The properties of one runtime step: which node runs, what its merge changes, what it costs,
  what its assessment does to the evidence, and how terminal inputs reach a waiting token.
\<close>

section \<open>Guards and selection\<close>


text \<open>A guard object with no known condition is true: an \<^verbatim>\<open>always\<close> that is not the
  constant \<^verbatim>\<open>true\<close> (in particular \<^verbatim>\<open>{"always": false}\<close>) does not disable a node.\<close>

theorem guard_without_condition_holds:
  assumes "\<forall>k \<in> {''phase_is'', ''field_exists'', ''field_equals'', ''all'', ''any'', ''not''}. \<not> dhas g k"
  shows "evaluate_guard token (JObj g)"
  using assms by (simp add: evaluate_guard_obj)

theorem guard_without_condition_holds_witness:
  "evaluate_guard [(''phase'', JStr ''start'')] (JObj [(''always'', JBool False)])"
  by (rule guard_without_condition_holds) (simp add: dhas_def)

lemma enabled_nodes_guarded:
  assumes "enabled_nodes artifact token = Inr ns" and "dget artifact ''nodes'' = JArr items"
  shows "n \<in> set ns \<longleftrightarrow> JObj n \<in> set items
    \<and> evaluate_guard token (dget_or n ''guard'' (JObj [(''always'', JBool True)]))"
  using set_enabled_nodes [OF assms] by simp

text \<open>C29. The node a step runs is a node of the artifact whose guard holds, and no node whose
  guard holds has a smaller priority, or the same priority and a smaller id.\<close>

theorem selected_node_is_enabled_minimum:
  assumes "enabled_nodes artifact token = Inr ns" and "dget artifact ''nodes'' = JArr items"
    and "select_node ns = Inr n"
  shows "JObj n \<in> set items
    \<and> evaluate_guard token (dget_or n ''guard'' (JObj [(''always'', JBool True)]))
    \<and> (\<exists>k. select_key n = Inr k \<and> (\<forall>m. JObj m \<in> set items
         \<and> evaluate_guard token (dget_or m ''guard'' (JObj [(''always'', JBool True)])) \<longrightarrow>
         (\<exists>km. select_key m = Inr km \<and> k \<le> km)))"
proof -
  obtain k where k: "select_key n = Inr k"
    "\<forall>j < length ns. \<exists>kj. select_key (ns ! j) = Inr kj \<and> k \<le> kj"
    using select_node_first_min [OF assms(3)] by blast
  have "\<exists>km. select_key m = Inr km \<and> k \<le> km" if "m \<in> set ns" for m
    using k(2) that by (metis in_set_conv_nth)
  with k(1) enabled_nodes_guarded [OF assms(1,2)] select_node_in [OF assms(3)] show ?thesis
    by blast
qed

definition two_nodes :: "dict list" where
  "two_nodes =
     [[(''id'', JStr ''b''), (''guard'', JObj [(''phase_is'', JStr ''start'')])],
      [(''id'', JStr ''a''), (''guard'', JObj [(''phase_is'', JStr ''start'')]), (''policy'', JObj [(''priority'', JInt 10)])],
      [(''id'', JStr ''c''), (''guard'', JObj [(''phase_is'', JStr ''end'')])]]"

lemma two_nodes_enabled:
  "enabled_nodes [(''nodes'', JArr (map JObj two_nodes))] [(''phase'', JStr ''start'')] = Inr (take 2 two_nodes)"
  by (simp add: enabled_nodes_def two_nodes_def only_objs_def evaluate_guard_obj numeral_2_eq_2
      dget_or_def dget_def dhas_def)

lemma two_nodes_selected: "select_node (take 2 two_nodes) = Inr (two_nodes ! 1)"
  by (simp add: select_node_def two_nodes_def select_key_def numeral_2_eq_2 dget_or_def)

theorem selected_node_is_enabled_minimum_witness:
  "JObj (two_nodes ! 1) \<in> set (map JObj two_nodes)"
  using selected_node_is_enabled_minimum [OF two_nodes_enabled _ two_nodes_selected] by simp

section \<open>Merging\<close>

text \<open>C31. A merge whose operations do not write below one another is last-writer-wins on
  independent paths: after a step, a path that the merge list sets and no later operation touches holds the value that operation read, at the moment
  it ran, from the observation, the token or the input; and a path that no operation touches
  and that is not an observation keeps its value.\<close>

theorem merge_last_write_and_frame:
  assumes merge: "merge_observation node token observation = Inr token'"
    and ops: "dget node ''merge'' = JArr ops" and "unshared_writes ops"
    and writes: "merge_writes (observation_for_token observation) ops = before @ (p, v) # later"
    and p: "hd (split_on CHR ''.'' p) \<noteq> ''observations''" "p \<noteq> []"
    and later: "\<forall>w \<in> set later. indep_paths (fst w) p"
    and q: "hd (split_on CHR ''.'' q) \<noteq> ''observations''" "q \<noteq> []"
    and untouched: "\<forall>w \<in> set (before @ (p, v) # later). indep_paths (fst w) q"
  shows "get_path (JObj token') p = v (apply_writes before token)
    \<and> get_path (JObj token') q = get_path (JObj token) q"
proof -
  note eq = merge_observation_eq [OF merge ops, unfolded writes]
  show ?thesis
    using get_path_keep [OF eq p] get_path_keep [OF eq q] apply_writes_last [OF p(2), of later before v token]
      apply_writes_frame [of "before @ (p, v) # later" q token] later untouched
    by simp
qed

definition sample_merge_node :: dict where
  "sample_merge_node =
     [(''id'', JStr ''n''),
      (''merge'', JArr [JObj [(''op'', JStr ''set''), (''path'', JStr ''status''), (''value'', JStr ''running'')],
                  JObj [(''op'', JStr ''set''), (''path'', JStr ''status''), (''from'', JStr ''observation.state'')]])]"

theorem merge_last_write_and_frame_witness:
  "\<exists>token'. merge_observation sample_merge_node [(''phase'', JStr ''a'')] [(''state'', JStr ''done'')] = Inr token'
     \<and> get_path (JObj token') ''status'' = JStr ''done'' \<and> get_path (JObj token') ''phase'' = JStr ''a''"
proof -
  let ?ops = "[JObj [(''op'', JStr ''set''), (''path'', JStr ''status''), (''value'', JStr ''running'')],
     JObj [(''op'', JStr ''set''), (''path'', JStr ''status''), (''from'', JStr ''observation.state'')]]"
  let ?obs = "[(''state'', JStr ''done'')]"
  have obs: "observation_for_token ?obs = ?obs" by (simp add: observation_for_token_def dpop_def)
  obtain token' where merge: "merge_observation sample_merge_node [(''phase'', JStr ''a'')] ?obs = Inr token'"
    by (simp add: merge_observation_def sample_merge_node_def obs keep_observation_def
        merge_writes_def merge_write_def apply_writes_def set_path_def merge_value_def Let_def)
  have ops: "dget sample_merge_node ''merge'' = JArr ?ops" by (simp add: sample_merge_node_def)
  have writes: "merge_writes (observation_for_token ?obs) ?ops =
      [(''status'', merge_value ?obs [(''op'', JStr ''set''), (''path'', JStr ''status''), (''value'', JStr ''running'')])]
      @ (''status'', merge_value ?obs [(''op'', JStr ''set''), (''path'', JStr ''status''), (''from'', JStr ''observation.state'')]) # []"
    by (simp add: obs merge_writes_def merge_write_def)
  have unshared: "unshared_writes ?ops"
    by (simp add: merge_target_def merge_write_def merge_token_source_def strictly_below_def
        starts_with_def Let_def)
  have status: "merge_value ?obs [(''op'', JStr ''set''), (''path'', JStr ''status''), (''from'', JStr ''observation.state'')] t
      = JStr ''done''" for t
    by (simp add: merge_value_def resolve_merge_source_def starts_with_def removeprefix_def get_path_def)
  have "get_path (JObj token') ''status'' = JStr ''done''
      \<and> get_path (JObj token') ''phase'' = get_path (JObj [(''phase'', JStr ''a'')]) ''phase''"
    using merge_last_write_and_frame [OF merge ops unshared writes, of "''phase''"]
    by (simp add: status indep_paths_def Let_def)
  with merge show ?thesis by (auto simp: get_path_def)
qed

section \<open>Costs\<close>

text \<open>A runner turn charges the run exactly what the harness reported: the token total grows
  by the sum of the \<^verbatim>\<open>total_tokens\<close> of its usage events and the call count by the number of
  completed model calls, and nothing else of the token changes.\<close>

theorem runner_turn_charges_reported_usage:
  assumes run: "execute_runner_node env node token = Inr (obs, token')"
    and invoke: "re_invoke env node token = Inr (r, chars, roles)"
    and budgets: "dget token ''budgets'' = JObj b"
    and total: "py_int (dget_or b ''llm_total_tokens'' (JInt 0)) = Inr n"
    and calls: "py_int (dget_or b ''llm_calls'' (JInt 0)) = Inr c"
  shows "get_path (JObj token') ''budgets.llm_total_tokens''
      = JInt (n + (\<Sum>e\<leftarrow>ar_events r. reported ''total_tokens'' e))
    \<and> get_path (JObj token') ''budgets.llm_calls''
      = JInt (c + int (length (filter (\<lambda>e. fst e = ''agent.model.completed'') (ar_events r))))
    \<and> (\<forall>k. k \<noteq> ''budgets'' \<longrightarrow> dget token' k = dget token k)"
proof -
  let ?u = "agent_result_usage (ar_events r)"
  have spend: "spend_budgets ?u token = Inr token'"
    using run invoke by (auto simp: execute_runner_node_def runner_spends_def Let_def rbind_eq_Inr split: if_splits)
  have "dget token' k = dget token k" if "k \<noteq> ''budgets''" for k
    using spend that by (cases "dget_or token ''budgets'' (JObj [])") (auto simp: spend_budgets_def rbind_eq_Inr)
  with spend_budgets_total [OF spend budgets total calls] show ?thesis
    by (simp add: agent_result_usage_def usage_fold)
qed

definition sample_result :: agent_result where
  "sample_result =
     \<lparr>ar_run_id = ''r'', ar_status = ''succeeded'', ar_structured = [], ar_error_message = [],
      ar_final_output = [], ar_artifact = Inr (JObj []),
      ar_events = [(''agent.model.completed'', []),
        (''agent.token.usage'', [(''usage'', JObj [(''total_tokens'', JInt 7)])])]\<rparr>"

definition sample_env :: runner_env where
  "sample_env = \<lparr>re_invoke = (\<lambda>node token. Inr (sample_result, JInt 0, [])), re_validate = Inr, re_late = False\<rparr>"

theorem runner_turn_charges_reported_usage_witness:
  "\<exists>obs token'. execute_runner_node sample_env [] [(''budgets'', JObj [(''llm_total_tokens'', JInt 5)])] = Inr (obs, token')
     \<and> get_path (JObj token') ''budgets.llm_total_tokens'' = JInt 12"
proof -
  let ?token = "[(''budgets'', JObj [(''llm_total_tokens'', JInt 5)])]"
  obtain obs token' where run: "execute_runner_node sample_env [] ?token = Inr (obs, token')"
    by (simp add: execute_runner_node_def runner_spends_def sample_env_def sample_result_def read_runner_artifact_def
        runner_evaluation_terminal_seq_def previous_evaluation_def spend_budgets_def
        accumulate_llm_usage_def add_usage_def usage_json_def agent_result_usage_def usage_event_def
        runner_extra_def requirement_statuses_def obj_get_def get_path_def Let_def py_or_def dget_or_def)
  have "reported ''total_tokens'' (''agent.model.completed'', []) = 0"
    "reported ''total_tokens'' (''agent.token.usage'', [(''usage'', JObj [(''total_tokens'', JInt 7)])]) = 7"
    by (simp_all add: reported_def plain_int_def)
  then have "get_path (JObj token') ''budgets.llm_total_tokens'' = JInt 12"
    using runner_turn_charges_reported_usage [OF run, of sample_result "JInt 0" "[]"
        "[(''llm_total_tokens'', JInt 5)]" 5 0]
    by (simp add: sample_env_def sample_result_def dget_or_def)
  with run show ?thesis by blast
qed

section \<open>Evidence\<close>

definition token_requirements :: "dict \<Rightarrow> json list" where
  "token_requirements token =
     list_or_empty (dget (dict_or_empty (dget (token_control token) ''evidence_progress'')) ''requirements'')"

definition assessment_results :: "dict \<Rightarrow> json list" where
  "assessment_results observation =
     list_or_empty (dget (dict_or_empty (dget observation ''evidence_assessment'')) ''requirement_results'')"

lemma merge_evidence_requirements:
  assumes "merge_evidence now artifact node observation token = Inr token'"
    and "progress_matches_wait (dict_or_empty (dget (token_control token) ''evidence_progress'')) (token_wait token)"
  shows "\<exists>by_node. token_requirements token'
    = foldl (apply_result now by_node) (token_requirements token) (assessment_results observation)"
proof (cases "assessment_results observation = []")
  case True
  then have "token' = token" using assms(1) by (simp add: merge_evidence_def assessment_results_def Let_def)
  with True show ?thesis by simp
next
  case False
  then obtain c where c: "dget_or token ''control'' (JObj []) = JObj c"
    using assms(1) by (cases "dget_or token ''control'' (JObj [])")
      (auto simp: merge_evidence_def assessment_results_def Let_def)
  then have tc: "token_control token = c"
    by (auto simp: token_control_def dget_or_def dget_def split: option.splits)
  have empty: "foldl (apply_result now b) [] rs = []" for b rs
    by (metis length_0_conv length_apply_results)
  show ?thesis
  proof (cases "dget c ''evidence_progress''")
    case (JObj progress)
    then show ?thesis
      using assms False c tc
      by (cases "dget progress ''requirements''")
        (auto simp: merge_evidence_def assessment_results_def Let_def token_requirements_def empty
          token_wait_def merge_progress_def token_control_def)
  qed (use assms False c tc in \<open>auto simp: merge_evidence_def assessment_results_def Let_def
        token_requirements_def empty token_wait_def token_control_def\<close>)
qed

text \<open>C30. Evidence never goes backwards while a checkpoint is open: an assessment keeps the
  number, order and keys of the requirements, only adds references to those already accepted,
  and leaves an accepted requirement accepted unless a result for its key says rejected or not
  applicable.\<close>

theorem evidence_progress_is_monotone:
  assumes merge: "merge_evidence now artifact node observation token = Inr token'"
    and matches: "progress_matches_wait (dict_or_empty (dget (token_control token) ''evidence_progress'')) (token_wait token)"
  shows "length (token_requirements token') = length (token_requirements token)
    \<and> (\<forall>i < length (token_requirements token).
         req_key (token_requirements token' ! i) = req_key (token_requirements token ! i)
         \<and> set (req_accepted (token_requirements token ! i)) \<subseteq> set (req_accepted (token_requirements token' ! i))
         \<and> (req_status (token_requirements token ! i) = JStr ''accepted''
            \<and> (\<forall>result \<in> set (assessment_results observation).
                 \<not> reopens (req_key (token_requirements token ! i)) result)
            \<longrightarrow> req_status (token_requirements token' ! i) = JStr ''accepted''))"
  using merge_evidence_requirements [OF merge matches] apply_results_refs apply_results_sticky by fastforce

definition accepted_requirement :: dict where
  "accepted_requirement =
     [(''requirement_key'', JStr ''photo''), (''status'', JStr ''accepted''),
      (''accepted_event_refs'', JArr [JStr ''e1''])]"

definition accepted_token :: dict where
  "accepted_token =
     [(''control'', JObj [(''wait'', JObj [(''checkpoint_id'', JStr ''c'')]),
        (''evidence_progress'', JObj [(''checkpoint_id'', JStr ''c''),
           (''requirements'', JArr [JObj accepted_requirement])])])]"

definition missing_observation :: dict where
  "missing_observation =
     [(''evidence_assessment'', JObj [(''requirement_results'',
        JArr [JObj [(''requirement_key'', JStr ''photo''), (''status'', JStr ''missing'')]])])]"

theorem evidence_progress_is_monotone_witness:
  "\<exists>token'. merge_evidence ''now'' [] [] missing_observation accepted_token = Inr token'
     \<and> req_status (token_requirements token' ! 0) = JStr ''accepted''"
proof -
  obtain token' where merge: "merge_evidence ''now'' [] [] missing_observation accepted_token = Inr token'"
    by (simp add: merge_evidence_def missing_observation_def accepted_token_def Let_def dget_or_def)
  have matches: "progress_matches_wait (dict_or_empty (dget (token_control accepted_token) ''evidence_progress''))
      (token_wait accepted_token)"
    by (simp add: progress_matches_wait_def token_control_def token_wait_def accepted_token_def str_field_def)
  have reqs: "token_requirements accepted_token = [JObj accepted_requirement]"
    by (simp add: token_requirements_def token_control_def accepted_token_def)
  have "\<not> reopens (req_key (JObj accepted_requirement)) result"
    if "result \<in> set (assessment_results missing_observation)" for result
  proof -
    have "result_status [(''requirement_key'', JStr ''photo''), (''status'', JStr ''missing'')] = ''missing''"
      by (simp add: result_status_def str_field_def str_or_def strip_plain printable_def lower_def lower_char_def char_of_eq_iff)
    then show ?thesis
      using that by (auto simp: reopens_def assessment_results_def missing_observation_def)
  qed
  then have "req_status (token_requirements token' ! 0) = JStr ''accepted''"
    using evidence_progress_is_monotone [OF merge matches]
    by (simp add: reqs req_status_def) (simp add: accepted_requirement_def)
  with merge show ?thesis by blast
qed

section \<open>Terminal inputs\<close>

text \<open>C7. Synchronising a waiting token consumes every fresh input of the stream (a new input past
  the checkpoint's window) exactly once and in sequence order, moves the cursor to the end of
  the stream, and wakes the token in the checkpoint's resume phase exactly when there was one.\<close>

theorem sync_consumes_fresh_inputs:
  assumes "sync_terminal_events now events token = Inr token'"
    and "waiting_for_input token" and "terminal_cursor token = Inr cursor"
    and "wf_consumption (token_control token)" and "distinct (map te_seq events)"
  shows "consumed_seqs (token_control token') =
           consumed_seqs (token_control token) @ map te_seq (fresh_inputs cursor events token)
    \<and> (events_after cursor events \<noteq> [] \<longrightarrow>
         terminal_cursor token' = Inr (te_seq (last (events_after cursor events))))
    \<and> (fresh_inputs cursor events token = [] \<longrightarrow> dget token' ''status'' = JStr ''waiting'')
    \<and> (fresh_inputs cursor events token \<noteq> [] \<longrightarrow> dget token' ''status'' = JStr ''running''
         \<and> (\<forall>p. dget (token_wait token) ''resume_phase'' = JStr p \<and> p \<noteq> [] \<longrightarrow>
              dget token' ''phase'' = JStr p)
         \<and> dget (token_control token') ''latest_evidence''
             = JObj (evidence_of (last (fresh_inputs cursor events token))))"
  using assms by (rule sync_terminal_consumes)

definition sample_event :: "int \<Rightarrow> string \<Rightarrow> string \<Rightarrow> tevent" where
  "sample_event n direction text =
     \<lparr>te_id = ''e'' @ int_str n, te_seq = n, te_direction = direction, te_kind = ''terminal.text.submitted'',
      te_mime = ''text/plain'', te_payload = JObj [(''text'', JStr text)], te_artifact = None,
      te_binding = None, te_source = JObj [], te_external = None, te_trace = None, te_at = ''now'',
      te_parts = []\<rparr>"

definition waiting_token :: dict where
  "waiting_token =
     [(''status'', JStr ''waiting''), (''phase'', JStr ''waiting''),
      (''terminal'', JObj []), (''metadata'', JObj [(''terminal_cursor'', JInt 1)]),
      (''control'', JObj [(''wait'', JObj [(''resume_phase'', JStr ''check''),
         (''input_window'', JObj [(''accept_after_seq'', JInt 1)])])])]"

lemma waiting_token_facts:
  "waiting_for_input waiting_token" "terminal_cursor waiting_token = Inr 1"
  "wf_consumption (token_control waiting_token)" "consumed_seqs (token_control waiting_token) = []"
  by (simp_all add: waiting_for_input_def waiting_token_def terminal_cursor_def get_path_def
      wf_consumption_def consumption_def consumed_seqs_def token_control_def)

lemma load_waiting_token:
  "load_sync waiting_token = Inr \<lparr>sy_terminal = [(''events'', JArr [])], sy_envelope = JObj [],
     sy_metadata = JObj [(''terminal_cursor'', JInt 1)],
     sy_control = [(''wait'', JObj (token_wait waiting_token))],
     sy_wait = token_wait waiting_token, sy_consumed = []\<rparr>"
  "token_wait waiting_token = [(''resume_phase'', JStr ''check''),
     (''input_window'', JObj [(''accept_after_seq'', JInt 1)])]"
  by (simp_all add: load_sync_def waiting_token_def dget_or_def token_wait_def token_control_def dsetdefault_def dhas_def)

lemma sample_sync_succeeds:
  "\<exists>token'. sync_terminal_events ''t'' [sample_event 3 ''input'' ''ok''] waiting_token = Inr token'"
  by (simp add: sync_terminal_events_def waiting_token_facts events_after_def sample_event_def
      load_waiting_token sync_event_def append_to_def put_item_def put_user_input_def
      consume_event_def ensure_wait_window_def Let_def dget_or_def)

theorem sync_consumes_fresh_inputs_witness:
  "\<exists>token'. sync_terminal_events ''t'' [sample_event 3 ''input'' ''ok''] waiting_token = Inr token'
     \<and> consumed_seqs (token_control token') = [3] \<and> dget token' ''phase'' = JStr ''check''"
proof -
  obtain token' where sync: "sync_terminal_events ''t'' [sample_event 3 ''input'' ''ok''] waiting_token = Inr token'"
    using sample_sync_succeeds by blast
  have fresh: "fresh_inputs 1 [sample_event 3 ''input'' ''ok''] waiting_token = [sample_event 3 ''input'' ''ok'']"
    by (simp add: fresh_inputs_def events_after_def sample_event_def fresh_input_def accept_after_def
        ensure_wait_window_def waiting_token_def token_wait_def token_control_def consumed_seqs_def
        consumption_def Let_def)
  have resume: "dget (token_wait waiting_token) ''resume_phase'' = JStr ''check''"
    by (simp add: token_wait_def token_control_def waiting_token_def)
  have "consumed_seqs (token_control token') = [3] \<and> dget token' ''phase'' = JStr ''check''"
    using sync_consumes_fresh_inputs [OF sync waiting_token_facts(1-3)]
    by (simp add: fresh resume waiting_token_facts) (simp add: sample_event_def)
  with sync show ?thesis by blast
qed

text \<open>A second synchronisation with the same stream changes nothing: what the first one
  consumed cannot be consumed again, whatever the clock says.\<close>

theorem sync_is_idempotent:
  assumes sync: "sync_terminal_events now events token = Inr token'"
    and waiting: "waiting_for_input token" and cursor: "terminal_cursor token = Inr cursor"
    and wf: "wf_consumption (token_control token)" and dist: "distinct (map te_seq events)"
  shows "sync_terminal_events later events token' = Inr token'"
proof (cases "events_after cursor events = []")
  case True
  then have "token' = token" using sync waiting cursor by (simp add: sync_terminal_events_def Let_def)
  with True waiting cursor show ?thesis by (simp add: sync_terminal_events_def Let_def)
next
  case False
  note facts = sync_terminal_consumes [OF sync waiting cursor wf dist]
  let ?evs = "events_after cursor events"
  have sorted: "sorted (map te_seq ?evs)" by (simp add: events_after_def)
  have le: "te_seq ev \<le> te_seq (last ?evs)" if "ev \<in> set ?evs" for ev
  proof -
    obtain i where i: "i < length ?evs" "?evs ! i = ev" using \<open>ev \<in> set ?evs\<close> by (metis in_set_conv_nth)
    then have "map te_seq ?evs ! i \<le> map te_seq ?evs ! (length ?evs - 1)"
      by (intro sorted_nth_mono [OF sorted]) auto
    with i False show ?thesis by (simp add: last_conv_nth)
  qed
  have last: "cursor < te_seq (last ?evs)"
    using last_in_set [OF False] by (simp add: sorted_events)
  have "te_seq ev \<le> te_seq (last ?evs)" if "ev \<in> set events" for ev
    using le [of ev] last that by (cases "cursor < te_seq ev") (auto simp: sorted_events)
  then have "filter (\<lambda>ev. te_seq (last ?evs) < te_seq ev) events = []"
    by (fastforce simp: filter_empty_conv not_less)
  then have "events_after (te_seq (last ?evs)) events = []"
    by (simp add: events_after_def)
  with facts False show ?thesis
    by (simp add: sync_terminal_events_def Let_def)
qed

theorem sync_is_idempotent_witness:
  "\<exists>token'. sync_terminal_events ''t'' [sample_event 3 ''input'' ''ok''] waiting_token = Inr token'
     \<and> sync_terminal_events ''u'' [sample_event 3 ''input'' ''ok''] token' = Inr token'"
proof -
  obtain token' where sync: "sync_terminal_events ''t'' [sample_event 3 ''input'' ''ok''] waiting_token = Inr token'"
    using sample_sync_succeeds by blast
  from sync_is_idempotent [OF sync waiting_token_facts(1-3)] sync show ?thesis by auto
qed

text \<open>A wait that opens takes at once the inputs that are already past its window: exactly
  those not consumed before, each once, and the token keeps waiting exactly when there is none.\<close>

theorem opening_wait_consumes_pending_inputs:
  assumes "consume_pending now latest events token = Inr (token', resumed)"
    and "waiting_for_input token"
    and "wf_consumption (token_control token)" and "distinct (map te_seq events)"
  shows "(let new = (if latest \<le> accept_after (token_wait token) then []
            else filter (fresh_input (token_wait token) (token_control token))
                   (events_between (accept_after (token_wait token)) latest events)) in
      consumed_seqs (token_control token') = consumed_seqs (token_control token) @ map te_seq new
      \<and> (resumed \<longleftrightarrow> new \<noteq> [])
      \<and> dget token' ''status'' = JStr (if new = [] then ''waiting'' else ''running''))"
  using assms by (rule consume_pending_consumes)

lemma sample_pending_succeeds:
  "\<exists>token' resumed. consume_pending ''t'' 3 [sample_event 3 ''input'' ''ok''] waiting_token = Inr (token', resumed)"
  by (simp add: consume_pending_def waiting_token_facts events_between_def sample_event_def
      load_waiting_token load_waiting_token(2) [unfolded token_wait_def token_control_def]
      pending_event_def append_to_def put_item_def put_user_input_def event_ids_def only_objs_def
      consume_event_def Let_def dget_or_def get_path_def int_or0_def accept_after_def ex_bool_eq)

theorem opening_wait_consumes_pending_inputs_witness:
  "\<exists>token'. consume_pending ''t'' 3 [sample_event 3 ''input'' ''ok''] waiting_token = Inr (token', True)
     \<and> consumed_seqs (token_control token') = [3]"
proof -
  obtain token' resumed where
    run: "consume_pending ''t'' 3 [sample_event 3 ''input'' ''ok''] waiting_token = Inr (token', resumed)"
    using sample_pending_succeeds by blast
  have "resumed \<and> consumed_seqs (token_control token') = [3]"
    using opening_wait_consumes_pending_inputs [OF run waiting_token_facts(1,3)]
    by (simp add: waiting_token_facts Let_def events_between_def fresh_input_def sample_event_def)
      (simp add: token_wait_def token_control_def waiting_token_def accept_after_def consumed_seqs_def
        consumption_def split: if_splits)
  with run show ?thesis by auto
qed

definition token_event_ids :: "dict \<Rightarrow> string list" where
  "token_event_ids token = event_ids (list_or_empty (dget (dict_or_empty (dget token ''terminal'')) ''events''))"

lemma receive_evidence_terminal:
  "dget (receive_evidence s token) ''terminal'' = JObj (sy_terminal s)"
  by (simp add: receive_evidence_def store_sync_def Let_def)

lemma sample_gap:
  "\<exists>s. pending_all ''t'' [sample_event 2 ''output'' ''hi'', sample_event 3 ''input'' ''ok'']
     \<lparr>sy_terminal = [(''events'', JArr [])], sy_envelope = JObj [],
      sy_metadata = JObj [(''terminal_cursor'', JInt 1)],
      sy_control = [(''wait'', JObj (token_wait waiting_token))],
      sy_wait = token_wait waiting_token, sy_consumed = []\<rparr> = Inr s
     \<and> sy_consumed s \<noteq> [] \<and> sy_metadata s = JObj [(''terminal_cursor'', JInt 3)]
     \<and> dget (sy_terminal s) ''events'' = JArr [JObj (evidence_of (sample_event 3 ''input'' ''ok''))]"
  by (simp add: sample_event_def load_waiting_token pending_event_def append_to_def put_item_def
      put_user_input_def event_ids_def only_objs_def consume_event_def Let_def dget_or_def get_path_def
      int_or0_def accept_after_def can_consume_def input_text_def event_parts_def text_from_payload_def)

text \<open>The cursor is not a gap-free watermark after a wait has taken its pending inputs: an
  output that precedes the consumed input is never copied into the token, and the cursor is
  already past it.\<close>

theorem pending_inputs_leave_a_gap:
  "\<exists>token'. consume_pending ''t'' 3 [sample_event 2 ''output'' ''hi'', sample_event 3 ''input'' ''ok''] waiting_token
       = Inr (token', True)
     \<and> terminal_cursor token' = Inr 3
     \<and> token_event_ids token' = [te_id (sample_event 3 ''input'' ''ok'')]"
proof -
  let ?evs = "[sample_event 2 ''output'' ''hi'', sample_event 3 ''input'' ''ok'']"
  obtain s where s: "pending_all ''t'' ?evs
     \<lparr>sy_terminal = [(''events'', JArr [])], sy_envelope = JObj [],
      sy_metadata = JObj [(''terminal_cursor'', JInt 1)],
      sy_control = [(''wait'', JObj (token_wait waiting_token))],
      sy_wait = token_wait waiting_token, sy_consumed = []\<rparr> = Inr s" "sy_consumed s \<noteq> []"
    "sy_metadata s = JObj [(''terminal_cursor'', JInt 3)]"
    "dget (sy_terminal s) ''events'' = JArr [JObj (evidence_of (sample_event 3 ''input'' ''ok''))]"
    using sample_gap by blast
  have window: "accept_after (token_wait waiting_token) = 1"
    by (simp add: load_waiting_token accept_after_def)
  have evs: "events_between 1 3 ?evs = ?evs"
    by (simp add: events_between_def sample_event_def)
  have run: "consume_pending ''t'' 3 ?evs waiting_token = Inr (receive_evidence s waiting_token, True)"
    using s(1,2) window evs waiting_token_facts(1)
    by (simp add: consume_pending_def load_waiting_token(1) Let_def token_wait_def [symmetric]
        token_control_def [symmetric])
  have "\<exists>m. dget (store_sync s waiting_token) ''metadata'' = JObj m \<and> dget m ''terminal_cursor'' = JInt 3"
    by (rule stored_metadata) (simp_all add: s(3))
  then have "terminal_cursor (receive_evidence s waiting_token) = Inr 3"
    using receive_evidence_resumes [OF s(2), of waiting_token] cursor_of_metadata by metis
  moreover have "token_event_ids (receive_evidence s waiting_token) = [te_id (sample_event 3 ''input'' ''ok'')]"
    using s(4) by (simp add: token_event_ids_def receive_evidence_terminal event_ids_def only_objs_def str_field_def)
      (simp add: sample_event_def)
  ultimately show ?thesis using run by blast
qed

end
