(* ===== verification/Jobs.thy ===== *)
theory Jobs
  imports Observation
begin

text \<open>
  The shared job queue: \<^verbatim>\<open>backend/app/domain/jobs/models.py\<close>, \<^verbatim>\<open>repository.py\<close> and the queue side
  of \<^verbatim>\<open>worker.py\<close>. The table is a list of rows; times are integers in seconds. A transaction is
  one step: it reads the rows it locks and writes them, and a rolled back one leaves the
  table as it is.
\<close>

section \<open>Rows\<close>

record job =
  j_id :: string
  j_type :: string
  j_status :: string
  j_payload :: dict
  j_run :: "string option"
  j_request :: "string option"
  j_worker :: string
  j_lease :: "int option"
  j_available :: int
  j_dedupe :: string
  j_attempt :: int
  j_max :: int
  j_metrics :: dict
  j_error :: string
  j_started :: "int option"
  j_finished :: "int option"
  j_created :: int

record lease =
  l_job :: string
  l_type :: string
  l_owner :: string
  l_attempt :: int
  l_max :: int
  l_until :: int

definition TERMINAL_JOB_STATUSES :: "string list" where
  "TERMINAL_JOB_STATUSES =
     [''succeeded'', ''failed'', ''cancelled'', ''canceled'', ''deadletter'', ''dead_letter'']"

text \<open>Assigning \<^verbatim>\<open>job.status\<close>: the listener keeps \<^verbatim>\<open>started_at\<close> and \<^verbatim>\<open>finished_at\<close> in step.\<close>

definition sync_timestamps :: "int \<Rightarrow> string \<Rightarrow> job \<Rightarrow> job" where
  "sync_timestamps now v j =
     (let j1 = (if v = ''running'' \<and> j_started j = None then j\<lparr>j_started := Some now\<rparr> else j) in
      if v \<in> set TERMINAL_JOB_STATUSES then
        (if j_finished j1 = None then j1\<lparr>j_finished := Some now\<rparr> else j1)
      else if j_status j \<in> set TERMINAL_JOB_STATUSES then j1\<lparr>j_finished := None\<rparr>
      else j1)"

definition set_status :: "int \<Rightarrow> string \<Rightarrow> job \<Rightarrow> job" where
  "set_status now v j = (sync_timestamps now v j)\<lparr>j_status := v\<rparr>"

definition lease_of :: "job \<Rightarrow> lease res" where
  "lease_of j =
     (case j_lease j of
        None \<Rightarrow> Inl ValueErr
      | Some t \<Rightarrow> Inr \<lparr>l_job = j_id j, l_type = j_type j, l_owner = j_worker j,
                   l_attempt = j_attempt j, l_max = j_max j, l_until = t\<rparr>)"

definition put_job :: "job \<Rightarrow> job list \<Rightarrow> job list" where
  "put_job j jobs = map (\<lambda>x. if j_id x = j_id j then j else x) jobs"

definition find_job :: "(job \<Rightarrow> bool) \<Rightarrow> job list \<Rightarrow> job option" where
  "find_job P jobs = find P jobs"

section \<open>Claiming\<close>

definition claimable :: "int \<Rightarrow> string list \<Rightarrow> job \<Rightarrow> bool" where
  "claimable now types j \<longleftrightarrow>
     j_type j \<in> set types \<and> j_status j \<in> {''pending'', ''retryable_failed''}
     \<and> j_available j \<le> now \<and> j_attempt j < j_max j"

definition claim_job :: "int \<Rightarrow> int \<Rightarrow> string \<Rightarrow> job \<Rightarrow> job" where
  "claim_job now lease_seconds owner j =
     (let j1 = set_status now ''running'' j in
      j1\<lparr>j_attempt := j_attempt j + 1,
         j_started := (case j_started j1 of None \<Rightarrow> Some now | Some t \<Rightarrow> Some t),
         j_worker := owner, j_lease := Some (now + lease_seconds)\<rparr>)"

text \<open>\<open>locked\<close>: the rows other transactions hold, which \<^verbatim>\<open>skip_locked\<close> leaves out.\<close>

definition claim_next_job ::
    "int \<Rightarrow> (string \<Rightarrow> bool) \<Rightarrow> string list \<Rightarrow> int \<Rightarrow> string \<Rightarrow> job list \<Rightarrow> (lease option \<times> job list) res" where
  "claim_next_job now locked types lease_seconds owner jobs =
     (if types = [] then Inl ValueErr
      else case sort_key (\<lambda>j. (j_available j, j_created j))
                  (filter (\<lambda>j. claimable now types j \<and> \<not> locked (j_id j)) jobs) of
          [] \<Rightarrow> Inr (None, jobs)
        | j # _ \<Rightarrow>
            (let j' = claim_job now lease_seconds owner j in
             rbind (lease_of j') (\<lambda>l. Inr (Some l, put_job j' jobs))))"

section \<open>Renewing, abandoning, recovering\<close>

definition owns :: "lease \<Rightarrow> job \<Rightarrow> bool" where
  "owns l j \<longleftrightarrow> j_id j = l_job l \<and> j_status j = ''running'' \<and> j_worker j = l_owner l"

definition renew_lease :: "int \<Rightarrow> int \<Rightarrow> lease \<Rightarrow> job list \<Rightarrow> lease option \<times> job list" where
  "renew_lease now lease_seconds l jobs =
     (case find_job (owns l) jobs of
        None \<Rightarrow> (None, jobs)
      | Some j \<Rightarrow>
          (let j' = j\<lparr>j_lease := Some (now + lease_seconds)\<rparr> in
           (case lease_of j' of Inr l' \<Rightarrow> (Some l', put_job j' jobs) | Inl _ \<Rightarrow> (None, jobs))))"

definition abandon_job :: "int \<Rightarrow> string \<Rightarrow> int \<Rightarrow> job \<Rightarrow> job" where
  "abandon_job now message delay j =
     (set_status now ''retryable_failed'' j)
       \<lparr>j_available := now + max 0 delay, j_attempt := max 0 (j_attempt j - 1),
        j_worker := [], j_lease := None, j_error := message\<rparr>"

definition abandon_claim :: "int \<Rightarrow> string \<Rightarrow> int \<Rightarrow> lease \<Rightarrow> job list \<Rightarrow> bool \<times> job list" where
  "abandon_claim now message delay l jobs =
     (case find_job (owns l) jobs of
        None \<Rightarrow> (False, jobs)
      | Some j \<Rightarrow> (True, put_job (abandon_job now message delay j) jobs))"

definition expired :: "int \<Rightarrow> job \<Rightarrow> bool" where
  "expired now j \<longleftrightarrow> j_status j = ''running'' \<and> (\<exists>t. j_lease j = Some t \<and> t \<le> now)"

lemma expired_code [code]:
  "expired now j = (j_status j = ''running'' \<and> (case j_lease j of None \<Rightarrow> False | Some t \<Rightarrow> t \<le> now))"
  by (auto simp: expired_def split: option.splits)

definition lease_time :: "job \<Rightarrow> int" where
  "lease_time j = (case j_lease j of None \<Rightarrow> 0 | Some t \<Rightarrow> t)"

definition list_expired_leases :: "int \<Rightarrow> nat \<Rightarrow> job list \<Rightarrow> lease list res" where
  "list_expired_leases now limit jobs =
     rmap lease_of (take (max 1 limit)
       (sort_key (\<lambda>j. (lease_time j, j_created j)) (filter (expired now) jobs)))"

record recovery =
  rc_job :: string
  rc_type :: string
  rc_status :: string
  rc_attempt :: int
  rc_exhausted :: bool

definition bump_recoveries :: "dict \<Rightarrow> dict res" where
  "bump_recoveries metrics =
     rbind (int_or0 (dget metrics ''lease_recoveries'')) (\<lambda>n.
       Inr (dset ''lease_recoveries'' (JInt (n + 1)) metrics))"

definition recover_job :: "int \<Rightarrow> int \<Rightarrow> job \<Rightarrow> job res" where
  "recover_job now delay j =
     (let exhausted = (j_attempt j \<ge> j_max j);
          j1 = set_status now (if exhausted then ''failed'' else ''retryable_failed'') j in
      rbind (bump_recoveries (j_metrics j)) (\<lambda>m.
        Inr (j1\<lparr>j_available := (if exhausted then j_available j else now + max 0 delay),
                j_worker := [], j_lease := None,
                j_error := ''worker lease expired (attempt '' @ int_str (j_attempt j) @ ''/''
                  @ int_str (j_max j) @ '')'',
                j_metrics := m\<rparr>)))"

definition recover_expired_lease ::
    "int \<Rightarrow> (string \<Rightarrow> bool) \<Rightarrow> int \<Rightarrow> lease \<Rightarrow> job list \<Rightarrow> (recovery option \<times> job list) res" where
  "recover_expired_lease now locked delay l jobs =
     (case find_job (\<lambda>j. owns l j \<and> expired now j \<and> \<not> locked (j_id j)) jobs of
        None \<Rightarrow> Inr (None, jobs)
      | Some j \<Rightarrow>
          rbind (recover_job now delay j) (\<lambda>j'.
            Inr (Some \<lparr>rc_job = j_id j', rc_type = j_type j', rc_status = j_status j',
                      rc_attempt = j_attempt j', rc_exhausted = (j_attempt j \<ge> j_max j)\<rparr>,
                 put_job j' jobs)))"

section \<open>Failures a worker could not handle\<close>

definition retry_delay_seconds :: "int \<Rightarrow> int" where
  "retry_delay_seconds attempt_no = min 300 (5 * 2 ^ nat (max 0 (attempt_no - 1)))"

definition fail_job :: "int \<Rightarrow> string \<Rightarrow> job \<Rightarrow> job" where
  "fail_job now message j =
     (let j1 = j\<lparr>j_error := message, j_worker := [], j_lease := None\<rparr> in
      if j_attempt j < j_max j
      then (set_status now ''retryable_failed'' j1)\<lparr>j_available := now + retry_delay_seconds (j_attempt j)\<rparr>
      else set_status now ''failed'' j1)"

text \<open>The second component: whether the job's domain state is to be finalised.\<close>

definition record_unhandled_failure ::
    "int \<Rightarrow> string \<Rightarrow> lease \<Rightarrow> job list \<Rightarrow> bool \<times> bool \<times> job list" where
  "record_unhandled_failure now message l jobs =
     (case find_job (owns l) jobs of
        None \<Rightarrow> (False, False, jobs)
      | Some j \<Rightarrow> (True, \<not> j_attempt j < j_max j, put_job (fail_job now message j) jobs))"

section \<open>Metrics\<close>

definition add_metric :: "string \<Rightarrow> json \<Rightarrow> dict \<Rightarrow> dict res" where
  "add_metric key v metrics =
     (if is_int v \<and> \<not> is_bool v
      then rbind (int_or0 (dget metrics key)) (\<lambda>n. Inr (dset key (JInt (n + int_of_json v)) metrics))
      else Inr metrics)"

definition accumulate_job_usage :: "json \<Rightarrow> job \<Rightarrow> job res" where
  "accumulate_job_usage usage j =
     if_obj usage
       (\<lambda>u. if u = [] then Inr j
          else rbind (int_or0 (dget (j_metrics j) ''llm_calls'')) (\<lambda>n.
            rbind (add_metric ''input_tokens'' (dget u ''input_tokens'')
                     (dset ''llm_calls'' (JInt (n + 1)) (j_metrics j))) (\<lambda>m1.
            rbind (add_metric ''output_tokens'' (dget u ''output_tokens'') m1) (\<lambda>m2.
            rbind (add_metric ''total_tokens'' (dget u ''total_tokens'') m2) (\<lambda>m3.
              Inr (j\<lparr>j_metrics := m3\<rparr>))))))
       (Inr j)"

definition copy_metric :: "string \<times> string \<Rightarrow> dict \<Rightarrow> dict \<Rightarrow> dict" where
  "copy_metric keys budgets metrics =
     (case dget budgets (fst keys) of JInt v \<Rightarrow> dset (snd keys) (JInt v) metrics | _ \<Rightarrow> metrics)"

definition set_usage_from_budgets :: "json \<Rightarrow> job \<Rightarrow> job" where
  "set_usage_from_budgets budgets j =
     if_obj budgets
       (\<lambda>b. j\<lparr>j_metrics := foldl (\<lambda>m keys. copy_metric keys b m) (j_metrics j)
          [(''llm_calls'', ''llm_calls''), (''llm_input_tokens'', ''input_tokens''),
           (''llm_output_tokens'', ''output_tokens''), (''llm_total_tokens'', ''total_tokens'')]\<rparr>)
       j"

section \<open>Ending a turn\<close>

text \<open>
  What \<^verbatim>\<open>_finish_runtime_job_turn\<close> writes to the row: back to the queue with a fresh attempt
  budget, or released with a final status.
\<close>

definition requeue_job :: "int \<Rightarrow> dict \<Rightarrow> job \<Rightarrow> job" where
  "requeue_job now payload j =
     (set_status now ''pending'' (j\<lparr>j_payload := payload\<rparr>))
       \<lparr>j_available := now, j_attempt := 0, j_lease := None, j_worker := [], j_finished := None,
        j_error := []\<rparr>"

definition release_job :: "int \<Rightarrow> dict \<Rightarrow> string \<Rightarrow> string \<Rightarrow> job \<Rightarrow> job" where
  "release_job now payload status message j =
     (set_status now status (j\<lparr>j_payload := payload\<rparr>))
       \<lparr>j_lease := None, j_worker := [],
        j_finished := (if status \<in> {''succeeded'', ''failed'', ''cancelled''} then Some now else None),
        j_error := message\<rparr>"

section \<open>Rows by id\<close>

named_theorems row_simps "what an operation leaves of a row"

lemma set_status_fields [simp, row_simps]:
  "j_id (set_status now v j) = j_id j" "j_type (set_status now v j) = j_type j"
  "j_status (set_status now v j) = v" "j_worker (set_status now v j) = j_worker j"
  "j_lease (set_status now v j) = j_lease j" "j_attempt (set_status now v j) = j_attempt j"
  "j_max (set_status now v j) = j_max j" "j_available (set_status now v j) = j_available j"
  "j_created (set_status now v j) = j_created j" "j_metrics (set_status now v j) = j_metrics j"
  "j_payload (set_status now v j) = j_payload j" "j_error (set_status now v j) = j_error j"
  "j_run (set_status now v j) = j_run j" "j_dedupe (set_status now v j) = j_dedupe j"
  by (simp_all add: set_status_def sync_timestamps_def Let_def)

lemma map_put_job [simp]: "map j_id (put_job j jobs) = map j_id jobs"
  by (induction jobs) (auto simp: put_job_def)

lemma put_job_other: "filter (\<lambda>x. j_id x \<noteq> j_id j) (put_job j jobs) = filter (\<lambda>x. j_id x \<noteq> j_id j) jobs"
  by (induction jobs) (auto simp: put_job_def)

lemma set_put_job:
  "x \<in> set (put_job j jobs) \<Longrightarrow> x = j \<or> x \<in> set jobs \<and> j_id x \<noteq> j_id j"
  by (auto simp: put_job_def split: if_splits)

lemma find_job_Some: "find_job P jobs = Some j \<Longrightarrow> j \<in> set jobs \<and> P j"
  by (auto simp: find_job_def find_Some_iff)

lemma find_job_None: "find_job P jobs = None \<longleftrightarrow> (\<forall>j \<in> set jobs. \<not> P j)"
  by (auto simp: find_job_def find_None_iff)

section \<open>Writes behind a lease\<close>

text \<open>
  What a worker may do under its lease: a write that finds no row of its own changes nothing,
  and no write touches another row.
\<close>

locale fenced_write =
  fixes upd :: "'l \<Rightarrow> 'r list \<Rightarrow> 'r list"
    and holds_row :: "'l \<Rightarrow> 'r \<Rightarrow> bool"
    and row_id :: "'r \<Rightarrow> 'i"
    and lease_id :: "'l \<Rightarrow> 'i"
  assumes fenced: "(\<And>r. r \<in> set rows \<Longrightarrow> \<not> holds_row l r) \<Longrightarrow> upd l rows = rows"
    and others: "filter (\<lambda>r. row_id r \<noteq> lease_id l) (upd l rows) = filter (\<lambda>r. row_id r \<noteq> lease_id l) rows"
    and ids: "map row_id (upd l rows) = map row_id rows"
begin

lemma stale_batch:
  "(\<And>l r. l \<in> set ls \<Longrightarrow> r \<in> set rows \<Longrightarrow> \<not> holds_row l r) \<Longrightarrow> fold upd ls rows = rows"
  by (induction ls) (auto simp: fenced)

lemma other_row:
  assumes "row_id r \<noteq> lease_id l"
  shows "r \<in> set (upd l rows) \<longleftrightarrow> r \<in> set rows"
proof -
  have "r \<in> set (filter (\<lambda>r. row_id r \<noteq> lease_id l) (upd l rows))
      \<longleftrightarrow> r \<in> set (filter (\<lambda>r. row_id r \<noteq> lease_id l) rows)"
    by (simp only: others)
  with assms show ?thesis by simp
qed

lemma batch_ids: "map row_id (fold upd ls rows) = map row_id rows"
  by (induction ls arbitrary: rows) (simp_all add: ids)

end

lemma fenced_by_find:
  assumes upd: "\<And>l rows. upd l rows = (case find_job (Q l) rows of None \<Rightarrow> rows
      | Some j \<Rightarrow> (case f l j of None \<Rightarrow> rows | Some j' \<Rightarrow> put_job j' rows))"
    and Q: "\<And>l j. Q l j \<Longrightarrow> owns l j" and same: "\<And>l j j'. f l j = Some j' \<Longrightarrow> j_id j' = j_id j"
  shows "fenced_write upd owns j_id l_job"
proof
  fix l and rows :: "job list"
  assume none: "\<And>r. r \<in> set rows \<Longrightarrow> \<not> owns l r"
  then have "find_job (Q l) rows = None"
    using Q [of l] by (auto simp: find_job_None)
  then show "upd l rows = rows" by (simp add: upd)
next
  fix l and rows :: "job list"
  show "filter (\<lambda>r. j_id r \<noteq> l_job l) (upd l rows) = filter (\<lambda>r. j_id r \<noteq> l_job l) rows"
  proof (cases "find_job (Q l) rows")
    case None
    then show ?thesis by (simp add: upd)
  next
    case (Some j)
    then have id: "j_id j = l_job l" using find_job_Some [OF Some] Q [of l j] by (auto simp: owns_def)
    show ?thesis
    proof (cases "f l j")
      case None
      with Some show ?thesis by (simp add: upd)
    next
      case (Some j')
      then have "j_id j' = l_job l" using same id by simp
      with put_job_other [of j' rows] \<open>find_job (Q l) rows = Some j\<close> Some show ?thesis
        by (simp add: upd)
    qed
  qed
next
  fix l and rows :: "job list"
  show "map j_id (upd l rows) = map j_id rows"
    by (simp add: upd split: option.split)
qed

definition renew_write :: "int \<Rightarrow> int \<Rightarrow> lease \<Rightarrow> job list \<Rightarrow> job list" where
  "renew_write now secs l jobs = snd (renew_lease now secs l jobs)"

definition abandon_write :: "int \<Rightarrow> string \<Rightarrow> int \<Rightarrow> lease \<Rightarrow> job list \<Rightarrow> job list" where
  "abandon_write now message delay l jobs = snd (abandon_claim now message delay l jobs)"

definition failure_write :: "int \<Rightarrow> string \<Rightarrow> lease \<Rightarrow> job list \<Rightarrow> job list" where
  "failure_write now message l jobs = snd (snd (record_unhandled_failure now message l jobs))"

definition recover_write :: "int \<Rightarrow> (string \<Rightarrow> bool) \<Rightarrow> int \<Rightarrow> lease \<Rightarrow> job list \<Rightarrow> job list" where
  "recover_write now locked delay l jobs =
     (case recover_expired_lease now locked delay l jobs of Inl e \<Rightarrow> jobs | Inr r \<Rightarrow> snd r)"

lemma renew_write_eq:
  "renew_write now secs l jobs = (case find_job (owns l) jobs of None \<Rightarrow> jobs
     | Some j \<Rightarrow> (case Some (j\<lparr>j_lease := Some (now + secs)\<rparr>) of None \<Rightarrow> jobs | Some j' \<Rightarrow> put_job j' jobs))"
  by (simp add: renew_write_def renew_lease_def lease_of_def Let_def split: option.split)

lemma abandon_write_eq:
  "abandon_write now message delay l jobs = (case find_job (owns l) jobs of None \<Rightarrow> jobs
     | Some j \<Rightarrow> (case Some (abandon_job now message delay j) of None \<Rightarrow> jobs | Some j' \<Rightarrow> put_job j' jobs))"
  by (simp add: abandon_write_def abandon_claim_def split: option.split)

lemma failure_write_eq:
  "failure_write now message l jobs = (case find_job (owns l) jobs of None \<Rightarrow> jobs
     | Some j \<Rightarrow> (case Some (fail_job now message j) of None \<Rightarrow> jobs | Some j' \<Rightarrow> put_job j' jobs))"
  by (simp add: failure_write_def record_unhandled_failure_def split: option.split)

definition to_option :: "'a res \<Rightarrow> 'a option" where
  "to_option r = (case r of Inl e \<Rightarrow> None | Inr x \<Rightarrow> Some x)"

lemma recover_write_eq:
  "recover_write now locked delay l jobs =
     (case find_job (\<lambda>j. owns l j \<and> expired now j \<and> \<not> locked (j_id j)) jobs of None \<Rightarrow> jobs
      | Some j \<Rightarrow> (case to_option (recover_job now delay j) of None \<Rightarrow> jobs | Some j' \<Rightarrow> put_job j' jobs))"
  by (simp add: recover_write_def recover_expired_lease_def to_option_def rbind_def
      split: option.split sum.split)

lemma same_ids:
  "j_id (fail_job now message j) = j_id j" "j_id (abandon_job now message delay j) = j_id j"
  "recover_job now delay j = Inr j' \<Longrightarrow> j_id j' = j_id j"
  by (auto simp: fail_job_def abandon_job_def recover_job_def Let_def rbind_eq_Inr)

interpretation renewal: fenced_write "renew_write now secs" owns j_id l_job for now secs
  by (rule fenced_by_find [where Q = owns and f = "\<lambda>l j. Some (j\<lparr>j_lease := Some (now + secs)\<rparr>)"],
      rule renew_write_eq) auto

interpretation abandonment: fenced_write "abandon_write now message delay" owns j_id l_job
  for now message delay
  by (rule fenced_by_find [where Q = owns and f = "\<lambda>l j. Some (abandon_job now message delay j)"],
      rule abandon_write_eq) (auto simp: same_ids)

interpretation failure: fenced_write "failure_write now message" owns j_id l_job for now message
  by (rule fenced_by_find [where Q = owns and f = "\<lambda>l j. Some (fail_job now message j)"],
      rule failure_write_eq) (auto simp: same_ids)

interpretation recovery: fenced_write "recover_write now locked delay" owns j_id l_job
  for now locked delay
  by (rule fenced_by_find [where Q = "\<lambda>l j. owns l j \<and> expired now j \<and> \<not> locked (j_id j)"
        and f = "\<lambda>l j. to_option (recover_job now delay j)"],
      rule recover_write_eq) (auto simp: to_option_def same_ids split: sum.splits)

end
