(* ===== verification/JobQueue.thy ===== *)
theory JobQueue
  imports Jobs
begin

text \<open>
  The queue as a state machine: the table, the clock and the owner tokens handed out so far.
  A step is one transaction of some process, in any order; \<open>reachable\<close> are the states of a
  queue that starts empty. Owner tokens are fresh at every claim, as the UUID in
  \<^verbatim>\<open>build_attempt_owner\<close> makes them.
\<close>

section \<open>Steps\<close>

record queue =
  q_now :: int
  q_jobs :: "job list"
  q_owners :: "string set"

definition submitted :: "int \<Rightarrow> string \<Rightarrow> string \<Rightarrow> int \<Rightarrow> dict \<Rightarrow> job" where
  "submitted now jid jtype max_attempts payload =
     \<lparr>j_id = jid, j_type = jtype, j_status = ''pending'', j_payload = payload, j_run = None, j_request = None,
      j_worker = [], j_lease = None, j_available = now, j_dedupe = jid, j_attempt = 0,
      j_max = max_attempts, j_metrics = [], j_error = [], j_started = None, j_finished = None,
      j_created = now\<rparr>"

inductive queue_step :: "queue \<Rightarrow> queue \<Rightarrow> bool" where
  tick: "queue_step q (q\<lparr>q_now := now\<rparr>)" if "q_now q \<le> now"
| submit: "queue_step q (q\<lparr>q_jobs := q_jobs q @ [submitted (q_now q) jid jtype m payload]\<rparr>)"
  if "jid \<notin> j_id ` set (q_jobs q)" and "0 \<le> m"
| claim: "queue_step q (q\<lparr>q_jobs := jobs, q_owners := insert owner (q_owners q)\<rparr>)"
  if "claim_next_job (q_now q) locked types secs owner (q_jobs q) = Inr (r, jobs)"
    and "owner \<notin> q_owners q" and "owner \<noteq> []"
| renew: "queue_step q (q\<lparr>q_jobs := renew_write (q_now q) secs l (q_jobs q)\<rparr>)"
| abandon: "queue_step q (q\<lparr>q_jobs := abandon_write (q_now q) message delay l (q_jobs q)\<rparr>)"
| fail: "queue_step q (q\<lparr>q_jobs := failure_write (q_now q) message l (q_jobs q)\<rparr>)"
| recover: "queue_step q (q\<lparr>q_jobs := recover_write (q_now q) locked delay l (q_jobs q)\<rparr>)"
| requeue: "queue_step q (q\<lparr>q_jobs := put_job (requeue_job (q_now q) payload j) (q_jobs q)\<rparr>)"
  if "j \<in> set (q_jobs q)" and "owns l j"
| release: "queue_step q (q\<lparr>q_jobs := put_job (release_job (q_now q) payload status message j) (q_jobs q)\<rparr>)"
  if "j \<in> set (q_jobs q)" and "owns l j" and "status \<in> {''succeeded'', ''failed'', ''cancelled''}"

inductive_cases queue_stepE: "queue_step q q'"

definition empty_queue :: "int \<Rightarrow> queue" where
  "empty_queue now = \<lparr>q_now = now, q_jobs = [], q_owners = {}\<rparr>"

inductive reachable :: "queue \<Rightarrow> bool" where
  reach_init: "reachable (empty_queue now)"
| reach_step: "reachable q \<Longrightarrow> queue_step q q' \<Longrightarrow> reachable q'"

section \<open>The invariant\<close>

definition job_ok :: "string set \<Rightarrow> job \<Rightarrow> bool" where
  "job_ok owners j \<longleftrightarrow>
     0 \<le> j_attempt j \<and> j_attempt j \<le> j_max j
     \<and> (if j_status j = ''running''
        then j_worker j \<in> owners \<and> j_worker j \<noteq> [] \<and> j_lease j \<noteq> None \<and> 1 \<le> j_attempt j
        else j_worker j = [] \<and> j_lease j = None)
     \<and> (j_finished j \<noteq> None \<longleftrightarrow> j_status j \<in> set TERMINAL_JOB_STATUSES)
     \<and> (j_status j = ''running'' \<longrightarrow> j_started j \<noteq> None)"

definition one_job_per_owner :: "job list \<Rightarrow> bool" where
  "one_job_per_owner jobs \<longleftrightarrow>
     (\<forall>a \<in> set jobs. \<forall>b \<in> set jobs. j_status a = ''running'' \<and> j_status b = ''running''
        \<and> j_worker a = j_worker b \<longrightarrow> j_id a = j_id b)"

definition queue_ok :: "queue \<Rightarrow> bool" where
  "queue_ok q \<longleftrightarrow>
     distinct (map j_id (q_jobs q)) \<and> (\<forall>j \<in> set (q_jobs q). job_ok (q_owners q) j)
     \<and> one_job_per_owner (q_jobs q)"

lemma job_ok_mono: "job_ok owners j \<Longrightarrow> owners \<subseteq> owners' \<Longrightarrow> job_ok owners' j"
  by (auto simp: job_ok_def split: if_splits)

lemma running_not_terminal [simp]: "''running'' \<notin> set TERMINAL_JOB_STATUSES"
  "''pending'' \<notin> set TERMINAL_JOB_STATUSES" "''retryable_failed'' \<notin> set TERMINAL_JOB_STATUSES"
  "''failed'' \<in> set TERMINAL_JOB_STATUSES" "''succeeded'' \<in> set TERMINAL_JOB_STATUSES"
  "''cancelled'' \<in> set TERMINAL_JOB_STATUSES"
  by (simp_all add: TERMINAL_JOB_STATUSES_def)

lemma set_status_timestamps:
  "job_ok owners j \<Longrightarrow>
   (j_finished (set_status now v j) \<noteq> None \<longleftrightarrow> v \<in> set TERMINAL_JOB_STATUSES)
   \<and> (v = ''running'' \<longrightarrow> j_started (set_status now v j) \<noteq> None)"
  by (auto simp: set_status_def sync_timestamps_def Let_def job_ok_def)

text \<open>A row whose operation left the running state is idle again.\<close>

lemma job_ok_idle:
  assumes "job_ok owners j" and "v \<noteq> ''running''" and "0 \<le> a" and "a \<le> j_max j"
  shows "job_ok owners ((set_status now v j)\<lparr>j_attempt := a, j_worker := [], j_lease := None\<rparr>)"
  using assms set_status_timestamps [OF assms(1), of now v] by (auto simp: job_ok_def)

lemma job_ok_update:
  assumes "job_ok owners j" and "j_status j' = v" and "v \<noteq> ''running''" and "0 \<le> j_attempt j'"
    and "j_attempt j' \<le> j_max j'" and "j_worker j' = []" and "j_lease j' = None"
    and "j_finished j' \<noteq> None \<longleftrightarrow> v \<in> set TERMINAL_JOB_STATUSES"
  shows "job_ok owners j'"
  using assms by (auto simp: job_ok_def)

lemma fields_of_writes:
  "j_status (abandon_job now message delay j) = ''retryable_failed''"
  "j_status (fail_job now message j) = (if j_attempt j < j_max j then ''retryable_failed'' else ''failed'')"
  "j_worker (fail_job now message j) = []"
  "j_status (requeue_job now payload j) = ''pending''"
  "j_status (release_job now payload status message j) = status"
  by (simp_all add: abandon_job_def fail_job_def requeue_job_def release_job_def Let_def)

lemma job_ok_abandon: "job_ok owners j \<Longrightarrow> job_ok owners (abandon_job now message delay j)"
  using set_status_timestamps [of owners j now "''retryable_failed''"]
  by (auto simp: job_ok_def abandon_job_def)

lemma job_ok_error: "job_ok owners j \<Longrightarrow> j_status j = ''running'' \<Longrightarrow>
   (j_finished (set_status now v (j\<lparr>j_error := m, j_worker := w, j_lease := l\<rparr>)) \<noteq> None
    \<longleftrightarrow> v \<in> set TERMINAL_JOB_STATUSES)"
  by (auto simp: set_status_def sync_timestamps_def Let_def job_ok_def)

lemma job_ok_fail: "job_ok owners j \<Longrightarrow> j_status j = ''running'' \<Longrightarrow> job_ok owners (fail_job now message j)"
  using job_ok_error [of owners j now]
  by (auto simp: job_ok_def fail_job_def Let_def)

lemma recover_status:
  "recover_job now delay j = Inr j' \<Longrightarrow>
   j_status j' = (if j_attempt j \<ge> j_max j then ''failed'' else ''retryable_failed'')"
  by (auto simp: recover_job_def Let_def rbind_eq_Inr)

lemma job_ok_recover:
  assumes ok: "job_ok owners j" and rec: "recover_job now delay j = Inr j'"
  shows "job_ok owners j' \<and> j_status j' \<noteq> ''running''"
proof -
  define s where "s = (if j_attempt j \<ge> j_max j then ''failed'' else ''retryable_failed'')"
  obtain avail m err where "j' = (set_status now s j)
      \<lparr>j_available := avail, j_worker := [], j_lease := None, j_error := err, j_metrics := m\<rparr>"
    using rec unfolding recover_job_def Let_def s_def [symmetric] rbind_eq_Inr by blast
  then have fields: "j_status j' = s" "j_attempt j' = j_attempt j" "j_max j' = j_max j" "j_worker j' = []"
    "j_lease j' = None" "j_finished j' = j_finished (set_status now s j)"
    by simp_all
  have nr: "s \<noteq> ''running''" by (simp add: s_def)
  have "job_ok owners j'"
    by (rule job_ok_update [OF ok fields(1) nr])
      (use ok set_status_timestamps [OF ok, of now s] fields in \<open>simp_all add: job_ok_def\<close>)
  with fields(1) nr show ?thesis by simp
qed

lemma job_ok_requeue: "job_ok owners j \<Longrightarrow> job_ok owners (requeue_job now payload j)"
  by (auto simp: job_ok_def requeue_job_def)

lemma job_ok_release:
  "job_ok owners j \<Longrightarrow> status \<in> {''succeeded'', ''failed'', ''cancelled''} \<Longrightarrow>
   job_ok owners (release_job now payload status message j)"
  by (auto simp: job_ok_def release_job_def)

lemma job_ok_claim:
  assumes "job_ok owners j" and "claimable now types j" and "owner \<noteq> []"
  shows "job_ok (insert owner owners) (claim_job now secs owner j)"
  using assms set_status_timestamps [OF assms(1), of now "''running''"]
  by (auto simp: job_ok_def claim_job_def claimable_def Let_def split: option.splits)

lemma queue_ok_put:
  assumes ok: "queue_ok q" and j: "j \<in> set (q_jobs q)" and id: "j_id j' = j_id j"
    and ok': "job_ok owners j'" and owners: "q_owners q \<subseteq> owners"
    and run: "j_status j' = ''running'' \<Longrightarrow>
      (j_status j = ''running'' \<and> j_worker j' = j_worker j) \<or> j_worker j' \<notin> q_owners q"
  shows "queue_ok (q\<lparr>q_jobs := put_job j' (q_jobs q), q_owners := owners\<rparr>)"
proof -
  have old: "x \<in> set (q_jobs q) \<Longrightarrow> job_ok owners x" for x
    using ok owners job_ok_mono unfolding queue_ok_def by blast
  have "job_ok owners x" if "x \<in> set (put_job j' (q_jobs q))" for x
    using set_put_job [OF that] ok' old by blast
  moreover have "one_job_per_owner (put_job j' (q_jobs q))"
    unfolding one_job_per_owner_def
  proof (intro ballI impI)
    fix a b assume a: "a \<in> set (put_job j' (q_jobs q))" and b: "b \<in> set (put_job j' (q_jobs q))"
      and same: "j_status a = ''running'' \<and> j_status b = ''running'' \<and> j_worker a = j_worker b"
    have one: "x \<in> set (q_jobs q) \<Longrightarrow> y \<in> set (q_jobs q) \<Longrightarrow> j_status x = ''running'' \<Longrightarrow>
        j_status y = ''running'' \<Longrightarrow> j_worker x = j_worker y \<Longrightarrow> j_id x = j_id y" for x y
      using ok unfolding queue_ok_def one_job_per_owner_def by blast
    have owned: "x \<in> set (q_jobs q) \<Longrightarrow> j_status x = ''running'' \<Longrightarrow> j_worker x \<in> q_owners q" for x
      using ok unfolding queue_ok_def job_ok_def by fastforce
    have mixed: "j_id x = j_id j'" if "x \<in> set (q_jobs q)" "j_status x = ''running''"
        "j_status j' = ''running''" "j_worker x = j_worker j'" for x
      using run [OF that(3)] that one [OF that(1) j] owned [OF that(1,2)] id by auto
    show "j_id a = j_id b"
      using set_put_job [OF a] set_put_job [OF b] same one mixed by metis
  qed
  ultimately show ?thesis using ok by (simp add: queue_ok_def)
qed

lemma queue_ok_write:
  assumes ok: "queue_ok q" and eq: "jobs = (case find_job (Q l) (q_jobs q) of None \<Rightarrow> q_jobs q
      | Some j \<Rightarrow> (case f j of None \<Rightarrow> q_jobs q | Some j' \<Rightarrow> put_job j' (q_jobs q)))"
    and Q: "\<And>j. Q l j \<Longrightarrow> owns l j"
    and good: "\<And>j j'. job_ok (q_owners q) j \<Longrightarrow> owns l j \<Longrightarrow> f j = Some j' \<Longrightarrow>
      job_ok (q_owners q) j' \<and> j_id j' = j_id j \<and> (j_status j' = ''running'' \<longrightarrow> j_worker j' = j_worker j)"
  shows "queue_ok (q\<lparr>q_jobs := jobs\<rparr>)"
proof (cases "find_job (Q l) (q_jobs q)")
  case None
  then show ?thesis using ok eq by simp
next
  case (Some j)
  then have j: "j \<in> set (q_jobs q)" "owns l j" using find_job_Some [OF Some] Q by auto
  have jok: "job_ok (q_owners q) j" using ok j(1) by (simp add: queue_ok_def)
  show ?thesis
  proof (cases "f j")
    case None
    then show ?thesis using ok eq Some by simp
  next
    case fj: (Some j')
    note g = good [OF jok j(2) fj]
    have "queue_ok (q\<lparr>q_jobs := put_job j' (q_jobs q), q_owners := q_owners q\<rparr>)"
      using g j(2) by (intro queue_ok_put [OF ok j(1)]) (auto simp: owns_def)
    then show ?thesis using eq Some fj by simp
  qed
qed

lemma claim_next_job_Some:
  assumes "claim_next_job now locked types secs owner jobs = Inr (r, jobs')"
  shows "(r = None \<and> jobs' = jobs \<and> (\<forall>j \<in> set jobs. claimable now types j \<longrightarrow> locked (j_id j))) \<or>
    (\<exists>j \<in> set jobs. claimable now types j \<and> \<not> locked (j_id j)
       \<and> (\<forall>k \<in> set jobs. claimable now types k \<and> \<not> locked (j_id k) \<longrightarrow>
            (j_available j, j_created j) \<le> (j_available k, j_created k))
       \<and> jobs' = put_job (claim_job now secs owner j) jobs
       \<and> (\<exists>l. r = Some l \<and> l_job l = j_id j \<and> l_owner l = owner \<and> l_attempt l = j_attempt j + 1
            \<and> l_max l = j_max j \<and> l_until l = now + secs))"
proof (cases "sort_key (\<lambda>j. (j_available j, j_created j))
    (filter (\<lambda>j. claimable now types j \<and> \<not> locked (j_id j)) jobs)")
  case Nil
  then have "filter (\<lambda>j. claimable now types j \<and> \<not> locked (j_id j)) jobs = []"
    by (metis set_empty set_sort)
  with assms Nil show ?thesis
    by (auto simp: claim_next_job_def filter_empty_conv split: if_splits)
next
  case (Cons j js)
  note hd = sort_key_hd_min [OF Cons]
  have "lease_of (claim_job now secs owner j) = Inr
      \<lparr>l_job = j_id j, l_type = j_type j, l_owner = owner, l_attempt = j_attempt j + 1,
       l_max = j_max j, l_until = now + secs\<rparr>"
    by (simp add: lease_of_def claim_job_def Let_def)
  then have "r = Some \<lparr>l_job = j_id j, l_type = j_type j, l_owner = owner, l_attempt = j_attempt j + 1,
       l_max = j_max j, l_until = now + secs\<rparr>" "jobs' = put_job (claim_job now secs owner j) jobs"
    using assms Cons by (auto simp: claim_next_job_def Let_def split: if_splits)
  with hd show ?thesis by (intro disjI2 bexI [of _ j]) auto
qed

section \<open>Every step keeps it\<close>

lemma queue_ok_claim:
  assumes ok: "queue_ok q" and fresh: "owner \<notin> q_owners q" "owner \<noteq> []"
    and claim: "claim_next_job (q_now q) locked types secs owner (q_jobs q) = Inr (r, jobs)"
  shows "queue_ok (q\<lparr>q_jobs := jobs, q_owners := insert owner (q_owners q)\<rparr>)"
  using claim_next_job_Some [OF claim]
proof (elim disjE)
  assume "r = None \<and> jobs = q_jobs q \<and> (\<forall>j \<in> set (q_jobs q). claimable (q_now q) types j \<longrightarrow> locked (j_id j))"
  then show ?thesis
    using ok job_ok_mono [of "q_owners q" _ "insert owner (q_owners q)"]
    by (auto simp: queue_ok_def)
next
  assume "\<exists>j \<in> set (q_jobs q). claimable (q_now q) types j \<and> \<not> locked (j_id j)
       \<and> (\<forall>k \<in> set (q_jobs q). claimable (q_now q) types k \<and> \<not> locked (j_id k) \<longrightarrow>
            (j_available j, j_created j) \<le> (j_available k, j_created k))
       \<and> jobs = put_job (claim_job (q_now q) secs owner j) (q_jobs q)
       \<and> (\<exists>l. r = Some l \<and> l_job l = j_id j \<and> l_owner l = owner \<and> l_attempt l = j_attempt j + 1
            \<and> l_max l = j_max j \<and> l_until l = q_now q + secs)"
  then obtain j where j: "j \<in> set (q_jobs q)" "claimable (q_now q) types j"
    "jobs = put_job (claim_job (q_now q) secs owner j) (q_jobs q)" by blast
  have "job_ok (q_owners q) j" using ok j(1) by (simp add: queue_ok_def)
  from queue_ok_put [OF ok j(1) _ job_ok_claim [OF this j(2) fresh(2)]]
  show ?thesis
    unfolding j(3) using fresh(1) by (auto simp: claim_job_def Let_def)
qed

lemma queue_ok_jobs:
  "queue_ok (q\<lparr>q_jobs := jobs\<rparr>) \<longleftrightarrow> distinct (map j_id jobs)
     \<and> (\<forall>j \<in> set jobs. job_ok (q_owners q) j) \<and> one_job_per_owner jobs"
  by (simp add: queue_ok_def)

lemma queue_ok_submit:
  assumes ok: "queue_ok q" and fresh: "jid \<notin> j_id ` set (q_jobs q)" and m: "0 \<le> m"
  shows "queue_ok (q\<lparr>q_jobs := q_jobs q @ [submitted now jid jtype m payload]\<rparr>)"
proof -
  let ?j = "submitted now jid jtype m payload"
  have new: "j_id ?j = jid" "j_status ?j \<noteq> ''running''" "job_ok (q_owners q) ?j"
    using m by (simp_all add: submitted_def job_ok_def)
  have "one_job_per_owner (q_jobs q @ [?j])"
    unfolding one_job_per_owner_def
  proof (intro ballI impI)
    fix a b assume "a \<in> set (q_jobs q @ [?j])" "b \<in> set (q_jobs q @ [?j])"
      and run: "j_status a = ''running'' \<and> j_status b = ''running'' \<and> j_worker a = j_worker b"
    then have "a \<in> set (q_jobs q)" "b \<in> set (q_jobs q)"
      using new(2) by (metis append_is_Nil_conv rotate1.simps(2) set_ConsD set_rotate1)+
    with ok run show "j_id a = j_id b"
      unfolding queue_ok_def one_job_per_owner_def by blast
  qed
  moreover have "distinct (map j_id (q_jobs q @ [?j]))"
    using ok fresh new(1) unfolding queue_ok_def by (simp del: image_iff)
  moreover have "\<forall>j \<in> set (q_jobs q @ [?j]). job_ok (q_owners q) j"
    using ok new(3) unfolding queue_ok_def by (simp del: image_iff)
  ultimately show ?thesis unfolding queue_ok_jobs by (intro conjI)
qed

lemma queue_step_ok: "queue_step q q' \<Longrightarrow> queue_ok q \<Longrightarrow> queue_ok q'"
proof (induction rule: queue_step.induct)
  case (tick q now)
  then show ?case by (simp add: queue_ok_def)
next
  case (submit jid q m jtype payload)
  from submit.prems submit.hyps show ?case
    by (rule queue_ok_submit)
next
  case (claim q locked types secs owner r jobs)
  then show ?case using queue_ok_claim by blast
next
  case (renew q secs l)
  show ?case
    by (rule queue_ok_write [OF renew, OF renew_write_eq])
      (auto simp: job_ok_def owns_def)
next
  case (abandon q message delay l)
  show ?case
    by (rule queue_ok_write [OF abandon, OF abandon_write_eq])
      (auto simp: job_ok_abandon same_ids fields_of_writes)
next
  case (fail q message l)
  show ?case
    by (rule queue_ok_write [OF fail, OF failure_write_eq])
      (auto simp: job_ok_fail same_ids fields_of_writes owns_def split: if_splits)
next
  case (recover q locked delay l)
  show ?case
  proof (rule queue_ok_write [OF recover, where Q = "\<lambda>l j. owns l j \<and> expired (q_now q) j \<and> \<not> locked (j_id j)"
        and f = "\<lambda>j. to_option (recover_job (q_now q) delay j)", OF recover_write_eq])
    fix j j' assume "job_ok (q_owners q) j" "to_option (recover_job (q_now q) delay j) = Some j'"
    then have "recover_job (q_now q) delay j = Inr j'" "job_ok (q_owners q) j"
      by (simp_all add: to_option_def split: sum.splits)
    then show "job_ok (q_owners q) j' \<and> j_id j' = j_id j \<and> (j_status j' = ''running'' \<longrightarrow> j_worker j' = j_worker j)"
      using job_ok_recover same_ids(3) by blast
  qed simp
next
  case (requeue j q l payload)
  have jok: "job_ok (q_owners q) j" using requeue by (simp add: queue_ok_def)
  have "queue_ok (q\<lparr>q_jobs := put_job (requeue_job (q_now q) payload j) (q_jobs q), q_owners := q_owners q\<rparr>)"
    by (rule queue_ok_put [OF requeue.prems requeue.hyps(1) _ job_ok_requeue [OF jok]])
      (auto simp: requeue_job_def)
  then show ?case by simp
next
  case (release j q l status payload message)
  have jok: "job_ok (q_owners q) j" using release by (simp add: queue_ok_def)
  have "queue_ok (q\<lparr>q_jobs := put_job (release_job (q_now q) payload status message j) (q_jobs q),
      q_owners := q_owners q\<rparr>)"
    by (rule queue_ok_put [OF release.prems release.hyps(1) _ job_ok_release [OF jok release.hyps(3)]])
      (use release.hyps(3) in \<open>auto simp: release_job_def\<close>)
  then show ?case by simp
qed

lemma queue_ok_reachable: "reachable q \<Longrightarrow> queue_ok q"
proof (induction rule: reachable.induct)
  case (reach_init now)
  then show ?case by (simp add: queue_ok_def empty_queue_def one_job_per_owner_def)
next
  case (reach_step q q')
  then show ?case using queue_step_ok by blast
qed

section \<open>A lost lease stays lost\<close>

definition lost :: "lease \<Rightarrow> queue \<Rightarrow> bool" where
  "lost l q \<longleftrightarrow> l_owner l \<in> q_owners q \<and> (\<forall>j \<in> set (q_jobs q). \<not> owns l j)"

lemma put_not_owned:
  assumes "\<forall>x \<in> set jobs. \<not> owns l x" and "\<not> owns l j"
  shows "\<forall>x \<in> set (put_job j jobs). \<not> owns l x"
  using assms set_put_job by blast

lemma write_not_owned:
  assumes "jobs' = (case find_job (Q l') jobs of None \<Rightarrow> jobs
      | Some j \<Rightarrow> (case f j of None \<Rightarrow> jobs | Some j' \<Rightarrow> put_job j' jobs))"
    and none: "\<forall>x \<in> set jobs. \<not> owns l x"
    and keep: "\<And>j j'. j \<in> set jobs \<Longrightarrow> Q l' j \<Longrightarrow> f j = Some j' \<Longrightarrow> owns l j' \<Longrightarrow> owns l j"
  shows "\<forall>x \<in> set jobs'. \<not> owns l x"
proof (cases "find_job (Q l') jobs")
  case None
  then show ?thesis using assms by simp
next
  case (Some j)
  then have j: "j \<in> set jobs" "Q l' j" using find_job_Some [OF Some] by auto
  show ?thesis
  proof (cases "f j")
    case None
    then show ?thesis using assms Some by simp
  next
    case fj: (Some j')
    have "\<not> owns l j'" using keep [OF j fj] none j(1) by blast
    then show ?thesis using put_not_owned [OF none] assms(1) Some fj by simp
  qed
qed

lemma lost_step: "queue_step q q' \<Longrightarrow> lost l q \<Longrightarrow> lost l q'"
proof (induction rule: queue_step.induct)
  case (tick q now)
  then show ?case by (simp add: lost_def)
next
  case (submit jid q m jtype payload)
  then show ?case by (auto simp: lost_def owns_def submitted_def)
next
  case (claim q locked types secs owner r jobs)
  have "\<not> owns l (claim_job (q_now q) secs owner j)" for j
    using claim by (auto simp: lost_def owns_def claim_job_def Let_def)
  then show ?case
    using claim_next_job_Some [OF claim.hyps(1)] claim.prems put_not_owned [of "q_jobs q" l]
    by (auto simp: lost_def)
next
  case (renew q secs l')
  have "\<forall>x \<in> set (renew_write (q_now q) secs l' (q_jobs q)). \<not> owns l x"
    by (rule write_not_owned [OF renew_write_eq]) (use renew in \<open>auto simp: lost_def owns_def\<close>)
  with renew show ?case by (simp add: lost_def)
next
  case (abandon q message delay l')
  have "\<forall>x \<in> set (abandon_write (q_now q) message delay l' (q_jobs q)). \<not> owns l x"
    by (rule write_not_owned [OF abandon_write_eq])
      (use abandon in \<open>auto simp: lost_def owns_def fields_of_writes\<close>)
  with abandon show ?case by (simp add: lost_def)
next
  case (fail q message l')
  have "\<forall>x \<in> set (failure_write (q_now q) message l' (q_jobs q)). \<not> owns l x"
    by (rule write_not_owned [OF failure_write_eq])
      (use fail in \<open>auto simp: lost_def owns_def fields_of_writes split: if_splits\<close>)
  with fail show ?case by (simp add: lost_def)
next
  case (recover q locked delay l')
  have idle: "j_status j' \<noteq> ''running''" if "to_option (recover_job (q_now q) delay j) = Some j'" for j j'
    using that recover_status [of "q_now q" delay j j']
    by (simp add: to_option_def split: sum.splits if_splits)
  have "\<forall>x \<in> set (recover_write (q_now q) locked delay l' (q_jobs q)). \<not> owns l x"
    by (rule write_not_owned [where Q = "\<lambda>l j. owns l j \<and> expired (q_now q) j \<and> \<not> locked (j_id j)"
          and f = "\<lambda>j. to_option (recover_job (q_now q) delay j)", OF recover_write_eq])
      (use recover idle in \<open>auto simp: lost_def owns_def\<close>)
  with recover show ?case by (simp add: lost_def)
next
  case (requeue j q l' payload)
  have "\<not> owns l (requeue_job (q_now q) payload j)" by (simp add: owns_def fields_of_writes)
  with requeue put_not_owned [of "q_jobs q" l] show ?case by (auto simp: lost_def)
next
  case (release j q l' status payload message)
  have "\<not> owns l (release_job (q_now q) payload status message j)"
    using release.hyps(3) by (auto simp: owns_def fields_of_writes)
  with release put_not_owned [of "q_jobs q" l] show ?case by (auto simp: lost_def)
qed

lemma lost_steps: "queue_step\<^sup>*\<^sup>* q q' \<Longrightarrow> lost l q \<Longrightarrow> lost l q'"
  by (induction rule: rtranclp_induct) (auto intro: lost_step)

section \<open>Retry delays\<close>

lemma retry_delay_eq:
  "1 \<le> n \<Longrightarrow> n \<le> 6 \<Longrightarrow> retry_delay_seconds n = 5 * 2 ^ nat (n - 1)"
  "7 \<le> n \<Longrightarrow> retry_delay_seconds n = 300"
proof -
  assume n: "1 \<le> n" "n \<le> 6"
  then have "(2::int) ^ nat (n - 1) \<le> 2 ^ 5" by (intro power_increasing) auto
  with n show "retry_delay_seconds n = 5 * 2 ^ nat (n - 1)" by (simp add: retry_delay_seconds_def)
next
  assume n: "7 \<le> n"
  then have "(2::int) ^ 6 \<le> 2 ^ nat (n - 1)" by (intro power_increasing) auto
  with n show "retry_delay_seconds n = 300" by (simp add: retry_delay_seconds_def)
qed

lemma retry_delay_bounds: "5 \<le> retry_delay_seconds n \<and> retry_delay_seconds n \<le> 300"
proof -
  have "(1::int) \<le> 2 ^ nat (max 0 (n - 1))" by simp
  then show ?thesis by (simp add: retry_delay_seconds_def del: one_le_power)
qed

lemma retry_delay_mono: "m \<le> n \<Longrightarrow> retry_delay_seconds m \<le> retry_delay_seconds n"
proof -
  assume "m \<le> n"
  then have "(2::int) ^ nat (max 0 (m - 1)) \<le> 2 ^ nat (max 0 (n - 1))"
    by (intro power_increasing) auto
  then show ?thesis unfolding retry_delay_seconds_def by linarith
qed

end
