(* ===== verification/JobTheorems.thy ===== *)
theory JobTheorems
  imports JobQueue
begin

text \<open>
  The properties of the job queue: which job is claimed, what every history of the queue
  keeps, that a lost lease is lost for good, and the bounds of retries.
\<close>

text \<open>C36. A claim takes the earliest job that is due and not locked by another worker, gives it
  the worker's fresh owner token, one more attempt and a lease of the asked length, and touches
  no other job; it returns nothing only when every due job is locked.\<close>

theorem claim_takes_earliest_due_job:
  assumes "claim_next_job now locked types secs owner jobs = Inr (r, jobs')"
  shows "(r = None \<and> jobs' = jobs \<and> (\<forall>j \<in> set jobs. claimable now types j \<longrightarrow> locked (j_id j))) \<or>
    (\<exists>j \<in> set jobs. claimable now types j \<and> \<not> locked (j_id j)
       \<and> (\<forall>k \<in> set jobs. claimable now types k \<and> \<not> locked (j_id k) \<longrightarrow>
            (j_available j, j_created j) \<le> (j_available k, j_created k))
       \<and> jobs' = put_job (claim_job now secs owner j) jobs
       \<and> (\<exists>l. r = Some l \<and> l_job l = j_id j \<and> l_owner l = owner \<and> l_attempt l = j_attempt j + 1
            \<and> l_max l = j_max j \<and> l_until l = now + secs))"
  using assms by (rule claim_next_job_Some)

definition two_jobs :: "job list" where
  "two_jobs = [(submitted 5 ''late'' ''run'' 3 []), (submitted 2 ''early'' ''run'' 3 [])]"

lemma two_jobs_claim:
  "\<exists>r jobs'. claim_next_job 9 (\<lambda>_. False) [''run''] 30 ''w'' two_jobs = Inr (r, jobs')"
  by (simp add: claim_next_job_def two_jobs_def submitted_def claimable_def lease_of_def claim_job_def Let_def)

theorem claim_takes_earliest_due_job_witness:
  "\<exists>l jobs'. claim_next_job 9 (\<lambda>_. False) [''run''] 30 ''w'' two_jobs = Inr (Some l, jobs')
     \<and> l_job l = ''early'' \<and> l_attempt l = 1"
proof -
  obtain r jobs' where run: "claim_next_job 9 (\<lambda>_. False) [''run''] 30 ''w'' two_jobs = Inr (r, jobs')"
    using two_jobs_claim by blast
  have "claimable 9 [''run''] (submitted n i ''run'' 3 [])" if "n \<le> 9" for n i
    using that by (simp add: claimable_def submitted_def)
  then have "\<exists>l. r = Some l \<and> l_job l = ''early'' \<and> l_attempt l = 1"
    using claim_takes_earliest_due_job [OF run]
    by (auto simp: two_jobs_def) (auto simp: submitted_def)
  with run show ?thesis by auto
qed

text \<open>C1. Every history of the queue keeps it well-formed: job ids are unique, a job is running
  exactly when it has a lease, a non-empty owner that was handed out once and at least one
  attempt, attempts never exceed the job's maximum, a finish time is present exactly on final
  statuses, and no owner token holds two jobs.\<close>

theorem queue_histories_are_well_formed: "reachable q \<Longrightarrow> queue_ok q"
  by (rule queue_ok_reachable)

theorem queue_histories_are_well_formed_witness:
  "queue_ok ((empty_queue 3)\<lparr>q_jobs := [submitted 3 ''a'' ''run'' 3 []]\<rparr>)"
proof (rule queue_histories_are_well_formed)
  have "queue_step (empty_queue 3) ((empty_queue 3)\<lparr>q_jobs := q_jobs (empty_queue 3) @ [submitted (q_now (empty_queue 3)) ''a'' ''run'' 3 []]\<rparr>)"
    by (rule queue_step.submit) (simp_all add: empty_queue_def)
  then have "queue_step (empty_queue 3) ((empty_queue 3)\<lparr>q_jobs := [submitted 3 ''a'' ''run'' 3 []]\<rparr>)"
    by (simp add: empty_queue_def)
  then show "reachable ((empty_queue 3)\<lparr>q_jobs := [submitted 3 ''a'' ''run'' 3 []]\<rparr>)"
    by (rule reach_step [OF reach_init])
qed

text \<open>C12. A lost lease is fenced off for good: once no row is held under it, then after any
  further steps of any workers a renewal, an abandonment, a failure report or a recovery under
  that lease writes nothing.\<close>

theorem lost_lease_writes_nothing:
  assumes "queue_step\<^sup>*\<^sup>* q q'" and "lost l q"
  shows "renew_write now secs l (q_jobs q') = q_jobs q'
    \<and> abandon_write now message delay l (q_jobs q') = q_jobs q'
    \<and> failure_write now message l (q_jobs q') = q_jobs q'
    \<and> recover_write now locked delay l (q_jobs q') = q_jobs q'"
proof -
  have "r \<in> set (q_jobs q') \<Longrightarrow> \<not> owns l r" for r
    using lost_steps [OF assms] by (auto simp: lost_def)
  then show ?thesis
    by (intro conjI renewal.fenced abandonment.fenced failure.fenced recovery.fenced)
qed

definition lost_queue :: queue where
  "lost_queue = \<lparr>q_now = 9, q_jobs = two_jobs, q_owners = {''w''}\<rparr>"

definition old_lease :: lease where
  "old_lease = \<lparr>l_job = ''early'', l_type = ''run'', l_owner = ''w'', l_attempt = 1, l_max = 3, l_until = 4\<rparr>"

theorem lost_lease_writes_nothing_witness:
  "renew_write 9 30 old_lease (q_jobs lost_queue) = q_jobs lost_queue"
proof -
  have "lost old_lease lost_queue"
    by (simp add: lost_def old_lease_def lost_queue_def two_jobs_def owns_def submitted_def)
  from lost_lease_writes_nothing [OF _ this, of lost_queue 9 30] show ?thesis by simp
qed

text \<open>The retry delay doubles from 5 seconds with each attempt up to the sixth, then stays at
  300; it never leaves these bounds and never decreases.\<close>

theorem retry_delay_is_capped_exponential:
  "retry_delay_seconds n = (if n \<le> 1 then 5 else if n \<le> 6 then 5 * 2 ^ nat (n - 1) else 300)
   \<and> 5 \<le> retry_delay_seconds n \<and> retry_delay_seconds n \<le> 300
   \<and> retry_delay_seconds n \<le> retry_delay_seconds (n + 1)"
  using retry_delay_eq [of n] retry_delay_bounds [of n] retry_delay_mono [of n "n + 1"]
  by (auto simp: retry_delay_seconds_def)

text \<open>Recovering an expired lease never leaves the job running and never gives it an attempt
  beyond its maximum: with attempts left it becomes retryable after the delay, otherwise it
  fails, and the lease that expired is lost.\<close>

theorem recovery_ends_the_attempt:
  assumes rec: "recover_expired_lease now locked delay l jobs = Inr (Some rc, jobs')"
    and ids: "distinct (map j_id jobs)"
  shows "\<exists>j \<in> set jobs. owns l j \<and> expired now j \<and> \<not> locked (j_id j)
    \<and> rc_exhausted rc = (j_attempt j \<ge> j_max j)
    \<and> rc_status rc = (if j_attempt j \<ge> j_max j then ''failed'' else ''retryable_failed'')
    \<and> (\<exists>j'. jobs' = put_job j' jobs \<and> j_id j' = j_id j \<and> j_status j' = rc_status rc
         \<and> j_attempt j' = j_attempt j \<and> j_lease j' = None
         \<and> (\<not> rc_exhausted rc \<longrightarrow> j_available j' = now + max 0 delay))
    \<and> (\<forall>x \<in> set jobs'. \<not> owns l x)"
proof -
  obtain j j' where j: "find_job (\<lambda>j. owns l j \<and> expired now j \<and> \<not> locked (j_id j)) jobs = Some j"
    and j': "recover_job now delay j = Inr j'" "jobs' = put_job j' jobs"
    and rc: "rc_status rc = j_status j'" "rc_exhausted rc = (j_attempt j \<ge> j_max j)"
    using rec by (auto simp: recover_expired_lease_def rbind_eq_Inr split: option.splits)
  have out: "j_id j' = j_id j" "j_attempt j' = j_attempt j" "j_lease j' = None"
    "j_status j' = (if j_attempt j \<ge> j_max j then ''failed'' else ''retryable_failed'')"
    "\<not> j_attempt j \<ge> j_max j \<longrightarrow> j_available j' = now + max 0 delay"
    using j'(1) by (auto simp: recover_job_def Let_def rbind_eq_Inr)
  note found = find_job_Some [OF j]
  have "\<not> owns l x" if x: "x \<in> set jobs'" for x
  proof
    assume o1: "owns l x"
    have "x \<noteq> j'" using o1 out(4) by (auto simp: owns_def split: if_splits)
    then have "x \<in> set jobs" "j_id x \<noteq> j_id j" using set_put_job [of x j' jobs] x j'(2) out(1) by auto
    moreover have "j_id x = j_id j" using o1 found by (simp add: owns_def)
    ultimately show False by simp
  qed
  with found out rc j' show ?thesis by (intro bexI [of _ j] conjI exI [of _ j']) auto
qed

definition expired_job :: job where
  "expired_job = (submitted 1 ''a'' ''run'' 1 [])\<lparr>j_status := ''running'', j_worker := ''w'',
     j_lease := Some 4, j_attempt := 1\<rparr>"

theorem recovery_ends_the_attempt_witness:
  "\<exists>rc jobs'. recover_expired_lease 9 (\<lambda>_. False) 5 (old_lease\<lparr>l_job := ''a''\<rparr>) [expired_job] = Inr (Some rc, jobs')
     \<and> rc_status rc = ''failed''"
proof -
  obtain rc jobs' where rec: "recover_expired_lease 9 (\<lambda>_. False) 5 (old_lease\<lparr>l_job := ''a''\<rparr>) [expired_job]
      = Inr (Some rc, jobs')"
    by (simp add: recover_expired_lease_def find_job_def owns_def old_lease_def expired_job_def submitted_def
        expired_code recover_job_def bump_recoveries_def int_or0_def Let_def)
  with recovery_ends_the_attempt [OF rec] show ?thesis
    by (auto simp: expired_job_def submitted_def)
qed

end
