(* ===== verification/RunState.thy ===== *)
theory RunState
  imports Terminal Jobs
begin

text \<open>
  The rows of one run: the run itself, its invocation's status, its terminal session, its three
  logs (token snapshots, trace events, terminal events), the table of jobs, and what the service
  holds of its job's lease: the lease of the turn, whether the advisory lock is healthy, and the
  owner whose lease the open transaction has checked. An operation of
  \<^verbatim>\<open>service.py\<close> is a function on this record; an operation that raises leaves the caller's
  record, as the rollback of the session does. The clock is read once per operation. What is
  not code of the repository is the record \<open>env\<close>: the supply of UUIDs, the SHA-256 of a
  text, the text and the details of an exception, \<^verbatim>\<open>json.loads\<close> and the configured number of attempts.
\<close>

section \<open>Rows\<close>

record part_input =
  pi_id :: string
  pi_kind :: string
  pi_mime :: string
  pi_text :: string
  pi_artifact :: string
  pi_size :: int
  pi_checksum :: string
  pi_metadata :: dict

record trace_row =
  tr_id :: string
  tr_seq :: int
  tr_phase :: string
  tr_type :: string
  tr_span :: string
  tr_payload :: dict

record snap_row =
  sn_seq :: int
  sn_token :: dict
  sn_enabled :: "json list"
  sn_summary :: dict
  sn_hash :: string

record run_row =
  r_id :: string
  r_status :: string
  r_phase :: string
  r_snapshot_seq :: int
  r_terminal_seq :: int
  r_trace_seq :: int
  r_output :: string
  r_exit :: string
  r_started :: "string option"
  r_ended :: "string option"

record session_row =
  ts_id :: string
  ts_run :: string
  ts_status :: string
  ts_closed :: "string option"

record binding_row =
  bd_id :: string
  bd_run :: string
  bd_key :: string
  bd_status :: string

record world =
  w_run :: run_row
  w_invocation :: string
  w_session :: "session_row option"
  w_bindings :: "binding_row list"
  w_objects :: "string list"
  w_snapshots :: "snap_row list"
  w_traces :: "trace_row list"
  w_events :: "tevent list"
  w_jobs :: "job list"
  w_lease :: "lease option"
  w_fence :: "string option"
  w_healthy :: bool
  w_now :: int
  w_iso :: string
  w_ids :: nat

record env =
  en_uuid :: "nat \<Rightarrow> string"
  en_sha :: "string \<Rightarrow> string"
  en_text :: "exc \<Rightarrow> string"
  en_details :: "exc \<Rightarrow> dict"
  en_loads :: "string \<Rightarrow> json option"
  en_max_attempts :: int

text \<open>A change of the run's row.\<close>

definition on_run :: "(run_row \<Rightarrow> run_row) \<Rightarrow> world \<Rightarrow> world" where
  "on_run f w = w\<lparr>w_run := f (w_run w)\<rparr>"

definition run_open :: "world \<Rightarrow> bool" where
  "run_open w \<longleftrightarrow> r_status (w_run w) \<notin> {''succeeded'', ''failed'', ''cancelled'', ''aborted''}"

definition session_open :: "world \<Rightarrow> bool" where
  "session_open w \<longleftrightarrow> (case w_session w of None \<Rightarrow> False | Some s \<Rightarrow> ts_status s = ''open'')"

definition close_session :: "world \<Rightarrow> world" where
  "close_session w = w\<lparr>w_session := map_option
     (\<lambda>s. if ts_status s = ''open'' then s\<lparr>ts_status := ''closed'', ts_closed := Some (w_iso w)\<rparr> else s)
     (w_session w)\<rparr>"

section \<open>Traces and snapshots\<close>

definition pad4 :: "string \<Rightarrow> string" where
  "pad4 s = replicate (4 - length s) CHR ''0'' @ s"

definition append_trace :: "env \<Rightarrow> string \<Rightarrow> string \<Rightarrow> dict \<Rightarrow> world \<Rightarrow> trace_row \<times> world" where
  "append_trace env phase event_type payload w =
     (let n = r_trace_seq (w_run w) + 1;
          row = \<lparr>tr_id = en_uuid env (w_ids w), tr_seq = n, tr_phase = phase, tr_type = event_type,
                 tr_span = py_take 8 (r_id (w_run w)) @ ''-'' @ pad4 (int_str n), tr_payload = payload\<rparr> in
      (row, on_run (\<lambda>r. r\<lparr>r_trace_seq := n\<rparr>) (w\<lparr>w_traces := w_traces w @ [row], w_ids := Suc (w_ids w)\<rparr>)))"

text \<open>\<^verbatim>\<open>_hash_payload\<close>\<close>

definition hash_payload :: "env \<Rightarrow> dict \<Rightarrow> string" where
  "hash_payload env payload = en_sha env (dumps (sort_keys (JObj payload)))"

definition append_snapshot :: "env \<Rightarrow> dict \<Rightarrow> json list \<Rightarrow> dict \<Rightarrow> world \<Rightarrow> world" where
  "append_snapshot env token enabled summary w =
     (let n = r_snapshot_seq (w_run w) + 1 in
      on_run (\<lambda>r. r\<lparr>r_snapshot_seq := n\<rparr>)
        (w\<lparr>w_snapshots := w_snapshots w @ [\<lparr>sn_seq = n, sn_token = token, sn_enabled = enabled,
             sn_summary = summary, sn_hash = hash_payload env token\<rparr>]\<rparr>))"

section \<open>Terminal event parts\<close>

definition part_kind_for_mime :: "string \<Rightarrow> string" where
  "part_kind_for_mime mime =
     (if starts_with ''image/'' mime then ''image''
      else if starts_with ''audio/'' mime then ''audio''
      else if starts_with ''video/'' mime then ''video''
      else if starts_with ''text/'' mime then ''text'' else ''file'')"

definition norm_text :: "string \<Rightarrow> string" where
  "norm_text s = lower (strip s)"

text \<open>\<^verbatim>\<open>part_counts\<close> is an association list; the message names the failing check.\<close>

definition count_of :: "(string \<times> nat) list \<Rightarrow> string \<Rightarrow> nat" where
  "count_of counts kind = (case map_of counts kind of None \<Rightarrow> 0 | Some n \<Rightarrow> n)"

definition part_kind :: "part_input \<Rightarrow> string" where
  "part_kind p =
     (if norm_text (pi_kind p) = [] then part_kind_for_mime (norm_text (pi_mime p))
      else norm_text (pi_kind p))"

definition validate_part :: "(string \<times> nat) list \<Rightarrow> part_input \<Rightarrow> (part_input \<times> (string \<times> nat) list) res" where
  "validate_part counts p =
     (let kind = part_kind p; mime = norm_text (pi_mime p) in
      if kind \<notin> {''text'', ''image'', ''video'', ''audio''} then Inl (Invalid ''part kind'')
      else if kind = ''text'' \<and> strip (pi_text p) = [] then Inl (Invalid ''text part without text'')
      else if kind \<noteq> ''text'' \<and> pi_artifact p = [] then Inl (Invalid ''part without artifact'')
      else if kind \<noteq> ''text'' \<and> \<not> starts_with (kind @ ''/'') mime then Inl (Invalid ''part mime type'')
      else
        (let n = count_of counts kind + 1; pid = strip (pi_id p) in
         Inr (p\<lparr>pi_id := (if pid = [] then kind @ ''_'' @ nat_str n else pid), pi_kind := kind,
                pi_mime := (if pi_mime p \<noteq> [] then pi_mime p
                            else if kind = ''text'' then ''text/plain'' else ''application/octet-stream'')\<rparr>,
              AList.update kind n counts)))"

fun validate_parts :: "(string \<times> nat) list \<Rightarrow> part_input list \<Rightarrow> part_input list res" where
  "validate_parts counts [] = Inr []"
| "validate_parts counts (p # ps) =
     rbind (validate_part counts p) (\<lambda>r.
     rbind (validate_parts (snd r) ps) (\<lambda>qs. Inr (fst r # qs)))"

definition default_parts :: "string \<Rightarrow> string \<Rightarrow> string \<Rightarrow> json \<Rightarrow> string option \<Rightarrow> part_input list" where
  "default_parts direction kind mime payload artifact =
     (let text = text_from_payload payload in
      if artifact \<noteq> None \<and> artifact \<noteq> Some [] then []
      else if direction = ''output'' \<and> \<not> (starts_with ''text/'' (norm_text mime)
         \<or> starts_with ''terminal.text.'' (norm_text kind)) then []
      else if text \<noteq> [] then
        [\<lparr>pi_id = ''text_1'', pi_kind = ''text'',
          pi_mime = (if direction = ''output'' then mime else ''text/plain''), pi_text = text,
          pi_artifact = [], pi_size = 0, pi_checksum = [], pi_metadata = []\<rparr>]
      else [])"

definition normalize_parts ::
    "string \<Rightarrow> string \<Rightarrow> string \<Rightarrow> json \<Rightarrow> string option \<Rightarrow> part_input list \<Rightarrow> part_input list res" where
  "normalize_parts direction kind mime payload artifact parts =
     (if parts \<noteq> [] then validate_parts [] parts
      else Inr (default_parts direction kind mime payload artifact))"

definition part_row :: "env \<Rightarrow> nat \<Rightarrow> nat \<times> part_input \<Rightarrow> tpart" where
  "part_row env ids ip =
     (let p = snd ip in
      \<lparr>tp_id = en_uuid env (ids + fst ip), tp_part_id = pi_id p, tp_order = int (fst ip),
       tp_kind = pi_kind p, tp_mime = pi_mime p, tp_text = pi_text p,
       tp_artifact = (if pi_artifact p = [] then None else Some (pi_artifact p)),
       tp_size = pi_size p, tp_checksum = pi_checksum p, tp_metadata = JObj (pi_metadata p)\<rparr>)"

text \<open>
  The rows of the parts, numbered from 1. An unknown artifact object is refused, and two parts
  with one \<^verbatim>\<open>part_id\<close> violate \<^verbatim>\<open>uk_terminal_event_part_event_part\<close>.
\<close>

definition part_rows :: "env \<Rightarrow> nat \<Rightarrow> string list \<Rightarrow> part_input list \<Rightarrow> tpart list res" where
  "part_rows env ids objects parts =
     (if \<exists>p \<in> set parts. pi_artifact p \<noteq> [] \<and> pi_artifact p \<notin> set objects
      then Inl (Invalid ''part artifact'')
      else if \<not> distinct (map pi_id parts) then Inl DbErr
      else Inr (map (part_row env ids) (enumerate 1 parts)))"

section \<open>Appending a terminal event\<close>

record event_request =
  er_direction :: string
  er_kind :: string
  er_mime :: string
  er_payload :: json
  er_binding :: string
  er_artifact :: "string option"
  er_parts :: "part_input list"
  er_source :: json
  er_external :: "string option"
  er_trace :: "string option"
  er_occurred :: "string option"

definition run_bindings :: "world \<Rightarrow> binding_row list" where
  "run_bindings w = filter (\<lambda>b. bd_run b = r_id (w_run w)) (w_bindings w)"

definition default_binding_id :: "binding_row list \<Rightarrow> string \<Rightarrow> string" where
  "default_binding_id bindings direction =
     (let tail = (if direction = ''output'' then ''output'' else ''input'') in
      case find (\<lambda>b. ends_with tail (bd_key b) \<and> bd_status b = ''active'') bindings of
        Some b \<Rightarrow> bd_id b
      | None \<Rightarrow> (case bindings of [] \<Rightarrow> [] | b # _ \<Rightarrow> bd_id b))"

definition resolve_binding :: "string \<Rightarrow> string \<Rightarrow> world \<Rightarrow> (string option) res" where
  "resolve_binding binding direction w =
     (let bid = (if binding \<noteq> [] then binding else default_binding_id (run_bindings w) direction) in
      if bid = [] then Inr None
      else (case find (\<lambda>b. bd_id b = bid) (w_bindings w) of
              Some b \<Rightarrow> if bd_run b = r_id (w_run w) \<and> bd_status b = ''active'' then Inr (Some bid)
                        else Inl (Invalid ''binding'')
            | None \<Rightarrow> Inl (Invalid ''binding'')))"

text \<open>
  The source adds the event's row before it checks the parts. A refusal after that leaves the
  request's transaction, which is rolled back; the runtime's own events carry no part.
\<close>

definition append_event :: "env \<Rightarrow> session_row \<Rightarrow> event_request \<Rightarrow> world \<Rightarrow> (tevent \<times> world) res" where
  "append_event env s q w =
     (let direction = norm_text (er_direction q) in
      if direction \<notin> {''input'', ''output''} then Inl (Invalid ''direction'')
      else if er_kind q = [] then Inl (Invalid ''event_kind'')
      else if er_mime q = [] then Inl (Invalid ''mime_type'')
      else if ts_run s \<noteq> r_id (w_run w) then Inl (Invalid ''session'')
      else rbind (resolve_binding (er_binding q) direction w) (\<lambda>binding.
        if er_external q \<noteq> None \<and> (\<exists>ev \<in> set (w_events w). te_external ev = er_external q) then Inl DbErr
        else rbind (normalize_parts direction (er_kind q) (er_mime q) (er_payload q) (er_artifact q) (er_parts q)) (\<lambda>parts.
          rbind (part_rows env (w_ids w) (w_objects w) parts) (\<lambda>rows.
          let n = r_terminal_seq (w_run w) + 1;
              ev = \<lparr>te_id = en_uuid env (w_ids w), te_seq = n, te_direction = direction, te_kind = er_kind q,
                    te_mime = er_mime q, te_payload = er_payload q, te_artifact = er_artifact q,
                    te_binding = binding, te_source = er_source q, te_external = er_external q,
                    te_trace = er_trace q, te_at = (case er_occurred q of None \<Rightarrow> w_iso w | Some time \<Rightarrow> time), te_parts = rows\<rparr> in
          Inr (ev, on_run (\<lambda>r. r\<lparr>r_terminal_seq := n\<rparr>)
                 (w\<lparr>w_events := w_events w @ [ev], w_ids := w_ids w + 1 + length rows\<rparr>))))))"

section \<open>Logs without gaps\<close>

text \<open>
  The contract of the three logs: a write appends one entry whose number is the next one of the
  run's counter. Then the log is always numbered \<open>1 .. n\<close> and the counter is its length.
\<close>

locale seq_log =
  fixes add :: "'x \<Rightarrow> 's \<Rightarrow> 's"
    and entries :: "'s \<Rightarrow> 'e list"
    and counter :: "'s \<Rightarrow> int"
    and number :: "'e \<Rightarrow> int"
  assumes appends: "\<exists>e. entries (add x s) = entries s @ [e] \<and> number e = counter s + 1"
    and counts: "counter (add x s) = counter s + 1"
begin

definition gapless :: "'s \<Rightarrow> bool" where
  "gapless s \<longleftrightarrow> map number (entries s) = map int [1 ..< Suc (length (entries s))]
     \<and> counter s = int (length (entries s))"

lemma gapless_add: "gapless s \<Longrightarrow> gapless (add x s)"
  using appends [of x s] counts [of x s] by (auto simp: gapless_def)

lemma gapless_fold: "gapless s \<Longrightarrow> gapless (fold add xs s)"
  by (induction xs arbitrary: s) (auto simp: gapless_add)

lemma fold_extends: "\<exists>es. entries (fold add xs s) = entries s @ es \<and> length es = length xs"
proof (induction xs arbitrary: s)
  case Nil
  then show ?case by simp
next
  case (Cons x xs)
  obtain e es where "entries (add x s) = entries s @ [e]"
    "entries (fold add xs (add x s)) = entries (add x s) @ es" "length es = length xs"
    using appends [of x s] Cons.IH [of "add x s"] by blast
  then show ?case by (intro exI [of _ "e # es"]) simp
qed

lemma gapless_distinct: "gapless s \<Longrightarrow> distinct (map number (entries s))"
  by (simp add: gapless_def distinct_map inj_on_def)

lemma gapless_bound: "gapless s \<Longrightarrow> e \<in> set (entries s) \<Longrightarrow> 1 \<le> number e \<and> number e \<le> counter s"
proof -
  assume s: "gapless s" and "e \<in> set (entries s)"
  then have "number e \<in> set (map int [1 ..< Suc (length (entries s))])"
    unfolding gapless_def by (metis image_eqI set_map)
  with s show ?thesis by (auto simp: gapless_def)
qed

end

text \<open>What every operation keeps: the three logs only grow, without gaps.\<close>

definition numbered :: "int list \<Rightarrow> int \<Rightarrow> bool" where
  "numbered ns c \<longleftrightarrow> ns = map int [1 ..< Suc (length ns)] \<and> c = int (length ns)"

lemma numbered_snoc: "numbered ns c \<Longrightarrow> numbered (ns @ [c + 1]) (c + 1)"
  by (simp add: numbered_def)

definition logs_ok :: "world \<Rightarrow> bool" where
  "logs_ok w \<longleftrightarrow>
     numbered (map sn_seq (w_snapshots w)) (r_snapshot_seq (w_run w))
     \<and> numbered (map tr_seq (w_traces w)) (r_trace_seq (w_run w))
     \<and> numbered (map te_seq (w_events w)) (r_terminal_seq (w_run w))"

definition grows :: "world \<Rightarrow> world \<Rightarrow> bool" where
  "grows w w' \<longleftrightarrow> prefix (w_snapshots w) (w_snapshots w') \<and> prefix (w_traces w) (w_traces w')
     \<and> prefix (w_events w) (w_events w') \<and> r_id (w_run w') = r_id (w_run w)
     \<and> (logs_ok w \<longrightarrow> logs_ok w')"

interpretation traces: seq_log "\<lambda>x w. snd (append_trace env (fst x) (fst (snd x)) (snd (snd x)) w)"
  w_traces "\<lambda>w. r_trace_seq (w_run w)" tr_seq for env
  by unfold_locales (auto simp: append_trace_def on_run_def Let_def)

interpretation snapshots: seq_log "\<lambda>x w. append_snapshot env (fst x) (fst (snd x)) (snd (snd x)) w"
  w_snapshots "\<lambda>w. r_snapshot_seq (w_run w)" sn_seq for env
  by unfold_locales (auto simp: append_snapshot_def on_run_def Let_def)

text \<open>A refused terminal event writes nothing.\<close>

definition try_event :: "env \<Rightarrow> session_row \<times> event_request \<Rightarrow> world \<Rightarrow> world" where
  "try_event env sq w = (case append_event env (fst sq) (snd sq) w of Inl e \<Rightarrow> w | Inr r \<Rightarrow> snd r)"

lemma append_event_Inr:
  assumes "append_event env s q w = Inr (ev, w')"
  shows "te_seq ev = r_terminal_seq (w_run w) + 1 \<and> te_direction ev = norm_text (er_direction q)
    \<and> te_direction ev \<in> {''input'', ''output''} \<and> te_external ev = er_external q
    \<and> te_payload ev = er_payload q \<and> te_kind ev = er_kind q \<and> te_trace ev = er_trace q
    \<and> (\<exists>n. w' = on_run (\<lambda>r. r\<lparr>r_terminal_seq := r_terminal_seq r + 1\<rparr>)
          (w\<lparr>w_events := w_events w @ [ev], w_ids := n\<rparr>))"
  using assms unfolding append_event_def Let_def
  by (auto simp: rbind_eq_Inr on_run_def split: if_splits)

lemma grows_refl [simp, intro]: "grows w w"
  by (simp add: grows_def)

lemma grows_trans [trans]: "grows u v \<Longrightarrow> grows v w \<Longrightarrow> grows u w"
  unfolding grows_def by (auto intro: prefix_order.trans)

lemma grows_trace: "grows w (snd (append_trace env phase event_type payload w))"
  by (simp add: grows_def logs_ok_def append_trace_def on_run_def Let_def numbered_snoc)

lemma grows_snapshot: "grows w (append_snapshot env token enabled summary w)"
  by (simp add: grows_def logs_ok_def append_snapshot_def on_run_def Let_def numbered_snoc)

lemma grows_event: "append_event env s q w = Inr (ev, w') \<Longrightarrow> grows w w'"
  by (drule append_event_Inr) (auto simp: grows_def logs_ok_def on_run_def numbered_snoc)

text \<open>A write of other columns and rows.\<close>

lemma grows_other:
  "r_id (w_run w') = r_id (w_run w) \<Longrightarrow> w_snapshots w' = w_snapshots w \<Longrightarrow> w_traces w' = w_traces w \<Longrightarrow>
   w_events w' = w_events w \<Longrightarrow> r_snapshot_seq (w_run w') = r_snapshot_seq (w_run w) \<Longrightarrow>
   r_trace_seq (w_run w') = r_trace_seq (w_run w) \<Longrightarrow> r_terminal_seq (w_run w') = r_terminal_seq (w_run w) \<Longrightarrow>
   grows w w'"
  by (simp add: grows_def logs_ok_def)

lemma grows_close: "grows w (close_session w)"
  by (rule grows_other) (simp_all add: close_session_def)

section \<open>Parts\<close>

lemma norm_text_Nil [simp]: "norm_text [] = []"
proof -
  have "strip_front ws [] = []" for ws using length_strip_front_le [of ws "[]"] by simp
  then show ?thesis by (simp add: norm_text_def strip_def lower_def)
qed

lemma starts_with_Nil [simp]: "starts_with (c # p) [] = False"
  by (simp add: starts_with_def)

lemma validate_part_ok:
  assumes "validate_part counts p = Inr (q, counts')"
  shows "pi_kind q \<in> {''text'', ''image'', ''video'', ''audio''}
    \<and> (pi_kind q = ''text'' \<longrightarrow> strip (pi_text q) \<noteq> [])
    \<and> (pi_kind q \<noteq> ''text'' \<longrightarrow> pi_artifact q \<noteq> [] \<and> starts_with (pi_kind q @ ''/'') (norm_text (pi_mime q)))
    \<and> pi_id q \<noteq> []"
  using assms unfolding validate_part_def Let_def
  by (auto split: if_splits)

lemma validate_parts_ok:
  "validate_parts counts ps = Inr qs \<Longrightarrow> length qs = length ps
    \<and> (\<forall>q \<in> set qs. pi_kind q \<in> {''text'', ''image'', ''video'', ''audio''}
        \<and> (pi_kind q = ''text'' \<longrightarrow> strip (pi_text q) \<noteq> [])
        \<and> (pi_kind q \<noteq> ''text'' \<longrightarrow> pi_artifact q \<noteq> [] \<and> starts_with (pi_kind q @ ''/'') (norm_text (pi_mime q)))
        \<and> pi_id q \<noteq> [])"
proof (induction ps arbitrary: counts qs)
  case Nil
  then show ?case by simp
next
  case (Cons p ps)
  obtain q counts' rest where "validate_part counts p = Inr (q, counts')"
    "validate_parts counts' ps = Inr rest" "qs = q # rest"
    using Cons.prems by (auto simp: rbind_eq_Inr)
  with Cons.IH validate_part_ok show ?case by fastforce
qed

end
