(* ===== verification/Turn.thy ===== *)
theory Turn
  imports RunState
begin

text \<open>
  A runtime turn threads the token, which Python mutates in place, and the rows of the run. Both
  keep what was written before an exception: the loop of \<^verbatim>\<open>process_run\<close> handles an exception
  with the token and the session as the failing statement left them. An action is therefore a
  function from the state to a result and the state, whatever the result. Beside the token and
  the rows of the open transaction, the state holds the rows last committed, the snapshot number
  that the session's run object shows, and the one the node in work was selected at.
\<close>

record turn =
  tn_token :: dict
  tn_world :: world
  tn_saved :: world
  tn_seen :: int
  tn_expected :: int

type_synonym 'a act = "turn \<Rightarrow> 'a res \<times> turn"

definition ret :: "'a \<Rightarrow> 'a act" where
  "ret x t = (Inr x, t)"

definition raises :: "exc \<Rightarrow> 'a act" where
  "raises e t = (Inl e, t)"

definition abind :: "'a act \<Rightarrow> ('a \<Rightarrow> 'b act) \<Rightarrow> 'b act" where
  "abind f g t = (case fst (f t) of Inl e \<Rightarrow> (Inl e, snd (f t)) | Inr x \<Rightarrow> g x (snd (f t)))"

definition attempt :: "'a res \<Rightarrow> 'a act" where
  "attempt r t = (r, t)"

definition asks :: "(turn \<Rightarrow> 'a) \<Rightarrow> 'a act" where
  "asks f t = (Inr (f t), t)"

definition put_token :: "dict \<Rightarrow> unit act" where
  "put_token token t = (Inr (), t\<lparr>tn_token := token\<rparr>)"

definition edit_token :: "(dict \<Rightarrow> dict) \<Rightarrow> unit act" where
  "edit_token f t = (Inr (), t\<lparr>tn_token := f (tn_token t)\<rparr>)"

definition on_rows :: "(world \<Rightarrow> 'a \<times> world) \<Rightarrow> 'a act" where
  "on_rows f t = (Inr (fst (f (tn_world t))), t\<lparr>tn_world := snd (f (tn_world t))\<rparr>)"

definition edit_rows :: "(world \<Rightarrow> world) \<Rightarrow> unit act" where
  "edit_rows f t = (Inr (), t\<lparr>tn_world := f (tn_world t)\<rparr>)"

text \<open>A write that is refused before it changes a row.\<close>

definition try_rows :: "(world \<Rightarrow> ('a \<times> world) res) \<Rightarrow> 'a act" where
  "try_rows f t = (case f (tn_world t) of Inl e \<Rightarrow> (Inl e, t) | Inr r \<Rightarrow> (Inr (fst r), t\<lparr>tn_world := snd r\<rparr>))"

text \<open>A write of rows that changes nothing when it is refused.\<close>

definition rows_res :: "(world \<Rightarrow> world res) \<Rightarrow> unit act" where
  "rows_res f t = (case f (tn_world t) of Inl e \<Rightarrow> (Inl e, t) | Inr w \<Rightarrow> (Inr (), t\<lparr>tn_world := w\<rparr>))"

definition when_act :: "bool \<Rightarrow> unit act \<Rightarrow> unit act" where
  "when_act b f = (if b then f else ret ())"

named_theorems act_defs "the actions unfolded"
declare ret_def [act_defs] raises_def [act_defs] abind_def [act_defs] attempt_def [act_defs]
  asks_def [act_defs] put_token_def [act_defs] edit_token_def [act_defs] on_rows_def [act_defs]
  edit_rows_def [act_defs] try_rows_def [act_defs] rows_res_def [act_defs] when_act_def [act_defs]

lemma abind_Inr:
  "abind f g t = (Inr y, t') \<longleftrightarrow> (\<exists>x t1. f t = (Inr x, t1) \<and> g x t1 = (Inr y, t'))"
  by (cases "f t") (auto simp: abind_def split: sum.splits)

lemma abind_Inl:
  "abind f g t = (Inl e, t') \<longleftrightarrow> f t = (Inl e, t') \<or> (\<exists>x t1. f t = (Inr x, t1) \<and> g x t1 = (Inl e, t'))"
  by (cases "f t") (auto simp: abind_def split: sum.splits)

lemma act_Inr:
  "abind f g t = (Inr y, t') \<longleftrightarrow> (\<exists>x t1. f t = (Inr x, t1) \<and> g x t1 = (Inr y, t'))"
  "ret z t = (Inr y, t') \<longleftrightarrow> y = z \<and> t' = t"
  "raises e t \<noteq> (Inr y, t')"
  "attempt r t = (Inr y, t') \<longleftrightarrow> r = Inr y \<and> t' = t"
  "asks h t = (Inr y, t') \<longleftrightarrow> y = h t \<and> t' = t"
  "put_token token t = (Inr u, t') \<longleftrightarrow> t' = t\<lparr>tn_token := token\<rparr>"
  "edit_token k t = (Inr u, t') \<longleftrightarrow> t' = t\<lparr>tn_token := k (tn_token t)\<rparr>"
  "edit_rows l t = (Inr u, t') \<longleftrightarrow> t' = t\<lparr>tn_world := l (tn_world t)\<rparr>"
  "on_rows m t = (Inr y, t') \<longleftrightarrow> y = fst (m (tn_world t)) \<and> t' = t\<lparr>tn_world := snd (m (tn_world t))\<rparr>"
  "try_rows o1 t = (Inr y, t') \<longleftrightarrow> (\<exists>w. o1 (tn_world t) = Inr (y, w) \<and> t' = t\<lparr>tn_world := w\<rparr>)"
  "rows_res o2 t = (Inr u, t') \<longleftrightarrow> (\<exists>w. o2 (tn_world t) = Inr w \<and> t' = t\<lparr>tn_world := w\<rparr>)"
  by (rule abind_Inr) (auto simp: act_defs split: sum.splits)

section \<open>What every action keeps\<close>

text \<open>
  A relation between the states before and after that is reflexive and transitive is kept by an
  action when its parts keep it.
\<close>

locale kept_by_steps =
  fixes rel :: "turn \<Rightarrow> turn \<Rightarrow> bool"
  assumes rel_refl: "rel t t"
    and rel_trans: "rel s t \<Longrightarrow> rel t u \<Longrightarrow> rel s u"
begin

definition keeps :: "'a act \<Rightarrow> bool" where
  "keeps f \<longleftrightarrow> (\<forall>t. rel t (snd (f t)))"

lemma keepsD: "keeps f \<Longrightarrow> f t = (r, t') \<Longrightarrow> rel t t'"
  by (metis keeps_def snd_conv)

lemma keeps_ret: "keeps (ret x)"
  and keeps_raises: "keeps (raises e)"
  and keeps_attempt: "keeps (attempt r)"
  and keeps_asks: "keeps (asks g)"
  by (simp_all add: keeps_def act_defs rel_refl)

lemma keeps_abind: "keeps f \<Longrightarrow> (\<And>x. keeps (g x)) \<Longrightarrow> keeps (abind f g)"
  unfolding keeps_def abind_def
  by (metis (no_types, lifting) old.sum.exhaust rel_trans snd_conv sum.simps(5,6))

lemma keeps_if: "keeps f \<Longrightarrow> keeps g \<Longrightarrow> keeps (if b then f else g)"
  by simp

lemma keeps_when: "keeps f \<Longrightarrow> keeps (when_act b f)"
  by (simp add: when_act_def keeps_ret)

lemma keeps_rows: "(\<And>t. rel t (t\<lparr>tn_world := snd (f (tn_world t))\<rparr>)) \<Longrightarrow> keeps (on_rows f)"
  by (simp add: keeps_def on_rows_def)

lemma keeps_edit_rows: "(\<And>t. rel t (t\<lparr>tn_world := f (tn_world t)\<rparr>)) \<Longrightarrow> keeps (edit_rows f)"
  by (simp add: keeps_def edit_rows_def)

lemma keeps_try_rows:
  "(\<And>t x w. f (tn_world t) = Inr (x, w) \<Longrightarrow> rel t (t\<lparr>tn_world := w\<rparr>)) \<Longrightarrow> keeps (try_rows f)"
  by (auto simp: keeps_def try_rows_def rel_refl split: sum.split)

lemma keeps_rows_res:
  "(\<And>t w. f (tn_world t) = Inr w \<Longrightarrow> rel t (t\<lparr>tn_world := w\<rparr>)) \<Longrightarrow> keeps (rows_res f)"
  by (auto simp: keeps_def rows_res_def rel_refl split: sum.split)

lemma keeps_edit_token: "(\<And>t. rel t (t\<lparr>tn_token := f (tn_token t)\<rparr>)) \<Longrightarrow> keeps (edit_token f)"
  by (simp add: keeps_def edit_token_def)

lemma keeps_put_token: "(\<And>t. rel t (t\<lparr>tn_token := token\<rparr>)) \<Longrightarrow> keeps (put_token token)"
  by (simp add: keeps_def put_token_def)

lemmas keeps_intros =
  keeps_ret keeps_raises keeps_attempt keeps_asks keeps_abind keeps_if keeps_when

end

text \<open>The logs grow, in the open transaction and from one commit to the next.\<close>

definition turn_grows :: "turn \<Rightarrow> turn \<Rightarrow> bool" where
  "turn_grows s t \<longleftrightarrow> grows (tn_world s) (tn_world t)
     \<and> (grows (tn_saved s) (tn_world s) \<longrightarrow> grows (tn_saved s) (tn_saved t) \<and> grows (tn_saved t) (tn_world t))"

interpretation logs: kept_by_steps turn_grows
  by unfold_locales (auto simp: turn_grows_def intro: grows_trans)

lemma turn_grows_rows [simp]: "grows (tn_world t) w \<Longrightarrow> turn_grows t (t\<lparr>tn_world := w\<rparr>)"
  by (auto simp: turn_grows_def intro: grows_trans)

lemma turn_grows_token [simp]: "turn_grows t (t\<lparr>tn_token := token\<rparr>)"
  by (simp add: turn_grows_def)

lemma logs_token [simp]:
  "logs.keeps (edit_token f)" "logs.keeps (put_token token)"
  by (simp_all add: logs.keeps_edit_token logs.keeps_put_token)

section \<open>The writes of a turn\<close>

definition trace :: "env \<Rightarrow> string \<Rightarrow> string \<Rightarrow> dict \<Rightarrow> trace_row act" where
  "trace env phase event_type payload = on_rows (append_trace env phase event_type payload)"

definition snapshot :: "env \<Rightarrow> dict \<Rightarrow> json list \<Rightarrow> dict \<Rightarrow> unit act" where
  "snapshot env token enabled summary = edit_rows (append_snapshot env token enabled summary)"

definition output_request :: "string \<Rightarrow> json \<Rightarrow> dict \<Rightarrow> event_request" where
  "output_request mime payload source =
     \<lparr>er_direction = ''output'', er_kind = ''terminal.text.output.v1'', er_mime = mime,
      er_payload = payload, er_binding = [], er_artifact = None, er_parts = [],
      er_source = JObj source, er_external = None, er_trace = None, er_occurred = None\<rparr>"

definition emit :: "env \<Rightarrow> session_row \<Rightarrow> event_request \<Rightarrow> tevent act" where
  "emit env s q = try_rows (append_event env s q)"

lemma logs_writes [simp]:
  "logs.keeps (trace env phase event_type payload)"
  "logs.keeps (snapshot env token enabled summary)"
  "logs.keeps (emit env s q)"
  unfolding trace_def snapshot_def emit_def
  by (intro logs.keeps_rows logs.keeps_edit_rows logs.keeps_try_rows, simp add: grows_trace grows_snapshot grows_event)+

end
