(* ===== verification/Interaction.thy ===== *)
theory Interaction
  imports Turn
begin

text \<open>
  What a node does beyond its merge: evaluation decisions and the transitions they take, wait
  checkpoints, terminal output (\<^verbatim>\<open>_apply_node_interaction\<close>), and the snapshot and trace of the
  step (\<^verbatim>\<open>_append_runtime_step\<close>).
\<close>

section \<open>Transitions\<close>

definition interaction_of :: "dict \<Rightarrow> dict" where
  "interaction_of node = dict_or_empty (dget node ''interaction'')"

definition node_is_evaluation :: "dict \<Rightarrow> bool" where
  "node_is_evaluation node \<longleftrightarrow>
     truthy (dget (interaction_of node) ''evaluation'') \<or> starts_with ''evaluate_'' (str_field node ''id'')"

definition artifact_objs :: "dict \<Rightarrow> dict list" where
  "artifact_objs artifact = only_objs (list_or_empty (dget artifact ''nodes''))"

definition artifact_node_ids :: "dict \<Rightarrow> string list" where
  "artifact_node_ids artifact =
     filter (\<lambda>s. s \<noteq> []) (map (\<lambda>n. str_field n ''id'') (artifact_objs artifact))"

definition artifact_node_by_id :: "dict \<Rightarrow> string \<Rightarrow> dict option" where
  "artifact_node_by_id artifact node_id =
     find (\<lambda>n. str_field n ''id'' = node_id) (artifact_objs artifact)"

definition enters_terminal :: "dict \<Rightarrow> string \<Rightarrow> bool" where
  "enters_terminal artifact phase =
     (case artifact_node_by_id artifact phase of
        None \<Rightarrow> False
      | Some n \<Rightarrow> str_field n ''kind'' = ''terminal'')"

definition sets_aborted :: "json \<Rightarrow> bool" where
  "sets_aborted operation =
     if_obj operation
       (\<lambda>o1. dget o1 ''op'' = JStr ''set'' \<and> dget o1 ''path'' = JStr ''status''
          \<and> dget o1 ''value'' = JStr ''aborted'') False"

definition enters_aborted_terminal :: "dict \<Rightarrow> string \<Rightarrow> bool" where
  "enters_aborted_terminal artifact phase =
     (case artifact_node_by_id artifact phase of
        None \<Rightarrow> False
      | Some n \<Rightarrow> str_field n ''kind'' = ''terminal''
          \<and> (str_contains ''abort'' (lower (str_field n ''id''))
             \<or> list_ex sets_aborted (list_or_empty (dget n ''merge''))))"

text \<open>The first usable target of a transition object; a string is taken as it is.\<close>

definition target_field :: "dict \<Rightarrow> string option" where
  "target_field d =
     map_option (\<lambda>k. strip (str_or_empty (dget d k)))
       (find (\<lambda>k. strip (str_or_empty (dget d k)) \<noteq> []) [''phase'', ''next_phase'', ''to''])"

fun first_target :: "dict \<Rightarrow> string list \<Rightarrow> string" where
  "first_target transitions [] = []"
| "first_target transitions (k # ks) =
     (if is_str (dget transitions k) then strip (str_or_empty (dget transitions k))
      else if_obj (dget transitions k)
        (\<lambda>d. case target_field d of Some v \<Rightarrow> v | None \<Rightarrow> first_target transitions ks)
        (first_target transitions ks))"

definition interaction_transition :: "dict \<Rightarrow> string \<Rightarrow> string" where
  "interaction_transition node decision =
     if_obj (dget (interaction_of node) ''transitions'')
       (\<lambda>transitions. first_target transitions
          (decision # (if decision = ''proceed'' then [''continue''] else []))) []"

definition edge_targets :: "dict \<Rightarrow> string \<Rightarrow> string list" where
  "edge_targets artifact node_id =
     map (\<lambda>e. str_field e ''to'')
       (filter (\<lambda>e. str_field e ''from'' = node_id \<and> str_field e ''to'' \<in> set (artifact_node_ids artifact))
         (only_objs (list_or_empty (dget artifact ''dependency_graph_for_view''))))"

definition only_one :: "string list \<Rightarrow> string" where
  "only_one xs = (case xs of [x] \<Rightarrow> x | _ \<Rightarrow> [])"

definition graph_transition :: "dict \<Rightarrow> dict \<Rightarrow> string \<Rightarrow> string" where
  "graph_transition artifact node decision =
     (let targets = edge_targets artifact (str_field node ''id'');
          aborting = enters_aborted_terminal artifact in
      if targets = [] then []
      else if decision = ''abort'' then
        (if length (filter aborting targets) = 1 then hd (filter aborting targets)
         else if ''terminal'' \<in> set targets then ''terminal''
         else only_one targets)
      else if decision = ''complete'' then
        (if ''terminal'' \<in> set targets then ''terminal''
         else only_one (filter (\<lambda>t. \<not> aborting t) targets))
      else
        (let rest = filter (\<lambda>t. \<not> aborting t \<and> t \<noteq> ''terminal'') targets in
         if length rest = 1 then hd rest else only_one targets))"

definition evaluation_transition :: "dict \<Rightarrow> dict \<Rightarrow> string \<Rightarrow> string" where
  "evaluation_transition artifact node decision =
     (let t = interaction_transition node decision in
      if t \<noteq> [] then (if t \<in> set (artifact_node_ids artifact) then t else [])
      else graph_transition artifact node decision)"

section \<open>Windows\<close>

definition int_like :: "json \<Rightarrow> int list" where
  "int_like v = (case v of JInt i \<Rightarrow> [i] | JBool b \<Rightarrow> [if b then 1 else 0] | _ \<Rightarrow> [])"

definition latest_consumed_seq :: "dict \<Rightarrow> int" where
  "latest_consumed_seq token =
     max_int 0 (concat (map (\<lambda>d. int_like (dget d ''seq_no''))
       (only_objs (list_or_empty (dget (token_control token) ''terminal_consumption'')))))"

definition has_prior_checkpoint :: "dict \<Rightarrow> bool" where
  "has_prior_checkpoint token \<longleftrightarrow>
     is_obj (dget (token_control token) ''wait'')
     \<or> list_or_empty (dget (token_control token) ''wait_checkpoints'') \<noteq> []
     \<or> list_or_empty (dget (token_control token) ''terminal_consumption'') \<noteq> []"

definition latest_synced_seq :: "dict \<Rightarrow> int" where
  "latest_synced_seq token =
     max_int 0 (concat (map (\<lambda>v. case int_or0 v of Inr n \<Rightarrow> [n] | Inl _ \<Rightarrow> [])
       [get_path (JObj token) ''metadata.terminal_cursor'', get_path (JObj token) ''terminal.latest_seq'']))"

definition checkpoint_accept_after :: "int \<Rightarrow> dict \<Rightarrow> int" where
  "checkpoint_accept_after turn_after token =
     max (max turn_after (latest_consumed_seq token))
       (if has_prior_checkpoint token then latest_synced_seq token else turn_after)"

section \<open>Messages and summaries\<close>

definition terminal_message :: "dict \<Rightarrow> string" where
  "terminal_message obs =
     (let v = py_or (py_or (py_or (dget obs ''terminal_message'') (dget obs ''content''))
                (dget obs ''final_response'')) (dget obs ''summary'') in
      if v = JNull then [] else strip (py_str v))"

definition evaluation_summary :: "dict \<Rightarrow> dict \<Rightarrow> dict" where
  "evaluation_summary node obs =
     (let assessment = dict_or_empty (dget obs ''evidence_assessment'');
          refs = list_or_empty (dget assessment ''evaluated_event_refs'') in
      [(''node_id'', JStr (str_field node ''id'')), (''decision'', JStr (str_field obs ''decision'')),
       (''reason'', JStr (str_field obs ''reason'')), (''next_phase'', JStr (str_field obs ''next_phase'')),
       (''terminal_message'', JStr (str_field obs ''terminal_message'')),
       (''based_on_terminal_seq'', JInt (max_int 0 (ref_seqs (map str_or refs))))]
      @ (if is_obj (dget obs ''evidence_assessment'')
         then [(''evidence_assessment'', dget obs ''evidence_assessment'')] else [])
      @ (if truthy (dget obs ''final_response'')
         then [(''final_response'', JStr (str_field obs ''final_response''))] else []))"

definition suppress_output :: "dict \<Rightarrow> dict \<Rightarrow> string \<Rightarrow> string \<Rightarrow> bool" where
  "suppress_output artifact node decision next_phase \<longleftrightarrow>
     node_is_evaluation node \<and> decision \<in> {''complete'', ''abort''} \<and> next_phase \<noteq> []
     \<and> enters_terminal artifact next_phase"

section \<open>Entering a wait checkpoint\<close>

definition normalize_expected_input :: "json \<Rightarrow> json list" where
  "normalize_expected_input item =
     (if is_obj item then [item]
      else (let kind = strip (str_or item) in if kind = [] then [] else [JObj [(''kind'', JStr kind)]]))"

definition normalize_expected_inputs :: "json list \<Rightarrow> json list" where
  "normalize_expected_inputs items = concat (map normalize_expected_input items)"

definition wait_object :: "string \<Rightarrow> string \<Rightarrow> int \<Rightarrow> dict \<Rightarrow> dict \<Rightarrow> dict" where
  "wait_object now run_id accept_after_seq node obs =
     (let it = interaction_of node;
          observed = list_or_empty (dget obs ''expected_inputs'') in
      [(''status'', JStr ''waiting''),
       (''checkpoint_id'', JStr (str_or (py_or (dget it ''checkpoint_id'')
          (JStr (py_str (dget node ''id'') @ '':wait''))))),
       (''workflow_step_id'', JStr (str_or (py_or (dget it ''workflow_step_id'') (dget node ''id'')))),
       (''reason'', JStr (str_or (py_or (py_or (dget obs ''wait_reason'') (dget it ''wait_reason''))
          (JStr AWAIT_EVIDENCE_TEXT)))),
       (''expected_inputs'', JArr (if observed \<noteq> [] then normalize_expected_inputs observed
          else list_or_empty (dget it ''expected_inputs''))),
       (''resume_phase'', JStr (str_or (py_or (dget it ''resume_phase'')
          (JStr (''evaluate_'' @ py_str (dget node ''id'')))))),
       (''entered_by_node'', JStr (str_field node ''id'')), (''entered_at'', JStr now),
       (''run_id'', JStr run_id),
       (''input_window'', JObj [(''accept_after_seq'', JInt accept_after_seq),
          (''policy'', JStr ''checkpoint_scoped'')]),
       (''evidence'', JArr [])])"

definition checkpoint_entry :: "dict \<Rightarrow> dict" where
  "checkpoint_entry wait =
     [(''checkpoint_id'', dget wait ''checkpoint_id''), (''workflow_step_id'', dget wait ''workflow_step_id''),
      (''entered_by_node'', dget wait ''entered_by_node''), (''entered_at'', dget wait ''entered_at'')]"

definition control_act :: "(dict \<Rightarrow> dict) \<Rightarrow> unit act" where
  "control_act f =
     abind (edit_token (dsetdefault ''control'' (JObj []))) (\<lambda>_.
     abind (asks (\<lambda>t. dget (tn_token t) ''control'')) (\<lambda>control.
       if_obj control (\<lambda>c. edit_token (dset ''control'' (JObj (f c)))) (raises TypeErr)))"

definition append_checkpoint :: "dict \<Rightarrow> unit act" where
  "append_checkpoint wait =
     abind (asks (\<lambda>t. token_control (tn_token t))) (\<lambda>control.
     abind (attempt (append_to ''wait_checkpoints'' (JObj (checkpoint_entry wait)) control)) (\<lambda>c.
       edit_token (dset ''control'' (JObj c))))"

definition enter_wait_checkpoint :: "dict \<Rightarrow> dict \<Rightarrow> dict \<Rightarrow> int \<Rightarrow> unit act" where
  "enter_wait_checkpoint artifact node obs accept_after_seq =
     abind (asks (\<lambda>t. wait_object (w_iso (tn_world t)) (r_id (w_run (tn_world t))) accept_after_seq node obs)) (\<lambda>wait.
     abind (asks (\<lambda>t. build_evidence_progress (w_iso (tn_world t)) wait artifact (str_field node ''id''))) (\<lambda>progress.
     abind (control_act (\<lambda>c. dset ''evidence_progress'' (JObj progress) (dset ''wait'' (JObj wait) c))) (\<lambda>_.
     abind (append_checkpoint wait) (\<lambda>_.
       edit_token (\<lambda>token. dset ''phase'' (JStr ''waiting'') (dset ''status'' (JStr ''waiting'') token))))))"

section \<open>Applying an interaction\<close>

definition decision_of :: "dict \<Rightarrow> string" where
  "decision_of obs = norm_text (str_field obs ''decision'')"

text \<open>The decision of an evaluation node and the node id it resolves to; \<open>[]\<close> for none.\<close>

definition no_transition :: "dict \<Rightarrow> string \<Rightarrow> exc" where
  "no_transition node decision = RuntimeErr (''Evaluation node `'' @ py_str (dget node ''id'')
     @ ''` has no runtime transition for decision `'' @ decision @ ''`.'')"

definition decide :: "dict \<Rightarrow> dict \<Rightarrow> dict \<Rightarrow> (string \<times> string) act" where
  "decide artifact node obs =
     (if \<not> node_is_evaluation node then ret ([], [])
      else
        (let decision = decision_of obs;
             resolved = (if decision \<in> {''proceed'', ''complete'', ''abort''}
               then evaluation_transition artifact node decision else []) in
         if decision \<in> {''proceed'', ''complete'', ''abort''} \<and> resolved = []
         then raises (no_transition node decision)
         else abind (asks (\<lambda>t. merge_evidence (w_iso (tn_world t)) artifact node obs (tn_token t))) (\<lambda>r.
           abind (attempt r) (\<lambda>token. abind (put_token token) (\<lambda>_. ret (decision, resolved))))))"

definition consume_pending_act :: "bool act" where
  "consume_pending_act =
     abind (asks (\<lambda>t. consume_pending (w_iso (tn_world t)) (r_terminal_seq (w_run (tn_world t)))
         (w_events (tn_world t)) (tn_token t))) (\<lambda>r.
     abind (attempt r) (\<lambda>p. abind (put_token (fst p)) (\<lambda>_. ret (snd p))))"

text \<open>The wait part: whether the node entered a wait and whether an input was already there.\<close>

definition wait_after_output :: "env \<Rightarrow> dict \<Rightarrow> dict \<Rightarrow> dict \<Rightarrow> int \<Rightarrow> (bool \<times> bool) act" where
  "wait_after_output env artifact node obs turn_accept_after =
     (if \<not> truthy (dget (interaction_of node) ''wait_after_output'') then ret (False, False)
      else
        abind (asks (\<lambda>t. let after = checkpoint_accept_after turn_accept_after (tn_token t) in
            if has_prior_checkpoint (tn_token t) then max after (r_terminal_seq (w_run (tn_world t))) else after)) (\<lambda>after.
        abind (enter_wait_checkpoint artifact node obs after) (\<lambda>_.
        abind consume_pending_act (\<lambda>resumed.
        abind (asks (\<lambda>t. dget_or (token_control (tn_token t)) ''wait'' (JObj []))) (\<lambda>wait.
        abind (trace env (py_str (dget node ''id'')) ''runtime.wait_checkpoint.entered''
            [(''wait'', wait), (''resumed_from_existing_input'', JBool resumed)]) (\<lambda>_.
          ret (\<not> resumed, resumed)))))))"

definition interaction_output :: "env \<Rightarrow> dict \<Rightarrow> dict \<Rightarrow> dict \<Rightarrow> string \<Rightarrow> string \<Rightarrow> bool \<Rightarrow> unit act" where
  "interaction_output env artifact node obs decision resolved resumed =
     (let message = terminal_message obs; it = interaction_of node;
          suppress = (resumed \<or> suppress_output artifact node decision resolved);
          wanted = (truthy (dget it ''output_to_terminal'') \<or> node_is_evaluation node \<and> message \<noteq> []) in
      abind (asks (\<lambda>t. w_session (tn_world t))) (\<lambda>session.
        case session of
          None \<Rightarrow> ret ()
        | Some s \<Rightarrow>
            if wanted \<and> \<not> suppress \<and> message \<noteq> [] \<and> ts_status s = ''open'' then
              abind (emit env s (output_request (str_or (py_or (dget it ''output_mime_type'') (JStr ''text/markdown'')))
                  (JStr message) [(''kind'', JStr ''runtime''), (''node_id'', JStr (py_str (dget node ''id''))),
                    (''agent_key'', JStr ''psop.runner'')])) (\<lambda>_. ret ())
            else ret ()))"

definition retry_wait :: "dict \<Rightarrow> bool act" where
  "retry_wait obs =
     abind (asks (\<lambda>t. dget (token_control (tn_token t)) ''wait'')) (\<lambda>wait.
       if_obj wait
         (\<lambda>w. let w' = dset ''reason'' (JStr (str_or (py_or (py_or (dget obs ''reason'') (dget w ''reason''))
                   (JStr MORE_EVIDENCE_TEXT)))) (dset ''status'' (JStr ''waiting'') w) in
            abind (control_act (dset ''wait'' (JObj w'))) (\<lambda>_.
            abind (edit_token (\<lambda>token. dset ''phase'' (JStr ''waiting'') (dset ''status'' (JStr ''waiting'') token))) (\<lambda>_.
              ret True)))
         (ret False))"

definition put_output :: "string \<Rightarrow> unit act" where
  "put_output message =
     abind (edit_token (dsetdefault ''outputs'' (JObj []))) (\<lambda>_.
     abind (asks (\<lambda>t. dget (tn_token t) ''outputs'')) (\<lambda>outputs.
       if_obj outputs
         (\<lambda>o1. edit_token (dset ''outputs'' (JObj (dset ''final_response'' (JStr message) o1))))
         (raises TypeErr)))"

definition apply_abort :: "dict \<Rightarrow> dict \<Rightarrow> dict \<Rightarrow> string \<Rightarrow> unit act" where
  "apply_abort artifact node obs resolved =
     (let message = (if terminal_message obs \<noteq> [] then terminal_message obs
            else str_or (py_or (dget obs ''reason'') (JStr TERMINATED_TEXT))) in
      abind (put_output message) (\<lambda>_.
      abind (asks (\<lambda>t. w_iso (tn_world t))) (\<lambda>now.
      abind (control_act (dset ''abort'' (JObj
         [(''requested_by_node'', JStr (str_field node ''id'')), (''reason'', JStr (str_field obs ''reason'')),
          (''next_phase'', JStr (strip (str_field obs ''next_phase''))),
          (''resolved_next_phase'', JStr resolved), (''occurred_at'', JStr now)]))) (\<lambda>_.
        if enters_aborted_terminal artifact resolved then edit_token (dset ''phase'' (JStr resolved))
        else edit_token (\<lambda>token. dset ''phase'' (JStr ''aborted'') (dset ''status'' (JStr ''aborted'') token))))))"

text \<open>What the decision does to the token; the result is whether the token waits again.\<close>

definition apply_decision :: "dict \<Rightarrow> dict \<Rightarrow> dict \<Rightarrow> string \<Rightarrow> bool act" where
  "apply_decision artifact node obs resolved =
     (let decision = decision_of obs;
          summary = (if resolved = [] then evaluation_summary node obs
            else dset ''resolved_next_phase'' (JStr resolved) (evaluation_summary node obs)) in
      abind (control_act (dset ''latest_evaluation'' (JObj summary))) (\<lambda>_.
        if decision \<in> {''retry'', ''need_more_evidence''} then retry_wait obs
        else if decision = ''abort'' then abind (apply_abort artifact node obs resolved) (\<lambda>_. ret False)
        else if decision \<in> {''proceed'', ''complete''}
          then abind (edit_token (dset ''phase'' (JStr resolved))) (\<lambda>_. ret False)
        else ret False))"

definition apply_node_interaction :: "env \<Rightarrow> dict \<Rightarrow> int \<Rightarrow> dict \<Rightarrow> dict \<Rightarrow> bool act" where
  "apply_node_interaction env artifact turn_accept_after node obs =
     abind (decide artifact node obs) (\<lambda>dr.
     abind (wait_after_output env artifact node obs turn_accept_after) (\<lambda>er.
     abind (interaction_output env artifact node obs (fst dr) (snd dr) (snd er)) (\<lambda>_.
       if node_is_evaluation node
       then abind (apply_decision artifact node obs (snd dr)) (\<lambda>again. ret (fst er \<or> again))
       else ret (fst er))))"

section \<open>Recording the step\<close>

definition event_type_for_node :: "dict \<Rightarrow> string" where
  "event_type_for_node node =
     (let kind = py_str (dget node ''kind'') in
      if kind = ''terminal'' \<and> str_contains ''abort'' (str_field node ''id'') then ''runtime.aborted''
      else if kind = ''start'' then ''runtime.start.completed''
      else if kind = ''input'' then ''runtime.input.accepted''
      else if kind = ''llm'' then ''gateway.inference.completed''
      else if kind = ''tool'' then ''gateway.tool.completed''
      else if kind = ''terminal'' then ''runtime.final.completed''
      else ''runtime.node.'' @ py_str (dget node ''id'') @ ''.completed'')"

definition step_trace_type :: "dict \<Rightarrow> dict \<Rightarrow> string" where
  "step_trace_type node trace_obs =
     (if get_path (JObj trace_obs) ''runner.agent_key'' = JStr ''psop.runner'' then ''runtime.agent.completed''
      else event_type_for_node node)"

definition step_trace_payload :: "dict \<Rightarrow> dict \<Rightarrow> dict" where
  "step_trace_payload node obs =
     [(''node_id'', dget node ''id''), (''node_kind'', dget node ''kind''),
      (''observation'', JObj (observation_for_trace obs)),
      (''summary'', py_or (py_or (py_or (dget obs ''summary'') (dget obs ''content''))
         (dget obs ''final_response'')) (JStr []))]"

text \<open>
  \<^verbatim>\<open>node["id"]\<close> raises where \<^verbatim>\<open>node.get("id")\<close> does not. The source has already advanced the
  snapshot counter when it raises; here a node without an id is refused before any write. A
  validated artifact has no such node.
\<close>

definition node_id_item :: "dict \<Rightarrow> json res" where
  "node_id_item node = (if dhas node ''id'' then Inr (dget node ''id'') else Inl KeyErr)"

definition append_runtime_step :: "env \<Rightarrow> dict \<Rightarrow> dict \<Rightarrow> json list \<Rightarrow> unit act" where
  "append_runtime_step env node obs enabled =
     abind (asks tn_token) (\<lambda>token.
     abind (if truthy (dget token ''phase'') then ret (dget token ''phase'') else attempt (node_id_item node)) (\<lambda>phase.
     abind (edit_rows (on_run (\<lambda>r. r\<lparr>r_phase := py_str phase\<rparr>))) (\<lambda>_.
     abind (attempt (node_id_item node)) (\<lambda>selected.
     abind (snapshot env token enabled [(''selected'', selected), (''kind'', dget node ''kind''),
         (''next_enabled'', JArr enabled)]) (\<lambda>_.
     abind (trace env (py_str (dget node ''id'')) (step_trace_type node (observation_for_trace obs))
         (step_trace_payload node obs)) (\<lambda>_.
     abind (asks (\<lambda>t. w_session (tn_world t))) (\<lambda>session.
       case session of
         None \<Rightarrow> ret ()
       | Some s \<Rightarrow>
           if dget node ''kind'' = JStr ''terminal'' \<and> truthy (dget obs ''final_response'') then
             abind (emit env s (output_request ''text/plain'' (JStr (py_str (dget obs ''final_response'')))
               [(''kind'', JStr ''runtime''), (''node_id'', JStr (py_str (dget node ''id'')))])) (\<lambda>_. ret ())
           else ret ())))))))"


section \<open>The logs of a step\<close>

lemma logs_edit_run [simp]:
  "(\<And>r. r_id (f r) = r_id r \<and> r_snapshot_seq (f r) = r_snapshot_seq r
      \<and> r_trace_seq (f r) = r_trace_seq r \<and> r_terminal_seq (f r) = r_terminal_seq r) \<Longrightarrow>
   logs.keeps (edit_rows (on_run f))"
  by (intro logs.keeps_edit_rows turn_grows_rows grows_other) (simp_all add: on_run_def)

lemma keeps_if_obj: "(\<And>d. logs.keeps (f d)) \<Longrightarrow> logs.keeps g \<Longrightarrow> logs.keeps (if_obj j f g)"
  by (cases j) simp_all

lemma keeps_option: "logs.keeps f \<Longrightarrow> (\<And>x. logs.keeps (g x)) \<Longrightarrow> logs.keeps (case x of None \<Rightarrow> f | Some y \<Rightarrow> g y)"
  by (cases x) simp_all

lemma logs_control_act [simp]: "logs.keeps (control_act f)"
  unfolding control_act_def by (intro logs.keeps_intros keeps_if_obj logs_token)

lemma logs_enter_wait [simp]: "logs.keeps (enter_wait_checkpoint artifact node obs n)"
  unfolding enter_wait_checkpoint_def append_checkpoint_def
  by (intro logs.keeps_intros logs_token logs_control_act)

lemma logs_wait_after_output [simp]: "logs.keeps (wait_after_output env artifact node obs n)"
  unfolding wait_after_output_def consume_pending_act_def
  by (intro logs.keeps_intros logs_token logs_enter_wait logs_writes)

lemma logs_decide [simp]: "logs.keeps (decide artifact node obs)"
  unfolding decide_def Let_def by (intro logs.keeps_intros logs_token)

lemma logs_interaction_output [simp]:
  "logs.keeps (interaction_output env artifact node obs decision resolved resumed)"
  unfolding interaction_output_def Let_def
  by (intro logs.keeps_intros keeps_option logs_writes)

lemma logs_apply_decision [simp]: "logs.keeps (apply_decision artifact node obs resolved)"
  unfolding apply_decision_def retry_wait_def apply_abort_def put_output_def Let_def
  by (intro logs.keeps_intros keeps_if_obj logs_token logs_control_act)

lemma logs_apply_node_interaction [simp]:
  "logs.keeps (apply_node_interaction env artifact n node obs)"
  unfolding apply_node_interaction_def
  by (intro logs.keeps_intros logs_decide logs_wait_after_output logs_interaction_output logs_apply_decision)

lemma logs_append_runtime_step [simp]: "logs.keeps (append_runtime_step env node obs enabled)"
  unfolding append_runtime_step_def
  by (intro logs.keeps_intros keeps_option logs_writes logs_edit_run) simp_all

section \<open>Transitions stay inside the artifact\<close>

lemma edge_targets_nodes: "t \<in> set (edge_targets artifact node_id) \<Longrightarrow> t \<in> set (artifact_node_ids artifact)"
  by (auto simp: edge_targets_def)

lemma only_one_in: "only_one xs \<noteq> [] \<Longrightarrow> only_one xs \<in> set xs"
  by (auto simp: only_one_def split: list.splits)

lemma hd_filter_in: "length (filter P xs) = 1 \<Longrightarrow> hd (filter P xs) \<in> set xs"
  by (cases "filter P xs") (auto dest!: arg_cong [of _ _ set])

lemma graph_transition_target:
  "graph_transition artifact node decision \<noteq> [] \<Longrightarrow>
   graph_transition artifact node decision \<in> set (edge_targets artifact (str_field node ''id''))"
  unfolding graph_transition_def Let_def
  using only_one_in hd_filter_in
  by (auto split: if_splits dest!: only_one_in)

lemma evaluation_transition_node:
  "evaluation_transition artifact node decision \<noteq> [] \<Longrightarrow>
   evaluation_transition artifact node decision \<in> set (artifact_node_ids artifact)"
  using graph_transition_target [of artifact node decision] edge_targets_nodes
  unfolding evaluation_transition_def Let_def by (auto split: if_splits)

section \<open>The window of a new checkpoint\<close>

lemma foldl_max_le: "(a :: int) \<le> foldl max a ys \<and> (\<forall>y \<in> set ys. y \<le> foldl max a ys)"
proof (induction ys arbitrary: a)
  case Nil
  then show ?case by simp
next
  case (Cons y ys)
  have "max a y \<le> foldl max (max a y) ys" "\<forall>z \<in> set ys. z \<le> foldl max (max a y) ys"
    using Cons [of "max a y"] by auto
  then show ?case by auto
qed

lemma max_int_le: "x \<in> set xs \<Longrightarrow> x \<le> max_int d xs"
  using foldl_max_le by (cases xs) (auto simp: max_int_def)

lemma token_control_dset:
  "token_control (dset ''control'' (JObj c) token) = c"
  "k \<noteq> ''control'' \<Longrightarrow> token_control (dset k v token) = token_control token"
  by (simp_all add: token_control_def)

lemma control_act_Inr:
  assumes "control_act f t = (Inr u, t')"
  shows "\<exists>token. t' = t\<lparr>tn_token := token\<rparr> \<and> token_control token = f (token_control (tn_token t))
    \<and> dget token ''control'' = JObj (f (token_control (tn_token t)))
    \<and> (\<forall>k. k \<noteq> ''control'' \<longrightarrow> dget token k = dget (tn_token t) k)"
proof -
  let ?d = "dsetdefault ''control'' (JObj []) (tn_token t)"
  obtain c where c: "dget ?d ''control'' = JObj c"
    and t': "t' = t\<lparr>tn_token := dset ''control'' (JObj (f c)) ?d\<rparr>"
    using assms by (cases "dget ?d ''control''") (auto simp: control_act_def act_defs)
  have "c = token_control (tn_token t)"
    using c by (cases "dhas (tn_token t) ''control''")
      (auto simp: token_control_def dsetdefault_def, auto simp: dget_def dget_or_def dhas_def)
  then show ?thesis
    using t' by (intro exI [of _ "dset ''control'' (JObj (f c)) ?d"]) (auto simp: token_control_dset)
qed

lemma append_to_Inr: "append_to k item d = Inr d' \<Longrightarrow> (\<exists>v. d' = dset k v d)"
  by (cases "dget_or d k (JArr [])") (auto simp: append_to_def)

lemma enter_wait_Inr:
  assumes "enter_wait_checkpoint artifact node obs n t = (Inr u, t')"
  shows "tn_world t' = tn_world t \<and> dget (tn_token t') ''status'' = JStr ''waiting''
    \<and> dget (tn_token t') ''phase'' = JStr ''waiting''
    \<and> token_wait (tn_token t') = wait_object (w_iso (tn_world t)) (r_id (w_run (tn_world t))) n node obs
    \<and> waiting_for_input (tn_token t')"
proof -
  let ?wait = "wait_object (w_iso (tn_world t)) (r_id (w_run (tn_world t))) n node obs"
  let ?progress = "build_evidence_progress (w_iso (tn_world t)) ?wait artifact (str_field node ''id'')"
  obtain u1 t1 c where t1: "control_act (\<lambda>c. dset ''evidence_progress'' (JObj ?progress) (dset ''wait'' (JObj ?wait) c)) t
      = (Inr u1, t1)"
    and c: "append_to ''wait_checkpoints'' (JObj (checkpoint_entry ?wait)) (token_control (tn_token t1)) = Inr c"
    and t': "t' = t1\<lparr>tn_token := dset ''phase'' (JStr ''waiting'') (dset ''status'' (JStr ''waiting'')
        (dset ''control'' (JObj c) (tn_token t1)))\<rparr>"
    using assms unfolding enter_wait_checkpoint_def append_checkpoint_def
    by (auto simp: act_Inr)
  obtain v where v: "c = dset ''wait_checkpoints'' v (token_control (tn_token t1))"
    using append_to_Inr [OF c] by blast
  have "token_control (tn_token t1) = dset ''evidence_progress'' (JObj ?progress)
      (dset ''wait'' (JObj ?wait) (token_control (tn_token t)))" "tn_world t1 = tn_world t"
    using control_act_Inr [OF t1] by auto
  then show ?thesis
    unfolding t' v by (simp add: token_wait_def token_control_def waiting_for_input_def)
qed

lemma wait_object_window: "accept_after (wait_object now run_id n node obs) = n"
  by (simp add: wait_object_def accept_after_def Let_def)

lemma wait_after_output_prior:
  assumes run: "wait_after_output env artifact node obs turn_after t = (Inr (entered, resumed), t')"
    and waits: "truthy (dget (interaction_of node) ''wait_after_output'')"
    and prior: "has_prior_checkpoint (tn_token t)"
  shows "entered \<and> \<not> resumed \<and> dget (tn_token t') ''status'' = JStr ''waiting''
    \<and> r_terminal_seq (w_run (tn_world t)) \<le> accept_after (token_wait (tn_token t'))
    \<and> w_events (tn_world t') = w_events (tn_world t)"
proof -
  let ?after = "max (checkpoint_accept_after turn_after (tn_token t)) (r_terminal_seq (w_run (tn_world t)))"
  obtain u t1 t2 where t1: "enter_wait_checkpoint artifact node obs ?after t = (Inr u, t1)"
    and t2: "consume_pending_act t1 = (Inr resumed, t2)"
    and t': "tn_token t' = tn_token t2" "w_events (tn_world t') = w_events (tn_world t2)" "entered = (\<not> resumed)"
    using run waits prior unfolding wait_after_output_def
    by (fastforce simp: act_Inr Let_def trace_def append_trace_def on_run_def)
  note e = enter_wait_Inr [OF t1]
  have after: "accept_after (token_wait (tn_token t1)) = ?after"
    using e wait_object_window by simp
  have "consume_pending (w_iso (tn_world t1)) (r_terminal_seq (w_run (tn_world t1))) (w_events (tn_world t1))
      (tn_token t1) = Inr (tn_token t1, False)"
    using e after by (simp add: consume_pending_def token_wait_def token_control_def)
  then have "resumed = False \<and> t2 = t1"
    using t2 by (auto simp: consume_pending_act_def act_Inr)
  with e after t' show ?thesis by simp
qed

section \<open>What a decision does\<close>

lemma apply_decision_moves:
  assumes "apply_decision artifact node obs resolved t = (Inr again, t')"
    and "decision_of obs \<in> {''proceed'', ''complete''}"
  shows "\<not> again \<and> dget (tn_token t') ''phase'' = JStr resolved
    \<and> dget (tn_token t') ''status'' = dget (tn_token t) ''status'' \<and> tn_world t' = tn_world t"
proof -
  obtain f u t1 where t1: "control_act f t = (Inr u, t1)"
    and t': "t' = t1\<lparr>tn_token := dset ''phase'' (JStr resolved) (tn_token t1)\<rparr>" "\<not> again"
    using assms unfolding apply_decision_def Let_def by (auto simp: act_Inr)
  from control_act_Inr [OF t1] t' show ?thesis by auto
qed

lemma apply_decision_aborts:
  assumes "apply_decision artifact node obs resolved t = (Inr again, t')"
    and "decision_of obs = ''abort''"
  shows "\<not> again \<and> tn_world t' = tn_world t
    \<and> (if enters_aborted_terminal artifact resolved then dget (tn_token t') ''phase'' = JStr resolved
       else dget (tn_token t') ''status'' = JStr ''aborted'' \<and> dget (tn_token t') ''phase'' = JStr ''aborted'')"
proof -
  obtain f u t1 t2 t3 t4 g message where t1: "control_act f t = (Inr u, t1)"
    and t2: "put_output message t1 = (Inr (), t2)"
    and t3: "control_act g t2 = (Inr (), t3)"
    and t4: "(if enters_aborted_terminal artifact resolved then edit_token (dset ''phase'' (JStr resolved))
        else edit_token (\<lambda>token. dset ''phase'' (JStr ''aborted'') (dset ''status'' (JStr ''aborted'') token))) t3
        = (Inr (), t4)" and t': "t' = t4" "\<not> again"
    using assms unfolding apply_decision_def apply_abort_def Let_def by (auto simp: act_Inr)
  have "tn_world t2 = tn_world t1"
    using t2 by (cases "dget (dsetdefault ''outputs'' (JObj []) (tn_token t1)) ''outputs''")
      (auto simp: put_output_def act_defs)
  moreover have "tn_world t3 = tn_world t2" "tn_world t1 = tn_world t"
    using control_act_Inr [OF t1] control_act_Inr [OF t3] by auto
  ultimately show ?thesis using t4 t' by (auto simp: act_Inr split: if_splits)
qed

lemma retry_waits:
  assumes "apply_decision artifact node obs resolved t = (Inr again, t')"
    and "decision_of obs \<in> {''retry'', ''need_more_evidence''}"
    and "is_obj (dget (token_control (tn_token t)) ''wait'')"
  shows "again \<and> waiting_for_input (tn_token t') \<and> tn_world t' = tn_world t
    \<and> dget (token_wait (tn_token t')) ''input_window'' = dget (token_wait (tn_token t)) ''input_window''
    \<and> dget (token_control (tn_token t')) ''terminal_consumption''
        = dget (token_control (tn_token t)) ''terminal_consumption''"
proof -
  obtain w where w: "dget (token_control (tn_token t)) ''wait'' = JObj w"
    using assms(3) by (auto simp: is_obj_iff)
  obtain v u t1 where t1: "control_act (dset ''latest_evaluation'' v) t = (Inr u, t1)"
    and t2: "retry_wait obs t1 = (Inr again, t')"
    using assms(1,2) unfolding apply_decision_def Let_def by (auto simp: act_Inr)
  have c1: "token_control (tn_token t1) = dset ''latest_evaluation'' v (token_control (tn_token t))"
    "tn_world t1 = tn_world t" using control_act_Inr [OF t1] by auto
  then obtain r t3 where t3: "control_act (dset ''wait'' (JObj (dset ''reason'' r
        (dset ''status'' (JStr ''waiting'') w)))) t1 = (Inr (), t3)"
    and t': "again" "t' = t3\<lparr>tn_token := dset ''phase'' (JStr ''waiting'') (dset ''status'' (JStr ''waiting'') (tn_token t3))\<rparr>"
    using t2 w by (auto simp: retry_wait_def act_Inr Let_def)
  from control_act_Inr [OF t3] t' c1 w show ?thesis
    by (auto simp: token_wait_def token_control_def waiting_for_input_def)
qed

end
