(* ===== verification/Failure.thy ===== *)
theory Failure
  imports RunState
begin

text \<open>
  What a failed turn writes: the trace payload of the exception with its details redacted and
  cut, the recovered token, the sentences of the terminal, and the compaction of old prompts.
\<close>

section \<open>Reasons and phases\<close>

definition truncate_exit_reason :: "string \<Rightarrow> string" where
  "truncate_exit_reason v = (if py_len v \<le> 255 then v else py_take 252 v @ ''...'')"

definition runtime_phase_from_token :: "dict \<Rightarrow> string" where
  "runtime_phase_from_token token =
     (if is_obj (dget (token_control token) ''wait'') \<and> dget token ''status'' = JStr ''waiting''
      then py_str (py_or (py_or (dget (token_wait token) ''checkpoint_id'')
             (dget (token_wait token) ''workflow_step_id'')) (JStr ''waiting''))
      else str_field token ''phase'')"

definition recoverable_turn :: "dict \<Rightarrow> bool res" where
  "recoverable_turn token =
     (let c = token_control token; evidence = dget c ''latest_evidence'' in
      if is_obj (dget c ''wait'') \<and> is_obj evidence
         \<and> dget (dict_or_empty evidence) ''direction'' = JStr ''input''
      then in_str_set (dget (token_wait token) ''status'') [''received'', ''processing'']
      else Inr False)"

section \<open>Trace payloads of exceptions\<close>

fun exc_class :: "exc \<Rightarrow> string" where
  "exc_class TypeErr = ''TypeError''"
| "exc_class AttrErr = ''AttributeError''"
| "exc_class KeyErr = ''KeyError''"
| "exc_class ValueErr = ''ValueError''"
| "exc_class IndexErr = ''IndexError''"
| "exc_class (RuntimeErr s) = ''RuntimeError''"
| "exc_class (StepTimeout s) = ''RuntimeStepTimeoutError''"
| "exc_class LeaseLost = ''RuntimeLeaseLostError''"
| "exc_class NotFound = ''SkillNotFoundError''"
| "exc_class (Invalid s) = ''SkillValidationError''"
| "exc_class (Gateway s) = ''SkillsGatewayError''"
| "exc_class (GatewayTimeout s) = ''SkillsGatewayTimeoutError''"
| "exc_class DbErr = ''IntegrityError''"
| "exc_class (Conflict s) = (if s = ''name'' then ''SkillConflictError'' else ''SkillSourceConflictError'')"

text \<open>The \<^verbatim>\<open>error_code\<close> and \<^verbatim>\<open>status_code\<close> of a \<^verbatim>\<open>SkillsError\<close>.\<close>

fun exc_codes :: "exc \<Rightarrow> (string \<times> int) option" where
  "exc_codes NotFound = Some (''skill_not_found'', 404)"
| "exc_codes (Invalid s) = Some (''skill_validation_error'', 422)"
| "exc_codes (Gateway s) = Some (''skills_gateway_error'', 502)"
| "exc_codes (GatewayTimeout s) = Some (''skills_gateway_timeout'', 504)"
| "exc_codes _ = None"

fun exc_text :: "env \<Rightarrow> exc \<Rightarrow> string" where
  "exc_text env (RuntimeErr s) = s"
| "exc_text env (StepTimeout s) = s"
| "exc_text env (Gateway s) = s"
| "exc_text env (GatewayTimeout s) = s"
| "exc_text env e = en_text env e"

definition SENSITIVE_PARTS :: "string list" where
  "SENSITIVE_PARTS = [''api_key'', ''apikey'', ''authorization'', ''password'', ''secret'', ''token'']"

definition is_sensitive_key :: "string \<Rightarrow> bool" where
  "is_sensitive_key key = list_ex (\<lambda>p. str_contains p (lower key)) SENSITIVE_PARTS"

definition truncate_trace_string :: "string \<Rightarrow> string" where
  "truncate_trace_string v =
     (if py_len v \<le> 8000 then v
      else py_take 8000 v @ ''...[truncated '' @ nat_str (py_len v - 8000) @ '' chars]'')"

lemma size_in_take [termination_simp]:
  "(k, v) \<in> set (take n d) \<Longrightarrow> size v < Suc (size_list (\<lambda>p. Suc (size (snd p))) d)"
  by (drule in_set_takeD) (induction d, auto simp: less_Suc_eq_le)

lemma size_in_take_list [termination_simp]: "x \<in> set (take n xs) \<Longrightarrow> size x < Suc (size_list size xs)"
  by (drule in_set_takeD) (induction xs, auto simp: less_Suc_eq_le)

fun sanitize :: "nat \<Rightarrow> json \<Rightarrow> json" where
  "sanitize depth (JStr s) = JStr (truncate_trace_string s)"
| "sanitize depth (JObj d) =
     (if 8 < depth then JStr (truncate_trace_string (py_repr (JObj d)))
      else JObj (map (\<lambda>p. (fst p, if is_sensitive_key (fst p) then JStr ''[redacted]''
                                 else sanitize (Suc depth) (snd p))) (take 100 d)))"
| "sanitize depth (JArr xs) =
     (if 8 < depth then JStr (truncate_trace_string (py_repr (JArr xs)))
      else JArr (map (sanitize (Suc depth)) (take 100 xs)))"
| "sanitize depth j = (if 8 < depth then JStr (truncate_trace_string (py_str j)) else j)"

definition parse_error_body :: "env \<Rightarrow> json \<Rightarrow> json" where
  "parse_error_body env body =
     (if strip (str_or_empty body) = [] then JNull
      else (case en_loads env (str_or_empty body) of None \<Rightarrow> JNull | Some j \<Rightarrow> j))"

definition copy_key :: "dict \<Rightarrow> string \<Rightarrow> dict \<Rightarrow> dict" where
  "copy_key body k target =
     (if dhas body k \<and> \<not> dhas target k then dset k (sanitize 0 (dget body k)) target else target)"

definition copy_error_key :: "dict \<Rightarrow> string \<Rightarrow> dict \<Rightarrow> dict" where
  "copy_error_key err k target =
     (if dhas err k then dset (''provider_error_'' @ k) (sanitize 0 (dget err k)) target else target)"

definition copy_provider_summary :: "json \<Rightarrow> dict \<Rightarrow> dict" where
  "copy_provider_summary parsed target =
     if_obj parsed
       (\<lambda>body. fold (copy_error_key (dict_or_empty (dget body ''error''))) [''code'', ''type'', ''message'']
          (fold (copy_key body) [''request_id'', ''id''] target))
       target"

definition normalize_error_details :: "env \<Rightarrow> dict \<Rightarrow> dict" where
  "normalize_error_details env details =
     (let normalized = dict_or_empty (sanitize 0 (JObj details));
          parsed = parse_error_body env (dget details ''body'') in
      if parsed \<noteq> JNull \<and> \<not> dhas normalized ''body_json''
      then copy_provider_summary parsed (dset ''body_json'' (sanitize 0 parsed) normalized)
      else normalized)"

text \<open>\<^verbatim>\<open>_runtime_exception_trace_payload\<close> with \<^verbatim>\<open>recoverable\<close> given, as every caller gives it.\<close>

definition exception_payload :: "env \<Rightarrow> exc \<Rightarrow> bool \<Rightarrow> json \<Rightarrow> dict" where
  "exception_payload env e recoverable seq =
     [(''error'', JStr (exc_text env e)), (''error_type'', JStr (exc_class e)),
      (''recoverable'', JBool recoverable)]
     @ (if seq = JNull then [] else [(''latest_input_event_seq'', seq)])
     @ (case exc_codes e of None \<Rightarrow> []
        | Some c \<Rightarrow> [(''error_code'', JStr (fst c)), (''status_code'', JInt (snd c))])
     @ (if en_details env e = [] then []
        else [(''error_details'', JObj (normalize_error_details env (en_details env e)))])"

section \<open>Compaction\<close>

definition llm_prompt_summary :: "env \<Rightarrow> string \<Rightarrow> string \<Rightarrow> string \<Rightarrow> dict \<Rightarrow> dict" where
  "llm_prompt_summary env system user route prompt =
     [(''prompt_hash'', JStr (en_sha env (system @ char_of (0 :: nat) # user))),
      (''system_prompt_hash'', JStr (en_sha env system)), (''user_prompt_hash'', JStr (en_sha env user)),
      (''system_chars'', JInt (int (py_len system))), (''user_chars'', JInt (int (py_len user))),
      (''total_chars'', JInt (int (py_len system + py_len user)))]
     @ (if route = [] then [] else [(''route_key'', JStr route)])
     @ (if prompt = [] then [] else [(''agent_prompt'', JObj prompt)])"

definition compact_observation :: "env \<Rightarrow> json \<Rightarrow> json" where
  "compact_observation env obs =
     if_obj obs
       (\<lambda>o1. if_obj (dget o1 ''input'')
          (\<lambda>input. if \<not> dhas input ''system_prompt'' \<and> \<not> dhas input ''user_prompt'' then obs
             else (let summary = llm_prompt_summary env (str_field input ''system_prompt'')
                     (str_field input ''user_prompt'') (str_or_empty (dget input ''route_key'')) [] in
               JObj (dset ''input_summary''
                 (JObj (fold (\<lambda>p. dset (fst p) (snd p)) (dict_or_empty (dget o1 ''input_summary'')) summary))
                 (dpop ''input'' o1))))
          obs)
       obs"

definition compact_runtime_token :: "env \<Rightarrow> dict \<Rightarrow> dict" where
  "compact_runtime_token env token =
     if_obj (dget token ''observations'')
       (\<lambda>os. dset ''observations'' (JObj (map (\<lambda>p. (fst p, compact_observation env (snd p))) os)) token)
       token"

section \<open>The recovered token\<close>

definition error_entry :: "trace_row \<Rightarrow> string \<Rightarrow> string \<Rightarrow> dict" where
  "error_entry tr message now =
     [(''trace_event_id'', JStr (tr_id tr)), (''trace_seq_no'', JInt (tr_seq tr)),
      (''error'', JStr message), (''occurred_at'', JStr now)]"

definition reopen_wait :: "trace_row \<Rightarrow> string \<Rightarrow> string \<Rightarrow> dict \<Rightarrow> dict res" where
  "reopen_wait tr message now control =
     if_obj (dget control ''wait'')
       (\<lambda>w. rbind (append_to ''recoverable_errors'' (JObj (error_entry tr message now))
              (dset ''status'' (JStr ''waiting'') w))
          (\<lambda>w'. Inr (dset ''wait'' (JObj w') control)))
       (Inr control)"

text \<open>The runtime's own output joins the token only when no other event comes before it.\<close>

definition put_output_event :: "tevent \<Rightarrow> dict \<Rightarrow> dict res" where
  "put_output_event ev token =
     if_obj (dget_or token ''terminal'' (JObj []))
       (\<lambda>t. rbind (append_to ''events'' (JObj (event_payload ev)) t) (\<lambda>t'.
          rbind (put_item ''terminal_cursor'' (JInt (te_seq ev)) (dget_or token ''metadata'' (JObj []))) (\<lambda>m.
            Inr (dset ''metadata'' m
              (dset ''terminal'' (JObj (dset ''latest_seq'' (JInt (te_seq ev)) t')) token)))))
       (Inl AttrErr)"

definition recover_token :: "string \<Rightarrow> dict \<Rightarrow> string \<Rightarrow> trace_row \<Rightarrow> tevent option \<Rightarrow> dict res" where
  "recover_token now token message tr event =
     if_obj (dget_or token ''control'' (JObj []))
       (\<lambda>control. rbind (reopen_wait tr message now control) (\<lambda>c.
          let c' = dset ''latest_processing_error'' (JObj
                [(''trace_event_id'', JStr (tr_id tr)), (''trace_seq_no'', JInt (tr_seq tr)),
                 (''recoverable'', JBool True), (''occurred_at'', JStr now)]) c;
              token' = dset ''phase'' (JStr ''waiting'') (dset ''status'' (JStr ''waiting'')
                (dset ''control'' (JObj c') token)) in
          rbind (terminal_cursor token') (\<lambda>cursor.
            case event of
              None \<Rightarrow> Inr token'
            | Some ev \<Rightarrow> if te_seq ev = cursor + 1 then put_output_event ev token' else Inr token')))
       (Inl AttrErr)"

section \<open>Sentences\<close>

definition runtime_failure_message :: "string \<Rightarrow> string" where
  "runtime_failure_message message =
     ''Runtime '' @ RUN_STOPPED_TEXT @ NEWLINES @ REASON_TEXT
     @ (if strip message = [] then UNKNOWN_ERROR_TEXT else strip message) @ NEWLINES @ SEE_TRACE_TEXT"


section \<open>What a trace payload shows\<close>

text \<open>Every value under a key that names a secret is blanked, at every level.\<close>

fun redacted :: "json \<Rightarrow> bool" where
  "redacted (JObj d) = (\<forall>p \<in> set d. if is_sensitive_key (fst p) then snd p = JStr ''[redacted]''
     else redacted (snd p))"
| "redacted (JArr xs) = (\<forall>x \<in> set xs. redacted x)"
| "redacted _ = True"

text \<open>Containers of at most \<open>n\<close> items, \<open>h\<close> levels deep.\<close>

fun fits :: "nat \<Rightarrow> nat \<Rightarrow> json \<Rightarrow> bool" where
  "fits n h (JObj d) \<longleftrightarrow> 0 < h \<and> length d \<le> n \<and> (\<forall>p \<in> set d. fits n (h - 1) (snd p))"
| "fits n h (JArr xs) \<longleftrightarrow> 0 < h \<and> length xs \<le> n \<and> (\<forall>x \<in> set xs. fits n (h - 1) x)"
| "fits n h _ \<longleftrightarrow> True"

lemma sanitize_redacted: "redacted (sanitize depth j)"
  by (induction depth j rule: sanitize.induct) (auto dest: in_set_takeD)

lemma sanitize_fits: "fits 100 (9 - depth) (sanitize depth j)"
  by (induction depth j rule: sanitize.induct) (auto simp: Suc_diff_Suc)

lemma summary_keys_plain:
  "\<not> is_sensitive_key ''body_json''" "\<not> is_sensitive_key ''request_id''" "\<not> is_sensitive_key ''id''"
  "\<not> is_sensitive_key ''provider_error_code''" "\<not> is_sensitive_key ''provider_error_type''"
  "\<not> is_sensitive_key ''provider_error_message''"
  by code_simp+

lemma redacted_dset:
  "redacted (JObj d) \<Longrightarrow> \<not> is_sensitive_key k \<Longrightarrow> redacted v \<Longrightarrow> redacted (JObj (dset k v d))"
proof -
  assume d: "redacted (JObj d)" and v: "\<not> is_sensitive_key k" "redacted v"
  have "set (dset k v d) \<subseteq> insert (k, v) (set d)" for v :: json
    unfolding dset_def by (induction d) auto
  then have "p = (k, v) \<or> p \<in> set d" if "p \<in> set (dset k v d)" for p using that by blast
  then show ?thesis using d v by (metis fst_conv redacted.simps(1) snd_conv)
qed

lemma redacted_copy:
  "redacted (JObj t) \<Longrightarrow> \<not> is_sensitive_key k \<Longrightarrow> redacted (JObj (copy_key body k t))"
  "redacted (JObj t) \<Longrightarrow> \<not> is_sensitive_key (''provider_error_'' @ k) \<Longrightarrow>
   redacted (JObj (copy_error_key err k t))"
  unfolding copy_key_def copy_error_key_def by (simp_all add: redacted_dset sanitize_redacted del: redacted.simps)

lemma redacted_summary: "redacted (JObj t) \<Longrightarrow> redacted (JObj (copy_provider_summary parsed t))"
  using summary_keys_plain
  by (cases parsed) (simp_all add: copy_provider_summary_def redacted_copy del: redacted.simps)

lemma normalize_redacted: "redacted (JObj (normalize_error_details env details))"
proof -
  have "redacted (JObj (dict_or_empty (sanitize 0 (JObj details))))"
    using sanitize_redacted [of 0 "JObj details"] by simp
  then show ?thesis
    using summary_keys_plain(1) unfolding normalize_error_details_def Let_def
    by (auto simp: redacted_summary redacted_dset sanitize_redacted simp del: redacted.simps sanitize.simps)
qed

section \<open>Cutting and compacting\<close>

lemma truncate_exit_reason_fits: "py_len (truncate_exit_reason v) \<le> 255"
  by (simp add: truncate_exit_reason_def py_len_take) (simp add: py_len_def is_cont_def)

lemma compact_observation_idem: "compact_observation env (compact_observation env obs) = compact_observation env obs"
proof (cases "\<exists>o1 input. obs = JObj o1 \<and> dget o1 ''input'' = JObj input
    \<and> (dhas input ''system_prompt'' \<or> dhas input ''user_prompt'')")
  case True
  then obtain o1 input where o1: "obs = JObj o1" "dget o1 ''input'' = JObj input"
    "dhas input ''system_prompt'' \<or> dhas input ''user_prompt''" by blast
  have "dget (dset ''input_summary'' v (dpop ''input'' o1)) ''input'' = JNull" for v
    by (simp add: dget_def dget_or_def dpop_def dset_def)
  with o1 show ?thesis by (simp add: compact_observation_def Let_def)
next
  case False
  have "compact_observation env obs = obs"
  proof (cases obs)
    case (JObj o1)
    with False show ?thesis by (cases "dget o1 ''input''") (auto simp: compact_observation_def)
  qed (simp_all add: compact_observation_def)
  then show ?thesis by simp
qed

section \<open>Recovering a turn\<close>

lemma append_to_keeps: "append_to k item d = Inr d' \<Longrightarrow> (\<exists>v. d' = dset k v d)"
  by (cases "dget_or d k (JArr [])") (auto simp: append_to_def)

lemma put_output_event_keeps:
  "put_output_event ev t = Inr t' \<Longrightarrow> k \<notin> {''terminal'', ''metadata''} \<Longrightarrow> dget t' k = dget t k"
  by (cases "dget_or t ''terminal'' (JObj [])") (auto simp: put_output_event_def rbind_eq_Inr)

lemma recover_token_waits:
  assumes "recover_token now token message tr event = Inr token'" and "is_obj (dget (token_control token) ''wait'')"
  shows "waiting_for_input token' \<and> dget token' ''phase'' = JStr ''waiting''
    \<and> dget (token_wait token') ''status'' = JStr ''waiting''
    \<and> dget (token_wait token') ''input_window'' = dget (token_wait token) ''input_window''
    \<and> dget (token_control token') ''terminal_consumption'' = dget (token_control token) ''terminal_consumption''"
proof -
  obtain control where control: "dget token ''control'' = JObj control"
    using assms(2) by (cases "dget token ''control''") (auto simp: token_control_def)
  then have c: "dget_or token ''control'' (JObj []) = JObj control"
    by (auto simp: dget_def dget_or_def split: option.splits)
  obtain w where w: "dget control ''wait'' = JObj w"
    using assms(2) control by (auto simp: token_control_def is_obj_iff)
  define e where "e = JObj [(''trace_event_id'', JStr (tr_id tr)), (''trace_seq_no'', JInt (tr_seq tr)),
    (''recoverable'', JBool True), (''occurred_at'', JStr now)]"
  obtain c' where c': "reopen_wait tr message now control = Inr c'"
    using assms(1) c unfolding recover_token_def by (auto simp: rbind_eq_Inr)
  define t where "t = dset ''phase'' (JStr ''waiting'') (dset ''status'' (JStr ''waiting'')
    (dset ''control'' (JObj (dset ''latest_processing_error'' e c')) token))"
  have "token' = t \<or> (\<exists>ev. put_output_event ev t = Inr token')"
    using assms(1) c c' unfolding recover_token_def Let_def t_def e_def
    by (auto simp: rbind_eq_Inr split: option.splits if_splits)
  then have same: "dget token' k = dget t k" if "k \<notin> {''terminal'', ''metadata''}" for k
    using that put_output_event_keeps by blast
  obtain w' v where w': "c' = dset ''wait'' (JObj w') control"
    "w' = dset ''recoverable_errors'' v (dset ''status'' (JStr ''waiting'') w)"
    using c' w by (auto simp: reopen_wait_def rbind_eq_Inr dest!: append_to_keeps)
  have "dget token' ''status'' = JStr ''waiting''" "dget token' ''phase'' = JStr ''waiting''"
    "dget token' ''control'' = JObj (dset ''latest_processing_error'' e c')"
    by (simp_all add: same) (simp_all add: t_def)
  then show ?thesis
    using w w' control by (simp add: waiting_for_input_def token_wait_def token_control_def)
qed

end
