(* ===== verification/TurnEnd.thy ===== *)
theory TurnEnd
  imports Interaction Failure JobQueue
begin

text \<open>
  The writes that end a turn or come from beside it: the lease fence, finishing and requeuing the
  job, recovering or failing a run, cancelling it, finalising an exhausted job and appending a
  terminal event through the API. Each is a function on the rows with the rollback of an error;
  the API and the supervisor run it with no lease of their own.
\<close>

section \<open>The lease fence\<close>

definition holds_lease :: "int \<Rightarrow> lease \<Rightarrow> job \<Rightarrow> bool" where
  "holds_lease now l j \<longleftrightarrow> owns l j \<and> (case j_lease j of None \<Rightarrow> False | Some t \<Rightarrow> now < t)"

definition by_id :: "string \<Rightarrow> job list \<Rightarrow> job option" where
  "by_id jid jobs = find_job (\<lambda>j. j_id j = jid) jobs"

text \<open>The fence that a worker installs on the sessions of its other jobs: it raises, or it passes.\<close>

definition FENCED_TEXT :: string where
  "FENCED_TEXT = ''Job lease ownership changed; stale attempt write was fenced.''"

definition UNHEALTHY_TEXT :: string where
  "UNHEALTHY_TEXT = ''Job lease health was lost; stale attempt write was fenced.''"

definition fence_error :: "lease option \<Rightarrow> bool \<Rightarrow> int \<Rightarrow> job list \<Rightarrow> exc option" where
  "fence_error lease healthy now jobs =
     (case lease of
        None \<Rightarrow> None
      | Some l \<Rightarrow>
          if \<not> healthy then Some (RuntimeErr UNHEALTHY_TEXT)
          else if find_job (holds_lease now l) jobs = None then Some (RuntimeErr FENCED_TEXT) else None)"

text \<open>Without a lease nothing is checked; an owner checked in this transaction is not asked again.\<close>

definition validate_lease :: "world \<Rightarrow> (job option \<times> world) res" where
  "validate_lease w =
     (case w_lease w of
        None \<Rightarrow> Inr (None, w)
      | Some l \<Rightarrow>
          if \<not> w_healthy w then Inl LeaseLost
          else if w_fence w = Some (l_owner l) then Inr (by_id (l_job l) (w_jobs w), w)
          else (case find_job (holds_lease (w_now w) l) (w_jobs w) of
                  None \<Rightarrow> Inl LeaseLost
                | Some j \<Rightarrow> Inr (Some j, w\<lparr>w_fence := Some (l_owner l)\<rparr>)))"

definition lock_runtime_write :: "int \<Rightarrow> world \<Rightarrow> world res" where
  "lock_runtime_write expected w =
     rbind (validate_lease w) (\<lambda>r.
       if r_snapshot_seq (w_run (snd r)) \<noteq> expected then Inl LeaseLost else Inr (snd r))"

text \<open>A commit checks the lease once more and opens a new transaction.\<close>

definition commit_rows :: "world \<Rightarrow> world res" where
  "commit_rows w = rbind (validate_lease w) (\<lambda>r. Inr ((snd r)\<lparr>w_fence := None\<rparr>))"

section \<open>The job of the run\<close>

definition job_key :: "world \<Rightarrow> string" where
  "job_key w = ''job:runtime:'' @ r_id (w_run w)"

definition run_job :: "world \<Rightarrow> job option" where
  "run_job w = find_job (\<lambda>j. j_dedupe j = job_key w) (w_jobs w)"

definition default_payload :: "world \<Rightarrow> dict \<Rightarrow> dict" where
  "default_payload w payload =
     (if payload = [] then [(''run_id'', JStr (r_id (w_run w)))] else payload)"

definition has_unsynced_inputs :: "world \<Rightarrow> dict \<Rightarrow> bool res" where
  "has_unsynced_inputs w token =
     rbind (terminal_cursor token) (\<lambda>cursor.
       Inr (list_ex (\<lambda>ev. te_direction ev = ''input'') (events_after cursor (w_events w))))"

definition put_run_job :: "job \<Rightarrow> world \<Rightarrow> world" where
  "put_run_job j w = w\<lparr>w_jobs := put_job j (w_jobs w)\<rparr>"

definition end_job :: "dict \<Rightarrow> string \<Rightarrow> string \<Rightarrow> job \<Rightarrow> world \<Rightarrow> world res" where
  "end_job token status message j w =
     (let payload = default_payload w (dpop ''rerun_requested'' (j_payload j));
          rerun = truthy (dget (j_payload j) ''rerun_requested'') in
      rbind (if run_open w then has_unsynced_inputs w token else Inr False) (\<lambda>unsynced.
        if run_open w \<and> (rerun \<or> unsynced) then Inr (put_run_job (requeue_job (w_now w) payload j) w)
        else Inr (put_run_job (release_job (w_now w) payload status message j) w)))"

definition finish_job_turn :: "string option \<Rightarrow> dict \<Rightarrow> string \<Rightarrow> string \<Rightarrow> world \<Rightarrow> world res" where
  "finish_job_turn jid token status message w =
     (case jid of
        None \<Rightarrow> Inr w
      | Some i \<Rightarrow> rbind (validate_lease w) (\<lambda>r.
          (case (case fst r of None \<Rightarrow> by_id i (w_jobs (snd r)) | Some j \<Rightarrow> Some j) of
             None \<Rightarrow> Inl DbErr
           | Some j \<Rightarrow> end_job token status message j (snd r))))"

definition sync_job_metrics :: "string option \<Rightarrow> dict \<Rightarrow> world \<Rightarrow> world" where
  "sync_job_metrics jid token w =
     (case jid of
        None \<Rightarrow> w
      | Some i \<Rightarrow> (case by_id i (w_jobs w) of
          None \<Rightarrow> w
        | Some j \<Rightarrow> put_run_job (set_usage_from_budgets (dget token ''budgets'') j) w))"

text \<open>An input wakes the job: a running one is asked to run again, any other one is due now.\<close>

definition wake_job :: "int \<Rightarrow> dict \<Rightarrow> job \<Rightarrow> job" where
  "wake_job now payload j =
     (set_status now ''pending'' (j\<lparr>j_payload := payload\<rparr>))
       \<lparr>j_available := now, j_lease := None, j_worker := [], j_attempt := 0, j_error := []\<rparr>"

definition new_job :: "env \<Rightarrow> world \<Rightarrow> job" where
  "new_job env w =
     \<lparr>j_id = en_uuid env (w_ids w), j_type = ''runtime'', j_status = ''pending'',
      j_payload = default_payload w [], j_run = Some (r_id (w_run w)), j_request = None, j_worker = [],
      j_lease = None, j_available = w_now w, j_dedupe = job_key w, j_attempt = 0,
      j_max = en_max_attempts env, j_metrics = [], j_error = [], j_started = None,
      j_finished = None, j_created = w_now w\<rparr>"

definition ensure_job_pending :: "env \<Rightarrow> world \<Rightarrow> world" where
  "ensure_job_pending env w =
     (case run_job w of
        None \<Rightarrow> w\<lparr>w_jobs := w_jobs w @ [new_job env w], w_ids := Suc (w_ids w)\<rparr>
      | Some j \<Rightarrow>
          if j_status j = ''running''
          then put_run_job (j\<lparr>j_payload := dset ''rerun_requested'' (JBool True) (j_payload j)\<rparr>) w
          else put_run_job (wake_job (w_now w)
            (default_payload w (dpop ''rerun_requested'' (j_payload j))) j) w)"

section \<open>Recovering and failing\<close>

text \<open>
  The failure's own terminal event: a refusal is logged and dropped, but a violated key leaves a
  transaction that every later statement refuses.
\<close>

definition failure_request :: "string \<Rightarrow> string \<Rightarrow> string \<Rightarrow> trace_row \<Rightarrow> event_request" where
  "failure_request text status external tr =
     \<lparr>er_direction = ''output'', er_kind = ''terminal.text.output.v1'', er_mime = ''text/plain'',
      er_payload = JStr text, er_binding = [], er_artifact = None, er_parts = [],
      er_source = JObj [(''kind'', JStr ''runtime''), (''status'', JStr status),
        (''trace_event_id'', JStr (tr_id tr))],
      er_external = Some external, er_trace = Some (tr_id tr), er_occurred = None\<rparr>"

definition try_append :: "env \<Rightarrow> event_request \<Rightarrow> world \<Rightarrow> (tevent option \<times> world) res" where
  "try_append env q w =
     (case w_session w of
        None \<Rightarrow> Inr (None, w)
      | Some s \<Rightarrow>
          if ts_status s \<noteq> ''open'' then Inr (None, w)
          else (case append_event env s q w of
                  Inl e \<Rightarrow> if e = DbErr then Inl DbErr else Inr (None, w)
                | Inr r \<Rightarrow> Inr (Some (fst r), snd r)))"

definition recoverable_request :: "world \<Rightarrow> trace_row \<Rightarrow> event_request" where
  "recoverable_request w tr =
     failure_request RECOVERABLE_TEXT ''recoverable_failed''
       (''runtime:'' @ r_id (w_run w) @ '':message-processing-failed:'' @ int_str (tr_seq tr)) tr"

definition failed_request :: "world \<Rightarrow> string \<Rightarrow> trace_row \<Rightarrow> event_request" where
  "failed_request w message tr =
     failure_request (runtime_failure_message message) ''failed''
       (''runtime:'' @ r_id (w_run w) @ '':failed'') tr"

definition recovery_trace :: "exc \<Rightarrow> string" where
  "recovery_trace e = (case e of StepTimeout s \<Rightarrow> ''runtime.step.timeout''
     | _ \<Rightarrow> ''runtime.message_processing.failed'')"

definition recover_turn :: "env \<Rightarrow> string option \<Rightarrow> exc \<Rightarrow> dict \<Rightarrow> world \<Rightarrow> world res" where
  "recover_turn env jid e token w =
     (let evidence = dict_or_empty (dget (token_control token) ''latest_evidence'');
          tw = append_trace env ''waiting'' (recovery_trace e)
                 (exception_payload env e True (dget evidence ''seq_no'')) w in
      rbind (try_append env (recoverable_request w (fst tw)) (snd tw)) (\<lambda>r.
      rbind (recover_token (w_iso w) token (exc_text env e) (fst tw) (fst r)) (\<lambda>token'.
      let w' = (on_run (\<lambda>r. r\<lparr>r_status := ''waiting_input'', r_phase := runtime_phase_from_token token',
                 r_exit := [], r_ended := None\<rparr>) (snd r))\<lparr>w_invocation := ''running''\<rparr> in
      finish_job_turn jid token' ''succeeded'' []
        (append_snapshot env token' []
          [(''selected'', JNull), (''reason'', JStr ''recoverable_terminal_turn_failure''),
           (''trace_event_id'', JStr (tr_id (fst tw)))] w'))))"

definition fail_run :: "env \<Rightarrow> string option \<Rightarrow> exc \<Rightarrow> dict \<Rightarrow> world \<Rightarrow> world res" where
  "fail_run env jid e token w =
     (let w1 = (on_run (\<lambda>r. r\<lparr>r_status := ''failed'', r_phase := ''failed'', r_exit := exc_text env e,
                 r_ended := Some (w_iso w)\<rparr>) w)\<lparr>w_invocation := ''failed''\<rparr> in
      rbind (finish_job_turn jid token ''failed'' (exc_text env e) w1) (\<lambda>w2.
      let tw = append_trace env ''failed'' ''runtime.failed'' (exception_payload env e False JNull)
                 (sync_job_metrics jid token w2) in
      rbind (try_append env (failed_request w (exc_text env e) (fst tw)) (snd tw)) (\<lambda>r.
        Inr (close_session (snd r)))))"

section \<open>Operations from outside the turn\<close>

definition exhausted_reason :: "string \<Rightarrow> string" where
  "exhausted_reason message =
     (if strip message = [] then ''Runtime job attempts exhausted.'' else strip message)"

definition exhausted_rows :: "string \<Rightarrow> job \<Rightarrow> world \<Rightarrow> world" where
  "exhausted_rows reason j w =
     put_run_job ((set_status (w_now w) ''failed'' j)\<lparr>j_worker := [], j_lease := None, j_error := reason\<rparr>)
       ((on_run (\<lambda>r. r\<lparr>r_status := ''failed'', r_phase := ''failed'',
           r_exit := truncate_exit_reason reason, r_ended := Some (w_iso w)\<rparr>) w)\<lparr>w_invocation := ''failed''\<rparr>)"

definition exhausted_trace :: "env \<Rightarrow> string \<Rightarrow> job \<Rightarrow> world \<Rightarrow> trace_row \<times> world" where
  "exhausted_trace env reason j w =
     append_trace env ''failed'' ''runtime.job.attempts_exhausted''
       [(''error'', JStr reason), (''job_id'', JStr (j_id j)), (''recoverable'', JBool False)]
       (exhausted_rows reason j w)"

definition finalize_exhausted_job :: "env \<Rightarrow> string \<Rightarrow> string \<Rightarrow> world \<Rightarrow> (bool \<times> world) res" where
  "finalize_exhausted_job env jid message w =
     (case by_id jid (w_jobs w) of
        None \<Rightarrow> Inr (False, w)
      | Some j \<Rightarrow>
          if j_type j \<noteq> ''runtime'' \<or> j_run j \<noteq> Some (r_id (w_run w)) \<or> \<not> run_open w then Inr (False, w)
          else
            (let reason = exhausted_reason message; tw = exhausted_trace env reason j w in
             rbind (try_append env (failed_request w reason (fst tw)) (snd tw)) (\<lambda>r.
               Inr (True, close_session (snd r)))))"

definition cancelled_token :: "world \<Rightarrow> string \<Rightarrow> dict \<Rightarrow> dict res" where
  "cancelled_token w reason token =
     if_obj (dget_or token ''control'' (JObj []))
       (\<lambda>c. Inr (dset ''control'' (JObj (dset ''cancelled'' (JObj
              [(''reason'', JStr reason), (''cancelled_at'', JStr (w_iso w)), (''run_id'', JStr (r_id (w_run w)))])
              (dpop ''wait'' c)))
          (dset ''phase'' (JStr ''cancelled'') (dset ''status'' (JStr ''cancelled'') token))))
       (Inl AttrErr)"

definition append_cancel_snapshot :: "env \<Rightarrow> string \<Rightarrow> world \<Rightarrow> world res" where
  "append_cancel_snapshot env reason w =
     (if w_snapshots w = [] then Inr w
      else rbind (cancelled_token w reason (sn_token (last (w_snapshots w)))) (\<lambda>token.
        Inr (append_snapshot env token [] [(''selected'', JNull), (''reason'', JStr ''cancelled'')] w)))"

definition cancel_job :: "int \<Rightarrow> string \<Rightarrow> job \<Rightarrow> job" where
  "cancel_job now reason j =
     (if j_status j \<in> {''succeeded'', ''failed'', ''cancelled''} then j
      else (set_status now ''cancelled'' j)
        \<lparr>j_error := reason, j_worker := [], j_lease := None, j_finished := Some now\<rparr>)"

definition cancel_run :: "env \<Rightarrow> string \<Rightarrow> world \<Rightarrow> world res" where
  "cancel_run env reason w =
     (if r_status (w_run w) = ''cancelled'' then Inr w
      else if \<not> run_open w then Inl (Invalid ''run ended'')
      else
        (let w1 = close_session ((on_run (\<lambda>r. r\<lparr>r_status := ''cancelled'', r_phase := ''cancelled'',
                 r_exit := reason, r_ended := Some (w_iso w)\<rparr>) w)\<lparr>w_invocation := ''cancelled''\<rparr>) in
         rbind (append_cancel_snapshot env reason w1) (\<lambda>w2.
         let w3 = snd (append_trace env ''cancelled'' ''runtime.cancelled'' [(''reason'', JStr reason)] w2) in
         Inr (case run_job w of None \<Rightarrow> w3 | Some j \<Rightarrow> put_run_job (cancel_job (w_now w) reason j) w3))))"

text \<open>
  The API's append. The wake test reads the direction as it was sent; the event stores it
  stripped and lower-cased.
\<close>

definition known_event :: "event_request \<Rightarrow> world \<Rightarrow> tevent option" where
  "known_event q w =
     (case er_external q of None \<Rightarrow> None
      | Some x \<Rightarrow> if x = [] then None else find (\<lambda>ev. te_external ev = Some x) (w_events w))"

definition append_terminal_event :: "env \<Rightarrow> event_request \<Rightarrow> world \<Rightarrow> (tevent \<times> world) res" where
  "append_terminal_event env q w =
     (case known_event q w of
        Some ev \<Rightarrow> Inr (ev, w)
      | None \<Rightarrow>
          if \<not> run_open w then Inl (Invalid ''run ended'')
          else (case w_session w of
              None \<Rightarrow> Inl (Invalid ''terminal session'')
            | Some s \<Rightarrow>
                if ts_status s \<noteq> ''open'' then Inl (Invalid ''terminal session'')
                else rbind (append_event env s q w) (\<lambda>r.
                  Inr (fst r, if er_direction q = ''input'' then ensure_job_pending env (snd r) else snd r))))"

lemma append_terminal_event_Inr:
  "append_terminal_event env q w = Inr (ev, w') \<Longrightarrow>
   known_event q w = Some ev \<and> w' = w
   \<or> known_event q w = None \<and> run_open w \<and> session_open w \<and> (\<exists>s w1. w_session w = Some s \<and> append_event env s q w = Inr (ev, w1)
      \<and> w' = (if er_direction q = ''input'' then ensure_job_pending env w1 else w1))"
  unfolding append_terminal_event_def session_open_def
  by (cases "known_event q w"; cases "w_session w") (auto simp: rbind_eq_Inr split: if_splits)

lemma known_event_Some: "known_event q w = Some ev \<Longrightarrow> ev \<in> set (w_events w) \<and> te_external ev = er_external q"
  by (auto simp: known_event_def find_Some_iff split: option.splits if_splits)

lemma finalize_Inr:
  "finalize_exhausted_job env jid message w = Inr (done, w') \<Longrightarrow>
   \<not> done \<and> w' = w \<or> done \<and> run_open w \<and> (\<exists>j q ev w1.
     try_append env q (snd (exhausted_trace env (exhausted_reason message) j w)) = Inr (ev, w1) \<and> w' = close_session w1)"
  unfolding finalize_exhausted_job_def Let_def
  by (cases "by_id jid (w_jobs w)") (auto simp: rbind_eq_Inr split: if_splits)

section \<open>The fence\<close>

text \<open>
  The contract of a fenced write: it goes through only under a lease some running row is held
  under, or under one checked before in the same transaction.
\<close>

locale fenced =
  fixes guarded :: "world \<Rightarrow> 'a res"
  assumes refuses: "w_lease w = Some l \<Longrightarrow> w_fence w = None \<Longrightarrow> find_job (holds_lease (w_now w) l) (w_jobs w) = None
    \<Longrightarrow> guarded w = Inl LeaseLost"
begin

lemma lost: "w_lease w = Some l \<Longrightarrow> w_fence w = None \<Longrightarrow> \<forall>j \<in> set (w_jobs w). \<not> owns l j \<Longrightarrow> guarded w = Inl LeaseLost"
  by (rule refuses) (auto simp: find_job_None holds_lease_def)

lemma held: "guarded w = Inr x \<Longrightarrow> w_lease w = Some l \<Longrightarrow> w_fence w = None \<Longrightarrow>
  \<exists>j \<in> set (w_jobs w). owns l j \<and> (\<exists>t. j_lease j = Some t \<and> w_now w < t)"
proof -
  assume "guarded w = Inr x" "w_lease w = Some l" "w_fence w = None"
  then obtain j where "find_job (holds_lease (w_now w) l) (w_jobs w) = Some j"
    using refuses [of w l] by (cases "find_job (holds_lease (w_now w) l) (w_jobs w)") auto
  then have "j \<in> set (w_jobs w) \<and> holds_lease (w_now w) l j" by (rule find_job_Some)
  then show ?thesis by (auto simp: holds_lease_def split: option.splits)
qed

end

lemma validate_refuses:
  "w_lease w = Some l \<Longrightarrow> w_fence w = None \<Longrightarrow> find_job (holds_lease (w_now w) l) (w_jobs w) = None \<Longrightarrow>
   validate_lease w = Inl LeaseLost"
  by (simp add: validate_lease_def)

interpretation checks: fenced validate_lease
  by unfold_locales (rule validate_refuses)

interpretation locking: fenced "lock_runtime_write expected" for expected
  by unfold_locales (simp add: lock_runtime_write_def validate_refuses)

interpretation commits: fenced commit_rows
  by unfold_locales (simp add: commit_rows_def validate_refuses)

interpretation finishes: fenced "finish_job_turn (Some jid) token status message" for jid token status message
  by unfold_locales (simp add: finish_job_turn_def validate_refuses)

lemma validate_Inr:
  "validate_lease w = Inr (oj, w') \<Longrightarrow> (\<exists>f. w' = w\<lparr>w_fence := f\<rparr>)
    \<and> (case oj of None \<Rightarrow> w_lease w = None \<or> (\<exists>l. w_lease w = Some l \<and> by_id (l_job l) (w_jobs w) = None)
       | Some j \<Rightarrow> \<exists>l. w_lease w = Some l \<and> j_id j = l_job l \<and> j \<in> set (w_jobs w))"
  unfolding validate_lease_def
  by (auto simp: holds_lease_def owns_def by_id_def dest!: find_job_Some split: option.splits if_splits
      intro: exI [of _ "w_fence w"])

section \<open>The logs\<close>

lemma grows_jobs [simp]: "grows w (put_run_job j w)"
  by (rule grows_other) (simp_all add: put_run_job_def)

lemma end_job_Inr:
  "end_job token status message j w = Inr w' \<Longrightarrow>
   w' = put_run_job (requeue_job (w_now w) (default_payload w (dpop ''rerun_requested'' (j_payload j))) j) w
   \<or> w' = put_run_job (release_job (w_now w) (default_payload w (dpop ''rerun_requested'' (j_payload j))) status message j) w"
  unfolding end_job_def Let_def by (auto simp only: rbind_eq_Inr sum.inject split: if_splits)

lemma finish_Inr:
  assumes "finish_job_turn jid token status message w = Inr w'"
  shows "\<exists>jobs f. w' = w\<lparr>w_jobs := jobs, w_fence := f\<rparr>"
proof (cases jid)
  case None
  then have "w' = w\<lparr>w_jobs := w_jobs w, w_fence := w_fence w\<rparr>" using assms by (simp add: finish_job_turn_def)
  then show ?thesis by blast
next
  case (Some i)
  then obtain oj w1 j where "validate_lease w = Inr (oj, w1)" and e: "end_job token status message j w1 = Inr w'"
    using assms by (auto simp: finish_job_turn_def rbind_eq_Inr split: option.splits)
  then obtain f where "w1 = w\<lparr>w_fence := f\<rparr>" using validate_Inr by blast
  moreover obtain j' where "w' = put_run_job j' w1" using end_job_Inr [OF e] by blast
  ultimately have "w' = w\<lparr>w_jobs := put_job j' (w_jobs w), w_fence := f\<rparr>" by (simp add: put_run_job_def)
  then show ?thesis by blast
qed

lemma grows_jobs_fence: "grows w (w\<lparr>w_jobs := jobs, w_fence := f\<rparr>)"
  by (rule grows_other) simp_all

lemma grows_fence: "grows w (w\<lparr>w_fence := f\<rparr>)"
  by (rule grows_other) simp_all

lemma grows_finish: "finish_job_turn jid token status message w = Inr w' \<Longrightarrow> grows w w'"
  by (drule finish_Inr) (elim exE, simp only: grows_jobs_fence)

lemma grows_metrics: "grows w (sync_job_metrics jid token w)"
  by (simp add: sync_job_metrics_def split: option.split)

lemma grows_lock: "lock_runtime_write n w = Inr w' \<Longrightarrow> grows w w'"
  by (auto simp: lock_runtime_write_def rbind_eq_Inr grows_fence dest!: validate_Inr split: if_splits)

lemma grows_commit: "commit_rows w = Inr w' \<Longrightarrow> grows w w'"
  by (auto simp: commit_rows_def rbind_eq_Inr grows_fence dest!: validate_Inr)

lemma grows_try_append: "try_append env q w = Inr (ev, w') \<Longrightarrow> grows w w'"
  by (auto simp: try_append_def dest: grows_event split: option.splits if_splits sum.splits)

lemma grows_run:
  "(\<And>r. r_id (f r) = r_id r \<and> r_snapshot_seq (f r) = r_snapshot_seq r
      \<and> r_trace_seq (f r) = r_trace_seq r \<and> r_terminal_seq (f r) = r_terminal_seq r) \<Longrightarrow> grows w (on_run f w)"
  by (rule grows_other) (simp_all add: on_run_def)

lemma grows_invocation: "grows w (w\<lparr>w_invocation := v\<rparr>)"
  by (rule grows_other) simp_all

lemma grows_status: "grows w ((on_run (\<lambda>r. r\<lparr>r_status := a, r_phase := b, r_exit := c, r_ended := d\<rparr>) w)
    \<lparr>w_invocation := v\<rparr>)"
  by (rule grows_trans [OF grows_run grows_invocation]) simp

lemma grows_recover:
  assumes "recover_turn env jid e token w = Inr w'"
  shows "grows w w'"
proof -
  define tw where "tw = append_trace env ''waiting'' (recovery_trace e)
    (exception_payload env e True (dget (dict_or_empty (dget (token_control token) ''latest_evidence'')) ''seq_no'')) w"
  obtain ev w1 token' a b c d v summary where
    w1: "try_append env (recoverable_request w (fst tw)) (snd tw) = Inr (ev, w1)"
    and w': "finish_job_turn jid token' ''succeeded'' [] (append_snapshot env token' [] summary
      ((on_run (\<lambda>r. r\<lparr>r_status := a, r_phase := b, r_exit := c, r_ended := d\<rparr>) w1)\<lparr>w_invocation := v\<rparr>)) = Inr w'"
    using assms unfolding recover_turn_def Let_def tw_def by (auto simp: rbind_eq_Inr)
  have "grows w (snd tw)" unfolding tw_def by (rule grows_trace)
  also have "grows (snd tw) w1" by (rule grows_try_append [OF w1])
  also note grows_status [where w = w1]
  also note grows_snapshot
  also note grows_finish [OF w']
  finally show ?thesis .
qed

lemma grows_fail:
  assumes "fail_run env jid e token w = Inr w'"
  shows "grows w w'"
proof -
  obtain a b c d v w2 where
    w2: "finish_job_turn jid token ''failed'' (exc_text env e)
      ((on_run (\<lambda>r. r\<lparr>r_status := a, r_phase := b, r_exit := c, r_ended := d\<rparr>) w)\<lparr>w_invocation := v\<rparr>) = Inr w2"
    and rest: "rbind (try_append env (failed_request w (exc_text env e)
         (fst (append_trace env ''failed'' ''runtime.failed'' (exception_payload env e False JNull) (sync_job_metrics jid token w2))))
         (snd (append_trace env ''failed'' ''runtime.failed'' (exception_payload env e False JNull) (sync_job_metrics jid token w2))))
       (\<lambda>r. Inr (close_session (snd r))) = Inr w'"
    using assms unfolding fail_run_def Let_def by (auto simp: rbind_eq_Inr)
  define w3 where "w3 = snd (append_trace env ''failed'' ''runtime.failed'' (exception_payload env e False JNull)
    (sync_job_metrics jid token w2))"
  obtain q ev w4 where w4: "try_append env q w3 = Inr (ev, w4)" and w': "w' = close_session w4"
    using rest unfolding w3_def by (auto simp: rbind_eq_Inr)
  note grows_status [where w = w]
  also note grows_finish [OF w2]
  also note grows_metrics [of w2 jid token]
  also have "grows (sync_job_metrics jid token w2) w3" unfolding w3_def by (rule grows_trace)
  also note grows_try_append [OF w4]
  also note grows_close [of w4]
  finally show ?thesis unfolding w' .
qed

end
