(* ===== verification/RunLoop.thy ===== *)
theory RunLoop
  imports TurnEnd
begin

text \<open>
  \<^verbatim>\<open>process_run\<close>: one turn of the runtime loop from the job's claim to the commit that ends it.
  Between two commits of the turn other transactions run: the schedule gives, for each
  iteration, the operations they perform. They come right after a commit, where the session's
  run object keeps showing the snapshot number of that commit.
\<close>

section \<open>Other transactions\<close>

datatype move =
    Tick nat string
  | Append event_request
  | Cancel string
  | Finalize string string
  | Renew int lease
  | Recover int lease
  | Claim "string list" int string
  | Unhealthy

text \<open>An operation of another service object: it has no lease, and an error of its rolls it back.\<close>

definition elsewhere :: "(world \<Rightarrow> world res) \<Rightarrow> world \<Rightarrow> world" where
  "elsewhere f w =
     (case f (w\<lparr>w_lease := None, w_fence := None\<rparr>) of
        Inl e \<Rightarrow> w
      | Inr w' \<Rightarrow> w'\<lparr>w_lease := w_lease w, w_fence := w_fence w\<rparr>)"

fun outside_move :: "env \<Rightarrow> move \<Rightarrow> world \<Rightarrow> world" where
  "outside_move env (Tick n stamp) w = w\<lparr>w_now := w_now w + int n, w_iso := stamp\<rparr>"
| "outside_move env (Append q) w = elsewhere (\<lambda>w. map_sum id snd (append_terminal_event env q w)) w"
| "outside_move env (Cancel reason) w = elsewhere (cancel_run env reason) w"
| "outside_move env (Finalize jid message) w =
     elsewhere (\<lambda>w. map_sum id snd (finalize_exhausted_job env jid message w)) w"
| "outside_move env (Renew secs l) w = w\<lparr>w_jobs := renew_write (w_now w) secs l (w_jobs w)\<rparr>"
| "outside_move env (Recover delay l) w = w\<lparr>w_jobs := recover_write (w_now w) (\<lambda>_. False) delay l (w_jobs w)\<rparr>"
| "outside_move env (Claim types secs owner) w =
     (case claim_next_job (w_now w) (\<lambda>_. False) types secs owner (w_jobs w) of
        Inl e \<Rightarrow> w | Inr r \<Rightarrow> w\<lparr>w_jobs := snd r\<rparr>)"
| "outside_move env Unhealthy w = w\<lparr>w_healthy := False\<rparr>"

definition run_moves :: "env \<Rightarrow> move list \<Rightarrow> world \<Rightarrow> world" where
  "run_moves env ms w = fold (outside_move env) ms w"

section \<open>The turn's parameters\<close>

text \<open>
  What a turn is given: the artifact, the id of its job, the harness of each iteration and the
  schedule of the others.
\<close>

record setting =
  st_env :: env
  st_artifact :: dict
  st_job :: "string option"
  st_runner :: "nat \<Rightarrow> runner_env"
  st_others :: "nat \<Rightarrow> move list"

definition commit :: "unit act" where
  "commit = abind (rows_res commit_rows) (\<lambda>_. (\<lambda>t.
     (Inr (), t\<lparr>tn_saved := tn_world t, tn_seen := r_snapshot_seq (w_run (tn_world t))\<rparr>)))"

text \<open>A plain \<^verbatim>\<open>session.commit()\<close> checks no lease.\<close>

definition commit_unchecked :: "unit act" where
  "commit_unchecked t =
     (let w = (tn_world t)\<lparr>w_fence := None\<rparr> in
      (Inr (), t\<lparr>tn_world := w, tn_saved := w, tn_seen := r_snapshot_seq (w_run w)\<rparr>))"

definition interfere :: "env \<Rightarrow> move list \<Rightarrow> unit act" where
  "interfere env ms t =
     (let w = run_moves env ms (tn_world t) in (Inr (), t\<lparr>tn_world := w, tn_saved := w\<rparr>))"

section \<open>Ends of a turn\<close>

definition set_run :: "string \<Rightarrow> string \<Rightarrow> run_row \<Rightarrow> run_row" where
  "set_run status phase r = r\<lparr>r_status := status, r_phase := phase\<rparr>"

definition end_turn :: "string option \<Rightarrow> unit act" where
  "end_turn jid =
     abind (asks tn_token) (\<lambda>token.
     abind (rows_res (finish_job_turn jid token ''succeeded'' [])) (\<lambda>_.
     abind (edit_rows (sync_job_metrics jid token)) (\<lambda>_. commit)))"

definition park :: "string option \<Rightarrow> unit act" where
  "park jid =
     abind (asks tn_token) (\<lambda>token.
     abind (edit_rows (\<lambda>w. (on_run (set_run ''waiting_input'' (runtime_phase_from_token token)) w)
        \<lparr>w_invocation := ''running''\<rparr>)) (\<lambda>_. end_turn jid))"

definition final_output :: "dict \<Rightarrow> string" where
  "final_output token = str_or (get_path (JObj token) ''outputs.final_response'')"

definition close_run :: "string \<Rightarrow> string \<Rightarrow> string \<Rightarrow> string \<Rightarrow> world \<Rightarrow> world" where
  "close_run status phase reason output w =
     close_session ((on_run (\<lambda>r. (set_run status phase r)\<lparr>r_exit := reason, r_output := output,
        r_ended := Some (w_iso w)\<rparr>) w)\<lparr>w_invocation := status\<rparr>)"

definition abort_run :: "string option \<Rightarrow> unit act" where
  "abort_run jid =
     abind (asks (\<lambda>t. final_output (tn_token t))) (\<lambda>output.
     abind (edit_rows (close_run ''aborted'' ''aborted''
        (truncate_exit_reason (if output = [] then ''aborted'' else output)) output)) (\<lambda>_. end_turn jid))"

definition succeed_run :: "string option \<Rightarrow> unit act" where
  "succeed_run jid =
     abind (asks (\<lambda>t. final_output (tn_token t))) (\<lambda>output.
     abind (edit_rows (close_run ''succeeded'' ''completed'' ''completed'' output)) (\<lambda>_. end_turn jid))"

section \<open>One node\<close>

definition execute_node_act :: "runner_env \<Rightarrow> dict \<Rightarrow> dict \<Rightarrow> dict act" where
  "execute_node_act renv artifact node t =
     (case execute_node renv artifact node (tn_token t) of
        Inl e \<Rightarrow> (Inl e, t\<lparr>tn_token := failed_token renv node (tn_token t)\<rparr>)
      | Inr r \<Rightarrow> (Inr (fst r), t\<lparr>tn_token := snd r\<rparr>))"

definition expect_seen :: "unit act" where
  "expect_seen t = (Inr (), t\<lparr>tn_expected := tn_seen t\<rparr>)"

definition enabled_after :: "dict \<Rightarrow> bool \<Rightarrow> dict \<Rightarrow> json list res" where
  "enabled_after artifact entered token =
     (if entered then Inr [] else rbind (enabled_nodes artifact token) (rmap node_id_item))"

text \<open>The result is whether the turn is over: the node entered a wait checkpoint.\<close>

definition run_node :: "setting \<Rightarrow> nat \<Rightarrow> int \<Rightarrow> dict \<Rightarrow> bool act" where
  "run_node st k turn_after node =
     abind expect_seen (\<lambda>_.
     abind (execute_node_act (st_runner st k) (st_artifact st) node) (\<lambda>obs.
     abind (asks tn_expected) (\<lambda>expected.
     abind (rows_res (lock_runtime_write expected)) (\<lambda>_.
     abind (asks (\<lambda>t. merge_observation node (tn_token t) obs)) (\<lambda>r.
     abind (attempt r) (\<lambda>merged.
     abind (put_token merged) (\<lambda>_.
     abind (apply_node_interaction (st_env st) (st_artifact st) turn_after node obs) (\<lambda>entered.
     abind (asks (\<lambda>t. enabled_after (st_artifact st) entered (tn_token t))) (\<lambda>r.
     abind (attempt r) (\<lambda>enabled.
     abind (append_runtime_step (st_env st) node obs enabled) (\<lambda>_.
       if entered then abind (park (st_job st)) (\<lambda>_. ret True)
       else abind (asks tn_token) (\<lambda>token. abind (edit_rows (sync_job_metrics (st_job st) token)) (\<lambda>_.
            abind commit (\<lambda>_. ret False))))))))))))))"

section \<open>The loop\<close>

definition deadlock :: exc where
  "deadlock = RuntimeErr ''Runtime deadlock: no enabled nodes and no wait condition matched.''"

definition exceeded :: "int \<Rightarrow> exc" where
  "exceeded n = RuntimeErr (''Runtime exceeded max_steps='' @ int_str n @ ''.'')"

text \<open>The result is whether the turn is over; otherwise a halt condition ended the loop.\<close>

fun run_steps :: "setting \<Rightarrow> int \<Rightarrow> int \<Rightarrow> nat \<Rightarrow> nat \<Rightarrow> bool act" where
  "run_steps st turn_after m k 0 =
     abind (interfere (st_env st) (st_others st k)) (\<lambda>_. raises (exceeded m))"
| "run_steps st turn_after m k (Suc n) =
     abind (interfere (st_env st) (st_others st k)) (\<lambda>_.
     abind (asks tn_token) (\<lambda>token.
       if halt_success (st_artifact st) token \<or> halt_aborted (st_artifact st) token then ret False
       else abind (attempt (enabled_nodes (st_artifact st) token)) (\<lambda>enabled.
         if enabled = [] then
           (if halt_wait (st_artifact st) token then abind (park (st_job st)) (\<lambda>_. ret True)
            else raises deadlock)
         else abind (attempt (select_node enabled)) (\<lambda>node.
           abind (run_node st k turn_after node) (\<lambda>over.
             if over then ret True else run_steps st turn_after m (Suc k) n)))))"

definition max_steps :: "dict \<Rightarrow> int res" where
  "max_steps artifact =
     if_obj (dget_or artifact ''policies'' (JObj []))
       (\<lambda>p. py_int (py_or (dget p ''max_steps'') (JInt 16))) (Inl AttrErr)"

definition load_token :: "env \<Rightarrow> unit act" where
  "load_token env =
     abind (asks (\<lambda>t. w_snapshots (tn_world t))) (\<lambda>snapshots.
       if snapshots = [] then raises IndexErr
       else put_token (compact_runtime_token env (sn_token (last snapshots))))"

definition sync_input :: "unit act" where
  "sync_input =
     abind (asks (\<lambda>t. sync_terminal_events (w_iso (tn_world t)) (w_events (tn_world t)) (tn_token t))) (\<lambda>r.
     abind (attempt r) put_token)"

definition after_loop :: "setting \<Rightarrow> bool \<Rightarrow> unit act" where
  "after_loop st over =
     (if over then ret ()
      else abind (asks tn_token) (\<lambda>token.
        if halt_aborted (st_artifact st) token then abort_run (st_job st)
        else if \<not> halt_success (st_artifact st) token
          then raises (RuntimeErr ''Runtime stopped without success halt condition.'')
        else succeed_run (st_job st)))"

definition run_body :: "setting \<Rightarrow> unit act" where
  "run_body st =
     abind (load_token (st_env st)) (\<lambda>_.
     abind (asks (\<lambda>t. terminal_cursor (tn_token t))) (\<lambda>c.
     abind (attempt c) (\<lambda>turn_after.
     abind sync_input (\<lambda>_.
     abind (asks tn_token) (\<lambda>token.
     abind (edit_rows (on_run (set_run ''running''
        (py_str (py_or (dget token ''phase'') (JStr (initial_phase (st_artifact st)))))))) (\<lambda>_.
     if py_eq (dget token ''status'') (JStr ''waiting'') then park (st_job st)
     else
       abind commit_unchecked (\<lambda>_.
       abind (attempt (max_steps (st_artifact st))) (\<lambda>m.
       abind (run_steps st turn_after m 0 (nat m)) (after_loop st)))))))))"

section \<open>The handler and the whole turn\<close>

text \<open>A lost lease and a broken transaction leave the turn with nothing but a rollback.\<close>

definition handle :: "setting \<Rightarrow> exc \<Rightarrow> unit act" where
  "handle st e =
     (if e = LeaseLost \<or> e = DbErr then raises e
      else
        abind (asks tn_token) (\<lambda>token.
        abind (attempt (recoverable_turn token)) (\<lambda>recoverable.
          if recoverable then
            abind (asks tn_expected) (\<lambda>expected.
            abind (rows_res (lock_runtime_write expected)) (\<lambda>_.
            abind (rows_res (recover_turn (st_env st) (st_job st) e token)) (\<lambda>_.
            abind (edit_rows (sync_job_metrics (st_job st) token)) (\<lambda>_. commit))))
          else if exc_class e = ''RuntimeStepTimeoutError'' then raises e
          else abind (rows_res (fail_run (st_env st) (st_job st) e token)) (\<lambda>_. commit))))"

definition start_job :: "int \<Rightarrow> string option \<Rightarrow> world \<Rightarrow> world" where
  "start_job now jid w =
     (case jid of
        None \<Rightarrow> w
      | Some i \<Rightarrow> (case by_id i (w_jobs w) of
          None \<Rightarrow> w
        | Some j \<Rightarrow> put_run_job (set_status now ''running''
            (if j_status j \<noteq> ''running'' then j\<lparr>j_attempt := j_attempt j + 1\<rparr> else j)) w))"

definition start_run :: "string option \<Rightarrow> world \<Rightarrow> world" where
  "start_run jid w =
     (on_run (\<lambda>r. r\<lparr>r_started := (case r_started r of None \<Rightarrow> Some (w_iso w) | Some t \<Rightarrow> Some t)\<rparr>)
        (start_job (w_now w) jid w))\<lparr>w_invocation := ''running''\<rparr>"

text \<open>The job of a run that has already ended.\<close>

definition settle_job :: "int \<Rightarrow> run_row \<Rightarrow> job \<Rightarrow> job" where
  "settle_job now r j =
     (let j1 = set_status now (if r_status r \<in> {''succeeded'', ''aborted''} then ''succeeded'' else r_status r) j;
          j2 = j1\<lparr>j_worker := [], j_lease := None,
                  j_finished := (case j_finished j1 of None \<Rightarrow> Some now | Some t \<Rightarrow> Some t)\<rparr> in
      if r_status r = ''failed'' then j2\<lparr>j_error := r_exit r\<rparr> else j2)"

definition settle :: "world \<Rightarrow> world" where
  "settle w = (case run_job w of None \<Rightarrow> w | Some j \<Rightarrow> put_run_job (settle_job (w_now w) (w_run w) j) w)"

definition new_turn :: "world \<Rightarrow> world \<Rightarrow> turn" where
  "new_turn saved w =
     \<lparr>tn_token = [], tn_world = w, tn_saved = saved, tn_seen = r_snapshot_seq (w_run w),
      tn_expected = r_snapshot_seq (w_run w)\<rparr>"

definition lease_matches :: "world \<Rightarrow> bool" where
  "lease_matches w =
     (case w_lease w of
        None \<Rightarrow> True
      | Some l \<Rightarrow> (case run_job w of None \<Rightarrow> False | Some j \<Rightarrow> j_id j = l_job l))"

text \<open>The result and the committed rows: an exception that leaves the turn rolls it back.\<close>

definition run_turn :: "setting \<Rightarrow> world \<Rightarrow> world \<Rightarrow> unit res \<times> world" where
  "run_turn st saved w =
     (let rt = run_body st (new_turn saved w) in
      case fst rt of
        Inr u \<Rightarrow> (Inr (), tn_saved (snd rt))
      | Inl e \<Rightarrow> (let ht = handle st e (snd rt) in (fst ht, tn_saved (snd ht))))"

definition process_run :: "setting \<Rightarrow> world \<Rightarrow> unit res \<times> world" where
  "process_run st w =
     (if \<not> lease_matches w then (Inl LeaseLost, w)
      else
        (case validate_lease w of
           Inl e \<Rightarrow> (Inl e, w)
         | Inr r \<Rightarrow>
             if \<not> run_open w then (Inr (), (settle (snd r))\<lparr>w_fence := None\<rparr>)
             else
               (let jid = map_option j_id (run_job w) in
                run_turn (st\<lparr>st_job := jid\<rparr>) w (start_run jid (snd r)))))"

section \<open>The logs of a turn\<close>

lemma grows_elsewhere:
  assumes "\<And>w w'. f w = Inr w' \<Longrightarrow> grows w w'"
  shows "grows w (elsewhere f w)"
proof (cases "f (w\<lparr>w_lease := None, w_fence := None\<rparr>)")
  case (Inr w')
  have "grows w (w\<lparr>w_lease := None, w_fence := None\<rparr>)" by (rule grows_other) simp_all
  also have "grows \<dots> w'" using assms Inr .
  also have "grows w' (w'\<lparr>w_lease := w_lease w, w_fence := w_fence w\<rparr>)" by (rule grows_other) simp_all
  finally show ?thesis by (simp add: elsewhere_def Inr)
qed (simp add: elsewhere_def)

lemma grows_ensure: "grows w (ensure_job_pending env w)"
  by (auto simp: ensure_job_pending_def intro: grows_other split: option.split)

lemma grows_api: "append_terminal_event env q w = Inr (ev, w') \<Longrightarrow> grows w w'"
  by (drule append_terminal_event_Inr) (auto intro: grows_trans [OF grows_event grows_ensure] grows_event)

lemma grows_cancel: "cancel_run env reason w = Inr w' \<Longrightarrow> grows w w'"
proof -
  assume c: "cancel_run env reason w = Inr w'"
  show ?thesis
  proof (cases "r_status (w_run w) = ''cancelled''")
    case True
    then show ?thesis using c by (simp add: cancel_run_def)
  next
    case False
    define w1 where "w1 = close_session ((on_run (\<lambda>r. r\<lparr>r_status := ''cancelled'', r_phase := ''cancelled'',
      r_exit := reason, r_ended := Some (w_iso w)\<rparr>) w)\<lparr>w_invocation := ''cancelled''\<rparr>)"
    obtain w2 where w2: "append_cancel_snapshot env reason w1 = Inr w2"
      and w': "w' = (case run_job w of
          None \<Rightarrow> snd (append_trace env ''cancelled'' ''runtime.cancelled'' [(''reason'', JStr reason)] w2)
        | Some j \<Rightarrow> put_run_job (cancel_job (w_now w) reason j)
            (snd (append_trace env ''cancelled'' ''runtime.cancelled'' [(''reason'', JStr reason)] w2)))"
      using c False unfolding cancel_run_def w1_def Let_def by (auto simp: rbind_eq_Inr split: if_splits)
    have "grows w w1" unfolding w1_def by (rule grows_trans [OF grows_status grows_close])
    also have "grows w1 w2"
      using w2 by (auto simp: append_cancel_snapshot_def rbind_eq_Inr grows_snapshot split: if_splits)
    also have "grows w2 w'"
      unfolding w' using grows_trace grows_trans [OF grows_trace grows_jobs] by (simp split: option.split)
    finally show ?thesis .
  qed
qed

lemma grows_finalize: "finalize_exhausted_job env jid message w = Inr (b, w') \<Longrightarrow> grows w w'"
proof (drule finalize_Inr, elim disjE conjE exE)
  fix j q ev w1
  assume w1: "try_append env q (snd (exhausted_trace env (exhausted_reason message) j w)) = Inr (ev, w1)"
    and w': "w' = close_session w1"
  have "grows w (exhausted_rows (exhausted_reason message) j w)"
    unfolding exhausted_rows_def by (rule grows_trans [OF grows_status grows_jobs])
  also have "grows \<dots> (snd (exhausted_trace env (exhausted_reason message) j w))"
    unfolding exhausted_trace_def by (rule grows_trace)
  also note grows_try_append [OF w1]
  also have "grows w1 w'" unfolding w' by (rule grows_close)
  finally show "grows w w'" .
qed simp

lemma map_sum_snd: "map_sum id snd r = Inr w' \<longleftrightarrow> (\<exists>x. r = Inr (x, w'))"
  by (cases r) auto

lemma grows_move: "grows w (outside_move env m w)"
proof (cases m)
  case (Append q)
  then show ?thesis by (auto simp: map_sum_snd intro!: grows_elsewhere elim: grows_api)
next
  case (Cancel reason)
  then show ?thesis by (simp add: grows_elsewhere grows_cancel)
next
  case (Finalize jid message)
  then show ?thesis by (auto simp: map_sum_snd intro!: grows_elsewhere elim: grows_finalize)
next
  case (Claim types secs owner)
  then show ?thesis by (auto intro: grows_other split: sum.split)
qed (auto intro: grows_other)

lemma grows_moves: "grows w (run_moves env ms w)"
  unfolding run_moves_def
proof (induction ms arbitrary: w)
  case (Cons m ms)
  from grows_trans [OF grows_move Cons.IH] show ?case by simp
qed simp

text \<open>Every action of the turn keeps them, and a commit saves them.\<close>

lemma logs_rows_res [simp]: "(\<And>w w'. f w = Inr w' \<Longrightarrow> grows w w') \<Longrightarrow> logs.keeps (rows_res f)"
  by (intro logs.keeps_rows_res turn_grows_rows) blast

lemma logs_edit [simp]: "(\<And>w. grows w (f w)) \<Longrightarrow> logs.keeps (edit_rows f)"
  by (intro logs.keeps_edit_rows turn_grows_rows) blast

lemma logs_commit [simp]: "logs.keeps commit"
  unfolding commit_def
  by (intro logs.keeps_intros logs_rows_res grows_commit) (auto simp: logs.keeps_def turn_grows_def)

lemma logs_commit_unchecked [simp]: "logs.keeps commit_unchecked"
  by (auto simp: logs.keeps_def turn_grows_def commit_unchecked_def Let_def grows_fence intro: grows_trans)

lemma logs_interfere [simp]: "logs.keeps (interfere env ms)"
  by (auto simp: logs.keeps_def turn_grows_def interfere_def Let_def grows_moves intro: grows_trans)

lemma logs_execute [simp]: "logs.keeps (execute_node_act renv artifact node)"
  by (auto simp: logs.keeps_def execute_node_act_def split: sum.split)

lemma logs_expect [simp]: "logs.keeps expect_seen"
  by (simp add: logs.keeps_def turn_grows_def expect_seen_def)

lemma grows_set_run: "grows w ((on_run (set_run a b) w)\<lparr>w_invocation := v\<rparr>)"
  by (rule grows_other) (simp_all add: on_run_def set_run_def)

lemma grows_close_run: "grows w (close_run a b c d w)"
  by (rule grows_other) (simp_all add: close_run_def close_session_def on_run_def set_run_def)

lemma logs_end_turn [simp]: "logs.keeps (end_turn jid)"
  unfolding end_turn_def by (intro logs.keeps_intros logs_rows_res logs_edit grows_finish grows_metrics logs_commit)

lemma logs_ends [simp]: "logs.keeps (park jid)" "logs.keeps (abort_run jid)" "logs.keeps (succeed_run jid)"
  unfolding park_def abort_run_def succeed_run_def
  by (intro logs.keeps_intros logs_edit grows_set_run grows_close_run logs_end_turn)+

lemma logs_run_node [simp]: "logs.keeps (run_node st k n node)"
  unfolding run_node_def
  by (intro logs.keeps_intros logs_expect logs_execute logs_rows_res grows_lock logs_token
      logs_apply_node_interaction logs_append_runtime_step logs_ends logs_edit grows_metrics logs_commit)

lemma logs_run_steps [simp]: "logs.keeps (run_steps st n m k fuel)"
  by (induction fuel arbitrary: k)
    (auto simp only: run_steps.simps intro!: logs.keeps_intros logs_interfere logs_ends logs_run_node)

lemma logs_run_body [simp]: "logs.keeps (run_body st)"
  unfolding run_body_def after_loop_def load_token_def sync_input_def
  by (intro logs.keeps_intros logs_token logs_edit_run logs_ends logs_commit_unchecked logs_run_steps)
    (simp_all add: set_run_def)

lemma logs_handle [simp]: "logs.keeps (handle st e)"
  unfolding handle_def
  by (intro logs.keeps_intros logs_rows_res grows_lock grows_recover grows_fail logs_edit grows_metrics logs_commit)

lemma grows_start: "grows w (start_run jid w)"
  by (rule grows_other) (simp_all add: start_run_def start_job_def put_run_job_def on_run_def split: option.split)

lemma grows_settle: "grows w (settle w)"
  by (simp add: settle_def split: option.split)

lemma grows_run_turn:
  assumes "grows saved w"
  shows "grows saved (snd (run_turn st saved w))"
proof -
  let ?rt = "run_body st (new_turn saved w)"
  have start: "tn_saved (new_turn saved w) = saved" "tn_world (new_turn saved w) = w"
    by (simp_all add: new_turn_def)
  have "turn_grows (new_turn saved w) (snd ?rt)"
    using logs_run_body [of st] unfolding logs.keeps_def by blast
  then have body: "grows saved (tn_saved (snd ?rt))" "grows (tn_saved (snd ?rt)) (tn_world (snd ?rt))"
    using assms by (simp_all add: turn_grows_def start)
  have "turn_grows (snd ?rt) (snd (handle st e (snd ?rt)))" for e
    using logs_handle [of st e] unfolding logs.keeps_def by blast
  then have "grows (tn_saved (snd ?rt)) (tn_saved (snd (handle st e (snd ?rt))))" for e
    using body(2) by (simp add: turn_grows_def)
  then have "grows saved (tn_saved (snd (handle st e (snd ?rt))))" for e
    using grows_trans [OF body(1)] by blast
  then show ?thesis
    using body(1) by (simp add: run_turn_def Let_def split: sum.split)
qed

lemma grows_process_run: "grows w (snd (process_run st w))"
proof -
  have settled: "grows w ((settle w')\<lparr>w_fence := None\<rparr>)" if v: "validate_lease w = Inr (j, w')" for j w'
  proof -
    obtain f where "w' = w\<lparr>w_fence := f\<rparr>" using validate_Inr [OF v] by blast
    then show ?thesis using grows_trans [OF grows_fence grows_trans [OF grows_settle grows_fence]] by simp
  qed
  have turn: "grows w (snd (run_turn st' w (start_run jid w')))" if v: "validate_lease w = Inr (j, w')" for j w' st' jid
  proof -
    obtain f where "w' = w\<lparr>w_fence := f\<rparr>" using validate_Inr [OF v] by blast
    then show ?thesis using grows_run_turn grows_trans [OF grows_fence grows_start] by simp
  qed
  show ?thesis
    unfolding process_run_def Let_def using settled turn by (auto split: sum.split)
qed

section \<open>A turn whose lease is lost\<close>

text \<open>No row is held under the turn's lease, and no earlier check of the transaction counts.\<close>

definition lease_cut :: "world \<Rightarrow> bool" where
  "lease_cut w \<longleftrightarrow> w_fence w = None \<and> (\<exists>l. w_lease w = Some l \<and> (\<forall>j \<in> set (w_jobs w). \<not> owns l j))"

lemma cut_refuses:
  assumes "lease_cut w"
  shows "lock_runtime_write n w = Inl LeaseLost" "commit_rows w = Inl LeaseLost"
    "finish_job_turn (Some i) token status message w = Inl LeaseLost"
proof -
  obtain l where "w_lease w = Some l" "w_fence w = None" "\<forall>j \<in> set (w_jobs w). \<not> owns l j"
    using assms by (auto simp: lease_cut_def)
  then show "lock_runtime_write n w = Inl LeaseLost" "commit_rows w = Inl LeaseLost"
    "finish_job_turn (Some i) token status message w = Inl LeaseLost"
    by (rule locking.lost, rule commits.lost, rule finishes.lost)
qed

lemma cut_status [simp]: "lease_cut ((on_run f w)\<lparr>w_invocation := v\<rparr>) = lease_cut w"
  by (simp add: lease_cut_def on_run_def)

lemma cut_close_run [simp]: "lease_cut (close_run a b c d w) = lease_cut w"
  by (simp add: lease_cut_def on_run_def close_run_def close_session_def)

lemma end_turn_cut: "lease_cut (tn_world t) \<Longrightarrow> end_turn jid t = (Inl LeaseLost, t)"
proof (cases jid)
  case None
  then show "lease_cut (tn_world t) \<Longrightarrow> end_turn jid t = (Inl LeaseLost, t)"
    by (simp add: end_turn_def act_defs commit_def cut_refuses finish_job_turn_def sync_job_metrics_def)
next
  case (Some i)
  then show "lease_cut (tn_world t) \<Longrightarrow> end_turn jid t = (Inl LeaseLost, t)"
    by (simp add: end_turn_def abind_def asks_def rows_res_def cut_refuses)
qed

lemma ends_cut:
  assumes "lease_cut (tn_world t)"
  shows "\<exists>t'. park jid t = (Inl LeaseLost, t') \<and> lease_cut (tn_world t') \<and> tn_saved t' = tn_saved t"
    and "\<exists>t'. abort_run jid t = (Inl LeaseLost, t') \<and> lease_cut (tn_world t') \<and> tn_saved t' = tn_saved t"
    and "\<exists>t'. succeed_run jid t = (Inl LeaseLost, t') \<and> lease_cut (tn_world t') \<and> tn_saved t' = tn_saved t"
  using assms by (simp_all add: park_def abort_run_def succeed_run_def abind_def asks_def edit_rows_def end_turn_cut)

lemma run_node_cut:
  "lease_cut (tn_world t) \<Longrightarrow> \<exists>e token. run_node st k n node t = (Inl e, t\<lparr>tn_expected := tn_seen t, tn_token := token\<rparr>)"
  by (cases "execute_node (st_runner st k) (st_artifact st) node (tn_token t)")
    (auto simp: run_node_def abind_def expect_seen_def execute_node_act_def asks_def rows_res_def cut_refuses)

lemma try_append_queue:
  "try_append env q w = Inr (ev, w') \<Longrightarrow> w_jobs w' = w_jobs w \<and> w_lease w' = w_lease w \<and> w_fence w' = w_fence w"
  unfolding try_append_def
  by (auto simp: on_run_def dest!: append_event_Inr split: option.splits if_splits sum.splits)

lemma fail_run_queue:
  assumes "fail_run env None e token w = Inr w'"
  shows "w_jobs w' = w_jobs w \<and> w_lease w' = w_lease w \<and> w_fence w' = w_fence w"
proof -
  obtain q ev tr w1 w2 where "try_append env q w1 = Inr (ev, w2)" "w' = close_session w2"
    "w1 = snd (append_trace env ''failed'' ''runtime.failed'' (exception_payload env e False JNull)
      ((on_run (\<lambda>r. r\<lparr>r_status := ''failed'', r_phase := ''failed'', r_exit := exc_text env e,
         r_ended := Some (w_iso w)\<rparr>) w)\<lparr>w_invocation := ''failed''\<rparr>))"
    using assms unfolding fail_run_def Let_def
    by (auto simp: finish_job_turn_def sync_job_metrics_def rbind_eq_Inr)
  then show ?thesis
    using try_append_queue [of env q w1 ev w2]
    by (simp add: close_session_def append_trace_def on_run_def Let_def)
qed

lemma handle_cut:
  assumes "lease_cut (tn_world t)"
  shows "\<exists>e' t'. handle st e t = (Inl e', t') \<and> tn_saved t' = tn_saved t"
proof (cases "e = LeaseLost \<or> e = DbErr")
  case True
  then show ?thesis by (simp add: handle_def raises_def)
next
  case False
  have failed: "\<exists>e' t'. abind (rows_res (fail_run (st_env st) (st_job st) e token)) (\<lambda>_. commit) t = (Inl e', t')
      \<and> tn_saved t' = tn_saved t" for token
  proof (cases "st_job st")
    case None
    have "lease_cut w'" if "fail_run (st_env st) None e token (tn_world t) = Inr w'" for w'
      using fail_run_queue [OF that] assms by (simp add: lease_cut_def)
    with None show ?thesis
      by (cases "fail_run (st_env st) None e token (tn_world t)")
        (auto simp: abind_def rows_res_def commit_def cut_refuses)
  next
    case (Some i)
    then show ?thesis using assms
      by (simp add: abind_def rows_res_def fail_run_def Let_def cut_refuses)
  qed
  then show ?thesis
    using False assms
    by (cases "recoverable_turn (tn_token t)")
      (auto simp: handle_def abind_def asks_def attempt_def rows_res_def cut_refuses raises_def)
qed

lemma run_steps_cut:
  assumes "lease_cut (run_moves (st_env st) (st_others st k) (tn_world t))"
  shows "\<exists>r t'. run_steps st n m k fuel t = (r, t') \<and> r \<noteq> Inr True
    \<and> tn_saved t' = run_moves (st_env st) (st_others st k) (tn_world t) \<and> lease_cut (tn_world t')"
proof -
  let ?w = "run_moves (st_env st) (st_others st k) (tn_world t)"
  let ?t = "t\<lparr>tn_world := ?w, tn_saved := ?w\<rparr>"
  have start: "abind (interfere (st_env st) (st_others st k)) f t = f () ?t" for f :: "unit \<Rightarrow> bool act"
    by (simp add: abind_def interfere_def Let_def)
  obtain t' where park: "park (st_job st) ?t = (Inl LeaseLost, t')" "lease_cut (tn_world t')" "tn_saved t' = ?w"
    using ends_cut(1) [of ?t "st_job st"] assms by auto
  show ?thesis
  proof (cases fuel)
    case 0
    then show ?thesis using assms by (simp add: start raises_def)
  next
    case (Suc f)
    have node: "\<exists>e token. run_node st k n node ?t = (Inl e, ?t\<lparr>tn_expected := tn_seen ?t, tn_token := token\<rparr>)" for node
      using run_node_cut [of ?t st k n node] assms by simp
    show ?thesis
    proof (cases "halt_success (st_artifact st) (tn_token t) \<or> halt_aborted (st_artifact st) (tn_token t)")
      case True
      then show ?thesis using assms Suc by (simp add: start) (simp add: abind_def asks_def ret_def)
    next
      case False
      show ?thesis
      proof (cases "enabled_nodes (st_artifact st) (tn_token t)")
        case (Inl e)
        with False Suc assms show ?thesis by (simp add: start) (simp add: abind_def asks_def attempt_def)
      next
        case (Inr ns)
        note enabled = this
        show ?thesis
        proof (cases "ns = []")
          case True
          with False Suc enabled assms park show ?thesis
            by (simp add: start) (simp add: abind_def asks_def attempt_def raises_def)
        next
          case ns: False
          show ?thesis
          proof (cases "select_node ns")
            case (Inl e)
            with False Suc enabled assms ns show ?thesis
              by (simp add: start) (simp add: abind_def asks_def attempt_def)
          next
            case (Inr node)
            obtain e token where "run_node st k n node ?t = (Inl e, ?t\<lparr>tn_expected := tn_seen ?t, tn_token := token\<rparr>)"
              using node by blast
            with Inr False Suc enabled assms ns show ?thesis
              by (simp add: start) (simp add: abind_def asks_def attempt_def)
          qed
        qed
      qed
    qed
  qed
qed

lemma lost_turn:
  assumes "lease_cut (run_moves (st_env st) (st_others st k) (tn_world t))"
    and run: "abind (run_steps st n m k fuel) (after_loop st) t = (r, t1)"
  shows "\<exists>e e' t2. r = Inl e \<and> handle st e t1 = (Inl e', t2)
    \<and> tn_saved t2 = run_moves (st_env st) (st_others st k) (tn_world t)"
proof -
  let ?w = "run_moves (st_env st) (st_others st k) (tn_world t)"
  obtain q t' where q: "run_steps st n m k fuel t = (q, t')" "q \<noteq> Inr True" "tn_saved t' = ?w" "lease_cut (tn_world t')"
    using run_steps_cut [OF assms(1), of n m fuel] by blast
  have "\<exists>e. r = Inl e \<and> tn_saved t1 = ?w \<and> lease_cut (tn_world t1)"
  proof (cases q)
    case (Inl e)
    then have "r = Inl e \<and> t1 = t'" using run q by (auto simp: abind_def)
    then show ?thesis using q by simp
  next
    case (Inr b)
    then have "after_loop st False t' = (r, t1)" using run q by (simp add: abind_def)
    then show ?thesis
      using ends_cut [OF q(4), of "st_job st"] q(3,4)
      by (auto simp: after_loop_def abind_def asks_def raises_def split: if_splits)
  qed
  then show ?thesis using handle_cut by metis
qed

section \<open>What a committed step leaves\<close>

text \<open>A node's interaction writes the token, traces and terminal events only.\<close>

definition aside :: "turn \<Rightarrow> turn \<Rightarrow> bool" where
  "aside s t \<longleftrightarrow> w_snapshots (tn_world t) = w_snapshots (tn_world s)
     \<and> r_snapshot_seq (w_run (tn_world t)) = r_snapshot_seq (w_run (tn_world s))
     \<and> tn_expected t = tn_expected s"

interpretation asides: kept_by_steps aside
  by unfold_locales (auto simp: aside_def)

lemma aside_token [simp]: "asides.keeps (edit_token f)" "asides.keeps (put_token token)"
  by (simp_all add: asides.keeps_def aside_def edit_token_def put_token_def)

lemma aside_trace [simp]: "asides.keeps (trace env phase event_type payload)"
  by (simp add: asides.keeps_def aside_def trace_def on_rows_def append_trace_def on_run_def Let_def)

lemma aside_emit [simp]: "asides.keeps (emit env s q)"
  unfolding emit_def
  by (rule asides.keeps_try_rows) (auto simp: aside_def on_run_def dest!: append_event_Inr)

lemma aside_if_obj: "(\<And>d. asides.keeps (f d)) \<Longrightarrow> asides.keeps g \<Longrightarrow> asides.keeps (if_obj j f g)"
  by (cases j) simp_all

lemma aside_option: "asides.keeps f \<Longrightarrow> (\<And>x. asides.keeps (g x)) \<Longrightarrow> asides.keeps (case x of None \<Rightarrow> f | Some y \<Rightarrow> g y)"
  by (cases x) simp_all

lemma aside_interaction [simp]: "asides.keeps (apply_node_interaction env artifact n node obs)"
  unfolding apply_node_interaction_def decide_def wait_after_output_def enter_wait_checkpoint_def
    append_checkpoint_def consume_pending_act_def interaction_output_def apply_decision_def retry_wait_def
    apply_abort_def put_output_def control_act_def Let_def
  by (intro asides.keeps_intros aside_token aside_trace aside_emit aside_if_obj aside_option)

lemma step_snapshot:
  assumes "append_runtime_step env node obs enabled t = (Inr u, t')"
  shows "\<exists>s. w_snapshots (tn_world t') = w_snapshots (tn_world t) @ [s] \<and> sn_token s = tn_token t
    \<and> tn_token t' = tn_token t \<and> tn_expected t' = tn_expected t
    \<and> r_snapshot_seq (w_run (tn_world t')) = r_snapshot_seq (w_run (tn_world t)) + 1"
  using assms unfolding append_runtime_step_def emit_def trace_def snapshot_def
  by (auto simp: act_Inr append_snapshot_def append_trace_def on_run_def Let_def dest!: append_event_Inr
      split: option.splits if_splits)

text \<open>A commit with these snapshots, this token and this expected number.\<close>

definition committed :: "snap_row list \<Rightarrow> int \<Rightarrow> dict \<Rightarrow> int \<Rightarrow> turn \<Rightarrow> bool" where
  "committed snapshots n token expected t \<longleftrightarrow> w_snapshots (tn_saved t) = snapshots
     \<and> r_snapshot_seq (w_run (tn_saved t)) = n \<and> tn_world t = tn_saved t \<and> tn_token t = token
     \<and> tn_expected t = expected \<and> tn_seen t = n"

lemma commit_Inr:
  "commit t = (Inr u, t') \<Longrightarrow>
   committed (w_snapshots (tn_world t)) (r_snapshot_seq (w_run (tn_world t))) (tn_token t) (tn_expected t) t'"
  unfolding commit_def
  by (auto simp: act_Inr commit_rows_def rbind_eq_Inr committed_def dest!: validate_Inr)

lemma metrics_run [simp]:
  "w_snapshots (sync_job_metrics jid token w) = w_snapshots w" "w_run (sync_job_metrics jid token w) = w_run w"
  by (simp_all add: sync_job_metrics_def put_run_job_def split: option.split)

lemma end_turn_Inr:
  assumes "end_turn jid t = (Inr u, t')"
  shows "committed (w_snapshots (tn_world t)) (r_snapshot_seq (w_run (tn_world t))) (tn_token t) (tn_expected t) t'"
proof -
  obtain w where w: "finish_job_turn jid (tn_token t) ''succeeded'' [] (tn_world t) = Inr w"
    and c: "commit (t\<lparr>tn_world := sync_job_metrics jid (tn_token t) w\<rparr>) = (Inr u, t')"
    using assms unfolding end_turn_def by (auto simp: act_Inr)
  obtain jobs f where "w = (tn_world t)\<lparr>w_jobs := jobs, w_fence := f\<rparr>" using finish_Inr [OF w] by blast
  with commit_Inr [OF c] show ?thesis by simp
qed

lemma park_Inr:
  assumes "park jid t = (Inr u, t')"
  shows "committed (w_snapshots (tn_world t)) (r_snapshot_seq (w_run (tn_world t))) (tn_token t) (tn_expected t) t'"
proof -
  let ?w = "(on_run (set_run ''waiting_input'' (runtime_phase_from_token (tn_token t))) (tn_world t))
    \<lparr>w_invocation := ''running''\<rparr>"
  have "end_turn jid (t\<lparr>tn_world := ?w\<rparr>) = (Inr u, t')"
    using assms unfolding park_def by (auto simp: act_Inr)
  from end_turn_Inr [OF this] show ?thesis by (simp add: on_run_def set_run_def)
qed

lemma lock_Inr: "lock_runtime_write n w = Inr w' \<Longrightarrow> r_snapshot_seq (w_run w) = n \<and> (\<exists>f. w' = w\<lparr>w_fence := f\<rparr>)"
  unfolding lock_runtime_write_def by (auto simp: rbind_eq_Inr dest!: validate_Inr split: if_splits)

lemma run_node_Inr:
  assumes "run_node st k n node t = (Inr over, t')"
  shows "\<exists>s. sn_token s = tn_token t'
    \<and> committed (w_snapshots (tn_world t) @ [s]) (tn_seen t + 1) (tn_token t') (tn_seen t) t'"
proof -
  obtain obs w merged t1 entered t2 enabled t3 where
    ex: "execute_node_act (st_runner st k) (st_artifact st) node (t\<lparr>tn_expected := tn_seen t\<rparr>) = (Inr obs, t1)"
    and lock: "lock_runtime_write (tn_expected t1) (tn_world t1) = Inr w"
    and inter: "apply_node_interaction (st_env st) (st_artifact st) n node obs
      (t1\<lparr>tn_world := w, tn_token := merged\<rparr>) = (Inr entered, t2)"
    and step: "append_runtime_step (st_env st) node obs enabled t2 = (Inr (), t3)"
    and rest: "(if entered then abind (park (st_job st)) (\<lambda>_. ret True)
       else abind (asks tn_token) (\<lambda>token. abind (edit_rows (sync_job_metrics (st_job st) token)) (\<lambda>_.
            abind commit (\<lambda>_. ret False)))) t3 = (Inr over, t')"
    using assms unfolding run_node_def expect_seen_def by (auto simp: act_Inr)
  obtain token where t1: "t1 = t\<lparr>tn_expected := tn_seen t, tn_token := token\<rparr>"
    using ex by (auto simp: execute_node_act_def split: sum.splits)
  obtain f where w: "r_snapshot_seq (w_run (tn_world t)) = tn_seen t" "w = (tn_world t)\<lparr>w_fence := f\<rparr>"
    using lock_Inr [OF lock] t1 by auto
  have "aside (t1\<lparr>tn_world := w, tn_token := merged\<rparr>) t2"
    using asides.keepsD [OF aside_interaction inter] .
  then have t2: "w_snapshots (tn_world t2) = w_snapshots (tn_world t)"
    "r_snapshot_seq (w_run (tn_world t2)) = tn_seen t" "tn_expected t2 = tn_seen t"
    using t1 w by (simp_all add: aside_def)
  obtain s where s: "w_snapshots (tn_world t3) = w_snapshots (tn_world t) @ [s]" "sn_token s = tn_token t3"
    "r_snapshot_seq (w_run (tn_world t3)) = tn_seen t + 1" "tn_expected t3 = tn_seen t"
    using step_snapshot [OF step] t2 by auto
  have "committed (w_snapshots (tn_world t3)) (r_snapshot_seq (w_run (tn_world t3))) (tn_token t3) (tn_expected t3) t'"
  proof (cases entered)
    case True
    then have "park (st_job st) t3 = (Inr (), t')" using rest by (auto simp: act_Inr)
    then show ?thesis by (rule park_Inr)
  next
    case False
    then have "commit (t3\<lparr>tn_world := sync_job_metrics (st_job st) (tn_token t3) (tn_world t3)\<rparr>) = (Inr (), t')"
      using rest by (auto simp: act_Inr)
    from commit_Inr [OF this] show ?thesis by simp
  qed
  with s show ?thesis by (intro exI [of _ s]) (auto simp: committed_def)
qed

section \<open>A failure after a committed step\<close>

text \<open>
  The handler checks the number at which the last node was selected; a step that was committed
  since has moved the run past it.
\<close>

lemma validate_Inl: "validate_lease w = Inl e \<Longrightarrow> e = LeaseLost"
  by (auto simp: validate_lease_def split: option.splits if_splits)

lemma lock_stale: "r_snapshot_seq (w_run w) \<noteq> n \<Longrightarrow> lock_runtime_write n w = Inl LeaseLost"
proof (cases "validate_lease w")
  case (Inl e)
  then show ?thesis using validate_Inl by (simp add: lock_runtime_write_def)
next
  case (Inr r)
  moreover assume "r_snapshot_seq (w_run w) \<noteq> n"
  moreover obtain f where "snd r = w\<lparr>w_fence := f\<rparr>" using validate_Inr [of w "fst r" "snd r"] Inr by auto
  ultimately show ?thesis by (simp add: lock_runtime_write_def)
qed

lemma stale_handler:
  assumes "recoverable_turn (tn_token t) = Inr True" and "r_snapshot_seq (w_run (tn_world t)) \<noteq> tn_expected t"
    and "e \<noteq> DbErr"
  shows "handle st e t = (Inl LeaseLost, t)"
proof (cases "e = LeaseLost")
  case True
  then show ?thesis by (simp add: handle_def raises_def)
next
  case False
  then show ?thesis
    using assms lock_stale [OF assms(2)] by (simp add: handle_def abind_def asks_def attempt_def rows_res_def)
qed

section \<open>Inputs that arrive during a turn\<close>

lemma put_job_in: "j \<in> set jobs \<Longrightarrow> j_id j' = j_id j \<Longrightarrow> j' \<in> set (put_job j' jobs)"
  by (force simp: put_job_def)

lemma by_id_in: "by_id i jobs = Some j \<Longrightarrow> j \<in> set jobs \<and> j_id j = i"
  unfolding by_id_def by (rule find_job_Some)

text \<open>An open run with an input past the token's cursor ends its turn with the job due again.\<close>

lemma end_job_due:
  assumes "end_job token status message j w = Inr w'" and "run_open w" and "j \<in> set (w_jobs w)"
    and "has_unsynced_inputs w token = Inr True \<or> truthy (dget (j_payload j) ''rerun_requested'')"
  shows "\<exists>j' \<in> set (w_jobs w'). j_id j' = j_id j \<and> j_status j' = ''pending'' \<and> j_available j' = w_now w
    \<and> j_attempt j' = 0 \<and> j_lease j' = None"
proof -
  let ?j = "requeue_job (w_now w) (default_payload w (dpop ''rerun_requested'' (j_payload j))) j"
  have j: "j_id ?j = j_id j" by (simp add: requeue_job_def)
  have "w' = put_run_job ?j w"
    using assms(1,2,4) unfolding end_job_def Let_def
    by (auto simp only: rbind_eq_Inr sum.inject if_True if_False simp_thms)
  then have "?j \<in> set (w_jobs w')" using put_job_in [OF assms(3), of ?j] j by (simp add: put_run_job_def)
  then show ?thesis by (intro bexI [of _ ?j]) (simp_all add: requeue_job_def)
qed

lemma unsynced:
  "terminal_cursor token = Inr c \<Longrightarrow> ev \<in> set (w_events w) \<Longrightarrow> te_direction ev = ''input'' \<Longrightarrow> c < te_seq ev \<Longrightarrow>
   has_unsynced_inputs w token = Inr True"
  by (auto simp: has_unsynced_inputs_def events_after_def list_ex_iff)

lemma finish_due:
  assumes "finish_job_turn (Some i) token status message w = Inr w'" and "run_open w"
    and "terminal_cursor token = Inr c" and "ev \<in> set (w_events w)" and "te_direction ev = ''input''"
    and "c < te_seq ev"
  shows "\<exists>j' \<in> set (w_jobs w'). j_status j' = ''pending'' \<and> j_available j' = w_now w \<and> j_attempt j' = 0
    \<and> j_lease j' = None \<and> j_id j' = (case w_lease w of None \<Rightarrow> i | Some l \<Rightarrow>
        if by_id (l_job l) (w_jobs w) = None then i else l_job l)"
proof -
  obtain oj w1 j where v: "validate_lease w = Inr (oj, w1)"
    and j: "(case oj of None \<Rightarrow> by_id i (w_jobs w1) | Some j \<Rightarrow> Some j) = Some j"
    and e: "end_job token status message j w1 = Inr w'"
    using assms(1) by (auto simp: finish_job_turn_def rbind_eq_Inr split: option.splits)
  obtain f where w1: "w1 = w\<lparr>w_fence := f\<rparr>" using validate_Inr [OF v] by blast
  have "j \<in> set (w_jobs w) \<and> j_id j = (case w_lease w of None \<Rightarrow> i | Some l \<Rightarrow>
      if by_id (l_job l) (w_jobs w) = None then i else l_job l)"
  proof (cases oj)
    case None
    then show ?thesis using validate_Inr [OF v] j w1 by_id_in by (fastforce split: option.splits)
  next
    case (Some j0)
    then obtain l where l: "w_lease w = Some l" "j_id j0 = l_job l" "j0 \<in> set (w_jobs w)"
      using validate_Inr [OF v] by auto
    then have "by_id (l_job l) (w_jobs w) \<noteq> None" by (auto simp: by_id_def find_job_None)
    with l Some j show ?thesis by auto
  qed
  moreover have "run_open w1" "has_unsynced_inputs w1 token = Inr True"
    using assms(2) unsynced [OF assms(3-6)] by (simp_all add: w1 run_open_def has_unsynced_inputs_def)
  ultimately show ?thesis using end_job_due [OF e] by (auto simp: w1)
qed

end
