(* ===== verification/TurnTheorems.thy ===== *)
theory TurnTheorems
  imports RunLoop
begin

text \<open>
  The properties of a turn: its logs, its lease, its commits, the inputs and the cancellation
  that arrive while it runs, the decisions of evaluation nodes, and what a failure leaves.
\<close>

section \<open>Samples\<close>

definition sample_run :: run_row where
  "sample_run = \<lparr>r_id = ''run'', r_status = ''running'', r_phase = ''start'', r_snapshot_seq = 1,
     r_terminal_seq = 0, r_trace_seq = 0, r_output = [], r_exit = [], r_started = None, r_ended = None\<rparr>"

definition running_job :: job where
  "running_job = \<lparr>j_id = ''j'', j_type = ''runtime'', j_status = ''running'', j_payload = [],
     j_run = Some ''run'', j_request = None, j_worker = ''w'', j_lease = Some 100, j_available = 0,
     j_dedupe = ''job:runtime:run'', j_attempt = 1, j_max = 3, j_metrics = [], j_error = [],
     j_started = Some 0, j_finished = None, j_created = 0\<rparr>"

definition running_lease :: lease where
  "running_lease = \<lparr>l_job = ''j'', l_type = ''runtime'', l_owner = ''w'', l_attempt = 1, l_max = 3, l_until = 100\<rparr>"

definition received_token :: dict where
  "received_token = [(''phase'', JStr ''start''), (''status'', JStr ''running''),
     (''control'', JObj [(''wait'', JObj [(''status'', JStr ''received'')]),
        (''latest_evidence'', JObj [(''direction'', JStr ''input'')])])]"

definition sample_world :: world where
  "sample_world = \<lparr>w_run = sample_run, w_invocation = ''running'', w_session = None, w_bindings = [],
     w_objects = [], w_snapshots = [\<lparr>sn_seq = 1, sn_token = received_token, sn_enabled = [], sn_summary = [], sn_hash = []\<rparr>],
     w_traces = [], w_events = [], w_jobs = [running_job], w_lease = Some running_lease, w_fence = None,
     w_healthy = True, w_now = 10, w_iso = ''now'', w_ids = 0\<rparr>"

definition sample_services :: env where
  "sample_services = \<lparr>en_uuid = nat_str, en_sha = (\<lambda>s. s), en_text = exc_class, en_details = (\<lambda>_. []),
     en_loads = (\<lambda>_. None), en_max_attempts = 3\<rparr>"

definition start_node :: dict where
  "start_node = [(''id'', JStr ''start''), (''kind'', JStr ''start'')]"

definition sample_setting :: setting where
  "sample_setting = \<lparr>st_env = sample_services, st_artifact = [(''nodes'', JArr [JObj start_node])], st_job = Some ''j'',
     st_runner = (\<lambda>_. \<lparr>re_invoke = (\<lambda>node token. Inl NotFound), re_validate = Inr, re_late = False\<rparr>),
     st_others = (\<lambda>_. [])\<rparr>"

definition sample_turn :: turn where
  "sample_turn = (new_turn sample_world sample_world)\<lparr>tn_token := received_token\<rparr>"

lemma sample_facts:
  "run_open sample_world" "run_job sample_world = Some running_job" "j_status running_job = ''running''"
  "w_lease sample_world = Some running_lease" "w_fence sample_world = None" "l_job running_lease = j_id running_job"
  "w_healthy sample_world" "w_jobs sample_world = [running_job]" "holds_lease (w_now sample_world) running_lease running_job"
  by (simp_all add: run_open_def run_job_def find_job_def job_key_def sample_world_def sample_run_def
      running_job_def running_lease_def holds_lease_def owns_def)

section \<open>The logs of a turn\<close>


section \<open>The lease of a turn\<close>

text \<open>C2. A turn whose lease was lost between two commits commits nothing more: if no row is held
  under the lease after the others' moves before an iteration, then the rest of the turn and its
  handler end in an exception, and the committed rows are those the others left.\<close>

theorem lost_turn_commits_nothing:
  assumes "lease_cut (run_moves (st_env st) (st_others st k) (tn_world t))"
  shows "\<exists>e e' t'. fst (abind (run_steps st n m k fuel) (after_loop st) t) = Inl e
    \<and> handle st e (snd (abind (run_steps st n m k fuel) (after_loop st) t)) = (Inl e', t')
    \<and> tn_saved t' = run_moves (st_env st) (st_others st k) (tn_world t)"
  using lost_turn [OF assms, of n m fuel] by (metis prod.collapse)

theorem lost_turn_commits_nothing_witness:
  "lease_cut (sample_world\<lparr>w_jobs := []\<rparr>)
   \<and> (\<exists>e e' t'. fst (abind (run_steps sample_setting 0 16 0 5) (after_loop sample_setting)
        (sample_turn\<lparr>tn_world := sample_world\<lparr>w_jobs := []\<rparr>\<rparr>)) = Inl e
      \<and> handle sample_setting e (snd (abind (run_steps sample_setting 0 16 0 5) (after_loop sample_setting)
        (sample_turn\<lparr>tn_world := sample_world\<lparr>w_jobs := []\<rparr>\<rparr>))) = (Inl e', t')
      \<and> tn_saved t' = sample_world\<lparr>w_jobs := []\<rparr>)"
proof -
  have "lease_cut (sample_world\<lparr>w_jobs := []\<rparr>)" by (simp add: lease_cut_def sample_world_def)
  moreover have "run_moves (st_env sample_setting) (st_others sample_setting 0)
      (tn_world (sample_turn\<lparr>tn_world := sample_world\<lparr>w_jobs := []\<rparr>\<rparr>)) = sample_world\<lparr>w_jobs := []\<rparr>"
    by (simp add: run_moves_def sample_setting_def)
  ultimately show ?thesis
    using lost_turn_commits_nothing [of sample_setting 0 "sample_turn\<lparr>tn_world := sample_world\<lparr>w_jobs := []\<rparr>\<rparr>" 0 16 5]
    by simp
qed

lemma cancel_jobs:
  assumes "cancel_run env reason w = Inr w'" and "run_open w" and "run_job w = Some j"
  shows "r_status (w_run w') = ''cancelled'' \<and> w_jobs w' = put_job (cancel_job (w_now w) reason j) (w_jobs w)
    \<and> w_lease w' = w_lease w \<and> w_fence w' = w_fence w"
proof -
  have "r_status (w_run w) \<noteq> ''cancelled''" using assms(2) by (auto simp: run_open_def)
  then show ?thesis
    using assms unfolding cancel_run_def Let_def
    by (auto simp: rbind_eq_Inr append_cancel_snapshot_def append_snapshot_def append_trace_def on_run_def
        put_run_job_def close_session_def Let_def split: if_splits)
qed

text \<open>C8. Cancelling a run while a turn is in work is final: when \<^verbatim>\<open>cancel_run\<close> comes between two
  commits of the turn that holds the run's job, the rest of the turn ends in an exception and the
  committed rows are the cancelled ones.\<close>

theorem cancelled_turn_commits_nothing:
  assumes "cancel_run env reason ((tn_world t)\<lparr>w_lease := None, w_fence := None\<rparr>) = Inr w"
    and "run_open (tn_world t)" and "run_job (tn_world t) = Some j" and "j_status j = ''running''"
    and "w_lease (tn_world t) = Some l" and "w_fence (tn_world t) = None" and "l_job l = j_id j"
    and "st_env st = env" and "st_others st k = [Cancel reason]"
  shows "\<exists>e e' t'. fst (abind (run_steps st n m k fuel) (after_loop st) t) = Inl e
    \<and> handle st e (snd (abind (run_steps st n m k fuel) (after_loop st) t)) = (Inl e', t')
    \<and> r_status (w_run (tn_saved t')) = ''cancelled'' \<and> w_snapshots (tn_saved t') = w_snapshots w"
proof -
  let ?v = "(tn_world t)\<lparr>w_lease := None, w_fence := None\<rparr>"
  let ?w = "run_moves (st_env st) (st_others st k) (tn_world t)"
  have "run_open ?v" "run_job ?v = Some j"
    using assms(2,3) by (simp_all add: run_open_def run_job_def job_key_def)
  note c = cancel_jobs [OF assms(1) this]
  have moved: "?w = w\<lparr>w_lease := Some l, w_fence := None\<rparr>"
    using assms by (simp add: run_moves_def elsewhere_def)
  have "\<not> owns l x" if x: "x \<in> set (w_jobs w)" for x
  proof (cases "j_id x = j_id j")
    case True
    then have "x = cancel_job (w_now ?v) reason j"
      using c x assms(4) by (auto simp: put_job_def cancel_job_def split: if_splits)
    then show ?thesis using assms(4) by (simp add: cancel_job_def owns_def)
  next
    case False
    then show ?thesis using assms(7) by (simp add: owns_def)
  qed
  then have "lease_cut ?w" using moved by (simp add: lease_cut_def)
  then obtain e e' t' where "fst (abind (run_steps st n m k fuel) (after_loop st) t) = Inl e"
    "handle st e (snd (abind (run_steps st n m k fuel) (after_loop st) t)) = (Inl e', t')" "tn_saved t' = ?w"
    using lost_turn [of st k t n m fuel] by (metis prod.collapse)
  then show ?thesis using c moved by auto
qed

theorem cancelled_turn_commits_nothing_witness:
  "\<exists>st t e e' t'. fst (abind (run_steps st 0 16 0 5) (after_loop st) t) = Inl e
    \<and> handle st e (snd (abind (run_steps st 0 16 0 5) (after_loop st) t)) = (Inl e', t')
    \<and> run_open (tn_world t) \<and> r_status (w_run (tn_saved t')) = ''cancelled''"
proof -
  let ?st = "sample_setting\<lparr>st_others := (\<lambda>_. [Cancel ''stop''])\<rparr>"
  have w: "tn_world sample_turn = sample_world" by (simp add: sample_turn_def new_turn_def)
  obtain w where "cancel_run sample_services ''stop'' ((tn_world sample_turn)\<lparr>w_lease := None, w_fence := None\<rparr>) = Inr w"
    unfolding w by (simp add: cancel_run_def run_open_def sample_world_def sample_run_def append_cancel_snapshot_def
        cancelled_token_def received_token_def dget_or_def close_session_def on_run_def Let_def)
  from cancelled_turn_commits_nothing [OF this, of running_job running_lease ?st 0 0 16 5]
  obtain e e' t' where "fst (abind (run_steps ?st 0 16 0 5) (after_loop ?st) sample_turn) = Inl e"
    "handle ?st e (snd (abind (run_steps ?st 0 16 0 5) (after_loop ?st) sample_turn)) = (Inl e', t')"
    "r_status (w_run (tn_saved t')) = ''cancelled''"
    unfolding w by (auto simp: sample_facts sample_setting_def)
  moreover have "run_open (tn_world sample_turn)" unfolding w by (rule sample_facts)
  ultimately show ?thesis by blast
qed

section \<open>The commits of a turn\<close>

text \<open>C34. A committed step is where the next turn resumes: the last committed snapshot is the
  token the turn goes on with, it is the only new one, and its number is the next one after the
  snapshot the node was selected at.\<close>

theorem committed_step_resumes:
  assumes "run_node st k n node t = (Inr over, t')"
  shows "\<exists>s. w_snapshots (tn_saved t') = w_snapshots (tn_world t) @ [s] \<and> sn_token s = tn_token t'
    \<and> r_snapshot_seq (w_run (tn_saved t')) = tn_seen t + 1"
  using run_node_Inr [OF assms] by (auto simp: committed_def)

lemma start_executes:
  "execute_node_act renv artifact start_node t = (Inr [(''started'', JBool True), (''summary'', JStr STARTED_SUMMARY)], t)"
  by (simp add: execute_node_act_def execute_node_def start_node_def)

lemma start_merges:
  "merge_observation start_node received_token obs
   = Inr (dset ''observations'' (JObj [(''start'', JObj (observation_for_token obs))]) received_token)"
  by (simp add: merge_observation_def start_node_def received_token_def keep_observation_def dget_or_def
      merge_writes_def apply_writes_def dsetdefault_def dhas_def dset_def Let_def)

lemma start_interacts:
  "w_session (tn_world t) = None \<Longrightarrow> apply_node_interaction env artifact n start_node obs t = (Inr False, t)"
  by (simp add: apply_node_interaction_def decide_def node_is_evaluation_def interaction_of_def start_node_def
      wait_after_output_def interaction_output_def abind_def ret_def asks_def Let_def starts_with_def str_field_def str_or_def)

lemma start_steps:
  "w_session (tn_world t) = None \<Longrightarrow> \<exists>t'. append_runtime_step env start_node obs enabled t = (Inr (), t')
    \<and> tn_token t' = tn_token t \<and> w_lease (tn_world t') = w_lease (tn_world t) \<and> w_fence (tn_world t') = w_fence (tn_world t)
    \<and> w_healthy (tn_world t') = w_healthy (tn_world t) \<and> w_jobs (tn_world t') = w_jobs (tn_world t)"
  by (simp add: append_runtime_step_def start_node_def node_id_item_def dhas_def abind_def ret_def asks_def
      attempt_def edit_rows_def snapshot_def trace_def on_rows_def append_snapshot_def append_trace_def on_run_def Let_def)

lemma sample_locks: "lock_runtime_write 1 sample_world = Inr (sample_world\<lparr>w_fence := Some ''w''\<rparr>)"
  by (simp add: lock_runtime_write_def validate_lease_def sample_facts find_job_def)
    (simp add: sample_world_def sample_run_def running_lease_def)

lemma sample_node:
  "\<exists>t'. run_node sample_setting 0 0 start_node sample_turn = (Inr False, t') \<and> recoverable_turn (tn_token t') = Inr True"
proof -
  let ?obs = "[(''started'', JBool True), (''summary'', JStr STARTED_SUMMARY)]"
  let ?token = "dset ''observations'' (JObj [(''start'', JObj (observation_for_token ?obs))]) received_token"
  let ?t1 = "sample_turn\<lparr>tn_expected := 1\<rparr>"
  let ?t2 = "?t1\<lparr>tn_world := sample_world\<lparr>w_fence := Some ''w''\<rparr>, tn_token := ?token\<rparr>"
  have seen: "tn_seen sample_turn = 1" "tn_world sample_turn = sample_world" "tn_token sample_turn = received_token"
    by (simp_all add: sample_turn_def new_turn_def sample_world_def sample_run_def)
  have session: "w_session (tn_world ?t2) = None" by (simp add: sample_world_def)
  have "enabled_nodes (st_artifact sample_setting) ?token = Inr [] \<or> enabled_nodes (st_artifact sample_setting) ?token = Inr [start_node]"
    by (simp add: enabled_nodes_def sample_setting_def dget_or_def only_objs_def)
  then obtain enabled where enabled: "enabled_after (st_artifact sample_setting) False ?token = Inr enabled"
    by (auto simp: enabled_after_def node_id_item_def start_node_def dhas_def)
  obtain t3 where step: "append_runtime_step sample_services start_node ?obs enabled ?t2 = (Inr (), t3)"
    and t3: "tn_token t3 = ?token" "w_lease (tn_world t3) = w_lease (tn_world ?t2)" "w_fence (tn_world t3) = w_fence (tn_world ?t2)"
    "w_healthy (tn_world t3) = w_healthy (tn_world ?t2)" "w_jobs (tn_world t3) = w_jobs (tn_world ?t2)"
    using start_steps [OF session] by fastforce
  let ?w = "sync_job_metrics (Some ''j'') ?token (tn_world t3)"
  have same: "w_lease ?w = w_lease (tn_world t3)" "w_fence ?w = w_fence (tn_world t3)" "w_healthy ?w = w_healthy (tn_world t3)"
    by (simp_all add: sync_job_metrics_def put_run_job_def split: option.split)
  have "validate_lease ?w = Inr (by_id ''j'' (w_jobs ?w), ?w)"
    unfolding validate_lease_def same using t3 sample_facts by (simp add: running_lease_def)
  then have "commit_rows ?w = Inr (?w\<lparr>w_fence := None\<rparr>)" by (simp add: commit_rows_def)
  then have "\<exists>t'. run_node sample_setting 0 0 start_node sample_turn = (Inr False, t') \<and> tn_token t' = ?token"
    using start_executes start_merges start_interacts [OF session] enabled step seen sample_locks t3(1)
    by (simp add: run_node_def abind_def expect_seen_def asks_def attempt_def rows_res_def put_token_def ret_def
        edit_rows_def commit_def sample_setting_def)
  moreover have "recoverable_turn ?token = Inr True"
    by (simp add: recoverable_turn_def token_control_def token_wait_def received_token_def in_str_set_def Let_def)
  ultimately show ?thesis by metis
qed

theorem committed_step_resumes_witness:
  "\<exists>t' s. run_node sample_setting 0 0 start_node sample_turn = (Inr False, t')
    \<and> w_snapshots (tn_saved t') = w_snapshots sample_world @ [s] \<and> sn_token s = tn_token t'"
proof -
  obtain t' where t': "run_node sample_setting 0 0 start_node sample_turn = (Inr False, t')" using sample_node by blast
  from committed_step_resumes [OF this] t' show ?thesis by (auto simp: sample_turn_def new_turn_def)
qed



section \<open>Inputs that arrive during a turn\<close>

lemma usage_fields [simp]:
  "j_id (set_usage_from_budgets b j) = j_id j" "j_status (set_usage_from_budgets b j) = j_status j"
  "j_available (set_usage_from_budgets b j) = j_available j" "j_attempt (set_usage_from_budgets b j) = j_attempt j"
  "j_lease (set_usage_from_budgets b j) = j_lease j"
  by (cases b; simp add: set_usage_from_budgets_def)+

lemma finish_ids: "finish_job_turn jid token status message w = Inr w' \<Longrightarrow> map j_id (w_jobs w') = map j_id (w_jobs w)"
  unfolding finish_job_turn_def
  by (cases jid) (auto simp: rbind_eq_Inr put_run_job_def dest!: validate_Inr end_job_Inr split: option.splits)

lemma metrics_keep:
  assumes "distinct (map j_id (w_jobs w))" and "j \<in> set (w_jobs w)"
  shows "\<exists>j' \<in> set (w_jobs (sync_job_metrics (Some i) token w)). j_status j' = j_status j
    \<and> j_available j' = j_available j \<and> j_attempt j' = j_attempt j \<and> j_lease j' = j_lease j"
proof (cases "by_id i (w_jobs w)")
  case None
  then show ?thesis using assms(2) by (auto simp: sync_job_metrics_def)
next
  case (Some j0)
  let ?j = "set_usage_from_budgets (dget token ''budgets'') j0"
  have j0: "j0 \<in> set (w_jobs w)" using by_id_in [OF Some] by simp
  show ?thesis
  proof (cases "j_id j = j_id j0")
    case True
    then have "j = j0" using assms j0 by (metis inj_on_def distinct_map)
    moreover have "?j \<in> set (put_job ?j (w_jobs w))" by (rule put_job_in [OF j0]) simp
    ultimately show ?thesis by (intro bexI [of _ ?j]) (simp_all add: sync_job_metrics_def Some put_run_job_def)
  next
    case False
    then have "j \<in> set (put_job ?j (w_jobs w))" using assms(2) by (force simp: put_job_def)
    then show ?thesis by (intro bexI [of _ j]) (simp_all add: sync_job_metrics_def Some put_run_job_def)
  qed
qed

text \<open>C3. No input is left behind: when a turn parks, an input event past the token's cursor puts
  the turn's job back in the queue, due now, with a fresh attempt budget and no lease.\<close>

theorem late_input_is_served:
  assumes "park (Some i) t = (Inr (), t')"
    and "terminal_cursor (tn_token t) = Inr c"
    and "ev \<in> set (w_events (tn_world t))" and "te_direction ev = ''input''" and "c < te_seq ev"
    and "distinct (map j_id (w_jobs (tn_world t)))"
  shows "\<exists>j \<in> set (w_jobs (tn_saved t')). j_status j = ''pending'' \<and> j_available j = w_now (tn_world t)
    \<and> j_attempt j = 0 \<and> j_lease j = None"
proof -
  let ?w = "(on_run (set_run ''waiting_input'' (runtime_phase_from_token (tn_token t))) (tn_world t))
    \<lparr>w_invocation := ''running''\<rparr>"
  obtain w u where w: "finish_job_turn (Some i) (tn_token t) ''succeeded'' [] ?w = Inr w"
    and c: "commit (t\<lparr>tn_world := sync_job_metrics (Some i) (tn_token t) w\<rparr>) = (Inr u, t')"
    using assms(1) unfolding park_def end_turn_def by (auto simp: act_Inr)
  obtain j where j: "j \<in> set (w_jobs w)" "j_status j = ''pending''" "j_available j = w_now ?w" "j_attempt j = 0" "j_lease j = None"
    using finish_due [OF w _ assms(2) _ assms(4,5)] assms(3)
    by (auto simp: run_open_def on_run_def set_run_def)
  have "distinct (map j_id (w_jobs w))" using finish_ids [OF w] assms(6) by (simp add: on_run_def)
  from metrics_keep [OF this j(1), of i "tn_token t"] j
  have "\<exists>j \<in> set (w_jobs (sync_job_metrics (Some i) (tn_token t) w)). j_status j = ''pending''
    \<and> j_available j = w_now (tn_world t) \<and> j_attempt j = 0 \<and> j_lease j = None"
    by (auto simp: on_run_def)
  moreover have "w_jobs (tn_saved t') = w_jobs (sync_job_metrics (Some i) (tn_token t) w)"
    using c unfolding commit_def by (auto simp: act_Inr commit_rows_def rbind_eq_Inr dest!: validate_Inr)
  ultimately show ?thesis by simp
qed

definition late_event :: tevent where
  "late_event = \<lparr>te_id = ''e'', te_seq = 1, te_direction = ''input'', te_kind = ''terminal.text.input.v1'',
     te_mime = ''text/plain'', te_payload = JStr ''hi'', te_artifact = None, te_binding = None, te_source = JObj [],
     te_external = Some ''x'', te_trace = None, te_at = ''now'', te_parts = []\<rparr>"

definition late_turn :: turn where
  "late_turn = sample_turn\<lparr>tn_world := sample_world\<lparr>w_events := [late_event]\<rparr>\<rparr>"

lemma late_turn_parks: "\<exists>t'. park (Some ''j'') late_turn = (Inr (), t')"
proof -
  let ?w = "(on_run (set_run ''waiting_input'' (runtime_phase_from_token received_token)) (sample_world\<lparr>w_events := [late_event]\<rparr>))
    \<lparr>w_invocation := ''running''\<rparr>"
  have v: "validate_lease ?w = Inr (Some running_job, ?w\<lparr>w_fence := Some ''w''\<rparr>)"
    using sample_facts by (simp add: validate_lease_def on_run_def find_job_def) (simp add: running_lease_def)
  have cursor: "terminal_cursor received_token = Inr 0"
    by (simp add: terminal_cursor_def received_token_def get_path_def int_or0_def)
  have late: "list_ex (\<lambda>ev. te_direction ev = ''input'') (events_after 0 [late_event])"
    by (simp add: events_after_def late_event_def)
  obtain w where w: "end_job received_token ''succeeded'' [] running_job (?w\<lparr>w_fence := Some ''w''\<rparr>) = Inr w"
    "w_lease w = Some running_lease" "w_fence w = Some ''w''" "w_healthy w"
    using cursor sample_facts late
    by (simp add: end_job_def has_unsynced_inputs_def Let_def put_run_job_def on_run_def run_open_def set_run_def)
  have f: "finish_job_turn (Some ''j'') received_token ''succeeded'' [] ?w = Inr w"
    using v w by (simp add: finish_job_turn_def)
  let ?m = "sync_job_metrics (Some ''j'') received_token w"
  have "w_lease ?m = w_lease w" "w_fence ?m = w_fence w" "w_healthy ?m = w_healthy w"
    by (simp_all add: sync_job_metrics_def put_run_job_def split: option.split)
  then have "commit_rows ?m = Inr (?m\<lparr>w_fence := None\<rparr>)"
    using w by (simp add: commit_rows_def validate_lease_def running_lease_def)
  with f show ?thesis
    by (simp add: park_def end_turn_def late_turn_def sample_turn_def new_turn_def abind_def asks_def edit_rows_def
        rows_res_def commit_def)
qed

theorem late_input_is_served_witness:
  "\<exists>t'. park (Some ''j'') late_turn = (Inr (), t') \<and> (\<exists>j \<in> set (w_jobs (tn_saved t')). j_status j = ''pending'' \<and> j_attempt j = 0)"
proof -
  obtain t' where p: "park (Some ''j'') late_turn = (Inr (), t')" using late_turn_parks by blast
  have "terminal_cursor (tn_token late_turn) = Inr 0" "late_event \<in> set (w_events (tn_world late_turn))"
    "te_direction late_event = ''input''" "0 < te_seq late_event" "distinct (map j_id (w_jobs (tn_world late_turn)))"
    by (simp_all add: late_turn_def sample_turn_def late_event_def terminal_cursor_def received_token_def
        get_path_def int_or0_def sample_world_def)
  from late_input_is_served [OF p this] p show ?thesis by blast
qed

lemma find_snoc: "find P xs = None \<Longrightarrow> P x \<Longrightarrow> find P (xs @ [x]) = Some x"
  by (induction xs) (auto split: if_splits)

text \<open>C33. Appending through the API is idempotent: repeating a request under its external id
  returns the event that the first call appended and changes nothing.\<close>

theorem append_is_idempotent:
  assumes "append_terminal_event env q w = Inr (ev, w')" and "er_external q = Some x" and "x \<noteq> []"
  shows "append_terminal_event env q w' = Inr (ev, w')"
proof (cases "known_event q w")
  case (Some known)
  then show ?thesis using append_terminal_event_Inr [OF assms(1)] by (auto simp: append_terminal_event_def)
next
  case None
  then obtain s w1 where a: "append_event env s q w = Inr (ev, w1)"
    and w': "w' = (if er_direction q = ''input'' then ensure_job_pending env w1 else w1)"
    using append_terminal_event_Inr [OF assms(1)] by auto
  have events: "w_events w' = w_events w @ [ev]" "te_external ev = Some x"
    using append_event_Inr [OF a] assms(2)
    by (auto simp: w' ensure_job_pending_def put_run_job_def on_run_def split: option.split)
  have "find (\<lambda>ev. te_external ev = Some x) (w_events w) = None"
    using None assms(2,3) by (simp add: known_event_def)
  then have "find (\<lambda>ev. te_external ev = Some x) (w_events w @ [ev]) = Some ev"
    by (rule find_snoc) (simp add: events(2))
  then have "known_event q w' = Some ev" using assms(2,3) events by (simp add: known_event_def)
  then show ?thesis by (simp add: append_terminal_event_def)
qed

definition open_world :: world where
  "open_world = sample_world\<lparr>w_session := Some \<lparr>ts_id = ''s'', ts_run = ''run'', ts_status = ''open'', ts_closed = None\<rparr>\<rparr>"

theorem append_is_idempotent_witness:
  "\<exists>ev w'. append_terminal_event sample_services
      (output_request ''text/plain'' (JStr ''hi'') []\<lparr>er_external := Some ''x''\<rparr>) open_world = Inr (ev, w')
    \<and> w_events w' = [ev]
    \<and> append_terminal_event sample_services
      (output_request ''text/plain'' (JStr ''hi'') []\<lparr>er_external := Some ''x''\<rparr>) w' = Inr (ev, w')"
proof -
  let ?q = "output_request ''text/plain'' (JStr ''hi'') []\<lparr>er_external := Some ''x''\<rparr>"
  have norms: "norm_text ''output'' = ''output''" "norm_text ''text/plain'' = ''text/plain''"
    by (simp_all add: norm_text_def strip_plain printable_def lower_def lower_char_def)
  have w: "run_open open_world" "w_events open_world = []" "w_bindings open_world = []" "r_id (w_run open_world) = ''run''"
    "w_session open_world = Some \<lparr>ts_id = ''s'', ts_run = ''run'', ts_status = ''open'', ts_closed = None\<rparr>"
    by (simp_all add: open_world_def sample_world_def sample_run_def run_open_def)
  obtain ev w1 where "append_event sample_services \<lparr>ts_id = ''s'', ts_run = ''run'', ts_status = ''open'', ts_closed = None\<rparr>
      ?q open_world = Inr (ev, w1)" "w_events w1 = [ev]"
    by (simp add: append_event_def output_request_def w norms resolve_binding_def default_binding_id_def run_bindings_def
        normalize_parts_def default_parts_def text_from_payload_def part_rows_def starts_with_def on_run_def Let_def)
  then have "append_terminal_event sample_services ?q open_world = Inr (ev, w1)"
    by (simp add: append_terminal_event_def known_event_def w) (simp add: output_request_def)
  with \<open>w_events w1 = [ev]\<close> append_is_idempotent [OF this, of "''x''"] show ?thesis by (auto simp: output_request_def)
qed

section \<open>Decisions of evaluation nodes\<close>

text \<open>C32. An evaluation that proceeds or completes moves the token to a node of the artifact: the
  phase it leaves is the id of one of the artifact's nodes, whatever the model suggested.\<close>

theorem evaluation_moves_inside_the_artifact:
  assumes "apply_node_interaction env artifact n node obs t = (Inr entered, t')"
    and "node_is_evaluation node" and "decision_of obs \<in> {''proceed'', ''complete''}"
  shows "\<exists>id \<in> set (artifact_node_ids artifact). dget (tn_token t') ''phase'' = JStr id"
proof -
  obtain dr t1 t2 again where dr: "decide artifact node obs t = (Inr dr, t1)"
    and a: "apply_decision artifact node obs (snd dr) t2 = (Inr again, t')"
    using assms(1,2) unfolding apply_node_interaction_def
    by (simp only: abind_Inr act_Inr(2) if_True) (elim exE conjE, hypsubst, blast)
  obtain decision resolved where d: "decide artifact node obs t = (Inr (decision, resolved), t1)" "dr = (decision, resolved)"
    using dr by (cases dr) simp
  have "resolved = evaluation_transition artifact node (decision_of obs)" "resolved \<noteq> []"
    using d(1) assms(2,3) unfolding decide_def Let_def by (auto simp: act_Inr split: if_splits)
  then have "resolved \<in> set (artifact_node_ids artifact)" using evaluation_transition_node by simp
  moreover have "dget (tn_token t') ''phase'' = JStr resolved" using apply_decision_moves [OF a assms(3)] d(2) by simp
  ultimately show ?thesis by blast
qed

definition evaluate_node :: dict where
  "evaluate_node = [(''id'', JStr ''evaluate_a''), (''kind'', JStr ''llm''),
     (''interaction'', JObj [(''transitions'', JObj [(''proceed'', JStr ''start'')])])]"

definition proceed_obs :: dict where
  "proceed_obs = [(''decision'', JStr ''proceed'')]"

lemma evaluate_node_runs:
  "\<exists>t'. apply_node_interaction sample_services [(''nodes'', JArr [JObj start_node, JObj evaluate_node])] 0
     evaluate_node proceed_obs sample_turn = (Inr False, t')"
proof -
  let ?artifact = "[(''nodes'', JArr [JObj start_node, JObj evaluate_node])]"
  have decision: "decision_of proceed_obs = ''proceed''"
    by (simp add: decision_of_def proceed_obs_def norm_text_def strip_plain printable_def lower_def lower_char_def str_field_def str_or_def)
  have evaluation: "node_is_evaluation evaluate_node"
    by (simp add: node_is_evaluation_def evaluate_node_def starts_with_def str_field_def str_or_def)
  have "evaluation_transition ?artifact evaluate_node ''proceed'' = ''start''"
    by (simp add: evaluation_transition_def interaction_transition_def interaction_of_def evaluate_node_def
        start_node_def artifact_node_ids_def artifact_objs_def only_objs_def str_field_def str_or_def strip_plain printable_def)
  moreover have "merge_evidence now ?artifact evaluate_node proceed_obs received_token = Inr received_token" for now
    by (simp add: merge_evidence_def proceed_obs_def received_token_def)
  ultimately have "decide ?artifact evaluate_node proceed_obs sample_turn = (Inr (''proceed'', ''start''), sample_turn)"
    by (simp add: decide_def evaluation decision abind_def asks_def attempt_def put_token_def ret_def sample_turn_def new_turn_def)
  moreover have "wait_after_output sample_services ?artifact evaluate_node proceed_obs 0 t = (Inr (False, False), t)" for t
    by (simp add: wait_after_output_def interaction_of_def evaluate_node_def ret_def)
  moreover have "interaction_output sample_services ?artifact evaluate_node proceed_obs a b c sample_turn = (Inr (), sample_turn)" for a b c
    by (simp add: interaction_output_def abind_def asks_def ret_def sample_turn_def new_turn_def sample_world_def Let_def)
  moreover have "\<exists>t'. apply_decision ?artifact evaluate_node proceed_obs ''start'' sample_turn = (Inr False, t')"
    by (simp add: apply_decision_def decision control_act_def abind_def asks_def edit_token_def ret_def sample_turn_def
        new_turn_def received_token_def Let_def)
  ultimately show ?thesis using evaluation by (auto simp: apply_node_interaction_def abind_def ret_def)
qed

theorem evaluation_moves_inside_the_artifact_witness:
  "\<exists>t'. apply_node_interaction sample_services [(''nodes'', JArr [JObj start_node, JObj evaluate_node])] 0
     evaluate_node proceed_obs sample_turn = (Inr False, t')
   \<and> (\<exists>id \<in> {''start'', ''evaluate_a''}. dget (tn_token t') ''phase'' = JStr id)"
proof -
  have decision: "decision_of proceed_obs = ''proceed''"
    by (simp add: decision_of_def proceed_obs_def norm_text_def strip_plain printable_def lower_def lower_char_def str_field_def str_or_def)
  have evaluation: "node_is_evaluation evaluate_node"
    by (simp add: node_is_evaluation_def evaluate_node_def starts_with_def str_field_def str_or_def)
  have ids: "set (artifact_node_ids [(''nodes'', JArr [JObj start_node, JObj evaluate_node])]) = {''start'', ''evaluate_a''}"
    by (simp add: artifact_node_ids_def artifact_objs_def only_objs_def evaluate_node_def start_node_def str_field_def str_or_def)
  obtain t' where t': "apply_node_interaction sample_services [(''nodes'', JArr [JObj start_node, JObj evaluate_node])] 0
     evaluate_node proceed_obs sample_turn = (Inr False, t')" using evaluate_node_runs by blast
  from evaluation_moves_inside_the_artifact [OF this evaluation] t' show ?thesis
    unfolding ids by (simp add: decision)
qed

text \<open>A checkpoint that is not the run's first accepts only inputs that arrive after it opened:
  it waits, consumes nothing that is already in the event stream, and the lower end of its window
  is at least the latest terminal number.\<close>

theorem later_checkpoint_ignores_older_inputs:
  assumes "wait_after_output env artifact node obs turn_after t = (Inr (entered, resumed), t')"
    and "truthy (dget (interaction_of node) ''wait_after_output'')"
    and "has_prior_checkpoint (tn_token t)"
  shows "entered \<and> \<not> resumed \<and> dget (tn_token t') ''status'' = JStr ''waiting''
    \<and> r_terminal_seq (w_run (tn_world t)) \<le> accept_after (token_wait (tn_token t'))
    \<and> w_events (tn_world t') = w_events (tn_world t)"
  using wait_after_output_prior [OF assms] .

definition wait_node :: dict where
  "wait_node = [(''id'', JStr ''ask''), (''kind'', JStr ''llm''),
     (''interaction'', JObj [(''wait_after_output'', JBool True)])]"

lemma wait_node_runs: "\<exists>t'. wait_after_output sample_services [] wait_node [] 0 late_turn = (Inr (True, False), t')"
proof -
  have token: "tn_token late_turn = received_token" by (simp add: late_turn_def sample_turn_def)
  have world: "r_terminal_seq (w_run (tn_world late_turn)) = 0"
    by (simp add: late_turn_def sample_world_def sample_run_def)
  let ?artifact = "[] :: dict"
  have prior: "has_prior_checkpoint received_token"
    by (simp add: has_prior_checkpoint_def token_control_def received_token_def)
  have c: "\<exists>t1. enter_wait_checkpoint ?artifact wait_node [] n late_turn = (Inr (), t1)" for n
    by (simp add: enter_wait_checkpoint_def control_act_def append_checkpoint_def append_to_def abind_def asks_def
        edit_token_def attempt_def token received_token_def token_control_def dget_or_def)
  obtain t1 where t1: "enter_wait_checkpoint ?artifact wait_node []
      (max (checkpoint_accept_after 0 received_token) 0) late_turn = (Inr (), t1)" using c by blast
  note e = enter_wait_Inr [OF t1]
  have "accept_after (token_wait (tn_token t1)) = max (checkpoint_accept_after 0 received_token) 0"
    using e wait_object_window by simp
  moreover have "tn_world t1 = tn_world late_turn" using e by simp
  ultimately have "consume_pending_act t1 = (Inr False, t1)"
    using e world by (simp add: consume_pending_act_def abind_def asks_def attempt_def put_token_def ret_def
        consume_pending_def token_wait_def token_control_def)
  with t1 show ?thesis
    by (simp add: wait_after_output_def interaction_of_def wait_node_def abind_def asks_def token world prior
        trace_def on_rows_def ret_def Let_def)
qed

theorem later_checkpoint_ignores_older_inputs_witness:
  "\<exists>t'. wait_after_output sample_services [] wait_node [] 0 late_turn = (Inr (True, False), t')
    \<and> dget (tn_token t') ''status'' = JStr ''waiting''"
proof -
  obtain t' where t': "wait_after_output sample_services [] wait_node [] 0 late_turn = (Inr (True, False), t')"
    using wait_node_runs by blast
  have "truthy (dget (interaction_of wait_node) ''wait_after_output'')" "has_prior_checkpoint (tn_token late_turn)"
    by (simp_all add: interaction_of_def wait_node_def has_prior_checkpoint_def token_control_def received_token_def
        late_turn_def sample_turn_def)
  from later_checkpoint_ignores_older_inputs [OF t' this] t' show ?thesis by auto
qed

section \<open>What a failure leaves\<close>

text \<open>C38. A recovered turn waits again at its checkpoint: the recovered token is in the waiting
  state, its wait keeps the input window, and what was consumed stays consumed.\<close>

theorem recovery_returns_to_the_checkpoint:
  assumes "recover_token now token message tr event = Inr token'"
    and "is_obj (dget (token_control token) ''wait'')"
  shows "waiting_for_input token' \<and> dget token' ''phase'' = JStr ''waiting''
    \<and> dget (token_wait token') ''status'' = JStr ''waiting''
    \<and> dget (token_wait token') ''input_window'' = dget (token_wait token) ''input_window''
    \<and> dget (token_control token') ''terminal_consumption'' = dget (token_control token) ''terminal_consumption''"
  using recover_token_waits [OF assms] .

theorem recovery_returns_to_the_checkpoint_witness:
  "\<exists>token'. recover_token ''now'' received_token ''timeout''
      \<lparr>tr_id = ''t'', tr_seq = 1, tr_phase = [], tr_type = [], tr_span = [], tr_payload = []\<rparr> None = Inr token'
    \<and> waiting_for_input token'"
proof -
  obtain token' where r: "recover_token ''now'' received_token ''timeout''
      \<lparr>tr_id = ''t'', tr_seq = 1, tr_phase = [], tr_type = [], tr_span = [], tr_payload = []\<rparr> None = Inr token'"
    by (simp add: recover_token_def received_token_def reopen_wait_def append_to_def dget_or_def terminal_cursor_def
        get_path_def int_or0_def Let_def)
  have "is_obj (dget (token_control received_token) ''wait'')"
    by (simp add: token_control_def received_token_def)
  from recovery_returns_to_the_checkpoint [OF r this] r show ?thesis by blast
qed


text \<open>C39. A sanitised value has at most 9 levels and at most 100 items in each container, however
  large the exception's details are.\<close>

theorem sanitized_value_is_small: "fits 100 9 (sanitize 0 j)"
  using sanitize_fits [of 0 j] by simp

fun nest :: "nat \<Rightarrow> json \<Rightarrow> json" where
  "nest 0 j = j"
| "nest (Suc n) j = JArr [nest n j]"

lemma sanitize_nest: "d + n \<le> 9 \<Longrightarrow> sanitize d (nest n j) = nest n (sanitize (d + n) j)"
  by (induction n arbitrary: d) simp_all

definition SECRET :: json where
  "SECRET = JObj [(''password'', JStr ''hunter2'')]"

lemma secret_text: "str_contains ''hunter2'' (truncate_trace_string (py_repr SECRET))"
  by code_simp

text \<open>A secret that lies deeper than eight levels is not redacted: the sanitiser writes the
  text of the value, with the secret in it.\<close>

theorem deep_secret_is_not_redacted:
  "\<exists>s. sanitize 0 (nest 9 SECRET) = nest 9 (JStr s) \<and> str_contains ''hunter2'' s"
proof -
  have "sanitize 0 (nest 9 SECRET) = nest 9 (JStr (truncate_trace_string (py_repr SECRET)))"
    using sanitize_nest [of 0 9 SECRET] by (simp add: SECRET_def)
  with secret_text show ?thesis by blast
qed

text \<open>The reason stored by the aborting and finalising paths fits its column: it is the reason
  itself up to 255 characters, and exactly 255 characters of a longer one.\<close>

theorem exit_reason_fits: "py_len (truncate_exit_reason v) = min 255 (py_len v)"
  by (simp add: truncate_exit_reason_def py_len_take) (simp add: py_len_def is_cont_def)

definition image_part :: part_input where
  "image_part = \<lparr>pi_id = [], pi_kind = ''image'', pi_mime = ''image/png'', pi_text = [], pi_artifact = ''a'',
     pi_size = 1, pi_checksum = [], pi_metadata = []\<rparr>"

text \<open>Generated part ids can collide with given ones: two images of which the first is given
  the id \<^verbatim>\<open>image_2\<close> and the second none are both called \<^verbatim>\<open>image_2\<close>, and the unique key refuses the
  event.\<close>

theorem generated_part_id_collides:
  "rbind (validate_parts [] [image_part\<lparr>pi_id := ''image_2''\<rparr>, image_part]) (part_rows env ids [''a'']) = Inl DbErr"
proof -
  have norms: "norm_text ''image'' = ''image''" "norm_text ''image/png'' = ''image/png''" "strip ''image_2'' = ''image_2''"
    by (simp_all add: norm_text_def strip_plain printable_def lower_def lower_char_def)
  have two: "nat_str 2 = ''2''" by code_simp
  have nil: "strip [] = []" using norm_text_Nil by (simp add: norm_text_def lower_def)
  show ?thesis
    by (simp add: validate_part_def image_part_def part_kind_def norms nil starts_with_def count_of_def part_rows_def Let_def two numeral_2_eq_2 [symmetric])
qed

end
