(* ===== verification/Timeline.thy ===== *)
theory Timeline
  imports Evidence
begin

text \<open>
  The timelines of skill tests (\<^verbatim>\<open>backend/app/domain/skill_tests/service.py\<close>): normalisation of lanes,
  events, parts and sensor payloads, the cut of a forked timeline, and the asset ids it refers to.
  Python's \<^verbatim>\<open>float()\<close> on a JSON value, which rounds to a double, is a parameter,
  as are UUIDs and the text of a time.
\<close>

section \<open>Dictionaries\<close>

text \<open>\<^verbatim>\<open>{**a, **b}\<close>\<close>

definition merge_dict :: "dict \<Rightarrow> dict \<Rightarrow> dict" where
  "merge_dict a b = fold (\<lambda>p. dset (fst p) (snd p)) b a"

lemma merge_dict_Nil [simp]: "merge_dict a [] = a"
  by (simp add: merge_dict_def)

lemma merge_dict_Cons [simp]: "merge_dict a (p # b) = merge_dict (dset (fst p) (snd p) a) b"
  by (simp add: merge_dict_def)

section \<open>Lanes\<close>

definition lane :: "string \<Rightarrow> string \<Rightarrow> string \<Rightarrow> (string \<times> json) list \<Rightarrow> dict" where
  "lane i kind label rest = [(''id'', JStr i), (''kind'', JStr kind), (''label'', JStr label)] @ rest"

definition POSE_LABEL :: string where
  "POSE_LABEL = u8 [228, 184, 137, 232, 189, 180, 229, 174, 154, 228, 189, 141]"

definition TEXT_LABEL :: string where "TEXT_LABEL = u8 [230, 150, 135, 230, 156, 172]"
definition IMAGE_LABEL :: string where "IMAGE_LABEL = u8 [229, 155, 190, 231, 137, 135]"
definition AUDIO_LABEL :: string where "AUDIO_LABEL = u8 [233, 159, 179, 233, 162, 145]"
definition VIDEO_LABEL :: string where "VIDEO_LABEL = u8 [232, 167, 134, 233, 162, 145]"

definition DEFAULT_TIMELINE_LANES :: "dict list" where
  "DEFAULT_TIMELINE_LANES =
     [lane ''sensor.gps'' ''input'' ''GPS''
        [(''event_kind'', JStr ''sensor.gps.reading.v1''), (''mime_type'', JStr ''application/json'')],
      lane ''sensor.pose3d'' ''input'' POSE_LABEL
        [(''event_kind'', JStr ''sensor.pose3d.reading.v1''), (''mime_type'', JStr ''application/json'')],
      lane ''input.text'' ''input'' TEXT_LABEL [(''event_kind'', JStr ''terminal.text.input.v1'')],
      lane ''input.image'' ''input'' IMAGE_LABEL [(''event_kind'', JStr ''terminal.image.input.v1'')],
      lane ''input.audio'' ''input'' AUDIO_LABEL [(''event_kind'', JStr ''terminal.audio.input.v1'')],
      lane ''input.video'' ''input'' VIDEO_LABEL [(''event_kind'', JStr ''terminal.video.input.v1'')],
      lane ''expected.semantic'' ''output'' TEXT_LABEL []]"

definition lane_id_of :: "dict \<Rightarrow> string" where
  "lane_id_of l = py_str (dget l ''id'')"

definition raw_lanes :: "json \<Rightarrow> dict list" where
  "raw_lanes lanes = filter (\<lambda>l. truthy (dget l ''id'')) (only_objs (list_or_empty lanes))"

definition named_lane :: "dict \<Rightarrow> dict" where
  "named_lane l = dset ''id'' (JStr (lane_id_of l)) l"

definition raw_lane :: "dict list \<Rightarrow> dict \<Rightarrow> dict" where
  "raw_lane raw l = (case find (\<lambda>r. lane_id_of r = lane_id_of l) raw of None \<Rightarrow> [] | Some r \<Rightarrow> named_lane r)"

definition normalize_timeline_lanes :: "json \<Rightarrow> dict list" where
  "normalize_timeline_lanes lanes =
     (let raw = raw_lanes lanes in
      map (\<lambda>l. merge_dict (raw_lane raw l) l) DEFAULT_TIMELINE_LANES
      @ map named_lane (filter (\<lambda>r. lane_id_of r \<notin> set (map lane_id_of DEFAULT_TIMELINE_LANES)) raw))"

section \<open>Sensor payloads\<close>

text \<open>
  What is not code of the repository: \<^verbatim>\<open>float()\<close> (its result, or the text of a NaN or an infinity),
  the supply of UUIDs, and the ISO text of a time and back. Times are integers, in microseconds.
\<close>

datatype pyfloat = NotNumber | NotFinite string | Finite json

record timeline_env =
  tl_float :: "json \<Rightarrow> pyfloat"
  tl_uuid :: "nat \<Rightarrow> string"
  tl_iso :: "int \<Rightarrow> string"
  tl_time :: "string \<Rightarrow> int option"

definition sensor_required :: "string \<Rightarrow> string list" where
  "sensor_required lane_id =
     (if lane_id = ''sensor.gps'' then [''latitude'', ''longitude'']
      else if lane_id = ''sensor.pose3d'' then [''x'', ''y'', ''z''] else [])"

definition sensor_numeric :: "string \<Rightarrow> string list" where
  "sensor_numeric lane_id =
     (if lane_id = ''sensor.gps'' then [''latitude'', ''longitude'', ''altitude'', ''accuracy_m'']
      else if lane_id = ''sensor.pose3d'' then [''x'', ''y'', ''z'', ''roll'', ''pitch'', ''yaw''] else [])"

definition is_sensor_lane :: "string \<Rightarrow> bool" where
  "is_sensor_lane lane_id \<longleftrightarrow> lane_id \<in> {''sensor.gps'', ''sensor.pose3d''}"

definition no_value :: "dict \<Rightarrow> string \<Rightarrow> bool" where
  "no_value d k \<longleftrightarrow> dget d k \<in> {JNull, JStr []}"

fun sensor_numbers :: "timeline_env \<Rightarrow> string list \<Rightarrow> dict \<Rightarrow> dict res" where
  "sensor_numbers env [] d = Inr d"
| "sensor_numbers env (k # ks) d =
     (if no_value d k then sensor_numbers env ks d
      else (case tl_float env (dget d k) of
              NotNumber \<Rightarrow> Inl (Invalid ''sensor number'')
            | NotFinite text \<Rightarrow> Inl (Invalid ''sensor finite'')
            | Finite v \<Rightarrow> sensor_numbers env ks (dset k v d)))"

definition normalize_sensor_payload :: "timeline_env \<Rightarrow> string \<Rightarrow> json \<Rightarrow> dict res" where
  "normalize_sensor_payload env lane_id payload =
     if_obj payload
       (\<lambda>d. if list_ex (no_value d) (sensor_required lane_id) then Inl (Invalid ''sensor field'')
          else rbind (sensor_numbers env (sensor_numeric lane_id) d) (\<lambda>d'.
            Inr (if dget d' ''timestamp'' = JNull then d'
                 else dset ''timestamp'' (JStr (py_str (dget d' ''timestamp''))) d')))
       (Inl (Invalid ''sensor payload''))"

section \<open>Events\<close>

definition is_expectation_event :: "dict \<Rightarrow> bool" where
  "is_expectation_event ev \<longleftrightarrow> dget ev ''lane_id'' = JStr ''expected.semantic'' \<or> dhas ev ''expectation''"

definition default_event_kind :: "string \<Rightarrow> string" where
  "default_event_kind lane_id =
     (if lane_id = ''sensor.gps'' then ''sensor.gps.reading.v1''
      else if lane_id = ''sensor.pose3d'' then ''sensor.pose3d.reading.v1''
      else if str_contains ''image'' lane_id then ''terminal.image.input.v1''
      else if str_contains ''audio'' lane_id then ''terminal.audio.input.v1''
      else if str_contains ''video'' lane_id then ''terminal.video.input.v1''
      else ''terminal.text.input.v1'')"

definition default_mime :: "string \<Rightarrow> string" where
  "default_mime lane_id =
     (if is_sensor_lane lane_id then ''application/json''
      else if str_contains ''image'' lane_id then ''image/*''
      else if str_contains ''audio'' lane_id then ''audio/*''
      else if str_contains ''video'' lane_id then ''video/*''
      else ''text/plain'')"

definition timeline_part :: "string list \<Rightarrow> nat \<Rightarrow> json \<Rightarrow> dict res" where
  "timeline_part seen index part =
     if_obj part
       (\<lambda>p. let part_id = strip (py_str (py_or (dget p ''part_id'') (JStr (''part_'' @ nat_str (index + 1)))));
                kind = lower (strip (str_field p ''kind'')) in
          if part_id = [] \<or> part_id \<in> set seen then Inl (Invalid ''part_id'')
          else if kind \<notin> {''text'', ''image'', ''video'', ''audio''} then Inl (Invalid ''part kind'')
          else Inr (dset ''mime_type'' (JStr (py_str (py_or (dget p ''mime_type'')
                 (JStr (if kind = ''text'' then ''text/plain'' else kind @ ''/*'')))))
               (dset ''kind'' (JStr kind) (dset ''part_id'' (JStr part_id) p))))
       (Inl (Invalid ''part''))"

fun timeline_parts :: "string list \<Rightarrow> nat \<Rightarrow> json list \<Rightarrow> dict list res" where
  "timeline_parts seen index [] = Inr []"
| "timeline_parts seen index (part # parts) =
     rbind (timeline_part seen index part) (\<lambda>p.
     rbind (timeline_parts (seen @ [str_or_empty (dget p ''part_id'')]) (Suc index) parts) (\<lambda>ps. Inr (p # ps)))"

definition base_event :: "nat \<Rightarrow> dict \<Rightarrow> string \<Rightarrow> int \<Rightarrow> dict" where
  "base_event index ev lane_id at_ms =
     dset ''required'' (JBool (truthy (dget_or ev ''required'' (JBool True))))
       (dset ''at_ms'' (JInt at_ms) (dset ''lane_id'' (JStr lane_id)
         (dset ''id'' (JStr (py_str (py_or (dget ev ''id'') (JStr (''event_'' @ nat_str (index + 1)))))) ev)))"

definition expectation_event :: "dict \<Rightarrow> dict \<Rightarrow> dict res" where
  "expectation_event ev normalized =
     (let expectation = strip (str_field ev ''expectation'') in
      if expectation = [] then Inl (Invalid ''expectation'')
      else Inr (dset ''expectation'' (JStr expectation) (dset ''lane_id'' (JStr ''expected.semantic'') normalized)))"

definition input_event :: "timeline_env \<Rightarrow> dict \<Rightarrow> string \<Rightarrow> dict \<Rightarrow> dict res" where
  "input_event env ev lane_id normalized =
     (let n1 = dset ''mime_type'' (JStr (py_str (py_or (dget ev ''mime_type'') (JStr (default_mime lane_id)))))
            (dset ''event_kind'' (JStr (py_str (py_or (dget ev ''event_kind'') (JStr (default_event_kind lane_id)))))
              normalized) in
      rbind
        (if list_or_empty (dget ev ''parts'') \<noteq> []
         then rbind (timeline_parts [] 0 (list_or_empty (dget ev ''parts''))) (\<lambda>ps.
           Inr (dset ''mime_type'' (JStr ''multipart/mixed'')
             (dset ''event_kind'' (JStr ''terminal.multimodal.input.v1'')
               (dset ''parts'' (JArr (map JObj ps)) n1))))
         else Inr n1) (\<lambda>n2.
        if is_sensor_lane lane_id
        then rbind (normalize_sensor_payload env lane_id (dget ev ''payload_inline'')) (\<lambda>p.
          Inr (dset ''payload_inline'' (JObj p) n2))
        else Inr n2))"

definition normalize_timeline_event :: "timeline_env \<Rightarrow> nat \<Rightarrow> dict \<Rightarrow> dict res" where
  "normalize_timeline_event env index ev =
     (let lane_id = str_field ev ''lane_id'' in
      if lane_id = [] then Inl (Invalid ''lane_id'')
      else rbind (int_or0 (dget ev ''at_ms'')) (\<lambda>at_ms.
        if at_ms < 0 then Inl (Invalid ''at_ms'')
        else (let normalized = base_event index ev lane_id at_ms in
          if is_expectation_event normalized then expectation_event ev normalized
          else input_event env ev lane_id normalized)))"

fun normalize_events :: "timeline_env \<Rightarrow> nat \<Rightarrow> json list \<Rightarrow> dict list res" where
  "normalize_events env index [] = Inr []"
| "normalize_events env index (ev # evs) =
     if_obj ev
       (\<lambda>d. rbind (normalize_timeline_event env index d) (\<lambda>n.
          rbind (normalize_events env (Suc index) evs) (\<lambda>ns. Inr (n # ns))))
       (normalize_events env (Suc index) evs)"

definition event_at :: "dict \<Rightarrow> int" where
  "event_at ev = (case int_or0 (dget ev ''at_ms'') of Inr n \<Rightarrow> n | Inl _ \<Rightarrow> 0)"

definition event_order :: "dict \<Rightarrow> int \<times> string" where
  "event_order ev = (event_at ev, str_field ev ''id'')"

definition DEFAULT_DURATION :: int where
  "DEFAULT_DURATION = 1800000"

definition normalize_timeline :: "timeline_env \<Rightarrow> json \<Rightarrow> int \<Rightarrow> dict res" where
  "normalize_timeline env value duration_ms =
     (let raw = dict_or_empty value in
      rbind (py_int (py_or (py_or (dget raw ''duration_ms'') (JInt duration_ms)) (JInt DEFAULT_DURATION))) (\<lambda>duration.
        if duration < 1 then Inl (Invalid ''duration_ms'')
        else rbind (normalize_events env 0 (list_or_empty (dget raw ''events''))) (\<lambda>events.
          Inr [(''schema_version'', JStr (py_str (py_or (dget raw ''schema_version'')
                  (JStr ''psop-skill-test-timeline/v1'')))),
               (''duration_ms'', JInt duration),
               (''lanes'', JArr (map JObj (normalize_timeline_lanes (dget raw ''lanes'')))),
               (''events'', JArr (map JObj (sort_key event_order events))),
               (''fork_seed'', py_or (dget raw ''fork_seed'') (JObj []))])))"

definition timeline_events :: "dict \<Rightarrow> dict list" where
  "timeline_events timeline = only_objs (list_or_empty (dget timeline ''events''))"

definition timeline_inputs :: "dict \<Rightarrow> dict list" where
  "timeline_inputs timeline = filter (\<lambda>ev. \<not> is_expectation_event ev) (timeline_events timeline)"

definition timeline_expectations :: "dict \<Rightarrow> dict list" where
  "timeline_expectations timeline = filter is_expectation_event (timeline_events timeline)"

section \<open>Forks\<close>

fun fork_events :: "timeline_env \<Rightarrow> nat \<Rightarrow> int \<Rightarrow> dict list \<Rightarrow> dict list res" where
  "fork_events env k time_ms [] = Inr []"
| "fork_events env k time_ms (ev # evs) =
     rbind (int_or0 (dget ev ''at_ms'')) (\<lambda>at_ms.
     rbind (fork_events env (Suc k) time_ms evs) (\<lambda>rest.
       Inr (if time_ms < at_ms then rest
            else dset ''id'' (JStr (''fork_'' @ py_str (py_or (dget ev ''id'') (JStr (tl_uuid env k)))))
                   (dset ''at_ms'' (JInt at_ms) ev) # rest)))"

definition fork_timeline :: "timeline_env \<Rightarrow> dict \<Rightarrow> int \<Rightarrow> dict res" where
  "fork_timeline env timeline time_ms =
     rbind (py_int (py_or (dget timeline ''duration_ms'') (JInt DEFAULT_DURATION))) (\<lambda>d.
     let duration = max 1000 d in
     rbind (fork_events env 0 time_ms (timeline_events timeline)) (\<lambda>events.
       normalize_timeline env (JObj
         [(''schema_version'', JStr ''psop-skill-test-timeline/v1''), (''duration_ms'', JInt duration),
          (''lanes'', py_or (dget timeline ''lanes'') (JArr (map JObj DEFAULT_TIMELINE_LANES))),
          (''events'', JArr (map JObj events))]) duration))"

text \<open>
  \<^verbatim>\<open>x.get("parts") or []\<close> in a loop that skips what is not a dictionary: the keys of a dictionary and
  the characters of a string are skipped, a number raises.
\<close>

definition part_dicts :: "dict \<Rightarrow> dict list res" where
  "part_dicts ev =
     (let v = dget ev ''parts'' in
      if \<not> truthy v then Inr []
      else (case v of JArr xs \<Rightarrow> Inr (only_objs xs) | JStr s \<Rightarrow> Inr [] | JObj d \<Rightarrow> Inr [] | _ \<Rightarrow> Inl TypeErr))"

text \<open>The assets that a timeline refers to, each once, in order.\<close>

definition event_assets :: "dict \<Rightarrow> string list res" where
  "event_assets ev =
     rbind (part_dicts ev) (\<lambda>parts.
       Inr (map (\<lambda>d. py_str (dget d ''asset_id'')) (filter (\<lambda>d. truthy (dget d ''asset_id'')) (ev # parts))))"

definition add_new :: "string \<Rightarrow> string list \<Rightarrow> string list" where
  "add_new a ids = (if a \<in> set ids then ids else ids @ [a])"

definition timeline_assets :: "dict \<Rightarrow> string list res" where
  "timeline_assets timeline =
     rbind (rmap event_assets (timeline_events timeline)) (\<lambda>ass. Inr (fold add_new (concat ass) []))"

definition remap_asset :: "(string \<times> string) list \<Rightarrow> dict \<Rightarrow> dict" where
  "remap_asset renamed d =
     (case map_of renamed (str_field d ''asset_id'') of None \<Rightarrow> d | Some a \<Rightarrow> dset ''asset_id'' (JStr a) d)"

definition remap_event :: "(string \<times> string) list \<Rightarrow> dict \<Rightarrow> dict res" where
  "remap_event renamed ev =
     rbind (part_dicts ev) (\<lambda>parts.
     let ev' = remap_asset renamed ev in
       Inr (if parts = [] then ev' else dset ''parts'' (JArr (map (\<lambda>p. JObj (remap_asset renamed p)) parts)) ev'))"

definition remap_timeline :: "timeline_env \<Rightarrow> (string \<times> string) list \<Rightarrow> int \<Rightarrow> dict \<Rightarrow> dict res" where
  "remap_timeline env renamed default_duration timeline =
     rbind (rmap (remap_event renamed) (timeline_events timeline)) (\<lambda>events.
     rbind (py_int (py_or (dget timeline ''duration_ms'') (JInt default_duration))) (\<lambda>duration.
       normalize_timeline env (JObj (dset ''events'' (JArr (map JObj events)) timeline)) duration))"

text \<open>
  The assets of a skill test. A fork copies every asset it refers to under a new id and refers to
  the copies; an asset of another skill is refused.
\<close>

record asset =
  as_id :: string
  as_skill :: string
  as_scenario :: string
  as_object :: string
  as_name :: string
  as_description :: string
  as_lane :: string
  as_filename :: string
  as_mime :: string
  as_size :: int
  as_checksum :: string

definition find_asset :: "asset list \<Rightarrow> string \<Rightarrow> asset option" where
  "find_asset assets i = find (\<lambda>a. as_id a = i) assets"

fun copy_assets ::
    "timeline_env \<Rightarrow> nat \<Rightarrow> string \<Rightarrow> string \<Rightarrow> string \<Rightarrow> asset list \<Rightarrow> string list \<Rightarrow> ((string \<times> string) list \<times> asset list) res" where
  "copy_assets env k source_skill skill scenario assets [] = Inr ([], assets)"
| "copy_assets env k source_skill skill scenario assets (i # is) =
     (case find_asset assets i of
        None \<Rightarrow> Inl (Invalid ''fork asset'')
      | Some a \<Rightarrow>
          if as_skill a \<noteq> source_skill then Inl (Invalid ''fork asset'')
          else rbind (copy_assets env (Suc k) source_skill skill scenario
                 (assets @ [a\<lparr>as_id := tl_uuid env k, as_skill := skill, as_scenario := scenario\<rparr>]) is) (\<lambda>r.
            Inr ((i, tl_uuid env k) # fst r, snd r)))"

definition fork_assets ::
    "timeline_env \<Rightarrow> nat \<Rightarrow> string \<Rightarrow> string \<Rightarrow> string \<Rightarrow> int \<Rightarrow> dict \<Rightarrow> asset list \<Rightarrow> (dict \<times> asset list) res" where
  "fork_assets env k source_skill skill scenario default_duration timeline assets =
     rbind (timeline_assets timeline) (\<lambda>is.
       if is = [] then Inr (timeline, assets)
       else rbind (copy_assets env k source_skill skill scenario assets is) (\<lambda>r.
         rbind (remap_timeline env (fst r) default_duration timeline) (\<lambda>t. Inr (t, snd r))))"

end
