(* ===== verification/TimelineFacts.thy ===== *)
theory TimelineFacts
  imports Timeline
begin

text \<open>
  Normalised timelines: what \<^verbatim>\<open>_normalize_timeline\<close> establishes (\<open>timeline_ok\<close>), and that it changes
  nothing on what it has established.
\<close>

section \<open>Writing what is there\<close>

lemma update_same: "map_of d k = Some v \<Longrightarrow> AList.update k v d = d"
  by (induction d) (auto split: if_splits)

lemma dset_same: "dhas d k \<Longrightarrow> dget d k = v \<Longrightarrow> dset k v d = d"
proof -
  assume "dhas d k" and v: "dget d k = v"
  then obtain w where w: "map_of d k = Some w" by (auto simp: dhas_def)
  then have "w = v" using v by (simp add: dget_def dget_or_def)
  with w show ?thesis unfolding dset_def by (intro update_same) simp
qed

lemma merge_same: "\<forall>p \<in> set b. dhas a (fst p) \<and> dget a (fst p) = snd p \<Longrightarrow> merge_dict a b = a"
  by (induction b) (auto simp: dset_same)

lemma dhas_Cons: "dhas (p # b) k \<longleftrightarrow> fst p = k \<or> dhas b k"
  by (cases p) simp

lemma dhas_merge [simp]: "dhas (merge_dict a b) k \<longleftrightarrow> dhas a k \<or> dhas b k"
proof (induction b arbitrary: a)
  case (Cons p b)
  show ?case unfolding merge_dict_Cons Cons.IH dhas_dset dhas_Cons by blast
qed simp

lemma dget_merge_frame: "\<not> dhas b k \<Longrightarrow> dget (merge_dict a b) k = dget a k"
proof (induction b arbitrary: a)
  case (Cons p b)
  then show ?case unfolding merge_dict_Cons dhas_Cons by auto
qed simp

lemma dget_merge: "dhas b k \<Longrightarrow> distinct (map fst b) \<Longrightarrow> dget (merge_dict a b) k = dget b k"
proof (induction b arbitrary: a)
  case Nil
  then show ?case by simp
next
  case (Cons p b)
  obtain k' v where p: "p = (k', v)" by (cases p)
  show ?case
  proof (cases "k = k'")
    case True
    then have "\<not> dhas b k" using Cons.prems by (auto simp: p dhas_def map_of_eq_None_iff)
    then show ?thesis using True by (simp add: p dget_merge_frame)
  next
    case False
    then show ?thesis using Cons by (simp add: p)
  qed
qed

lemma merge_twice: "distinct (map fst b) \<Longrightarrow> merge_dict (merge_dict a b) b = merge_dict a b"
proof (rule merge_same, intro ballI conjI)
  fix p assume d: "distinct (map fst b)" and p: "p \<in> set b"
  have "map_of b (fst p) = Some (snd p)" using d p by (simp add: map_of_is_SomeI)
  then have "dhas b (fst p)" "dget b (fst p) = snd p" by (simp_all add: dhas_def dget_def dget_or_def)
  then show "dhas (merge_dict a b) (fst p)" "dget (merge_dict a b) (fst p) = snd p"
    using d by (simp_all add: dget_merge)
qed

section \<open>Texts of values\<close>

text \<open>Every float of the value has a text, as \<^verbatim>\<open>json.loads\<close> makes it.\<close>

fun proper :: "json \<Rightarrow> bool" where
  "proper (JFloat q r) = (r \<noteq> [])"
| "proper (JArr xs) = list_all proper xs"
| "proper (JObj d) = list_all (\<lambda>p. proper (snd p)) d"
| "proper j = True"

lemma proper_dget: "proper (JObj d) \<Longrightarrow> proper (dget d k)"
  by (auto simp: dget_def dget_or_def list_all_iff split: option.splits dest!: map_of_SomeD)

lemma int_str_nonempty [simp]: "int_str i \<noteq> []"
  by (simp add: int_str_def)

lemma py_str_nonempty: "proper j \<Longrightarrow> truthy j \<Longrightarrow> py_str j \<noteq> []"
  by (cases j) (auto simp: py_str_def repr_str_def Let_def)

lemma py_str_or_nonempty: "proper j \<Longrightarrow> s \<noteq> [] \<Longrightarrow> py_str (py_or j (JStr s)) \<noteq> []"
  by (auto simp: py_or_def py_str_nonempty)

lemma py_or_text [simp]: "s \<noteq> [] \<Longrightarrow> py_or (JStr s) j = JStr s"
  by (simp add: py_or_def)

lemma str_field_text: "dget d k = JStr s \<Longrightarrow> str_field d k = s"
  by (simp add: str_field_def)

section \<open>Lanes\<close>

lemma default_lane_ids: "map lane_id_of DEFAULT_TIMELINE_LANES =
    [''sensor.gps'', ''sensor.pose3d'', ''input.text'', ''input.image'', ''input.audio'', ''input.video'', ''expected.semantic'']"
  by (simp add: DEFAULT_TIMELINE_LANES_def lane_def lane_id_of_def)

lemma default_lane: "l \<in> set DEFAULT_TIMELINE_LANES \<Longrightarrow>
    distinct (map fst l) \<and> dhas l ''id'' \<and> dget l ''id'' = JStr (lane_id_of l) \<and> lane_id_of l \<noteq> []"
  unfolding DEFAULT_TIMELINE_LANES_def by (auto simp: lane_def lane_id_of_def)

lemma lane_id_named [simp]: "lane_id_of (named_lane l) = lane_id_of l"
  by (simp add: named_lane_def lane_id_of_def)

lemma named_same: "dget l ''id'' = JStr (lane_id_of l) \<Longrightarrow> named_lane l = l"
  unfolding named_lane_def by (rule dset_same) (auto intro: dhas_dget)

lemma find_first: "distinct (map f xs) \<Longrightarrow> x \<in> set xs \<Longrightarrow> find (\<lambda>y. f y = f x) (xs @ ys) = Some x"
  by (induction xs) auto

lemma normalize_lanes_again:
  assumes proper: "proper lanes"
  shows "normalize_timeline_lanes (JArr (map JObj (normalize_timeline_lanes lanes))) = normalize_timeline_lanes lanes"
proof -
  define merged where "merged = (\<lambda>l. merge_dict (raw_lane (raw_lanes lanes) l) l)"
  define base where "base = map merged DEFAULT_TIMELINE_LANES"
  define extra where "extra = map named_lane (filter (\<lambda>r. lane_id_of r \<notin> set (map lane_id_of DEFAULT_TIMELINE_LANES)) (raw_lanes lanes))"
  have norm: "normalize_timeline_lanes lanes = base @ extra"
    by (simp add: normalize_timeline_lanes_def base_def extra_def merged_def Let_def)
  have merged: "dget (merged l) ''id'' = JStr (lane_id_of l) \<and> lane_id_of (merged l) = lane_id_of l"
    if "l \<in> set DEFAULT_TIMELINE_LANES" for l
    using default_lane [OF that] by (simp add: merged_def dget_merge lane_id_of_def)
  have raw: "lane_id_of r \<noteq> []" if "r \<in> set (raw_lanes lanes)" for r
  proof -
    from that obtain xs where xs: "lanes = JArr xs" "JObj r \<in> set xs" and t: "truthy (dget r ''id'')"
      by (cases lanes) (auto simp: raw_lanes_def)
    have "\<forall>x \<in> set xs. proper x" using proper unfolding xs(1) by (simp only: proper.simps list_all_iff)
    then have "proper (JObj r)" using xs(2) by blast
    then show ?thesis using py_str_nonempty [OF proper_dget t] by (simp add: lane_id_of_def)
  qed
  have all: "dget r ''id'' = JStr (lane_id_of r) \<and> lane_id_of r \<noteq> []" if r: "r \<in> set (base @ extra)" for r
  proof (cases "r \<in> set base")
    case True
    then obtain l where "l \<in> set DEFAULT_TIMELINE_LANES" "r = merged l" by (auto simp: base_def)
    then show ?thesis using merged default_lane by metis
  next
    case False
    then obtain l where "l \<in> set (raw_lanes lanes)" "r = named_lane l" using r False by (auto simp: extra_def)
    then show ?thesis using raw by (simp add: named_lane_def lane_id_of_def)
  qed
  have again: "raw_lanes (JArr (map JObj (base @ extra))) = base @ extra"
  proof -
    have "only_objs (map JObj ds) = ds" for ds by (induction ds) (auto simp: only_objs_def)
    moreover have "filter (\<lambda>l. truthy (dget l ''id'')) (base @ extra) = base @ extra"
      by (rule filter_True) (use all in \<open>auto simp del: set_append\<close>)
    ultimately show ?thesis by (simp add: raw_lanes_def del: map_append)
  qed
  have ids: "map lane_id_of base = map lane_id_of DEFAULT_TIMELINE_LANES"
    using merged by (simp add: base_def)
  have "merge_dict (raw_lane (base @ extra) l) l = merged l" if l: "l \<in> set DEFAULT_TIMELINE_LANES" for l
  proof -
    have "distinct (map lane_id_of base)" unfolding ids default_lane_ids by simp
    moreover have "merged l \<in> set base" using l by (simp add: base_def)
    ultimately have "find (\<lambda>r. lane_id_of r = lane_id_of (merged l)) (base @ extra) = Some (merged l)"
      by (rule find_first)
    then have "raw_lane (base @ extra) l = named_lane (merged l)" using merged [OF l] by (simp add: raw_lane_def)
    also have "\<dots> = merged l" using merged [OF l] by (intro named_same) simp
    finally show ?thesis using default_lane [OF l] by (simp add: merged_def merge_twice)
  qed
  then have "map (\<lambda>l. merge_dict (raw_lane (base @ extra) l) l) DEFAULT_TIMELINE_LANES = base"
    by (simp add: base_def)
  moreover have "filter (\<lambda>r. lane_id_of r \<notin> set (map lane_id_of DEFAULT_TIMELINE_LANES)) (base @ extra) = extra"
    by (auto simp: extra_def filter_empty_conv base_def merged)
  moreover have "map named_lane extra = extra"
    by (rule map_idI) (use all named_same in auto)
  ultimately show ?thesis
    unfolding norm by (simp only: normalize_timeline_lanes_def again Let_def)
qed

section \<open>Sensor payloads\<close>

text \<open>
  \<^verbatim>\<open>float()\<close> as Python documents it: a float is its own value, and it is neither null nor a text.
\<close>

definition float_law :: "timeline_env \<Rightarrow> bool" where
  "float_law env \<longleftrightarrow> (\<forall>v w. tl_float env v = Finite w \<longrightarrow>
     (\<exists>q r. w = JFloat q r) \<and> tl_float env w = Finite w)"

definition finite_field :: "timeline_env \<Rightarrow> dict \<Rightarrow> string \<Rightarrow> bool" where
  "finite_field env d k \<longleftrightarrow> no_value d k \<or> tl_float env (dget d k) = Finite (dget d k)"

definition sensor_ok :: "timeline_env \<Rightarrow> string \<Rightarrow> dict \<Rightarrow> bool" where
  "sensor_ok env lane_id d \<longleftrightarrow>
     \<not> list_ex (no_value d) (sensor_required lane_id)
     \<and> list_all (finite_field env d) (sensor_numeric lane_id)
     \<and> (dget d ''timestamp'' = JNull \<or> is_str (dget d ''timestamp''))"

lemma no_value_dset: "no_value (dset k v d) k' = (if k' = k then v \<in> {JNull, JStr []} else no_value d k')"
  by (simp add: no_value_def)

lemma finite_field_dset: "k' \<noteq> k \<Longrightarrow> finite_field env (dset k v d) k' = finite_field env d k'"
  by (simp add: finite_field_def no_value_def)

lemma sensor_numbers_frame:
  assumes "sensor_numbers env ks d = Inr d'" "k \<notin> set ks"
  shows "dget d' k = dget d k"
  using assms by (induction ks arbitrary: d) (auto split: if_splits pyfloat.splits)

lemma sensor_numbers_Inr:
  assumes "sensor_numbers env ks d = Inr d'" "distinct ks" and law: "float_law env"
  shows "(\<forall>k. no_value d' k = no_value d k) \<and> list_all (finite_field env d') ks"
  using assms(1,2)
proof (induction ks arbitrary: d)
  case Nil
  then show ?case by simp
next
  case (Cons k ks)
  show ?case
  proof (cases "no_value d k")
    case True
    then have "sensor_numbers env ks d = Inr d'" using Cons.prems by simp
    then have "(\<forall>k. no_value d' k = no_value d k) \<and> list_all (finite_field env d') ks" using Cons by simp
    moreover from this have "finite_field env d' k" using True by (simp add: finite_field_def)
    ultimately show ?thesis by simp
  next
    case False
    then obtain v where v: "tl_float env (dget d k) = Finite v" "sensor_numbers env ks (dset k v d) = Inr d'"
      using Cons.prems by (auto split: pyfloat.splits)
    then have ih: "(\<forall>k'. no_value d' k' = no_value (dset k v d) k') \<and> list_all (finite_field env d') ks"
      using Cons by simp
    have w: "v \<notin> {JNull, JStr []}" "tl_float env v = Finite v" using v(1) law by (auto simp: float_law_def)
    have "dget d' k = v" using sensor_numbers_frame [OF v(2), of k] Cons.prems by simp
    then have "finite_field env d' k" using w by (simp add: finite_field_def)
    moreover have "no_value d' k' = no_value d k'" for k' using ih w False by (auto simp: no_value_dset)
    ultimately show ?thesis using ih by simp
  qed
qed

lemma sensor_numbers_same:
  "list_all (finite_field env d) ks \<Longrightarrow> sensor_numbers env ks d = Inr d"
proof (induction ks)
  case (Cons k ks)
  then show ?case
  proof (cases "no_value d k")
    case False
    then have "dhas d k" by (intro dhas_dget) (auto simp: no_value_def)
    then show ?thesis using Cons False by (simp add: finite_field_def dset_same)
  qed simp
qed simp

lemma sensor_keys: "distinct (sensor_numeric l) \<and> set (sensor_required l) \<subseteq> set (sensor_numeric l)
    \<and> ''timestamp'' \<notin> set (sensor_numeric l)"
  by (auto simp: sensor_numeric_def sensor_required_def)

lemma sensor_payload_ok:
  assumes law: "float_law env" and n: "normalize_sensor_payload env l v = Inr p"
  shows "sensor_ok env l p"
proof -
  obtain d where v: "v = JObj d" using n by (cases v) (auto simp: normalize_sensor_payload_def)
  obtain d' where req: "\<not> list_ex (no_value d) (sensor_required l)"
    and num: "sensor_numbers env (sensor_numeric l) d = Inr d'"
    and p: "p = (if dget d' ''timestamp'' = JNull then d' else dset ''timestamp'' (JStr (py_str (dget d' ''timestamp''))) d')"
    using n unfolding v normalize_sensor_payload_def if_obj_simps
    by (cases "list_ex (no_value d) (sensor_required l)") (auto simp only: rbind_eq_Inr sum.inject if_True if_False sum.distinct)
  have f: "\<forall>k. no_value d' k = no_value d k" "list_all (finite_field env d') (sensor_numeric l)"
    using sensor_numbers_Inr [OF num _ law] sensor_keys by auto
  have t: "dget p k = dget d' k" if "k \<noteq> ''timestamp''" for k using that by (simp add: p)
  have keys: "k \<noteq> ''timestamp''" if "k \<in> set (sensor_numeric l)" for k using sensor_keys that by metis
  have "finite_field env p k" if "k \<in> set (sensor_numeric l)" for k
    using f(2) t [OF keys [OF that]] that by (simp add: finite_field_def no_value_def list_all_iff)
  moreover have "\<not> no_value p k" if "k \<in> set (sensor_required l)" for k
  proof -
    have "k \<in> set (sensor_numeric l)" using sensor_keys that by blast
    then have "dget p k = dget d' k" by (intro t keys)
    then show ?thesis using f(1) req that by (simp add: no_value_def list_ex_iff)
  qed
  moreover have "dget p ''timestamp'' = JNull \<or> is_str (dget p ''timestamp'')" by (simp add: p)
  ultimately show ?thesis by (simp add: sensor_ok_def list_all_iff list_ex_iff)
qed

lemma sensor_payload_same:
  assumes "sensor_ok env l p"
  shows "normalize_sensor_payload env l (JObj p) = Inr p"
proof -
  have "dset ''timestamp'' (JStr (py_str (dget p ''timestamp''))) p = p" if "dget p ''timestamp'' \<noteq> JNull"
    using assms that by (intro dset_same dhas_dget) (auto simp: sensor_ok_def is_str_iff)
  then show ?thesis
    using assms by (simp add: normalize_sensor_payload_def sensor_ok_def sensor_numbers_same)
qed

section \<open>Parts\<close>

definition part_ok :: "dict \<Rightarrow> bool" where
  "part_ok p \<longleftrightarrow> (\<exists>i. dget p ''part_id'' = JStr i \<and> i \<noteq> [] \<and> strip i = i)
     \<and> dget p ''kind'' \<in> {JStr ''text'', JStr ''image'', JStr ''video'', JStr ''audio''}
     \<and> (\<exists>m. dget p ''mime_type'' = JStr m \<and> m \<noteq> [])"

definition part_ids :: "dict list \<Rightarrow> string list" where
  "part_ids ps = map (\<lambda>p. str_or_empty (dget p ''part_id'')) ps"

lemma timeline_part_Inr:
  assumes n: "timeline_part seen index j = Inr p" and proper: "proper j"
  shows "part_ok p \<and> str_or_empty (dget p ''part_id'') \<notin> set seen"
proof -
  obtain d where j: "j = JObj d" using n by (cases j) (auto simp: timeline_part_def)
  have "proper (dget d ''mime_type'')" using proper unfolding j by (rule proper_dget)
  then have m: "s \<noteq> [] \<Longrightarrow> py_str (py_or (dget d ''mime_type'') (JStr s)) \<noteq> []" for s by (rule py_str_or_nonempty)
  define i where "i = strip (py_str (py_or (dget d ''part_id'') (JStr (''part_'' @ nat_str (index + 1)))))"
  define k where "k = lower (strip (str_field d ''kind''))"
  define mime where "mime = py_str (py_or (dget d ''mime_type'') (JStr (if k = ''text'' then ''text/plain'' else k @ ''/*'')))"
  have body: "timeline_part seen index j = (if i = [] \<or> i \<in> set seen then Inl (Invalid ''part_id'')
      else if k \<notin> {''text'', ''image'', ''video'', ''audio''} then Inl (Invalid ''part kind'')
      else Inr (dset ''mime_type'' (JStr mime) (dset ''kind'' (JStr k) (dset ''part_id'' (JStr i) d))))"
    unfolding j timeline_part_def i_def k_def mime_def Let_def if_obj_simps ..
  have "mime \<noteq> []" unfolding mime_def by (rule m) simp
  moreover have "strip i = i" by (simp add: i_def)
  moreover have "i \<noteq> [] \<and> i \<notin> set seen \<and> k \<in> {''text'', ''image'', ''video'', ''audio''}
      \<and> p = dset ''mime_type'' (JStr mime) (dset ''kind'' (JStr k) (dset ''part_id'' (JStr i) d))"
    using n unfolding body by (simp only: sum.inject sum.distinct split: if_splits) simp
  ultimately show ?thesis by (auto simp: part_ok_def)
qed

lemma kind_fixed: "k \<in> {''text'', ''image'', ''video'', ''audio''} \<Longrightarrow> lower (strip k) = k"
proof -
  assume "k \<in> {''text'', ''image'', ''video'', ''audio''}"
  then consider "k = ''text''" | "k = ''image''" | "k = ''video''" | "k = ''audio''" by blast
  then show "lower (strip k) = k"
    by cases (simp_all add: strip_plain printable_def lower_def lower_char_def Let_def)
qed

lemma timeline_part_same:
  assumes p: "part_ok p" and fresh: "str_or_empty (dget p ''part_id'') \<notin> set seen"
  shows "timeline_part seen index (JObj p) = Inr p"
proof -
  obtain i m where i: "dget p ''part_id'' = JStr i" "i \<noteq> []" "strip i = i"
    and m: "dget p ''mime_type'' = JStr m" "m \<noteq> []" using p by (auto simp: part_ok_def)
  obtain k where k: "dget p ''kind'' = JStr k" "k \<in> {''text'', ''image'', ''video'', ''audio''}"
    using p by (auto simp: part_ok_def)
  have f: "str_field p ''kind'' = k" using k by (simp add: str_field_text)
  have "dset ''part_id'' (JStr i) p = p" "dset ''kind'' (JStr k) p = p" "dset ''mime_type'' (JStr m) p = p"
    using i m k by (auto intro!: dset_same dhas_dget)
  then show ?thesis
    using i m k(2) fresh by (simp add: timeline_part_def Let_def f kind_fixed)
qed

lemma timeline_parts_Inr:
  "timeline_parts seen index js = Inr ps \<Longrightarrow> list_all proper js \<Longrightarrow>
   list_all part_ok ps \<and> distinct (part_ids ps) \<and> set (part_ids ps) \<inter> set seen = {} \<and> length ps = length js"
proof (induction js arbitrary: seen index ps)
  case Nil
  then show ?case by (simp add: part_ids_def)
next
  case (Cons j js)
  obtain p qs where p: "timeline_part seen index j = Inr p" and ps: "ps = p # qs"
    and qs: "timeline_parts (seen @ [str_or_empty (dget p ''part_id'')]) (Suc index) js = Inr qs"
    using Cons.prems(1) by (auto simp: rbind_eq_Inr)
  have "part_ok p \<and> str_or_empty (dget p ''part_id'') \<notin> set seen"
    using timeline_part_Inr [OF p] Cons.prems(2) by simp
  then show ?case using Cons.IH [OF qs] Cons.prems(2) unfolding ps part_ids_def by auto
qed

lemma timeline_parts_same:
  "list_all part_ok ps \<Longrightarrow> distinct (part_ids ps) \<Longrightarrow> set (part_ids ps) \<inter> set seen = {} \<Longrightarrow>
   timeline_parts seen index (map JObj ps) = Inr ps"
proof (induction ps arbitrary: seen index)
  case Nil
  then show ?case by simp
next
  case (Cons p ps)
  have "timeline_part seen index (JObj p) = Inr p"
    using Cons.prems by (intro timeline_part_same) (auto simp: part_ids_def)
  moreover have "timeline_parts (seen @ [str_or_empty (dget p ''part_id'')]) (Suc index) (map JObj ps) = Inr ps"
    using Cons.prems by (intro Cons.IH) (auto simp: part_ids_def)
  ultimately show ?case by simp
qed

section \<open>Events\<close>

definition event_ok :: "timeline_env \<Rightarrow> dict \<Rightarrow> bool" where
  "event_ok env ev \<longleftrightarrow>
     (\<exists>i l. dget ev ''id'' = JStr i \<and> i \<noteq> [] \<and> dget ev ''lane_id'' = JStr l \<and> l \<noteq> []
        \<and> (\<not> is_expectation_event ev \<longrightarrow> is_sensor_lane l \<longrightarrow>
             (\<exists>p. dget ev ''payload_inline'' = JObj p \<and> sensor_ok env l p)))
     \<and> (\<exists>n \<ge> 0. dget ev ''at_ms'' = JInt n) \<and> is_bool (dget ev ''required'')
     \<and> (if is_expectation_event ev
        then dget ev ''lane_id'' = JStr ''expected.semantic''
          \<and> (\<exists>x. dget ev ''expectation'' = JStr x \<and> x \<noteq> [] \<and> strip x = x)
        else (\<exists>k m. dget ev ''event_kind'' = JStr k \<and> k \<noteq> [] \<and> dget ev ''mime_type'' = JStr m \<and> m \<noteq> [])
          \<and> (list_or_empty (dget ev ''parts'') = []
             \<or> dget ev ''event_kind'' = JStr ''terminal.multimodal.input.v1''
               \<and> dget ev ''mime_type'' = JStr ''multipart/mixed''
               \<and> (\<exists>ps. dget ev ''parts'' = JArr (map JObj ps) \<and> list_all part_ok ps \<and> distinct (part_ids ps))))"

lemma default_texts: "default_event_kind l \<noteq> []" "default_mime l \<noteq> []"
  by (simp_all add: default_event_kind_def default_mime_def)

lemma base_event_same:
  assumes "dget ev ''id'' = JStr i" "i \<noteq> []" "dget ev ''lane_id'' = JStr l" "dget ev ''at_ms'' = JInt n"
    "is_bool (dget ev ''required'')"
  shows "base_event index ev l n = ev"
proof -
  obtain b where b: "dget ev ''required'' = JBool b" using assms(5) by (auto simp: is_bool_iff)
  then have "dget_or ev ''required'' (JBool True) = JBool b"
    by (auto simp: dget_def dget_or_def split: option.splits)
  moreover have "dset ''id'' (JStr i) ev = ev" "dset ''lane_id'' (JStr l) ev = ev"
    "dset ''at_ms'' (JInt n) ev = ev" "dset ''required'' (JBool b) ev = ev"
    using assms b by (auto intro!: dset_same dhas_dget)
  ultimately show ?thesis using assms(1,2) by (simp add: base_event_def)
qed

lemma event_same:
  assumes "event_ok env ev"
  shows "normalize_timeline_event env index ev = Inr ev"
proof -
  obtain i l n where i: "dget ev ''id'' = JStr i" "i \<noteq> []" and l: "dget ev ''lane_id'' = JStr l" "l \<noteq> []"
    and n: "dget ev ''at_ms'' = JInt n" "0 \<le> n" and req: "is_bool (dget ev ''required'')"
    and sensor: "\<not> is_expectation_event ev \<Longrightarrow> is_sensor_lane l \<Longrightarrow>
      \<exists>p. dget ev ''payload_inline'' = JObj p \<and> sensor_ok env l p"
    using assms unfolding event_ok_def by blast
  have base: "base_event index ev l n = ev" using i l n req by (intro base_event_same) auto
  have step: "normalize_timeline_event env index ev =
      (if is_expectation_event ev then expectation_event ev ev else input_event env ev l ev)"
    using l n by (simp add: normalize_timeline_event_def str_field_text base)
  show ?thesis
  proof (cases "is_expectation_event ev")
    case True
    then obtain x where x: "dget ev ''lane_id'' = JStr ''expected.semantic''"
      "dget ev ''expectation'' = JStr x" "x \<noteq> []" "strip x = x"
      using assms by (auto simp: event_ok_def)
    then have "dset ''lane_id'' (JStr ''expected.semantic'') ev = ev" "dset ''expectation'' (JStr x) ev = ev"
      by (auto intro!: dset_same dhas_dget)
    then show ?thesis using True x by (simp add: step expectation_event_def str_field_text)
  next
    case False
    then obtain k m where k: "dget ev ''event_kind'' = JStr k" "k \<noteq> []"
      and m: "dget ev ''mime_type'' = JStr m" "m \<noteq> []"
      and parts: "list_or_empty (dget ev ''parts'') = []
        \<or> k = ''terminal.multimodal.input.v1'' \<and> m = ''multipart/mixed''
          \<and> (\<exists>ps. dget ev ''parts'' = JArr (map JObj ps) \<and> list_all part_ok ps \<and> distinct (part_ids ps))"
      using assms by (auto simp: event_ok_def)
    have km: "dset ''event_kind'' (JStr k) ev = ev" "dset ''mime_type'' (JStr m) ev = ev"
      using k m by (auto intro!: dset_same dhas_dget)
    have "(if list_or_empty (dget ev ''parts'') \<noteq> []
        then rbind (timeline_parts [] 0 (list_or_empty (dget ev ''parts''))) (\<lambda>ps.
          Inr (dset ''mime_type'' (JStr ''multipart/mixed'')
            (dset ''event_kind'' (JStr ''terminal.multimodal.input.v1'') (dset ''parts'' (JArr (map JObj ps)) ev))))
        else Inr ev) = Inr ev"
    proof (cases "list_or_empty (dget ev ''parts'') = []")
      case False
      then obtain ps where ps: "k = ''terminal.multimodal.input.v1''" "m = ''multipart/mixed''"
        "dget ev ''parts'' = JArr (map JObj ps)" "list_all part_ok ps" "distinct (part_ids ps)"
        using parts by blast
      then have "dset ''parts'' (JArr (map JObj ps)) ev = ev" by (auto intro!: dset_same dhas_dget)
      then show ?thesis using ps km by (simp add: timeline_parts_same)
    qed simp
    moreover have "(if is_sensor_lane l
        then rbind (normalize_sensor_payload env l (dget ev ''payload_inline'')) (\<lambda>p.
          Inr (dset ''payload_inline'' (JObj p) ev)) else Inr ev) = Inr ev"
    proof (cases "is_sensor_lane l")
      case True
      then obtain p where p: "dget ev ''payload_inline'' = JObj p" "sensor_ok env l p" using sensor False by blast
      then have "dset ''payload_inline'' (JObj p) ev = ev" by (auto intro!: dset_same dhas_dget)
      then show ?thesis using True p by (simp add: sensor_payload_same)
    qed simp
    ultimately show ?thesis using False k m by (simp add: step input_event_def km)
  qed
qed

lemma base_event_fields:
  "dget (base_event index ev l n) ''lane_id'' = JStr l"
  "dget (base_event index ev l n) ''at_ms'' = JInt n"
  "is_bool (dget (base_event index ev l n) ''required'')"
  "k \<notin> {''id'', ''lane_id'', ''at_ms'', ''required''} \<Longrightarrow> dget (base_event index ev l n) k = dget ev k"
  "k \<notin> {''id'', ''lane_id'', ''at_ms'', ''required''} \<Longrightarrow> dhas (base_event index ev l n) k = dhas ev k"
  by (simp_all add: base_event_def)

lemma base_event_id:
  assumes "proper (JObj ev)"
  shows "\<exists>i. dget (base_event index ev l n) ''id'' = JStr i \<and> i \<noteq> []"
proof -
  have "py_str (py_or (dget ev ''id'') (JStr (''event_'' @ nat_str (index + 1)))) \<noteq> []"
    using proper_dget [OF assms] by (rule py_str_or_nonempty) simp
  then show ?thesis by (simp add: base_event_def)
qed

lemma expectation_dset: "k \<noteq> ''lane_id'' \<Longrightarrow> k \<noteq> ''expectation'' \<Longrightarrow>
    is_expectation_event (dset k v ev) = is_expectation_event ev"
  by (auto simp: is_expectation_event_def)

lemma expectation_event_ok:
  assumes ev: "expectation_event ev b = Inr n"
    and id: "dget b ''id'' = JStr i" "i \<noteq> []" and at: "dget b ''at_ms'' = JInt t" "0 \<le> t"
    and req: "is_bool (dget b ''required'')"
  shows "event_ok env n"
proof -
  have "strip (str_field ev ''expectation'') \<noteq> []" and n: "n = dset ''expectation'' (JStr (strip (str_field ev ''expectation'')))
      (dset ''lane_id'' (JStr ''expected.semantic'') b)"
    using ev by (auto simp: expectation_event_def Let_def split: if_splits)
  then show ?thesis using id at req by (simp add: event_ok_def is_expectation_event_def)
qed

lemma input_event_ok:
  assumes law: "float_law env" and proper: "proper (JObj ev)" and ev: "input_event env ev l b = Inr n"
    and b: "\<not> is_expectation_event b" "dget b ''lane_id'' = JStr l" "l \<noteq> []" "dget b ''parts'' = dget ev ''parts''"
    and id: "dget b ''id'' = JStr i" "i \<noteq> []" and at: "dget b ''at_ms'' = JInt t" "0 \<le> t"
    and req: "is_bool (dget b ''required'')"
  shows "event_ok env n"
proof -
  define kind where "kind = py_str (py_or (dget ev ''event_kind'') (JStr (default_event_kind l)))"
  define mime where "mime = py_str (py_or (dget ev ''mime_type'') (JStr (default_mime l)))"
  define n1 where "n1 = dset ''mime_type'' (JStr mime) (dset ''event_kind'' (JStr kind) b)"
  define items where "items = list_or_empty (dget ev ''parts'')"
  have texts: "kind \<noteq> []" "mime \<noteq> []"
    unfolding kind_def mime_def by (rule py_str_or_nonempty [OF proper_dget [OF proper]], rule default_texts)+
  obtain n2 where n2: "(if items \<noteq> [] then rbind (timeline_parts [] 0 items) (\<lambda>ps.
        Inr (dset ''mime_type'' (JStr ''multipart/mixed'')
          (dset ''event_kind'' (JStr ''terminal.multimodal.input.v1'') (dset ''parts'' (JArr (map JObj ps)) n1))))
      else Inr n1) = Inr n2"
    and n: "(if is_sensor_lane l then rbind (normalize_sensor_payload env l (dget ev ''payload_inline'')) (\<lambda>p.
          Inr (dset ''payload_inline'' (JObj p) n2)) else Inr n2) = Inr n"
    using ev unfolding input_event_def Let_def kind_def [symmetric] mime_def [symmetric] n1_def [symmetric] items_def [symmetric]
    by (auto simp only: rbind_eq_Inr)
  have "list_all proper items"
    using proper_dget [OF proper, of "''parts''"] by (cases "dget ev ''parts''") (auto simp: items_def)
  then have parts: "(if items = [] then n2 = n1 else (\<exists>ps. list_all part_ok ps \<and> distinct (part_ids ps)
      \<and> n2 = dset ''mime_type'' (JStr ''multipart/mixed'')
          (dset ''event_kind'' (JStr ''terminal.multimodal.input.v1'') (dset ''parts'' (JArr (map JObj ps)) n1))))"
    using n2 timeline_parts_Inr by (fastforce simp: rbind_eq_Inr split: if_splits)
  have n2_ok: "\<not> is_expectation_event n2" "dget n2 ''lane_id'' = JStr l" "dget n2 ''id'' = JStr i"
    "dget n2 ''at_ms'' = JInt t" "is_bool (dget n2 ''required'')"
    using parts b id at req by (auto simp: n1_def expectation_dset split: if_splits)
  have n2_kind: "(\<exists>k m. dget n2 ''event_kind'' = JStr k \<and> k \<noteq> [] \<and> dget n2 ''mime_type'' = JStr m \<and> m \<noteq> [])
      \<and> (list_or_empty (dget n2 ''parts'') = []
         \<or> dget n2 ''event_kind'' = JStr ''terminal.multimodal.input.v1''
           \<and> dget n2 ''mime_type'' = JStr ''multipart/mixed''
           \<and> (\<exists>ps. dget n2 ''parts'' = JArr (map JObj ps) \<and> list_all part_ok ps \<and> distinct (part_ids ps)))"
  proof (cases "items = []")
    case True
    then show ?thesis using parts texts b(4) by (simp add: n1_def items_def)
  next
    case False
    then obtain ps where "list_all part_ok ps" "distinct (part_ids ps)"
      "n2 = dset ''mime_type'' (JStr ''multipart/mixed'')
          (dset ''event_kind'' (JStr ''terminal.multimodal.input.v1'') (dset ''parts'' (JArr (map JObj ps)) n1))"
      using parts by (simp only: if_False) blast
    then show ?thesis by (simp, blast)
  qed
  show ?thesis
  proof (cases "is_sensor_lane l")
    case True
    then obtain p where p: "normalize_sensor_payload env l (dget ev ''payload_inline'') = Inr p"
      and n': "n = dset ''payload_inline'' (JObj p) n2"
      using n by (simp only: if_True rbind_eq_Inr sum.inject) blast
    have "sensor_ok env l p" by (rule sensor_payload_ok [OF law p])
    then show ?thesis using n2_ok n2_kind b(3) id(2) at(2) unfolding n' event_ok_def
      by (simp add: expectation_dset)
  next
    case False
    then show ?thesis using n n2_ok n2_kind b(3) id(2) at(2) by (simp add: event_ok_def)
  qed
qed

lemma normalized_event_ok:
  assumes law: "float_law env" and proper: "proper (JObj ev)"
    and n: "normalize_timeline_event env index ev = Inr n"
  shows "event_ok env n"
proof -
  define l where "l = str_field ev ''lane_id''"
  obtain t where l: "l \<noteq> []" and t: "0 \<le> t"
    and body: "(if is_expectation_event (base_event index ev l t) then expectation_event ev (base_event index ev l t)
      else input_event env ev l (base_event index ev l t)) = Inr n"
    using n unfolding normalize_timeline_event_def Let_def l_def [symmetric]
    by (auto simp: rbind_eq_Inr not_less split: if_splits)
  obtain i where i: "dget (base_event index ev l t) ''id'' = JStr i" "i \<noteq> []"
    using base_event_id [OF proper] by blast
  show ?thesis
  proof (cases "is_expectation_event (base_event index ev l t)")
    case True
    then have "expectation_event ev (base_event index ev l t) = Inr n" using body by simp
    then show ?thesis
      by (rule expectation_event_ok [OF _ i base_event_fields(2) t base_event_fields(3)])
  next
    case False
    then have input: "input_event env ev l (base_event index ev l t) = Inr n" using body by simp
    have "dget (base_event index ev l t) ''parts'' = dget ev ''parts''" by (simp add: base_event_fields(4))
    then show ?thesis
      by (rule input_event_ok [OF law proper input False base_event_fields(1) l _ i base_event_fields(2) t base_event_fields(3)])
  qed
qed

lemma list_all_Cons: "list_all P (x # xs) \<longleftrightarrow> P x \<and> list_all P xs"
  by simp

lemma normalize_events_ok:
  "float_law env \<Longrightarrow> list_all proper js \<Longrightarrow> normalize_events env index js = Inr ns \<Longrightarrow> list_all (event_ok env) ns"
proof (induction js arbitrary: index ns)
  case Nil
  then show ?case by simp
next
  case (Cons j js)
  show ?case
  proof (cases "is_obj j")
    case True
    then obtain d where d: "j = JObj d" by (auto simp: is_obj_iff)
    then obtain n ms where n: "normalize_timeline_event env index d = Inr n"
      and ms: "normalize_events env (Suc index) js = Inr ms" and ns: "ns = n # ms"
      using Cons.prems(3) by (auto simp: rbind_eq_Inr)
    have "proper (JObj d)" "list_all proper js" using Cons.prems(2) d by (simp_all only: list_all_Cons)
    then show ?thesis
      using normalized_event_ok [OF Cons.prems(1) _ n] Cons.IH [OF Cons.prems(1) _ ms] unfolding ns by (simp only: list_all_Cons)
  next
    case False
    then have "normalize_events env (Suc index) js = Inr ns" using Cons.prems(3) by (cases j) auto
    then show ?thesis using Cons.IH Cons.prems by simp
  qed
qed

lemma normalize_events_same:
  "list_all (event_ok env) ns \<Longrightarrow> normalize_events env index (map JObj ns) = Inr ns"
  by (induction ns arbitrary: index) (simp_all add: event_same)

section \<open>Timelines\<close>

definition timeline_ok :: "timeline_env \<Rightarrow> dict \<Rightarrow> bool" where
  "timeline_ok env t \<longleftrightarrow>
     (\<exists>n \<ge> 1. dget t ''duration_ms'' = JInt n)
     \<and> list_all (event_ok env) (timeline_events t)
     \<and> sorted (map event_order (timeline_events t))
     \<and> (\<forall>l \<in> set DEFAULT_TIMELINE_LANES. \<exists>m. JObj m \<in> set (list_or_empty (dget t ''lanes''))
          \<and> (\<forall>p \<in> set l. dget m (fst p) = snd p))"

lemma only_objs_JObj [simp]: "only_objs (map JObj ds) = ds"
  by (induction ds) (auto simp: only_objs_def)

lemma normalize_timeline_Inr:
  assumes "normalize_timeline env v d = Inr t"
  obtains n events where "1 \<le> n" "normalize_events env 0 (list_or_empty (dget (dict_or_empty v) ''events'')) = Inr events"
    "t = [(''schema_version'', JStr (py_str (py_or (dget (dict_or_empty v) ''schema_version'')
             (JStr ''psop-skill-test-timeline/v1'')))),
          (''duration_ms'', JInt n),
          (''lanes'', JArr (map JObj (normalize_timeline_lanes (dget (dict_or_empty v) ''lanes'')))),
          (''events'', JArr (map JObj (sort_key event_order events))),
          (''fork_seed'', py_or (dget (dict_or_empty v) ''fork_seed'') (JObj []))]"
  using assms unfolding normalize_timeline_def Let_def
  by (auto simp: rbind_eq_Inr not_less split: if_splits)

lemma proper_dict: "proper v \<Longrightarrow> proper (JObj (dict_or_empty v))"
  by (cases v) auto

lemma proper_list: "proper v \<Longrightarrow> list_all proper (list_or_empty v)"
  by (cases v) auto

lemma normalized_lane:
  assumes "l \<in> set DEFAULT_TIMELINE_LANES"
  shows "\<exists>m \<in> set (normalize_timeline_lanes lanes). \<forall>p \<in> set l. dget m (fst p) = snd p"
proof -
  define m where "m = merge_dict (raw_lane (raw_lanes lanes) l) l"
  have d: "distinct (map fst l)" using default_lane [OF assms] by simp
  have "dget m (fst p) = snd p" if p: "p \<in> set l" for p
  proof -
    have "map_of l (fst p) = Some (snd p)" using d p by (simp add: map_of_is_SomeI)
    then have "dhas l (fst p)" "dget l (fst p) = snd p" by (simp_all add: dhas_def dget_def dget_or_def)
    then show ?thesis using d by (simp add: m_def dget_merge)
  qed
  moreover have "m \<in> set (normalize_timeline_lanes lanes)"
    using assms unfolding m_def normalize_timeline_lanes_def Let_def set_append set_map by blast
  ultimately show ?thesis by blast
qed

lemma normalized_timeline_ok:
  assumes law: "float_law env" and proper: "proper v" and t: "normalize_timeline env v d = Inr t"
  shows "timeline_ok env t"
proof -
  obtain n events where n: "1 \<le> n"
    and events: "normalize_events env 0 (list_or_empty (dget (dict_or_empty v) ''events'')) = Inr events"
    and t: "t = [(''schema_version'', JStr (py_str (py_or (dget (dict_or_empty v) ''schema_version'')
             (JStr ''psop-skill-test-timeline/v1'')))),
          (''duration_ms'', JInt n),
          (''lanes'', JArr (map JObj (normalize_timeline_lanes (dget (dict_or_empty v) ''lanes'')))),
          (''events'', JArr (map JObj (sort_key event_order events))),
          (''fork_seed'', py_or (dget (dict_or_empty v) ''fork_seed'') (JObj []))]"
    by (rule normalize_timeline_Inr [OF t])
  have "list_all (event_ok env) events"
    by (rule normalize_events_ok [OF law proper_list [OF proper_dget [OF proper_dict [OF proper]]] events])
  then have "list_all (event_ok env) (sort_key event_order events)" by (simp add: list_all_iff)
  moreover have "timeline_events t = sort_key event_order events" by (simp add: t timeline_events_def)
  moreover have "list_or_empty (dget t ''lanes'') = map JObj (normalize_timeline_lanes (dget (dict_or_empty v) ''lanes''))"
    by (simp add: t)
  moreover have "dget t ''duration_ms'' = JInt n" by (simp add: t)
  moreover have "\<exists>m. JObj m \<in> set (map JObj (normalize_timeline_lanes lanes)) \<and> (\<forall>p \<in> set l. dget m (fst p) = snd p)"
    if "l \<in> set DEFAULT_TIMELINE_LANES" for l lanes
    using normalized_lane [OF that, of lanes] by (simp only: set_map) blast
  ultimately show ?thesis using n unfolding timeline_ok_def by simp
qed

lemma normalized_timeline_same:
  assumes law: "float_law env" and proper: "proper v" and t: "normalize_timeline env v d = Inr t"
  shows "normalize_timeline env (JObj t) d' = Inr t"
proof -
  obtain n events where n: "1 \<le> n"
    and events: "normalize_events env 0 (list_or_empty (dget (dict_or_empty v) ''events'')) = Inr events"
    and t: "t = [(''schema_version'', JStr (py_str (py_or (dget (dict_or_empty v) ''schema_version'')
             (JStr ''psop-skill-test-timeline/v1'')))),
          (''duration_ms'', JInt n),
          (''lanes'', JArr (map JObj (normalize_timeline_lanes (dget (dict_or_empty v) ''lanes'')))),
          (''events'', JArr (map JObj (sort_key event_order events))),
          (''fork_seed'', py_or (dget (dict_or_empty v) ''fork_seed'') (JObj []))]"
    by (rule normalize_timeline_Inr [OF t])
  have p: "proper (dget (dict_or_empty v) k)" for k by (rule proper_dget [OF proper_dict [OF proper]])
  have "list_all (event_ok env) events" by (rule normalize_events_ok [OF law proper_list [OF p] events])
  then have e: "list_all (event_ok env) (sort_key event_order events)" by (simp add: list_all_iff)
  have "py_str (py_or (dget (dict_or_empty v) ''schema_version'') (JStr ''psop-skill-test-timeline/v1'')) \<noteq> []"
    by (rule py_str_or_nonempty [OF p]) simp
  moreover have "sort_key event_order (sort_key event_order events) = sort_key event_order events"
    by (rule sort_key_id_if_sorted) simp
  moreover have "py_or (JInt n) x = JInt n" for x using n by (simp add: py_or_def)
  moreover have "py_or (py_or x (JObj [])) (JObj []) = py_or x (JObj [])" for x by (simp add: py_or_def)
  ultimately show ?thesis
    using n normalize_events_same [OF e] normalize_lanes_again [OF p]
    unfolding t normalize_timeline_def Let_def dict_or_empty.simps dict_literal_simps
    by (simp del: sort_key_simps)
qed

end
