(* ===== verification/Judge.thy ===== *)
theory Judge
  imports TimelineFacts Terminal "HOL-Library.Sublist"
begin

text \<open>
  What the judge of a skill test is asked and how its answer is read: the budgets of the prompt,
  the truncation of texts and the choice of terminal outputs, the prompt's payload, and the result
  of the model's answer (\<^verbatim>\<open>backend/app/domain/skill_tests/service.py\<close>). The prompt pack and the
  completion of the model are parameters.
\<close>

section \<open>Texts\<close>

text \<open>\<^verbatim>\<open>s[n:]\<close>, by code points.\<close>

definition py_drop :: "nat \<Rightarrow> string \<Rightarrow> string" where
  "py_drop n s = drop (length (py_take n s)) s"

lemma py_take_drop: "py_take n s @ py_drop n s = s"
  using py_take_prefix [of s n] by (metis append_eq_conv_conj py_drop_def)

lemma py_len_drop: "py_len (py_drop n s) = py_len s - n"
  using py_len_append [of "py_take n s" "py_drop n s"] by (simp add: py_take_drop py_len_take)

definition nl :: string where
  "nl = [char_of (10 :: nat)]"

definition truncation_marker :: "nat \<Rightarrow> string" where
  "truncation_marker omitted = nl @ ''...[truncated '' @ nat_str omitted @ '' chars]...'' @ nl"

definition truncate_judge_text :: "string \<Rightarrow> int \<Rightarrow> string \<times> bool" where
  "truncate_judge_text value max_chars =
     (let n = py_len value; m = nat max_chars in
      if int n \<le> max_chars then (value, False)
      else if max_chars \<le> 0 then ([], value \<noteq> [])
      else (let marker = truncation_marker (n - m) in
        if m \<le> py_len marker + 8 then (py_take m value, True)
        else (let available = m - py_len marker;
                  head_chars = max 1 (available div 2);
                  tail_chars = max 1 (available - head_chars) in
              (py_take head_chars value @ marker @ py_drop (n - tail_chars) value, True))))"

definition judge_text :: "json \<Rightarrow> string" where
  "judge_text v = (case v of JNull \<Rightarrow> [] | JStr s \<Rightarrow> s | _ \<Rightarrow> dumps (sort_keys v))"

definition json_chars :: "dict \<Rightarrow> int" where
  "json_chars d = int (py_len (dumps (sort_keys (JObj d))))"

definition coerce_judge_budget :: "json \<Rightarrow> int \<Rightarrow> int \<Rightarrow> int" where
  "coerce_judge_budget v default_budget maximum =
     max 1000 (min maximum (case py_int v of Inl e \<Rightarrow> default_budget | Inr n \<Rightarrow> n))"

section \<open>Terminal outputs\<close>

definition compact_judge_output :: "int \<Rightarrow> tevent \<Rightarrow> dict" where
  "compact_judge_output event_budget ev =
     (let payload_text = judge_text (te_payload ev);
          cut = truncate_judge_text payload_text event_budget in
      [(''seq_no'', JInt (te_seq ev)), (''occurred_at'', JStr (te_at ev)), (''event_kind'', JStr (te_kind ev)),
       (''mime_type'', JStr (te_mime ev)), (''payload_text'', JStr (fst cut)),
       (''payload_chars'', JInt (int (py_len payload_text))), (''included_payload_chars'', JInt (int (py_len (fst cut)))),
       (''payload_truncated'', JBool (snd cut)),
       (''truncation_reason'', JStr (if snd cut then ''event_budget'' else []))])"

definition shrink_judge_output :: "int \<Rightarrow> dict \<Rightarrow> dict" where
  "shrink_judge_output transcript_budget d =
     (let text = str_field d ''payload_text'';
          static_chars = max 0 (json_chars d - int (py_len text));
          cut = truncate_judge_text text (max 0 (transcript_budget - static_chars)) in
      dset ''truncation_reason'' (if snd cut then JStr ''transcript_budget'' else dget d ''truncation_reason'')
        (dset ''payload_truncated'' (JBool True) (dset ''payload_text'' (JStr (fst cut)) d)))"

text \<open>One candidate, newest first: the outputs included so far in reverse, and their characters.\<close>

definition include_output :: "int \<Rightarrow> dict \<Rightarrow> dict list \<times> int \<Rightarrow> dict list \<times> int" where
  "include_output transcript_budget d s =
     (let c = json_chars d in
      if fst s \<noteq> [] then
        (if snd s + c > transcript_budget then s else (fst s @ [d], snd s + c))
      else (let d' = (if c > transcript_budget then shrink_judge_output transcript_budget d else d) in
        ([d'], json_chars d')))"

definition included_outputs :: "int \<Rightarrow> dict list \<Rightarrow> dict list \<times> int" where
  "included_outputs transcript_budget candidates =
     (let s = fold (include_output transcript_budget) (rev candidates) ([], 0) in (rev (fst s), snd s))"

definition compact_judge_outputs :: "int \<Rightarrow> int \<Rightarrow> tevent list \<Rightarrow> dict list \<times> dict" where
  "compact_judge_outputs transcript_budget event_budget outputs =
     (let candidates = map (compact_judge_output event_budget) outputs;
          s = included_outputs transcript_budget candidates; included = fst s in
      (included,
       [(''strategy'', JStr ''recent_outputs_with_per_event_truncation''),
        (''transcript_budget_chars'', JInt transcript_budget), (''event_budget_chars'', JInt event_budget),
        (''terminal_output_count'', JInt (int (length outputs))),
        (''included_terminal_output_count'', JInt (int (length included))),
        (''omitted_terminal_output_count'', JInt (max 0 (int (length outputs) - int (length included)))),
        (''omitted_seq_no'', JArr (filter (\<lambda>n. n \<notin> set (map (\<lambda>d. dget d ''seq_no'') included))
           (map (\<lambda>d. dget d ''seq_no'') candidates))),
        (''included_chars'', JInt (snd s)),
        (''truncated_seq_no'', JArr (map (\<lambda>d. dget d ''seq_no'')
           (filter (\<lambda>d. truthy (dget d ''payload_truncated'')) included)))]))"

definition DEFAULT_TRANSCRIPT_BUDGET :: int where "DEFAULT_TRANSCRIPT_BUDGET = 60000"
definition DEFAULT_EVENT_BUDGET :: int where "DEFAULT_EVENT_BUDGET = 8000"
definition DEFAULT_FINAL_OUTPUT_BUDGET :: int where "DEFAULT_FINAL_OUTPUT_BUDGET = 8000"

definition judge_prompt_payload ::
    "timeline_env \<Rightarrow> dict \<Rightarrow> tevent list \<Rightarrow> string \<Rightarrow> string \<Rightarrow> int \<Rightarrow> dict \<Rightarrow> dict" where
  "judge_prompt_payload env expectation outputs final_output run_status cutoff policy =
     (let transcript_budget = coerce_judge_budget (dget policy ''transcript_budget_chars'') DEFAULT_TRANSCRIPT_BUDGET 150000;
          event_budget = coerce_judge_budget (dget policy ''event_budget_chars'') DEFAULT_EVENT_BUDGET 40000;
          final_budget = coerce_judge_budget (dget policy ''final_output_budget_chars'') DEFAULT_FINAL_OUTPUT_BUDGET 40000;
          compact = compact_judge_outputs transcript_budget event_budget outputs;
          cut = truncate_judge_text final_output final_budget in
      [(''expectation'', py_or (dget expectation ''expectation'') (JStr [])),
       (''cutoff_occurred_at'', JStr (tl_iso env cutoff)),
       (''terminal_outputs_before_cutoff'', JArr (map JObj (fst compact))),
       (''terminal_output_count_before_cutoff'', JInt (int (length outputs))),
       (''final_output'', JStr (fst cut)),
       (''run_status'', JStr run_status),
       (''input_compaction'', JObj (snd compact @
          [(''final_output_budget_chars'', JInt final_budget),
           (''final_output_chars'', JInt (int (py_len final_output))),
           (''final_output_included_chars'', JInt (int (py_len (fst cut)))),
           (''final_output_truncated'', JBool (snd cut))]))])"

section \<open>The question and the answer\<close>

record prompt_pack =
  pp_route :: string
  pp_system :: string
  pp_metadata :: dict

record prepared =
  pj_expectation :: string
  pj_route :: string
  pj_system :: string
  pj_user :: string
  pj_hash :: string
  pj_request :: dict

definition TEXT_ROUTE_KEY :: string where "TEXT_ROUTE_KEY = ''text''"

definition first_text :: "string list \<Rightarrow> string" where
  "first_text ss = (case filter (\<lambda>s. s \<noteq> []) ss of [] \<Rightarrow> [] | s # _ \<Rightarrow> s)"

definition prepare_judge ::
    "timeline_env \<Rightarrow> (string \<Rightarrow> string) \<Rightarrow> prompt_pack \<Rightarrow> dict \<Rightarrow> dict \<Rightarrow> tevent list \<Rightarrow> string \<Rightarrow> string \<Rightarrow> int \<Rightarrow> prepared res" where
  "prepare_judge env sha pack policy expectation outputs final_output run_status cutoff =
     (let route = py_str (py_or (dget policy ''route_key'') (JStr (first_text [pp_route pack, TEXT_ROUTE_KEY])));
          payload = judge_prompt_payload env expectation outputs final_output run_status cutoff policy;
          user = dumps (sort_keys (JObj payload)) in
      if \<not> dhas expectation ''id'' then Inl KeyErr
      else Inr \<lparr>pj_expectation = py_str (dget expectation ''id''), pj_route = route, pj_system = pp_system pack,
             pj_user = user, pj_hash = sha (pp_system pack @ nl @ user),
             pj_request = [(''route_key'', JStr route), (''agent_prompt'', JObj (pp_metadata pack)),
               (''system_prompt'', JStr (pp_system pack)), (''user_prompt'', JStr user),
               (''prompt_payload'', JObj payload)]\<rparr>)"

record completion =
  cp_content :: string
  cp_provider :: string
  cp_model :: string
  cp_usage :: json
  cp_raw :: json

record judge_result =
  jr_status :: string
  jr_confidence :: json
  jr_reason :: string
  jr_refs :: "dict list"
  jr_provider :: string
  jr_model :: string
  jr_raw :: dict

definition float0 :: json where "float0 = JFloat 0 ''0.0''"
definition float1 :: json where "float1 = JFloat 1 ''1.0''"

text \<open>\<^verbatim>\<open>max(0.0, min(1.0, c))\<close>: a NaN compares as false both times and comes out as 1.0.\<close>

definition coerce_confidence :: "timeline_env \<Rightarrow> json \<Rightarrow> json" where
  "coerce_confidence env v =
     (case tl_float env v of
        NotNumber \<Rightarrow> float0
      | NotFinite text \<Rightarrow> (if text = ''-inf'' then float0 else float1)
      | Finite w \<Rightarrow> (case num_val w of
            None \<Rightarrow> float0
          | Some q \<Rightarrow> if \<not> q < 1 then float1 else if \<not> q > 0 then float0 else w))"

definition normalize_evidence_refs :: "json \<Rightarrow> dict list" where
  "normalize_evidence_refs v =
     concat (map (\<lambda>item. case item of
         JObj d \<Rightarrow> [d]
       | _ \<Rightarrow> (let ref = strip (str_or item) in
               if ref = [] then [] else [[(''kind'', JStr ''raw''), (''ref'', JStr ref)]]))
       (list_or_empty v))"

definition NO_VERDICT_TEXT :: string where
  "NO_VERDICT_TEXT = ''Judge '' @ u8 [230, 156, 170, 232, 131, 189, 231, 187, 153, 229, 135, 186, 230, 156, 137,
     230, 149, 136, 231, 187, 147, 232, 174, 186, 227, 128, 130]"

definition read_judge_answer :: "timeline_env \<Rightarrow> (string \<Rightarrow> json option) \<Rightarrow> prepared \<Rightarrow> completion \<Rightarrow> judge_result res" where
  "read_judge_answer env loads p c =
     (case loads (cp_content c) of
        None \<Rightarrow> Inl ValueErr
      | Some parsed \<Rightarrow>
          if_obj parsed
            (\<lambda>d. let status = lower (str_field d ''status'') in
               if status \<notin> {''passed'', ''failed'', ''inconclusive''} then Inl ValueErr
               else Inr \<lparr>jr_status = status, jr_confidence = coerce_confidence env (dget d ''confidence''),
                      jr_reason = py_str (py_or (dget d ''reason'') (JStr NO_VERDICT_TEXT)),
                      jr_refs = normalize_evidence_refs (dget d ''evidence_refs''),
                      jr_provider = cp_provider c, jr_model = cp_model c,
                      jr_raw = [(''request'', JObj (pj_request p)), (''content'', JStr (cp_content c)),
                        (''parsed'', JObj d), (''usage'', cp_usage c), (''raw'', cp_raw c)]\<rparr>)
            (Inl AttrErr))"

definition invoke_judge ::
    "timeline_env \<Rightarrow> (string \<Rightarrow> json option) \<Rightarrow> (prepared \<Rightarrow> completion res) \<Rightarrow> prepared \<Rightarrow> judge_result res" where
  "invoke_judge env loads ask p = rbind (ask p) (read_judge_answer env loads p)"

definition JUDGE_FAILED_TEXT :: string where
  "JUDGE_FAILED_TEXT = ''Judge '' @ u8 [232, 176, 131, 231, 148, 168, 229, 164, 177, 232, 180, 165, 230, 136, 150,
     229, 147, 141, 229, 186, 148, 233, 157, 158, 230, 179, 149, 239, 188, 154]"

text \<open>The class name and the text of the exception are parameters.\<close>

definition inconclusive_result :: "(exc \<Rightarrow> string) \<Rightarrow> (exc \<Rightarrow> string) \<Rightarrow> prepared \<Rightarrow> exc \<Rightarrow> judge_result" where
  "inconclusive_result class_name message p e =
     \<lparr>jr_status = ''inconclusive'', jr_confidence = float0, jr_reason = JUDGE_FAILED_TEXT @ class_name e,
      jr_refs = [], jr_provider = [], jr_model = [],
      jr_raw = [(''request'', JObj (pj_request p)), (''error'', JStr (message e)), (''error_type'', JStr (class_name e))]\<rparr>"

section \<open>What the budgets bound\<close>

lemma py_len_Nil: "py_len [] = 0"
  by (simp add: py_len_def)

lemma split_available:
  fixes l m :: nat
  assumes "l + 8 < m"
  defines "h \<equiv> max 1 ((m - l) div 2)"
  defines "t \<equiv> max 1 (m - l - h)"
  shows "h + l + t = m \<and> 0 < h \<and> 0 < t"
proof -
  have "h = (m - l) div 2" using assms(1) by (simp add: h_def)
  moreover have "t = m - l - h" using assms(1) by (simp add: t_def h_def)
  ultimately show ?thesis using assms(1) by arith
qed

text \<open>A truncated text is a prefix of the value, or its two ends around the marker.\<close>

lemma truncate_cases:
  obtains (fits) "int (py_len v) \<le> m" "truncate_judge_text v m = (v, False)"
  | (none) "m < int (py_len v)" "m \<le> 0" "truncate_judge_text v m = ([], v \<noteq> [])"
  | (prefix) "m < int (py_len v)" "0 < m" "truncate_judge_text v m = (py_take (nat m) v, True)"
  | (ends) h t where "m < int (py_len v)" "0 < h" "0 < t" "h + py_len (truncation_marker (py_len v - nat m)) + t = nat m"
      "truncate_judge_text v m = (py_take h v @ truncation_marker (py_len v - nat m) @ py_drop (py_len v - t) v, True)"
proof -
  let ?l = "py_len (truncation_marker (py_len v - nat m))"
  consider "int (py_len v) \<le> m" | "m < int (py_len v)" "m \<le> 0"
    | "m < int (py_len v)" "0 < m" "nat m \<le> ?l + 8" | "m < int (py_len v)" "0 < m" "?l + 8 < nat m" by linarith
  then show thesis
  proof cases
    case 4
    show thesis
    proof (rule ends)
      show "truncate_judge_text v m = (py_take (max 1 ((nat m - ?l) div 2)) v @ truncation_marker (py_len v - nat m)
          @ py_drop (py_len v - max 1 (nat m - ?l - max 1 ((nat m - ?l) div 2))) v, True)"
        using 4 by (simp add: truncate_judge_text_def Let_def)
    qed (use 4 split_available [OF 4(3)] in auto)
  qed (auto simp: truncate_judge_text_def Let_def intro: fits none prefix)
qed

lemma truncate_length: "int (py_len (fst (truncate_judge_text v m))) = min (int (py_len v)) (max 0 m)"
proof (cases rule: truncate_cases [of v m])
  case (ends h t)
  then have "h \<le> py_len v" "t \<le> py_len v" by linarith+
  then have "py_len (fst (truncate_judge_text v m)) = nat m" using ends by (simp add: py_len_take py_len_drop)
  then show ?thesis using ends by simp
qed (auto simp: py_len_take py_len_Nil)

definition total_chars :: "dict list \<Rightarrow> int" where
  "total_chars ds = sum_list (map json_chars ds)"

definition inclusion :: "int \<Rightarrow> dict list \<Rightarrow> dict list \<times> int \<Rightarrow> bool" where
  "inclusion b cs s \<longleftrightarrow> snd s = total_chars (fst s) \<and> (snd s \<le> b \<or> length (fst s) = 1)
     \<and> (cs = [] \<longrightarrow> fst s = []) \<and> (cs \<noteq> [] \<longrightarrow> fst s \<noteq> [] \<and> fst s ! 0 \<in> {cs ! 0, shrink_judge_output b (cs ! 0)})
     \<and> subseq (tl (fst s)) (tl cs)"

lemma inclusion_step:
  assumes "inclusion b cs s" "0 \<le> b"
  shows "inclusion b (cs @ [d]) (include_output b d s)"
proof (cases "cs = []")
  case True
  then have "fst s = []" using assms by (simp add: inclusion_def)
  then show ?thesis using True by (simp add: inclusion_def include_output_def Let_def total_chars_def)
next
  case False
  then obtain c cs' where cs: "cs = c # cs'" by (cases cs) auto
  obtain e es where s: "fst s = e # es" using assms False by (cases "fst s") (auto simp: inclusion_def)
  show ?thesis
  proof (cases "snd s + json_chars d > b")
    case True
    then have "include_output b d s = s" using s by (simp add: include_output_def Let_def)
    moreover have "subseq es (cs' @ [d])"
      using assms(1) s cs by (auto simp: inclusion_def intro: subseq_order.trans [OF _ subseq_rev_drop_many])
    ultimately show ?thesis using assms(1) s cs by (auto simp: inclusion_def)
  next
    case False
    then have "include_output b d s = (fst s @ [d], snd s + json_chars d)" using s by (simp add: include_output_def Let_def)
    then show ?thesis using assms(1) s cs False
      by (simp add: inclusion_def total_chars_def list_emb_append_mono)
  qed
qed

lemma inclusion_fold: "0 \<le> b \<Longrightarrow> inclusion b cs s \<Longrightarrow> inclusion b (cs @ ds) (fold (include_output b) ds s)"
proof (induction ds arbitrary: cs s)
  case (Cons d ds)
  then show ?case using Cons.IH [of "cs @ [d]"] inclusion_step by simp
qed simp

lemma included_outputs_spec:
  "0 \<le> b \<Longrightarrow> \<exists>s. inclusion b (rev cs) s \<and> included_outputs b cs = (rev (fst s), snd s)"
  using inclusion_fold [of b "[]" "([], 0)" "rev cs"]
  by (auto simp: included_outputs_def Let_def inclusion_def total_chars_def intro: exI)

end
