(* ===== verification/Scenario.thy ===== *)
theory Scenario
  imports Judge RunLoop
begin

text \<open>
  The rows of a running skill test and the operations on them
  (\<^verbatim>\<open>backend/app/domain/skill_tests/service.py\<close>): the scenario run, its evaluations, the timeline driver's and
  the finalizer's jobs, the terminal events the driver sends, the summary and the verdict. A suite
  is a scenario run with its evaluations, the assets of its scenario and the rows of the runtime
  run it tests, whose table of jobs holds the driver's and the finalizer's as well. Times are in
  microseconds. The workers are enabled: a driver never processes the run itself.
\<close>

section \<open>Rows\<close>

record scenario_run =
  sr_id :: string
  sr_skill :: string
  sr_scenario :: string
  sr_invocation :: "string option"
  sr_run :: "string option"
  sr_status :: string
  sr_driver :: string
  sr_cursor :: int
  sr_sent :: "dict list"
  sr_timeline :: dict
  sr_summary :: dict
  sr_origin :: "int option"
  sr_started :: "int option"
  sr_ended :: "string option"
  sr_created :: int

record evaluation =
  ev_expectation :: string
  ev_status :: string
  ev_confidence :: json
  ev_reason :: string
  ev_refs :: "dict list"
  ev_provider :: string
  ev_model :: string
  ev_hash :: string
  ev_raw :: dict

record suite =
  su_row :: scenario_run
  su_evals :: "evaluation list"
  su_assets :: "asset list"
  su_policy :: dict
  su_world :: world

definition OPEN_STATUSES :: "string list" where
  "OPEN_STATUSES = [''pending'', ''queued'', ''running'', ''waiting_input'']"

definition ENDED_RUNS :: "string list" where
  "ENDED_RUNS = [''succeeded'', ''failed'', ''aborted'', ''cancelled'']"

definition VERDICTS :: "string list" where
  "VERDICTS = [''passed'', ''failed'', ''cancelled'']"

definition on_row :: "(scenario_run \<Rightarrow> scenario_run) \<Rightarrow> suite \<Rightarrow> suite" where
  "on_row f u = u\<lparr>su_row := f (su_row u)\<rparr>"

definition on_world :: "(world \<Rightarrow> world) \<Rightarrow> suite \<Rightarrow> suite" where
  "on_world f u = u\<lparr>su_world := f (su_world u)\<rparr>"

definition end_row :: "string \<Rightarrow> scenario_run \<Rightarrow> scenario_run" where
  "end_row stamp r = r\<lparr>sr_ended := (case sr_ended r of None \<Rightarrow> Some stamp | Some t \<Rightarrow> Some t)\<rparr>"

definition time_origin :: "scenario_run \<Rightarrow> int" where
  "time_origin r = (case sr_origin r of Some t \<Rightarrow> t | None \<Rightarrow>
     (case sr_started r of Some t \<Rightarrow> t | None \<Rightarrow> sr_created r))"

definition scenario_time :: "scenario_run \<Rightarrow> int \<Rightarrow> int" where
  "scenario_time r at_ms = time_origin r + 1000 * max 0 at_ms"

text \<open>The state that a run of the runtime shows.\<close>

definition ended :: "run_row \<Rightarrow> bool" where
  "ended run \<longleftrightarrow> r_status run \<in> set ENDED_RUNS"

definition sync_row :: "string \<Rightarrow> run_row \<Rightarrow> scenario_run \<Rightarrow> scenario_run" where
  "sync_row stamp run r =
     (if sr_status r \<in> set VERDICTS \<or> sr_run r = None then r
      else if r_status run = ''cancelled'' then
        r\<lparr>sr_status := ''cancelled'', sr_driver := ''cancelled'',
          sr_ended := (case sr_ended r of Some t \<Rightarrow> Some t | None \<Rightarrow>
            (case r_ended run of Some t \<Rightarrow> Some t | None \<Rightarrow> Some stamp)),
          sr_summary := dset ''reason'' (JStr (text_or (r_exit run) ''runtime_cancelled''))
            (dset ''status'' (JStr ''cancelled'') (sr_summary r))\<rparr>
      else if r_status run \<in> {''succeeded'', ''failed'', ''aborted''} \<and> sr_driver r = ''completed'' then
        r\<lparr>sr_status := ''running'', sr_ended := None\<rparr>
      else r\<lparr>sr_status := (if r_status run \<in> set OPEN_STATUSES then r_status run else ''running'')\<rparr>)"

section \<open>Summary and verdict\<close>

definition expectations :: "suite \<Rightarrow> dict list" where
  "expectations u = timeline_expectations (sr_timeline (su_row u))"

definition event_id :: "dict \<Rightarrow> string" where
  "event_id ev = str_field ev ''id''"

definition by_expectation :: "evaluation list \<Rightarrow> (string \<times> evaluation) list" where
  "by_expectation evals = fold (\<lambda>e. AList.update (ev_expectation e) e) evals []"

definition verdict_of :: "evaluation \<Rightarrow> string" where
  "verdict_of e = (if ev_status e \<in> {''passed'', ''failed'', ''inconclusive''} then ev_status e else ''inconclusive'')"

definition count_verdict :: "string \<Rightarrow> evaluation list \<Rightarrow> dict list \<Rightarrow> nat" where
  "count_verdict v evals expected =
     length (filter (\<lambda>p. fst p \<in> set (map event_id expected) \<and> verdict_of (snd p) = v) (by_expectation evals))"

definition summarize :: "string \<Rightarrow> evaluation list \<Rightarrow> dict list \<Rightarrow> dict" where
  "summarize status evals expected =
     (let total = int (length expected);
          passed = int (count_verdict ''passed'' evals expected);
          failed = int (count_verdict ''failed'' evals expected);
          inconclusive = int (count_verdict ''inconclusive'' evals expected) in
      [(''total'', JInt total), (''passed'', JInt passed), (''failed'', JInt failed),
       (''inconclusive'', JInt inconclusive),
       (''pending'', JInt (max 0 (total - (passed + failed + inconclusive)))), (''status'', JStr status)])"

definition summarize_suite :: "suite \<Rightarrow> dict" where
  "summarize_suite u = summarize (sr_status (su_row u)) (su_evals u) (expectations u)"

fun all_zero :: "dict \<Rightarrow> string list \<Rightarrow> bool res" where
  "all_zero d [] = Inr True"
| "all_zero d (k # ks) = rbind (int_or0 (dget d k)) (\<lambda>n. if n \<noteq> 0 then Inr False else all_zero d ks)"

definition run_passed :: "run_row \<Rightarrow> dict \<Rightarrow> bool res" where
  "run_passed run summary =
     (if r_status run \<noteq> ''succeeded'' then Inr False
      else all_zero summary [''pending'', ''failed'', ''inconclusive''])"

definition finalize_row :: "string \<Rightarrow> run_row \<Rightarrow> scenario_run \<Rightarrow> scenario_run res" where
  "finalize_row stamp run r =
     rbind (run_passed run (sr_summary r)) (\<lambda>passed.
       let status = (if passed then ''passed'' else ''failed'');
           summary = dset ''status'' (JStr status) (sr_summary r) in
       Inr (r\<lparr>sr_status := status, sr_ended := Some stamp,
         sr_summary := (if passed then summary else dset ''reason'' (JStr
           (if r_status run \<noteq> ''succeeded'' \<and> r_exit run \<noteq> [] then r_exit run
            else ''judge_expectations_not_satisfied'')) summary)\<rparr>))"

definition initial_summary :: "dict \<Rightarrow> dict" where
  "initial_summary timeline =
     (let n = JInt (int (length (timeline_expectations timeline))) in
      [(''total'', n), (''passed'', JInt 0), (''failed'', JInt 0), (''inconclusive'', JInt 0),
       (''pending'', n), (''status'', JStr ''running'')])"

section \<open>The jobs of a scenario run\<close>

definition driver_key :: "scenario_run \<Rightarrow> string" where
  "driver_key r = ''job:skill-test-timeline-driver:'' @ sr_id r"

definition finalizer_key :: "scenario_run \<Rightarrow> string" where
  "finalizer_key r = ''job:skill-test-scenario-finalizer:'' @ sr_id r"

definition job_by_key :: "string \<Rightarrow> world \<Rightarrow> job option" where
  "job_by_key key w = find_job (\<lambda>j. j_dedupe j = key) (w_jobs w)"

definition run_payload :: "scenario_run \<Rightarrow> dict" where
  "run_payload r = [(''scenario_run_id'', JStr (sr_id r))]"

definition reset_job :: "int \<Rightarrow> string \<Rightarrow> scenario_run \<Rightarrow> int \<Rightarrow> job \<Rightarrow> job" where
  "reset_job now type r available j =
     (set_status now ''pending'' j)
       \<lparr>j_type := type, j_payload := run_payload r, j_run := sr_run r, j_available := available,
        j_attempt := 0, j_worker := [], j_lease := None, j_finished := None, j_error := []\<rparr>"

definition add_job :: "env \<Rightarrow> string \<Rightarrow> string \<Rightarrow> int \<Rightarrow> suite \<Rightarrow> suite" where
  "add_job env type key available u =
     on_world (\<lambda>w. w\<lparr>w_jobs := w_jobs w @ [\<lparr>j_id = en_uuid env (w_ids w), j_type = type, j_status = ''pending'',
         j_payload = run_payload (su_row u), j_run = sr_run (su_row u), j_request = None, j_worker = [], j_lease = None,
         j_available = available, j_dedupe = key, j_attempt = 0, j_max = en_max_attempts env,
         j_metrics = [], j_error = [], j_started = None, j_finished = None, j_created = w_now w\<rparr>],
       w_ids := Suc (w_ids w)\<rparr>) u"

definition ensure_driver_pending :: "env \<Rightarrow> int option \<Rightarrow> suite \<Rightarrow> suite" where
  "ensure_driver_pending env available u =
     (let r = su_row u; w = su_world u;
          time = (case available of None \<Rightarrow> w_now w | Some t \<Rightarrow> t) in
      case job_by_key (driver_key r) w of
        Some j \<Rightarrow> on_world (put_run_job (reset_job (w_now w) ''skill_test_timeline_driver'' r time j)) u
      | None \<Rightarrow> add_job env ''skill_test_timeline_driver'' (driver_key r) time u)"

definition keep_finalizer :: "scenario_run \<Rightarrow> int option \<Rightarrow> job \<Rightarrow> job" where
  "keep_finalizer r available j =
     (let j1 = j\<lparr>j_run := sr_run r\<rparr> in
      case available of
        Some t \<Rightarrow> if j_status j = ''pending'' \<and> t < j_available j then j1\<lparr>j_available := t\<rparr> else j1
      | None \<Rightarrow> j1)"

definition ensure_finalizer_pending :: "env \<Rightarrow> int option \<Rightarrow> suite \<Rightarrow> suite" where
  "ensure_finalizer_pending env available u =
     (let r = su_row u; w = su_world u;
          time = (case available of None \<Rightarrow> w_now w | Some t \<Rightarrow> t) in
      case job_by_key (finalizer_key r) w of
        Some j \<Rightarrow> on_world (put_run_job
          (if j_status j = ''running'' then j\<lparr>j_payload := dset ''scenario_run_id'' (JStr (sr_id r)) (j_payload j)\<rparr>
           else if j_status j \<in> {''pending'', ''retryable_failed''} \<and> j_attempt j < j_max j
           then keep_finalizer r available j
           else reset_job (w_now w) ''skill_test_scenario_finalizer'' r time j)) u
      | None \<Rightarrow> add_job env ''skill_test_scenario_finalizer'' (finalizer_key r) time u)"

text \<open>Cancelling leaves the worker, the lease and, through the listener, sets \<^verbatim>\<open>finished_at\<close>.\<close>

definition cancel_test_job :: "string \<Rightarrow> string \<Rightarrow> suite \<Rightarrow> suite" where
  "cancel_test_job key reason u =
     (case job_by_key key (su_world u) of
        None \<Rightarrow> u
      | Some j \<Rightarrow>
          if j_status j \<in> {''succeeded'', ''failed'', ''cancelled''} then u
          else on_world (put_run_job ((set_status (w_now (su_world u)) ''cancelled'' j)
            \<lparr>j_error := text_or reason ''cancelled by user''\<rparr>)) u)"

definition finish_finalizer :: "int \<Rightarrow> scenario_run \<Rightarrow> job \<Rightarrow> job" where
  "finish_finalizer now r j =
     (let j1 = set_status now (if sr_status r = ''cancelled'' then ''cancelled'' else ''succeeded'') j in
      j1\<lparr>j_payload := dset ''wait_reason'' (JStr ''completed'') (dset ''scenario_run_id'' (JStr (sr_id r)) (j_payload j)),
         j_worker := [], j_lease := None, j_error := [],
         j_finished := (case j_finished j1 of None \<Rightarrow> Some now | Some t \<Rightarrow> Some t)\<rparr>)"

definition POLL_MICROSECONDS :: int where
  "POLL_MICROSECONDS = 5000000"

definition next_look :: "scenario_run \<Rightarrow> run_row \<Rightarrow> int option \<Rightarrow> int \<Rightarrow> int \<times> string" where
  "next_look r run cutoff now =
     (if ended run \<or> (case cutoff of None \<Rightarrow> False | Some t \<Rightarrow> t \<le> now) then (now, ''judge_ready'')
      else (case cutoff of
          Some t \<Rightarrow> if t < now + POLL_MICROSECONDS then (t, ''expectation_cutoff'') else (now + POLL_MICROSECONDS, ''runtime_open'')
        | None \<Rightarrow> (now + POLL_MICROSECONDS, ''runtime_open'')))"

definition reschedule_finalizer ::
    "timeline_env \<Rightarrow> scenario_run \<Rightarrow> run_row \<Rightarrow> dict list \<Rightarrow> int \<Rightarrow> job \<Rightarrow> job res" where
  "reschedule_finalizer env r run missing now j =
     rbind (case missing of [] \<Rightarrow> Inr None
       | ev # _ \<Rightarrow> rbind (int_or0 (dget ev ''at_ms'')) (\<lambda>n. Inr (Some (scenario_time r n)))) (\<lambda>cutoff.
     let look = next_look r run cutoff now in
       Inr ((set_status now ''pending'' j)
         \<lparr>j_payload :=
            [(''scenario_run_id'', JStr (sr_id r)),
             (''current_expectation_id'', JStr (case missing of [] \<Rightarrow> [] | ev # _ \<Rightarrow> event_id ev)),
             (''wait_reason'', JStr (snd look)),
             (''next_cutoff_at'', (case cutoff of None \<Rightarrow> JNull | Some t \<Rightarrow> JStr (tl_iso env t)))],
          j_available := fst look, j_attempt := 0, j_worker := [], j_lease := None, j_error := []\<rparr>))"

end
