(* ===== verification/Actions.thy ===== *)
theory Actions
  imports Prelude
begin

text \<open>
  Actions on a state that keep what was done before an exception: a result or an exception, and
  the state it leaves. A handler that reads, writes and commits in a database session is such an
  action on the session; its verification is in triples.
\<close>

section \<open>Actions\<close>

type_synonym ('s, 'a) action = "'s \<Rightarrow> 'a res \<times> 's"

definition sret :: "'a \<Rightarrow> ('s, 'a) action" where
  "sret x s = (Inr x, s)"

definition sbind :: "('s, 'a) action \<Rightarrow> ('a \<Rightarrow> ('s, 'b) action) \<Rightarrow> ('s, 'b) action" where
  "sbind f g s = (case fst (f s) of Inl e \<Rightarrow> (Inl e, snd (f s)) | Inr x \<Rightarrow> g x (snd (f s)))"

definition slift :: "'a res \<Rightarrow> ('s, 'a) action" where
  "slift r s = (r, s)"

definition sasks :: "('s \<Rightarrow> 'a) \<Rightarrow> ('s, 'a) action" where
  "sasks f s = (Inr (f s), s)"

section \<open>Triples\<close>

text \<open>
  \<open>valid P f Q E\<close>: from a state with \<open>P\<close>, a result \<open>x\<close> leaves \<open>Q x\<close> and an exception leaves \<open>E\<close>.
\<close>

definition meets :: "'a res \<times> 's \<Rightarrow> ('a \<Rightarrow> 's \<Rightarrow> bool) \<Rightarrow> ('s \<Rightarrow> bool) \<Rightarrow> bool" where
  "meets r Q E \<longleftrightarrow> (case fst r of Inl e \<Rightarrow> E (snd r) | Inr x \<Rightarrow> Q x (snd r))"

definition valid :: "('s \<Rightarrow> bool) \<Rightarrow> ('s, 'a) action \<Rightarrow> ('a \<Rightarrow> 's \<Rightarrow> bool) \<Rightarrow> ('s \<Rightarrow> bool) \<Rightarrow> bool" where
  "valid P f Q E \<longleftrightarrow> (\<forall>s. P s \<longrightarrow> meets (f s) Q E)"

lemma meets_simps [simp]: "meets (Inl e, s) Q E = E s" "meets (Inr x, s) Q E = Q x s"
  by (simp_all add: meets_def)

lemma meetsD: "meets r Q E \<Longrightarrow> r = (Inr x, s) \<Longrightarrow> Q x s" "meets r Q E \<Longrightarrow> r = (Inl e, s) \<Longrightarrow> E s"
  by simp_all

lemma validI: "(\<And>s. P s \<Longrightarrow> meets (f s) Q E) \<Longrightarrow> valid P f Q E"
  by (simp add: valid_def)

lemma validD: "valid P f Q E \<Longrightarrow> P s \<Longrightarrow> meets (f s) Q E"
  by (simp add: valid_def)

lemma meets_weaken: "meets r Q E \<Longrightarrow> (\<And>x s. Q x s \<Longrightarrow> Q' x s) \<Longrightarrow> (\<And>s. E s \<Longrightarrow> E' s) \<Longrightarrow> meets r Q' E'"
  by (auto simp: meets_def split: sum.splits)

lemma sbind_cases: "sbind f g s = (case f s of (Inl e, t) \<Rightarrow> (Inl e, t) | (Inr x, t) \<Rightarrow> g x t)"
  by (simp add: sbind_def split: prod.split sum.split)

lemma sbind_Inr: "f s = (Inr x, t) \<Longrightarrow> sbind f g s = g x t"
  by (simp add: sbind_def)

lemma sbind_Inl: "f s = (Inl e, t) \<Longrightarrow> sbind f g s = (Inl e, t)"
  by (simp add: sbind_def)

lemma lift_then: "sbind (slift (Inr x)) g s = g x s"
  by (simp add: sbind_def slift_def)

lemma asks_then: "sbind (sasks f) g s = g (f s) s"
  by (simp add: sbind_def sasks_def)

lemma valid_sbind:
  assumes "valid P f R E" "\<And>x. valid (R x) (g x) Q E"
  shows "valid P (sbind f g) Q E"
proof (rule validI)
  fix s assume "P s"
  then have f: "meets (f s) R E" by (rule validD [OF assms(1)])
  obtain r t where fs: "f s = (r, t)" by fastforce
  show "meets (sbind f g s) Q E"
  proof (cases r)
    case (Inl e)
    then show ?thesis using f fs by (simp add: sbind_Inl)
  next
    case (Inr x)
    then have "R x t" using f fs by simp
    then show ?thesis using Inr fs validD [OF assms(2)] by (simp add: sbind_Inr)
  qed
qed

lemma valid_weaken:
  assumes "valid P f Q E" "\<And>s. P' s \<Longrightarrow> P s" "\<And>x s. Q x s \<Longrightarrow> Q' x s" "\<And>s. E s \<Longrightarrow> E' s"
  shows "valid P' f Q' E'"
  by (rule validI, rule meets_weaken [OF validD [OF assms(1)]]) (rule assms, assumption)+

lemma valid_pre: "valid P f Q E \<Longrightarrow> (\<And>s. P' s \<Longrightarrow> P s) \<Longrightarrow> valid P' f Q E"
  by (rule valid_weaken)

lemma valid_post: "valid P f Q E \<Longrightarrow> (\<And>x s. Q x s \<Longrightarrow> Q' x s) \<Longrightarrow> valid P f Q' E"
  by (rule valid_weaken)

lemma valid_sret [intro]: "(\<And>s. P s \<Longrightarrow> Q x s) \<Longrightarrow> valid P (sret x) Q E"
  by (simp add: valid_def sret_def)

lemma valid_slift: "(\<And>s x. P s \<Longrightarrow> r = Inr x \<Longrightarrow> Q x s) \<Longrightarrow> (\<And>s e. P s \<Longrightarrow> r = Inl e \<Longrightarrow> E s) \<Longrightarrow> valid P (slift r) Q E"
  by (cases r) (auto simp: valid_def slift_def)

lemma valid_sasks: "(\<And>s. P s \<Longrightarrow> Q (f s) s) \<Longrightarrow> valid P (sasks f) Q E"
  by (simp add: valid_def sasks_def)

lemma valid_result:
  "valid P f Q E \<Longrightarrow> P s \<Longrightarrow> f s = (r, s') \<Longrightarrow> meets (r, s') Q E"
  by (drule (1) validD) simp

end
