(* ===== verification/Session.thy ===== *)
theory Session
  imports Scenario Actions
begin

text \<open>
  The database session in which a worker handles a job of a skill test
  (\<^verbatim>\<open>backend/app/domain/jobs/worker.py\<close>: \<^verbatim>\<open>_install_session_lease_fence\<close>): the open transaction, what is
  committed, and the fence of every commit; and the triples in which the handlers are verified.
\<close>

section \<open>Sessions\<close>

text \<open>
  The rows of the open transaction, the rows last committed, the run object that the session
  holds (read again only where the source reads the row anew) and the number of commits. After a
  commit the other transactions act on the rows of the runtime; \<open>de_lag\<close> is time that passes inside
  a transaction. A commit is fenced: the lease's row, as committed, must still be running under
  the lease's owner and in time.
\<close>

record driver_env =
  de_env :: env
  de_te :: timeline_env
  de_others :: "nat \<Rightarrow> world \<Rightarrow> world"
  de_lag :: "nat \<Rightarrow> nat"

record session =
  se_now :: suite
  se_saved :: suite
  se_run :: run_row
  se_step :: nat

type_synonym 'a sact = "(session, 'a) action"

definition edit_suite :: "(suite \<Rightarrow> suite) \<Rightarrow> unit sact" where
  "edit_suite f s = (Inr (), s\<lparr>se_now := f (se_now s)\<rparr>)"

definition se_clock :: "session \<Rightarrow> int" where
  "se_clock s = w_now (su_world (se_now s))"

definition check_fence :: "unit sact" where
  "check_fence s =
     (let w = su_world (se_saved s) in
      case fence_error (w_lease w) (w_healthy w) (se_clock s) (w_jobs w) of
        None \<Rightarrow> (Inr (), s)
      | Some e \<Rightarrow> (Inl e, s))"

definition release_own :: "world \<Rightarrow> world" where
  "release_own w =
     (case w_lease w of None \<Rightarrow> w
      | Some l \<Rightarrow> (case by_id (l_job l) (w_jobs w) of None \<Rightarrow> w
        | Some j \<Rightarrow> if j_status j = ''running'' then w else put_run_job (j\<lparr>j_worker := [], j_lease := None\<rparr>) w))"

definition save :: "driver_env \<Rightarrow> unit sact" where
  "save de = sbind check_fence (\<lambda>_. (\<lambda>s.
     let u = on_world (\<lambda>w. de_others de (se_step s) (release_own w)) (se_now s) in
     (Inr (), s\<lparr>se_now := u, se_saved := u, se_step := Suc (se_step s)\<rparr>)))"

definition pass_time :: "driver_env \<Rightarrow> unit sact" where
  "pass_time de s =
     (let t = w_now (su_world (se_now s)) + int (de_lag de (se_step s)) in
      (Inr (), s\<lparr>se_now := on_world (\<lambda>w. w\<lparr>w_now := t, w_iso := tl_iso (de_te de) t\<rparr>) (se_now s)\<rparr>))"

definition open_session :: "suite \<Rightarrow> session" where
  "open_session u = \<lparr>se_now = u, se_saved = u, se_run = w_run (su_world u), se_step = 0\<rparr>"

definition sync_suite :: "run_row \<Rightarrow> suite \<Rightarrow> suite" where
  "sync_suite run u = on_row (sync_row (w_iso (su_world u)) run) u"

lemma valid_edit: "(\<And>s. P s \<Longrightarrow> Q () (s\<lparr>se_now := f (se_now s)\<rparr>)) \<Longrightarrow> valid P (edit_suite f) Q E"
  by (simp add: valid_def edit_suite_def)

lemma check_fence_state [simp]: "snd (check_fence s) = s"
  by (simp add: check_fence_def Let_def split: option.split)

lemma valid_check: "(\<And>s. P s \<Longrightarrow> Q () s) \<Longrightarrow> (\<And>s. P s \<Longrightarrow> E s) \<Longrightarrow> valid P check_fence Q E"
  by (auto simp: valid_def meets_def split: sum.splits)

lemma valid_save:
  assumes "\<And>s u. P s \<Longrightarrow> u = on_world (\<lambda>w. de_others de (se_step s) (release_own w)) (se_now s) \<Longrightarrow>
      Q () (s\<lparr>se_now := u, se_saved := u, se_step := Suc (se_step s)\<rparr>)"
    and "\<And>s. P s \<Longrightarrow> E s"
  shows "valid P (save de) Q E"
  unfolding save_def
  by (rule valid_sbind [OF valid_check [where Q = "\<lambda>_. P"]]) (use assms in \<open>auto simp: valid_def Let_def\<close>)

end
