(* ===== verification/Driver.thy ===== *)
theory Driver
  imports Session
begin

text \<open>
  The timeline driver of a skill test: building the terminal inputs of timeline events, the loop
  that sends what is due, and the handler of the driver's job
  (\<^verbatim>\<open>process_driver_job\<close> and \<^verbatim>\<open>process_timeline_driver_for_run\<close>).
\<close>

section \<open>Inputs\<close>

definition asset_fields :: "asset \<Rightarrow> dict" where
  "asset_fields a =
     [(''asset_id'', JStr (as_id a)), (''artifact_object_id'', JStr (as_object a)),
      (''filename'', JStr (as_filename a)), (''name'', JStr (as_name a)),
      (''mime_type'', JStr (as_mime a)), (''size_bytes'', JInt (as_size a)), (''checksum'', JStr (as_checksum a))]"

definition asset_payload :: "dict \<Rightarrow> asset \<Rightarrow> dict" where
  "asset_payload ev a =
     (let payload = (case dget ev ''payload_inline'' of
            JObj d \<Rightarrow> d
          | JStr s \<Rightarrow> if strip s = [] then [] else [(''description'', JStr (strip s))]
          | _ \<Rightarrow> []);
          base = [(''asset_id'', JStr (as_id a)), (''artifact_object_id'', JStr (as_object a)),
            (''filename'', JStr (as_filename a)), (''name'', JStr (as_name a)),
            (''description'', JStr (as_description a)), (''mime_type'', JStr (as_mime a)),
            (''size_bytes'', JInt (as_size a)), (''checksum'', JStr (as_checksum a))] in
      merge_dict (merge_dict base payload) (asset_fields a))"

definition asset_part_metadata :: "asset \<Rightarrow> dict" where
  "asset_part_metadata a =
     [(''asset_id'', JStr (as_id a)), (''filename'', JStr (as_filename a)), (''name'', JStr (as_name a)),
      (''description'', JStr (as_description a)), (''mime_type'', JStr (as_mime a))]"

definition part_metadata :: "dict \<Rightarrow> dict" where
  "part_metadata p = dict_or_empty (dget p ''metadata'')"

definition test_part_kind :: "string \<Rightarrow> string" where
  "test_part_kind mime =
     (if starts_with ''image/'' mime then ''image''
      else if starts_with ''video/'' mime then ''video''
      else if starts_with ''audio/'' mime then ''audio''
      else if starts_with ''text/'' mime then ''text'' else ''file'')"

definition asset_of :: "suite \<Rightarrow> string \<Rightarrow> asset res" where
  "asset_of u i =
     (case find_asset (su_assets u) i of
        None \<Rightarrow> Inl (Invalid ''timeline asset'')
      | Some a \<Rightarrow> if as_scenario a \<noteq> sr_scenario (su_row u) then Inl (Invalid ''timeline asset'') else Inr a)"

definition text_part :: "string \<Rightarrow> dict \<Rightarrow> part_input" where
  "text_part part_id p =
     \<lparr>pi_id = part_id, pi_kind = ''text'', pi_mime = py_str (py_or (dget p ''mime_type'') (JStr ''text/plain'')),
      pi_text = str_or (py_or (dget p ''text'') (dget p ''payload_inline'')), pi_artifact = [], pi_size = 0,
      pi_checksum = [], pi_metadata = part_metadata p\<rparr>"

definition asset_part :: "string \<Rightarrow> string \<Rightarrow> dict \<Rightarrow> asset \<Rightarrow> part_input" where
  "asset_part part_id kind p a =
     \<lparr>pi_id = part_id, pi_kind = kind, pi_mime = as_mime a, pi_text = str_field p ''text'',
      pi_artifact = as_object a, pi_size = as_size a, pi_checksum = as_checksum a,
      pi_metadata = merge_dict (asset_part_metadata a) (part_metadata p)\<rparr>"

definition terminal_part :: "suite \<Rightarrow> string list \<Rightarrow> nat \<Rightarrow> json \<Rightarrow> part_input res" where
  "terminal_part u seen index part =
     if_obj part
       (\<lambda>p. let kind = lower (strip (str_field p ''kind''));
                part_id = strip (py_str (py_or (dget p ''part_id'') (JStr (''part_'' @ nat_str (index + 1)))));
                asset_id = strip (str_field p ''asset_id'') in
          if part_id = [] \<or> part_id \<in> set seen then Inl (Invalid ''part_id'')
          else if kind = ''text'' then Inr (text_part part_id p)
          else if asset_id = [] then Inl (Invalid ''part without asset'')
          else rbind (asset_of u asset_id) (\<lambda>a.
            let resolved = (if kind = [] then test_part_kind (as_mime a) else kind) in
            if resolved \<notin> {''image'', ''video'', ''audio''} then Inl (Invalid ''part kind'')
            else if \<not> starts_with (resolved @ ''/'') (as_mime a) then Inl (Invalid ''part mime type'')
            else Inr (asset_part part_id resolved p a)))
       (Inl (Invalid ''part''))"

fun terminal_parts :: "suite \<Rightarrow> string list \<Rightarrow> nat \<Rightarrow> json list \<Rightarrow> part_input list res" where
  "terminal_parts u seen index [] = Inr []"
| "terminal_parts u seen index (part # parts) =
     rbind (terminal_part u seen index part) (\<lambda>p.
     rbind (terminal_parts u (seen @ [pi_id p]) (Suc index) parts) (\<lambda>ps. Inr (p # ps)))"

definition part_summary :: "part_input \<Rightarrow> string" where
  "part_summary p =
     (if pi_text p \<noteq> [] then pi_text p
      else str_or (py_or (dget (pi_metadata p) ''name'') (dget (pi_metadata p) ''filename'')))"

definition parts_payload :: "part_input list \<Rightarrow> json" where
  "parts_payload parts =
     JObj [(''summary'', JStr (join_with nl (filter (\<lambda>s. s \<noteq> []) (map part_summary parts)))),
           (''part_count'', JInt (int (length parts)))]"

definition DRIVER_SOURCE :: json where
  "DRIVER_SOURCE = JObj [(''kind'', JStr ''skill_test_timeline_driver''), (''device_id'', JNull), (''connection_id'', JNull)]"

definition input_key :: "scenario_run \<Rightarrow> dict \<Rightarrow> string" where
  "input_key r ev = ''skill-test-scenario-run:'' @ sr_id r @ '':timeline:'' @ py_str (dget ev ''id'')"

definition driver_request :: "timeline_env \<Rightarrow> scenario_run \<Rightarrow> dict \<Rightarrow> int \<Rightarrow> event_request" where
  "driver_request te r ev scheduled =
     \<lparr>er_direction = ''input'', er_kind = ''terminal.multimodal.input.v1'', er_mime = ''multipart/mixed'',
      er_payload = JNull, er_binding = [], er_artifact = None, er_parts = [], er_source = DRIVER_SOURCE,
      er_external = Some (input_key r ev), er_trace = None, er_occurred = Some (tl_iso te scheduled)\<rparr>"

definition optional_text :: "json \<Rightarrow> (string option) res" where
  "optional_text v = (case v of JNull \<Rightarrow> Inr None | JStr s \<Rightarrow> Inr (Some s) | _ \<Rightarrow> Inl ValueErr)"

definition plain_request :: "timeline_env \<Rightarrow> suite \<Rightarrow> dict \<Rightarrow> int \<Rightarrow> event_request res" where
  "plain_request te u ev scheduled =
     (let q = (driver_request te (su_row u) ev scheduled)
            \<lparr>er_kind := py_str (py_or (dget ev ''event_kind'') (JStr (default_event_kind (str_field ev ''lane_id'')))),
             er_mime := py_str (py_or (dget ev ''mime_type'') (JStr (default_mime (str_field ev ''lane_id''))))\<rparr> in
      if truthy (dget ev ''asset_id'')
      then rbind (asset_of u (py_str (dget ev ''asset_id''))) (\<lambda>a.
        Inr (q\<lparr>er_mime := (if as_mime a = [] then default_mime (str_field ev ''lane_id'') else as_mime a),
               er_payload := JObj (asset_payload ev a), er_artifact := Some (as_object a),
               er_parts := [\<lparr>pi_id = ''asset_1'', pi_kind = test_part_kind (as_mime a), pi_mime = as_mime a,
                 pi_text = [], pi_artifact = as_object a, pi_size = as_size a, pi_checksum = as_checksum a,
                 pi_metadata = asset_part_metadata a\<rparr>]\<rparr>))
      else rbind (optional_text (dget ev ''artifact_object_id'')) (\<lambda>artifact.
        Inr (q\<lparr>er_payload := dget ev ''payload_inline'', er_artifact := artifact\<rparr>)))"

definition input_request :: "timeline_env \<Rightarrow> suite \<Rightarrow> dict \<Rightarrow> int \<Rightarrow> event_request res" where
  "input_request te u ev scheduled =
     (if list_or_empty (dget ev ''parts'') \<noteq> []
      then rbind (terminal_parts u [] 0 (list_or_empty (dget ev ''parts''))) (\<lambda>parts.
        Inr ((driver_request te (su_row u) ev scheduled)\<lparr>er_payload := parts_payload parts, er_parts := parts\<rparr>))
      else plain_request te u ev scheduled)"

section \<open>The loop\<close>

text \<open>
  The runtime's append reads the run's row anew and commits, unless it knows the event.
\<close>

definition append_input :: "driver_env \<Rightarrow> event_request \<Rightarrow> tevent sact" where
  "append_input de q s =
     (let w = su_world (se_now s) in
      case append_terminal_event (de_env de) q w of
        Inl e \<Rightarrow> (Inl e, s\<lparr>se_run := w_run w\<rparr>)
      | Inr r \<Rightarrow>
          if known_event q w \<noteq> None then (Inr (fst r), s\<lparr>se_run := w_run w\<rparr>)
          else sbind (save de) (\<lambda>_. sbind check_fence (\<lambda>_. sret (fst r)))
            (s\<lparr>se_now := (se_now s)\<lparr>su_world := snd r\<rparr>, se_run := w_run (snd r)\<rparr>))"

definition send_input :: "driver_env \<Rightarrow> dict \<Rightarrow> int \<Rightarrow> tevent sact" where
  "send_input de ev scheduled =
     sbind (sasks (\<lambda>s. input_request (de_te de) (se_now s) ev scheduled)) (\<lambda>q.
     sbind (slift q) (append_input de))"

definition sent_record :: "timeline_env \<Rightarrow> dict \<Rightarrow> int \<Rightarrow> int \<Rightarrow> int \<Rightarrow> tevent \<Rightarrow> dict" where
  "sent_record te ev at_ms scheduled actual sent =
     [(''status'', JStr ''sent''), (''event_id'', dget ev ''id''), (''lane_id'', dget ev ''lane_id''),
      (''at_ms'', JInt at_ms), (''scheduled_at'', JStr (tl_iso te scheduled)),
      (''actual_sent_at'', JStr (tl_iso te actual)), (''drift_ms'', JInt (max 0 ((actual - scheduled) div 1000))),
      (''terminal_event_id'', JStr (te_id sent)), (''terminal_seq'', JInt (te_seq sent))]"

definition send_one :: "driver_env \<Rightarrow> nat \<Rightarrow> dict \<Rightarrow> int \<Rightarrow> unit sact" where
  "send_one de cursor ev at_ms = sbind (sasks (\<lambda>s. scenario_time (su_row (se_now s)) at_ms)) (\<lambda>scheduled.
     sbind (send_input de ev scheduled) (\<lambda>sent.
     sbind (sasks se_clock) (\<lambda>actual.
       edit_suite (on_row (\<lambda>r. r\<lparr>sr_sent := sr_sent r @ [sent_record (de_te de) ev at_ms scheduled actual sent],
         sr_cursor := int (Suc cursor)\<rparr>)))))"

definition inputs_unsent :: "dict list \<Rightarrow> suite \<Rightarrow> suite" where
  "inputs_unsent evs u =
     on_row (\<lambda>r. (end_row (w_iso (su_world u)) r)
       \<lparr>sr_status := ''failed'', sr_driver := ''failed'',
        sr_summary := dset ''remaining_input_event_ids'' (JArr (map (\<lambda>ev. dget ev ''id'') evs))
          (dset ''reason'' (JStr ''runtime_ended_before_required_inputs_sent'')
            (dset ''status'' (JStr ''failed'') (sr_summary r)))\<rparr>) u"

definition fail_unsent :: "driver_env \<Rightarrow> dict list \<Rightarrow> unit sact" where
  "fail_unsent de evs = sbind (edit_suite (inputs_unsent evs)) (\<lambda>_. save de)"

definition wait_time :: "nat \<Rightarrow> unit sact" where
  "wait_time cursor = edit_suite (on_row (\<lambda>r. r\<lparr>sr_driver := ''waiting_time'', sr_cursor := int cursor\<rparr>))"

definition sync_session :: "unit sact" where
  "sync_session s = (Inr (), s\<lparr>se_now := sync_suite (se_run s) (se_now s)\<rparr>)"

definition finish_driver :: "driver_env \<Rightarrow> nat \<Rightarrow> bool \<Rightarrow> unit sact" where
  "finish_driver de cursor sent_any =
     sbind (edit_suite (on_row (\<lambda>r. r\<lparr>sr_driver := ''completed'', sr_cursor := int cursor\<rparr>))) (\<lambda>_.
     sbind (if sent_any then sync_session else sret ()) (\<lambda>_.
     sbind (edit_suite (ensure_finalizer_pending (de_env de) None)) (\<lambda>_. save de)))"

text \<open>The result of the look at the clock: the event is due, the run has ended, or it has to wait.\<close>

datatype look = Due | Over | Later

definition look_again :: "driver_env \<Rightarrow> bool \<Rightarrow> int \<Rightarrow> look sact" where
  "look_again de sent_any scheduled s =
     (if scheduled \<le> se_clock s then (Inr Due, s)
      else if sent_any then
        sbind sync_session (\<lambda>_. sbind (pass_time de) (\<lambda>_.
          sasks (\<lambda>s'. if ended (se_run s') then Over else if scheduled \<le> se_clock s' then Due else Later))) s
      else (Inr Later, s))"

fun drive :: "driver_env \<Rightarrow> nat \<Rightarrow> bool \<Rightarrow> dict list \<Rightarrow> unit sact" where
  "drive de cursor sent_any [] = finish_driver de cursor sent_any"
| "drive de cursor sent_any (ev # evs) = sbind (slift (int_or0 (dget ev ''at_ms''))) (\<lambda>at_ms.
     sbind (sasks (\<lambda>s. scenario_time (su_row (se_now s)) at_ms)) (\<lambda>scheduled.
     sbind (look_again de sent_any scheduled) (\<lambda>look.
       case look of
         Over \<Rightarrow> fail_unsent de (ev # evs)
       | Later \<Rightarrow> wait_time cursor
       | Due \<Rightarrow> sbind (send_one de cursor ev at_ms) (\<lambda>_. drive de (Suc cursor) True evs))))"

definition start_cursor :: "scenario_run \<Rightarrow> nat" where
  "start_cursor r = nat (max 0 (min (sr_cursor r) (int (length (timeline_inputs (sr_timeline r))))))"

definition process_timeline_driver :: "driver_env \<Rightarrow> unit sact" where
  "process_timeline_driver de = sbind (sasks (\<lambda>s. sr_run (su_row (se_now s)))) (\<lambda>run.
     if run = None then slift (Inl (Invalid ''runtime run''))
     else sbind sync_session (\<lambda>_. sbind (sasks (\<lambda>s. su_row (se_now s))) (\<lambda>r.
       if sr_status r = ''cancelled'' \<or> sr_driver r = ''cancelled'' then save de
       else (let evs = timeline_inputs (sr_timeline r); cursor = start_cursor r in
         sbind (sasks (\<lambda>s. ended (se_run s))) (\<lambda>over.
           if over \<and> cursor < length evs then fail_unsent de (drop cursor evs)
           else drive de cursor False (drop cursor evs))))))"

section \<open>The job\<close>

definition settle_driver_job :: "int \<Rightarrow> string \<Rightarrow> job \<Rightarrow> job" where
  "settle_driver_job now driver j =
     (let j1 = set_status now (if driver = ''completed'' then ''succeeded'' else driver) j in
      j1\<lparr>j_worker := [], j_lease := None, j_finished := (case j_finished j1 of None \<Rightarrow> Some now | Some t \<Rightarrow> Some t)\<rparr>)"

definition next_due :: "scenario_run \<Rightarrow> int \<Rightarrow> int res" where
  "next_due r now =
     (let evs = timeline_inputs (sr_timeline r); cursor = start_cursor r in
      if cursor < length evs
      then rbind (int_or0 (dget (evs ! cursor) ''at_ms'')) (\<lambda>n. Inr (scenario_time r n)) else Inr now)"

definition put_error :: "string \<Rightarrow> suite \<Rightarrow> suite" where
  "put_error jid u = on_world (\<lambda>w. w\<lparr>w_jobs := map (\<lambda>j. if j_id j = jid then j\<lparr>j_error := []\<rparr> else j) (w_jobs w)\<rparr>) u"

definition settle_driver :: "driver_env \<Rightarrow> string \<Rightarrow> unit sact" where
  "settle_driver de jid s =
     (let u = se_now s; r = su_row u; now = se_clock s in
      if sr_driver r \<in> {''completed'', ''failed'', ''cancelled''} then
        edit_suite (on_world (\<lambda>w. w\<lparr>w_jobs := map (\<lambda>j. if j_id j = jid then settle_driver_job now (sr_driver r) j else j)
          (w_jobs w)\<rparr>)) s
      else if sr_driver r = ''waiting_time'' then
        sbind (slift (next_due r now)) (\<lambda>t. edit_suite (ensure_driver_pending (de_env de) (Some t))) s
      else if (case by_id jid (w_jobs (su_world u)) of None \<Rightarrow> False | Some j \<Rightarrow> j_status j = ''running'')
        then edit_suite (ensure_driver_pending (de_env de) None) s
      else (Inr (), s))"

definition job_scenario :: "job \<Rightarrow> string" where
  "job_scenario j = str_field (j_payload j) ''scenario_run_id''"

definition process_driver_job :: "driver_env \<Rightarrow> string \<Rightarrow> unit sact" where
  "process_driver_job de jid s =
     (case by_id jid (w_jobs (su_world (se_now s))) of
        None \<Rightarrow> (Inl NotFound, s)
      | Some j \<Rightarrow>
          if job_scenario j = [] then (Inl (Invalid ''scenario_run_id''), s)
          else if job_scenario j \<noteq> sr_id (su_row (se_now s)) then (Inl NotFound, s)
          else sbind (process_timeline_driver de) (\<lambda>_. sbind (settle_driver de jid) (\<lambda>_.
            sbind (edit_suite (put_error jid)) (\<lambda>_. save de))) s)"

end
