(* ===== verification/DriverFacts.thy ===== *)
theory DriverFacts
  imports Driver
begin

text \<open>
  The driver's cursor never runs ahead of the log: what it counts as sent is among the terminal
  events of the run, in every state that a handler of the driver's job commits, whether it
  returns or raises.
\<close>

section \<open>What has been sent\<close>

definition sent_in :: "world \<Rightarrow> string \<Rightarrow> bool" where
  "sent_in w key \<longleftrightarrow> list_ex (\<lambda>ev. te_external ev = Some key) (w_events w)"

definition inputs_of :: "suite \<Rightarrow> dict list" where
  "inputs_of u = timeline_inputs (sr_timeline (su_row u))"

definition covers :: "nat \<Rightarrow> suite \<Rightarrow> bool" where
  "covers n u \<longleftrightarrow> list_all (\<lambda>ev. sent_in (su_world u) (input_key (su_row u) ev)) (take n (inputs_of u))"

definition driver_ok :: "suite \<Rightarrow> bool" where
  "driver_ok u \<longleftrightarrow> covers (start_cursor (su_row u)) u
     \<and> (sr_driver (su_row u) = ''completed'' \<longrightarrow> covers (length (inputs_of u)) u)"

lemma sent_in_prefix: "prefix (w_events w) (w_events w') \<Longrightarrow> sent_in w key \<Longrightarrow> sent_in w' key"
  by (auto simp: sent_in_def list_ex_iff prefix_def)

lemma sent_in_grows: "grows w w' \<Longrightarrow> sent_in w key \<Longrightarrow> sent_in w' key"
  unfolding grows_def by (blast intro: sent_in_prefix)

text \<open>A step that keeps the test and the log's entries.\<close>

definition keeps_log :: "suite \<Rightarrow> suite \<Rightarrow> bool" where
  "keeps_log u u' \<longleftrightarrow> sr_id (su_row u') = sr_id (su_row u) \<and> sr_timeline (su_row u') = sr_timeline (su_row u)
     \<and> prefix (w_events (su_world u)) (w_events (su_world u'))"

lemma keeps_log_inputs: "keeps_log u u' \<Longrightarrow> inputs_of u' = inputs_of u"
  by (simp add: keeps_log_def inputs_of_def)

lemma keeps_log_sent: "keeps_log u u' \<Longrightarrow> sent_in (su_world u) (input_key (su_row u) ev) \<Longrightarrow>
    sent_in (su_world u') (input_key (su_row u') ev)"
proof -
  assume k: "keeps_log u u'" and e: "sent_in (su_world u) (input_key (su_row u) ev)"
  have "input_key (su_row u') ev = input_key (su_row u) ev" using k by (simp add: keeps_log_def input_key_def)
  then show ?thesis using k e sent_in_prefix unfolding keeps_log_def by metis
qed

lemma keeps_log_covers:
  assumes k: "keeps_log u u'" and c: "covers n u"
  shows "covers n u'"
  using c keeps_log_sent [OF k] unfolding covers_def keeps_log_inputs [OF k] list_all_iff by blast

lemma covers_mono: "covers n u \<Longrightarrow> m \<le> n \<Longrightarrow> covers m u"
proof -
  assume c: "covers n u" and "m \<le> n"
  then have "take m (inputs_of u) = take m (take n (inputs_of u))" by simp
  then show ?thesis using c unfolding covers_def list_all_iff by (metis in_set_takeD)
qed

lemma covers_all: "length (inputs_of u) \<le> n \<Longrightarrow> covers n u \<longleftrightarrow> covers (length (inputs_of u)) u"
  by (simp add: covers_def)

lemma covers_Suc:
  assumes "covers n u" "n < length (inputs_of u)" "sent_in (su_world u) (input_key (su_row u) (inputs_of u ! n))"
  shows "covers (Suc n) u"
  using assms by (simp add: covers_def take_Suc_conv_app_nth)

section \<open>The invariant of the session\<close>

definition ahead :: "dict list \<Rightarrow> nat \<Rightarrow> session \<Rightarrow> bool" where
  "ahead T n s \<longleftrightarrow> inputs_of (se_now s) = T \<and> covers n (se_now s) \<and> start_cursor (su_row (se_now s)) \<le> n
     \<and> (sr_driver (su_row (se_now s)) = ''completed'' \<longrightarrow> covers (length T) (se_now s))
     \<and> driver_ok (se_saved s)"

definition saved_ok :: "session \<Rightarrow> bool" where
  "saved_ok s \<longleftrightarrow> driver_ok (se_saved s)"

lemma ahead_saved: "ahead T n s \<Longrightarrow> saved_ok s"
  by (simp add: ahead_def saved_ok_def)

lemma ahead_open: "driver_ok u \<Longrightarrow> ahead (inputs_of u) (start_cursor (su_row u)) (open_session u)"
  by (simp add: ahead_def open_session_def driver_ok_def)

lemma ahead_now:
  assumes "ahead T n s" "keeps_log (se_now s) u"
    "sr_cursor (su_row u) = sr_cursor (su_row (se_now s))"
    "sr_driver (su_row u) = ''completed'' \<longrightarrow> sr_driver (su_row (se_now s)) = ''completed''"
  shows "ahead T n (s\<lparr>se_now := u\<rparr>)"
proof -
  have "start_cursor (su_row u) = start_cursor (su_row (se_now s))"
    using assms by (simp add: start_cursor_def keeps_log_def)
  then show ?thesis using assms keeps_log_covers keeps_log_inputs unfolding ahead_def by auto
qed

lemma ahead_driver_ok: "ahead T n s \<Longrightarrow> driver_ok (se_now s)"
  unfolding ahead_def driver_ok_def by (auto intro: covers_mono)

lemma keeps_log_world: "prefix (w_events (su_world u)) (w_events (f (su_world u))) \<Longrightarrow> keeps_log u (on_world f u)"
  by (simp add: keeps_log_def on_world_def)

lemma keeps_log_row:
  "sr_id (f (su_row u)) = sr_id (su_row u) \<Longrightarrow> sr_timeline (f (su_row u)) = sr_timeline (su_row u) \<Longrightarrow> keeps_log u (on_row f u)"
  by (simp add: keeps_log_def on_row_def)

lemma release_events [simp]: "w_events (release_own w) = w_events w"
  by (simp add: release_own_def put_run_job_def split: option.split)

lemma sync_row_fields [simp]:
  "sr_id (sync_row stamp run r) = sr_id r" "sr_timeline (sync_row stamp run r) = sr_timeline r"
  "sr_cursor (sync_row stamp run r) = sr_cursor r"
  "sr_driver (sync_row stamp run r) = ''completed'' \<Longrightarrow> sr_driver r = ''completed''"
  by (auto simp: sync_row_def split: if_splits)

lemma end_row_fields [simp]:
  "sr_id (end_row stamp r) = sr_id r" "sr_timeline (end_row stamp r) = sr_timeline r"
  "sr_cursor (end_row stamp r) = sr_cursor r" "sr_driver (end_row stamp r) = sr_driver r"
  by (simp_all add: end_row_def)

lemma ensure_driver_fields [simp]:
  "su_row (ensure_driver_pending env t u) = su_row u"
  "w_events (su_world (ensure_driver_pending env t u)) = w_events (su_world u)"
  by (simp_all add: ensure_driver_pending_def add_job_def on_world_def put_run_job_def Let_def split: option.split)

lemma ensure_finalizer_fields [simp]:
  "su_row (ensure_finalizer_pending env t u) = su_row u"
  "w_events (su_world (ensure_finalizer_pending env t u)) = w_events (su_world u)"
  by (simp_all add: ensure_finalizer_pending_def add_job_def on_world_def put_run_job_def Let_def split: option.split)

text \<open>The other transactions write the logs at their ends only.\<close>

definition others_grow :: "driver_env \<Rightarrow> bool" where
  "others_grow de \<longleftrightarrow> (\<forall>n w. grows w (de_others de n w))"

lemma valid_ahead_edit:
  assumes "\<And>u. keeps_log u (f u) \<and> sr_cursor (su_row (f u)) = sr_cursor (su_row u)
      \<and> (sr_driver (su_row (f u)) = ''completed'' \<longrightarrow> sr_driver (su_row u) = ''completed'')"
  shows "valid (ahead T n) (edit_suite f) (\<lambda>_. ahead T n) saved_ok"
  using assms by (intro valid_edit ahead_now) auto

lemma valid_ahead_save:
  assumes "others_grow de"
  shows "valid (ahead T n) (save de) (\<lambda>_. ahead T n) saved_ok"
proof (rule valid_save)
  fix s u assume s: "ahead T n s" and u: "u = on_world (\<lambda>w. de_others de (se_step s) (release_own w)) (se_now s)"
  have "keeps_log (se_now s) u"
    unfolding u using assms by (intro keeps_log_world) (metis release_events grows_def others_grow_def)
  with s have "ahead T n (s\<lparr>se_now := u\<rparr>)" by (rule ahead_now) (simp_all add: u on_world_def)
  then show "ahead T n (s\<lparr>se_now := u, se_saved := u, se_step := Suc (se_step s)\<rparr>)"
    using ahead_driver_ok [of T n "s\<lparr>se_now := u\<rparr>"] by (simp add: ahead_def)
qed (rule ahead_saved)

lemma valid_ahead_sync: "valid (ahead T n) sync_session (\<lambda>_. ahead T n) saved_ok"
proof (rule validI)
  fix s assume "ahead T n s"
  then have "ahead T n (s\<lparr>se_now := sync_suite (se_run s) (se_now s)\<rparr>)"
    by (rule ahead_now) (auto simp: sync_suite_def on_row_def keeps_log_def)
  then show "meets (sync_session s) (\<lambda>_. ahead T n) saved_ok"
    by (simp add: sync_session_def)
qed

lemma valid_ahead_pass: "valid (ahead T n) (pass_time de) (\<lambda>_. ahead T n) saved_ok"
proof (rule validI)
  fix s assume a: "ahead T n s"
  have "ahead T n (s\<lparr>se_now := on_world (\<lambda>w. w\<lparr>w_now := t, w_iso := i\<rparr>) (se_now s)\<rparr>)" for t i
    using a by (rule ahead_now) (auto simp: keeps_log_def on_world_def)
  then show "meets (pass_time de s) (\<lambda>_. ahead T n) saved_ok"
    by (simp add: pass_time_def Let_def)
qed

lemma valid_ahead_lift: "valid (ahead T n) (slift r) (\<lambda>_. ahead T n) saved_ok"
  by (rule valid_slift) (auto intro: ahead_saved)

lemma valid_ahead_ask: "valid (ahead T n) (sasks f) (\<lambda>_. ahead T n) saved_ok"
  by (rule valid_sasks)

lemmas valid_ahead = valid_ahead_save valid_ahead_sync valid_ahead_pass valid_ahead_lift valid_ahead_ask

section \<open>The driver\<close>

lemma known_sent: "known_event q w = Some ev \<Longrightarrow> er_external q = Some key \<Longrightarrow> sent_in w key"
  by (drule known_event_Some) (auto simp: sent_in_def list_ex_iff)

lemma appended_sent:
  assumes "append_terminal_event env q w = Inr (ev, w')" "er_external q = Some key"
  shows "sent_in w' key"
proof -
  have events: "w_events (ensure_job_pending env v) = w_events v" for v
    by (simp add: ensure_job_pending_def put_run_job_def split: option.split)
  from append_terminal_event_Inr [OF assms(1)] show ?thesis
  proof
    assume "known_event q w = Some ev \<and> w' = w"
    then show ?thesis using known_sent assms(2) by blast
  next
    assume "known_event q w = None \<and> run_open w \<and> session_open w \<and> (\<exists>s w1. w_session w = Some s
      \<and> append_event env s q w = Inr (ev, w1) \<and> w' = (if er_direction q = ''input'' then ensure_job_pending env w1 else w1))"
    then obtain s w1 where a: "append_event env s q w = Inr (ev, w1)"
      and w': "w' = (if er_direction q = ''input'' then ensure_job_pending env w1 else w1)" by blast
    have "te_external ev = Some key \<and> w_events w1 = w_events w @ [ev]"
      using append_event_Inr [OF a] assms(2) by (auto simp: on_run_def)
    then show ?thesis by (simp add: w' sent_in_def events)
  qed
qed

lemma request_key: "input_request te u ev t = Inr q \<Longrightarrow> er_external q = Some (input_key (su_row u) ev)"
proof -
  assume q: "input_request te u ev t = Inr q"
  have d: "er_external (driver_request te r ev t) = Some (input_key r ev)" for r by (simp add: driver_request_def)
  have p: "plain_request te u ev t = Inr p \<Longrightarrow> er_external p = Some (input_key (su_row u) ev)" for p
    unfolding plain_request_def Let_def by (auto simp only: rbind_eq_Inr sum.inject split: if_splits) (simp_all add: d)
  show ?thesis
  proof (cases "list_or_empty (dget ev ''parts'') = []")
    case True
    then show ?thesis using q p by (simp add: input_request_def)
  next
    case False
    then show ?thesis using q by (auto simp add: input_request_def rbind_eq_Inr d)
  qed
qed

lemma input_key_same: "sr_id r' = sr_id r \<Longrightarrow> input_key r' ev = input_key r ev"
  by (simp add: input_key_def)

definition ahead_by :: "dict list \<Rightarrow> nat \<Rightarrow> dict \<Rightarrow> session \<Rightarrow> bool" where
  "ahead_by T n ev s \<longleftrightarrow> ahead T n s \<and> sent_in (su_world (se_now s)) (input_key (su_row (se_now s)) ev)"

lemma valid_check_ahead: "valid P check_fence (\<lambda>_. P) E" if "\<And>s. P s \<Longrightarrow> E s"
  by (rule valid_check) (use that in auto)

lemma valid_ahead_by_save:
  assumes "others_grow de"
  shows "valid (ahead_by T n ev) (save de) (\<lambda>_. ahead_by T n ev) saved_ok"
proof (rule valid_save)
  fix s u assume s: "ahead_by T n ev s" and u: "u = on_world (\<lambda>w. de_others de (se_step s) (release_own w)) (se_now s)"
  have k: "keeps_log (se_now s) u"
    unfolding u using assms by (intro keeps_log_world) (metis release_events grows_def others_grow_def)
  have "ahead T n s" using s by (simp add: ahead_by_def)
  from this k have t: "ahead T n (s\<lparr>se_now := u\<rparr>)" by (rule ahead_now) (simp_all add: u on_world_def)
  moreover have "sent_in (su_world u) (input_key (su_row u) ev)"
    using s keeps_log_sent [OF k] by (simp add: ahead_by_def)
  ultimately show "ahead_by T n ev (s\<lparr>se_now := u, se_saved := u, se_step := Suc (se_step s)\<rparr>)"
    using ahead_driver_ok [OF t] by (simp add: ahead_by_def ahead_def)
qed (auto simp: ahead_by_def intro: ahead_saved)

lemma valid_append_input:
  assumes others: "others_grow de"
  shows "valid (\<lambda>s. ahead T n s \<and> er_external q = Some (input_key (su_row (se_now s)) ev)) (append_input de q)
    (\<lambda>_. ahead_by T n ev) saved_ok"
proof (rule validI)
  fix s assume "ahead T n s \<and> er_external q = Some (input_key (su_row (se_now s)) ev)"
  then have s: "ahead T n s" and key: "er_external q = Some (input_key (su_row (se_now s)) ev)" by auto
  let ?w = "su_world (se_now s)"
  have run: "ahead_by T n ev (t\<lparr>se_run := r\<rparr>) = ahead_by T n ev t" "saved_ok (t\<lparr>se_run := r\<rparr>) = saved_ok t"
    "ahead T n (t\<lparr>se_run := r\<rparr>) = ahead T n t" for t r
    by (simp_all add: ahead_by_def ahead_def saved_ok_def)
  show "meets (append_input de q s) (\<lambda>_. ahead_by T n ev) saved_ok"
  proof (cases "append_terminal_event (de_env de) q ?w")
    case (Inl e)
    then show ?thesis using s by (simp add: append_input_def run ahead_saved)
  next
    case (Inr r)
    then have append: "append_terminal_event (de_env de) q ?w = Inr (fst r, snd r)" by simp
    show ?thesis
    proof (cases "known_event q ?w")
      case (Some old)
      then have "ahead_by T n ev s" using s known_sent [OF Some key] by (simp add: ahead_by_def)
      then show ?thesis using Inr Some by (simp add: append_input_def run)
    next
      case None
      let ?t = "s\<lparr>se_now := (se_now s)\<lparr>su_world := snd r\<rparr>\<rparr>"
      have k: "keeps_log (se_now s) ((se_now s)\<lparr>su_world := snd r\<rparr>)"
        using grows_api [OF append] by (simp add: keeps_log_def grows_def)
      have "ahead T n ?t" by (rule ahead_now [OF s k]) simp_all
      then have t: "ahead_by T n ev (?t\<lparr>se_run := w_run (snd r)\<rparr>)"
        using appended_sent [OF append key] by (simp add: run ahead_by_def)
      have "valid (ahead_by T n ev) (sbind (save de) (\<lambda>_. sbind check_fence (\<lambda>_. sret (fst r))))
          (\<lambda>_. ahead_by T n ev) saved_ok"
        by (intro valid_sbind [OF valid_ahead_by_save [OF others]] valid_sbind [OF valid_check_ahead] valid_sret)
          (auto simp: ahead_by_def ahead_saved)
      from validD [OF this, OF t] show ?thesis using Inr None by (simp add: append_input_def Let_def)
    qed
  qed
qed

lemma valid_send_input:
  assumes "others_grow de"
  shows "valid (ahead T n) (send_input de ev t) (\<lambda>_. ahead_by T n ev) saved_ok"
  unfolding send_input_def
proof (rule valid_sbind)
  let ?Q = "\<lambda>q s. ahead T n s \<and> q = input_request (de_te de) (se_now s) ev t"
  show "valid (ahead T n) (sasks (\<lambda>s. input_request (de_te de) (se_now s) ev t)) ?Q saved_ok"
    by (rule valid_sasks) simp
  show "valid (?Q q) (sbind (slift q) (append_input de)) (\<lambda>_. ahead_by T n ev) saved_ok" for q
    by (rule valid_sbind [OF valid_slift [where Q = "\<lambda>q s. ahead T n s \<and> er_external q = Some (input_key (su_row (se_now s)) ev)"]])
      (auto intro: ahead_saved valid_append_input [OF assms] dest: request_key [OF sym])
qed

text \<open>Recording the sent event moves the cursor over it.\<close>

lemma ahead_step:
  assumes s: "ahead_by T n (T ! n) s" and n: "n < length T"
    and f: "sr_id (f (su_row (se_now s))) = sr_id (su_row (se_now s))"
      "sr_timeline (f (su_row (se_now s))) = sr_timeline (su_row (se_now s))"
      "sr_cursor (f (su_row (se_now s))) = int (Suc n)"
      "sr_driver (f (su_row (se_now s))) = sr_driver (su_row (se_now s))"
  shows "ahead T (Suc n) (s\<lparr>se_now := on_row f (se_now s)\<rparr>)"
proof -
  have T: "inputs_of (se_now s) = T" and c: "covers n (se_now s)" using s by (auto simp: ahead_by_def ahead_def)
  have "covers (Suc n) (se_now s)"
    using s n c T by (intro covers_Suc) (auto simp: ahead_by_def)
  moreover have k: "keeps_log (se_now s) (on_row f (se_now s))" using f by (intro keeps_log_row) auto
  moreover have "start_cursor (su_row (on_row f (se_now s))) \<le> Suc n" using f(3) by (simp add: start_cursor_def on_row_def)
  moreover have "sr_driver (su_row (on_row f (se_now s))) = sr_driver (su_row (se_now s))" using f(4) by (simp add: on_row_def)
  ultimately show ?thesis
    using s keeps_log_covers [OF k] keeps_log_inputs [OF k] T by (simp add: ahead_by_def ahead_def)
qed

lemma valid_send_one:
  assumes "others_grow de" "n < length T"
  shows "valid (ahead T n) (send_one de n (T ! n) at_ms) (\<lambda>_. ahead T (Suc n)) saved_ok"
  unfolding send_one_def
proof (rule valid_sbind [OF valid_ahead_ask], rule valid_sbind [OF valid_send_input [OF assms(1)]], 
    rule valid_sbind [OF valid_sasks [where Q = "\<lambda>_. ahead_by T n (T ! n)"]])
  show "valid (ahead_by T n (T ! n)) (edit_suite (on_row (\<lambda>r. r\<lparr>sr_sent := sr_sent r @ [sent_record (de_te de) (T ! n) at_ms t a e],
      sr_cursor := int (Suc n)\<rparr>))) (\<lambda>_. ahead T (Suc n)) saved_ok" for t e a
    by (rule valid_edit, rule ahead_step [OF _ assms(2)]) simp_all
qed simp

definition settled :: "dict list \<Rightarrow> session \<Rightarrow> bool" where
  "settled T s \<longleftrightarrow> (\<exists>n. ahead T n s)"

lemma settled_saved: "settled T s \<Longrightarrow> saved_ok s"
  by (auto simp: settled_def intro: ahead_saved)

lemma valid_settled: "valid (ahead T n) f (\<lambda>_. ahead T n) saved_ok \<Longrightarrow> valid (ahead T n) f (\<lambda>_. settled T) saved_ok"
  by (erule valid_post) (auto simp: settled_def)

lemma valid_from_settled: "(\<And>n. valid (ahead T n) f (\<lambda>_. ahead T n) saved_ok) \<Longrightarrow> valid (settled T) f (\<lambda>_. settled T) saved_ok"
proof (rule validI)
  fix s assume v: "\<And>n. valid (ahead T n) f (\<lambda>_. ahead T n) saved_ok" and "settled T s"
  then obtain n where "ahead T n s" by (auto simp: settled_def)
  show "meets (f s) (\<lambda>_. settled T) saved_ok"
    by (rule meets_weaken [OF validD [OF v \<open>ahead T n s\<close>]]) (auto simp: settled_def)
qed

lemma valid_fail_unsent:
  assumes "others_grow de"
  shows "valid (ahead T n) (fail_unsent de evs) (\<lambda>_. settled T) saved_ok"
  unfolding fail_unsent_def
  by (intro valid_settled valid_sbind [OF valid_ahead_edit] valid_ahead_save assms)
    (simp add: inputs_unsent_def on_row_def keeps_log_def)

lemma valid_look:
  shows "valid (ahead T n) (look_again de sent_any t) (\<lambda>_. ahead T n) saved_ok"
proof (rule validI)
  fix s assume s: "ahead T n s"
  have "valid (ahead T n) (sbind sync_session (\<lambda>_. sbind (pass_time de) (\<lambda>_.
      sasks (\<lambda>s'. if ended (se_run s') then Over else if t \<le> se_clock s' then Due else Later))))
      (\<lambda>_. ahead T n) saved_ok"
    by (rule valid_sbind [OF valid_ahead_sync valid_sbind [OF valid_ahead_pass valid_ahead_ask]])
  from validD [OF this s] show "meets (look_again de sent_any t s) (\<lambda>_. ahead T n) saved_ok"
    using s by (simp add: look_again_def)
qed

lemma ahead_cursor:
  assumes "ahead T n s" "sr_id (f (su_row (se_now s))) = sr_id (su_row (se_now s))"
    "sr_timeline (f (su_row (se_now s))) = sr_timeline (su_row (se_now s))"
    "sr_cursor (f (su_row (se_now s))) = int n"
    "sr_driver (f (su_row (se_now s))) = ''completed'' \<longrightarrow> length T \<le> n"
  shows "ahead T n (s\<lparr>se_now := on_row f (se_now s)\<rparr>)"
proof -
  have k: "keeps_log (se_now s) (on_row f (se_now s))" using assms by (intro keeps_log_row) auto
  have T: "inputs_of (on_row f (se_now s)) = T" using assms(1) keeps_log_inputs [OF k] by (simp add: ahead_def)
  have c: "covers n (on_row f (se_now s))" using assms(1) keeps_log_covers [OF k] by (simp add: ahead_def)
  then have "length T \<le> n \<Longrightarrow> covers (length T) (on_row f (se_now s))" using covers_mono by blast
  moreover have "start_cursor (su_row (on_row f (se_now s))) \<le> n" using assms(4) by (simp add: start_cursor_def on_row_def)
  moreover have "sr_driver (su_row (on_row f (se_now s))) = sr_driver (f (su_row (se_now s)))" by (simp add: on_row_def)
  ultimately show ?thesis using assms(1,5) T c by (simp add: ahead_def)
qed

lemma valid_finish_driver:
  assumes "others_grow de" "length T \<le> n"
  shows "valid (ahead T n) (finish_driver de n sent_any) (\<lambda>_. settled T) saved_ok"
  unfolding finish_driver_def
proof (rule valid_settled, rule valid_sbind)
  show "valid (ahead T n) (edit_suite (on_row (\<lambda>r. r\<lparr>sr_driver := ''completed'', sr_cursor := int n\<rparr>)))
      (\<lambda>_. ahead T n) saved_ok"
    by (rule valid_edit, rule ahead_cursor) (use assms in simp_all)
  have sync: "valid (ahead T n) (if sent_any then sync_session else sret ()) (\<lambda>_. ahead T n) saved_ok"
    by (simp add: valid_ahead valid_sret)
  have ensure: "valid (ahead T n) (edit_suite (ensure_finalizer_pending (de_env de) None)) (\<lambda>_. ahead T n) saved_ok"
    by (rule valid_ahead_edit) (simp add: keeps_log_def)
  show "valid (ahead T n) (sbind (if sent_any then sync_session else sret ()) (\<lambda>_.
      sbind (edit_suite (ensure_finalizer_pending (de_env de) None)) (\<lambda>_. save de))) (\<lambda>_. ahead T n) saved_ok"
    by (rule valid_sbind [OF sync valid_sbind [OF ensure valid_ahead_save [OF assms(1)]]])
qed

lemma valid_wait_time: "valid (ahead T n) (wait_time n) (\<lambda>_. settled T) saved_ok"
  unfolding wait_time_def by (rule valid_settled, rule valid_edit, rule ahead_cursor) simp_all

lemma valid_drive:
  assumes others: "others_grow de"
  shows "rest = drop n T \<Longrightarrow> valid (ahead T n) (drive de n sent_any rest) (\<lambda>_. settled T) saved_ok"
proof (induction rest arbitrary: n sent_any)
  case Nil
  then have "length T \<le> n" by simp
  then show ?case using valid_finish_driver [OF others] by simp
next
  case (Cons ev evs)
  then have n: "n < length T" "T ! n = ev" "evs = drop (Suc n) T"
    by (metis drop_all leI list.distinct(1), metis nth_via_drop, metis drop_Suc list.sel(3) tl_drop)
  have "valid (ahead T n) (sbind (send_one de n ev at_ms) (\<lambda>_. drive de (Suc n) True evs)) (\<lambda>_. settled T) saved_ok" for at_ms
    by (rule valid_sbind [OF valid_send_one [OF others n(1), unfolded n(2)] Cons.IH [OF n(3)]])
  then have "valid (ahead T n) (case look of Over \<Rightarrow> fail_unsent de (ev # evs) | Later \<Rightarrow> wait_time n
      | Due \<Rightarrow> sbind (send_one de n ev at_ms) (\<lambda>_. drive de (Suc n) True evs)) (\<lambda>_. settled T) saved_ok" for look at_ms
    using valid_fail_unsent [OF others] valid_wait_time by (cases look) simp_all
  then show ?case unfolding drive.simps
    by (intro valid_sbind [OF valid_ahead_lift] valid_sbind [OF valid_ahead_ask] valid_sbind [OF valid_look])
qed

lemma ahead_start: "ahead T n s \<Longrightarrow> ahead T (start_cursor (su_row (se_now s))) s"
  by (auto simp: ahead_def intro: covers_mono)

lemma valid_process_timeline:
  assumes others: "others_grow de"
  shows "valid (ahead T n) (process_timeline_driver de) (\<lambda>_. settled T) saved_ok"
proof -
  let ?Q = "\<lambda>r s. ahead T n s \<and> su_row (se_now s) = r"
  have "valid (?Q r) (if sr_status r = ''cancelled'' \<or> sr_driver r = ''cancelled'' then save de
       else (let evs = timeline_inputs (sr_timeline r); cursor = start_cursor r in
         sbind (sasks (\<lambda>s. ended (se_run s))) (\<lambda>over.
           if over \<and> cursor < length evs then fail_unsent de (drop cursor evs)
           else drive de cursor False (drop cursor evs)))) (\<lambda>_. settled T) saved_ok" for r
  proof (cases "sr_status r = ''cancelled'' \<or> sr_driver r = ''cancelled''")
    case True
    then show ?thesis
      by (simp only: if_True) (rule valid_pre [OF valid_settled [OF valid_ahead_save [OF others]]], blast)
  next
    case False
    have "valid (ahead T m) (if over \<and> m < length T then fail_unsent de (drop m T) else drive de m False (drop m T))
        (\<lambda>_. settled T) saved_ok" for over m
      using valid_fail_unsent [OF others] valid_drive [OF others refl] by simp
    then have "valid (ahead T m) (sbind (sasks (\<lambda>s. ended (se_run s))) (\<lambda>over.
        if over \<and> m < length T then fail_unsent de (drop m T) else drive de m False (drop m T))) (\<lambda>_. settled T) saved_ok" for m
      by (rule valid_sbind [OF valid_ahead_ask])
    note drive = validD [OF this]
    show ?thesis
    proof (rule validI)
      fix s assume "ahead T n s \<and> su_row (se_now s) = r"
      then have a: "ahead T n s" and r: "su_row (se_now s) = r" by blast+
      have s: "ahead T (start_cursor r) s" using ahead_start [OF a] unfolding r .
      have T: "T = timeline_inputs (sr_timeline r)" using a unfolding ahead_def inputs_of_def r by blast
      show "meets ((if sr_status r = ''cancelled'' \<or> sr_driver r = ''cancelled'' then save de
          else (let evs = timeline_inputs (sr_timeline r); cursor = start_cursor r in
            sbind (sasks (\<lambda>s. ended (se_run s))) (\<lambda>over.
              if over \<and> cursor < length evs then fail_unsent de (drop cursor evs)
              else drive de cursor False (drop cursor evs)))) s) (\<lambda>_. settled T) saved_ok"
        unfolding Let_def T [symmetric] using drive [OF s] False by simp
    qed
  qed
  then have "valid (ahead T n) (sbind (sasks (\<lambda>s. su_row (se_now s))) (\<lambda>r.
      if sr_status r = ''cancelled'' \<or> sr_driver r = ''cancelled'' then save de
       else (let evs = timeline_inputs (sr_timeline r); cursor = start_cursor r in
         sbind (sasks (\<lambda>s. ended (se_run s))) (\<lambda>over.
           if over \<and> cursor < length evs then fail_unsent de (drop cursor evs)
           else drive de cursor False (drop cursor evs))))) (\<lambda>_. settled T) saved_ok"
    by (intro valid_sbind [OF valid_sasks [where Q = ?Q]]) simp_all
  then show ?thesis unfolding process_timeline_driver_def
    by (intro valid_sbind [OF valid_ahead_ask])
      (simp add: valid_settled [OF valid_ahead_lift] valid_sbind [OF valid_ahead_sync])
qed

lemma valid_settled_edit:
  assumes "\<And>u. su_row (f u) = su_row u \<and> w_events (su_world (f u)) = w_events (su_world u)"
  shows "valid (settled T) (edit_suite f) (\<lambda>_. settled T) saved_ok"
  by (rule valid_from_settled, rule valid_ahead_edit) (simp add: keeps_log_def assms)

lemma valid_settle_driver: "valid (settled T) (settle_driver de jid) (\<lambda>_. settled T) saved_ok"
proof (rule validI)
  fix s assume s: "settled T s"
  have jobs: "meets (edit_suite (on_world (\<lambda>w. w\<lparr>w_jobs := map (\<lambda>j. if j_id j = jid
      then settle_driver_job now d j else j) (w_jobs w)\<rparr>)) s) (\<lambda>_. settled T) saved_ok" for now d
    by (rule validD [OF valid_settled_edit s]) (simp add: on_world_def)
  have ensure: "valid (settled T) (edit_suite (ensure_driver_pending (de_env de) t)) (\<lambda>_. settled T) saved_ok" for t
    by (rule valid_settled_edit) simp
  have due: "valid (settled T) (sbind (slift r) (\<lambda>t. edit_suite (ensure_driver_pending (de_env de) (Some t))))
      (\<lambda>_. settled T) saved_ok" for r
    by (rule valid_sbind [OF valid_slift [where Q = "\<lambda>_. settled T"]]) (auto intro: settled_saved ensure)
  show "meets (settle_driver de jid s) (\<lambda>_. settled T) saved_ok"
    unfolding settle_driver_def Let_def
    using jobs validD [OF ensure s] validD [OF due s] s by (simp only: meets_simps split: if_split) blast
qed

lemma driver_job_ok:
  assumes others: "others_grow de" and u: "driver_ok u"
  shows "meets (process_driver_job de jid (open_session u)) (\<lambda>_. saved_ok) saved_ok"
proof -
  let ?T = "inputs_of u" and ?s = "open_session u"
  have s: "ahead ?T (start_cursor (su_row u)) ?s" by (rule ahead_open [OF u])
  have "valid (settled ?T) (edit_suite (put_error jid)) (\<lambda>_. settled ?T) saved_ok"
    by (rule valid_settled_edit) (simp add: put_error_def on_world_def)
  moreover have "valid (settled ?T) (save de) (\<lambda>_. settled ?T) saved_ok"
    by (rule valid_from_settled [OF valid_ahead_save [OF others]])
  ultimately have v: "valid (ahead ?T (start_cursor (su_row u))) (sbind (process_timeline_driver de) (\<lambda>_.
      sbind (settle_driver de jid) (\<lambda>_. sbind (edit_suite (put_error jid)) (\<lambda>_. save de)))) (\<lambda>_. settled ?T) saved_ok"
    by (intro valid_sbind [OF valid_process_timeline [OF others]] valid_sbind [OF valid_settle_driver]) (rule valid_sbind)
  have "saved_ok ?s" using s by (rule ahead_saved)
  moreover have "meets (sbind (process_timeline_driver de) (\<lambda>_. sbind (settle_driver de jid) (\<lambda>_.
      sbind (edit_suite (put_error jid)) (\<lambda>_. save de))) ?s) (\<lambda>_. saved_ok) saved_ok"
    by (rule meets_weaken [OF validD [OF v s]]) (auto intro: settled_saved)
  ultimately show ?thesis unfolding process_driver_job_def by (auto split: option.split)
qed

end
