(* ===== verification/Finalizer.thy ===== *)
theory Finalizer
  imports Driver
begin

text \<open>
  The finalizer of a skill test (\<^verbatim>\<open>process_finalizer_job\<close>), which judges one expectation per pass and
  gives the verdict, and the operations beside it: the exhausted jobs, cancelling, asking for an
  evaluation and starting a run. The model is asked outside any transaction; \<open>fe_pause\<close> is what other
  transactions do to the rows meanwhile.
\<close>

record finalizer_env =
  fe_driver :: driver_env
  fe_pack :: prompt_pack
  fe_ask :: "prepared \<Rightarrow> completion res"
  fe_class :: "exc \<Rightarrow> string"
  fe_pause :: "suite \<Rightarrow> suite"

definition on_job :: "string \<Rightarrow> (job \<Rightarrow> job) \<Rightarrow> suite \<Rightarrow> suite" where
  "on_job jid f u = on_world (\<lambda>w. w\<lparr>w_jobs := map (\<lambda>j. if j_id j = jid then f j else j) (w_jobs w)\<rparr>) u"

definition suite_job :: "string \<Rightarrow> suite \<Rightarrow> job option" where
  "suite_job jid u = by_id jid (w_jobs (su_world u))"

section \<open>Metrics of the judge\<close>

definition USAGE_KEYS :: "string list" where
  "USAGE_KEYS = [''input_tokens'', ''output_tokens'', ''total_tokens'']"

definition usage_of :: "evaluation \<Rightarrow> dict" where
  "usage_of e = dict_or_empty (dget (ev_raw e) ''usage'')"

definition add_judge_usage :: "evaluation \<Rightarrow> dict \<Rightarrow> dict" where
  "add_judge_usage e totals =
     (let usage = usage_of e; keys = filter (\<lambda>k. is_int (dget usage k) \<and> \<not> is_bool (dget usage k)) USAGE_KEYS;
          summed = fold (\<lambda>k t. dset k (JInt (int_of_json (dget t k) + int_of_json (dget usage k))) t) keys totals in
      if keys = [] then totals
      else dset ''llm_calls'' (JInt (int_of_json (dget summed ''llm_calls'') + 1)) summed)"

definition judge_totals :: "evaluation list \<Rightarrow> dict" where
  "judge_totals evals =
     fold add_judge_usage evals
       [(''llm_calls'', JInt 0), (''input_tokens'', JInt 0), (''output_tokens'', JInt 0), (''total_tokens'', JInt 0)]"

definition judge_metrics :: "evaluation list \<Rightarrow> job \<Rightarrow> job" where
  "judge_metrics evals j =
     (let totals = judge_totals evals in
      if int_of_json (dget totals ''llm_calls'') > 0 then j\<lparr>j_metrics := merge_dict (j_metrics j) totals\<rparr> else j)"

section \<open>One pass\<close>

definition missing :: "suite \<Rightarrow> dict list" where
  "missing u = filter (\<lambda>ev. event_id ev \<notin> set (map ev_expectation (su_evals u))) (expectations u)"

text \<open>The first missing expectation whose time has come, or the first one when the run has ended.\<close>

fun eligible :: "scenario_run \<Rightarrow> run_row \<Rightarrow> int \<Rightarrow> dict list \<Rightarrow> (dict option) res" where
  "eligible r run now [] = Inr None"
| "eligible r run now (ev # evs) =
     (if ended run then Inr (Some ev)
      else rbind (int_or0 (dget ev ''at_ms'')) (\<lambda>n.
        if scenario_time r n \<le> now then Inr (Some ev) else eligible r run now evs))"

definition outputs_until :: "timeline_env \<Rightarrow> int \<Rightarrow> world \<Rightarrow> tevent list" where
  "outputs_until te cutoff w =
     filter (\<lambda>ev. te_direction ev = ''output''
       \<and> (case tl_time te (te_at ev) of None \<Rightarrow> False | Some t \<Rightarrow> t \<le> cutoff)) (w_events w)"

definition read_run :: "unit sact" where
  "read_run s = (Inr (), s\<lparr>se_run := w_run (su_world (se_now s))\<rparr>)"

definition put_summary :: "suite \<Rightarrow> suite" where
  "put_summary u = on_row (\<lambda>r. r\<lparr>sr_summary := summarize_suite u\<rparr>) u"

definition finish_job :: "string \<Rightarrow> suite \<Rightarrow> suite" where
  "finish_job jid u = on_job jid (finish_finalizer (w_now (su_world u)) (su_row u)) u"

text \<open>The end of a pass: the verdict when all is judged and the run has ended, else another look.\<close>

definition conclude :: "driver_env \<Rightarrow> string \<Rightarrow> unit sact" where
  "conclude de jid s =
     (let u = se_now s; r = su_row u; run = se_run s; w = su_world u in
      if missing u = [] \<and> ended run
      then sbind (slift (finalize_row (w_iso w) run r)) (\<lambda>r'. edit_suite (\<lambda>u. finish_job jid (on_row (\<lambda>_. r') u))) s
      else (case suite_job jid u of
          None \<Rightarrow> (Inr (), s)
        | Some j \<Rightarrow> sbind (slift (reschedule_finalizer (de_te de) r run (missing u) (w_now w) j)) (\<lambda>j'.
            edit_suite (on_job jid (\<lambda>_. j'))) s))"

definition close_cancelled :: "run_row \<Rightarrow> suite \<Rightarrow> suite" where
  "close_cancelled run u =
     on_row (\<lambda>r. r\<lparr>sr_status := ''cancelled'', sr_ended := Some (w_iso (su_world u)),
       sr_summary := dset ''reason'' (JStr (text_or (r_exit run) ''runtime_cancelled''))
         (dset ''status'' (JStr ''cancelled'') (summarize_suite u))\<rparr>) u"

definition ask_payload :: "timeline_env \<Rightarrow> scenario_run \<Rightarrow> prepared \<Rightarrow> int \<Rightarrow> dict" where
  "ask_payload te r p cutoff =
     [(''scenario_run_id'', JStr (sr_id r)), (''current_expectation_id'', JStr (pj_expectation p)),
      (''wait_reason'', JStr ''judge''), (''next_cutoff_at'', JStr (tl_iso te cutoff))]"

definition prepare :: "finalizer_env \<Rightarrow> dict \<Rightarrow> (prepared \<times> int) sact" where
  "prepare fe ev s =
     (let de = fe_driver fe; te = de_te de; u = se_now s; run = se_run s in
      sbind (slift (int_or0 (dget ev ''at_ms''))) (\<lambda>n.
        let cutoff = scenario_time (su_row u) n in
        slift (rbind (prepare_judge te (en_sha (de_env de)) (fe_pack fe) (su_policy u) ev
          (outputs_until te cutoff (su_world u)) (r_output run) (r_status run) cutoff) (\<lambda>p. Inr (p, cutoff)))) s)"

definition judged :: "finalizer_env \<Rightarrow> job \<Rightarrow> prepared \<Rightarrow> judge_result res" where
  "judged fe j p =
     (let env = de_env (fe_driver fe) in
      case invoke_judge (de_te (fe_driver fe)) (en_loads env) (fe_ask fe) p of
        Inr result \<Rightarrow> Inr result
      | Inl e \<Rightarrow> if j_attempt j < j_max j then Inl e else Inr (inconclusive_result (fe_class fe) (en_text env) p e))"

definition new_evaluation :: "prepared \<Rightarrow> judge_result \<Rightarrow> evaluation" where
  "new_evaluation p result =
     \<lparr>ev_expectation = pj_expectation p, ev_status = jr_status result, ev_confidence = jr_confidence result,
      ev_reason = jr_reason result, ev_refs = jr_refs result, ev_provider = jr_provider result,
      ev_model = jr_model result, ev_hash = pj_hash p, ev_raw = jr_raw result\<rparr>"

definition add_evaluation :: "prepared \<Rightarrow> judge_result \<Rightarrow> suite \<Rightarrow> suite" where
  "add_evaluation p result u =
     (if pj_expectation p \<in> set (map ev_expectation (su_evals u)) then u
      else u\<lparr>su_evals := su_evals u @ [new_evaluation p result]\<rparr>)"

definition reopen :: "finalizer_env \<Rightarrow> unit sact" where
  "reopen fe = sbind (\<lambda>s. let u = fe_pause fe (se_saved s) in (Inr (), s\<lparr>se_now := u, se_saved := u\<rparr>)) (\<lambda>_. check_fence)"

definition record_result :: "finalizer_env \<Rightarrow> string \<Rightarrow> prepared \<Rightarrow> judge_result \<Rightarrow> unit sact" where
  "record_result fe jid p result s =
     (let de = fe_driver fe; u = se_now s in
      if (case suite_job jid u of None \<Rightarrow> True | Some j \<Rightarrow> j_status j \<noteq> ''running'') then (Inr (), s)
      else if sr_status (su_row u) \<in> set VERDICTS then sbind (edit_suite (finish_job jid)) (\<lambda>_. save de) s
      else sbind (edit_suite (add_evaluation p result)) (\<lambda>_. sbind read_run (\<lambda>_.
        sbind (edit_suite put_summary) (\<lambda>_.
        sbind (edit_suite (\<lambda>u. on_job jid (judge_metrics (su_evals u)) u)) (\<lambda>_.
        sbind (conclude de jid) (\<lambda>_. save de))))) s)"

definition judge_one :: "finalizer_env \<Rightarrow> string \<Rightarrow> job \<Rightarrow> dict \<Rightarrow> unit sact" where
  "judge_one fe jid j ev =
     sbind (prepare fe ev) (\<lambda>pc.
     sbind (edit_suite (\<lambda>u. on_job jid (\<lambda>j. j\<lparr>j_payload := ask_payload (de_te (fe_driver fe)) (su_row u) (fst pc) (snd pc)\<rparr>) u)) (\<lambda>_.
     sbind (save (fe_driver fe)) (\<lambda>_.
     sbind (slift (judged fe j (fst pc))) (\<lambda>result.
     sbind (reopen fe) (\<lambda>_. record_result fe jid (fst pc) result)))))"

definition pass :: "finalizer_env \<Rightarrow> string \<Rightarrow> job \<Rightarrow> unit sact" where
  "pass fe jid j =
     (let de = fe_driver fe in
      sbind read_run (\<lambda>_. sbind (sasks se_run) (\<lambda>run.
        if r_status run = ''cancelled''
        then sbind (edit_suite (\<lambda>u. finish_job jid (close_cancelled run u))) (\<lambda>_. save de)
        else sbind (sasks se_now) (\<lambda>u.
          sbind (slift (eligible (su_row u) run (w_now (su_world u)) (missing u))) (\<lambda>found.
          case found of
            Some ev \<Rightarrow> judge_one fe jid j ev
          | None \<Rightarrow> sbind (edit_suite put_summary) (\<lambda>_. sbind (conclude de jid) (\<lambda>_. save de)))))))"

definition process_finalizer_job :: "finalizer_env \<Rightarrow> string \<Rightarrow> unit sact" where
  "process_finalizer_job fe jid s =
     (let u = se_now s in
      case suite_job jid u of
        None \<Rightarrow> (Inl NotFound, s)
      | Some j \<Rightarrow>
          if j_type j \<noteq> ''skill_test_scenario_finalizer'' then (Inl NotFound, s)
          else if job_scenario j = [] then (Inl (Invalid ''scenario_run_id''), s)
          else if job_scenario j \<noteq> sr_id (su_row u) then (Inl NotFound, s)
          else if sr_status (su_row u) \<in> set VERDICTS
            then sbind (edit_suite (finish_job jid)) (\<lambda>_. save (fe_driver fe)) s
          else if sr_run (su_row u) = None then (Inl (Invalid ''runtime run''), s)
          else pass fe jid j s)"

section \<open>Exhausted jobs\<close>

definition exhausted_test_job :: "string \<Rightarrow> string \<Rightarrow> suite \<Rightarrow> job option" where
  "exhausted_test_job jid type u =
     (case suite_job jid u of
        None \<Rightarrow> None
      | Some j \<Rightarrow> if j_type j = type \<and> job_scenario j \<noteq> [] \<and> job_scenario j = sr_id (su_row u) then Some j else None)"

definition finalize_exhausted_driver :: "string \<Rightarrow> string \<Rightarrow> suite \<Rightarrow> bool \<times> suite" where
  "finalize_exhausted_driver jid message u =
     (case exhausted_test_job jid ''skill_test_timeline_driver'' u of
        None \<Rightarrow> (False, u)
      | Some j \<Rightarrow>
          if sr_driver (su_row u) \<in> {''completed'', ''failed'', ''cancelled''} then (False, u)
          else (True, on_row (\<lambda>r. (end_row (w_iso (su_world u)) r)
            \<lparr>sr_status := ''failed'', sr_driver := ''failed'',
             sr_summary := dset ''job_id'' (JStr (j_id j))
               (dset ''error_message'' (JStr (text_or (strip message) ''Timeline driver job attempts exhausted.''))
               (dset ''reason'' (JStr ''timeline_driver_job_attempts_exhausted'')
               (dset ''status'' (JStr ''failed'') (sr_summary r))))\<rparr>) u))"

definition finalize_exhausted_finalizer :: "string \<Rightarrow> string \<Rightarrow> suite \<Rightarrow> bool \<times> suite" where
  "finalize_exhausted_finalizer jid message u =
     (case exhausted_test_job jid ''skill_test_scenario_finalizer'' u of
        None \<Rightarrow> (False, u)
      | Some j \<Rightarrow>
          if sr_status (su_row u) \<in> set VERDICTS then (False, u)
          else (True, on_row (\<lambda>r. r\<lparr>sr_status := ''failed'', sr_ended := Some (w_iso (su_world u)),
             sr_summary := dset ''job_id'' (JStr (j_id j))
               (dset ''error_message'' (JStr (text_or (strip message) ''Scenario finalizer job attempts exhausted.''))
               (dset ''reason'' (JStr ''scenario_finalizer_attempts_exhausted'')
               (dset ''status'' (JStr ''failed'') (summarize_suite u))))\<rparr>) u))"

section \<open>The API\<close>

text \<open>The runtime's \<^verbatim>\<open>cancel_run\<close> commits; what follows it raises nothing.\<close>

definition cancel_jobs :: "string \<Rightarrow> suite \<Rightarrow> suite" where
  "cancel_jobs reason u =
     cancel_test_job (finalizer_key (su_row u)) reason (cancel_test_job (driver_key (su_row u)) reason u)"

definition cancel_row :: "string \<Rightarrow> suite \<Rightarrow> suite" where
  "cancel_row reason u =
     on_row (\<lambda>r. (end_row (w_iso (su_world u)) r)
       \<lparr>sr_status := ''cancelled'', sr_driver := ''cancelled'',
        sr_summary := dset ''reason'' (JStr (text_or reason ''cancelled by user''))
          (dset ''status'' (JStr ''cancelled'') (sr_summary r))\<rparr>) u"

definition cancel_scenario :: "env \<Rightarrow> string \<Rightarrow> suite \<Rightarrow> suite res" where
  "cancel_scenario env reason u0 =
     (let u = sync_suite (w_run (su_world u0)) u0; r = su_row u in
      if sr_status r \<in> {''passed'', ''failed''} then Inl (Invalid ''scenario run ended'')
      else if sr_status r = ''cancelled'' then Inr (cancel_jobs reason u)
      else if sr_run r = None then Inr (cancel_jobs reason (cancel_row reason u))
      else rbind (cancel_run env (text_or reason ''cancelled by user'') (su_world u)) (\<lambda>w.
        Inr (cancel_jobs reason (cancel_row reason (sync_suite (w_run w) (u\<lparr>su_world := w\<rparr>))))))"

definition request_evaluation :: "env \<Rightarrow> suite \<Rightarrow> suite res" where
  "request_evaluation env u =
     (if sr_run (su_row u) = None then Inl (Invalid ''runtime run'')
      else if sr_status (su_row u) \<notin> set VERDICTS \<and> sr_driver (su_row u) = ''completed''
      then Inr (ensure_finalizer_pending env (Some (w_now (su_world u))) u) else Inr u)"

end
