(* ===== verification/Grading.thy ===== *)
theory Grading
  imports Finalizer
begin

text \<open>
  What the finalizer of a skill test promises, as an abstract machine: a panel that marks each
  expectation at most once and gives one verdict, which is a pass only when the run succeeded and
  every expectation is marked as passed; and the refinement of the handler to it.
\<close>

section \<open>The panel\<close>

record panel =
  pn_ids :: "string list"
  pn_marks :: "string \<Rightarrow> string option"
  pn_verdict :: "string option"
  pn_run :: string

definition all_passed :: "panel \<Rightarrow> bool" where
  "all_passed p \<longleftrightarrow> list_all (\<lambda>i. pn_marks p i = Some ''passed'') (pn_ids p)"

inductive grading :: "panel \<Rightarrow> panel \<Rightarrow> bool" where
  mark: "pn_verdict p = None \<Longrightarrow> i \<in> set (pn_ids p) \<Longrightarrow> pn_marks p i = None \<Longrightarrow>
    v \<in> {''passed'', ''failed'', ''inconclusive''} \<Longrightarrow> grading p (p\<lparr>pn_marks := (pn_marks p)(i \<mapsto> v)\<rparr>)"
| decide: "pn_verdict p = None \<Longrightarrow> \<forall>i \<in> set (pn_ids p). pn_marks p i \<noteq> None \<Longrightarrow> pn_run p \<in> set ENDED_RUNS \<Longrightarrow>
    grading p (p\<lparr>pn_verdict := Some (if pn_run p = ''succeeded'' \<and> all_passed p then ''passed'' else ''failed'')\<rparr>)"
| stop: "pn_verdict p = None \<Longrightarrow> v \<in> {''failed'', ''cancelled''} \<Longrightarrow> grading p (p\<lparr>pn_verdict := Some v\<rparr>)"
| runtime: "grading p (p\<lparr>pn_run := s\<rparr>)"

text \<open>What every history of the panel keeps.\<close>

definition sound :: "panel \<Rightarrow> bool" where
  "sound p \<longleftrightarrow> (pn_verdict p = Some ''passed'' \<longrightarrow> all_passed p)"

lemma grading_keeps:
  "grading p q \<Longrightarrow> pn_ids q = pn_ids p \<and> pn_marks p \<subseteq>\<^sub>m pn_marks q
     \<and> (pn_verdict p \<noteq> None \<longrightarrow> pn_verdict q = pn_verdict p) \<and> (sound p \<longrightarrow> sound q)"
  by (induction rule: grading.induct) (auto simp: map_le_def sound_def all_passed_def)

lemma gradings_keep:
  "grading\<^sup>*\<^sup>* p q \<Longrightarrow> pn_ids q = pn_ids p \<and> pn_marks p \<subseteq>\<^sub>m pn_marks q
     \<and> (pn_verdict p \<noteq> None \<longrightarrow> pn_verdict q = pn_verdict p) \<and> (sound p \<longrightarrow> sound q)"
proof (induction rule: rtranclp_induct)
  case (step q r)
  then show ?case using grading_keeps [OF step(2)] by (auto intro: map_le_trans)
qed simp

section \<open>The panel of a suite\<close>

definition marks_of :: "suite \<Rightarrow> string \<Rightarrow> string option" where
  "marks_of u i = map_option verdict_of (map_of (by_expectation (su_evals u)) i)"

definition verdict_given :: "scenario_run \<Rightarrow> string option" where
  "verdict_given r = (if sr_status r \<in> set VERDICTS then Some (sr_status r) else None)"

definition panel_of :: "suite \<Rightarrow> panel" where
  "panel_of u = \<lparr>pn_ids = map event_id (expectations u), pn_marks = marks_of u,
     pn_verdict = verdict_given (su_row u), pn_run = r_status (w_run (su_world u))\<rparr>"

lemma by_expectation_snoc: "by_expectation (es @ [e]) = AList.update (ev_expectation e) e (by_expectation es)"
  by (simp add: by_expectation_def)

lemma by_expectation_dom: "map_of (by_expectation es) i = None \<longleftrightarrow> i \<notin> set (map ev_expectation es)"
  by (induction es rule: rev_induct) (auto simp: by_expectation_snoc, auto simp: by_expectation_def)

lemma by_expectation_distinct: "distinct (map fst (by_expectation es))"
  by (induction es rule: rev_induct) (auto simp: by_expectation_snoc, auto simp: by_expectation_def)

lemma marks_of_None: "marks_of u i = None \<longleftrightarrow> i \<notin> set (map ev_expectation (su_evals u))"
  using by_expectation_dom by (simp add: marks_of_def)

lemma missing_marks: "missing u = [] \<longleftrightarrow> (\<forall>i \<in> set (map event_id (expectations u)). marks_of u i \<noteq> None)"
  by (auto simp: missing_def marks_of_None filter_empty_conv)

text \<open>Counting in the evaluations is counting the marks.\<close>

lemma length_filter_alist:
  assumes "distinct (map fst al)"
  shows "length (filter (\<lambda>p. fst p \<in> A \<and> P (snd p)) al) = card {i \<in> A. \<exists>v. map_of al i = Some v \<and> P v}"
proof -
  let ?xs = "filter (\<lambda>p. fst p \<in> A \<and> P (snd p)) al"
  have d: "distinct (map fst ?xs)" using assms by (rule distinct_map_filter)
  have "fst ` set ?xs = {i \<in> A. \<exists>v. map_of al i = Some v \<and> P v}"
    using assms by (force simp: map_of_eq_Some_iff)
  moreover have "card (fst ` set ?xs) = length ?xs"
    using distinct_card [OF d] by simp
  ultimately show ?thesis by simp
qed

lemma count_verdict_marks:
  "count_verdict v (su_evals u) (expectations u) =
     card {i \<in> set (map event_id (expectations u)). marks_of u i = Some v}"
  unfolding count_verdict_def length_filter_alist [OF by_expectation_distinct, of "set (map event_id (expectations u))" "\<lambda>e. verdict_of e = v"]
  by (rule arg_cong [where f = card]) (auto simp: marks_of_def)

lemma verdict_of_in: "verdict_of e \<in> {''passed'', ''failed'', ''inconclusive''}"
  by (simp add: verdict_of_def)

lemma marks_in: "marks_of u i = Some v \<Longrightarrow> v \<in> {''passed'', ''failed'', ''inconclusive''}"
  using verdict_of_in by (auto simp: marks_of_def)

lemma summary_passed:
  assumes missing: "missing u = []" and distinct: "distinct (map event_id (expectations u))"
  shows "run_passed run (summarize status (su_evals u) (expectations u)) =
    Inr (r_status run = ''succeeded'' \<and> all_passed (panel_of u))"
proof -
  define I where "I = set (map event_id (expectations u))"
  define C where "C = (\<lambda>v. {i \<in> I. marks_of u i = Some v})"
  have count: "count_verdict v (su_evals u) (expectations u) = card (C v)" for v
    by (simp add: count_verdict_marks C_def I_def)
  have fin: "finite (C v)" for v by (simp add: C_def I_def)
  have all: "i \<in> C ''passed'' \<or> i \<in> C ''failed'' \<or> i \<in> C ''inconclusive''" if i: "i \<in> I" for i
  proof -
    obtain v where "marks_of u i = Some v" using missing i by (auto simp: missing_marks I_def)
    then show ?thesis using i marks_in [of u i v] by (auto simp: C_def)
  qed
  then have I: "I = (C ''passed'' \<union> C ''failed'') \<union> C ''inconclusive''" by (auto simp: C_def)
  have "card I = card (C ''passed'') + card (C ''failed'') + card (C ''inconclusive'')"
    unfolding I by (subst card_Un_disjoint, simp_all add: fin, simp add: C_def disjoint_iff,
        subst card_Un_disjoint, simp_all add: fin, simp add: C_def disjoint_iff)
  then have pending: "int (length (expectations u)) - (int (card (C ''passed'')) + int (card (C ''failed''))
      + int (card (C ''inconclusive''))) = 0"
    using distinct_card [OF distinct] by (simp add: I_def)
  have "all_passed (panel_of u) \<longleftrightarrow> (\<forall>i \<in> I. i \<in> C ''passed'')"
    by (simp add: all_passed_def panel_of_def list_all_iff I_def C_def)
  also have "\<dots> \<longleftrightarrow> C ''failed'' = {} \<and> C ''inconclusive'' = {}"
    using all by (auto simp: C_def)
  also have "\<dots> \<longleftrightarrow> card (C ''failed'') = 0 \<and> card (C ''inconclusive'') = 0"
    using fin by simp
  finally have passed: "all_passed (panel_of u) \<longleftrightarrow> card (C ''failed'') = 0 \<and> card (C ''inconclusive'') = 0" .
  show ?thesis
    unfolding run_passed_def summarize_def Let_def count pending by (simp add: passed)
qed

section \<open>Refinement\<close>

text \<open>The state of the open transaction and the committed one are histories of the panel.\<close>

definition graded :: "panel \<Rightarrow> session \<Rightarrow> bool" where
  "graded p s \<longleftrightarrow> grading\<^sup>*\<^sup>* p (panel_of (se_now s)) \<and> grading\<^sup>*\<^sup>* p (panel_of (se_saved s))"

definition graded_saved :: "panel \<Rightarrow> session \<Rightarrow> bool" where
  "graded_saved p s \<longleftrightarrow> grading\<^sup>*\<^sup>* p (panel_of (se_saved s))"

definition rely :: "finalizer_env \<Rightarrow> bool" where
  "rely fe \<longleftrightarrow> (\<forall>u. grading\<^sup>*\<^sup>* (panel_of u) (panel_of (fe_pause fe u)))"

definition undecided :: "session \<Rightarrow> bool" where
  "undecided s \<longleftrightarrow> sr_status (su_row (se_now s)) \<notin> set VERDICTS"

definition fresh_run :: "session \<Rightarrow> bool" where
  "fresh_run s \<longleftrightarrow> se_run s = w_run (su_world (se_now s))"

definition summed :: "session \<Rightarrow> bool" where
  "summed s \<longleftrightarrow> (\<exists>status. sr_summary (su_row (se_now s)) = summarize status (su_evals (se_now s)) (expectations (se_now s)))"

lemma graded_saved: "graded p s \<Longrightarrow> graded_saved p s"
  by (simp add: graded_def graded_saved_def)

lemma graded_ids: "graded p s \<Longrightarrow> map event_id (expectations (se_now s)) = pn_ids p"
  using gradings_keep by (fastforce simp: graded_def panel_of_def)

lemma graded_now:
  "graded p s \<Longrightarrow> grading\<^sup>*\<^sup>* (panel_of (se_now s)) (panel_of u) \<Longrightarrow> graded p (s\<lparr>se_now := u\<rparr>)"
  unfolding graded_def by (auto intro: rtranclp_trans)

lemma panel_on_world:
  "grading\<^sup>*\<^sup>* (panel_of u) (panel_of (on_world f u))"
proof -
  have "panel_of (on_world f u) = (panel_of u)\<lparr>pn_run := r_status (w_run (f (su_world u)))\<rparr>"
    by (simp add: panel_of_def on_world_def expectations_def marks_of_def fun_eq_iff)
  then show ?thesis using grading.runtime by (metis r_into_rtranclp)
qed

lemma panel_on_job [simp]: "panel_of (on_job jid f u) = panel_of u"
  by (simp add: panel_of_def on_job_def on_world_def expectations_def marks_of_def fun_eq_iff)

lemma valid_graded_save: "valid (graded p) (save de) (\<lambda>_. graded p) (graded_saved p)"
proof (rule valid_save)
  fix s u assume s: "graded p s" and u: "u = on_world (\<lambda>w. de_others de (se_step s) (release_own w)) (se_now s)"
  have "graded p (s\<lparr>se_now := u\<rparr>)" unfolding u using s panel_on_world by (rule graded_now)
  then show "graded p (s\<lparr>se_now := u, se_saved := u, se_step := Suc (se_step s)\<rparr>)" by (simp add: graded_def)
qed (rule graded_saved)

lemma valid_graded_edit:
  assumes "\<And>u. panel_of (f u) = panel_of u"
  shows "valid (graded p) (edit_suite f) (\<lambda>_. graded p) (graded_saved p)"
  by (rule valid_edit, rule graded_now) (simp_all add: assms)

lemma valid_graded_lift: "valid (graded p) (slift r) (\<lambda>x s. graded p s \<and> r = Inr x) (graded_saved p)"
  by (rule valid_slift) (auto intro: graded_saved)

lemma panel_row:
  assumes "sr_status (f (su_row u)) = sr_status (su_row u)" "sr_timeline (f (su_row u)) = sr_timeline (su_row u)"
  shows "panel_of (on_row f u) = panel_of u"
  using assms by (simp add: panel_of_def on_row_def expectations_def marks_of_def verdict_given_def fun_eq_iff)

lemma panel_verdict:
  assumes "sr_timeline (f (su_row u)) = sr_timeline (su_row u)" "sr_status (f (su_row u)) = v" "v \<in> set VERDICTS"
  shows "panel_of (on_row f u) = (panel_of u)\<lparr>pn_verdict := Some v\<rparr>"
  using assms by (simp add: panel_of_def on_row_def expectations_def marks_of_def verdict_given_def fun_eq_iff)

lemma on_row_const: "on_row (\<lambda>_. r) u = on_row f u" if "r = f (su_row u)"
  using that by (simp add: on_row_def)

lemma panel_put_summary [simp]: "panel_of (put_summary u) = panel_of u"
  by (simp add: put_summary_def panel_row)

lemma panel_finish_job [simp]: "panel_of (finish_job jid u) = panel_of u"
  by (simp add: finish_job_def)

text \<open>The end of a pass.\<close>

lemma conclude_graded:
  assumes s: "graded p s" and "undecided s" "fresh_run s" "summed s" and d: "distinct (pn_ids p)"
  shows "meets (conclude de jid s) (\<lambda>_. graded p) (graded_saved p)"
proof -
  let ?u = "se_now s" and ?run = "se_run s"
  have saved: "graded_saved p s" using s by (rule graded_saved)
  show ?thesis
  proof (cases "missing ?u = [] \<and> ended ?run")
    case True
    obtain status where sum: "sr_summary (su_row ?u) = summarize status (su_evals ?u) (expectations ?u)"
      using assms(4) by (auto simp: summed_def)
    define passed where "passed = (r_status ?run = ''succeeded'' \<and> all_passed (panel_of ?u))"
    have dist: "distinct (map event_id (expectations ?u))" using d graded_ids [OF s] by simp
    have "run_passed ?run (sr_summary (su_row ?u)) = Inr passed"
      unfolding sum passed_def using True by (intro summary_passed dist) simp
    then obtain r' where r': "finalize_row (w_iso (su_world ?u)) ?run (su_row ?u) = Inr r'"
      and st: "sr_status r' = (if passed then ''passed'' else ''failed'')" "sr_timeline r' = sr_timeline (su_row ?u)"
      by (simp add: finalize_row_def Let_def)
    have run: "pn_run (panel_of ?u) = r_status ?run" using assms(3) by (simp add: panel_of_def fresh_run_def)
    have "grading (panel_of ?u) ((panel_of ?u)\<lparr>pn_verdict := Some (if passed then ''passed'' else ''failed'')\<rparr>)"
      unfolding passed_def run [symmetric]
    proof (rule grading.decide)
      show "pn_verdict (panel_of ?u) = None" using assms(2) by (simp add: panel_of_def verdict_given_def undecided_def)
      show "\<forall>i \<in> set (pn_ids (panel_of ?u)). pn_marks (panel_of ?u) i \<noteq> None"
        using True missing_marks [of ?u] by (simp add: panel_of_def)
      show "pn_run (panel_of ?u) \<in> set ENDED_RUNS" using True unfolding run by (simp add: ended_def)
    qed
    moreover have "panel_of (on_row (\<lambda>_. r') ?u) = (panel_of ?u)\<lparr>pn_verdict := Some (if passed then ''passed'' else ''failed'')\<rparr>"
      by (rule panel_verdict) (simp_all add: st VERDICTS_def)
    ultimately have "graded p (s\<lparr>se_now := finish_job jid (on_row (\<lambda>_. r') ?u)\<rparr>)"
      by (intro graded_now [OF s]) simp
    then show ?thesis using True r' by (simp add: conclude_def Let_def sbind_def slift_def edit_suite_def)
  next
    case False
    have "graded p (s\<lparr>se_now := on_job jid f ?u\<rparr>)" for f by (rule graded_now [OF s]) simp
    then show ?thesis using False saved s
      by (auto simp: conclude_def Let_def sbind_def slift_def edit_suite_def split: option.split sum.split)
  qed
qed

definition ready :: "panel \<Rightarrow> session \<Rightarrow> bool" where
  "ready p s \<longleftrightarrow> graded p s \<and> undecided s \<and> fresh_run s"

lemma ready_graded: "ready p s \<Longrightarrow> graded p s"
  by (simp add: ready_def)

lemma valid_conclude:
  assumes "distinct (pn_ids p)"
  shows "valid (\<lambda>s. ready p s \<and> summed s) (conclude de jid) (\<lambda>_. graded p) (graded_saved p)"
  by (rule validI) (simp add: ready_def conclude_graded assms)

lemma ready_now:
  assumes "ready p s" "panel_of u = panel_of (se_now s)" "w_run (su_world u) = w_run (su_world (se_now s))"
  shows "ready p (s\<lparr>se_now := u\<rparr>)"
proof -
  have "verdict_given (su_row u) = verdict_given (su_row (se_now s))" using assms(2) by (simp add: panel_of_def)
  then have "undecided (s\<lparr>se_now := u\<rparr>)" using assms(1)
    by (auto simp: ready_def undecided_def verdict_given_def split: if_splits)
  moreover have "graded p (s\<lparr>se_now := u\<rparr>)" using assms by (intro graded_now) (simp_all add: ready_def)
  ultimately show ?thesis using assms by (simp add: ready_def fresh_run_def)
qed

lemma valid_sum_up: "valid (ready p) (edit_suite put_summary) (\<lambda>_ s. ready p s \<and> summed s) (graded_saved p)"
proof (rule valid_edit)
  fix s assume s: "ready p s"
  have "ready p (s\<lparr>se_now := put_summary (se_now s)\<rparr>)"
    by (rule ready_now [OF s]) (simp_all, simp add: put_summary_def on_row_def)
  then show "ready p (s\<lparr>se_now := put_summary (se_now s)\<rparr>) \<and> summed (s\<lparr>se_now := put_summary (se_now s)\<rparr>)"
    by (auto simp: summed_def put_summary_def on_row_def summarize_suite_def expectations_def)
qed

section \<open>A pass of the finalizer\<close>

lemma valid_ready_job:
  "valid (ready p) (edit_suite (\<lambda>u. on_job jid (f u) u)) (\<lambda>_. ready p) (graded_saved p)"
  by (rule valid_edit, rule ready_now) (simp_all, simp add: on_job_def on_world_def)

lemma valid_ready_job_summed:
  "valid (\<lambda>s. ready p s \<and> summed s) (edit_suite (\<lambda>u. on_job jid (f u) u)) (\<lambda>_ s. ready p s \<and> summed s) (graded_saved p)"
proof (rule valid_edit, rule conjI)
  fix s assume s: "ready p s \<and> summed s"
  then show "ready p (s\<lparr>se_now := on_job jid (f (se_now s)) (se_now s)\<rparr>)"
    by (intro ready_now) (simp_all, simp add: on_job_def on_world_def)
  show "summed (s\<lparr>se_now := on_job jid (f (se_now s)) (se_now s)\<rparr>)"
    using s by (simp add: summed_def on_job_def on_world_def expectations_def)
qed

lemma valid_read_run:
  "valid (\<lambda>s. graded p s \<and> undecided s) read_run (\<lambda>_. ready p) (graded_saved p)"
  by (rule validI) (simp add: read_run_def ready_def graded_def undecided_def fresh_run_def)

text \<open>A new evaluation marks its expectation, unless it was marked meanwhile.\<close>

lemma invoke_status: "invoke_judge te loads ask q = Inr result \<Longrightarrow> jr_status result \<in> {''passed'', ''failed'', ''inconclusive''}"
proof -
  assume "invoke_judge te loads ask q = Inr result"
  then obtain c where "read_judge_answer te loads q c = Inr result" by (auto simp: invoke_judge_def rbind_eq_Inr)
  then obtain parsed where "if_obj parsed (\<lambda>d. let status = lower (str_field d ''status'') in
     if status \<notin> {''passed'', ''failed'', ''inconclusive''} then Inl ValueErr
     else Inr \<lparr>jr_status = status, jr_confidence = coerce_confidence te (dget d ''confidence''),
            jr_reason = py_str (py_or (dget d ''reason'') (JStr NO_VERDICT_TEXT)),
            jr_refs = normalize_evidence_refs (dget d ''evidence_refs''),
            jr_provider = cp_provider c, jr_model = cp_model c,
            jr_raw = [(''request'', JObj (pj_request q)), (''content'', JStr (cp_content c)),
              (''parsed'', JObj d), (''usage'', cp_usage c), (''raw'', cp_raw c)]\<rparr>) (Inl AttrErr) = Inr result"
    unfolding read_judge_answer_def by (auto split: option.splits)
  then show ?thesis by (cases parsed) (auto simp: Let_def split: if_splits)
qed

lemma judged_status: "judged fe j q = Inr result \<Longrightarrow> jr_status result \<in> {''passed'', ''failed'', ''inconclusive''}"
  unfolding judged_def Let_def using invoke_status
  by (auto simp: inconclusive_result_def split: sum.splits if_splits)

lemma marks_add:
  assumes "pj_expectation q \<notin> set (map ev_expectation (su_evals u))"
  shows "marks_of (add_evaluation q result u) = (marks_of u)(pj_expectation q \<mapsto> verdict_of (new_evaluation q result))"
  using assms by (simp add: marks_of_def add_evaluation_def by_expectation_snoc new_evaluation_def fun_eq_iff)

lemma panel_add:
  assumes "sr_status (su_row u) \<notin> set VERDICTS" "pj_expectation q \<in> set (map event_id (expectations u))"
  shows "grading\<^sup>*\<^sup>* (panel_of u) (panel_of (add_evaluation q result u))"
proof (cases "pj_expectation q \<in> set (map ev_expectation (su_evals u))")
  case True
  then show ?thesis by (simp add: add_evaluation_def)
next
  case False
  have "panel_of (add_evaluation q result u) = (panel_of u)\<lparr>pn_marks :=
      (pn_marks (panel_of u))(pj_expectation q \<mapsto> verdict_of (new_evaluation q result))\<rparr>"
    using False marks_add [OF False] by (simp add: panel_of_def add_evaluation_def expectations_def)
  moreover have "grading (panel_of u) \<dots>"
    by (rule grading.mark)
      (use assms False verdict_of_in in \<open>simp_all add: panel_of_def verdict_given_def marks_of_None\<close>)
  ultimately show ?thesis by (metis r_into_rtranclp)
qed

lemma valid_add_evaluation:
  assumes "pj_expectation q \<in> set (pn_ids p)"
  shows "valid (\<lambda>s. graded p s \<and> undecided s) (edit_suite (add_evaluation q result)) (\<lambda>_ s. graded p s \<and> undecided s)
    (graded_saved p)"
proof (rule valid_edit, rule conjI)
  fix s assume s: "graded p s \<and> undecided s"
  then have "pj_expectation q \<in> set (map event_id (expectations (se_now s)))"
    using assms graded_ids [of p s] by simp
  then show "graded p (s\<lparr>se_now := add_evaluation q result (se_now s)\<rparr>)"
    using s panel_add by (intro graded_now) (auto simp: undecided_def)
  show "undecided (s\<lparr>se_now := add_evaluation q result (se_now s)\<rparr>)"
    using s by (simp add: undecided_def add_evaluation_def)
qed

lemma valid_record_result:
  assumes q: "pj_expectation q \<in> set (pn_ids p)" and d: "distinct (pn_ids p)"
  shows "valid (graded p) (record_result fe jid q result) (\<lambda>_. graded p) (graded_saved p)"
proof (rule validI)
  fix s assume s: "graded p s"
  have "valid (graded p) (sbind (edit_suite (finish_job jid)) (\<lambda>_. save de)) (\<lambda>_. graded p) (graded_saved p)" for de
    by (rule valid_sbind [OF valid_graded_edit valid_graded_save]) simp
  moreover have "valid (\<lambda>s. graded p s \<and> undecided s)
      (sbind (edit_suite (add_evaluation q result)) (\<lambda>_. sbind read_run (\<lambda>_.
        sbind (edit_suite put_summary) (\<lambda>_.
        sbind (edit_suite (\<lambda>u. on_job jid (judge_metrics (su_evals u)) u)) (\<lambda>_.
        sbind (conclude de jid) (\<lambda>_. save de)))))) (\<lambda>_. graded p) (graded_saved p)" for de
    by (rule valid_sbind [OF valid_add_evaluation [OF q]], rule valid_sbind [OF valid_read_run],
        rule valid_sbind [OF valid_sum_up], rule valid_sbind [OF valid_ready_job_summed],
        rule valid_sbind [OF valid_conclude [OF d] valid_graded_save])
  ultimately show "meets (record_result fe jid q result s) (\<lambda>_. graded p) (graded_saved p)"
    unfolding record_result_def Let_def
    using s by (auto simp: undecided_def dest!: validD [where s = s])
qed

definition named :: "dict list \<Rightarrow> bool" where
  "named evs \<longleftrightarrow> list_all (\<lambda>ev. dget ev ''id'' = JStr (event_id ev)) evs"

lemma prepare_id:
  assumes "prepare fe ev s = (Inr (q, cutoff), s')" "dget ev ''id'' = JStr (event_id ev)"
  shows "pj_expectation q = event_id ev \<and> s' = s"
  using assms unfolding prepare_def Let_def sbind_def slift_def prepare_judge_def
  by (auto simp: rbind_eq_Inr split: sum.splits if_splits)

lemma valid_prepare:
  assumes "dget ev ''id'' = JStr (event_id ev)" "event_id ev \<in> set (pn_ids p)"
  shows "valid (graded p) (prepare fe ev) (\<lambda>pc s. graded p s \<and> pj_expectation (fst pc) \<in> set (pn_ids p)) (graded_saved p)"
proof (rule validI)
  fix s assume s: "graded p s"
  obtain r s' where r: "prepare fe ev s = (r, s')" by fastforce
  show "meets (prepare fe ev s) (\<lambda>pc s. graded p s \<and> pj_expectation (fst pc) \<in> set (pn_ids p)) (graded_saved p)"
  proof (cases r)
    case (Inl e)
    have "snd (prepare fe ev s) = s" by (simp add: prepare_def Let_def sbind_def slift_def split: sum.split)
    then show ?thesis using r Inl s by (simp add: graded_saved)
  next
    case (Inr pc)
    then show ?thesis using r s prepare_id [of fe ev s "fst pc" "snd pc" s'] assms by simp
  qed
qed

lemma valid_reopen:
  assumes "rely fe"
  shows "valid (graded p) (reopen fe) (\<lambda>_. graded p) (graded_saved p)"
  unfolding reopen_def
proof (rule valid_sbind [where R = "\<lambda>_. graded p"])
  show "valid (graded p) (\<lambda>s. let u = fe_pause fe (se_saved s) in (Inr (), s\<lparr>se_now := u, se_saved := u\<rparr>))
      (\<lambda>_. graded p) (graded_saved p)"
    using assms by (intro validI) (auto simp: Let_def graded_def rely_def intro: rtranclp_trans)
  show "valid (graded p) check_fence (\<lambda>_. graded p) (graded_saved p)"
    by (rule valid_check) (auto intro: graded_saved)
qed

lemma valid_judge_one:
  assumes "rely fe" "dget ev ''id'' = JStr (event_id ev)" "event_id ev \<in> set (pn_ids p)" "distinct (pn_ids p)"
  shows "valid (graded p) (judge_one fe jid j ev) (\<lambda>_. graded p) (graded_saved p)"
proof -
  have "valid (\<lambda>s. graded p s \<and> pj_expectation (fst pc) \<in> set (pn_ids p))
     (sbind (edit_suite (\<lambda>u. on_job jid (\<lambda>j. j\<lparr>j_payload := ask_payload (de_te (fe_driver fe)) (su_row u) (fst pc) (snd pc)\<rparr>) u)) (\<lambda>_.
      sbind (save (fe_driver fe)) (\<lambda>_.
      sbind (slift (judged fe j (fst pc))) (\<lambda>result.
      sbind (reopen fe) (\<lambda>_. record_result fe jid (fst pc) result))))) (\<lambda>_. graded p) (graded_saved p)" for pc
  proof (cases "pj_expectation (fst pc) \<in> set (pn_ids p)")
    case True
    have "valid (graded p)
      (sbind (edit_suite (\<lambda>u. on_job jid (\<lambda>j. j\<lparr>j_payload := ask_payload (de_te (fe_driver fe)) (su_row u) (fst pc) (snd pc)\<rparr>) u)) (\<lambda>_.
      sbind (save (fe_driver fe)) (\<lambda>_.
      sbind (slift (judged fe j (fst pc))) (\<lambda>result.
      sbind (reopen fe) (\<lambda>_. record_result fe jid (fst pc) result))))) (\<lambda>_. graded p) (graded_saved p)"
      by (rule valid_sbind [OF valid_graded_edit], simp, rule valid_sbind [OF valid_graded_save],
          rule valid_sbind [OF valid_slift [where Q = "\<lambda>_. graded p"]], simp, simp add: graded_saved,
          rule valid_sbind [OF valid_reopen [OF assms(1)] valid_record_result [OF True assms(4)]])
    then show ?thesis by (rule valid_pre) simp
  qed (simp add: valid_def)
  then show ?thesis unfolding judge_one_def by (rule valid_sbind [OF valid_prepare [OF assms(2,3)]])
qed

lemma eligible_in: "eligible r run now evs = Inr (Some ev) \<Longrightarrow> ev \<in> set evs"
  by (induction evs) (auto simp: rbind_eq_Inr split: if_splits)

lemma valid_pass:
  assumes rely: "rely fe" and d: "distinct (pn_ids p)"
  shows "valid (\<lambda>s. graded p s \<and> undecided s \<and> named (expectations (se_now s))) (pass fe jid j)
    (\<lambda>_. graded p) (graded_saved p)"
proof (rule validI)
  fix s assume s: "graded p s \<and> undecided s \<and> named (expectations (se_now s))"
  define t where "t = s\<lparr>se_run := w_run (su_world (se_now s))\<rparr>"
  have t: "ready p t" using s by (simp add: t_def ready_def graded_def undecided_def fresh_run_def)
  let ?u = "se_now t" and ?run = "se_run t" and ?de = "fe_driver fe"
  have start: "pass fe jid j s = (if r_status ?run = ''cancelled''
      then sbind (edit_suite (\<lambda>u. finish_job jid (close_cancelled ?run u))) (\<lambda>_. save ?de) t
      else (case eligible (su_row ?u) ?run (w_now (su_world ?u)) (missing ?u) of
          Inl e \<Rightarrow> (Inl e, t)
        | Inr (Some ev) \<Rightarrow> judge_one fe jid j ev t
        | Inr None \<Rightarrow> sbind (edit_suite put_summary) (\<lambda>_. sbind (conclude ?de jid) (\<lambda>_. save ?de)) t))"
    by (simp add: pass_def Let_def read_run_def t_def sbind_def sasks_def slift_def split: sum.split option.split)
  have cancelled: "meets (sbind (edit_suite (\<lambda>u. finish_job jid (close_cancelled ?run u))) (\<lambda>_. save ?de) t)
      (\<lambda>_. graded p) (graded_saved p)"
  proof -
    have "grading (panel_of ?u) ((panel_of ?u)\<lparr>pn_verdict := Some ''cancelled''\<rparr>)"
      by (rule grading.stop) (use t in \<open>simp_all add: ready_def undecided_def panel_of_def verdict_given_def\<close>)
    moreover have "panel_of (close_cancelled ?run ?u) = (panel_of ?u)\<lparr>pn_verdict := Some ''cancelled''\<rparr>"
      unfolding close_cancelled_def by (rule panel_verdict) (simp_all add: VERDICTS_def)
    ultimately have "graded p (t\<lparr>se_now := finish_job jid (close_cancelled ?run ?u)\<rparr>)"
      by (intro graded_now) (simp_all add: ready_graded [OF t])
    from validD [OF valid_graded_save this] show ?thesis by (simp add: sbind_def edit_suite_def)
  qed
  have none: "meets (sbind (edit_suite put_summary) (\<lambda>_. sbind (conclude ?de jid) (\<lambda>_. save ?de)) t)
      (\<lambda>_. graded p) (graded_saved p)"
    by (rule validD [OF valid_sbind [OF valid_sum_up valid_sbind [OF valid_conclude [OF d] valid_graded_save]] t])
  have one: "meets (judge_one fe jid j ev t) (\<lambda>_. graded p) (graded_saved p)" if "ev \<in> set (missing ?u)" for ev
  proof (rule validD [OF valid_judge_one [OF rely _ _ d] ready_graded [OF t]])
    have ev: "ev \<in> set (expectations ?u)" using that by (simp add: missing_def)
    then show "dget ev ''id'' = JStr (event_id ev)" using s by (simp add: t_def named_def list_all_iff)
    show "event_id ev \<in> set (pn_ids p)" using ev graded_ids [OF ready_graded [OF t]] by (metis imageI set_map)
  qed
  show "meets (pass fe jid j s) (\<lambda>_. graded p) (graded_saved p)"
    unfolding start using cancelled none one graded_saved [OF ready_graded [OF t]]
    by (auto split: sum.split option.split dest: eligible_in)
qed

lemma process_finalizer_graded:
  assumes "rely fe" "distinct (pn_ids p)" "graded p s" "named (expectations (se_now s))"
  shows "meets (process_finalizer_job fe jid s) (\<lambda>_. graded p) (graded_saved p)"
proof -
  have "meets (sbind (edit_suite (finish_job jid)) (\<lambda>_. save (fe_driver fe)) s) (\<lambda>_. graded p) (graded_saved p)"
    by (rule validD [OF valid_sbind [OF valid_graded_edit valid_graded_save] assms(3)]) simp
  moreover have "meets (pass fe jid j s) (\<lambda>_. graded p) (graded_saved p)"
    if "sr_status (su_row (se_now s)) \<notin> set VERDICTS" for j
    using that assms by (intro validD [OF valid_pass [OF assms(1,2)]]) (simp add: undecided_def)
  ultimately show ?thesis
    using graded_saved [OF assms(3)] unfolding process_finalizer_job_def Let_def
    by (auto split: option.split)
qed

end
