(* ===== verification/Progress.thy ===== *)
theory Progress
  imports Grading
begin

text \<open>
  The finalizer comes to an end: once the run is over, every pass that a worker claims either gives
  the verdict or evaluates one more expectation.
\<close>

section \<open>Passes\<close>

definition take_job :: "int \<Rightarrow> string \<Rightarrow> string \<Rightarrow> suite \<Rightarrow> suite" where
  "take_job seconds owner jid u =
     on_world (\<lambda>w. w\<lparr>w_lease := (case by_id jid (w_jobs w) of None \<Rightarrow> None
         | Some j \<Rightarrow> (case lease_of j of Inl e \<Rightarrow> None | Inr l \<Rightarrow> Some l)), w_fence := None, w_healthy := True\<rparr>)
       (on_job jid (claim_job (w_now (su_world u)) seconds owner) u)"

definition one_pass :: "finalizer_env \<Rightarrow> int \<Rightarrow> string \<Rightarrow> string \<Rightarrow> suite \<Rightarrow> suite" where
  "one_pass fe seconds owner jid u =
     se_saved (snd (process_finalizer_job fe jid (open_session (take_job seconds owner jid u))))"

text \<open>Nobody else writes, and the judge answers (or the attempt is the last one).\<close>

definition quiet :: "finalizer_env \<Rightarrow> bool" where
  "quiet fe \<longleftrightarrow> (\<forall>n w. de_others (fe_driver fe) n w = w) \<and> (\<forall>u. fe_pause fe u = u)"

definition answers :: "finalizer_env \<Rightarrow> bool" where
  "answers fe \<longleftrightarrow> (\<forall>j q. \<exists>result. judged fe j q = Inr result)"

definition over :: "timeline_env \<Rightarrow> string \<Rightarrow> suite \<Rightarrow> bool" where
  "over te jid u \<longleftrightarrow> timeline_ok te (sr_timeline (su_row u)) \<and> sr_id (su_row u) \<noteq> [] \<and> sr_run (su_row u) \<noteq> None
     \<and> ended (w_run (su_world u))
     \<and> (\<exists>j. suite_job jid u = Some j \<and> j_type j = ''skill_test_scenario_finalizer'' \<and> job_scenario j = sr_id (su_row u))"

section \<open>Jobs\<close>

lemma find_map_id:
  "(\<And>j. j_id (f j) = j_id j) \<Longrightarrow>
   find (\<lambda>j. j_id j = jid) (map (\<lambda>j. if j_id j = jid then f j else j) js) = map_option f (find (\<lambda>j. j_id j = jid) js)"
  by (induction js) auto

lemma suite_job_on_job [simp]:
  "(\<And>j. j_id (f j) = j_id j) \<Longrightarrow> suite_job jid (on_job jid f u) = map_option f (suite_job jid u)"
  by (simp add: suite_job_def on_job_def on_world_def by_id_def find_job_def find_map_id)

lemma suite_job_on_row [simp]: "suite_job jid (on_row f u) = suite_job jid u"
  by (simp add: suite_job_def on_row_def)

lemma set_status_id [simp]: "j_id (set_status now v j) = j_id j"
  by (simp add: set_status_def sync_timestamps_def Let_def)

lemma claim_job_fields [simp]:
  "j_id (claim_job now n owner j) = j_id j" "j_type (claim_job now n owner j) = j_type j"
  "j_payload (claim_job now n owner j) = j_payload j" "j_status (claim_job now n owner j) = ''running''"
  "j_worker (claim_job now n owner j) = owner" "j_lease (claim_job now n owner j) = Some (now + n)"
  by (simp_all add: claim_job_def set_status_def sync_timestamps_def Let_def)

lemma finish_finalizer_fields [simp]:
  "j_id (finish_finalizer now r j) = j_id j" "j_type (finish_finalizer now r j) = j_type j"
  "job_scenario (finish_finalizer now r j) = sr_id r"
  by (simp_all add: finish_finalizer_def set_status_def sync_timestamps_def Let_def job_scenario_def str_field_def)

lemma judge_metrics_fields [simp]:
  "j_id (judge_metrics es j) = j_id j" "j_type (judge_metrics es j) = j_type j"
  "j_payload (judge_metrics es j) = j_payload j" "j_status (judge_metrics es j) = j_status j"
  by (simp_all add: judge_metrics_def Let_def)

lemma reschedule_fields:
  assumes "reschedule_finalizer te r run evs now j = Inr j'"
  shows "j_id j' = j_id j" "j_type j' = j_type j" "job_scenario j' = sr_id r"
  using assms by (auto simp: reschedule_finalizer_def rbind_eq_Inr Let_def job_scenario_def str_field_def
      set_status_def sync_timestamps_def)

lemma suite_job_id: "suite_job jid u = Some j \<Longrightarrow> j_id j = jid \<and> j \<in> set (w_jobs (su_world u))"
  by (auto simp: suite_job_def by_id_def dest: find_job_Some)

section \<open>The fence of a claimed job\<close>

definition held :: "string \<Rightarrow> suite \<Rightarrow> bool" where
  "held jid u \<longleftrightarrow> w_healthy (su_world u) \<and> (\<exists>l j. w_lease (su_world u) = Some l \<and> l_job l = jid
     \<and> suite_job jid u = Some j \<and> holds_lease (w_now (su_world u)) l j)"

definition guarded :: "string \<Rightarrow> session \<Rightarrow> bool" where
  "guarded jid s \<longleftrightarrow> held jid (se_saved s) \<and> se_clock s = w_now (su_world (se_saved s))"

lemma guarded_check: "guarded jid s \<Longrightarrow> check_fence s = (Inr (), s)"
proof -
  assume g: "guarded jid s"
  then obtain l j where l: "w_lease (su_world (se_saved s)) = Some l" "w_healthy (su_world (se_saved s))"
    "suite_job jid (se_saved s) = Some j" "holds_lease (se_clock s) l j"
    by (auto simp: guarded_def held_def)
  then have "find_job (holds_lease (se_clock s) l) (w_jobs (su_world (se_saved s))) \<noteq> None"
    using suite_job_id by (auto simp: find_job_None)
  then show ?thesis using l by (auto simp: check_fence_def fence_error_def)
qed

text \<open>What a commit leaves of the job that its handler put back or finished.\<close>

definition committed_suite :: "suite \<Rightarrow> suite" where
  "committed_suite u = on_world release_own u"

lemma save_guarded:
  assumes "quiet fe" "guarded jid s"
  shows "save (fe_driver fe) s = (Inr (), s\<lparr>se_now := committed_suite (se_now s),
    se_saved := committed_suite (se_now s), se_step := Suc (se_step s)\<rparr>)"
  using assms by (simp add: save_def sbind_Inr [OF guarded_check] committed_suite_def quiet_def Let_def)

lemma committed_running:
  assumes "suite_job jid u = Some j" "j_status j = ''running''" "w_lease (su_world u) = Some l" "l_job l = jid"
  shows "committed_suite u = u"
  using assms by (simp add: committed_suite_def on_world_def release_own_def suite_job_def)

lemma committed_row [simp]: "su_row (committed_suite u) = su_row u" "su_evals (committed_suite u) = su_evals u"
  "expectations (committed_suite u) = expectations u" "missing (committed_suite u) = missing u"
  "w_run (su_world (committed_suite u)) = w_run (su_world u)"
  by (simp_all add: committed_suite_def on_world_def release_own_def put_run_job_def expectations_def missing_def
      split: option.split)

lemma committed_job:
  assumes "suite_job jid u = Some j"
  shows "\<exists>j'. suite_job jid (committed_suite u) = Some j' \<and> j_type j' = j_type j \<and> j_payload j' = j_payload j"
proof -
  have put: "by_id jid (put_job (j0\<lparr>j_worker := [], j_lease := None\<rparr>) js) =
      map_option (\<lambda>x. if j_id x = j_id j0 then j0\<lparr>j_worker := [], j_lease := None\<rparr> else x) (by_id jid js)" for j0 js
    unfolding by_id_def find_job_def put_job_def by (induction js) auto
  show ?thesis
  proof (cases "w_lease (su_world u)")
    case None
    then show ?thesis using assms by (simp add: committed_suite_def on_world_def release_own_def suite_job_def)
  next
    case (Some l)
    show ?thesis
    proof (cases "by_id (l_job l) (w_jobs (su_world u))")
      case None
      then show ?thesis using assms Some by (simp add: committed_suite_def on_world_def release_own_def suite_job_def)
    next
      case own: (Some j0)
      have j0: "j_id j0 = l_job l" using own by (auto simp: by_id_def dest: find_job_Some)
      have "j_id j = jid" using suite_job_id [OF assms] by simp
      then have "j = j0" if "j_id j = j_id j0" using that own assms j0 by (simp add: suite_job_def)
      then show ?thesis using assms Some own
        by (auto simp: committed_suite_def on_world_def release_own_def suite_job_def put_run_job_def put)
    qed
  qed
qed

lemma over_committed: "over te jid u \<Longrightarrow> over te jid (committed_suite u)"
  unfolding over_def job_scenario_def using committed_job by (metis committed_row(1,5))

section \<open>A pass\<close>

lemma over_events:
  assumes "over te jid u" "ev \<in> set (expectations u)"
  shows "dget ev ''id'' = JStr (event_id ev)" "\<exists>n. int_or0 (dget ev ''at_ms'') = Inr n"
proof -
  have "event_ok te ev"
    using assms by (auto simp: over_def timeline_ok_def expectations_def timeline_expectations_def list_all_iff)
  then obtain i n where "dget ev ''id'' = JStr i" "dget ev ''at_ms'' = JInt n"
    unfolding event_ok_def by blast
  then show "dget ev ''id'' = JStr (event_id ev)" "\<exists>n. int_or0 (dget ev ''at_ms'') = Inr n"
    by (simp_all add: event_id_def str_field_text)
qed

lemma missing_in: "ev \<in> set (missing u) \<Longrightarrow> ev \<in> set (expectations u)"
  by (simp add: missing_def)

lemma all_zero_total: "\<forall>k \<in> set ks. \<exists>n. dget d k = JInt n \<Longrightarrow> \<exists>b. all_zero d ks = Inr b"
  by (induction ks) auto

lemma run_passed_total: "\<exists>b. run_passed run (summarize status evals expected) = Inr b"
proof -
  have "\<exists>b. all_zero (summarize status evals expected) [''pending'', ''failed'', ''inconclusive''] = Inr b"
    by (rule all_zero_total) (simp add: summarize_def Let_def)
  moreover have "run_passed run (summarize status evals expected) = Inr False" if "r_status run \<noteq> ''succeeded''"
    using that by (simp add: run_passed_def)
  ultimately show ?thesis by (cases "r_status run = ''succeeded''") (auto simp: run_passed_def simp del: all_zero.simps)
qed

lemma over_row:
  assumes "over te jid u" "sr_timeline (f (su_row u)) = sr_timeline (su_row u)" "sr_id (f (su_row u)) = sr_id (su_row u)"
    "sr_run (f (su_row u)) = sr_run (su_row u)"
  shows "over te jid (on_row f u)"
  using assms unfolding over_def suite_job_on_row by (simp add: on_row_def)

lemma on_job_rows [simp]: "su_row (on_job jid f u) = su_row u" "su_evals (on_job jid f u) = su_evals u"
  "w_run (su_world (on_job jid f u)) = w_run (su_world u)" "expectations (on_job jid f u) = expectations u"
  "missing (on_job jid f u) = missing u" "w_now (su_world (on_job jid f u)) = w_now (su_world u)"
  "w_lease (su_world (on_job jid f u)) = w_lease (su_world u)" "w_healthy (su_world (on_job jid f u)) = w_healthy (su_world u)"
  by (simp_all add: on_job_def on_world_def expectations_def missing_def)

lemma over_job:
  assumes "over te jid u" "\<And>j. j_id (f j) = j_id j"
    "\<And>j. suite_job jid u = Some j \<Longrightarrow> j_type (f j) = j_type j \<and> job_scenario (f j) = sr_id (su_row u)"
  shows "over te jid (on_job jid f u)"
  using assms unfolding over_def by (auto simp: suite_job_on_job)

lemma missing_row: "sr_timeline (f (su_row u)) = sr_timeline (su_row u) \<Longrightarrow> missing (on_row f u) = missing u"
  by (simp add: missing_def expectations_def on_row_def)

lemma finalize_row_keeps:
  "finalize_row stamp run r = Inr r' \<Longrightarrow> sr_timeline r' = sr_timeline r \<and> sr_id r' = sr_id r \<and> sr_run r' = sr_run r
     \<and> sr_status r' \<in> set VERDICTS"
  by (auto simp: finalize_row_def rbind_eq_Inr Let_def VERDICTS_def)

lemma over_finish:
  assumes "over te jid u"
  shows "over te jid (finish_job jid u)"
  unfolding finish_job_def by (rule over_job [OF assms]) simp_all

lemma finish_job_rows [simp]: "su_row (finish_job jid u) = su_row u" "missing (finish_job jid u) = missing u"
  "w_run (su_world (finish_job jid u)) = w_run (su_world u)"
  "w_now (su_world (finish_job jid u)) = w_now (su_world u)"
  by (simp_all add: finish_job_def)

lemma conclude_over:
  assumes over: "over (de_te de) jid (se_now s)" and sum: "summed s" and run: "se_run s = w_run (su_world (se_now s))"
  shows "\<exists>u'. conclude de jid s = (Inr (), s\<lparr>se_now := u'\<rparr>) \<and> over (de_te de) jid u' \<and> missing u' = missing (se_now s)
    \<and> w_now (su_world u') = w_now (su_world (se_now s))
    \<and> (missing (se_now s) = [] \<longrightarrow> sr_status (su_row u') \<in> set VERDICTS)"
proof -
  let ?u = "se_now s"
  have ended: "ended (se_run s)" using over unfolding over_def run by simp
  show ?thesis
  proof (cases "missing ?u = []")
    case True
    obtain status where "sr_summary (su_row ?u) = summarize status (su_evals ?u) (expectations ?u)"
      using sum by (auto simp: summed_def)
    then obtain b where "run_passed (se_run s) (sr_summary (su_row ?u)) = Inr b"
      using run_passed_total [of "se_run s" status] by auto
    then obtain r' where r': "finalize_row (w_iso (su_world ?u)) (se_run s) (su_row ?u) = Inr r'"
      by (simp add: finalize_row_def Let_def)
    note keep = finalize_row_keeps [OF r']
    have "over (de_te de) jid (finish_job jid (on_row (\<lambda>_. r') ?u))"
      using keep by (intro over_finish over_row [OF over]) simp_all
    moreover have "conclude de jid s = (Inr (), s\<lparr>se_now := finish_job jid (on_row (\<lambda>_. r') ?u)\<rparr>)"
      using True ended r' by (simp add: conclude_def Let_def sbind_def slift_def edit_suite_def)
    moreover have "missing (finish_job jid (on_row (\<lambda>_. r') ?u)) = missing ?u" using keep by (simp add: missing_row)
    moreover have "sr_status (su_row (finish_job jid (on_row (\<lambda>_. r') ?u))) \<in> set VERDICTS"
      "w_now (su_world (finish_job jid (on_row (\<lambda>_. r') ?u))) = w_now (su_world ?u)" using keep by (simp_all add: on_row_def)
    ultimately show ?thesis by blast
  next
    case False
    then obtain ev evs where m: "missing ?u = ev # evs" by (cases "missing ?u") auto
    obtain j where j: "suite_job jid ?u = Some j" using over by (auto simp: over_def)
    obtain n where "int_or0 (dget ev ''at_ms'') = Inr n"
      using over_events(2) [OF over missing_in, of ev] m by auto
    then obtain j' where j': "reschedule_finalizer (de_te de) (su_row ?u) (se_run s) (missing ?u) (w_now (su_world ?u)) j = Inr j'"
      by (simp add: reschedule_finalizer_def m Let_def)
    note fields = reschedule_fields [OF j']
    have id: "j_id j = jid" using suite_job_id [OF j] by simp
    have "on_job jid (\<lambda>_. j') ?u = on_job jid (\<lambda>x. if j_id x = jid then j' else x) ?u"
      by (simp add: on_job_def on_world_def cong: map_cong)
    moreover have "over (de_te de) jid (on_job jid (\<lambda>x. if j_id x = jid then j' else x) ?u)"
      by (rule over_job [OF over]) (use fields id over j in \<open>auto simp: over_def\<close>)
    moreover have "conclude de jid s = (Inr (), s\<lparr>se_now := on_job jid (\<lambda>_. j') ?u\<rparr>)"
      using False j j' by (simp add: conclude_def Let_def sbind_def slift_def edit_suite_def)
    ultimately show ?thesis using False by (intro exI [of _ "on_job jid (\<lambda>_. j') ?u"]) simp
  qed
qed

lemma eligible_ended: "ended run \<Longrightarrow> eligible r run now evs = Inr (case evs of [] \<Rightarrow> None | ev # _ \<Rightarrow> Some ev)"
  by (cases evs) simp_all

lemma missing_add:
  assumes "ev \<in> set (missing u)" "pj_expectation q = event_id ev"
  shows "length (missing (add_evaluation q result u)) < length (missing u)"
proof -
  have new: "event_id ev \<notin> set (map ev_expectation (su_evals u))" using assms by (simp add: missing_def)
  then have "missing (add_evaluation q result u) = filter (\<lambda>x. event_id x \<noteq> event_id ev) (missing u)"
    using assms(2) by (auto simp: missing_def add_evaluation_def new_evaluation_def expectations_def intro!: filter_cong)
  then show ?thesis using assms(1) by (auto intro: length_filter_less)
qed

lemma over_add: "over te jid u \<Longrightarrow> over te jid (add_evaluation q result u)"
  by (simp add: over_def add_evaluation_def suite_job_def)

lemma suite_job_add [simp]: "suite_job jid (add_evaluation q result u) = suite_job jid u"
  by (simp add: suite_job_def add_evaluation_def)

text \<open>What a pass achieves.\<close>

definition advanced :: "timeline_env \<Rightarrow> string \<Rightarrow> nat \<Rightarrow> unit res \<times> session \<Rightarrow> bool" where
  "advanced te jid n r \<longleftrightarrow> fst r = Inr () \<and> over te jid (se_saved (snd r))
     \<and> (sr_status (su_row (se_saved (snd r))) \<in> set VERDICTS \<or> length (missing (se_saved (snd r))) < n)"

lemma save_advanced:
  assumes "quiet fe" "guarded jid s" "over te jid (se_now s)"
    "sr_status (su_row (se_now s)) \<in> set VERDICTS \<or> length (missing (se_now s)) < n"
  shows "advanced te jid n (save (fe_driver fe) s)"
  unfolding save_guarded [OF assms(1,2)] using assms(3,4) by (simp add: advanced_def over_committed)

lemma guarded_now: "guarded jid s \<Longrightarrow> w_now (su_world u) = se_clock s \<Longrightarrow> guarded jid (s\<lparr>se_now := u\<rparr>)"
  by (simp add: guarded_def se_clock_def)

lemma conclude_advanced:
  assumes q: "quiet fe" and g: "guarded jid s" and over: "over (de_te (fe_driver fe)) jid (se_now s)" and "summed s"
    "se_run s = w_run (su_world (se_now s))" and less: "missing (se_now s) = [] \<or> length (missing (se_now s)) < n"
  shows "advanced (de_te (fe_driver fe)) jid n (sbind (conclude (fe_driver fe) jid) (\<lambda>_. save (fe_driver fe)) s)"
proof -
  obtain u' where u': "conclude (fe_driver fe) jid s = (Inr (), s\<lparr>se_now := u'\<rparr>)" "over (de_te (fe_driver fe)) jid u'"
    "missing u' = missing (se_now s)" "w_now (su_world u') = w_now (su_world (se_now s))"
    "missing (se_now s) = [] \<longrightarrow> sr_status (su_row u') \<in> set VERDICTS"
    using conclude_over [OF over assms(4,5)] by blast
  have "advanced (de_te (fe_driver fe)) jid n (save (fe_driver fe) (s\<lparr>se_now := u'\<rparr>))"
    by (rule save_advanced [OF q guarded_now [OF g]]) (use u' less in \<open>auto simp: se_clock_def\<close>)
  then show ?thesis by (simp add: sbind_def u'(1))
qed

lemma edit_then: "sbind (edit_suite f) g s = g () (s\<lparr>se_now := f (se_now s)\<rparr>)"
  by (simp add: sbind_def edit_suite_def)

lemma read_then: "sbind read_run g s = g () (s\<lparr>se_run := w_run (su_world (se_now s))\<rparr>)"
  by (simp add: sbind_def read_run_def)

lemma guarded_run [simp]: "guarded jid (s\<lparr>se_run := r\<rparr>) = guarded jid s"
  by (simp add: guarded_def se_clock_def)

lemma put_summary_rows [simp]: "su_world (put_summary u) = su_world u" "missing (put_summary u) = missing u"
  "su_evals (put_summary u) = su_evals u" "expectations (put_summary u) = expectations u"
  "suite_job jid (put_summary u) = suite_job jid u"
  by (simp_all add: put_summary_def missing_def expectations_def on_row_def suite_job_def)

lemma put_summary_summary: "sr_summary (su_row (put_summary u)) = summarize (sr_status (su_row u)) (su_evals u) (expectations u)"
  by (simp add: put_summary_def on_row_def summarize_suite_def)

lemma over_put_summary: "over te jid u \<Longrightarrow> over te jid (put_summary u)"
  unfolding put_summary_def by (erule over_row) simp_all

lemma record_advanced:
  assumes q: "quiet fe" and g: "guarded jid s" and over: "over (de_te (fe_driver fe)) jid (se_now s)"
    and j: "suite_job jid (se_now s) = Some j" "j_status j = ''running''"
    and open_row: "sr_status (su_row (se_now s)) \<notin> set VERDICTS"
    and ev: "ev \<in> set (missing (se_now s))" "pj_expectation p = event_id ev"
  shows "advanced (de_te (fe_driver fe)) jid (length (missing (se_now s))) (record_result fe jid p result s)"
proof -
  define u where "u = add_evaluation p result (se_now s)"
  define v where "v = on_job jid (judge_metrics (su_evals u)) (put_summary u)"
  define t where "t = s\<lparr>se_run := w_run (su_world u), se_now := v\<rparr>"
  have clock: "w_now (su_world v) = se_clock s" by (simp add: v_def u_def add_evaluation_def se_clock_def)
  have "record_result fe jid p result s = sbind (conclude (fe_driver fe) jid) (\<lambda>_. save (fe_driver fe)) t"
    using j open_row by (simp add: record_result_def Let_def edit_then read_then t_def v_def u_def)
  moreover have "advanced (de_te (fe_driver fe)) jid (length (missing (se_now s)))
      (sbind (conclude (fe_driver fe) jid) (\<lambda>_. save (fe_driver fe)) t)"
  proof (rule conclude_advanced [OF q])
    have "guarded jid (s\<lparr>se_run := w_run (su_world u)\<rparr>)" using g by simp
    from guarded_now [OF this] show "guarded jid t" using clock by (simp add: t_def se_clock_def)
    have "over (de_te (fe_driver fe)) jid v" unfolding v_def u_def
    proof (rule over_job [OF over_put_summary [OF over_add [OF over]]])
      fix x assume "suite_job jid (put_summary (add_evaluation p result (se_now s))) = Some x"
      then have "x = j" using j(1) by simp
      moreover have "job_scenario j = sr_id (su_row (se_now s))" using over j(1) by (simp add: over_def)
      ultimately show "j_type (judge_metrics (su_evals (add_evaluation p result (se_now s))) x) = j_type x
          \<and> job_scenario (judge_metrics (su_evals (add_evaluation p result (se_now s))) x)
            = sr_id (su_row (put_summary (add_evaluation p result (se_now s))))"
        by (simp add: job_scenario_def put_summary_def on_row_def add_evaluation_def)
    qed simp
    then show "over (de_te (fe_driver fe)) jid (se_now t)" by (simp add: t_def)
    show "summed t"
      by (auto simp: summed_def t_def v_def put_summary_summary)
    show "se_run t = w_run (su_world (se_now t))" by (simp add: t_def v_def)
    show "missing (se_now t) = [] \<or> length (missing (se_now t)) < length (missing (se_now s))"
      using missing_add [OF ev] by (simp add: t_def v_def u_def)
  qed
  ultimately show ?thesis by simp
qed

lemma judge_advanced:
  assumes q: "quiet fe" and a: "answers fe" and g: "guarded jid s" and saved: "se_saved s = se_now s"
    and over: "over (de_te (fe_driver fe)) jid (se_now s)"
    and j: "suite_job jid (se_now s) = Some j" "j_status j = ''running''"
    and open_row: "sr_status (su_row (se_now s)) \<notin> set VERDICTS"
    and ev: "ev \<in> set (missing (se_now s))"
  shows "advanced (de_te (fe_driver fe)) jid (length (missing (se_now s))) (judge_one fe jid j ev s)"
proof -
  let ?u = "se_now s"
  note facts = over_events [OF over missing_in [OF ev]]
  obtain n where n: "int_or0 (dget ev ''at_ms'') = Inr n" using facts(2) by blast
  have "dhas ev ''id''" by (rule dhas_dget) (simp add: facts(1))
  then obtain p where prep: "prepare fe ev s = (Inr (p, scenario_time (su_row ?u) n), s)"
    by (simp add: prepare_def Let_def n sbind_def slift_def prepare_judge_def)
  have p: "pj_expectation p = event_id ev" using prepare_id [OF prep facts(1)] by simp
  obtain result where result: "judged fe j p = Inr result" using a by (auto simp: answers_def)
  define v where "v = on_job jid (\<lambda>j. j\<lparr>j_payload := ask_payload (de_te (fe_driver fe)) (su_row ?u) p
      (scenario_time (su_row ?u) n)\<rparr>) ?u"
  define t where "t = s\<lparr>se_now := v, se_saved := v, se_step := Suc (se_step s)\<rparr>"
  have vj: "suite_job jid v = Some (j\<lparr>j_payload := ask_payload (de_te (fe_driver fe)) (su_row ?u) p (scenario_time (su_row ?u) n)\<rparr>)"
    using j by (simp add: v_def)
  have held: "held jid v"
    using g j(1) saved by (auto simp: guarded_def held_def vj, auto simp: v_def holds_lease_def owns_def)
  then obtain l where "w_lease (su_world v) = Some l" "l_job l = jid" by (auto simp: held_def)
  then have com: "committed_suite v = v" using j(2) by (intro committed_running [OF vj]) auto
  have clock: "w_now (su_world v) = se_clock s" by (simp add: v_def se_clock_def)
  have save: "save (fe_driver fe) (s\<lparr>se_now := v\<rparr>) = (Inr (), t)"
    using save_guarded [OF q guarded_now [OF g clock]] com by (simp add: t_def)
  have gt: "guarded jid t" using held clock by (simp add: guarded_def t_def se_clock_def)
  have "reopen fe t = (Inr (), t)"
  proof -
    have "reopen fe t = check_fence (t\<lparr>se_now := se_saved t, se_saved := se_saved t\<rparr>)"
      using q by (simp add: reopen_def sbind_def quiet_def Let_def)
    also have "t\<lparr>se_now := se_saved t, se_saved := se_saved t\<rparr> = t" by (simp add: t_def)
    finally show ?thesis using guarded_check [OF gt] by simp
  qed
  moreover have "judge_one fe jid j ev s = sbind (reopen fe) (\<lambda>_. record_result fe jid p result) t"
    by (simp add: judge_one_def sbind_def [of "prepare fe ev"] prep edit_then v_def [symmetric] sbind_def [of "save (fe_driver fe)"] save
        result lift_then)
  ultimately have run: "judge_one fe jid j ev s = record_result fe jid p result t" by (simp add: sbind_def)
  have "over (de_te (fe_driver fe)) jid v" unfolding v_def
    by (rule over_job [OF over]) (simp_all add: job_scenario_def ask_payload_def str_field_def)
  then have over_t: "over (de_te (fe_driver fe)) jid (se_now t)" by (simp add: t_def)
  have job_t: "suite_job jid (se_now t) = Some (j\<lparr>j_payload := ask_payload (de_te (fe_driver fe)) (su_row ?u) p
      (scenario_time (su_row ?u) n)\<rparr>)"
    using vj by (simp add: t_def del: suite_job_on_job)
  have "advanced (de_te (fe_driver fe)) jid (length (missing (se_now t))) (record_result fe jid p result t)"
    using j(2) open_row ev
    by (intro record_advanced [OF q gt over_t job_t _ _ _ p]) (simp_all add: t_def v_def)
  then show ?thesis unfolding run by (simp add: t_def v_def)
qed

lemma over_type:
  assumes "over te jid u" "suite_job jid u = Some j"
  shows "j_type j = ''skill_test_scenario_finalizer''" "job_scenario j = sr_id (su_row u)" "sr_id (su_row u) \<noteq> []"
    "\<exists>r. sr_run (su_row u) = Some r"
  using assms by (auto simp: over_def)

lemma pass_advanced:
  assumes q: "quiet fe" and a: "answers fe" and g: "guarded jid s" and saved: "se_saved s = se_now s"
    and over: "over (de_te (fe_driver fe)) jid (se_now s)"
    and j: "suite_job jid (se_now s) = Some j" "j_status j = ''running''"
    and open_row: "sr_status (su_row (se_now s)) \<notin> set VERDICTS"
  shows "advanced (de_te (fe_driver fe)) jid (length (missing (se_now s))) (pass fe jid j s)"
proof -
  define t where "t = s\<lparr>se_run := w_run (su_world (se_now s))\<rparr>"
  have t: "guarded jid t" "se_saved t = se_now t" "se_now t = se_now s" "se_run t = w_run (su_world (se_now t))"
    using g saved by (simp_all add: t_def)
  have e: "ended (se_run t)" using over by (simp add: over_def t_def)
  show ?thesis
  proof (cases "r_status (se_run t) = ''cancelled''")
    case True
    have run: "pass fe jid j s = save (fe_driver fe) (t\<lparr>se_now := finish_job jid (close_cancelled (se_run t) (se_now t))\<rparr>)"
      using True by (simp add: pass_def Let_def read_then asks_then edit_then t_def)
    have "over (de_te (fe_driver fe)) jid (finish_job jid (close_cancelled (se_run t) (se_now t)))"
      unfolding close_cancelled_def by (intro over_finish over_row) (simp_all add: over t(3))
    then show ?thesis unfolding run
      by (intro save_advanced [OF q guarded_now [OF t(1)]])
        (simp_all add: VERDICTS_def close_cancelled_def on_row_def se_clock_def)
  next
    case False
    have el: "eligible (su_row (se_now t)) (se_run t) (w_now (su_world (se_now t))) (missing (se_now t))
        = Inr (case missing (se_now t) of [] \<Rightarrow> None | ev # _ \<Rightarrow> Some ev)"
      by (rule eligible_ended [OF e])
    show ?thesis
    proof (cases "missing (se_now t)")
      case Nil
      define u where "u = t\<lparr>se_now := put_summary (se_now t)\<rparr>"
      have run: "pass fe jid j s = sbind (conclude (fe_driver fe) jid) (\<lambda>_. save (fe_driver fe)) u"
        using False el Nil by (simp add: pass_def Let_def read_then asks_then edit_then lift_then t_def u_def)
      show ?thesis unfolding run
      proof (rule conclude_advanced [OF q])
        show "guarded jid u" unfolding u_def by (rule guarded_now [OF t(1)]) (simp add: se_clock_def)
        show "over (de_te (fe_driver fe)) jid (se_now u)" using over_put_summary [OF over] by (simp add: u_def t(3))
        show "summed u" by (auto simp: summed_def u_def put_summary_summary)
        show "se_run u = w_run (su_world (se_now u))" using t(4) by (simp add: u_def)
        show "missing (se_now u) = [] \<or> length (missing (se_now u)) < length (missing (se_now s))"
          using Nil by (simp add: u_def)
      qed
    next
      case (Cons ev evs)
      have run: "pass fe jid j s = judge_one fe jid j ev t"
        using False el Cons by (simp add: pass_def Let_def read_then asks_then lift_then t_def)
      have "advanced (de_te (fe_driver fe)) jid (length (missing (se_now t))) (judge_one fe jid j ev t)"
        by (rule judge_advanced [OF q a t(1,2)]) (use over j open_row Cons t(3) in simp_all)
      then show ?thesis by (simp add: run t(3))
    qed
  qed
qed

lemma process_advanced:
  assumes q: "quiet fe" and a: "answers fe" and g: "guarded jid s" and saved: "se_saved s = se_now s"
    and over: "over (de_te (fe_driver fe)) jid (se_now s)"
    and j: "suite_job jid (se_now s) = Some j" "j_status j = ''running''"
  shows "advanced (de_te (fe_driver fe)) jid (length (missing (se_now s))) (process_finalizer_job fe jid s)"
proof (cases "sr_status (su_row (se_now s)) \<in> set VERDICTS")
  case True
  have "process_finalizer_job fe jid s = save (fe_driver fe) (s\<lparr>se_now := finish_job jid (se_now s)\<rparr>)"
    using over_type [OF over j(1)] j(1) True by (simp add: process_finalizer_job_def Let_def edit_then)
  then show ?thesis using True
    by (auto intro!: save_advanced [OF q guarded_now [OF g]] simp: se_clock_def over_finish over)
next
  case False
  have "process_finalizer_job fe jid s = pass fe jid j s"
    using over_type [OF over j(1)] j(1) False by (auto simp: process_finalizer_job_def Let_def)
  then show ?thesis using pass_advanced [OF q a g saved over j False] by simp
qed

section \<open>The verdict\<close>

lemma taken:
  fixes owner :: string
  assumes over: "over te jid u" and pos: "0 < seconds"
    and v_def: "v = take_job seconds owner jid u"
  shows "over te jid v" "guarded jid (open_session v)" "missing v = missing u" "su_row v = su_row u"
    "\<exists>j. suite_job jid v = Some j \<and> j_status j = ''running''"
proof -
  obtain j where j: "suite_job jid u = Some j" using over by (auto simp: over_def)
  define k where "k = claim_job (w_now (su_world u)) seconds owner j"
  have k: "j_id k = jid" "j_status k = ''running''" "j_worker k = owner" "j_lease k = Some (w_now (su_world u) + seconds)"
    using suite_job_id [OF j] by (simp_all add: k_def)
  have o: "over te jid (on_job jid (claim_job (w_now (su_world u)) seconds owner) u)"
    by (rule over_job [OF over]) (use over j in \<open>simp_all add: over_def job_scenario_def\<close>)
  have job: "suite_job jid (on_job jid (claim_job (w_now (su_world u)) seconds owner) u) = Some k"
    using j by (simp add: k_def)
  then show "\<exists>j. suite_job jid v = Some j \<and> j_status j = ''running''"
    using k by (simp add: v_def take_job_def suite_job_def on_world_def)
  show "over te jid v" using o by (simp add: v_def take_job_def over_def suite_job_def on_world_def)
  show "guarded jid (open_session v)"
    using job k pos by (simp add: guarded_def held_def v_def take_job_def open_session_def se_clock_def suite_job_def
        on_world_def lease_of_def holds_lease_def owns_def on_job_def)
  show "missing v = missing u" "su_row v = su_row u"
    by (simp_all add: v_def take_job_def missing_def expectations_def on_world_def on_job_def)
qed

lemma one_pass_advanced:
  assumes "quiet fe" "answers fe" "0 < seconds" "over (de_te (fe_driver fe)) jid u"
  shows "over (de_te (fe_driver fe)) jid (one_pass fe seconds owner jid u)
    \<and> (sr_status (su_row (one_pass fe seconds owner jid u)) \<in> set VERDICTS
      \<or> length (missing (one_pass fe seconds owner jid u)) < length (missing u))"
proof -
  note t = taken [OF assms(4,3) refl, of owner]
  obtain j where j: "suite_job jid (take_job seconds owner jid u) = Some j" "j_status j = ''running''" using t(5) by blast
  have "advanced (de_te (fe_driver fe)) jid (length (missing (take_job seconds owner jid u)))
      (process_finalizer_job fe jid (open_session (take_job seconds owner jid u)))"
    using process_advanced [OF assms(1,2) t(2) _ _ _ j(2)] t(1) j(1) by (simp add: open_session_def)
  then show ?thesis by (simp add: advanced_def one_pass_def t(3))
qed

theorem verdict_comes:
  assumes "quiet fe" "answers fe" "0 < seconds" "over (de_te (fe_driver fe)) jid u"
  shows "\<exists>n \<le> Suc (length (missing u)). sr_status (su_row ((one_pass fe seconds owner jid ^^ n) u)) \<in> set VERDICTS"
  using assms(4)
proof (induction "length (missing u)" arbitrary: u rule: less_induct)
  case less
  let ?v = "one_pass fe seconds owner jid u"
  have v: "over (de_te (fe_driver fe)) jid ?v"
    "sr_status (su_row ?v) \<in> set VERDICTS \<or> length (missing ?v) < length (missing u)"
    using one_pass_advanced [OF assms(1-3) less.prems] by auto
  show ?case
  proof (cases "sr_status (su_row ?v) \<in> set VERDICTS")
    case True
    then show ?thesis by (intro exI [of _ 1]) simp
  next
    case False
    then obtain n where "n \<le> Suc (length (missing ?v))"
      "sr_status (su_row ((one_pass fe seconds owner jid ^^ n) ?v)) \<in> set VERDICTS"
      using less.hyps v by blast
    then show ?thesis using v(2) False
      by (intro exI [of _ "Suc n"]) (simp add: funpow_swap1)
  qed
qed

end
