(* ===== verification/Candidate.thy ===== *)
theory Candidate
  imports FormalValidate Observation
begin

text \<open>
  What the compiler agent hands in: the shape of a candidate
  (\<^verbatim>\<open>agent_harness/agents/psop/compiler/schemas.py\<close>) and reading it from the agent's sandbox
  (\<^verbatim>\<open>_read_harness_compiler_candidate\<close> of \<^verbatim>\<open>domain/compiler/service.py\<close>). The text of pydantic's error is a
  parameter.
\<close>

section \<open>Diagnostics as rows\<close>

record fdiag =
  fd_severity :: string
  fd_code :: string
  fd_message :: string
  fd_location :: json
  fd_category :: string

definition compiler_error :: "string \<Rightarrow> string \<Rightarrow> json \<Rightarrow> fdiag" where
  "compiler_error code message location =
     \<lparr>fd_severity = ''error'', fd_code = code, fd_message = message, fd_location = location, fd_category = ''compiler''\<rparr>"

text \<open>A diagnostic of the validator with its sentence, which is a parameter.\<close>

definition diag_row :: "(dmsg \<Rightarrow> string) \<Rightarrow> diag \<Rightarrow> fdiag" where
  "diag_row message d =
     \<lparr>fd_severity = d_severity d, fd_code = d_code d, fd_message = message (d_message d),
      fd_location = JObj [(''path'', JStr (d_path d))], fd_category = d_category d\<rparr>"

definition fdiag_dict :: "fdiag \<Rightarrow> dict" where
  "fdiag_dict d =
     [(''severity'', JStr (fd_severity d)), (''code'', JStr (fd_code d)), (''message'', JStr (fd_message d)),
      (''location'', fd_location d), (''category'', JStr (fd_category d))]"

section \<open>The shape of a candidate\<close>

record candidate =
  ca_artifact :: dict
  ca_reason :: string
  ca_source_map :: "dict list"
  ca_diagnostics :: "dict list"
  ca_repairs :: "dict list"
  ca_summary :: dict

definition REQUIRED_ARTIFACT_FIELDS :: "string list" where
  "REQUIRED_ARTIFACT_FIELDS =
     [''formal_revision'', ''schema'', ''nodes'', ''init'', ''halt'', ''policies'', ''dependency_graph_for_view'',
      ''runtime_contract'']"

definition is_nonempty_arr :: "json \<Rightarrow> bool" where
  "is_nonempty_arr v \<longleftrightarrow> list_or_empty v \<noteq> []"

definition artifact_shape_ok :: "json \<Rightarrow> bool" where
  "artifact_shape_ok v =
     if_obj v (\<lambda>a. a \<noteq> [] \<and> list_all (dhas a) REQUIRED_ARTIFACT_FIELDS
       \<and> dget a ''formal_revision'' = JStr FORMAL_REVISION
       \<and> if_obj (dget a ''runtime_contract'') (\<lambda>rc. is_nonempty_arr (dget rc ''workflow_steps'')) False) False"

definition filled :: "dict \<Rightarrow> string \<Rightarrow> bool" where
  "filled d k \<longleftrightarrow> strip (str_field d k) \<noteq> []"

definition source_entry_ok :: "dict \<Rightarrow> bool" where
  "source_entry_ok d \<longleftrightarrow> filled d ''target'' \<and> filled d ''source_file''
     \<and> (filled d ''source_excerpt'' \<or> filled d ''source_summary'')"

definition dict_list :: "json \<Rightarrow> bool" where
  "dict_list v = if_arr v (\<lambda>xs. list_all is_obj xs) False"

definition source_map_ok :: "json \<Rightarrow> bool" where
  "source_map_ok v \<longleftrightarrow> dict_list v \<and> is_nonempty_arr v \<and> list_all source_entry_ok (only_objs (list_or_empty v))"

text \<open>\<^verbatim>\<open>isinstance(value, int)\<close> holds of a Boolean.\<close>

definition count_ok :: "json \<Rightarrow> bool" where
  "count_ok v \<longleftrightarrow> (is_int v \<and> 0 \<le> int_of_json v) \<or> is_bool v"

definition counted :: "json \<Rightarrow> int" where
  "counted v = (if is_bool v then (if truthy v then 1 else 0) else int_of_json v)"

definition summary_ok :: "json \<Rightarrow> bool" where
  "summary_ok v =
     if_obj v (\<lambda>d. strip (str_field d ''status'') \<in> {''passed'', ''failed'', ''not_run''}
       \<and> count_ok (dget d ''error_count'') \<and> count_ok (dget d ''warning_count'')
       \<and> \<not> (str_field d ''status'' = ''passed'' \<and> counted (dget d ''error_count'') > 0)) False"

definition candidate_ok :: "dict \<Rightarrow> bool" where
  "candidate_ok d \<longleftrightarrow> artifact_shape_ok (dget d ''artifact'')
     \<and> if_str (dget d ''compile_reason'') (\<lambda>s. strip s \<noteq> []) False
     \<and> source_map_ok (dget d ''source_map'')
     \<and> dict_list (dget_or d ''diagnostics'' (JArr [])) \<and> dict_list (dget_or d ''repair_history'' (JArr []))
     \<and> summary_ok (dget d ''validator_summary'')"

definition validate_compiler_candidate :: "json \<Rightarrow> candidate option" where
  "validate_compiler_candidate payload =
     if_obj payload (\<lambda>d.
       if candidate_ok d
       then Some \<lparr>ca_artifact = dict_or_empty (dget d ''artifact''), ca_reason = strip (str_or_empty (dget d ''compile_reason'')),
              ca_source_map = only_objs (list_or_empty (dget d ''source_map'')),
              ca_diagnostics = only_objs (list_or_empty (dget d ''diagnostics'')),
              ca_repairs = only_objs (list_or_empty (dget d ''repair_history'')),
              ca_summary = dict_or_empty (dget d ''validator_summary'')\<rparr>
       else None) None"

section \<open>Reading it\<close>

text \<open>The file of the sandbox: absent, no JSON (with the decoder's message and place), or a value.\<close>

datatype sandbox_file = Absent | Malformed string int int | Payload json

record outcome =
  oc_agent :: string
  oc_status :: string
  oc_error :: string
  oc_run :: string
  oc_sandbox :: "string option"
  oc_file :: sandbox_file
  oc_events :: "(string \<times> dict) list"

definition opt_json :: "string option \<Rightarrow> json" where
  "opt_json x = (case x of None \<Rightarrow> JNull | Some s \<Rightarrow> JStr s)"

definition NO_SANDBOX_TEXT :: string where
  "NO_SANDBOX_TEXT = ''psop.compiler '' @ u8 [231, 187, 147, 230, 158, 156, 231, 188, 186, 229, 176,
      145] @ '' sandbox_path'' @ u8 [227, 128, 130]"

definition NO_RESULT_TEXT :: string where
  "NO_RESULT_TEXT = ''psop.compiler '' @ u8 [230, 156, 170, 231, 148, 159, 230, 136,
      144] @ '' compiler-result.json'' @ u8 [227, 128, 130]"

definition MALFORMED_TEXT :: string where
  "MALFORMED_TEXT = ''psop.compiler '' @ u8 [231, 148, 159, 230, 136, 144, 231, 154,
      132] @ '' compiler-result.json '' @ u8 [228, 184, 141, 230, 152, 175, 229, 144, 136, 230,
      179, 149] @ '' JSON'' @ u8 [239, 188, 154]"

definition read_candidate :: "(json \<Rightarrow> string) \<Rightarrow> outcome \<Rightarrow> fdiag + candidate" where
  "read_candidate error_text oc =
     (if oc_sandbox oc \<in> {None, Some []} then Inl (compiler_error ''compile.agent.missing_artifact'' NO_SANDBOX_TEXT JNull)
      else (case oc_file oc of
          Absent \<Rightarrow> Inl (compiler_error ''compile.agent.missing_artifact'' NO_RESULT_TEXT
            (JObj [(''agent_run_id'', JStr (oc_run oc)), (''sandbox_path'', opt_json (oc_sandbox oc))]))
        | Malformed message line column \<Rightarrow> Inl (compiler_error ''compile.agent.invalid_json'' (MALFORMED_TEXT @ message)
            (JObj [(''line'', JInt line), (''column'', JInt column)]))
        | Payload v \<Rightarrow> (case validate_compiler_candidate v of
            Some c \<Rightarrow> Inr c
          | None \<Rightarrow> Inl (compiler_error ''compile.agent.invalid_candidate'' (error_text v)
              (JObj [(''path'', JStr ''sandbox://outputs/compiler-result.json'')])))))"

definition candidate_diag :: "dict \<Rightarrow> fdiag" where
  "candidate_diag d =
     \<lparr>fd_severity = py_str (py_or (dget d ''severity'') (JStr ''warning'')),
      fd_code = py_str (py_or (dget d ''code'') (JStr ''compile.agent.candidate_diagnostic'')),
      fd_message = py_str (py_or (dget d ''message'') (JStr ''psop.compiler candidate diagnostic.'')),
      fd_location = (if is_obj (dget d ''location'') then dget d ''location'' else JNull),
      fd_category = py_str (py_or (dget d ''category'') (JStr ''compiler''))\<rparr>"

text \<open>The last usage event with a total counts.\<close>

definition USAGE_FIELDS :: "string list" where
  "USAGE_FIELDS = [''input_tokens'', ''output_tokens'', ''total_tokens'']"

fun read_usage :: "string list \<Rightarrow> dict \<Rightarrow> dict res" where
  "read_usage [] d = Inr []"
| "read_usage (k # ks) d =
     rbind (int_or0 (dget d k)) (\<lambda>n. rbind (read_usage ks d) (\<lambda>u. Inr ((k, JInt n) # u)))"

fun agent_token_usage :: "dict \<Rightarrow> (string \<times> dict) list \<Rightarrow> dict res" where
  "agent_token_usage usage [] = Inr usage"
| "agent_token_usage usage (ev # evs) =
     (if fst ev = ''agent.token.usage''
      then if_obj (dget (snd ev) ''total'')
        (\<lambda>total. rbind (read_usage USAGE_FIELDS total) (\<lambda>u. agent_token_usage u evs)) (agent_token_usage usage evs)
      else agent_token_usage usage evs)"

end
