(* ===== verification/PublishProgress.thy ===== *)
theory PublishProgress
  imports Texts
begin

text \<open>
  The progress of a compile job, kept in the job's payload (\<^verbatim>\<open>backend/app/domain/jobs/progress.py\<close>): eight
  stages in a fixed order, which the compiler service marks as it goes, and the terminal status.
  \<open>now\<close> is the ISO text of the current time.
\<close>

section \<open>Stages\<close>

definition PUBLISH_STAGES :: "(string \<times> string) list" where
  "PUBLISH_STAGES =
     [(''source_frozen'', u8 [229, 134, 187, 231, 187, 147, 230, 186, 144, 231, 160, 129]),
      (''compile_request_created'', u8 [229, 136, 155, 229, 187, 186, 231, 188, 150, 232, 175, 145, 228, 187, 187, 229, 138,
      161]),
      (''source_loaded'', u8 [232, 175, 187, 229, 143, 150, 229, 134, 187, 231, 187, 147, 230, 186, 144, 231, 160,
      129]),
      (''manifest_checked'', u8 [230, 160, 161, 233, 170, 140] @ '' manifest''),
      (''agent_compiling'', u8 [230, 153, 186, 232, 131, 189, 228, 189, 147, 231, 188, 150, 232, 175, 145] @ '' EG''),
      (''artifact_validating'', u8 [230, 160, 161, 233, 170, 140] @ '' EG artifact''),
      (''artifact_emitting'', u8 [229, 134, 153, 229, 133, 165, 231, 188, 150, 232, 175, 145, 228, 186, 167, 231, 137,
      169]),
      (''publish_finalizing'', u8 [229, 174, 140, 230, 136, 144, 229, 143, 145, 229, 184, 131])]"

definition FROZEN_TEXT :: "string \<Rightarrow> string" where
  "FROZEN_TEXT commit = u8 [229, 183, 178, 229, 134, 187, 231, 187, 147] @ '' commit '' @ py_take 12 commit @ u8 [227, 128, 130]"

definition REQUEST_CREATED_TEXT :: string where
  "REQUEST_CREATED_TEXT = u8 [231, 188, 150, 232, 175, 145, 228, 187, 187, 229, 138, 161, 229, 183, 178, 229, 136,
      155, 229, 187, 186, 227, 128, 130]"

text \<open>What a payload says of its stages; keys that are no string are passed over, a list or a dictionary as a key raises.\<close>

definition stage_table :: "dict \<Rightarrow> dict list res" where
  "stage_table payload =
     rbind (iter_items (dget_or payload ''progress_stages'' (JArr []))) (\<lambda>xs.
       let ds = filter (\<lambda>d. truthy (dget d ''key'')) (only_objs xs) in
       if list_all (\<lambda>d. hashable (dget d ''key'')) ds then Inr ds else Inl TypeErr)"

definition stage_entry :: "dict list \<Rightarrow> string \<Rightarrow> dict" where
  "stage_entry ds key = (case find (\<lambda>d. dget d ''key'' = JStr key) (rev ds) of None \<Rightarrow> [] | Some d \<Rightarrow> d)"

definition ensured_stage :: "dict list \<Rightarrow> string \<times> string \<Rightarrow> dict" where
  "ensured_stage ds item =
     (let e = stage_entry ds (fst item) in
      [(''key'', JStr (fst item)), (''label'', dget_or e ''label'' (JStr (snd item))),
       (''status'', dget_or e ''status'' (JStr ''pending'')), (''message'', dget_or e ''message'' (JStr [])),
       (''started_at'', dget e ''started_at''), (''finished_at'', dget e ''finished_at'')])"

definition ensure_publish_progress_payload :: "string \<Rightarrow> dict \<Rightarrow> dict res" where
  "ensure_publish_progress_payload now payload =
     rbind (stage_table payload) (\<lambda>ds.
       Inr (dsetdefault ''updated_at'' (JStr now)
         (dsetdefault ''error_message'' (JStr [])
         (dsetdefault ''terminal_status'' JNull
         (dsetdefault ''terminal'' (JBool False)
         (dsetdefault ''current_stage'' (JStr ''source_frozen'')
         (dset ''progress_stages'' (JArr (map (\<lambda>item. JObj (ensured_stage ds item)) PUBLISH_STAGES)) payload)))))))"

section \<open>Marking a stage\<close>

definition marked_stage :: "string \<Rightarrow> string \<Rightarrow> string \<Rightarrow> string \<Rightarrow> dict \<Rightarrow> dict" where
  "marked_stage now key status message stage =
     (if dget stage ''key'' \<noteq> JStr key then stage
      else (let s1 = dset ''message'' (JStr message) (dset ''status'' (JStr status) stage);
                s2 = (if status \<in> {''running'', ''succeeded'', ''failed''} \<and> \<not> truthy (dget s1 ''started_at'')
                      then dset ''started_at'' (JStr now) s1 else s1) in
            if status \<in> {''succeeded'', ''failed''} then dset ''finished_at'' (JStr now) s2 else s2))"

definition payload_stages :: "dict \<Rightarrow> dict list" where
  "payload_stages payload = only_objs (list_or_empty (dget payload ''progress_stages''))"

definition mark_publish_stage ::
    "string \<Rightarrow> dict \<Rightarrow> string \<Rightarrow> string \<Rightarrow> string \<Rightarrow> string option \<Rightarrow> string \<Rightarrow> dict res" where
  "mark_publish_stage now payload key status message terminal error =
     rbind (ensure_publish_progress_payload now payload) (\<lambda>p.
     let p1 = dset ''updated_at'' (JStr now) (dset ''current_stage'' (JStr key)
           (dset ''progress_stages'' (JArr (map (\<lambda>s. JObj (marked_stage now key status message s)) (payload_stages p))) p));
         p2 = (case terminal of None \<Rightarrow> p1
           | Some t \<Rightarrow> if t = [] then p1 else dset ''terminal_status'' (JStr t) (dset ''terminal'' (JBool True) p1)) in
       Inr (if error = [] then p2 else dset ''error_message'' (JStr error) p2))"

definition fresh_stage :: "string \<times> string \<Rightarrow> dict" where
  "fresh_stage item =
     [(''key'', JStr (fst item)), (''label'', JStr (snd item)), (''status'', JStr ''pending''), (''message'', JStr []),
      (''started_at'', JNull), (''finished_at'', JNull)]"

definition build_publish_progress_payload ::
    "string \<Rightarrow> string \<Rightarrow> string option \<Rightarrow> string \<Rightarrow> string \<Rightarrow> string \<Rightarrow> dict res" where
  "build_publish_progress_payload now request_id record_id skill_id version_id commit =
     (let payload =
        [(''compile_request_id'', JStr request_id),
         (''publish_record_id'', (case record_id of None \<Rightarrow> JNull | Some i \<Rightarrow> JStr i)),
         (''skill_definition_id'', JStr skill_id), (''skill_version_id'', JStr version_id),
         (''published_commit_sha'', JStr commit), (''current_stage'', JStr ''source_frozen''),
         (''terminal'', JBool False), (''terminal_status'', JNull), (''error_message'', JStr []),
         (''progress_stages'', JArr (map (\<lambda>item. JObj (fresh_stage item)) PUBLISH_STAGES)),
         (''updated_at'', JStr now)] in
      rbind (mark_publish_stage now payload ''source_frozen'' ''succeeded'' (FROZEN_TEXT commit) None []) (\<lambda>p.
        mark_publish_stage now p ''compile_request_created'' ''succeeded'' REQUEST_CREATED_TEXT None []))"

section \<open>What marking keeps\<close>

text \<open>A payload whose stages are the eight of \<open>PUBLISH_STAGES\<close> in their order, with all their fields.\<close>

definition stage_ok :: "string \<times> string \<Rightarrow> dict \<Rightarrow> bool" where
  "stage_ok item d \<longleftrightarrow> dget d ''key'' = JStr (fst item) \<and>
     list_all (dhas d) [''key'', ''label'', ''status'', ''message'', ''started_at'', ''finished_at'']"

definition stages_ok :: "dict \<Rightarrow> bool" where
  "stages_ok payload \<longleftrightarrow> (\<exists>ds. dget payload ''progress_stages'' = JArr (map JObj ds) \<and> list_all2 stage_ok PUBLISH_STAGES ds)"


lemma only_objs_map [simp]: "only_objs (map JObj ds) = ds"
  by (induction ds) (auto simp: only_objs_def)

lemma stages_ok_payload: "dget p ''progress_stages'' = JArr (map JObj ds) \<Longrightarrow> payload_stages p = ds"
  by (simp add: payload_stages_def)

lemma ensured_stage_ok: "stage_ok item (ensured_stage ds item)"
  by (simp add: stage_ok_def ensured_stage_def Let_def dhas_def dget_def dget_or_def)

lemma ensured_stages: "list_all2 stage_ok items (map (ensured_stage ds) items)"
  by (simp add: list.rel_map(2) ensured_stage_ok list.rel_refl)

lemma marked_stage_ok: "stage_ok item d \<Longrightarrow> stage_ok item (marked_stage now key status message d)"
  by (simp add: stage_ok_def marked_stage_def Let_def)

definition PROGRESS_KEYS :: "string list" where
  "PROGRESS_KEYS = [''progress_stages'', ''current_stage'', ''updated_at'', ''terminal'', ''terminal_status'', ''error_message'']"

lemma dget_or_if: "dget_or d k v = (if dhas d k then dget d k else v)"
  by (auto simp: dget_or_def dget_def dhas_def)

lemma dget_absent: "\<not> dhas d k \<Longrightarrow> dget d k = JNull"
  by (simp add: dget_or_def dget_def dhas_def)

lemma ensure_Inr:
  assumes "ensure_publish_progress_payload now p = Inr q"
  shows "stages_ok q" "k \<notin> set PROGRESS_KEYS \<Longrightarrow> dget q k = dget p k"
    "dget q ''terminal'' = dget_or p ''terminal'' (JBool False)"
    "dget q ''terminal_status'' = dget p ''terminal_status''"
proof -
  obtain ds where "stage_table p = Inr ds" using assms by (auto simp: ensure_publish_progress_payload_def rbind_eq_Inr)
  then have q: "q = dsetdefault ''updated_at'' (JStr now)
         (dsetdefault ''error_message'' (JStr [])
         (dsetdefault ''terminal_status'' JNull
         (dsetdefault ''terminal'' (JBool False)
         (dsetdefault ''current_stage'' (JStr ''source_frozen'')
         (dset ''progress_stages'' (JArr (map JObj (map (ensured_stage ds) PUBLISH_STAGES))) p)))))"
    using assms by (simp add: ensure_publish_progress_payload_def comp_def)
  show "stages_ok q"
    unfolding q stages_ok_def using ensured_stages by (intro exI [of _ "map (ensured_stage ds) PUBLISH_STAGES"]) simp
  show "dget q k = dget p k" if "k \<notin> set PROGRESS_KEYS" using that by (simp add: q PROGRESS_KEYS_def)
  show "dget q ''terminal'' = dget_or p ''terminal'' (JBool False)" "dget q ''terminal_status'' = dget p ''terminal_status''"
    using dget_absent by (auto simp: q dget_or_if)
qed

lemma ensure_total:
  assumes "stages_ok p"
  shows "\<exists>q. ensure_publish_progress_payload now p = Inr q"
proof -
  obtain ds where ds: "dget p ''progress_stages'' = JArr (map JObj ds)" "list_all2 stage_ok PUBLISH_STAGES ds"
    using assms by (auto simp: stages_ok_def)
  have "dget_or p ''progress_stages'' (JArr []) = JArr (map JObj ds)"
    using ds(1) by (auto simp: dget_def dget_or_def split: option.splits)
  moreover have "\<exists>s. dget d ''key'' = JStr s" if "d \<in> set ds" for d
    using ds(2) that by (auto simp: list_all2_conv_all_nth in_set_conv_nth stage_ok_def)
  then have "list_all (\<lambda>d. hashable (dget d ''key'')) (filter (\<lambda>d. truthy (dget d ''key'')) ds)"
    by (force simp: list_all_iff)
  ultimately show ?thesis by (simp add: ensure_publish_progress_payload_def stage_table_def Let_def)
qed

lemma mark_Inr:
  assumes "mark_publish_stage now p key status message terminal error = Inr q"
  shows "stages_ok q" "k \<notin> set PROGRESS_KEYS \<Longrightarrow> dget q k = dget p k" "dget q ''current_stage'' = JStr key"
    "dget q ''terminal'' = (if terminal \<in> {None, Some []} then dget_or p ''terminal'' (JBool False) else JBool True)"
proof -
  obtain p1 where p1: "ensure_publish_progress_payload now p = Inr p1"
    using assms by (auto simp: mark_publish_stage_def rbind_eq_Inr)
  note e = ensure_Inr [OF p1]
  obtain ds where ds: "dget p1 ''progress_stages'' = JArr (map JObj ds)" "list_all2 stage_ok PUBLISH_STAGES ds"
    using e(1) by (auto simp: stages_ok_def)
  let ?ds = "map (marked_stage now key status message) ds"
  have q: "q = (let p2 = dset ''updated_at'' (JStr now) (dset ''current_stage'' (JStr key)
           (dset ''progress_stages'' (JArr (map JObj ?ds)) p1));
         p3 = (case terminal of None \<Rightarrow> p2
           | Some t \<Rightarrow> if t = [] then p2 else dset ''terminal_status'' (JStr t) (dset ''terminal'' (JBool True) p2)) in
       if error = [] then p3 else dset ''error_message'' (JStr error) p3)"
    using assms [symmetric] unfolding mark_publish_stage_def p1 rbind_Inr stages_ok_payload [OF ds(1)]
    by (simp add: Let_def comp_def)
  have "dget q ''progress_stages'' = JArr (map JObj ?ds)" by (simp add: q Let_def split: option.split)
  moreover have "list_all2 stage_ok PUBLISH_STAGES ?ds"
    using ds(2) by (auto simp: list_all2_conv_all_nth marked_stage_ok)
  ultimately show "stages_ok q" unfolding stages_ok_def by blast
  show "dget q k = dget p k" if "k \<notin> set PROGRESS_KEYS"
    using that e(2) [OF that] by (auto simp: q Let_def PROGRESS_KEYS_def split: option.split)
  show "dget q ''current_stage'' = JStr key" by (simp add: q Let_def split: option.split)
  show "dget q ''terminal'' = (if terminal \<in> {None, Some []} then dget_or p ''terminal'' (JBool False) else JBool True)"
    using e(3) by (auto simp: q Let_def split: option.split)
qed

lemma mark_total:
  assumes "stages_ok p"
  shows "\<exists>q. mark_publish_stage now p key status message terminal error = Inr q"
  using ensure_total [OF assms, of now] by (auto simp: mark_publish_stage_def Let_def)

end
