(* ===== verification/Catalog.thy ===== *)
theory Catalog
  imports Candidate PublishProgress Failure TurnEnd Actions Timeline
begin

text \<open>
  The rows of skills and their compilation (\<^verbatim>\<open>domain/skills/models.py\<close>, \<^verbatim>\<open>domain/compiler/models.py\<close>), the
  manifest documents they hold (\<^verbatim>\<open>domain/skills/manifest.py\<close>), and the database session of a worker
  that handles a compile job: the open transaction, what is committed, and the lease that fences it.
\<close>

section \<open>Rows\<close>

record skill_definition =
  sd_id :: string
  sd_key :: string
  sd_name :: string
  sd_description :: string
  sd_status :: string
  sd_group :: string
  sd_project :: string
  sd_url :: string
  sd_branch :: string
  sd_draft :: "string option"
  sd_published :: "string option"

record skill_version =
  sv_id :: string
  sv_skill :: string
  sv_no :: int
  sv_status :: string
  sv_ref :: string
  sv_commit :: "string option"
  sv_manifest :: json
  sv_policy :: json
  sv_updated :: int

record publish_record =
  pr_id :: string
  pr_skill :: string
  pr_version :: string
  pr_reason :: string
  pr_status :: string
  pr_commit :: string
  pr_ref :: string

record compile_request =
  cr_id :: string
  cr_skill :: string
  cr_version :: string
  cr_trigger :: string
  cr_commit :: string
  cr_status :: string
  cr_dedupe :: string
  cr_started :: "int option"
  cr_finished :: "int option"
  cr_error :: string

record diagnostic_row =
  dr_request :: string
  dr_version :: string
  dr_diag :: fdiag

record object_row =
  ob_id :: string
  ob_bucket :: string
  ob_key :: string
  ob_media :: string
  ob_size :: int
  ob_checksum :: string
  ob_content :: json

record eg_artifact =
  ea_id :: string
  ea_request :: string
  ea_version :: string
  ea_object :: string
  ea_revision :: json
  ea_format :: json
  ea_graph :: json
  ea_capability :: json
  ea_status :: string

record catalog =
  cg_skills :: "skill_definition list"
  cg_versions :: "skill_version list"
  cg_records :: "publish_record list"
  cg_requests :: "compile_request list"
  cg_diags :: "diagnostic_row list"
  cg_objects :: "object_row list"
  cg_artifacts :: "eg_artifact list"
  cg_jobs :: "job list"
  cg_now :: int
  cg_iso :: string
  cg_ids :: nat

text \<open>A row by its key, and a change of it.\<close>

definition row_of :: "('r \<Rightarrow> string) \<Rightarrow> string \<Rightarrow> 'r list \<Rightarrow> 'r option" where
  "row_of key i rows = find (\<lambda>r. key r = i) rows"

definition on_row_of :: "('r \<Rightarrow> string) \<Rightarrow> string \<Rightarrow> ('r \<Rightarrow> 'r) \<Rightarrow> 'r list \<Rightarrow> 'r list" where
  "on_row_of key i f rows = map (\<lambda>r. if key r = i then f r else r) rows"

definition skill_of :: "string \<Rightarrow> catalog \<Rightarrow> skill_definition option" where
  "skill_of i c = row_of sd_id i (cg_skills c)"

definition version_of :: "string \<Rightarrow> catalog \<Rightarrow> skill_version option" where
  "version_of i c = row_of sv_id i (cg_versions c)"

definition record_of :: "string \<Rightarrow> catalog \<Rightarrow> publish_record option" where
  "record_of i c = row_of pr_id i (cg_records c)"

definition request_of :: "string \<Rightarrow> catalog \<Rightarrow> compile_request option" where
  "request_of i c = row_of cr_id i (cg_requests c)"

definition job_of :: "string \<Rightarrow> catalog \<Rightarrow> job option" where
  "job_of i c = by_id i (cg_jobs c)"

definition on_skill :: "string \<Rightarrow> (skill_definition \<Rightarrow> skill_definition) \<Rightarrow> catalog \<Rightarrow> catalog" where
  "on_skill i f c = c\<lparr>cg_skills := on_row_of sd_id i f (cg_skills c)\<rparr>"

text \<open>A version that changes gets its \<^verbatim>\<open>updated_at\<close> from the column's \<^verbatim>\<open>onupdate\<close>.\<close>

definition changed_version :: "int \<Rightarrow> (skill_version \<Rightarrow> skill_version) \<Rightarrow> skill_version \<Rightarrow> skill_version" where
  "changed_version now f v = (if f v = v then v else (f v)\<lparr>sv_updated := now\<rparr>)"

definition on_version :: "string \<Rightarrow> (skill_version \<Rightarrow> skill_version) \<Rightarrow> catalog \<Rightarrow> catalog" where
  "on_version i f c = c\<lparr>cg_versions := on_row_of sv_id i (changed_version (cg_now c) f) (cg_versions c)\<rparr>"

definition on_record :: "string \<Rightarrow> (publish_record \<Rightarrow> publish_record) \<Rightarrow> catalog \<Rightarrow> catalog" where
  "on_record i f c = c\<lparr>cg_records := on_row_of pr_id i f (cg_records c)\<rparr>"

definition on_request :: "string \<Rightarrow> (compile_request \<Rightarrow> compile_request) \<Rightarrow> catalog \<Rightarrow> catalog" where
  "on_request i f c = c\<lparr>cg_requests := on_row_of cr_id i f (cg_requests c)\<rparr>"

definition on_cjob :: "string \<Rightarrow> (job \<Rightarrow> job) \<Rightarrow> catalog \<Rightarrow> catalog" where
  "on_cjob i f c = c\<lparr>cg_jobs := on_row_of j_id i f (cg_jobs c)\<rparr>"

section \<open>Documents\<close>

text \<open>
  A document is what \<^verbatim>\<open>model_dump\<close> shows of it. \<open>model\<close> is pydantic's \<^verbatim>\<open>model_validate\<close>, with the defaults it
  fills in.
\<close>

definition without_digest :: "dict \<Rightarrow> dict" where
  "without_digest doc = dset ''skill'' (JObj (dpop ''source_digest'' (dict_or_empty (dget doc ''skill'')))) doc"

definition document_from_manifest_snapshot :: "(dict \<Rightarrow> dict option) \<Rightarrow> json \<Rightarrow> dict res" where
  "document_from_manifest_snapshot model v =
     (let raw = dict_or_empty v in
      if raw = [] then Inl (Invalid ''manifest snapshot'')
      else (case model (if dhas raw ''skill'' then raw else [(''skill'', JObj raw)]) of
          None \<Rightarrow> Inl (Invalid ''manifest snapshot structure'')
        | Some doc \<Rightarrow> Inr (without_digest doc)))"

definition doc_section :: "string \<Rightarrow> dict \<Rightarrow> dict" where
  "doc_section k doc = dict_or_empty (dget (dict_or_empty (dget doc ''skill'')) k)"

definition document_with_prompt_material :: "string option \<Rightarrow> string option \<Rightarrow> dict \<Rightarrow> dict" where
  "document_with_prompt_material readme skill_md doc =
     (let skill = dpop ''source_digest'' (dict_or_empty (dget doc ''skill''));
          p0 = doc_section ''prompt_material'' doc;
          p1 = (case readme of None \<Rightarrow> p0 | Some s \<Rightarrow> dset ''readme'' (JStr s) p0);
          p2 = (case skill_md of None \<Rightarrow> p1 | Some s \<Rightarrow> dset ''skill_md'' (JStr s) p1) in
      dset ''skill'' (JObj (dset ''prompt_material'' (JObj p2) skill)) doc)"

definition manifest_snapshot :: "dict \<Rightarrow> dict" where
  "manifest_snapshot doc =
     dpop ''source_digest'' (dict_or_empty (dget (document_with_prompt_material None None doc) ''skill''))"

definition runtime_policy_snapshot :: "dict \<Rightarrow> dict" where
  "runtime_policy_snapshot doc = doc_section ''runtime_policy'' doc"

section \<open>Sessions\<close>

record csession =
  cs_now :: catalog
  cs_saved :: catalog
  cs_lease :: "lease option"
  cs_healthy :: bool
  cs_step :: nat

type_synonym 'a cact = "(csession, 'a) action"

definition edit_catalog :: "(catalog \<Rightarrow> catalog) \<Rightarrow> unit cact" where
  "edit_catalog f s = (Inr (), s\<lparr>cs_now := f (cs_now s)\<rparr>)"

text \<open>The fence asks the committed row, when a transaction begins and before it commits.\<close>

definition cfence :: "unit cact" where
  "cfence s =
     (case fence_error (cs_lease s) (cs_healthy s) (cg_now (cs_now s)) (cg_jobs (cs_saved s)) of
        None \<Rightarrow> (Inr (), s)
      | Some e \<Rightarrow> (Inl e, s))"

definition release_jobs :: "lease option \<Rightarrow> job list \<Rightarrow> job list" where
  "release_jobs lease jobs =
     (case lease of
        None \<Rightarrow> jobs
      | Some l \<Rightarrow> on_row_of j_id (l_job l)
          (\<lambda>j. if j_status j = ''running'' then j else j\<lparr>j_worker := [], j_lease := None\<rparr>) jobs)"

text \<open>After a commit the others act, and the next transaction begins; a rollback drops what was not committed.\<close>

definition commit_catalog :: "(nat \<Rightarrow> catalog \<Rightarrow> catalog) \<Rightarrow> unit cact" where
  "commit_catalog others = sbind cfence (\<lambda>_. (\<lambda>s.
     let c = others (cs_step s) ((cs_now s)\<lparr>cg_jobs := release_jobs (cs_lease s) (cg_jobs (cs_now s))\<rparr>) in
     (Inr (), s\<lparr>cs_now := c, cs_saved := c, cs_step := Suc (cs_step s)\<rparr>)))"

definition commit_and_begin :: "(nat \<Rightarrow> catalog \<Rightarrow> catalog) \<Rightarrow> unit cact" where
  "commit_and_begin others = sbind (commit_catalog others) (\<lambda>_. cfence)"

definition roll_back :: "unit cact" where
  "roll_back = sbind (\<lambda>s. (Inr (), s\<lparr>cs_now := cs_saved s\<rparr>)) (\<lambda>_. cfence)"

definition open_catalog :: "lease option \<Rightarrow> catalog \<Rightarrow> csession" where
  "open_catalog lease c = \<lparr>cs_now = c, cs_saved = c, cs_lease = lease, cs_healthy = True, cs_step = 0\<rparr>"

definition fresh_id :: "env \<Rightarrow> catalog \<Rightarrow> string" where
  "fresh_id env c = en_uuid env (cg_ids c)"

end
