(* ===== verification/CompileTexts.thy ===== *)
theory CompileTexts
  imports FormalNormalize Texts
begin

text \<open>
  The sentences of the compiler service (\<^verbatim>\<open>domain/compiler/service.py\<close>) that end up in rows, as UTF-8 bytes.
\<close>

definition LOADING_SOURCE :: string where
  "LOADING_SOURCE =
     u8 [230, 173, 163, 229, 156, 168, 232, 175, 187, 229, 143, 150, 229, 134, 187, 231, 187,
      147] @ '' commit '' @ u8 [228, 184, 139, 231, 154, 132] @ '' Skill source'' @ u8 [227,
      128, 130]"

definition CHECKING_MANIFEST :: string where
  "CHECKING_MANIFEST =
     u8 [230, 173, 163, 229, 156, 168, 230, 160, 161, 233, 170, 140, 229, 143, 145, 229, 184,
      131, 231, 137, 136, 230, 156, 172] @ '' manifest snapshot'' @ u8 [227, 128, 130]"

definition AGENT_ENABLED :: string where
  "AGENT_ENABLED =
     u8 [228, 189, 191, 231, 148, 168] @ '' SKILL '' @ u8 [231, 188, 150, 232, 175, 145, 230,
      153, 186, 232, 131, 189, 228, 189, 147, 231, 148, 159, 230, 136,
      144] @ '' formal-v5 EG candidate'' @ u8 [239, 188, 140, 229, 185, 182, 230, 137, 167,
      232, 161, 140, 231, 161, 174, 229, 174, 154, 230, 128, 167, 230, 160, 161, 233, 170, 140,
      227, 128, 130]"

definition KEY_MISMATCH :: string where
  "KEY_MISMATCH =
     ''manifest '' @ u8 [228, 184, 173, 231, 154, 132] @ '' identity.key '' @ u8 [228, 184,
      142, 229, 185, 179, 229, 143, 176, 230, 179, 168, 229, 134, 140] @ '' key '' @ u8 [228,
      184, 141, 228, 184, 128, 232, 135, 180, 227, 128, 130]"

definition MANIFEST_CHECKED :: string where
  "MANIFEST_CHECKED =
     ''manifest snapshot '' @ u8 [230, 160, 161, 233, 170, 140, 233, 128, 154, 232, 191, 135,
      227, 128, 130]"

definition NO_ARTIFACT :: string where
  "NO_ARTIFACT =
     ''Skill '' @ u8 [231, 188, 150, 232, 175, 145, 230, 153, 186, 232, 131, 189, 228, 189,
      147, 230, 156, 170, 231, 148, 159, 230, 136, 144, 229, 144, 136, 230, 179,
      149] @ '' EG artifact'' @ u8 [227, 128, 130]"

definition EMITTING :: string where
  "EMITTING =
     u8 [230, 173, 163, 229, 156, 168, 229, 134, 153, 229, 133, 165] @ '' EG '' @ u8 [231,
      188, 150, 232, 175, 145, 228, 186, 167, 231, 137, 169, 227, 128, 130]"

definition EMITTED :: string where
  "EMITTED =
     ''EG '' @ u8 [231, 188, 150, 232, 175, 145, 228, 186, 167, 231, 137, 169, 229, 183, 178,
      229, 134, 153, 229, 133, 165, 227, 128, 130]"

definition CALLING_AGENT :: string where
  "CALLING_AGENT =
     u8 [230, 173, 163, 229, 156, 168, 232, 176, 131, 231, 148,
      168] @ '' psop.compiler '' @ u8 [231, 148, 159, 230, 136,
      144] @ '' formal-v5 EG candidate'' @ u8 [227, 128, 130]"

definition REPAIRING :: string where
  "REPAIRING =
     u8 [230, 173, 163, 229, 156, 168, 230, 160, 185, 230, 141, 174, 230, 160, 161, 233, 170,
      140, 231, 187, 147, 230, 158, 156, 232, 175, 183, 230, 177,
      130] @ '' psop.compiler '' @ u8 [228, 191, 174, 230, 173,
      163] @ '' EG candidate'' @ u8 [227, 128, 130]"

definition AGENT_FAILED :: string where
  "AGENT_FAILED =
     ''psop.compiler '' @ u8 [230, 156, 170, 230, 136, 144, 229, 138, 159, 229, 174, 140, 230,
      136, 144, 232, 191, 144, 232, 161, 140, 227, 128, 130]"

definition REPAIR_NO_RUN :: string where
  "REPAIR_NO_RUN =
     ''psop.compiler '' @ u8 [228, 191, 174, 230, 173, 163, 229, 144, 142, 228, 187, 141, 230,
      156, 170, 230, 136, 144, 229, 138, 159, 231, 148, 159, 230, 136, 144, 229, 128, 153, 233,
      128, 137, 228, 186, 167, 231, 137, 169, 227, 128, 130]"

definition REPAIR_NO_CANDIDATE :: string where
  "REPAIR_NO_CANDIDATE =
     ''psop.compiler '' @ u8 [228, 191, 174, 230, 173, 163, 229, 144, 142, 228, 187, 141, 230,
      156, 170, 232, 191, 148, 229, 155, 158, 229, 144, 136, 230, 179,
      149] @ '' compiler candidate'' @ u8 [227, 128, 130]"

definition SUBMITTED_TEXT :: string where
  "SUBMITTED_TEXT =
     ''psop.compiler '' @ u8 [229, 183, 178, 230, 143, 144, 228, 186,
      164] @ '' EG candidate'' @ u8 [227, 128, 130]"

definition VALIDATING :: string where
  "VALIDATING =
     u8 [230, 173, 163, 229, 156, 168, 230, 137, 167, 232, 161,
      140] @ '' formal-v5 '' @ u8 [231, 161, 174, 229, 174, 154, 230, 128, 167, 230, 160, 161,
      233, 170, 140, 227, 128, 130]"

definition VALIDATED :: string where
  "VALIDATED =
     ''EG artifact '' @ u8 [229, 183, 178, 233, 128, 154, 232, 191,
      135] @ '' formal-v5 '' @ u8 [230, 160, 161, 233, 170, 140, 227, 128, 130]"

definition REPAIR_INVALID :: string where
  "REPAIR_INVALID =
     ''psop.compiler '' @ u8 [228, 191, 174, 230, 173, 163, 229, 144, 142, 228, 187, 141, 230,
      156, 170, 231, 148, 159, 230, 136, 144, 233, 128, 154, 232, 191,
      135] @ '' formal-v5 '' @ u8 [230, 160, 161, 233, 170, 140, 231, 154,
      132] @ '' EG artifact'' @ u8 [227, 128, 130]"

definition FINALIZING :: string where
  "FINALIZING =
     u8 [230, 173, 163, 229, 156, 168, 229, 134, 153, 229, 133, 165, 229, 143, 145, 229, 184,
      131, 231, 187, 136, 230, 128, 129, 227, 128, 130]"

definition PUBLISHED_TEXT :: string where
  "PUBLISHED_TEXT =
     u8 [229, 143, 145, 229, 184, 131, 229, 174, 140, 230, 136, 144, 239, 188, 140, 230, 156,
      128, 230, 150, 176, 229, 143, 175, 232, 191, 144, 232, 161, 140, 231, 137, 136, 230, 156,
      172, 229, 183, 178, 230, 155, 180, 230, 150, 176, 227, 128, 130]"

definition COMPILED_TEXT :: string where
  "COMPILED_TEXT =
     u8 [231, 188, 150, 232, 175, 145, 229, 174, 140, 230, 136, 144, 239, 188,
      140] @ ''EG artifact '' @ u8 [229, 183, 178, 231, 148, 159, 230, 136, 144, 227, 128, 130]"

definition PUBLISH_FAILED :: string where
  "PUBLISH_FAILED =
     u8 [231, 188, 150, 232, 175, 145, 229, 164, 177, 232, 180, 165, 239, 188, 140, 229, 143,
      145, 229, 184, 131, 230, 156, 170, 231, 148, 159, 230, 149, 136, 227, 128, 130]"

definition COMPILE_FAILED :: string where
  "COMPILE_FAILED =
     u8 [231, 188, 150, 232, 175, 145, 229, 164, 177, 232, 180, 165, 239, 188, 140, 230, 156,
      170, 231, 148, 159, 230, 136, 144, 229, 143, 175, 231, 148,
      168] @ '' EG artifact'' @ u8 [227, 128, 130]"

definition HARNESS_INFO :: string where
  "HARNESS_INFO =
     u8 [228, 189, 191, 231, 148, 168] @ '' psop.compiler Agent Harness '' @ u8 [228, 184,
      142] @ '' compiler Agent Skills '' @ u8 [231, 148, 159, 230, 136,
      144] @ '' EG candidate'' @ u8 [227, 128, 130]"

definition COMPILE_DONE_LABEL :: string where
  "COMPILE_DONE_LABEL =
     u8 [229, 174, 140, 230, 136, 144, 231, 188, 150, 232, 175, 145]"

definition SOURCE_LOADED :: "string \<Rightarrow> string" where
  "SOURCE_LOADED commit =
     u8 [229, 183, 178, 232, 175, 187, 229, 143, 150, 229, 134, 187, 231, 187,
      147] @ '' commit '' @ py_take 12 commit @ u8 [227, 128, 130]"

definition REVISION_TEXT :: string where
  "REVISION_TEXT =
     ''MVP '' @ u8 [228, 187, 133, 230, 148, 175, 230, 140, 129] @ '' formal revision `'' @ FORMAL_REVISION @ ''`'' @ u8 [227, 128, 130]"

definition FALLBACK_TEXT :: "string \<Rightarrow> string \<Rightarrow> string" where
  "FALLBACK_TEXT requested key =
     u8 [230, 156, 170, 230, 137, 190, 229, 136, 176] @ '' domain_pack `'' @ requested @
     ''`'' @ u8 [239, 188, 140, 229, 183, 178, 229, 155, 158, 233, 128, 128, 229, 136,
      176] @ '' `'' @ key @ ''`'' @ u8 [227, 128, 130]"

definition bracketed :: "string \<Rightarrow> string" where
  "bracketed s = u8 [239, 188, 136] @ s @ u8 [239, 188, 137]"

end
