(* ===== verification/Compile.thy ===== *)
theory Compile
  imports Catalog CompileTexts
begin

text \<open>
  Processing a compile request (\<^verbatim>\<open>domain/compiler/service.py\<close>): loading the frozen source, checking the
  manifest, two attempts of the compiler agent with the deterministic validator, writing the
  artifact, and the failure of any step. The gateway, the object store, pydantic, the domain packs and the agent's harness
  are parameters; so is the extraction of image links from the source's Markdown.
\<close>

section \<open>The service's surroundings\<close>

record source_bundle =
  so_readme :: string
  so_skill_md :: string
  so_yaml :: string
  so_head :: string

record image_link =
  im_path :: string
  im_mime :: string
  im_title :: string
  im_ref :: string
  im_order :: int

record stored_object =
  st_bucket :: string
  st_key :: string
  st_media :: string
  st_size :: int
  st_checksum :: string

record domain_resolution =
  dn_key :: string
  dn_title :: string
  dn_guidance :: json
  dn_metadata :: dict
  dn_requested :: json
  dn_default :: bool
  dn_reason :: json

record compiler_env =
  ce_env :: env
  ce_bucket :: string
  ce_source :: "string \<Rightarrow> string \<Rightarrow> source_bundle res"
  ce_model :: "dict \<Rightarrow> dict option"
  ce_images :: "source_bundle \<Rightarrow> image_link list"
  ce_bytes :: "string \<Rightarrow> string \<Rightarrow> string \<Rightarrow> string res"
  ce_upload :: "(string \<Rightarrow> string \<Rightarrow> string \<Rightarrow> stored_object res) option"
  ce_domain :: "string option \<Rightarrow> domain_resolution"
  ce_runtime :: json
  ce_harness :: "nat \<Rightarrow> dict \<Rightarrow> outcome res"
  ce_message :: "dmsg \<Rightarrow> string"
  ce_invalid :: "json \<Rightarrow> string"
  ce_others :: "nat \<Rightarrow> catalog \<Rightarrow> catalog"

section \<open>Progress, jobs, diagnostics\<close>

text \<open>\<^verbatim>\<open>PublishProgressReporter.mark\<close>, which commits; without a job there is nothing to mark.\<close>

definition mark_progress :: "compiler_env \<Rightarrow> string option \<Rightarrow> string \<Rightarrow> string \<Rightarrow> string \<Rightarrow> string \<Rightarrow> unit cact" where
  "mark_progress ce jid key status message error s =
     (let c = cs_now s in
      case (case jid of None \<Rightarrow> None | Some i \<Rightarrow> job_of i c) of
        None \<Rightarrow> (Inr (), s)
      | Some j \<Rightarrow>
          sbind (slift (mark_publish_stage (cg_iso c) (j_payload j) key status message None error)) (\<lambda>p.
          sbind (edit_catalog (on_cjob (j_id j) (\<lambda>j. j\<lparr>j_payload := p\<rparr>))) (\<lambda>_. commit_and_begin (ce_others ce))) s)"

definition mark_current_progress_failed :: "string option \<Rightarrow> string \<Rightarrow> unit cact" where
  "mark_current_progress_failed jid error s =
     (let c = cs_now s in
      case (case jid of None \<Rightarrow> None | Some i \<Rightarrow> job_of i c) of
        None \<Rightarrow> (Inr (), s)
      | Some j \<Rightarrow>
          sbind (slift (rbind (ensure_publish_progress_payload (cg_iso c) (j_payload j)) (\<lambda>p.
            mark_publish_stage (cg_iso c) p (str_or_empty (py_or (dget p ''current_stage'') (JStr ''source_loaded'')))
              ''failed'' error None error))) (\<lambda>p.
          edit_catalog (on_cjob (j_id j) (\<lambda>j. j\<lparr>j_payload := p\<rparr>))) s)"

definition compile_job :: "string \<Rightarrow> catalog \<Rightarrow> job option" where
  "compile_job rid c = find (\<lambda>j. j_request j = Some rid) (cg_jobs c)"

definition mark_job :: "string \<Rightarrow> string \<Rightarrow> string \<Rightarrow> catalog \<Rightarrow> catalog" where
  "mark_job rid status error c =
     (case (case find (\<lambda>j. j_dedupe j = ''job:compile:'' @ rid) (cg_jobs c) of Some j \<Rightarrow> Some j | None \<Rightarrow> compile_job rid c) of
        None \<Rightarrow> c
      | Some j \<Rightarrow> on_cjob (j_id j) (\<lambda>j. (set_status (cg_now c) status j)\<lparr>j_error := error\<rparr>) c)"

definition add_diagnostics :: "string \<Rightarrow> string \<Rightarrow> fdiag list \<Rightarrow> catalog \<Rightarrow> catalog" where
  "add_diagnostics rid vid ds c =
     c\<lparr>cg_diags := cg_diags c @ map (\<lambda>d. \<lparr>dr_request = rid, dr_version = vid, dr_diag = d\<rparr>) ds\<rparr>"

definition end_request :: "string \<Rightarrow> string \<Rightarrow> string \<Rightarrow> catalog \<Rightarrow> catalog" where
  "end_request rid status error c =
     on_request rid (\<lambda>r. r\<lparr>cr_status := status, cr_error := error, cr_finished := Some (cg_now c)\<rparr>) c"

text \<open>The end of a request, with the job's row only where the caller asks for it.\<close>

definition close_request :: "bool \<Rightarrow> string \<Rightarrow> string \<Rightarrow> string \<Rightarrow> catalog \<Rightarrow> catalog" where
  "close_request terminal rid status error c =
     (let c1 = end_request rid status error c in if terminal then mark_job rid status error c1 else c1)"

definition error_location :: "env \<Rightarrow> exc \<Rightarrow> json" where
  "error_location env e = (case exc_codes e of None \<Rightarrow> JNull | Some x \<Rightarrow> JObj (en_details env e))"

definition format_exception_message :: "env \<Rightarrow> exc \<Rightarrow> string" where
  "format_exception_message env e =
     (let m0 = text_or (exc_text env e) (exc_class e); d = en_details env e;
          m1 = (if truthy (dget d ''error_type'') \<and> \<not> str_contains (py_str (dget d ''error_type'')) m0
                then m0 @ bracketed (py_str (dget d ''error_type'')) else m0);
          m2 = (if truthy (dget d ''status_code'') then m1 @ bracketed (''HTTP '' @ py_str (dget d ''status_code'')) else m1) in
      if exc_codes e = None then m0
      else if truthy (dget d ''model'') then m2 @ '' model='' @ py_str (dget d ''model'') else m2)"

section \<open>The manifest\<close>

definition validate_document :: "skill_definition \<Rightarrow> dict \<Rightarrow> fdiag list" where
  "validate_document sd doc =
     [\<lparr>fd_severity = ''info'', fd_code = ''compile.agent.enabled'', fd_message = AGENT_ENABLED, fd_location = JNull,
       fd_category = ''compiler''\<rparr>]
     @ (if dget (doc_section ''identity'' doc) ''key'' \<noteq> JStr (sd_key sd)
        then [compiler_error ''skill.identity_key_mismatch'' KEY_MISMATCH (JObj [(''path'', JStr ''skill.identity.key'')])]
        else [])
     @ (if dget (doc_section ''compile_config'' doc) ''formal_revision'' \<noteq> JStr FORMAL_REVISION
        then [compiler_error ''compile.unsupported_formal_revision'' REVISION_TEXT
          (JObj [(''path'', JStr ''skill.compile_config.formal_revision'')])] else [])"

definition blocking :: "fdiag list \<Rightarrow> fdiag list" where
  "blocking ds = filter (\<lambda>d. fd_severity d = ''error'') ds"

section \<open>Reference images\<close>

definition file_name :: "string \<Rightarrow> string" where
  "file_name path = last (split_on CHR ''/'' path)"

definition image_key :: "skill_definition \<Rightarrow> skill_version \<Rightarrow> string \<Rightarrow> string \<Rightarrow> string \<Rightarrow> string" where
  "image_key sd sv rid checksum path =
     ''skills/'' @ sd_key sd @ ''/versions/'' @ int_str (sv_no sv) @ ''/'' @ rid @ ''/reference-images/''
       @ py_take 16 checksum @ ''/'' @ file_name path"

definition image_asset :: "image_link \<Rightarrow> string \<Rightarrow> stored_object \<Rightarrow> dict" where
  "image_asset im oid st =
     [(''reference_path'', JStr (im_path im)), (''artifact_object_id'', JStr oid), (''mime_type'', JStr (st_media st)),
      (''title'', JStr (im_title im)), (''source_ref'', JStr (im_ref im)), (''display_order'', JInt (im_order im)),
      (''size_bytes'', JInt (st_size st)), (''checksum'', JStr (st_checksum st))]"

definition add_object :: "env \<Rightarrow> stored_object \<Rightarrow> json \<Rightarrow> catalog \<Rightarrow> catalog" where
  "add_object env st content c =
     c\<lparr>cg_objects := cg_objects c @ [\<lparr>ob_id = fresh_id env c, ob_bucket = st_bucket st, ob_key = st_key st,
         ob_media = st_media st, ob_size = st_size st, ob_checksum = st_checksum st, ob_content = content\<rparr>],
       cg_ids := Suc (cg_ids c)\<rparr>"

text \<open>An image that cannot be read or stored is passed over.\<close>

definition store_image ::
    "compiler_env \<Rightarrow> (string \<Rightarrow> string \<Rightarrow> string \<Rightarrow> stored_object res) \<Rightarrow> skill_definition \<Rightarrow> skill_version \<Rightarrow> compile_request
      \<Rightarrow> image_link \<Rightarrow> stored_object option" where
  "store_image ce upload sd sv cr im =
     (case ce_bytes ce (sd_project sd) (cr_commit cr) (im_path im) of
        Inl e \<Rightarrow> None
      | Inr content \<Rightarrow>
          if content = [] then None
          else (case upload (image_key sd sv (cr_id cr) (en_sha (ce_env ce) content) (im_path im)) content (im_mime im) of
              Inl e \<Rightarrow> None | Inr st \<Rightarrow> Some st))"

fun store_images ::
    "compiler_env \<Rightarrow> (string \<Rightarrow> string \<Rightarrow> string \<Rightarrow> stored_object res) \<Rightarrow> skill_definition \<Rightarrow> skill_version \<Rightarrow> compile_request
      \<Rightarrow> image_link list \<Rightarrow> catalog \<Rightarrow> dict list \<times> catalog" where
  "store_images ce upload sd sv cr [] c = ([], c)"
| "store_images ce upload sd sv cr (im # ims) c =
     (case store_image ce upload sd sv cr im of
        None \<Rightarrow> store_images ce upload sd sv cr ims c
      | Some st \<Rightarrow>
          (let r = store_images ce upload sd sv cr ims (add_object (ce_env ce) st JNull c) in
           (image_asset im (fresh_id (ce_env ce) c) st # fst r, snd r)))"

definition build_reference_assets ::
    "compiler_env \<Rightarrow> skill_definition \<Rightarrow> skill_version \<Rightarrow> compile_request \<Rightarrow> source_bundle \<Rightarrow> dict list cact" where
  "build_reference_assets ce sd sv cr source s =
     (case ce_upload ce of
        None \<Rightarrow> (Inr [], s)
      | Some upload \<Rightarrow>
          (let r = store_images ce upload sd sv cr (ce_images ce source) (cs_now s) in (Inr (fst r), s\<lparr>cs_now := snd r\<rparr>)))"

end
