(* ===== verification/CompileRun.thy ===== *)
theory CompileRun
  imports Compile
begin

text \<open>
  The two attempts of the compiler agent and the request as a whole: \<^verbatim>\<open>_compile_with_harness_agent\<close>,
  \<^verbatim>\<open>process_compile_request\<close>, \<^verbatim>\<open>process_compile_job\<close> and what closes a job
  (\<^verbatim>\<open>domain/compiler/service.py\<close>). The service has a harness, as the application and the workers give it.
\<close>

section \<open>What the agent is told\<close>

definition domain_pack_ref :: "dict \<Rightarrow> string option" where
  "domain_pack_ref doc =
     (let s = strip (str_or_empty (dget (doc_section ''compile_config'' doc) ''domain_pack'')) in
      if s = [] then None else Some s)"

definition domain_metadata :: "domain_resolution \<Rightarrow> dict" where
  "domain_metadata dn =
     dset ''used_default'' (JBool (dn_default dn)) (dset ''requested_ref'' (dn_requested dn) (dn_metadata dn))"

definition compiler_metadata :: "domain_resolution \<Rightarrow> dict" where
  "compiler_metadata dn =
     [(''agent_prompt'', JObj [(''agent_key'', JStr ''psop.compiler''), (''version'', JStr ''v1''),
        (''source'', JStr ''agent_harness'')]),
      (''domain_pack'', JObj (domain_metadata dn))]"

definition context_diagnostics :: "domain_resolution \<Rightarrow> fdiag list" where
  "context_diagnostics dn =
     [\<lparr>fd_severity = ''info'', fd_code = ''compile.agent.prompt_pack'', fd_message = HARNESS_INFO,
       fd_location = JObj (compiler_metadata dn), fd_category = ''compiler''\<rparr>]
     @ (if dn_default dn
        then [\<lparr>fd_severity = ''warning'', fd_code = ''compile.agent.domain_pack_fallback'',
               fd_message = FALLBACK_TEXT (py_str (dn_requested dn)) (dn_key dn),
               fd_location = JObj [(''requested_ref'', dn_requested dn),
                 (''fallback_domain_pack'', JObj (dn_metadata dn)), (''reason'', dn_reason dn)],
               fd_category = ''compiler''\<rparr>] else [])"

definition domain_pack_context :: "domain_resolution \<Rightarrow> dict" where
  "domain_pack_context dn =
     [(''domain_pack_ref'', JStr (dn_key dn)), (''metadata'', JObj (domain_metadata dn)),
      (''guidance_summary'', JStr (dn_title dn)), (''guidance'', dn_guidance dn)]"

definition invocation_context ::
    "compiler_env \<Rightarrow> skill_definition \<Rightarrow> skill_version \<Rightarrow> compile_request \<Rightarrow> dict \<Rightarrow> source_bundle \<Rightarrow> dict list
      \<Rightarrow> domain_resolution \<Rightarrow> fdiag list \<Rightarrow> dict" where
  "invocation_context ce sd sv cr doc source assets dn repair =
     [(''compile_request'', JObj [(''id'', JStr (cr_id cr)), (''trigger_type'', JStr (cr_trigger cr)),
        (''source_commit_sha'', JStr (cr_commit cr))]),
      (''skill'', JObj [(''id'', JStr (sd_id sd)), (''key'', JStr (sd_key sd)), (''name'', JStr (sd_name sd)),
        (''description'', JStr (sd_description sd)), (''version_id'', JStr (sv_id sv)), (''version_no'', JInt (sv_no sv)),
        (''source_commit_sha'', opt_json (sv_commit sv))]),
      (''source'', JObj [(''source_commit_sha'', JStr (cr_commit cr)), (''head_commit_sha'', JStr (so_head source)),
        (''reference_assets'', JArr (map JObj assets)),
        (''files'', JObj [(''README.md'', JStr (so_readme source)), (''SKILL.md'', JStr (so_skill_md source))])]),
      (''manifest_snapshot'', dget doc ''skill''), (''runtime_policy_snapshot'', JObj (dict_or_empty (sv_policy sv))),
      (''allowed_runtime'', ce_runtime ce), (''domain_pack'', JObj (domain_pack_context dn)),
      (''repair_diagnostics'', JArr (map (\<lambda>d. JObj (fdiag_dict d)) repair)),
      (''output_contract'', JObj [(''formal_revision'', JStr FORMAL_REVISION),
        (''candidate_artifact_ref'', JStr ''sandbox://outputs/compiler-result.json''),
        (''eg_artifact_ref'', JStr ''sandbox://outputs/eg.compile.artifact.json'')])]"

section \<open>One attempt\<close>

text \<open>
  An attempt gives an artifact that the validator accepted, or the stage it failed at, the message
  of the failure, the message when it was the last attempt, and the diagnostics for a repair.
\<close>

datatype attempt =
    Accepted dict "fdiag list"
  | Rejected string string string "fdiag list" "fdiag list"

definition charge_usage :: "string option \<Rightarrow> outcome \<Rightarrow> unit cact" where
  "charge_usage jid oc s =
     (case (case jid of None \<Rightarrow> None | Some i \<Rightarrow> job_of i (cs_now s)) of
        None \<Rightarrow> (if jid = None then (Inr (), s) else sbind (slift (agent_token_usage [] (oc_events oc))) (\<lambda>_. sret ()) s)
      | Some j \<Rightarrow>
          sbind (slift (rbind (agent_token_usage [] (oc_events oc)) (\<lambda>u. accumulate_job_usage (JObj u) j))) (\<lambda>j'.
            edit_catalog (on_cjob (j_id j) (\<lambda>_. j'))) s)"

definition accept_artifact :: "domain_resolution \<Rightarrow> outcome \<Rightarrow> dict \<Rightarrow> dict" where
  "accept_artifact dn oc a =
     dset ''compiler_metadata''
       (JObj (dset ''agent_run'' (JObj [(''agent_key'', JStr (oc_agent oc)), (''agent_run_id'', JStr (oc_run oc)),
          (''sandbox_path'', JStr (case oc_sandbox oc of None \<Rightarrow> [] | Some p \<Rightarrow> p))]) (compiler_metadata dn))) a"

definition check_candidate :: "compiler_env \<Rightarrow> string option \<Rightarrow> domain_resolution \<Rightarrow> outcome \<Rightarrow> candidate \<Rightarrow> attempt cact" where
  "check_candidate ce jid dn oc ca =
     (let own = map candidate_diag (ca_diagnostics ca) in
      sbind (mark_progress ce jid ''agent_compiling'' ''succeeded'' SUBMITTED_TEXT []) (\<lambda>_.
      sbind (mark_progress ce jid ''artifact_validating'' ''running'' VALIDATING []) (\<lambda>_.
      sbind (slift (validate_and_normalize_artifact (JObj (ca_artifact ca)))) (\<lambda>v.
        let ds = map (diag_row (ce_message ce)) (snd v) in
        case fst v of
          Some a \<Rightarrow> sbind (mark_progress ce jid ''artifact_validating'' ''succeeded'' VALIDATED []) (\<lambda>_.
            sret (Accepted (accept_artifact dn oc a) (own @ ds)))
        | None \<Rightarrow> sret (Rejected ''artifact_validating'' REPAIR_INVALID REPAIR_INVALID (own @ ds) ds)))))"

definition agent_failure :: "outcome \<Rightarrow> fdiag" where
  "agent_failure oc =
     compiler_error ''compile.agent.failed'' (text_or (oc_error oc) AGENT_FAILED)
       (JObj [(''agent_run_id'', JStr (oc_run oc)), (''sandbox_path'', opt_json (oc_sandbox oc))])"

definition judge_outcome :: "compiler_env \<Rightarrow> string option \<Rightarrow> domain_resolution \<Rightarrow> outcome \<Rightarrow> attempt cact" where
  "judge_outcome ce jid dn oc =
     (if oc_status oc \<noteq> ''succeeded''
      then (let f = agent_failure oc in
        sret (Rejected ''agent_compiling'' (fd_message f) REPAIR_NO_RUN [f] [f]))
      else (case read_candidate (ce_invalid ce) oc of
          Inl d \<Rightarrow> sret (Rejected ''agent_compiling'' (fd_message d) REPAIR_NO_CANDIDATE [d] [d])
        | Inr ca \<Rightarrow> check_candidate ce jid dn oc ca))"

definition one_attempt ::
    "compiler_env \<Rightarrow> string option \<Rightarrow> domain_resolution \<Rightarrow> (fdiag list \<Rightarrow> dict) \<Rightarrow> nat \<Rightarrow> fdiag list \<Rightarrow> attempt cact" where
  "one_attempt ce jid dn context i repair =
     sbind (mark_progress ce jid ''agent_compiling'' ''running'' (if i = 1 then REPAIRING else CALLING_AGENT) []) (\<lambda>_.
     sbind (sasks cs_step) (\<lambda>n.
     sbind (slift (ce_harness ce n (context repair))) (\<lambda>oc.
     sbind (charge_usage jid oc) (\<lambda>_. judge_outcome ce jid dn oc))))"

definition repair_failed :: "string \<Rightarrow> fdiag" where
  "repair_failed message = compiler_error ''compile.agent.repair_failed'' message JNull"

fun compile_attempts ::
    "compiler_env \<Rightarrow> string option \<Rightarrow> domain_resolution \<Rightarrow> (fdiag list \<Rightarrow> dict) \<Rightarrow> nat list \<Rightarrow> fdiag list \<Rightarrow> fdiag list
      \<Rightarrow> (dict option \<times> fdiag list) cact" where
  "compile_attempts ce jid dn context [] ds repair = sret (None, ds)"
| "compile_attempts ce jid dn context (i # is) ds repair =
     sbind (one_attempt ce jid dn context i repair) (\<lambda>r.
       case r of
         Accepted a new \<Rightarrow> sret (Some a, ds @ new)
       | Rejected stage message final new repair' \<Rightarrow>
           if i = 0 then compile_attempts ce jid dn context is (ds @ new) repair'
           else sbind (mark_progress ce jid stage ''failed'' message message) (\<lambda>_.
             sret (None, ds @ new @ [repair_failed final])))"

definition compile_with_agent ::
    "compiler_env \<Rightarrow> string option \<Rightarrow> skill_definition \<Rightarrow> skill_version \<Rightarrow> compile_request \<Rightarrow> dict \<Rightarrow> source_bundle \<Rightarrow> dict list
      \<Rightarrow> (dict option \<times> fdiag list) cact" where
  "compile_with_agent ce jid sd sv cr doc source assets =
     (let dn = ce_domain ce (domain_pack_ref doc) in
      compile_attempts ce jid dn (invocation_context ce sd sv cr doc source assets dn) [0, 1] (context_diagnostics dn) [])"

section \<open>The artifact\<close>

text \<open>\<^verbatim>\<open>artifact["skill"].update(...)\<close>: what is no dictionary has no \<^verbatim>\<open>update\<close>.\<close>

definition skill_fields :: "skill_definition \<Rightarrow> skill_version \<Rightarrow> compile_request \<Rightarrow> dict" where
  "skill_fields sd sv cr =
     [(''id'', JStr (sd_id sd)), (''key'', JStr (sd_key sd)), (''name'', JStr (sd_name sd)),
      (''version_id'', JStr (sv_id sv)), (''version_no'', JInt (sv_no sv)), (''source_commit_sha'', JStr (cr_commit cr))]"

definition stamp_artifact :: "skill_definition \<Rightarrow> skill_version \<Rightarrow> compile_request \<Rightarrow> dict \<Rightarrow> dict res" where
  "stamp_artifact sd sv cr a =
     (let b = dsetdefault ''skill'' (JObj []) (dset ''compile_request_id'' (JStr (cr_id cr)) a) in
      if_obj (dget b ''skill'') (\<lambda>d. Inr (dset ''skill'' (JObj (merge_dict d (skill_fields sd sv cr))) b)) (Inl AttrErr))"

definition artifact_key :: "skill_definition \<Rightarrow> skill_version \<Rightarrow> compile_request \<Rightarrow> string" where
  "artifact_key sd sv cr =
     ''skills/'' @ sd_key sd @ ''/versions/'' @ int_str (sv_no sv) @ ''/'' @ cr_id cr @ ''/eg.compile.artifact.json''"

definition need :: "dict \<Rightarrow> string \<Rightarrow> json res" where
  "need d k = (if dhas d k then Inr (dget d k) else Inl KeyErr)"

text \<open>The rows of the artifact; a second artifact of one request violates a unique key.\<close>

definition emit_artifact :: "compiler_env \<Rightarrow> skill_definition \<Rightarrow> skill_version \<Rightarrow> compile_request \<Rightarrow> dict \<Rightarrow> catalog \<Rightarrow> catalog res" where
  "emit_artifact ce sd sv cr a c =
     (let text = dumps (sort_keys (JObj a));
          c1 = add_object (ce_env ce) \<lparr>st_bucket = ce_bucket ce, st_key = artifact_key sd sv cr, st_media = ''application/json'',
                 st_size = int (length text), st_checksum = en_sha (ce_env ce) text\<rparr> (JObj a) c in
      rbind (need a ''formal_revision'') (\<lambda>rev.
      rbind (need a ''artifact_version'') (\<lambda>format.
      rbind (need a ''graph_summary'') (\<lambda>graph.
      rbind (need a ''capability_summary'') (\<lambda>capability.
        if list_ex (\<lambda>ea. ea_request ea = cr_id cr) (cg_artifacts c1) then Inl DbErr
        else Inr (c1\<lparr>cg_artifacts := cg_artifacts c1 @ [\<lparr>ea_id = fresh_id (ce_env ce) c1, ea_request = cr_id cr, ea_version = sv_id sv,
                 ea_object = fresh_id (ce_env ce) c, ea_revision = rev, ea_format = format, ea_graph = graph,
                 ea_capability = capability, ea_status = ''ready''\<rparr>],
               cg_ids := Suc (cg_ids c1)\<rparr>))))))"

definition write_artifact :: "compiler_env \<Rightarrow> skill_definition \<Rightarrow> skill_version \<Rightarrow> compile_request \<Rightarrow> dict \<Rightarrow> unit cact" where
  "write_artifact ce sd sv cr a =
     sbind (slift (stamp_artifact sd sv cr a)) (\<lambda>b.
     sbind (sasks (\<lambda>s. emit_artifact ce sd sv cr b (cs_now s))) (\<lambda>r.
     sbind (slift r) (\<lambda>c. edit_catalog (\<lambda>_. c))))"


section \<open>The request\<close>

definition fail_request :: "compiler_env \<Rightarrow> bool \<Rightarrow> string \<Rightarrow> string \<Rightarrow> unit cact" where
  "fail_request ce terminal rid error =
     sbind (edit_catalog (close_request terminal rid ''failed'' error)) (\<lambda>_. commit_and_begin (ce_others ce))"

definition last_message :: "fdiag list \<Rightarrow> string" where
  "last_message ds = (if ds = [] then NO_ARTIFACT else fd_message (last ds))"

definition emit_and_close ::
    "compiler_env \<Rightarrow> string option \<Rightarrow> bool \<Rightarrow> skill_definition \<Rightarrow> skill_version \<Rightarrow> compile_request \<Rightarrow> dict \<Rightarrow> unit cact" where
  "emit_and_close ce jid terminal sd sv cr a =
     sbind (mark_progress ce jid ''artifact_emitting'' ''running'' EMITTING []) (\<lambda>_.
     sbind (write_artifact ce sd sv cr a) (\<lambda>_.
     sbind (mark_progress ce jid ''artifact_emitting'' ''succeeded'' EMITTED []) (\<lambda>_.
     sbind (edit_catalog (close_request terminal (cr_id cr) ''succeeded'' [])) (\<lambda>_. commit_and_begin (ce_others ce)))))"

definition compile_document ::
    "compiler_env \<Rightarrow> string option \<Rightarrow> bool \<Rightarrow> skill_definition \<Rightarrow> skill_version \<Rightarrow> compile_request \<Rightarrow> dict \<Rightarrow> source_bundle \<Rightarrow> unit cact" where
  "compile_document ce jid terminal sd sv cr doc source =
     sbind (mark_progress ce jid ''manifest_checked'' ''succeeded'' MANIFEST_CHECKED []) (\<lambda>_.
     sbind (build_reference_assets ce sd sv cr source) (\<lambda>assets.
     sbind (compile_with_agent ce jid sd sv cr doc source assets) (\<lambda>r.
     sbind (edit_catalog (add_diagnostics (cr_id cr) (sv_id sv) (snd r))) (\<lambda>_.
       case fst r of
         None \<Rightarrow> fail_request ce terminal (cr_id cr) (last_message (snd r))
       | Some a \<Rightarrow> emit_and_close ce jid terminal sd sv cr a))))"

text \<open>The message of a blocking manifest is marked, and so committed with the failed request, before the job is closed.\<close>

definition refuse_manifest :: "compiler_env \<Rightarrow> string option \<Rightarrow> bool \<Rightarrow> string \<Rightarrow> string \<Rightarrow> unit cact" where
  "refuse_manifest ce jid terminal rid message =
     sbind (edit_catalog (end_request rid ''failed'' message)) (\<lambda>_.
     sbind (mark_progress ce jid ''manifest_checked'' ''failed'' message message) (\<lambda>_.
     sbind (edit_catalog (\<lambda>c. if terminal then mark_job rid ''failed'' message c else c)) (\<lambda>_. commit_and_begin (ce_others ce))))"

definition compile_source ::
    "compiler_env \<Rightarrow> string option \<Rightarrow> bool \<Rightarrow> skill_definition \<Rightarrow> skill_version \<Rightarrow> compile_request \<Rightarrow> unit cact" where
  "compile_source ce jid terminal sd sv cr =
     sbind (mark_progress ce jid ''source_loaded'' ''running'' LOADING_SOURCE []) (\<lambda>_.
     sbind (slift (ce_source ce (sd_project sd) (cr_commit cr))) (\<lambda>source.
     sbind (mark_progress ce jid ''source_loaded'' ''succeeded'' (SOURCE_LOADED (cr_commit cr)) []) (\<lambda>_.
     sbind (mark_progress ce jid ''manifest_checked'' ''running'' CHECKING_MANIFEST []) (\<lambda>_.
     sbind (slift (document_from_manifest_snapshot (ce_model ce) (sv_manifest sv))) (\<lambda>doc.
     let ds = validate_document sd doc in
     sbind (edit_catalog (add_diagnostics (cr_id cr) (sv_id sv) ds)) (\<lambda>_.
       case blocking ds of
         d # _ \<Rightarrow> refuse_manifest ce jid terminal (cr_id cr) (fd_message d)
       | [] \<Rightarrow> compile_document ce jid terminal sd sv cr doc source))))))"

definition request_failed :: "compiler_env \<Rightarrow> string option \<Rightarrow> bool \<Rightarrow> string \<Rightarrow> string \<Rightarrow> exc \<Rightarrow> unit cact" where
  "request_failed ce jid terminal rid vid e =
     sbind roll_back (\<lambda>_.
     sbind (sasks cs_now) (\<lambda>c.
       if request_of rid c = None \<or> version_of vid c = None then slift (Inl e)
       else (let message = format_exception_message (ce_env ce) e in
         sbind (edit_catalog (\<lambda>c. add_diagnostics rid vid
           [compiler_error ''compile.failed'' message (error_location (ce_env ce) e)] (end_request rid ''failed'' message c))) (\<lambda>_.
         sbind (mark_current_progress_failed jid message) (\<lambda>_.
         sbind (edit_catalog (\<lambda>c. if terminal then mark_job rid ''failed'' message c else c)) (\<lambda>_.
           commit_and_begin (ce_others ce)))))))"

definition start_request :: "string \<Rightarrow> catalog \<Rightarrow> catalog" where
  "start_request rid c = on_request rid (\<lambda>r. r\<lparr>cr_status := ''running'', cr_started := Some (cg_now c)\<rparr>) c"

definition on_exception :: "('s, unit) action \<Rightarrow> (exc \<Rightarrow> ('s, unit) action) \<Rightarrow> ('s, unit) action" where
  "on_exception f h s = (case f s of (Inl e, t) \<Rightarrow> h e t | (Inr x, t) \<Rightarrow> (Inr x, t))"

definition process_compile_request :: "compiler_env \<Rightarrow> string option \<Rightarrow> bool \<Rightarrow> string \<Rightarrow> unit cact" where
  "process_compile_request ce jid terminal rid s =
     (let c = cs_now s in
      case request_of rid c of
        None \<Rightarrow> (Inl NotFound, s)
      | Some cr \<Rightarrow>
          if cr_status cr = ''succeeded'' then (Inr (), s)
          else (case (skill_of (cr_skill cr) c, version_of (cr_version cr) c) of
              (Some sd, Some sv) \<Rightarrow>
                sbind (edit_catalog (start_request rid)) (\<lambda>_.
                  on_exception (compile_source ce jid terminal sd sv cr) (request_failed ce jid terminal rid (sv_id sv))) s
            | _ \<Rightarrow> (Inl NotFound, s)))"

section \<open>The job\<close>

definition payload_record :: "job \<Rightarrow> string" where
  "payload_record j = str_or_empty (dget (j_payload j) ''publish_record_id'')"

definition finish_publish :: "bool \<Rightarrow> string \<Rightarrow> compile_request \<Rightarrow> catalog \<Rightarrow> catalog" where
  "finish_publish is_publish rec_id cr c =
     (if cr_status cr = ''succeeded''
      then on_skill (cr_skill cr) (\<lambda>sd. if is_publish then sd\<lparr>sd_published := Some (cr_version cr)\<rparr> else sd)
        (on_record rec_id (\<lambda>r. r\<lparr>pr_status := ''published''\<rparr>) c)
      else on_record rec_id (\<lambda>r. r\<lparr>pr_status := ''failed''\<rparr>) c)"

definition finish_error :: "bool \<Rightarrow> compile_request \<Rightarrow> string" where
  "finish_error is_publish cr =
     (if cr_status cr = ''succeeded'' then []
      else text_or (cr_error cr) (if is_publish then PUBLISH_FAILED else COMPILE_FAILED))"

definition finish_job_row :: "bool \<Rightarrow> compile_request \<Rightarrow> int \<Rightarrow> string \<Rightarrow> job \<Rightarrow> job res" where
  "finish_job_row is_publish cr now stamp j =
     (let ok = (cr_status cr = ''succeeded''); error = finish_error is_publish cr; status = (if ok then ''succeeded'' else ''failed'') in
      rbind (mark_publish_stage stamp (j_payload j) ''publish_finalizing'' status
        (if ok then (if is_publish then PUBLISHED_TEXT else COMPILED_TEXT) else error) (Some status) error) (\<lambda>p.
        Inr ((set_status now status j)\<lparr>j_error := error, j_payload := p\<rparr>)))"

definition finalize_publish_job :: "compiler_env \<Rightarrow> string \<Rightarrow> compile_request \<Rightarrow> unit cact" where
  "finalize_publish_job ce jid cr s =
     (let c = cs_now s in
      case job_of jid c of
        None \<Rightarrow> (Inr (), s)
      | Some j \<Rightarrow>
          (let rec_id = payload_record j; is_publish = (rec_id \<noteq> [] \<and> record_of rec_id c \<noteq> None) in
           sbind (slift (rbind (mark_publish_stage (cg_iso c) (j_payload j) ''publish_finalizing'' ''running'' FINALIZING None []) (\<lambda>p.
             finish_job_row is_publish cr (cg_now c) (cg_iso c) (j\<lparr>j_payload := p\<rparr>)))) (\<lambda>j'.
           sbind (edit_catalog (\<lambda>c. on_cjob jid (\<lambda>_. j') (finish_publish is_publish rec_id cr c))) (\<lambda>_.
             commit_catalog (ce_others ce))) s))"

definition job_request :: "job \<Rightarrow> string" where
  "job_request j = (case j_request j of
     Some r \<Rightarrow> if r = [] then str_or_empty (dget (j_payload j) ''compile_request_id'') else r
   | None \<Rightarrow> str_or_empty (dget (j_payload j) ''compile_request_id''))"

definition process_compile_job :: "compiler_env \<Rightarrow> string \<Rightarrow> unit cact" where
  "process_compile_job ce jid s =
     (case job_of jid (cs_now s) of
        None \<Rightarrow> (Inl NotFound, s)
      | Some j \<Rightarrow>
          if j_type j \<noteq> ''compile'' then (Inl (Invalid ''job type''), s)
          else if job_request j = [] then (Inl (Invalid ''compile_request_id''), s)
          else sbind (process_compile_request ce (Some jid) False (job_request j)) (\<lambda>_.
            sbind (sasks (\<lambda>s. request_of (job_request j) (cs_now s))) (\<lambda>r.
              case r of None \<Rightarrow> slift (Inl NotFound) | Some cr \<Rightarrow> finalize_publish_job ce jid cr)) s)"

text \<open>Through the API, without a lease.\<close>

definition run_now :: "int \<Rightarrow> job \<Rightarrow> job" where
  "run_now now j =
     (set_status now ''running'' j)\<lparr>j_attempt := j_attempt j + 1,
       j_started := (case j_started (set_status now ''running'' j) of None \<Rightarrow> Some now | Some t \<Rightarrow> Some t), j_lease := Some now\<rparr>"

definition process_compile_job_for_request :: "compiler_env \<Rightarrow> string \<Rightarrow> unit cact" where
  "process_compile_job_for_request ce rid s =
     (case compile_job rid (cs_now s) of
        None \<Rightarrow> process_compile_request ce None True rid s
      | Some j \<Rightarrow>
          sbind (if j_status j \<noteq> ''running''
            then sbind (edit_catalog (\<lambda>c. on_cjob (j_id j) (run_now (cg_now c)) c)) (\<lambda>_. commit_and_begin (ce_others ce))
            else sret ()) (\<lambda>_. process_compile_job ce (j_id j)) s)"

section \<open>Exhausted jobs\<close>

definition mark_compile_job_exhausted :: "string \<Rightarrow> string \<Rightarrow> job \<Rightarrow> job res" where
  "mark_compile_job_exhausted stamp message j =
     rbind (ensure_publish_progress_payload stamp (j_payload j)) (\<lambda>p.
     rbind (mark_publish_stage stamp p (str_or_empty (py_or (dget p ''current_stage'') (JStr ''source_loaded'')))
       ''failed'' message (Some ''failed'') message) (\<lambda>q. Inr (j\<lparr>j_payload := q\<rparr>)))"

definition finalize_exhausted_compile_job :: "string \<Rightarrow> string \<Rightarrow> catalog \<Rightarrow> bool \<times> catalog" where
  "finalize_exhausted_compile_job jid message c =
     (case job_of jid c of
        None \<Rightarrow> (False, c)
      | Some j \<Rightarrow>
          if j_type j \<noteq> ''compile'' \<or> j_request j \<in> {None, Some []} then (False, c)
          else (case request_of (job_request j) c of
              None \<Rightarrow> (False, c)
            | Some cr \<Rightarrow>
                if cr_status cr \<in> {''succeeded'', ''failed'', ''cancelled''} then (False, c)
                else (True, on_record (payload_record j) (\<lambda>r. if pr_status r = ''published'' then r else r\<lparr>pr_status := ''failed''\<rparr>)
                  (end_request (cr_id cr) ''failed'' (text_or (strip message) ''Compile job attempts exhausted.'') c))))"

end
