(* ===== verification/Publish.thy ===== *)
theory Publish
  imports CompileRun
begin

text \<open>
  What starts a compilation: creating a skill, publishing its draft (\<^verbatim>\<open>domain/skills/service.py\<close>), the
  compile requests and their jobs, and the manual correction of an artifact
  (\<^verbatim>\<open>domain/compiler/service.py\<close>). The project of the source host and YAML are parameters.
\<close>

section \<open>Default documents\<close>

definition default_contract :: dict where
  "default_contract =
     [(''invocation_mode'', JStr ''terminal''), (''entry'', JStr ''default''),
      (''inputs'', JArr [JObj [(''name'', JStr ''user_input''), (''type'', JStr ''text''), (''required'', JBool True),
         (''description'', JStr ''User request entered from WEB IDE.'')]]),
      (''outputs'', JArr [JObj [(''name'', JStr ''final_response''), (''type'', JStr ''text''),
         (''description'', JStr ''Final response returned to the caller.'')]])]"

definition default_capabilities :: dict where
  "default_capabilities =
     [(''terminal'', JObj [(''enabled'', JBool True)]),
      (''llm'', JObj [(''route_key'', JStr ''text''), (''required'', JBool True)]),
      (''mcp_tools'', JArr []), (''sandbox'', JObj [(''required'', JBool False)])]"

definition default_compile_config :: dict where
  "default_compile_config =
     [(''formal_revision'', JStr FORMAL_REVISION), (''target'', JStr ''eg.compile.artifact''),
      (''domain_pack'', JStr ''generic''), (''validation_rules'', JArr [])]"

definition default_policy :: dict where
  "default_policy =
     [(''timeout_seconds'', JInt 300), (''retry'', JObj [(''max_attempts'', JInt 0)]),
      (''budget'', JObj [(''max_llm_calls'', JInt 8), (''max_tool_calls'', JInt 8)]),
      (''concurrency'', JObj [(''mode'', JStr ''single'')]), (''isolation'', JObj [(''level'', JStr ''default'')])]"

definition build_default_skill_document :: "string \<Rightarrow> string \<Rightarrow> string \<Rightarrow> dict" where
  "build_default_skill_document key name description =
     [(''skill'', JObj
        [(''identity'', JObj [(''key'', JStr key), (''name'', JStr name), (''description'', JStr description)]),
         (''interface_contract'', JObj default_contract), (''capabilities'', JObj default_capabilities),
         (''compile_config'', JObj default_compile_config), (''runtime_policy'', JObj default_policy),
         (''prompt_material'', JObj [(''readme'', JStr []), (''skill_md'', JStr [])])])]"

definition newline :: string where
  "newline = [char_of (10 :: nat)]"

definition text_lines :: "string list \<Rightarrow> string" where
  "text_lines ls = strip (join_with newline ls) @ newline"

definition build_default_readme :: "string \<Rightarrow> string \<Rightarrow> string" where
  "build_default_readme name description =
     text_lines [''# '' @ name, [], text_or description ''Managed by PSOP WEB IDE.'', [], ''## Notes'', [],
       ''- This repository is managed by PSOP.'']"

definition build_default_skill_markdown :: "string \<Rightarrow> string \<Rightarrow> string" where
  "build_default_skill_markdown name description =
     text_lines [''# '' @ name, [], ''## Purpose'', [], text_or description ''Describe what this skill should accomplish.'', [],
       ''## Maintained By'', [], ''- PSOP WEB IDE'']"

section \<open>Creating a skill\<close>

record project_info =
  pj_id :: string
  pj_url :: string
  pj_branch :: string
  pj_head :: string

definition add_skill :: "skill_definition \<Rightarrow> catalog \<Rightarrow> catalog res" where
  "add_skill sd c =
     (if list_ex (\<lambda>x. sd_key x = sd_key sd \<or> sd_project x = sd_project sd) (cg_skills c) then Inl DbErr
      else Inr (c\<lparr>cg_skills := cg_skills c @ [sd], cg_ids := Suc (cg_ids c)\<rparr>))"

definition add_version :: "skill_version \<Rightarrow> catalog \<Rightarrow> catalog" where
  "add_version sv c = c\<lparr>cg_versions := cg_versions c @ [sv], cg_ids := Suc (cg_ids c)\<rparr>"

text \<open>\<open>key\<close> is the key that \<^verbatim>\<open>_generate_unique_skill_key\<close> found free; the project exists by then.\<close>

definition create_skill :: "env \<Rightarrow> string \<Rightarrow> string \<Rightarrow> string \<Rightarrow> string \<Rightarrow> project_info res \<Rightarrow> catalog \<Rightarrow> catalog res" where
  "create_skill env group_path key name description project c =
     rbind project (\<lambda>pj.
     let doc = document_with_prompt_material (Some (build_default_readme name description))
           (Some (build_default_skill_markdown name description)) (build_default_skill_document key name description);
         sid = fresh_id env c in
     rbind (add_skill \<lparr>sd_id = sid, sd_key = key, sd_name = name, sd_description = description, sd_status = ''active'',
         sd_group = group_path, sd_project = pj_id pj, sd_url = pj_url pj, sd_branch = pj_branch pj, sd_draft = None,
         sd_published = None\<rparr> c) (\<lambda>c1.
     let vid = fresh_id env c1 in
       Inr (on_skill sid (\<lambda>sd. sd\<lparr>sd_draft := Some vid\<rparr>) (add_version
         \<lparr>sv_id = vid, sv_skill = sid, sv_no = 0, sv_status = ''draft'', sv_ref = pj_branch pj, sv_commit = Some (pj_head pj),
          sv_manifest = JObj (manifest_snapshot doc), sv_policy = JObj (runtime_policy_snapshot doc), sv_updated = cg_now c\<rparr> c1))))"

section \<open>Compile requests\<close>

definition add_request :: "compile_request \<Rightarrow> catalog \<Rightarrow> catalog res" where
  "add_request cr c =
     (if list_ex (\<lambda>x. cr_dedupe x = cr_dedupe cr) (cg_requests c) then Inl DbErr
      else Inr (c\<lparr>cg_requests := cg_requests c @ [cr], cg_ids := Suc (cg_ids c)\<rparr>))"

definition new_request :: "env \<Rightarrow> catalog \<Rightarrow> string \<Rightarrow> skill_version \<Rightarrow> string \<Rightarrow> string \<Rightarrow> compile_request" where
  "new_request env c trigger sv sha dedupe =
     \<lparr>cr_id = fresh_id env c, cr_skill = sv_skill sv, cr_version = sv_id sv, cr_trigger = trigger, cr_commit = sha,
      cr_status = ''pending'', cr_dedupe = dedupe, cr_started = None, cr_finished = None, cr_error = []\<rparr>"

definition add_compile_job :: "env \<Rightarrow> string \<Rightarrow> string \<Rightarrow> dict \<Rightarrow> catalog \<Rightarrow> catalog res" where
  "add_compile_job env rid dedupe payload c =
     (if list_ex (\<lambda>j. j_dedupe j = dedupe) (cg_jobs c) then Inl DbErr
      else Inr (c\<lparr>cg_jobs := cg_jobs c @ [\<lparr>j_id = fresh_id env c, j_type = ''compile'', j_status = ''pending'', j_payload = payload,
           j_run = None, j_request = Some rid, j_worker = [], j_lease = None, j_available = cg_now c, j_dedupe = dedupe,
           j_attempt = 0, j_max = en_max_attempts env, j_metrics = [], j_error = [], j_started = None, j_finished = None,
           j_created = cg_now c\<rparr>], cg_ids := Suc (cg_ids c)\<rparr>))"

definition publish_dedupe :: "skill_version \<Rightarrow> string \<Rightarrow> string" where
  "publish_dedupe sv sha = ''compile:'' @ sv_id sv @ '':'' @ sha"

definition create_compile_request_for_publish ::
    "env \<Rightarrow> skill_version \<Rightarrow> string option \<Rightarrow> catalog \<Rightarrow> (compile_request \<times> catalog) res" where
  "create_compile_request_for_publish env sv rec_id c =
     (case sv_commit sv of
        None \<Rightarrow> Inl (Invalid ''frozen commit'')
      | Some sha \<Rightarrow>
          if sha = [] then Inl (Invalid ''frozen commit'')
          else (let dedupe = publish_dedupe sv sha in
            case find (\<lambda>x. cr_dedupe x = dedupe) (cg_requests c) of
              Some cr \<Rightarrow> Inr (cr, c)
            | None \<Rightarrow>
                (let cr = new_request env c ''publish'' sv sha dedupe in
                 rbind (add_request cr c) (\<lambda>c1.
                 rbind (build_publish_progress_payload (cg_iso c) (cr_id cr) rec_id (cr_skill cr) (cr_version cr) sha) (\<lambda>p.
                 rbind (add_compile_job env (cr_id cr) (''job:'' @ dedupe) p c1) (\<lambda>c2. Inr (cr, c2)))))))"

text \<open>The version of a manual compilation: the published one, the draft, or the one changed last.\<close>

definition newest :: "skill_version list \<Rightarrow> skill_version option" where
  "newest vs = (case rev (sort_key sv_updated (rev vs)) of [] \<Rightarrow> None | v # _ \<Rightarrow> Some v)"

definition version_at :: "string option \<Rightarrow> catalog \<Rightarrow> skill_version option" where
  "version_at i c = (case i of None \<Rightarrow> None | Some x \<Rightarrow> if x = [] then None else version_of x c)"

definition manual_version :: "skill_definition \<Rightarrow> catalog \<Rightarrow> skill_version option" where
  "manual_version sd c =
     (case version_at (sd_published sd) c of
        Some v \<Rightarrow> Some v
      | None \<Rightarrow> (case version_at (sd_draft sd) c of
          Some v \<Rightarrow> Some v
        | None \<Rightarrow> newest (filter (\<lambda>v. sv_skill v = sd_id sd) (cg_versions c))))"

definition manual_commit :: "compiler_env \<Rightarrow> (string \<Rightarrow> string \<Rightarrow> string res) \<Rightarrow> skill_definition \<Rightarrow> skill_version \<Rightarrow> string res" where
  "manual_commit ce head sd sv =
     (if (case sv_commit sv of None \<Rightarrow> True | Some x \<Rightarrow> x = []) \<and> sv_ref sv \<noteq> [] then head (sd_project sd) (sv_ref sv)
      else Inr (case sv_commit sv of None \<Rightarrow> [] | Some x \<Rightarrow> x))"

definition manual_label :: "json \<Rightarrow> json" where
  "manual_label v =
     if_obj v (\<lambda>d. JObj (if dget d ''key'' = JStr ''publish_finalizing'' then dset ''label'' (JStr COMPILE_DONE_LABEL) d else d)) v"

definition manual_payload :: "dict \<Rightarrow> dict" where
  "manual_payload p =
     dset ''operation'' (JStr ''compile'')
       (dset ''progress_stages'' (JArr (map manual_label (list_or_empty (dget p ''progress_stages'')))) p)"

definition create_manual_compile_request ::
    "compiler_env \<Rightarrow> (string \<Rightarrow> string \<Rightarrow> string res) \<Rightarrow> string \<Rightarrow> catalog \<Rightarrow> catalog res" where
  "create_manual_compile_request ce head skill_id c =
     (case skill_of skill_id c of
        None \<Rightarrow> Inl NotFound
      | Some sd \<Rightarrow> (case manual_version sd c of
          None \<Rightarrow> Inl (Invalid ''compilable version'')
        | Some sv \<Rightarrow>
            rbind (manual_commit ce head sd sv) (\<lambda>sha.
            let c0 = on_version (sv_id sv) (\<lambda>v. if sv_commit v \<in> {None, Some []} \<and> sv_ref v \<noteq> [] then v\<lparr>sv_commit := Some sha\<rparr> else v) c;
                env = ce_env ce in
            if sha = [] then Inl (Invalid ''frozen commit'')
            else (let nonce = en_uuid env (cg_ids c0); c1 = c0\<lparr>cg_ids := Suc (cg_ids c0)\<rparr>;
                      cr = new_request env c1 ''manual'' (sv\<lparr>sv_skill := sd_id sd\<rparr>) sha
                        (''compile:manual:'' @ sv_id sv @ '':'' @ sha @ '':'' @ nonce) in
              rbind (add_request cr c1) (\<lambda>c2.
              rbind (build_publish_progress_payload (cg_iso c) (cr_id cr) None (sd_id sd) (sv_id sv) sha) (\<lambda>p.
                add_compile_job env (cr_id cr) (''job:compile:'' @ cr_id cr) (manual_payload p) c2))))))"

section \<open>Publishing\<close>

definition draft_version :: "skill_definition \<Rightarrow> catalog \<Rightarrow> skill_version option" where
  "draft_version sd c =
     (case sd_draft sd of
        Some i \<Rightarrow> if i \<noteq> [] then version_of i c
          else newest (filter (\<lambda>v. sv_skill v = sd_id sd \<and> sv_status v = ''draft'') (cg_versions c))
      | None \<Rightarrow> newest (filter (\<lambda>v. sv_skill v = sd_id sd \<and> sv_status v = ''draft'') (cg_versions c)))"

definition published_numbers :: "string \<Rightarrow> catalog \<Rightarrow> int list" where
  "published_numbers sid c = map sv_no (filter (\<lambda>v. sv_skill v = sid \<and> sv_status v = ''published'') (cg_versions c))"

definition next_published_version_no :: "string \<Rightarrow> catalog \<Rightarrow> int" where
  "next_published_version_no sid c =
     (case published_numbers sid c of [] \<Rightarrow> 1 | n # ns \<Rightarrow> fold max ns n + 1)"

definition document_from_version ::
    "(dict \<Rightarrow> dict option) \<Rightarrow> (string \<Rightarrow> dict option) \<Rightarrow> skill_version \<Rightarrow> string \<Rightarrow> dict res" where
  "document_from_version model yaml sv text =
     (if dict_or_empty (sv_manifest sv) = [] \<and> text \<noteq> []
      then (case yaml text of
          None \<Rightarrow> Inl (Invalid ''skill.yaml'')
        | Some raw \<Rightarrow> (case model raw of
            None \<Rightarrow> Inl (Invalid ''skill.yaml structure'') | Some doc \<Rightarrow> Inr (without_digest doc)))
      else document_from_manifest_snapshot model (sv_manifest sv))"

definition validate_manifest_identity :: "skill_definition \<Rightarrow> dict \<Rightarrow> unit res" where
  "validate_manifest_identity sd doc =
     (let identity = doc_section ''identity'' doc in
      if dget identity ''key'' \<noteq> JStr (sd_key sd) then Inl (Invalid ''identity.key'')
      else if dget identity ''name'' \<noteq> JStr (sd_name sd) then Inl (Invalid ''identity.name'')
      else if dget identity ''description'' \<noteq> JStr (sd_description sd) then Inl (Invalid ''identity.description'')
      else Inr ())"

definition frozen_document :: "compiler_env \<Rightarrow> (string \<Rightarrow> dict option) \<Rightarrow> skill_definition \<Rightarrow> skill_version \<Rightarrow> source_bundle \<Rightarrow> dict res" where
  "frozen_document ce yaml sd draft source =
     rbind (document_from_version (ce_model ce) yaml draft (so_yaml source)) (\<lambda>d0.
     let doc = document_with_prompt_material (Some (so_readme source)) (Some (so_skill_md source)) d0 in
     rbind (validate_manifest_identity sd doc) (\<lambda>_. Inr doc))"

definition freeze :: "env \<Rightarrow> skill_definition \<Rightarrow> string \<Rightarrow> string \<Rightarrow> dict \<Rightarrow> string \<Rightarrow> catalog \<Rightarrow> (compile_request \<times> catalog) res" where
  "freeze env sd draft rec_id doc head c =
     (let c1 = on_version draft (\<lambda>v. v\<lparr>sv_commit := Some head, sv_manifest := JObj (manifest_snapshot doc),
             sv_policy := JObj (runtime_policy_snapshot doc)\<rparr>) c;
          sv = \<lparr>sv_id = fresh_id env c1, sv_skill = sd_id sd, sv_no = next_published_version_no (sd_id sd) c1,
             sv_status = ''published'', sv_ref = sd_branch sd, sv_commit = Some head,
             sv_manifest = JObj (manifest_snapshot doc), sv_policy = JObj (runtime_policy_snapshot doc), sv_updated = cg_now c\<rparr> in
      create_compile_request_for_publish env sv (Some rec_id)
        (on_record rec_id (\<lambda>r. r\<lparr>pr_version := sv_id sv, pr_commit := head\<rparr>) (add_version sv c1)))"

definition accept_publish :: "env \<Rightarrow> skill_definition \<Rightarrow> skill_version \<Rightarrow> string \<Rightarrow> catalog \<Rightarrow> catalog" where
  "accept_publish env sd draft reason c =
     c\<lparr>cg_records := cg_records c @ [\<lparr>pr_id = fresh_id env c, pr_skill = sd_id sd, pr_version = sv_id draft, pr_reason = reason,
         pr_status = ''compiling'', pr_commit = (case sv_commit draft of None \<Rightarrow> [] | Some x \<Rightarrow> x), pr_ref = sd_branch sd\<rparr>],
       cg_ids := Suc (cg_ids c)\<rparr>"

definition publish_source ::
    "compiler_env \<Rightarrow> (string \<Rightarrow> dict option) \<Rightarrow> skill_definition \<Rightarrow> skill_version \<Rightarrow> string \<Rightarrow> unit cact" where
  "publish_source ce yaml sd draft rec_id =
     sbind (slift (ce_source ce (sd_project sd) (sd_branch sd))) (\<lambda>source.
     sbind (slift (frozen_document ce yaml sd draft source)) (\<lambda>doc.
     sbind (sasks (\<lambda>s. freeze (ce_env ce) sd (sv_id draft) rec_id doc (so_head source) (cs_now s))) (\<lambda>r.
     sbind (slift r) (\<lambda>x. sbind (edit_catalog (\<lambda>_. snd x)) (\<lambda>_. commit_catalog (ce_others ce))))))"

definition publish_failed :: "compiler_env \<Rightarrow> string \<Rightarrow> exc \<Rightarrow> unit cact" where
  "publish_failed ce rec_id e =
     sbind roll_back (\<lambda>_.
     sbind (sasks (\<lambda>s. record_of rec_id (cs_now s))) (\<lambda>r.
       if r = None then slift (Inl e)
       else sbind (edit_catalog (on_record rec_id (\<lambda>r. r\<lparr>pr_status := ''failed''\<rparr>))) (\<lambda>_.
         sbind (commit_catalog (ce_others ce)) (\<lambda>_. slift (Inl e)))))"

definition publish_skill :: "compiler_env \<Rightarrow> (string \<Rightarrow> dict option) \<Rightarrow> string \<Rightarrow> string \<Rightarrow> unit cact" where
  "publish_skill ce yaml skill_id reason s =
     (case skill_of skill_id (cs_now s) of
        None \<Rightarrow> (Inl NotFound, s)
      | Some sd \<Rightarrow> (case draft_version sd (cs_now s) of
          None \<Rightarrow> (Inl NotFound, s)
        | Some draft \<Rightarrow>
            (let rec_id = fresh_id (ce_env ce) (cs_now s) in
             sbind (edit_catalog (accept_publish (ce_env ce) sd draft reason)) (\<lambda>_.
             sbind (commit_and_begin (ce_others ce)) (\<lambda>_.
               on_exception (publish_source ce yaml sd draft rec_id) (publish_failed ce rec_id))) s)))"

section \<open>Correcting an artifact\<close>

definition replace_artifact :: "env \<Rightarrow> eg_artifact \<Rightarrow> dict \<Rightarrow> catalog \<Rightarrow> catalog res" where
  "replace_artifact env ea a c =
     (let text = dumps (sort_keys (JObj a)) in
      rbind (need a ''formal_revision'') (\<lambda>rev.
      rbind (need a ''artifact_version'') (\<lambda>format.
      rbind (need a ''graph_summary'') (\<lambda>graph.
      rbind (need a ''capability_summary'') (\<lambda>capability.
        Inr (c\<lparr>cg_objects := on_row_of ob_id (ea_object ea)
               (\<lambda>ob. ob\<lparr>ob_content := JObj a, ob_size := int (length text), ob_checksum := en_sha env text\<rparr>) (cg_objects c),
             cg_artifacts := on_row_of ea_id (ea_id ea) (\<lambda>x. x\<lparr>ea_revision := rev, ea_format := format, ea_graph := graph,
               ea_capability := capability, ea_status := ''ready''\<rparr>) (cg_artifacts c)\<rparr>))))))"

definition stamp_of_request :: "string \<Rightarrow> string \<Rightarrow> catalog \<Rightarrow> dict \<Rightarrow> dict res" where
  "stamp_of_request rid vid c a =
     (case request_of rid c of
        None \<Rightarrow> Inr (dset ''compile_request_id'' (JStr rid) a)
      | Some cr \<Rightarrow> (case (skill_of (cr_skill cr) c, version_of vid c) of
          (Some sd, Some sv) \<Rightarrow> stamp_artifact sd sv cr a
        | _ \<Rightarrow> Inr (dset ''compile_request_id'' (JStr rid) a)))"

definition update_artifact :: "env \<Rightarrow> string \<Rightarrow> json \<Rightarrow> catalog \<Rightarrow> catalog res" where
  "update_artifact env aid artifact c =
     (case row_of ea_id aid (cg_artifacts c) of
        None \<Rightarrow> Inl NotFound
      | Some ea \<Rightarrow>
          if row_of ob_id (ea_object ea) (cg_objects c) = None then Inl NotFound
          else rbind (validate_and_normalize_artifact artifact) (\<lambda>v.
            case fst v of
              None \<Rightarrow> Inl (Invalid ''formal-v5'')
            | Some a \<Rightarrow> rbind (stamp_of_request (ea_request ea) (ea_version ea) c a) (\<lambda>b. replace_artifact env ea b c)))"

end
