(* ===== verification/CompileLaws.thy ===== *)
theory CompileLaws
  imports Publish
begin

text \<open>
  What the steps of a compile job keep, whatever is kept: a predicate on sessions that survives the small
  edits (progress, usage, diagnostics, stored images), the commits with the transactions of others after them, and rollbacks
  survives the attempts of the agent, and with one more law the request as a whole.
\<close>

section \<open>Small edits\<close>

definition jobs_staged :: "catalog \<Rightarrow> bool" where
  "jobs_staged c \<longleftrightarrow> (\<forall>j \<in> set (cg_jobs c). j_type j = ''compile'' \<longrightarrow> stages_ok (j_payload j))"

definition small_edit :: "catalog \<Rightarrow> catalog \<Rightarrow> bool" where
  "small_edit c d \<longleftrightarrow> cg_skills d = cg_skills c \<and> cg_versions d = cg_versions c \<and> cg_records d = cg_records c
     \<and> cg_requests d = cg_requests c \<and> cg_artifacts d = cg_artifacts c \<and> cg_now d = cg_now c
     \<and> set (cg_objects c) \<subseteq> set (cg_objects d) \<and> (jobs_staged c \<longrightarrow> jobs_staged d)"

lemma small_edit_refl [simp]: "small_edit c c"
  by (simp add: small_edit_def)

lemma small_edit_trans: "small_edit c d \<Longrightarrow> small_edit d e \<Longrightarrow> small_edit c e"
  unfolding small_edit_def by (metis subset_trans)

lemma set_on_row_of: "set (on_row_of key i f rows) = (\<lambda>r. if key r = i then f r else r) ` set rows"
  by (simp add: on_row_of_def)

text \<open>A job's row is replaced by one that is staged when it is a compile job's.\<close>

lemma small_edit_job:
  assumes "\<And>j. j \<in> set (cg_jobs c) \<Longrightarrow> jobs_staged c \<Longrightarrow> j_id j = i \<Longrightarrow> j_type (f j) = ''compile'' \<Longrightarrow> stages_ok (j_payload (f j))"
  shows "small_edit c (on_cjob i f c)"
  using assms by (auto simp: small_edit_def on_cjob_def jobs_staged_def set_on_row_of)

lemma small_edit_release: "small_edit c (c\<lparr>cg_jobs := release_jobs lease (cg_jobs c)\<rparr>)"
  by (auto simp: small_edit_def release_jobs_def jobs_staged_def set_on_row_of split: option.split)

lemma small_edit_diagnostics: "small_edit c (add_diagnostics rid vid ds c)"
  by (simp add: small_edit_def add_diagnostics_def jobs_staged_def)

lemma small_edit_object: "small_edit c (add_object env st content c)"
  by (auto simp: small_edit_def add_object_def jobs_staged_def)

lemma small_edit_images: "small_edit c (snd (store_images ce upload sd sv cr ims c))"
  by (induction ims arbitrary: c)
    (auto simp: Let_def split: option.split intro: small_edit_trans [OF small_edit_object])

lemma job_of_in: "job_of i c = Some j \<Longrightarrow> j \<in> set (cg_jobs c) \<and> j_id j = i"
  by (auto simp: job_of_def by_id_def dest: find_job_Some)

lemma mark_stages: "mark_publish_stage now p key status message terminal error = Inr q \<Longrightarrow> stages_ok q"
  by (rule mark_Inr(1))

lemma sbind_assoc: "sbind (sbind f g) h = sbind f (\<lambda>x. sbind (g x) h)"
  by (rule ext) (simp add: sbind_def split: sum.split)

lemma meets_same: "meets r (\<lambda>_. Q) Q \<Longrightarrow> Q (snd r)"
  by (cases "fst r") (simp_all add: meets_def)

section \<open>Laws\<close>

locale session_edits =
  fixes K :: "csession \<Rightarrow> bool" and ce :: compiler_env
  assumes edit: "K s \<Longrightarrow> small_edit (cs_now s) d \<Longrightarrow> K (s\<lparr>cs_now := d\<rparr>)"
    and commit: "K s \<Longrightarrow> small_edit (cs_now s) d \<Longrightarrow> fst (cfence s) = Inr () \<Longrightarrow>
      K (s\<lparr>cs_now := ce_others ce (cs_step s) d, cs_saved := ce_others ce (cs_step s) d, cs_step := Suc (cs_step s)\<rparr>)"
begin

abbreviation kept :: "'a cact \<Rightarrow> bool" where
  "kept f \<equiv> valid K f (\<lambda>_. K) K"

lemma kept_bind: "kept f \<Longrightarrow> (\<And>x. kept (g x)) \<Longrightarrow> kept (sbind f g)"
  by (rule valid_sbind)

lemma kept_ret: "kept (sret x)" "kept (slift r)" "kept (sasks h)"
  by (auto intro: valid_sret valid_slift valid_sasks)

lemma kept_edit: "(\<And>c. small_edit c (f c)) \<Longrightarrow> kept (edit_catalog f)"
  by (simp add: valid_def edit_catalog_def edit)

lemma kept_fence: "kept cfence"
  by (simp add: valid_def cfence_def split: option.split)

lemma kept_commit: "kept (commit_catalog (ce_others ce))"
proof (rule validI)
  fix s assume s: "K s"
  show "meets (commit_catalog (ce_others ce) s) (\<lambda>_. K) K"
  proof (cases "fence_error (cs_lease s) (cs_healthy s) (cg_now (cs_now s)) (cg_jobs (cs_saved s))")
    case None
    then have f: "cfence s = (Inr (), s)" by (simp add: cfence_def)
    show ?thesis
      using commit [OF s small_edit_release, of "cs_lease s"] f by (simp add: commit_catalog_def sbind_def Let_def)
  next
    case (Some e)
    then have "cfence s = (Inl e, s)" by (simp add: cfence_def)
    then show ?thesis using s by (simp add: commit_catalog_def sbind_def)
  qed
qed

lemma kept_commit_and_begin: "kept (commit_and_begin (ce_others ce))"
  unfolding commit_and_begin_def by (intro kept_bind kept_commit kept_fence)

lemma kept_to: "kept f \<Longrightarrow> (\<And>s. K s \<Longrightarrow> E s) \<Longrightarrow> valid K f (\<lambda>_. K) E"
  by (rule valid_weaken)

lemma kept_end: "kept f \<Longrightarrow> (\<And>s. K s \<Longrightarrow> Q s) \<Longrightarrow> (\<And>s. K s \<Longrightarrow> E s) \<Longrightarrow> valid K f (\<lambda>_. Q) E"
  by (rule valid_weaken)

lemma kept_asks: "(\<And>s. K s \<Longrightarrow> kept (f (g s))) \<Longrightarrow> kept (\<lambda>s. f (g s) s)"
  by (auto simp: valid_def)

lemma kept_payload_edit:
  assumes "\<And>q. r = Inr q \<Longrightarrow> stages_ok q"
  shows "kept (sbind (slift r) (\<lambda>q. edit_catalog (on_cjob i (\<lambda>j. j\<lparr>j_payload := q\<rparr>))))"
proof (rule valid_sbind)
  show "valid K (slift r) (\<lambda>q s. K s \<and> stages_ok q) K" using assms by (auto intro: valid_slift)
  show "valid (\<lambda>s. K s \<and> stages_ok q) (edit_catalog (on_cjob i (\<lambda>j. j\<lparr>j_payload := q\<rparr>))) (\<lambda>_. K) K" for q
    by (auto simp: valid_def edit_catalog_def intro!: edit small_edit_job)
qed

lemma kept_mark_progress: "kept (mark_progress ce jid key status message error)"
proof (rule validI)
  fix s assume "K s"
  moreover have "kept (sbind (slift (mark_publish_stage stamp p key status message None error)) (\<lambda>q.
      sbind (edit_catalog (on_cjob i (\<lambda>j. j\<lparr>j_payload := q\<rparr>))) (\<lambda>_. commit_and_begin (ce_others ce))))" for stamp p i
    unfolding sbind_assoc [symmetric] by (intro kept_bind kept_payload_edit kept_commit_and_begin) (rule mark_stages)
  ultimately show "meets (mark_progress ce jid key status message error s) (\<lambda>_. K) K"
    by (auto simp: mark_progress_def Let_def split: option.split intro: validD)
qed

lemma kept_mark_failed: "kept (mark_current_progress_failed jid error)"
proof (rule validI)
  fix s assume "K s"
  moreover have "kept (sbind (slift (rbind (ensure_publish_progress_payload stamp p) (\<lambda>p.
      mark_publish_stage stamp p (str_or_empty (py_or (dget p ''current_stage'') (JStr ''source_loaded''))) ''failed'' error None error))) (\<lambda>q.
      edit_catalog (on_cjob i (\<lambda>j. j\<lparr>j_payload := q\<rparr>))))" for stamp p i
    by (intro kept_payload_edit) (auto simp: rbind_eq_Inr dest: mark_stages)
  ultimately show "meets (mark_current_progress_failed jid error s) (\<lambda>_. K) K"
    by (auto simp: mark_current_progress_failed_def Let_def split: option.split intro: validD)
qed

lemma kept_charge: "kept (charge_usage jid oc)"
proof (rule validI)
  fix s assume s: "K s"
  have "meets (sbind (slift (rbind (agent_token_usage [] (oc_events oc)) (\<lambda>u. accumulate_job_usage (JObj u) j))) (\<lambda>j'.
      edit_catalog (on_cjob (j_id j) (\<lambda>_. j'))) s) (\<lambda>_. K) K" if j: "job_of i (cs_now s) = Some j" for i j
  proof (cases "rbind (agent_token_usage [] (oc_events oc)) (\<lambda>u. accumulate_job_usage (JObj u) j)")
    case (Inr j')
    then have "j_type j' = j_type j" "j_payload j' = j_payload j"
      by (auto simp: rbind_eq_Inr accumulate_job_usage_def split: if_splits)
    then have "small_edit (cs_now s) (on_cjob (j_id j) (\<lambda>_. j') (cs_now s))"
      using job_of_in [OF j] by (intro small_edit_job) (auto simp: jobs_staged_def)
    with s Inr show ?thesis by (simp add: lift_then edit_catalog_def edit)
  qed (simp add: sbind_def slift_def s)
  with s show "meets (charge_usage jid oc s) (\<lambda>_. K) K"
    by (auto simp: charge_usage_def sbind_def slift_def sret_def split: option.split sum.split)
qed

lemma kept_images: "kept (build_reference_assets ce sd sv cr source)"
  by (auto simp: valid_def build_reference_assets_def Let_def edit small_edit_images split: option.split)

lemmas kept_rules = kept_bind kept_ret kept_mark_progress kept_mark_failed kept_charge kept_images kept_fence kept_commit
  kept_commit_and_begin

end

section \<open>The agent's attempts\<close>

text \<open>What the validator gives, up to the keys the compiler adds.\<close>

definition STAMPED_KEYS :: "string list" where
  "STAMPED_KEYS = [''compiler_metadata'', ''compile_request_id'', ''skill'']"

definition from_validator :: "dict \<Rightarrow> bool" where
  "from_validator a \<longleftrightarrow> (\<exists>candidate b ds. validate_and_normalize_artifact candidate = Inr (Some b, ds)
     \<and> (\<forall>k. k \<notin> set STAMPED_KEYS \<longrightarrow> dget a k = dget b k))"

lemma from_validator_accept: "validate_and_normalize_artifact v = Inr (Some a, ds) \<Longrightarrow> from_validator (accept_artifact dn oc a)"
  by (auto simp: from_validator_def accept_artifact_def STAMPED_KEYS_def)

definition sound_attempt :: "attempt \<Rightarrow> bool" where
  "sound_attempt r \<longleftrightarrow> (\<forall>a ds. r = Accepted a ds \<longrightarrow> from_validator a)"

lemma sound_attempt_simps [simp]: "sound_attempt (Accepted a ds) \<longleftrightarrow> from_validator a" "sound_attempt (Rejected k m n ds es)"
  by (simp_all add: sound_attempt_def)

context session_edits begin

lemma kept_attempt: "valid K (one_attempt ce jid dn context i repair) (\<lambda>r s. K s \<and> sound_attempt r) K"
proof -
  have check: "valid K (check_candidate ce jid dn oc ca) (\<lambda>r s. K s \<and> sound_attempt r) K" for oc ca
  proof -
    have "valid K (slift (validate_and_normalize_artifact (JObj (ca_artifact ca))))
        (\<lambda>v s. K s \<and> (\<forall>a. fst v = Some a \<longrightarrow> from_validator (accept_artifact dn oc a))) K"
      by (rule valid_slift) (auto dest: from_validator_accept)
    note body = valid_sbind [OF this]
    have accepted: "valid (\<lambda>s. K s \<and> (\<forall>a. x = Some a \<longrightarrow> from_validator (accept_artifact dn oc a)))
        (case x of Some a \<Rightarrow> sbind (mark_progress ce jid k st t e) (\<lambda>_. sret (Accepted (accept_artifact dn oc a) ds))
          | None \<Rightarrow> sret (Rejected k2 m1 m2 d1 d2)) (\<lambda>r s. K s \<and> sound_attempt r) K" for x k st t e ds k2 m1 m2 d1 d2
    proof (cases x)
      case (Some a)
      then show ?thesis
        by (cases "from_validator (accept_artifact dn oc a)")
          (auto simp: valid_def intro!: validD [OF valid_sbind [OF kept_mark_progress]] valid_sret)
    qed (auto intro!: valid_sret)
    show ?thesis
      unfolding check_candidate_def Let_def
      by (intro valid_sbind [OF kept_mark_progress] body accepted)
  qed
  have "valid K (judge_outcome ce jid dn oc) (\<lambda>r s. K s \<and> sound_attempt r) K" for oc
    unfolding judge_outcome_def Let_def
    by (auto intro!: valid_sret check split: sum.split)
  then show ?thesis
    unfolding one_attempt_def
    by (intro valid_sbind [OF kept_mark_progress] valid_sbind [OF kept_ret(3)] valid_sbind [OF kept_ret(2)] valid_sbind [OF kept_charge])
qed

lemma kept_attempts:
  "valid K (compile_attempts ce jid dn context is ds repair) (\<lambda>r s. K s \<and> (\<forall>a. fst r = Some a \<longrightarrow> from_validator a)) K"
proof (induction "is" arbitrary: ds repair)
  case Nil
  then show ?case by (auto intro!: valid_sret)
next
  case (Cons i "is")
  have "valid (\<lambda>s. K s \<and> sound_attempt r) (case r of Accepted a new \<Rightarrow> sret (Some a, ds @ new)
      | Rejected stage message final new repair' \<Rightarrow>
          if i = 0 then compile_attempts ce jid dn context is (ds @ new) repair'
          else sbind (mark_progress ce jid stage ''failed'' message message) (\<lambda>_. sret (None, ds @ new @ [repair_failed final])))
      (\<lambda>r s. K s \<and> (\<forall>a. fst r = Some a \<longrightarrow> from_validator a)) K" for r
  proof (cases r)
    case (Accepted a new)
    then show ?thesis by (auto intro!: valid_sret)
  next
    case (Rejected stage message final new repair')
    have "valid K (sbind (mark_progress ce jid stage ''failed'' message message) (\<lambda>_. sret (None, ds @ new @ [repair_failed final])))
        (\<lambda>r s. K s \<and> (\<forall>a. fst r = Some a \<longrightarrow> from_validator a)) K"
      by (rule valid_sbind [OF kept_mark_progress]) (auto intro!: valid_sret)
    then show ?thesis using Rejected by (auto intro: valid_pre [OF Cons.IH] valid_pre)
  qed
  then show ?case unfolding compile_attempts.simps by (rule valid_sbind [OF kept_attempt])
qed

lemma kept_agent:
  "valid K (compile_with_agent ce jid sd sv cr doc source assets) (\<lambda>r s. K s \<and> (\<forall>a. fst r = Some a \<longrightarrow> from_validator a)) K"
  unfolding compile_with_agent_def Let_def by (rule kept_attempts)

end

section \<open>The request\<close>

text \<open>
  With rollbacks, and the ends of the request that are no success, the request is kept up to the
  writing of the artifact, which is a premise.
\<close>

definition request_edit :: "string \<Rightarrow> catalog \<Rightarrow> catalog \<Rightarrow> bool" where
  "request_edit rid c d \<longleftrightarrow> (\<exists>f. d = on_request rid f c \<and> (\<forall>r. cr_id (f r) = cr_id r \<and> cr_skill (f r) = cr_skill r
     \<and> cr_version (f r) = cr_version r \<and> cr_status (f r) \<noteq> ''succeeded''))"

lemma request_edit_end: "status \<noteq> ''succeeded'' \<Longrightarrow> request_edit rid c (end_request rid status error c)"
  unfolding request_edit_def end_request_def by (intro exI conjI) (rule refl, simp)

lemma request_edit_start: "request_edit rid c (start_request rid c)"
  unfolding request_edit_def start_request_def by (intro exI conjI) (rule refl, simp)

lemma small_edit_mark_job: "small_edit c (mark_job rid status error c)"
proof -
  have "sync_timestamps now v j = (sync_timestamps now v j)\<lparr>j_payload := j_payload j, j_type := j_type j\<rparr>" for now v j
    by (simp add: sync_timestamps_def Let_def)
  then have "j_payload (set_status now v j) = j_payload j" "j_type (set_status now v j) = j_type j" for now v j
    by (simp_all add: set_status_def sync_timestamps_def Let_def)
  then show ?thesis
    by (auto simp: mark_job_def jobs_staged_def intro!: small_edit_job split: option.split)
qed

locale session_kept = session_edits +
  assumes rolled: "K s \<Longrightarrow> K (s\<lparr>cs_now := cs_saved s\<rparr>)"

locale request_kept = session_kept +
  fixes rid :: string
  assumes request: "K s \<Longrightarrow> request_edit rid (cs_now s) d \<Longrightarrow> K (s\<lparr>cs_now := d\<rparr>)"

context session_kept begin

lemma kept_roll_back: "kept roll_back"
  unfolding roll_back_def by (intro kept_bind kept_fence) (simp add: valid_def rolled)

end

context request_kept begin

lemma kept_request: "(\<And>c. request_edit rid c (f c)) \<Longrightarrow> kept (edit_catalog f)"
  by (simp add: valid_def edit_catalog_def request)

lemma kept_mark_job: "kept (edit_catalog (\<lambda>c. if terminal then mark_job rid status error c else c))"
  by (rule kept_edit) (simp add: small_edit_mark_job)

lemma edit_compose: "edit_catalog (\<lambda>c. g (f c)) = sbind (edit_catalog f) (\<lambda>_. edit_catalog g)"
  by (rule ext) (simp add: edit_catalog_def sbind_def)

lemma kept_close: "status \<noteq> ''succeeded'' \<Longrightarrow> kept (edit_catalog (close_request terminal rid status error))"
  using edit_compose [of "\<lambda>c. if terminal then mark_job rid status error c else c" "end_request rid status error"]
  by (simp add: close_request_def [abs_def] Let_def kept_bind kept_mark_job kept_request request_edit_end)

lemma kept_diagnostics: "kept (edit_catalog (add_diagnostics r v ds))"
  by (rule kept_edit) (rule small_edit_diagnostics)

lemma kept_fail: "kept (fail_request ce terminal rid error)"
  unfolding fail_request_def by (intro kept_bind kept_close kept_commit_and_begin) simp

lemma kept_refuse: "kept (refuse_manifest ce jid terminal rid message)"
  unfolding refuse_manifest_def by (intro kept_rules kept_mark_job kept_request request_edit_end) simp

text \<open>The handler, from what a rollback makes of the state that the exception left.\<close>

lemma request_failed_valid:
  assumes "valid E roll_back (\<lambda>_. K) E'" "\<And>s. K s \<Longrightarrow> Q s" "\<And>s. K s \<Longrightarrow> E' s"
  shows "valid E (request_failed ce jid terminal rid vid e) (\<lambda>_. Q) E'"
proof -
  have "edit_catalog (\<lambda>c. add_diagnostics rid vid ds (end_request rid ''failed'' m c))
      = sbind (edit_catalog (end_request rid ''failed'' m)) (\<lambda>_. edit_catalog (add_diagnostics rid vid ds))" for ds m
    by (rule edit_compose)
  then have "kept (edit_catalog (\<lambda>c. add_diagnostics rid vid ds (end_request rid ''failed'' m c)))" for ds m
    by (simp add: kept_bind kept_request request_edit_end kept_diagnostics)
  then have rest: "kept (sbind (sasks cs_now) (\<lambda>c.
       if request_of rid c = None \<or> version_of vid c = None then slift (Inl e)
       else (let message = format_exception_message (ce_env ce) e in
         sbind (edit_catalog (\<lambda>c. add_diagnostics rid vid
           [compiler_error ''compile.failed'' message (error_location (ce_env ce) e)] (end_request rid ''failed'' message c))) (\<lambda>_.
         sbind (mark_current_progress_failed jid message) (\<lambda>_.
         sbind (edit_catalog (\<lambda>c. if terminal then mark_job rid ''failed'' message c else c)) (\<lambda>_.
           commit_and_begin (ce_others ce)))))))"
    unfolding Let_def by (auto intro!: kept_rules kept_mark_job)
  show ?thesis
    unfolding request_failed_def by (rule valid_sbind [OF assms(1) kept_end [OF rest assms(2,3)]])
qed

lemma request_failed_kept: "kept (request_failed ce jid terminal rid vid e)"
  by (rule request_failed_valid [OF kept_roll_back])

text \<open>Up to the artifact the request keeps \<open>K\<close>; from there \<open>Q\<close> and \<open>E\<close> say what holds.\<close>

lemma compile_source_valid:
  assumes "\<And>a. from_validator a \<Longrightarrow> valid K (emit_and_close ce jid terminal sd sv cr a) (\<lambda>_. Q) E"
    and "\<And>s. K s \<Longrightarrow> Q s" "\<And>s. K s \<Longrightarrow> E s" "cr_id cr = rid"
  shows "valid K (compile_source ce jid terminal sd sv cr) (\<lambda>_. Q) E"
proof -
  note weak = kept_to [OF _ assms(3)] kept_end [OF _ assms(2,3)]
  have "valid (\<lambda>s. K s \<and> (\<forall>a. fst r = Some a \<longrightarrow> from_validator a)) (case fst r of
        None \<Rightarrow> fail_request ce terminal rid (last_message (snd r))
      | Some a \<Rightarrow> emit_and_close ce jid terminal sd sv cr a) (\<lambda>_. Q) E" for r
  proof (cases "fst r")
    case None
    then show ?thesis using valid_pre [OF weak(2) [OF kept_fail]] by simp
  next
    case (Some a)
    then show ?thesis using assms(1) by (cases "from_validator a") (auto simp: valid_def)
  qed
  moreover have "valid (\<lambda>s. K s \<and> P) (edit_catalog (add_diagnostics x y ds)) (\<lambda>_ s. K s \<and> P) E" for x y ds P
    using weak(1) [OF kept_diagnostics] by (cases P) (auto simp: valid_def)
  ultimately have agent: "valid K (sbind (compile_with_agent ce jid sd sv cr doc source assets) (\<lambda>r.
      sbind (edit_catalog (add_diagnostics rid (sv_id sv) (snd r))) (\<lambda>_. case fst r of
          None \<Rightarrow> fail_request ce terminal rid (last_message (snd r))
        | Some a \<Rightarrow> emit_and_close ce jid terminal sd sv cr a))) (\<lambda>_. Q) E" for doc source assets
    by (intro valid_sbind [OF valid_weaken [OF kept_agent]] valid_sbind assms(3))
  have "valid K (compile_document ce jid terminal sd sv cr doc source) (\<lambda>_. Q) E" for doc source
    unfolding compile_document_def assms(4)
    by (intro valid_sbind [OF weak(1) [OF kept_mark_progress]] valid_sbind [OF weak(1) [OF kept_images]] agent)
  then show ?thesis
    unfolding compile_source_def Let_def assms(4)
    by (intro valid_sbind [OF weak(1) [OF kept_mark_progress]] valid_sbind [OF weak(1) [OF kept_ret(2)]]
        valid_sbind [OF weak(1) [OF kept_diagnostics]])
      (auto split: list.split intro: weak(2) [OF kept_refuse])
qed

end

section \<open>The request and its job\<close>

lemma valid_on_exception:
  assumes "valid P f Q E" "\<And>e. valid E (h e) Q E'"
  shows "valid P (on_exception f h) Q E'"
proof (rule validI)
  fix s assume "P s"
  obtain r t where f: "f s = (r, t)" by fastforce
  have "meets (r, t) Q E" using validD [OF assms(1) \<open>P s\<close>] f by simp
  then show "meets (on_exception f h s) Q E'"
    using validD [OF assms(2)] f by (cases r) (auto simp: on_exception_def)
qed

lemma request_of_id: "request_of rid c = Some cr \<Longrightarrow> cr_id cr = rid"
  by (auto simp: request_of_def row_of_def find_Some_iff)

lemma version_of_id: "version_of v c = Some sv \<Longrightarrow> sv_id sv = v"
  by (auto simp: version_of_def row_of_def find_Some_iff)

lemma finish_job_row_stages: "finish_job_row ip cr now stamp j = Inr j' \<Longrightarrow> stages_ok (j_payload j')"
  by (auto simp: finish_job_row_def rbind_eq_Inr Let_def dest: mark_stages)

context session_edits begin

lemma kept_finalize:
  assumes "\<And>ip rec_id s. P s \<Longrightarrow> K (s\<lparr>cs_now := finish_publish ip rec_id cr (cs_now s)\<rparr>)" "\<And>s. P s \<Longrightarrow> K s"
  shows "valid P (finalize_publish_job ce jid cr) (\<lambda>_. K) K"
proof (rule validI)
  fix s assume s: "P s"
  show "meets (finalize_publish_job ce jid cr s) (\<lambda>_. K) K"
  proof (cases "job_of jid (cs_now s)")
    case None
    then show ?thesis using assms(2) [OF s] by (simp add: finalize_publish_job_def Let_def)
  next
    case (Some j)
    define rec_id where "rec_id = payload_record j"
    define ip where "ip = (rec_id \<noteq> [] \<and> record_of rec_id (cs_now s) \<noteq> None)"
    define r where "r = rbind (mark_publish_stage (cg_iso (cs_now s)) (j_payload j) ''publish_finalizing'' ''running'' FINALIZING None [])
        (\<lambda>p. finish_job_row ip cr (cg_now (cs_now s)) (cg_iso (cs_now s)) (j\<lparr>j_payload := p\<rparr>))"
    have eq: "finalize_publish_job ce jid cr s = sbind (slift r) (\<lambda>j'.
        sbind (edit_catalog (\<lambda>c. on_cjob jid (\<lambda>_. j') (finish_publish ip rec_id cr c))) (\<lambda>_. commit_catalog (ce_others ce))) s"
      using Some by (simp add: finalize_publish_job_def Let_def rec_id_def ip_def r_def)
    show ?thesis
    proof (cases r)
      case (Inl e)
      then show ?thesis unfolding eq using assms(2) [OF s] by (simp add: sbind_def slift_def)
    next
      case (Inr j')
      then have "stages_ok (j_payload j')" by (auto simp: r_def rbind_eq_Inr dest: finish_job_row_stages)
      moreover have "K (s\<lparr>cs_now := finish_publish ip rec_id cr (cs_now s)\<rparr>)" by (rule assms(1) [OF s])
      ultimately have "K (s\<lparr>cs_now := on_cjob jid (\<lambda>_. j') (finish_publish ip rec_id cr (cs_now s))\<rparr>)"
        using edit [of "s\<lparr>cs_now := finish_publish ip rec_id cr (cs_now s)\<rparr>"] by (simp add: small_edit_job)
      from validD [OF kept_commit this] show ?thesis
        unfolding eq using Inr by (simp add: lift_then) (simp add: sbind_def edit_catalog_def)
    qed
  qed
qed

end

context request_kept begin

lemma process_request_valid:
  assumes "\<And>sd sv cr a s. K s \<Longrightarrow> request_of rid (cs_now s) = Some cr \<Longrightarrow> sv_id sv = cr_version cr \<Longrightarrow> from_validator a \<Longrightarrow>
      valid K (emit_and_close ce jid terminal sd sv cr a) (\<lambda>_. Q) E"
    and "\<And>vid e. valid E (request_failed ce jid terminal rid vid e) (\<lambda>_. Q) E'"
    and weak: "\<And>s. K s \<Longrightarrow> Q s" "\<And>s. K s \<Longrightarrow> E s" "\<And>s. K s \<Longrightarrow> E' s"
  shows "valid K (process_compile_request ce jid terminal rid) (\<lambda>_. Q) E'"
proof (rule validI)
  fix s assume s: "K s"
  show "meets (process_compile_request ce jid terminal rid s) (\<lambda>_. Q) E'"
  proof (cases "\<exists>cr sd sv. request_of rid (cs_now s) = Some cr \<and> cr_status cr \<noteq> ''succeeded''
      \<and> skill_of (cr_skill cr) (cs_now s) = Some sd \<and> version_of (cr_version cr) (cs_now s) = Some sv")
    case True
    then obtain cr sd sv where rows: "request_of rid (cs_now s) = Some cr" "cr_status cr \<noteq> ''succeeded''"
      "skill_of (cr_skill cr) (cs_now s) = Some sd" "version_of (cr_version cr) (cs_now s) = Some sv" by blast
    have source: "valid K (compile_source ce jid terminal sd sv cr) (\<lambda>_. Q) E"
      using assms(1) [OF s rows(1) version_of_id [OF rows(4)]] weak(1,2) request_of_id [OF rows(1)]
      by (rule compile_source_valid)
    have "valid K (sbind (edit_catalog (start_request rid)) (\<lambda>_. on_exception (compile_source ce jid terminal sd sv cr)
        (request_failed ce jid terminal rid (sv_id sv)))) (\<lambda>_. Q) E'"
      by (rule valid_sbind [OF kept_to [OF kept_request [OF request_edit_start] weak(3)] valid_on_exception [OF source assms(2)]])
    from validD [OF this s] rows show ?thesis by (simp add: process_compile_request_def Let_def)
  next
    case False
    then show ?thesis
      using weak(1,3) [OF s] by (auto simp: process_compile_request_def Let_def split: option.split)
  qed
qed

end

lemma process_job_valid:
  assumes "valid P (process_compile_request ce (Some jid) False rid) (\<lambda>_. Q) E"
    and "\<And>cr. valid (\<lambda>s. Q s \<and> request_of rid (cs_now s) = Some cr) (finalize_publish_job ce jid cr) (\<lambda>_. R) E"
    and "\<And>s. Q s \<Longrightarrow> E s" "\<And>s. P s \<Longrightarrow> E s"
    and "P s" "\<And>j. job_of jid (cs_now s) = Some j \<Longrightarrow> job_request j = rid"
  shows "meets (process_compile_job ce jid s) (\<lambda>_. R) E"
proof -
  have "valid P (sbind (process_compile_request ce (Some jid) False rid) (\<lambda>_. sbind (sasks (\<lambda>s. request_of rid (cs_now s))) (\<lambda>r.
      case r of None \<Rightarrow> slift (Inl NotFound) | Some cr \<Rightarrow> finalize_publish_job ce jid cr))) (\<lambda>_. R) E"
  proof (rule valid_sbind [OF assms(1)])
    fix u
    have "valid Q (sasks (\<lambda>s. request_of rid (cs_now s))) (\<lambda>r s. Q s \<and> request_of rid (cs_now s) = r) E"
      by (rule valid_sasks) simp
    moreover have "valid (\<lambda>s. Q s \<and> request_of rid (cs_now s) = r)
        (case r of None \<Rightarrow> slift (Inl NotFound) | Some cr \<Rightarrow> finalize_publish_job ce jid cr) (\<lambda>_. R) E" for r
      using assms(2,3) by (cases r) (auto intro: valid_slift)
    ultimately show "valid Q (sbind (sasks (\<lambda>s. request_of rid (cs_now s))) (\<lambda>r.
        case r of None \<Rightarrow> slift (Inl NotFound) | Some cr \<Rightarrow> finalize_publish_job ce jid cr)) (\<lambda>_. R) E"
      by (rule valid_sbind)
  qed
  from validD [OF this assms(5)] show ?thesis
    using assms(4) [OF assms(5)] assms(6) by (auto simp: process_compile_job_def split: option.split)
qed

end
