(* ===== verification/CompileSafety.thy ===== *)
theory CompileSafety
  imports CompileLaws
begin

text \<open>
  The invariant of the catalog: a request that succeeded has an artifact of its version that came
  from the validator, what is published has a succeeded request, and the payload of a compile job has its eight stages.
  A compile job keeps it whatever it runs into, as long as the others leave its request alone, and it leaves the
  requests of others alone.
\<close>

section \<open>The invariant\<close>

definition sealed :: "env \<Rightarrow> object_row \<Rightarrow> bool" where
  "sealed env ob \<longleftrightarrow> (\<exists>a. ob_content ob = JObj a \<and> from_validator a
     \<and> ob_size ob = int (length (dumps (sort_keys (JObj a)))) \<and> ob_checksum ob = en_sha env (dumps (sort_keys (JObj a))))"

definition compiled :: "env \<Rightarrow> string \<Rightarrow> string \<Rightarrow> catalog \<Rightarrow> bool" where
  "compiled env rid v c \<longleftrightarrow> (\<exists>ea \<in> set (cg_artifacts c). ea_request ea = rid \<and> ea_version ea = v \<and> ea_status ea = ''ready''
     \<and> (\<exists>ob \<in> set (cg_objects c). ob_id ob = ea_object ea \<and> sealed env ob))"

definition succeeded_compiled :: "env \<Rightarrow> catalog \<Rightarrow> bool" where
  "succeeded_compiled env c \<longleftrightarrow> (\<forall>rid cr. request_of rid c = Some cr \<and> cr_status cr = ''succeeded''
     \<longrightarrow> compiled env rid (cr_version cr) c)"

definition published_succeeded :: "catalog \<Rightarrow> bool" where
  "published_succeeded c \<longleftrightarrow> (\<forall>sid sd v. skill_of sid c = Some sd \<and> sd_published sd = Some v
     \<longrightarrow> (\<exists>rid cr. request_of rid c = Some cr \<and> cr_skill cr = sid \<and> cr_version cr = v \<and> cr_status cr = ''succeeded''))"

definition catalog_ok :: "env \<Rightarrow> catalog \<Rightarrow> bool" where
  "catalog_ok env c \<longleftrightarrow> succeeded_compiled env c \<and> published_succeeded c \<and> jobs_staged c"

lemma find_on_row_of:
  assumes "\<And>r. key (f r) = key r"
  shows "row_of key i (on_row_of key k f rows) = map_option (\<lambda>r. if key r = k then f r else r) (row_of key i rows)"
  using assms by (induction rows) (auto simp: row_of_def on_row_of_def)

lemma row_of_append: "row_of key i (xs @ ys) = (case row_of key i xs of None \<Rightarrow> row_of key i ys | Some x \<Rightarrow> Some x)"
  by (induction xs) (auto simp: row_of_def)

lemma request_of_edit:
  assumes "\<And>r. cr_id (f r) = cr_id r"
  shows "request_of i (on_request rid f c) = (if i = rid then map_option f (request_of i c) else request_of i c)"
  using request_of_id [of i c]
  by (cases "request_of i c") (auto simp: request_of_def on_request_def find_on_row_of [where key = cr_id, OF assms])

lemma compiled_mono:
  assumes "compiled env rid v c" "set (cg_artifacts c) \<subseteq> set (cg_artifacts d)" "set (cg_objects c) \<subseteq> set (cg_objects d)"
  shows "compiled env rid v d"
  using assms by (fastforce simp: compiled_def)

section \<open>Stability\<close>

definition edit_law :: "compiler_env \<Rightarrow> (catalog \<Rightarrow> bool) \<Rightarrow> bool" where
  "edit_law ce I \<longleftrightarrow> (\<forall>c d. I c \<and> small_edit c d \<longrightarrow> I d) \<and> (\<forall>n c. I c \<longrightarrow> I (ce_others ce n c))"

definition catalog_law :: "compiler_env \<Rightarrow> string \<Rightarrow> (catalog \<Rightarrow> bool) \<Rightarrow> bool" where
  "catalog_law ce rid I \<longleftrightarrow> edit_law ce I \<and> (\<forall>c d. I c \<and> request_edit rid c d \<longrightarrow> I d)"

definition throughout :: "compiler_env \<Rightarrow> string \<Rightarrow> (catalog \<Rightarrow> bool) \<Rightarrow> csession \<Rightarrow> bool" where
  "throughout ce rid I s \<longleftrightarrow> catalog_law ce rid I \<and> I (cs_now s) \<and> I (cs_saved s)"

definition uncommitted :: "compiler_env \<Rightarrow> (catalog \<Rightarrow> bool) \<Rightarrow> (catalog \<Rightarrow> bool) \<Rightarrow> csession \<Rightarrow> bool" where
  "uncommitted ce I J s \<longleftrightarrow> edit_law ce I \<and> (\<forall>c. I c \<longrightarrow> J c) \<and> I (cs_now s) \<and> J (cs_saved s)"

definition lost_for :: "catalog \<Rightarrow> csession \<Rightarrow> bool" where
  "lost_for c s \<longleftrightarrow> cs_saved s = c \<and> (\<forall>now. fence_error (cs_lease s) (cs_healthy s) now (cg_jobs c) \<noteq> None)"

lemma edit_lawD:
  assumes "edit_law ce I" "I c"
  shows "small_edit c d \<Longrightarrow> I d" "I (ce_others ce n c)"
  using assms unfolding edit_law_def by blast+

lemma catalog_lawD:
  assumes "catalog_law ce rid I" "I c"
  shows "small_edit c d \<Longrightarrow> I d" "request_edit rid c d \<Longrightarrow> I d" "I (ce_others ce n c)"
  using assms unfolding catalog_law_def edit_law_def by blast+

interpretation throughout: request_kept "throughout ce rid I" ce rid for ce rid I
  unfolding throughout_def by unfold_locales (simp_all, (metis catalog_lawD)+)

interpretation uncommitted: session_edits "uncommitted ce I J" ce for ce I J
  unfolding uncommitted_def by unfold_locales (simp_all, (metis edit_lawD)+)

lemma lost_fence: "lost_for c s \<Longrightarrow> fst (cfence s) \<noteq> Inr ()"
  by (auto simp: lost_for_def cfence_def split: option.splits)

interpretation lost: request_kept "lost_for c" ce rid for c ce rid
  by unfold_locales (auto dest: lost_fence, auto simp: lost_for_def)

definition leaves_alone :: "env \<Rightarrow> string \<Rightarrow> catalog \<Rightarrow> catalog \<Rightarrow> bool" where
  "leaves_alone env rid c d \<longleftrightarrow> (catalog_ok env c \<longrightarrow> catalog_ok env d)
     \<and> (\<forall>cr. request_of rid c = Some cr \<longrightarrow> request_of rid d = Some cr)
     \<and> (\<forall>v. compiled env rid v c \<longrightarrow> compiled env rid v d)"

text \<open>A request that is being worked on, with its version.\<close>

definition at_work :: "env \<Rightarrow> string \<Rightarrow> string \<Rightarrow> catalog \<Rightarrow> bool" where
  "at_work env rid v c \<longleftrightarrow> catalog_ok env c \<and>
     (\<exists>cr. request_of rid c = Some cr \<and> cr_version cr = v \<and> cr_status cr \<noteq> ''succeeded'')"

lemma small_edit_compiled: "small_edit c d \<Longrightarrow> compiled env rid v c \<Longrightarrow> compiled env rid v d"
  by (auto simp: small_edit_def intro: compiled_mono)

lemma small_edit_ok: "catalog_ok env c \<Longrightarrow> small_edit c d \<Longrightarrow> catalog_ok env d"
proof -
  assume ok: "catalog_ok env c" and edit: "small_edit c d"
  then have same: "request_of i d = request_of i c" "skill_of i d = skill_of i c" for i
    by (simp_all add: small_edit_def request_of_def skill_of_def)
  have "succeeded_compiled env d"
    using ok edit unfolding catalog_ok_def succeeded_compiled_def same by (blast intro: small_edit_compiled)
  moreover have "published_succeeded d" using ok unfolding catalog_ok_def published_succeeded_def same by (elim conjE)
  moreover have "jobs_staged d" using ok edit by (simp add: catalog_ok_def small_edit_def)
  ultimately show "catalog_ok env d" by (simp add: catalog_ok_def)
qed

lemma small_edit_request: "small_edit c d \<Longrightarrow> request_of rid d = request_of rid c"
  by (simp add: small_edit_def request_of_def)

lemma request_edit_frame: "request_edit rid c d \<Longrightarrow>
    cg_skills d = cg_skills c \<and> cg_jobs d = cg_jobs c \<and> cg_artifacts d = cg_artifacts c \<and> cg_objects d = cg_objects c"
  by (auto simp: request_edit_def on_request_def)

lemma request_edit_other: "request_edit rid c d \<Longrightarrow> i \<noteq> rid \<Longrightarrow> request_of i d = request_of i c"
  by (auto simp: request_edit_def request_of_edit)

lemma request_edit_own: "request_edit rid c d \<Longrightarrow> request_of rid c = Some cr \<Longrightarrow>
    \<exists>cr'. request_of rid d = Some cr' \<and> cr_version cr' = cr_version cr \<and> cr_status cr' \<noteq> ''succeeded''"
  by (auto simp: request_edit_def request_of_edit)

lemma at_work_edit:
  assumes "at_work env rid v c" "request_edit rid c d"
  shows "at_work env rid v d"
proof -
  obtain cr where cr: "request_of rid c = Some cr" "cr_version cr = v" "cr_status cr \<noteq> ''succeeded''"
    using assms(1) by (auto simp: at_work_def)
  obtain cr' where own: "request_of rid d = Some cr'" "cr_version cr' = v" "cr_status cr' \<noteq> ''succeeded''"
    using request_edit_own [OF assms(2) cr(1)] cr(2) by blast
  note frame = request_edit_frame [OF assms(2)] and other = request_edit_other [OF assms(2)]
  have ok: "catalog_ok env c" using assms(1) by (simp add: at_work_def)
  have same: "skill_of i d = skill_of i c" "compiled env i x d = compiled env i x c" for i x
    using frame by (simp_all add: skill_of_def compiled_def)
  have backward: "request_of i c = Some r" if "request_of i d = Some r" "cr_status r = ''succeeded''" for i r
    using that own other [of i] by (cases "i = rid") auto
  have "succeeded_compiled env d"
    using ok backward unfolding catalog_ok_def succeeded_compiled_def same by blast
  moreover have forward: "request_of i d = Some r" if "request_of i c = Some r" "cr_status r = ''succeeded''" for i r
    using that cr other [of i] by (cases "i = rid") auto
  have "published_succeeded d"
    unfolding published_succeeded_def same
  proof (intro allI impI)
    fix sid sd v assume "skill_of sid c = Some sd \<and> sd_published sd = Some v"
    then obtain i r where "request_of i c = Some r" "cr_skill r = sid" "cr_version r = v" "cr_status r = ''succeeded''"
      using ok unfolding catalog_ok_def published_succeeded_def by blast
    with forward show "\<exists>i r. request_of i d = Some r \<and> cr_skill r = sid \<and> cr_version r = v \<and> cr_status r = ''succeeded''"
      by blast
  qed
  moreover have "jobs_staged d" using ok frame by (simp add: catalog_ok_def jobs_staged_def)
  ultimately show ?thesis using own by (auto simp: at_work_def catalog_ok_def)
qed

lemma at_work_law:
  assumes "\<And>n c. leaves_alone env rid c (ce_others ce n c)"
  shows "catalog_law ce rid (at_work env rid v)"
    "catalog_law ce rid (\<lambda>c. at_work env rid v c \<and> compiled env rid v c)"
proof -
  have others: "at_work env rid v (ce_others ce n c)" if "at_work env rid v c" for n c
    using that assms [of c n] by (auto simp: at_work_def leaves_alone_def)
  moreover have "compiled env rid v (ce_others ce n c)" if "compiled env rid v c" for n c
    using that assms [of c n] by (auto simp: leaves_alone_def)
  moreover have "at_work env rid v d" if "at_work env rid v c" "small_edit c d" for c d
    using that by (auto simp: at_work_def small_edit_request intro: small_edit_ok)
  moreover have "compiled env rid v d" if "compiled env rid v c" "request_edit rid c d" for c d
    using that request_edit_frame [OF that(2)] by (simp add: compiled_def)
  ultimately show "catalog_law ce rid (at_work env rid v)"
    "catalog_law ce rid (\<lambda>c. at_work env rid v c \<and> compiled env rid v c)"
    unfolding catalog_law_def edit_law_def using at_work_edit small_edit_compiled by blast+
qed

section \<open>The artifact\<close>

lemma stamp_frame:
  assumes "stamp_artifact sd sv cr a = Inr b" "k \<notin> set STAMPED_KEYS"
  shows "dget b k = dget a k"
  using assms by (auto simp: stamp_artifact_def Let_def STAMPED_KEYS_def split: if_obj_split_asm)

lemma stamp_from_validator: "stamp_artifact sd sv cr a = Inr b \<Longrightarrow> from_validator a \<Longrightarrow> from_validator b"
  unfolding from_validator_def using stamp_frame by metis

text \<open>The rows of an artifact: the catalog has it afterwards, and had none of the request before.\<close>

lemma emit_artifact_Inr:
  assumes "emit_artifact ce sd sv cr a c = Inr d" "from_validator a"
  shows "compiled (ce_env ce) (cr_id cr) (sv_id sv) d" "\<forall>ea \<in> set (cg_artifacts c). ea_request ea \<noteq> cr_id cr"
    "set (cg_artifacts c) \<subseteq> set (cg_artifacts d)" "set (cg_objects c) \<subseteq> set (cg_objects d)"
    "cg_skills d = cg_skills c" "cg_requests d = cg_requests c" "cg_jobs d = cg_jobs c"
  using assms
  by (auto simp: emit_artifact_def Let_def rbind_eq_Inr add_object_def compiled_def sealed_def list_ex_iff split: if_splits)

lemma emit_at_work:
  assumes "emit_artifact ce sd sv cr a c = Inr d" "from_validator a" "at_work (ce_env ce) rid v c"
  shows "at_work (ce_env ce) rid v d"
proof -
  note e = emit_artifact_Inr [OF assms(1,2)]
  have same: "request_of i d = request_of i c" "skill_of i d = skill_of i c" for i
    using e by (simp_all add: request_of_def skill_of_def)
  have "compiled (ce_env ce) i x d" if "compiled (ce_env ce) i x c" for i x using compiled_mono that e(3,4) by blast
  then have "succeeded_compiled (ce_env ce) d"
    using assms(3) unfolding at_work_def catalog_ok_def succeeded_compiled_def same by blast
  moreover have "published_succeeded d"
    using assms(3) unfolding at_work_def catalog_ok_def published_succeeded_def same by (elim conjE)
  moreover have "jobs_staged d" using assms(3) e(7) by (simp add: at_work_def catalog_ok_def jobs_staged_def)
  ultimately show ?thesis using assms(3) by (simp add: at_work_def catalog_ok_def same)
qed

lemma close_succeeded_ok:
  assumes "at_work env rid v c" "compiled env rid v c"
  shows "catalog_ok env (close_request terminal rid ''succeeded'' e c)"
proof -
  let ?f = "\<lambda>r. r\<lparr>cr_status := ''succeeded'', cr_error := e, cr_finished := Some (cg_now c)\<rparr>"
  have own: "request_of i (end_request rid ''succeeded'' e c) = (if i = rid then map_option ?f (request_of i c) else request_of i c)" for i
    unfolding end_request_def by (rule request_of_edit) simp
  have same: "skill_of i (end_request rid ''succeeded'' e c) = skill_of i c"
    "compiled env i x (end_request rid ''succeeded'' e c) = compiled env i x c" for i x
    by (simp_all add: end_request_def on_request_def skill_of_def compiled_def)
  obtain cr where cr: "request_of rid c = Some cr" "cr_version cr = v" "cr_status cr \<noteq> ''succeeded''"
    and ok: "succeeded_compiled env c" "published_succeeded c" "jobs_staged c"
    using assms(1) by (auto simp: at_work_def catalog_ok_def)
  have "succeeded_compiled env (end_request rid ''succeeded'' e c)"
    using ok(1) cr assms(2) unfolding succeeded_compiled_def same own by auto
  moreover have "published_succeeded (end_request rid ''succeeded'' e c)"
    unfolding published_succeeded_def same
  proof (intro allI impI)
    fix sid sd x assume "skill_of sid c = Some sd \<and> sd_published sd = Some x"
    then obtain i r where "request_of i c = Some r" "cr_skill r = sid" "cr_version r = x" "cr_status r = ''succeeded''"
      using ok(2) unfolding published_succeeded_def by blast
    then show "\<exists>i r. request_of i (end_request rid ''succeeded'' e c) = Some r \<and> cr_skill r = sid \<and> cr_version r = x
        \<and> cr_status r = ''succeeded''"
      using cr by (intro exI [of _ i] exI [of _ r]) (auto simp: own)
  qed
  moreover have "jobs_staged (end_request rid ''succeeded'' e c)"
    using ok(3) by (simp add: end_request_def on_request_def jobs_staged_def)
  ultimately have "catalog_ok env (end_request rid ''succeeded'' e c)" by (simp add: catalog_ok_def)
  then show ?thesis
    by (auto simp: close_request_def Let_def intro: small_edit_ok [OF _ small_edit_mark_job])
qed

section \<open>A compile job\<close>

text \<open>
  What an exception leaves committed: the request at work; or its end, when the lease is lost after the last
  commit, and then the next transaction is refused.
\<close>

definition left_behind :: "env \<Rightarrow> string \<Rightarrow> string \<Rightarrow> csession \<Rightarrow> bool" where
  "left_behind env rid v s \<longleftrightarrow> at_work env rid v (cs_saved s)
     \<or> catalog_ok env (cs_saved s) \<and> cs_now s = cs_saved s \<and> fst (cfence s) \<noteq> Inr ()"

definition all_ok :: "env \<Rightarrow> csession \<Rightarrow> bool" where
  "all_ok env s \<longleftrightarrow> catalog_ok env (cs_now s) \<and> catalog_ok env (cs_saved s)"

lemma commit_left_behind:
  assumes "\<And>n c. leaves_alone (ce_env ce) rid c (ce_others ce n c)"
  shows "valid (\<lambda>s. catalog_ok (ce_env ce) (cs_now s) \<and> at_work (ce_env ce) rid v (cs_saved s)) (commit_and_begin (ce_others ce))
    (\<lambda>_. all_ok (ce_env ce)) (left_behind (ce_env ce) rid v)"
proof (rule validI)
  fix s :: csession assume s: "catalog_ok (ce_env ce) (cs_now s) \<and> at_work (ce_env ce) rid v (cs_saved s)"
  define d where "d = ce_others ce (cs_step s) ((cs_now s)\<lparr>cg_jobs := release_jobs (cs_lease s) (cg_jobs (cs_now s))\<rparr>)"
  define t where "t = s\<lparr>cs_now := d, cs_saved := d, cs_step := Suc (cs_step s)\<rparr>"
  have "catalog_ok (ce_env ce) d"
    unfolding d_def using s assms small_edit_ok [OF _ small_edit_release] by (auto simp: leaves_alone_def)
  then have t: "catalog_ok (ce_env ce) (cs_now t)" "cs_saved t = cs_now t" by (simp_all add: t_def)
  have fence: "cfence u = (fst (cfence u), u)" for u :: csession by (simp add: cfence_def split: option.split)
  show "meets (commit_and_begin (ce_others ce) s) (\<lambda>_. all_ok (ce_env ce)) (left_behind (ce_env ce) rid v)"
  proof (cases "fst (cfence s)")
    case (Inl e)
    then have "commit_and_begin (ce_others ce) s = (Inl e, s)"
      using fence [of s] by (simp add: commit_and_begin_def commit_catalog_def sbind_def)
    then show ?thesis using s by (simp add: left_behind_def)
  next
    case (Inr u)
    then have "commit_and_begin (ce_others ce) s = (fst (cfence t), t)"
      using fence [of s] fence [of t] by (simp add: commit_and_begin_def commit_catalog_def sbind_def Let_def d_def t_def)
    then show ?thesis using t by (cases "fst (cfence t)") (simp_all add: left_behind_def all_ok_def)
  qed
qed

lemma write_artifact_eq:
  "write_artifact ce sd sv cr a s = (case rbind (stamp_artifact sd sv cr a) (\<lambda>b. emit_artifact ce sd sv cr b (cs_now s)) of
     Inl e \<Rightarrow> (Inl e, s) | Inr d \<Rightarrow> (Inr (), s\<lparr>cs_now := d\<rparr>))"
proof (cases "stamp_artifact sd sv cr a")
  case (Inr b)
  then show ?thesis
    by (cases "emit_artifact ce sd sv cr b (cs_now s)")
      (simp_all add: write_artifact_def sbind_def slift_def sasks_def edit_catalog_def)
qed (simp add: write_artifact_def sbind_def slift_def)

lemma emit_valid:
  assumes others: "\<And>n c. leaves_alone (ce_env ce) rid c (ce_others ce n c)"
    and a: "from_validator a" "cr_id cr = rid" "sv_id sv = v"
  shows "valid (throughout ce rid (at_work (ce_env ce) rid v)) (emit_and_close ce jid terminal sd sv cr a)
    (\<lambda>_. all_ok (ce_env ce)) (left_behind (ce_env ce) rid v)"
proof -
  let ?I = "at_work (ce_env ce) rid v"
  let ?J = "\<lambda>c. at_work (ce_env ce) rid v c \<and> compiled (ce_env ce) rid v c"
  have left: "throughout ce rid ?I s \<Longrightarrow> left_behind (ce_env ce) rid v s"
    "uncommitted ce ?J ?I s \<Longrightarrow> left_behind (ce_env ce) rid v s" for s
    by (simp_all add: throughout_def uncommitted_def left_behind_def)
  have law: "edit_law ce ?J" using at_work_law(2) [OF others] unfolding catalog_law_def by blast
  have written: "valid (throughout ce rid ?I) (write_artifact ce sd sv cr a) (\<lambda>_. uncommitted ce ?J ?I) (left_behind (ce_env ce) rid v)"
  proof (rule validI)
    fix s assume s: "throughout ce rid ?I s"
    show "meets (write_artifact ce sd sv cr a s) (\<lambda>_. uncommitted ce ?J ?I) (left_behind (ce_env ce) rid v)"
    proof (cases "rbind (stamp_artifact sd sv cr a) (\<lambda>b. emit_artifact ce sd sv cr b (cs_now s))")
      case (Inl e)
      then have "write_artifact ce sd sv cr a s = (Inl e, s)" by (simp add: write_artifact_eq)
      then show ?thesis using left(1) [OF s] by simp
    next
      case (Inr d)
      then obtain b where b: "stamp_artifact sd sv cr a = Inr b" "emit_artifact ce sd sv cr b (cs_now s) = Inr d"
        by (auto simp: rbind_eq_Inr)
      have run: "write_artifact ce sd sv cr a s = (Inr (), s\<lparr>cs_now := d\<rparr>)" using Inr by (simp add: write_artifact_eq)
      have fv: "from_validator b" using stamp_from_validator [OF b(1) a(1)] .
      have now: "?I (cs_now s)" "?I (cs_saved s)" using s unfolding throughout_def by blast+
      have "?J d"
        using emit_at_work [OF b(2) fv now(1)] emit_artifact_Inr(1) [OF b(2) fv] unfolding a(2,3) by blast
      with run law now(2) show ?thesis by (simp add: uncommitted_def)
    qed
  qed
  have close: "valid (uncommitted ce ?J ?I) (edit_catalog (close_request terminal rid ''succeeded'' []))
      (\<lambda>_ s. catalog_ok (ce_env ce) (cs_now s) \<and> at_work (ce_env ce) rid v (cs_saved s)) (left_behind (ce_env ce) rid v)"
    by (auto simp: valid_def edit_catalog_def uncommitted_def intro: close_succeeded_ok)
  show ?thesis
    unfolding emit_and_close_def a(2)
    by (rule valid_sbind [OF throughout.kept_to [OF throughout.kept_mark_progress left(1)]
        valid_sbind [OF written valid_sbind [OF uncommitted.kept_to [OF uncommitted.kept_mark_progress left(2)]
        valid_sbind [OF close commit_left_behind [OF others]]]]])
qed

lemma request_failed_left:
  assumes others: "\<And>n c. leaves_alone (ce_env ce) rid c (ce_others ce n c)"
  shows "valid (left_behind (ce_env ce) rid v) (request_failed ce jid terminal rid vid e)
    (\<lambda>_. all_ok (ce_env ce)) (\<lambda>s. catalog_ok (ce_env ce) (cs_saved s))"
proof (rule throughout.request_failed_valid [where I = "at_work (ce_env ce) rid v"])
  show "valid (left_behind (ce_env ce) rid v) roll_back (\<lambda>_. throughout ce rid (at_work (ce_env ce) rid v))
      (\<lambda>s. catalog_ok (ce_env ce) (cs_saved s))"
    using at_work_law(1) [OF others]
    by (auto simp: valid_def roll_back_def left_behind_def sbind_def cfence_def throughout_def at_work_def split: option.split)
qed (auto simp: throughout_def all_ok_def at_work_def)

lemma process_request_ok:
  assumes others: "\<And>n c. leaves_alone (ce_env ce) rid c (ce_others ce n c)"
    and s: "all_ok (ce_env ce) s" "cs_now s = cs_saved s"
  shows "meets (process_compile_request ce jid terminal rid s) (\<lambda>_. all_ok (ce_env ce)) (\<lambda>s. catalog_ok (ce_env ce) (cs_saved s))"
proof (cases "\<exists>cr. request_of rid (cs_now s) = Some cr \<and> cr_status cr \<noteq> ''succeeded''")
  case True
  then obtain cr where cr: "request_of rid (cs_now s) = Some cr" "cr_status cr \<noteq> ''succeeded''" by blast
  define I where "I = at_work (ce_env ce) rid (cr_version cr)"
  have "throughout ce rid I s"
    using cr s at_work_law(1) [OF others] by (simp add: throughout_def I_def at_work_def all_ok_def)
  moreover have "valid (throughout ce rid I) (process_compile_request ce jid terminal rid) (\<lambda>_. all_ok (ce_env ce))
      (\<lambda>s. catalog_ok (ce_env ce) (cs_saved s))"
  proof (rule throughout.process_request_valid)
    fix sd and sv :: skill_version and cr' :: compile_request and a t
    assume "throughout ce rid I t" "request_of rid (cs_now t) = Some cr'" "sv_id sv = cr_version cr'" "from_validator a"
    then show "valid (throughout ce rid I) (emit_and_close ce jid terminal sd sv cr' a) (\<lambda>_. all_ok (ce_env ce))
        (left_behind (ce_env ce) rid (cr_version cr))"
      unfolding I_def by (intro emit_valid others) (auto simp: throughout_def at_work_def dest: request_of_id)
  qed (auto simp: throughout_def I_def at_work_def all_ok_def left_behind_def intro: request_failed_left [OF others])
  ultimately show ?thesis by (rule validD [rotated])
next
  case False
  then show ?thesis
    using s by (auto simp: process_compile_request_def Let_def all_ok_def split: option.split)
qed

lemma finish_publish_ok:
  assumes "catalog_ok env c" "request_of rid c = Some cr"
  shows "catalog_ok env (finish_publish ip rec_id cr c)"
proof -
  let ?d = "finish_publish ip rec_id cr c"
  have same: "request_of i ?d = request_of i c" "compiled env i x ?d = compiled env i x c" "jobs_staged ?d = jobs_staged c" for i x
    by (simp_all add: finish_publish_def on_skill_def on_record_def request_of_def compiled_def jobs_staged_def)
  have "published_succeeded ?d"
    unfolding published_succeeded_def same
  proof (intro allI impI)
    fix sid sd v assume sd: "skill_of sid ?d = Some sd \<and> sd_published sd = Some v"
    let ?f = "\<lambda>sd. if ip then sd\<lparr>sd_published := Some (cr_version cr)\<rparr> else sd"
    have origin: "cr_status cr = ''succeeded'' \<and> sid = cr_skill cr \<and> v = cr_version cr
        \<or> (\<exists>sd. skill_of sid c = Some sd \<and> sd_published sd = Some v)"
    proof (cases "cr_status cr = ''succeeded''")
      case True
      then have "skill_of sid ?d = map_option (\<lambda>r. if sd_id r = cr_skill cr then ?f r else r) (skill_of sid c)"
        by (simp add: finish_publish_def on_skill_def on_record_def skill_of_def find_on_row_of [where key = sd_id])
      moreover have "sd_id r = sid" if "skill_of sid c = Some r" for r
        using that by (auto simp: skill_of_def row_of_def find_Some_iff)
      ultimately show ?thesis using sd True by (cases "skill_of sid c") (auto split: if_splits)
    next
      case False
      then show ?thesis using sd by (simp add: finish_publish_def on_record_def skill_of_def)
    qed
    then show "\<exists>i r. request_of i c = Some r \<and> cr_skill r = sid \<and> cr_version r = v \<and> cr_status r = ''succeeded''"
      using assms unfolding catalog_ok_def published_succeeded_def by blast
  qed
  then show ?thesis using assms(1) by (simp add: catalog_ok_def succeeded_compiled_def same)
qed

lemma process_job_ok:
  assumes others: "\<And>n c. leaves_alone (ce_env ce) rid c (ce_others ce n c)"
    and s: "all_ok (ce_env ce) s" "cs_now s = cs_saved s" "\<And>j. job_of jid (cs_now s) = Some j \<Longrightarrow> job_request j = rid"
  shows "catalog_ok (ce_env ce) (cs_saved (snd (process_compile_job ce jid s)))"
proof -
  let ?ok = "catalog_ok (ce_env ce)" and ?P = "\<lambda>s. all_ok (ce_env ce) s \<and> cs_now s = cs_saved s"
  have law: "edit_law ce ?ok"
    using others small_edit_ok unfolding edit_law_def leaves_alone_def by blast
  have K: "uncommitted ce ?ok ?ok s \<longleftrightarrow> all_ok (ce_env ce) s" for s
    using law by (simp add: uncommitted_def all_ok_def)
  have "valid ?P (process_compile_request ce (Some jid) False rid) (\<lambda>_. all_ok (ce_env ce)) (\<lambda>s. ?ok (cs_saved s))"
    using process_request_ok [OF others] by (simp add: valid_def)
  moreover have "valid (\<lambda>s. all_ok (ce_env ce) s \<and> request_of rid (cs_now s) = Some cr) (finalize_publish_job ce jid cr)
      (\<lambda>_. uncommitted ce ?ok ?ok) (uncommitted ce ?ok ?ok)" for cr
    by (rule uncommitted.kept_finalize) (auto simp: K all_ok_def intro: finish_publish_ok)
  then have "valid (\<lambda>s. all_ok (ce_env ce) s \<and> request_of rid (cs_now s) = Some cr) (finalize_publish_job ce jid cr)
      (\<lambda>_ s. ?ok (cs_saved s)) (\<lambda>s. ?ok (cs_saved s))" for cr
    by (rule valid_weaken) (auto simp: K all_ok_def)
  ultimately have "meets (process_compile_job ce jid s) (\<lambda>_ s. ?ok (cs_saved s)) (\<lambda>s. ?ok (cs_saved s))"
    using s by (intro process_job_valid [where P = ?P and Q = "all_ok (ce_env ce)"]) (auto simp: all_ok_def)
  then show ?thesis by (rule meets_same)
qed

end
