(* ===== verification/CompileFrame.thy ===== *)
theory CompileFrame
  imports CompileSafety
begin

text \<open>
  What a compile job leaves alone: the requests and artifacts of others, everything once its lease
  is lost, and, for good, a request whose artifact was committed without the request's success.
\<close>

section \<open>The frame\<close>

definition outside :: "string \<Rightarrow> catalog \<Rightarrow> catalog \<Rightarrow> bool" where
  "outside rid c d \<longleftrightarrow> (\<forall>i. i \<noteq> rid \<longrightarrow> request_of i d = request_of i c)
     \<and> set (cg_artifacts c) \<subseteq> set (cg_artifacts d) \<and> set (cg_objects c) \<subseteq> set (cg_objects d)"

lemma outside_close: "outside rid c (close_request terminal rid status e c)"
proof -
  have "request_of i (end_request rid status e c) = request_of i c" if "i \<noteq> rid" for i
    using that unfolding end_request_def by (subst request_of_edit) simp_all
  moreover have "request_of i (mark_job rid status e d) = request_of i d" "cg_artifacts (mark_job rid status e d) = cg_artifacts d"
    "cg_objects (mark_job rid status e d) = cg_objects d" for i d
    by (auto simp: mark_job_def on_cjob_def request_of_def split: option.split)
  ultimately show ?thesis
    by (auto simp: outside_def close_request_def Let_def) (simp_all add: end_request_def on_request_def)
qed

lemma outside_emit: "emit_artifact ce sd sv cr a c = Inr d \<Longrightarrow> outside rid c d"
  by (auto simp: emit_artifact_def Let_def rbind_eq_Inr add_object_def outside_def request_of_def split: if_splits)

lemma outside_finish: "outside rid c (finish_publish ip rec_id cr c)"
  by (simp add: finish_publish_def on_skill_def on_record_def outside_def request_of_def)

context request_kept begin

lemma emit_kept:
  assumes frame: "\<And>s d. K s \<Longrightarrow> outside rid (cs_now s) d \<Longrightarrow> K (s\<lparr>cs_now := d\<rparr>)" and "cr_id cr = rid"
  shows "kept (emit_and_close ce jid terminal sd sv cr a)"
proof -
  have "kept (write_artifact ce sd sv cr a)"
    using frame outside_emit by (auto simp: valid_def write_artifact_eq rbind_eq_Inr split: sum.split)
  moreover have "kept (edit_catalog (close_request terminal rid status e))" for status e
    using frame outside_close by (simp add: valid_def edit_catalog_def)
  ultimately show ?thesis
    unfolding emit_and_close_def assms(2) by (intro kept_rules)
qed

lemma job_kept:
  assumes frame: "\<And>s d. K s \<Longrightarrow> outside rid (cs_now s) d \<Longrightarrow> K (s\<lparr>cs_now := d\<rparr>)"
    and "K s" "\<And>j. job_of jid (cs_now s) = Some j \<Longrightarrow> job_request j = rid"
  shows "meets (process_compile_job ce jid s) (\<lambda>_. K) K"
proof (rule process_job_valid [where P = K and Q = K])
  show "kept (process_compile_request ce (Some jid) False rid)"
    by (rule process_request_valid [OF emit_kept [OF frame] request_failed_kept]) (auto dest: request_of_id)
  show "valid (\<lambda>s. K s \<and> request_of rid (cs_now s) = Some cr) (finalize_publish_job ce jid cr) (\<lambda>_. K) K" for cr
    using frame outside_finish by (intro kept_finalize) auto
qed (use assms(2,3) in auto)

end

section \<open>The requests of others\<close>

lemma request_edit_outside: "request_edit rid c d \<Longrightarrow> outside rid c d"
  using request_edit_frame [of rid c d] request_edit_other [of rid c d] by (auto simp: outside_def)

lemma job_leaves_alone:
  assumes "\<And>n c. leaves_alone (ce_env ce) rid c (ce_others ce n c)" "\<And>n c. leaves_alone (ce_env ce) i c (ce_others ce n c)"
    and "i \<noteq> rid" "\<And>j. job_of jid c = Some j \<Longrightarrow> job_request j = rid"
  shows "leaves_alone (ce_env ce) i c (cs_saved (snd (process_compile_job ce jid (open_catalog lease c))))"
proof -
  let ?r = "process_compile_job ce jid (open_catalog lease c)"
  have I: "I (cs_saved (snd ?r))"
    if "I c" and stable: "\<And>c d. I c \<Longrightarrow> outside rid c d \<Longrightarrow> I d" "\<And>c d. I c \<Longrightarrow> small_edit c d \<Longrightarrow> I d"
      "\<And>n c. I c \<Longrightarrow> I (ce_others ce n c)" for I
  proof -
    have law: "catalog_law ce rid I"
      unfolding catalog_law_def edit_law_def using stable request_edit_outside by blast
    have "throughout ce rid I (s\<lparr>cs_now := d\<rparr>)" if "throughout ce rid I s" "outside rid (cs_now s) d" for s :: csession and d
      using that stable(1) [of "cs_now s" d] by (simp add: throughout_def)
    moreover have "throughout ce rid I (open_catalog lease c)" using law that(1) by (simp add: throughout_def open_catalog_def)
    moreover have "job_request j = rid" if "job_of jid (cs_now (open_catalog lease c)) = Some j" for j
      using that assms(4) by (simp add: open_catalog_def)
    ultimately have "meets ?r (\<lambda>_. throughout ce rid I) (throughout ce rid I)" by (rule throughout.job_kept)
    from meets_same [OF this] show ?thesis unfolding throughout_def by blast
  qed
  have rely: "request_of i c = Some cr \<Longrightarrow> request_of i (ce_others ce n c) = Some cr"
    "compiled (ce_env ce) i v c \<Longrightarrow> compiled (ce_env ce) i v (ce_others ce n c)" for n c cr v
    using assms(2) [of c n] unfolding leaves_alone_def by blast+
  have "request_of i (cs_saved (snd ?r)) = Some cr" if "request_of i c = Some cr" for cr
    using that
  proof (rule I [where I = "\<lambda>c. request_of i c = Some cr"])
    show "request_of i d = Some cr" if "request_of i c = Some cr" "outside rid c d" for c d
      using that assms(3) by (simp add: outside_def)
  qed (simp_all add: small_edit_request rely)
  moreover have "compiled (ce_env ce) i v (cs_saved (snd ?r))" if "compiled (ce_env ce) i v c" for v
    using that
  proof (rule I [where I = "compiled (ce_env ce) i v"])
    show "compiled (ce_env ce) i v d" if "compiled (ce_env ce) i v c" "outside rid c d" for c d
      using that(2) compiled_mono [OF that(1)] by (simp add: outside_def)
  qed (simp_all add: small_edit_compiled rely)
  moreover have "catalog_ok (ce_env ce) (cs_saved (snd ?r))" if "catalog_ok (ce_env ce) c"
    using that assms(4) by (intro process_job_ok [OF assms(1)]) (auto simp: all_ok_def open_catalog_def)
  ultimately show ?thesis by (simp add: leaves_alone_def)
qed

section \<open>A lost lease\<close>

lemma lost_job_commits_nothing:
  assumes "lost_for c s" "\<And>j. job_of jid (cs_now s) = Some j \<Longrightarrow> job_request j = rid"
  shows "cs_saved (snd (process_compile_job ce jid s)) = c"
proof -
  have "meets (process_compile_job ce jid s) (\<lambda>_. lost_for c) (lost_for c)"
    using assms by (intro lost.job_kept) (auto simp: lost_for_def)
  from meets_same [OF this] show ?thesis by (simp add: lost_for_def)
qed

text \<open>The lease is lost in what the others leave after the commit \<open>n\<close>.\<close>

definition taken :: "compiler_env \<Rightarrow> lease option \<Rightarrow> nat \<Rightarrow> csession \<Rightarrow> bool" where
  "taken ce lease n s \<longleftrightarrow> cs_lease s = lease \<and> cs_healthy s
     \<and> (\<forall>c now. fence_error lease True now (cg_jobs (ce_others ce n c)) \<noteq> None)
     \<and> (cs_step s \<le> n \<or> cs_step s = Suc n \<and> (\<exists>c. cs_saved s = ce_others ce n c))"

lemma taken_commit:
  assumes "taken ce lease n s" "fst (cfence s) = Inr ()"
  shows "cs_step s \<le> n"
proof (rule ccontr)
  assume "\<not> cs_step s \<le> n"
  then obtain c where c: "cs_saved s = ce_others ce n c" using assms(1) by (auto simp: taken_def)
  have s: "cs_lease s = lease" "cs_healthy s = True" using assms(1) by (simp_all add: taken_def)
  have "fence_error lease True (cg_now (cs_now s)) (cg_jobs (ce_others ce n c)) \<noteq> None"
    using assms(1) unfolding taken_def by blast
  then obtain e where "fence_error lease True (cg_now (cs_now s)) (cg_jobs (ce_others ce n c)) = Some e" by blast
  then have "cfence s = (Inl e, s)" by (simp add: cfence_def s c)
  then show False using assms(2) by simp
qed

interpretation taken: request_kept "taken ce lease n" ce rid for ce lease n rid
proof unfold_locales
  fix s d assume s: "taken ce lease n s" "fst (cfence s) = Inr ()"
  from taken_commit [OF s] have "cs_step s < n \<or> cs_step s = n" by linarith
  with s(1) show "taken ce lease n (s\<lparr>cs_now := ce_others ce (cs_step s) d, cs_saved := ce_others ce (cs_step s) d,
      cs_step := Suc (cs_step s)\<rparr>)"
    by (auto simp: taken_def)
qed (auto simp: taken_def)

section \<open>An artifact without success\<close>

definition stranded :: "string \<Rightarrow> catalog \<Rightarrow> bool" where
  "stranded rid c \<longleftrightarrow> (\<exists>ea \<in> set (cg_artifacts c). ea_request ea = rid)
     \<and> (\<exists>cr. request_of rid c = Some cr \<and> cr_status cr \<noteq> ''succeeded'')"

lemma emit_stranded:
  assumes "stranded rid c" "cr_id cr = rid"
  shows "\<exists>e. emit_artifact ce sd sv cr a c = Inl e"
proof (cases "emit_artifact ce sd sv cr a c")
  case (Inr d)
  then show ?thesis
    using assms by (auto simp: emit_artifact_def Let_def rbind_eq_Inr add_object_def stranded_def list_ex_iff split: if_splits)
qed simp

lemma stranded_job:
  assumes others: "\<And>n c. stranded rid c \<Longrightarrow> stranded rid (ce_others ce n c)"
    and s: "stranded rid (cs_now s)" "stranded rid (cs_saved s)" "\<And>j. job_of jid (cs_now s) = Some j \<Longrightarrow> job_request j = rid"
  shows "stranded rid (cs_saved (snd (process_compile_job ce jid s)))"
proof -
  let ?K = "throughout ce rid (stranded rid)"
  have "stranded rid d" if "stranded rid c" "small_edit c d" for c d
    using that by (auto simp: stranded_def small_edit_request) (auto simp: small_edit_def)
  moreover have "stranded rid d" if "stranded rid c" "request_edit rid c d" for c d
    using that request_edit_frame [OF that(2)] request_edit_own [OF that(2)] by (auto simp: stranded_def)
  ultimately have law: "catalog_law ce rid (stranded rid)"
    using others unfolding catalog_law_def edit_law_def by blast
  have written: "valid ?K (write_artifact ce sd sv cr a) (\<lambda>_ _. False) ?K" if "cr_id cr = rid" for sd sv cr a
  proof (rule validI)
    fix s assume s: "?K s"
    then have "\<exists>e. rbind (stamp_artifact sd sv cr a) (\<lambda>b. emit_artifact ce sd sv cr b (cs_now s)) = Inl e"
      using emit_stranded [OF _ that] by (cases "stamp_artifact sd sv cr a") (auto simp: throughout_def)
    then show "meets (write_artifact ce sd sv cr a s) (\<lambda>_ _. False) ?K" using s by (auto simp: write_artifact_eq)
  qed
  have emit: "valid ?K (emit_and_close ce x terminal sd sv cr a) (\<lambda>_. ?K) ?K" if "cr_id cr = rid" for x terminal sd sv cr a
    unfolding emit_and_close_def
    by (rule valid_sbind [OF throughout.kept_mark_progress valid_sbind [OF written [OF that]]]) (simp add: valid_def)
  have "meets (process_compile_job ce jid s) (\<lambda>_. ?K) ?K"
  proof (rule process_job_valid)
    show "valid ?K (process_compile_request ce (Some jid) False rid) (\<lambda>_. ?K) ?K"
      by (rule throughout.process_request_valid [OF emit throughout.request_failed_kept]) (auto dest: request_of_id)
    show "valid (\<lambda>s. ?K s \<and> request_of rid (cs_now s) = Some cr) (finalize_publish_job ce jid cr) (\<lambda>_. ?K) ?K" for cr
      by (rule throughout.kept_finalize)
        (auto simp: throughout_def stranded_def finish_publish_def on_skill_def on_record_def request_of_def)
  qed (use law s in \<open>auto simp: throughout_def\<close>)
  from meets_same [OF this] show ?thesis unfolding throughout_def by blast
qed

end
