(* ===== verification/RepositoryPath.thy ===== *)
theory RepositoryPath
  imports PyStr
begin

text \<open>
  Paths of files in a skill's repository: \<^verbatim>\<open>_normalize_repository_path\<close> of \<^verbatim>\<open>domain/skills/service.py\<close>, the
  suffix that decides on a preview, and what a normalised path is.
\<close>

section \<open>Normalisation\<close>

definition SLASH :: char where
  "SLASH = CHR ''/''"

definition slashes :: "string \<Rightarrow> string" where
  "slashes s = map (\<lambda>c. if c = CHR 0x5C then SLASH else c) s"

text \<open>\<^verbatim>\<open>replace("//", "/")\<close> goes from left to right; the loop repeats it until there is none left.\<close>

fun halve_slashes :: "string \<Rightarrow> string" where
  "halve_slashes (a # b # s) = (if a = SLASH \<and> b = SLASH then SLASH # halve_slashes s else a # halve_slashes (b # s))"
| "halve_slashes s = s"

lemma halve_shorter: "length (halve_slashes s) \<le> length s"
  by (induction s rule: halve_slashes.induct) auto

lemma halve_shorter_if: "str_contains [SLASH, SLASH] s \<Longrightarrow> length (halve_slashes s) < length s"
proof (induction s rule: halve_slashes.induct)
  case (1 a b s)
  have "length (halve_slashes s) \<le> length s" by (rule halve_shorter)
  then show ?case using "1" by (auto simp: starts_with_def split: if_splits)
qed (auto simp: starts_with_def)

function collapse_slashes :: "string \<Rightarrow> string" where
  "collapse_slashes s = (if str_contains [SLASH, SLASH] s then collapse_slashes (halve_slashes s) else s)"
  by pat_completeness auto

termination
  by (relation "measure length") (auto intro: halve_shorter_if)

declare collapse_slashes.simps [simp del]

definition lstrip_slash :: "string \<Rightarrow> string" where
  "lstrip_slash s = dropWhile (\<lambda>c. c = SLASH) s"

definition rstrip_slash :: "string \<Rightarrow> string" where
  "rstrip_slash s = rev (dropWhile (\<lambda>c. c = SLASH) (rev s))"

definition path_parts :: "string \<Rightarrow> string list" where
  "path_parts s = filter (\<lambda>p. p \<noteq> []) (split_on SLASH s)"

definition DOT_PARTS :: "string list" where
  "DOT_PARTS = [''.'', ''..'']"

definition normalize_repository_path :: "bool \<Rightarrow> bool \<Rightarrow> string \<Rightarrow> string res" where
  "normalize_repository_path allow_empty allow_trailing_slash value =
     (let s1 = lstrip_slash (collapse_slashes (slashes (strip value)));
          s2 = (if allow_trailing_slash then rstrip_slash s1 else if ends_with [SLASH] s1 then rstrip_slash s1 else s1);
          parts = path_parts s2 in
      if parts = [] \<and> \<not> allow_empty then Inl (Invalid ''path is empty'')
      else if list_ex (\<lambda>p. p \<in> set DOT_PARTS) parts then Inl (Invalid ''path contains dots'')
      else (let p = join_with [SLASH] parts in
        if p = [] \<and> \<not> allow_empty then Inl (Invalid ''path is empty'') else Inr p))"

definition last_part :: "string \<Rightarrow> string" where
  "last_part p = last (split_on SLASH p)"

text \<open>\<^verbatim>\<open>Path(p).suffix\<close>: what follows the last dot of the name, unless it is the first or the last character.\<close>

definition path_suffix :: "string \<Rightarrow> string" where
  "path_suffix p =
     (let parts = split_on (CHR ''.'') (last_part p) in
      if length parts < 2 \<or> last parts = [] \<or> concat (butlast parts) = [] \<and> length parts = 2 then []
      else CHR ''.'' # last parts)"

definition image_media_type :: "string \<Rightarrow> string option" where
  "image_media_type ext =
     map_of [(''.gif'', ''image/gif''), (''.jpeg'', ''image/jpeg''), (''.jpg'', ''image/jpeg''), (''.png'', ''image/png''),
       (''.webp'', ''image/webp'')] ext"

section \<open>Normalised paths\<close>

definition plain_part :: "string \<Rightarrow> bool" where
  "plain_part p \<longleftrightarrow> p \<noteq> [] \<and> SLASH \<notin> set p \<and> CHR 0x5C \<notin> set p \<and> p \<notin> set DOT_PARTS"

definition safe_path :: "string \<Rightarrow> bool" where
  "safe_path p \<longleftrightarrow> p \<noteq> [] \<and> list_all plain_part (split_on SLASH p)"

lemma split_join:
  "ps \<noteq> [] \<Longrightarrow> \<forall>p \<in> set ps. c \<notin> set p \<Longrightarrow> split_on c (join_with [c] ps) = ps"
  by (induction ps rule: induct_list012) (simp_all add: split_on_atom split_on_cons)

lemma split_on_subset: "p \<in> set (split_on c s) \<Longrightarrow> set p \<subseteq> set s"
proof (induction s arbitrary: p)
  case (Cons a s)
  obtain q qs where s: "split_on c s = q # qs" by (cases "split_on c s") auto
  then have "set q \<subseteq> set s" "r \<in> set qs \<Longrightarrow> set r \<subseteq> set s" for r using Cons.IH by auto
  then show ?case using Cons.prems s by (auto split: if_splits)
qed simp

lemma no_backslash:
  "CHR 0x5C \<notin> set (slashes s)" "set (halve_slashes s) \<subseteq> insert SLASH (set s)" "set (lstrip_slash s) \<subseteq> set s"
  "set (rstrip_slash s) \<subseteq> set s"
proof -
  show "CHR 0x5C \<notin> set (slashes s)" by (auto simp: slashes_def SLASH_def)
  show "set (halve_slashes s) \<subseteq> insert SLASH (set s)" by (induction s rule: halve_slashes.induct) auto
  show "set (lstrip_slash s) \<subseteq> set s" by (auto simp: lstrip_slash_def dest: set_dropWhileD)
  show "set (rstrip_slash s) \<subseteq> set s" by (auto simp: rstrip_slash_def dest: set_dropWhileD)
qed

lemma collapse_subset: "set (collapse_slashes s) \<subseteq> insert SLASH (set s)"
proof (induction s rule: collapse_slashes.induct)
  case (1 s)
  then show ?case using no_backslash(2) [of s] by (subst collapse_slashes.simps) auto
qed

lemma normalize_path_safe:
  assumes "normalize_repository_path allow_empty trailing v = Inr p" "p \<noteq> []"
  shows "safe_path p"
proof -
  define s1 where "s1 = lstrip_slash (collapse_slashes (slashes (strip v)))"
  define s2 where "s2 = (if trailing then rstrip_slash s1 else if ends_with [SLASH] s1 then rstrip_slash s1 else s1)"
  have p: "p = join_with [SLASH] (path_parts s2)" and dots: "\<forall>q \<in> set (path_parts s2). q \<notin> set DOT_PARTS"
    using assms(1) by (auto simp: normalize_repository_path_def Let_def s1_def s2_def list_ex_iff split: if_splits)
  have bs: "CHR 0x5C \<notin> set s2"
    using no_backslash(1) [of "strip v"] collapse_subset [of "slashes (strip v)"] no_backslash(3) [of "collapse_slashes (slashes (strip v))"]
      no_backslash(4) [of s1] by (auto simp: s2_def s1_def SLASH_def)
  have parts: "SLASH \<notin> set q \<and> CHR 0x5C \<notin> set q \<and> q \<noteq> []" if "q \<in> set (path_parts s2)" for q
    using that bs split_on_no_sep [of q SLASH s2] split_on_subset [of q SLASH s2] by (auto simp: path_parts_def)
  have "path_parts s2 \<noteq> []" using assms(2) p by auto
  then have "split_on SLASH p = path_parts s2" using parts unfolding p by (intro split_join) auto
  then show ?thesis using parts dots assms(2) by (simp add: safe_path_def plain_part_def list_all_iff)
qed

text \<open>A normalised path without white space around it is left as it is.\<close>

lemma split_on_append: "split_on c (a @ c # b) = split_on c a @ split_on c b"
  by (induction a) (auto split: list.splits)

lemma safe_path_shape:
  assumes "safe_path p"
  shows "CHR 0x5C \<notin> set p" "\<not> str_contains [SLASH, SLASH] p" "hd p \<noteq> SLASH" "last p \<noteq> SLASH"
proof -
  have parts: "[] \<notin> set (split_on SLASH p)" "p \<noteq> []" "\<forall>q \<in> set (split_on SLASH p). CHR 0x5C \<notin> set q"
    using assms by (auto simp: safe_path_def plain_part_def list_all_iff)
  have join: "CHR 0x5C \<notin> set (join_with [SLASH] qs)" if "\<forall>q \<in> set qs. CHR 0x5C \<notin> set q" for qs
    using that by (induction qs rule: induct_list012) (auto simp: SLASH_def)
  show "CHR 0x5C \<notin> set p" using join [OF parts(3)] by (simp add: join_split)
  show "\<not> str_contains [SLASH, SLASH] p"
    using parts(1) by (auto simp: str_contains_iff split_on_append)
  show "hd p \<noteq> SLASH" using parts(1,2) by (cases p) auto
  show "last p \<noteq> SLASH"
  proof
    assume "last p = SLASH"
    then have "p = butlast p @ SLASH # []" using parts(2) by (metis append_butlast_last_id)
    then show False using parts(1) split_on_append [of SLASH "butlast p" "[]"] by simp
  qed
qed

lemma normalize_path_stable:
  assumes "safe_path p" "strip p = p"
  shows "normalize_repository_path allow_empty trailing p = Inr p"
proof -
  note shape = safe_path_shape [OF assms(1)]
  have parts: "p \<noteq> []" "\<forall>q \<in> set (split_on SLASH p). q \<noteq> [] \<and> q \<notin> set DOT_PARTS"
    using assms(1) by (auto simp: safe_path_def plain_part_def list_all_iff)
  have "slashes p = p" using shape(1) by (auto simp: slashes_def intro: map_idI)
  moreover have "collapse_slashes p = p" using shape(2) by (subst collapse_slashes.simps) simp
  moreover have "lstrip_slash p = p" using shape(3) parts(1) by (cases p) (auto simp: lstrip_slash_def)
  moreover have "rstrip_slash p = p" using shape(4) parts(1) by (cases p rule: rev_cases) (auto simp: rstrip_slash_def)
  moreover have "path_parts p = split_on SLASH p" using parts(2) by (auto simp: path_parts_def intro: filter_True)
  ultimately show ?thesis
    using assms(2) parts by (auto simp: normalize_repository_path_def Let_def join_split list_ex_iff)
qed

end
