(* ===== verification/Drafts.thy ===== *)
theory Drafts
  imports Publish RepositoryPath
begin

text \<open>
  The draft of a skill (\<^verbatim>\<open>domain/skills/service.py\<close>): metadata, source and files of its repository, saved
  through the source host and mirrored in the draft's row. The host is a parameter that answers as it
  likes, knowing what was written to it before; every write is recorded.
\<close>

section \<open>The host and the session\<close>

datatype host_call =
    Commit_source string string string string string string
  | Commit_file string string string string string string
  | Rename_project string string
  | Delete_project string

record repository_file =
  rf_path :: string
  rf_name :: string
  rf_content :: string
  rf_ref :: string
  rf_head :: string

record tree_entry =
  te_id :: string
  te_name :: string
  te_path :: string
  te_type :: string
  te_mode :: "string option"

record workshop =
  wk_head :: "host_call list \<Rightarrow> string \<Rightarrow> string \<Rightarrow> string res"
  wk_source :: "host_call list \<Rightarrow> string \<Rightarrow> string \<Rightarrow> source_bundle res"
  wk_file :: "host_call list \<Rightarrow> string \<Rightarrow> string \<Rightarrow> string \<Rightarrow> repository_file res"
  wk_tree :: "host_call list \<Rightarrow> string \<Rightarrow> string \<Rightarrow> string option \<Rightarrow> tree_entry list res"
  wk_bytes :: "host_call list \<Rightarrow> string \<Rightarrow> string \<Rightarrow> string \<Rightarrow> string res"
  wk_missing :: "exc \<Rightarrow> bool"
  wk_write :: "host_call list \<Rightarrow> host_call \<Rightarrow> string res"
  wk_model :: "dict \<Rightarrow> dict option"
  wk_parse :: "string \<Rightarrow> dict option"
  wk_render :: "dict \<Rightarrow> string"

record desk =
  dk_catalog :: catalog
  dk_calls :: "host_call list"

type_synonym 'a desk_act = "(desk, 'a) action"

text \<open>A read of the host, a write to it, and the change of the rows with their commit.\<close>

definition ask_host :: "(host_call list \<Rightarrow> 'a res) \<Rightarrow> 'a desk_act" where
  "ask_host f s = (f (dk_calls s), s)"

definition write_host :: "workshop \<Rightarrow> host_call \<Rightarrow> string desk_act" where
  "write_host w x s = (wk_write w (dk_calls s) x, s\<lparr>dk_calls := dk_calls s @ [x]\<rparr>)"

definition commit_rows_of :: "(catalog \<Rightarrow> catalog) \<Rightarrow> unit desk_act" where
  "commit_rows_of f s = (Inr (), s\<lparr>dk_catalog := f (dk_catalog s)\<rparr>)"

definition require_definition :: "string \<Rightarrow> skill_definition desk_act" where
  "require_definition sid s = (case skill_of sid (dk_catalog s) of None \<Rightarrow> Inl NotFound | Some sd \<Rightarrow> Inr sd, s)"

definition require_draft_version :: "skill_definition \<Rightarrow> skill_version desk_act" where
  "require_draft_version sd s = (case draft_version sd (dk_catalog s) of None \<Rightarrow> Inl NotFound | Some v \<Rightarrow> Inr v, s)"

definition with_draft :: "string \<Rightarrow> (skill_definition \<Rightarrow> skill_version \<Rightarrow> 'a desk_act) \<Rightarrow> 'a desk_act" where
  "with_draft sid f = sbind (require_definition sid) (\<lambda>sd. sbind (require_draft_version sd) (f sd))"

definition guard_that :: "bool \<Rightarrow> exc \<Rightarrow> unit desk_act" where
  "guard_that b e = slift (if b then Inr () else Inl e)"

definition MANIFEST_PATH :: string where
  "MANIFEST_PATH = ''skill.yaml''"

definition set_draft :: "string \<Rightarrow> string \<Rightarrow> dict \<Rightarrow> catalog \<Rightarrow> catalog" where
  "set_draft vid sha doc = on_version vid (\<lambda>v. v\<lparr>sv_commit := Some sha, sv_manifest := JObj (manifest_snapshot doc),
     sv_policy := JObj (runtime_policy_snapshot doc)\<rparr>)"

definition set_head :: "string \<Rightarrow> string \<Rightarrow> catalog \<Rightarrow> catalog" where
  "set_head vid sha = on_version vid (\<lambda>v. v\<lparr>sv_commit := Some sha\<rparr>)"

section \<open>Metadata\<close>

text \<open>SQL's \<^verbatim>\<open>trim\<close> takes away blanks only.\<close>

definition sql_trim :: "string \<Rightarrow> string" where
  "sql_trim s = rev (dropWhile (\<lambda>c. c = CHR '' '') (rev (dropWhile (\<lambda>c. c = CHR '' '') s)))"

definition get_active_skill_definition_by_name :: "string \<Rightarrow> string \<Rightarrow> catalog \<Rightarrow> skill_definition option" where
  "get_active_skill_definition_by_name name sid c =
     find (\<lambda>x. sd_id x \<noteq> sid \<and> sd_status x \<noteq> ''archived'' \<and> lower (sql_trim (sd_name x)) = lower (strip name)) (cg_skills c)"

definition with_identity :: "string option \<Rightarrow> string option \<Rightarrow> dict \<Rightarrow> dict" where
  "with_identity name description doc =
     (let skill = dict_or_empty (dget doc ''skill''); i0 = doc_section ''identity'' doc;
          i1 = (case name of None \<Rightarrow> i0 | Some n \<Rightarrow> dset ''name'' (JStr n) i0);
          i2 = (case description of None \<Rightarrow> i1 | Some d \<Rightarrow> dset ''description'' (JStr d) i1) in
      dset ''skill'' (JObj (dset ''identity'' (JObj i2) skill)) doc)"

definition renamed :: "string option \<Rightarrow> string option \<Rightarrow> skill_definition \<Rightarrow> skill_definition" where
  "renamed name description sd =
     sd\<lparr>sd_name := (case name of None \<Rightarrow> sd_name sd | Some n \<Rightarrow> n),
        sd_description := (case description of None \<Rightarrow> sd_description sd | Some d \<Rightarrow> d)\<rparr>"

definition update_skill_metadata :: "workshop \<Rightarrow> string \<Rightarrow> string option \<Rightarrow> string option \<Rightarrow> unit desk_act" where
  "update_skill_metadata w sid name description = with_draft sid (\<lambda>sd draft.
     if name = None \<and> description = None then sret ()
     else sbind (sasks (\<lambda>s. case name of None \<Rightarrow> None | Some n \<Rightarrow> get_active_skill_definition_by_name n (sd_id sd) (dk_catalog s))) (\<lambda>other.
       sbind (guard_that (other = None) (Conflict ''name'')) (\<lambda>_.
       sbind (ask_host (\<lambda>h. wk_source w h (sd_project sd) (sd_branch sd))) (\<lambda>source.
       sbind (slift (document_from_version (wk_model w) (wk_parse w) draft (so_yaml source))) (\<lambda>d0.
       let doc = document_with_prompt_material (Some (so_readme source)) (Some (so_skill_md source)) (with_identity name description d0) in
       sbind (write_host w (Commit_source (sd_project sd) (sd_branch sd) (so_readme source) (so_skill_md source) (wk_render w doc)
         ''Update skill metadata via PSOP WEB IDE'')) (\<lambda>sha.
       sbind (case name of None \<Rightarrow> sret []
           | Some n \<Rightarrow> if n = sd_name sd then sret [] else write_host w (Rename_project (sd_project sd) n)) (\<lambda>_.
         commit_rows_of (\<lambda>c. on_skill (sd_id sd) (renamed name description) (set_draft (sv_id draft) sha doc c)))))))))"

definition delete_skill :: "workshop \<Rightarrow> string \<Rightarrow> string \<Rightarrow> unit desk_act" where
  "delete_skill w sid confirmation =
     sbind (require_definition sid) (\<lambda>sd.
     sbind (guard_that (confirmation = sd_name sd) (Invalid ''confirmation'')) (\<lambda>_.
       if sd_status sd = ''archived'' then sret ()
       else sbind (write_host w (Delete_project (sd_project sd))) (\<lambda>_.
         commit_rows_of (on_skill (sd_id sd) (\<lambda>x. x\<lparr>sd_status := ''archived''\<rparr>)))))"

section \<open>The source as a whole\<close>

record source_view =
  sw_readme :: string
  sw_skill_md :: string
  sw_yaml :: string
  sw_ref :: string
  sw_head :: string

definition get_skill_source :: "workshop \<Rightarrow> string \<Rightarrow> source_view desk_act" where
  "get_skill_source w sid = with_draft sid (\<lambda>sd draft.
     sbind (ask_host (\<lambda>h. wk_source w h (sd_project sd) (sv_ref draft))) (\<lambda>source.
     sbind (slift (document_from_version (wk_model w) (wk_parse w) draft (so_yaml source))) (\<lambda>d0.
     let doc = document_with_prompt_material (Some (so_readme source)) (Some (so_skill_md source)) d0 in
     sbind (if sv_commit draft \<noteq> Some (so_head source) \<or> \<not> py_eq (sv_manifest draft) (JObj (manifest_snapshot doc))
            then commit_rows_of (set_draft (sv_id draft) (so_head source) doc) else sret ()) (\<lambda>_.
       sret \<lparr>sw_readme = so_readme source, sw_skill_md = so_skill_md source, sw_yaml = wk_render w doc, sw_ref = sv_ref draft,
             sw_head = so_head source\<rparr>))))"

definition same_head :: "workshop \<Rightarrow> skill_definition \<Rightarrow> skill_version \<Rightarrow> string \<Rightarrow> unit desk_act" where
  "same_head w sd draft base =
     sbind (ask_host (\<lambda>h. wk_head w h (sd_project sd) (sv_ref draft))) (\<lambda>head. guard_that (head = base) (Conflict ''source''))"

definition save_skill_source :: "workshop \<Rightarrow> string \<Rightarrow> string \<Rightarrow> string \<Rightarrow> string \<Rightarrow> source_view desk_act" where
  "save_skill_source w sid readme skill_md base = with_draft sid (\<lambda>sd draft.
     sbind (same_head w sd draft base) (\<lambda>_.
     sbind (slift (document_from_version (wk_model w) (wk_parse w) draft [])) (\<lambda>d0.
     let doc = document_with_prompt_material (Some readme) (Some skill_md) d0 in
     sbind (write_host w (Commit_source (sd_project sd) (sv_ref draft) readme skill_md (wk_render w doc)
       ''Update skill source via PSOP WEB IDE'')) (\<lambda>sha.
     sbind (commit_rows_of (set_draft (sv_id draft) sha doc)) (\<lambda>_.
       sret \<lparr>sw_readme = readme, sw_skill_md = skill_md, sw_yaml = wk_render w doc, sw_ref = sv_ref draft, sw_head = sha\<rparr>)))))"

section \<open>The tree and its files\<close>

definition follow_head :: "skill_version \<Rightarrow> string \<Rightarrow> unit desk_act" where
  "follow_head draft sha =
     (if sv_commit draft \<noteq> Some sha then commit_rows_of (set_head (sv_id draft) sha) else sret ())"

text \<open>The key \<^verbatim>\<open>(type != "tree", name.lower())\<close>: sorting is stable, so by the name first.\<close>

definition sorted_entries :: "tree_entry list \<Rightarrow> tree_entry list" where
  "sorted_entries es = sort_key (\<lambda>e. te_type e \<noteq> ''tree'') (sort_key (\<lambda>e. lower (te_name e)) es)"

definition list_repository_tree :: "workshop \<Rightarrow> string \<Rightarrow> string option \<Rightarrow> (string \<times> string \<times> tree_entry list) desk_act" where
  "list_repository_tree w sid path = with_draft sid (\<lambda>sd draft.
     sbind (slift (normalize_repository_path True False (case path of None \<Rightarrow> [] | Some p \<Rightarrow> p))) (\<lambda>p.
     sbind (ask_host (\<lambda>h. wk_head w h (sd_project sd) (sv_ref draft))) (\<lambda>head.
     sbind (ask_host (\<lambda>h. wk_tree w h (sd_project sd) (sv_ref draft) (if p = [] then None else Some p))) (\<lambda>es.
     sbind (follow_head draft head) (\<lambda>_. sret (p, head, sorted_entries es))))))"

definition manifest_view :: "workshop \<Rightarrow> skill_definition \<Rightarrow> skill_version \<Rightarrow> repository_file desk_act" where
  "manifest_view w sd draft =
     sbind (ask_host (\<lambda>h. wk_head w h (sd_project sd) (sv_ref draft))) (\<lambda>head.
     sbind (ask_host (\<lambda>h. wk_source w h (sd_project sd) (sv_ref draft))) (\<lambda>source.
     sbind (slift (document_from_version (wk_model w) (wk_parse w) draft [])) (\<lambda>d0.
     let doc = document_with_prompt_material (Some (so_readme source)) (Some (so_skill_md source)) d0 in
     sbind (if sv_commit draft \<noteq> Some head then commit_rows_of (set_draft (sv_id draft) head doc) else sret ()) (\<lambda>_.
       sret \<lparr>rf_path = MANIFEST_PATH, rf_name = last_part MANIFEST_PATH, rf_content = wk_render w doc, rf_ref = sv_ref draft,
             rf_head = head\<rparr>))))"

definition get_repository_file :: "workshop \<Rightarrow> string \<Rightarrow> string \<Rightarrow> repository_file desk_act" where
  "get_repository_file w sid path = with_draft sid (\<lambda>sd draft.
     sbind (slift (normalize_repository_path False False path)) (\<lambda>p.
       if p = MANIFEST_PATH then manifest_view w sd draft
       else sbind (ask_host (\<lambda>h. wk_file w h (sd_project sd) (sv_ref draft) p)) (\<lambda>f.
         sbind (follow_head draft (rf_head f)) (\<lambda>_. sret f))))"

text \<open>\<open>wk_missing\<close> are the host's answers with status 404.\<close>

definition get_repository_image_content :: "workshop \<Rightarrow> string \<Rightarrow> string \<Rightarrow> string \<Rightarrow> (string \<times> string \<times> string) desk_act" where
  "get_repository_image_content w sid path ref =
     sbind (require_definition sid) (\<lambda>sd.
     sbind (slift (normalize_repository_path False False path)) (\<lambda>p.
     sbind (guard_that (strip ref \<noteq> []) (Invalid ''commit'')) (\<lambda>_.
       case image_media_type (lower (path_suffix p)) of
         None \<Rightarrow> slift (Inl (Invalid ''image type''))
       | Some mime \<Rightarrow>
           sbind (ask_host (\<lambda>h. case wk_bytes w h (sd_project sd) (strip ref) p of
               Inl e \<Rightarrow> Inl (if wk_missing w e then NotFound else e) | Inr x \<Rightarrow> Inr x)) (\<lambda>content.
             sret (content, mime, last_part p)))))"

definition file_view :: "skill_version \<Rightarrow> string \<Rightarrow> string \<Rightarrow> string \<Rightarrow> repository_file" where
  "file_view draft path content sha =
     \<lparr>rf_path = path, rf_name = last_part path, rf_content = content, rf_ref = sv_ref draft, rf_head = sha\<rparr>"

text \<open>The manifest cannot be changed as a file, so a saved file comes without a document of its own.\<close>

definition validate_repository_manifest_change :: "string \<Rightarrow> unit desk_act" where
  "validate_repository_manifest_change path = guard_that (path \<noteq> MANIFEST_PATH) (Invalid ''skill.yaml is generated'')"

definition sync_draft_after_repository_commit ::
    "workshop \<Rightarrow> skill_version \<Rightarrow> string \<Rightarrow> string option \<Rightarrow> string option \<Rightarrow> unit desk_act" where
  "sync_draft_after_repository_commit w draft sha readme skill_md =
     (if readme = None \<and> skill_md = None then commit_rows_of (set_head (sv_id draft) sha)
      else sbind (slift (document_from_version (wk_model w) (wk_parse w) draft [])) (\<lambda>d0.
        commit_rows_of (set_draft (sv_id draft) sha (document_with_prompt_material readme skill_md d0))))"

definition if_path :: "string \<Rightarrow> string \<Rightarrow> string \<Rightarrow> string option" where
  "if_path p path content = (if path = p then Some content else None)"

definition commit_file ::
    "workshop \<Rightarrow> skill_definition \<Rightarrow> skill_version \<Rightarrow> string \<Rightarrow> string \<Rightarrow> string \<Rightarrow> string \<Rightarrow> repository_file desk_act" where
  "commit_file w sd draft path content act message =
     sbind (write_host w (Commit_file (sd_project sd) (sv_ref draft) path content act message)) (\<lambda>sha.
     sbind (sync_draft_after_repository_commit w draft sha (if_path ''README.md'' path content) (if_path ''SKILL.md'' path content))
       (\<lambda>_. sret (file_view draft path content sha)))"

definition save_repository_file :: "workshop \<Rightarrow> string \<Rightarrow> string \<Rightarrow> string \<Rightarrow> string \<Rightarrow> repository_file desk_act" where
  "save_repository_file w sid path content base = with_draft sid (\<lambda>sd draft.
     sbind (slift (normalize_repository_path False False path)) (\<lambda>p.
     sbind (same_head w sd draft base) (\<lambda>_.
     sbind (validate_repository_manifest_change p) (\<lambda>_.
       commit_file w sd draft p content ''update'' (''Update '' @ p @ '' via PSOP WEB IDE'')))))"

definition create_repository_file :: "workshop \<Rightarrow> string \<Rightarrow> string \<Rightarrow> string \<Rightarrow> repository_file desk_act" where
  "create_repository_file w sid path content = with_draft sid (\<lambda>sd draft.
     sbind (slift (normalize_repository_path False False path)) (\<lambda>p.
     sbind (validate_repository_manifest_change p) (\<lambda>_.
       commit_file w sd draft p content ''create'' (''Create '' @ p @ '' via PSOP WEB IDE''))))"

definition create_repository_folder :: "workshop \<Rightarrow> string \<Rightarrow> string \<Rightarrow> repository_file desk_act" where
  "create_repository_folder w sid path = with_draft sid (\<lambda>sd draft.
     sbind (slift (normalize_repository_path False True path)) (\<lambda>p.
     let folder = rstrip_slash p in
       commit_file w sd draft (folder @ ''/.gitkeep'') [] ''create'' (''Create folder '' @ folder @ '' via PSOP WEB IDE'')))"

section \<open>Any operation\<close>

datatype draft_op =
    Update_metadata "string option" "string option"
  | Delete_skill string
  | Read_source
  | Save_source string string string
  | List_tree "string option"
  | Read_file string
  | Read_image string string
  | Save_file string string string
  | Create_file string string
  | Create_folder string

definition no_result :: "'a desk_act \<Rightarrow> unit desk_act" where
  "no_result f = sbind f (\<lambda>_. sret ())"

fun perform :: "workshop \<Rightarrow> string \<Rightarrow> draft_op \<Rightarrow> unit desk_act" where
  "perform w sid (Update_metadata name description) = update_skill_metadata w sid name description"
| "perform w sid (Delete_skill confirmation) = delete_skill w sid confirmation"
| "perform w sid Read_source = no_result (get_skill_source w sid)"
| "perform w sid (Save_source readme skill_md base) = no_result (save_skill_source w sid readme skill_md base)"
| "perform w sid (List_tree path) = no_result (list_repository_tree w sid path)"
| "perform w sid (Read_file path) = no_result (get_repository_file w sid path)"
| "perform w sid (Read_image path ref) = no_result (get_repository_image_content w sid path ref)"
| "perform w sid (Save_file path content base) = no_result (save_repository_file w sid path content base)"
| "perform w sid (Create_file path content) = no_result (create_repository_file w sid path content)"
| "perform w sid (Create_folder path) = no_result (create_repository_folder w sid path)"

definition perform_all :: "workshop \<Rightarrow> (string \<times> draft_op) list \<Rightarrow> desk \<Rightarrow> desk" where
  "perform_all w ops s = fold (\<lambda>x s. snd (perform w (fst x) (snd x) s)) ops s"

end
