(* ===== verification/DraftSafety.thy ===== *)
theory DraftSafety
  imports CompileSafety Drafts
begin

text \<open>
  What the operations on a draft can do: they change the contents of rows and never a status, a key or a published version,
  and they write to the skill's own project only, to safe paths and never to the manifest.
\<close>

section \<open>Drafting\<close>

definition skill_frame :: "skill_definition \<Rightarrow> string \<times> string \<times> string \<times> string \<times> string \<times> string option \<times> string option" where
  "skill_frame sd = (sd_id sd, sd_key sd, sd_group sd, sd_project sd, sd_branch sd, sd_draft sd, sd_published sd)"

definition version_frame :: "skill_version \<Rightarrow> string \<times> string \<times> int \<times> string \<times> string" where
  "version_frame sv = (sv_id sv, sv_skill sv, sv_no sv, sv_status sv, sv_ref sv)"

definition drafted :: "catalog \<Rightarrow> catalog \<Rightarrow> bool" where
  "drafted c d \<longleftrightarrow> map skill_frame (cg_skills d) = map skill_frame (cg_skills c)
     \<and> map version_frame (cg_versions d) = map version_frame (cg_versions c)
     \<and> d\<lparr>cg_skills := cg_skills c, cg_versions := cg_versions c\<rparr> = c"

lemma drafted_refl [simp]: "drafted c c"
  by (simp add: drafted_def)

lemma drafted_trans: "drafted c d \<Longrightarrow> drafted d e \<Longrightarrow> drafted c e"
  unfolding drafted_def by (metis catalog.surjective catalog.update_convs(1,2))

lemma on_row_of_frame: "(\<And>r. frame (f r) = frame r) \<Longrightarrow> map frame (on_row_of key i f rows) = map frame rows"
  by (simp add: on_row_of_def)

lemma drafted_version: "(\<And>v. version_frame (f v) = version_frame v) \<Longrightarrow> drafted c (on_version i f c)"
proof -
  assume "\<And>v. version_frame (f v) = version_frame v"
  then have "version_frame (changed_version n f v) = version_frame v" for n v
    by (simp add: changed_version_def) (simp add: version_frame_def)
  then show ?thesis unfolding drafted_def on_version_def by (simp add: on_row_of_frame [where frame = version_frame])
qed

lemma drafted_skill: "(\<And>sd. skill_frame (f sd) = skill_frame sd) \<Longrightarrow> drafted c (on_skill i f c)"
  unfolding drafted_def on_skill_def by (simp add: on_row_of_frame [where frame = skill_frame])

lemma drafted_edits: "drafted c (set_draft v sha doc c)" "drafted c (set_head v sha c)"
    "drafted c (on_skill i (renamed n t) c)" "drafted c (on_skill i (\<lambda>x. x\<lparr>sd_status := y\<rparr>) c)"
  unfolding set_draft_def set_head_def
  by (intro drafted_version drafted_skill; simp add: version_frame_def skill_frame_def renamed_def)+

lemma row_of_frame:
  assumes "map frame ys = map frame xs" "\<And>x y. frame x = frame y \<Longrightarrow> key x = key y"
  shows "map_option frame (row_of key i ys) = map_option frame (row_of key i xs)"
proof -
  have "list_all2 (\<lambda>y x. frame y = frame x) ys xs" using assms(1) by (simp add: list_all2_conv_all_nth list_eq_iff_nth_eq)
  then show ?thesis unfolding row_of_def by (induction rule: list_all2_induct) (auto dest: assms(2))
qed

lemma drafted_skill_of: "drafted c d \<Longrightarrow> map_option skill_frame (skill_of i d) = map_option skill_frame (skill_of i c)"
  unfolding skill_of_def drafted_def by (elim conjE, rule row_of_frame) (auto simp: skill_frame_def)

lemma drafted_skill_of_Some: "drafted c d \<Longrightarrow> skill_of i d = Some sd \<Longrightarrow> \<exists>x. skill_of i c = Some x \<and> skill_frame x = skill_frame sd"
  using drafted_skill_of [of c d i] by (cases "skill_of i c") auto

lemma drafted_version_of: "drafted c d \<Longrightarrow> map_option version_frame (version_of i d) = map_option version_frame (version_of i c)"
  unfolding version_of_def drafted_def by (elim conjE, rule row_of_frame) (auto simp: version_frame_def)

lemma drafted_rest:
  assumes "drafted c d"
  shows "cg_requests d = cg_requests c" "cg_artifacts d = cg_artifacts c" "cg_objects d = cg_objects c" "cg_jobs d = cg_jobs c"
proof -
  have d: "d\<lparr>cg_skills := cg_skills c, cg_versions := cg_versions c\<rparr> = c" using assms by (simp add: drafted_def)
  show "cg_requests d = cg_requests c" "cg_artifacts d = cg_artifacts c" "cg_objects d = cg_objects c" "cg_jobs d = cg_jobs c"
    by (subst d [symmetric], simp)+
qed

section \<open>Allowed writes\<close>

fun allowed_call :: "string \<Rightarrow> host_call \<Rightarrow> bool" where
  "allowed_call pj (Commit_source p branch readme skill_md yaml message) = (p = pj)"
| "allowed_call pj (Commit_file p branch path content act message) = (p = pj \<and> safe_path path \<and> path \<noteq> MANIFEST_PATH)"
| "allowed_call pj (Rename_project p name) = (p = pj)"
| "allowed_call pj (Delete_project p) = (p = pj)"

lemma split_on_snoc_part: "p \<noteq> [] \<Longrightarrow> SLASH \<notin> set q \<Longrightarrow> split_on SLASH (p @ SLASH # q) = split_on SLASH p @ [q]"
  by (simp add: split_on_append split_on_atom)

lemma folder_path_safe:
  assumes "normalize_repository_path False trailing v = Inr p"
  shows "safe_path (rstrip_slash p @ ''/.gitkeep'')" "rstrip_slash p @ ''/.gitkeep'' \<noteq> MANIFEST_PATH"
proof -
  have "p \<noteq> []" using assms by (auto simp: normalize_repository_path_def Let_def split: if_splits)
  then have safe: "safe_path p" by (rule normalize_path_safe [OF assms])
  have "rstrip_slash p = p"
    using safe_path_shape(4) [OF safe] \<open>p \<noteq> []\<close> by (cases p rule: rev_cases) (auto simp: rstrip_slash_def)
  moreover have "split_on SLASH (p @ SLASH # ''.gitkeep'') = split_on SLASH p @ [''.gitkeep'']"
    using \<open>p \<noteq> []\<close> by (intro split_on_snoc_part) (auto simp: SLASH_def)
  ultimately show "safe_path (rstrip_slash p @ ''/.gitkeep'')"
    using safe by (simp add: safe_path_def plain_part_def DOT_PARTS_def SLASH_def)
  show "rstrip_slash p @ ''/.gitkeep'' \<noteq> MANIFEST_PATH"
  proof
    assume "rstrip_slash p @ ''/.gitkeep'' = MANIFEST_PATH"
    then have "last (rstrip_slash p @ ''/.gitkeep'') = last MANIFEST_PATH" by simp
    then show False by (simp add: MANIFEST_PATH_def)
  qed
qed

section \<open>What is kept\<close>

locale desk_kept =
  fixes K :: "desk \<Rightarrow> bool" and sid pj :: string
  assumes edit: "K s \<Longrightarrow> drafted (dk_catalog s) d \<Longrightarrow> K (s\<lparr>dk_catalog := d\<rparr>)"
    and call: "K s \<Longrightarrow> allowed_call pj x \<Longrightarrow> K (s\<lparr>dk_calls := dk_calls s @ [x]\<rparr>)"
    and project: "K s \<Longrightarrow> skill_of sid (dk_catalog s) = Some sd \<Longrightarrow> sd_project sd = pj"
begin

definition kept :: "'a desk_act \<Rightarrow> bool" where
  "kept f \<longleftrightarrow> valid K f (\<lambda>_. K) K"

lemma kept_sbind: "kept f \<Longrightarrow> (\<And>x. kept (g x)) \<Longrightarrow> kept (sbind f g)"
  unfolding kept_def by (rule valid_sbind)

lemma kept_pure [simp]: "kept (sret x)" "kept (slift r)" "kept (sasks f)" "kept (ask_host g)" "kept (guard_that b e)"
  by (auto simp: kept_def valid_def meets_def sret_def slift_def sasks_def ask_host_def guard_that_def split: sum.splits)

lemma kept_write: "allowed_call pj x \<Longrightarrow> kept (write_host w x)"
  by (auto simp: kept_def valid_def meets_def write_host_def call split: sum.splits)

lemma kept_commit: "(\<And>c. drafted c (f c)) \<Longrightarrow> kept (commit_rows_of f)"
  by (auto simp: kept_def valid_def commit_rows_of_def edit)

lemma kept_definition: "(\<And>sd. sd_project sd = pj \<Longrightarrow> kept (f sd)) \<Longrightarrow> kept (sbind (require_definition sid) f)"
  using project by (fastforce simp: kept_def valid_def sbind_def require_definition_def split: option.splits)

lemma kept_draft: "(\<And>sd v. sd_project sd = pj \<Longrightarrow> kept (f sd v)) \<Longrightarrow> kept (with_draft sid f)"
  unfolding with_draft_def
  by (intro kept_definition kept_sbind) (auto simp: kept_def valid_def meets_def require_draft_version_def split: option.splits)

lemma kept_if: "kept f \<Longrightarrow> kept g \<Longrightarrow> kept (if b then f else g)"
  by simp

lemma kept_path:
  assumes "\<And>p. normalize_repository_path allow_empty trailing v = Inr p \<Longrightarrow> kept (f p)"
  shows "kept (sbind (slift (normalize_repository_path allow_empty trailing v)) f)"
  using assms by (cases "normalize_repository_path allow_empty trailing v") (auto simp: kept_def valid_def sbind_def slift_def)

lemma kept_guard: "(b \<Longrightarrow> kept f) \<Longrightarrow> kept (sbind (guard_that b e) (\<lambda>_. f))"
  by (cases b) (auto simp: kept_def valid_def sbind_def slift_def guard_that_def)

lemmas kept_rules = kept_pure kept_if kept_sbind kept_draft kept_commit kept_write drafted_edits

lemma kept_commit_file:
  assumes "sd_project sd = pj" "safe_path p" "p \<noteq> MANIFEST_PATH"
  shows "kept (commit_file w sd v p content act message)"
  unfolding commit_file_def sync_draft_after_repository_commit_def using assms by (intro kept_rules) simp_all

lemma kept_files:
  "kept (save_repository_file w sid path content base)" "kept (create_repository_file w sid path content)"
  "kept (create_repository_folder w sid path)"
proof -
  have safe: "safe_path p" if "normalize_repository_path False tr v = Inr p" for p v tr
    using that normalize_path_safe [OF that] by (auto simp: normalize_repository_path_def Let_def split: if_splits)
  show "kept (save_repository_file w sid path content base)"
    unfolding save_repository_file_def validate_repository_manifest_change_def same_head_def
    by (intro kept_draft kept_path kept_sbind [OF kept_sbind] kept_guard kept_commit_file kept_pure safe)
  show "kept (create_repository_file w sid path content)"
    unfolding create_repository_file_def validate_repository_manifest_change_def
    by (intro kept_draft kept_path kept_guard kept_commit_file safe)
  show "kept (create_repository_folder w sid path)"
    unfolding create_repository_folder_def Let_def by (intro kept_draft kept_path kept_commit_file folder_path_safe)
qed

lemma kept_source:
  "kept (get_skill_source w sid)" "kept (save_skill_source w sid readme skill_md base)"
  unfolding get_skill_source_def save_skill_source_def same_head_def Let_def
  by (intro kept_rules; simp)+

lemma kept_reads:
  "kept (list_repository_tree w sid dir)" "kept (get_repository_file w sid path)" "kept (get_repository_image_content w sid path ref)"
proof -
  show "kept (list_repository_tree w sid dir)" "kept (get_repository_file w sid path)"
    unfolding list_repository_tree_def get_repository_file_def manifest_view_def follow_head_def Let_def by (intro kept_rules)+
  show "kept (get_repository_image_content w sid path ref)"
    unfolding get_repository_image_content_def
    by (intro kept_definition kept_sbind kept_pure) (auto intro!: kept_sbind kept_pure split: option.splits)
qed

lemma kept_metadata: "kept (update_skill_metadata w sid name description)"
proof -
  have "drafted c (on_skill i (renamed n t) (set_draft v sha doc c))" for c i n t v sha doc
    by (rule drafted_trans [OF drafted_edits(1) drafted_edits(3)])
  then show ?thesis
    unfolding update_skill_metadata_def Let_def
    by (intro kept_draft kept_if kept_pure kept_sbind kept_commit kept_write)
      (auto intro!: kept_write kept_pure kept_if split: option.splits)
qed

lemma kept_delete: "kept (delete_skill w sid confirmation)"
  unfolding delete_skill_def by (intro kept_definition kept_rules) simp_all

lemma kept_perform: "kept (perform w sid op)"
  by (cases op) (simp_all add: no_result_def kept_sbind kept_files kept_source kept_reads kept_metadata kept_delete)

end

definition at_desk :: "string \<Rightarrow> string \<Rightarrow> catalog \<Rightarrow> host_call list \<Rightarrow> desk \<Rightarrow> bool" where
  "at_desk sid pj c h s \<longleftrightarrow> drafted c (dk_catalog s) \<and> (\<forall>sd. skill_of sid c = Some sd \<longrightarrow> sd_project sd = pj)
     \<and> (\<exists>xs. dk_calls s = h @ xs \<and> list_all (allowed_call pj) xs)"

interpretation desk: desk_kept "at_desk sid pj c h" sid pj for sid pj c h
proof
  fix s d assume "at_desk sid pj c h s" "drafted (dk_catalog s) d"
  then show "at_desk sid pj c h (s\<lparr>dk_catalog := d\<rparr>)" by (auto simp: at_desk_def intro: drafted_trans)
next
  fix s x assume "at_desk sid pj c h s" "allowed_call pj x"
  then show "at_desk sid pj c h (s\<lparr>dk_calls := dk_calls s @ [x]\<rparr>)"
    unfolding at_desk_def by (fastforce intro: exI [where x = "_ @ [x]"])
next
  fix s sd assume s: "at_desk sid pj c h s" and sd: "skill_of sid (dk_catalog s) = Some sd"
  obtain y where "skill_of sid c = Some y" "skill_frame y = skill_frame sd"
    using drafted_skill_of_Some [OF _ sd] s by (auto simp: at_desk_def)
  then show "sd_project sd = pj" using s by (auto simp: at_desk_def skill_frame_def)
qed

lemma perform_within:
  assumes "skill_of sid (dk_catalog s) = Some sd"
  shows "at_desk sid (sd_project sd) (dk_catalog s) (dk_calls s) (snd (perform w sid op s))"
proof -
  have "at_desk sid (sd_project sd) (dk_catalog s) (dk_calls s) s" using assms by (simp add: at_desk_def)
  then have "meets (perform w sid op s) (\<lambda>_. at_desk sid (sd_project sd) (dk_catalog s) (dk_calls s)) (at_desk sid (sd_project sd) (dk_catalog s) (dk_calls s))"
    by (rule validD [OF desk.kept_perform [unfolded desk.kept_def]])
  then show ?thesis by (auto simp: meets_def split: sum.splits)
qed

lemma perform_unknown:
  assumes "skill_of sid (dk_catalog s) = None"
  shows "snd (perform w sid op s) = s"
  using assms
  by (cases op) (simp_all add: no_result_def sbind_def with_draft_def require_definition_def update_skill_metadata_def delete_skill_def
    get_skill_source_def save_skill_source_def list_repository_tree_def get_repository_file_def get_repository_image_content_def
    save_repository_file_def create_repository_file_def create_repository_folder_def)

lemma perform_drafted: "drafted (dk_catalog s) (dk_catalog (snd (perform w sid op s)))"
  using perform_within [of sid s] perform_unknown [of sid s] by (cases "skill_of sid (dk_catalog s)") (auto simp: at_desk_def)

end
