(* ===== verification/PublishSafety.thy ===== *)
theory PublishSafety
  imports CompileFrame DraftSafety
begin

text \<open>
  The other operations keep the invariant of the catalog: creating, drafting and publishing a skill, asking for a compilation and
  correcting an artifact only add to what is there, and a job that used up its attempts ends its own request only.
\<close>

section \<open>Additions\<close>

definition publishes :: "catalog \<Rightarrow> string \<Rightarrow> string \<Rightarrow> bool" where
  "publishes c i v \<longleftrightarrow> (\<exists>sd. skill_of i c = Some sd \<and> sd_published sd = Some v)"

definition adds :: "catalog \<Rightarrow> catalog \<Rightarrow> bool" where
  "adds c d \<longleftrightarrow> (\<forall>i v. publishes d i v \<longrightarrow> publishes c i v)
     \<and> (\<forall>i cr. request_of i c = Some cr \<longrightarrow> request_of i d = Some cr)
     \<and> (\<forall>i cr. request_of i d = Some cr \<and> cr_status cr = ''succeeded'' \<longrightarrow> request_of i c = Some cr)
     \<and> set (cg_artifacts c) \<subseteq> set (cg_artifacts d) \<and> set (cg_objects c) \<subseteq> set (cg_objects d)
     \<and> (jobs_staged c \<longrightarrow> jobs_staged d)"

lemma adds_refl [simp]: "adds c c"
  by (simp add: adds_def)

lemma adds_trans: "adds c d \<Longrightarrow> adds d e \<Longrightarrow> adds c e"
  unfolding adds_def by blast

lemma adds_leaves_alone:
  assumes "adds c d"
  shows "leaves_alone env i c d"
proof -
  have compiled: "compiled env i v d" if "compiled env i v c" for i v
    using compiled_mono that assms unfolding adds_def by blast
  have "catalog_ok env d" if ok: "catalog_ok env c"
    unfolding catalog_ok_def
  proof (intro conjI)
    show "succeeded_compiled env d"
      using ok assms compiled unfolding catalog_ok_def succeeded_compiled_def adds_def by blast
    show "jobs_staged d" using ok assms by (simp add: catalog_ok_def adds_def)
    have "publishes d i v \<Longrightarrow> publishes c i v" "request_of i c = Some r \<Longrightarrow> request_of i d = Some r" for i v r
      using assms unfolding adds_def by blast+
    then show "published_succeeded d"
      using ok unfolding catalog_ok_def published_succeeded_def publishes_def by blast
  qed
  moreover have "request_of i c = Some r \<Longrightarrow> request_of i d = Some r" for r using assms unfolding adds_def by blast
  ultimately show ?thesis using compiled unfolding leaves_alone_def by blast
qed

lemma leaves_alone_refl: "leaves_alone env i c c"
  by (simp add: leaves_alone_def)

lemma leaves_alone_trans: "leaves_alone env i c d \<Longrightarrow> leaves_alone env i d e \<Longrightarrow> leaves_alone env i c e"
  by (auto simp: leaves_alone_def)

text \<open>What keeps skills, requests, artifacts, objects and jobs adds; so does a new row of one of them.\<close>

lemma adds_rest:
  assumes "cg_skills d = cg_skills c" "cg_requests d = cg_requests c" "cg_artifacts d = cg_artifacts c"
    "cg_objects d = cg_objects c" "cg_jobs d = cg_jobs c"
  shows "adds c d"
  using assms by (simp add: adds_def publishes_def skill_of_def request_of_def jobs_staged_def)

lemma adds_draft: "adds c (on_skill i (\<lambda>sd. sd\<lparr>sd_draft := x\<rparr>) c)"
proof -
  have "skill_of j (on_skill i (\<lambda>sd. sd\<lparr>sd_draft := x\<rparr>) c)
      = map_option (\<lambda>r. if sd_id r = i then r\<lparr>sd_draft := x\<rparr> else r) (skill_of j c)" for j
    unfolding skill_of_def on_skill_def by (simp add: find_on_row_of [where key = sd_id])
  then have "publishes (on_skill i (\<lambda>sd. sd\<lparr>sd_draft := x\<rparr>) c) j v \<Longrightarrow> publishes c j v" for j v
    by (cases "skill_of j c") (auto simp: publishes_def split: if_splits)
  then show ?thesis unfolding adds_def by (simp add: on_skill_def request_of_def jobs_staged_def)
qed

lemma row_of_one: "row_of key i [x] = (if key x = i then Some x else None)"
  by (simp add: row_of_def)

lemma add_skill_adds:
  assumes "add_skill sd c = Inr d" "sd_published sd = None"
  shows "adds c d"
proof -
  have d: "d = c\<lparr>cg_skills := cg_skills c @ [sd], cg_ids := Suc (cg_ids c)\<rparr>"
    using assms(1) by (simp add: add_skill_def split: if_splits)
  have "publishes d i v \<Longrightarrow> publishes c i v" for i v
    using assms(2) by (auto simp: d publishes_def skill_of_def row_of_append row_of_one split: option.splits if_splits)
  then show ?thesis unfolding adds_def by (simp add: d request_of_def jobs_staged_def)
qed

lemma add_request_adds:
  assumes "add_request cr c = Inr d" "cr_status cr \<noteq> ''succeeded''"
  shows "adds c d"
proof -
  have d: "d = c\<lparr>cg_requests := cg_requests c @ [cr], cg_ids := Suc (cg_ids c)\<rparr>"
    using assms(1) by (simp add: add_request_def split: if_splits)
  have "request_of i d = Some r" if "request_of i c = Some r" for i r
    using that by (simp add: d request_of_def row_of_append)
  moreover have "request_of i c = Some r" if "request_of i d = Some r" "cr_status r = ''succeeded''" for i r
    using that assms(2) by (auto simp: d request_of_def row_of_append row_of_one split: option.splits if_splits)
  moreover have "publishes d i v \<Longrightarrow> publishes c i v" for i v by (simp add: d publishes_def skill_of_def)
  moreover have "jobs_staged c \<Longrightarrow> jobs_staged d" "set (cg_artifacts c) \<subseteq> set (cg_artifacts d)"
    "set (cg_objects c) \<subseteq> set (cg_objects d)"
    by (simp_all add: d jobs_staged_def)
  ultimately show ?thesis unfolding adds_def by blast
qed

lemma add_compile_job_adds:
  assumes "add_compile_job env rid dedupe payload c = Inr d" "stages_ok payload"
  shows "adds c d"
  using assms by (auto simp: add_compile_job_def adds_def publishes_def skill_of_def request_of_def jobs_staged_def split: if_splits)

lemma build_payload_stages: "build_publish_progress_payload now rid rec_id sid vid sha = Inr p \<Longrightarrow> stages_ok p"
  unfolding build_publish_progress_payload_def Let_def by (auto simp: rbind_eq_Inr dest: mark_stages)

section \<open>The operations\<close>

lemma drafted_adds: "drafted c d \<Longrightarrow> adds c d"
proof -
  assume d: "drafted c d"
  note rest = drafted_rest [OF d]
  have "publishes d i v \<Longrightarrow> publishes c i v" for i v
    using drafted_skill_of_Some [OF d, of i] by (fastforce simp: publishes_def skill_frame_def)
  then show ?thesis using rest by (simp add: adds_def request_of_def jobs_staged_def)
qed

lemma create_skill_adds:
  assumes "create_skill env group_path key name description project c = Inr d"
  shows "adds c d"
proof -
  obtain pj sd c1 sid vid sv where s: "add_skill sd c = Inr c1" "sd_published sd = None"
    and d: "d = on_skill sid (\<lambda>sd. sd\<lparr>sd_draft := Some vid\<rparr>) (add_version sv c1)"
    using assms by (auto simp: create_skill_def rbind_eq_Inr Let_def)
  have "adds c1 (add_version sv c1)" by (rule adds_rest) (simp_all add: add_version_def)
  then show ?thesis unfolding d using add_skill_adds [OF s] adds_draft by (blast intro: adds_trans)
qed

lemma create_request_adds:
  assumes "create_compile_request_for_publish env sv rec_id c = Inr (cr, d)"
  shows "adds c d"
proof -
  define r where "r sha = new_request env c ''publish'' sv sha (publish_dedupe sv sha)" for sha
  obtain sha where "rbind (add_request (r sha) c) (\<lambda>c1.
      rbind (build_publish_progress_payload (cg_iso c) (cr_id (r sha)) rec_id (cr_skill (r sha)) (cr_version (r sha)) sha) (\<lambda>p.
      rbind (add_compile_job env (cr_id (r sha)) (''job:'' @ publish_dedupe sv sha) p c1) (\<lambda>c2. Inr (r sha, c2)))) = Inr (cr, d)
    \<or> d = c"
    using assms by (auto simp: create_compile_request_for_publish_def Let_def r_def split: option.splits if_splits)
  then consider "d = c" | c1 p where "add_request (r sha) c = Inr c1" "stages_ok p"
      "add_compile_job env (cr_id (r sha)) (''job:'' @ publish_dedupe sv sha) p c1 = Inr d"
    by (auto simp: rbind_eq_Inr dest: build_payload_stages)
  then show ?thesis
  proof cases
    case (2 c1 p)
    have "cr_status (r sha) \<noteq> ''succeeded''" by (simp add: r_def new_request_def)
    then show ?thesis using add_request_adds [OF 2(1)] add_compile_job_adds [OF 2(3,2)] by (blast intro: adds_trans)
  qed simp
qed

lemma manual_payload_stages: "stages_ok p \<Longrightarrow> stages_ok (manual_payload p)"
proof -
  assume "stages_ok p"
  then obtain ds where ds: "dget p ''progress_stages'' = JArr (map JObj ds)" "list_all2 stage_ok PUBLISH_STAGES ds"
    by (auto simp: stages_ok_def)
  define f where "f d = (if dget d ''key'' = JStr ''publish_finalizing'' then dset ''label'' (JStr COMPILE_DONE_LABEL) d else d)" for d
  have "dget (manual_payload p) ''progress_stages'' = JArr (map JObj (map f ds))"
    by (simp add: manual_payload_def ds(1) manual_label_def f_def comp_def)
  moreover have "list_all2 stage_ok PUBLISH_STAGES (map f ds)"
    using ds(2) by (auto simp: list_all2_conv_all_nth f_def stage_ok_def)
  ultimately show "stages_ok (manual_payload p)" unfolding stages_ok_def by blast
qed

lemma manual_request_adds:
  assumes "create_manual_compile_request ce head sid c = Inr d"
  shows "adds c d"
proof -
  obtain sd sv where "skill_of sid c = Some sd" "manual_version sd c = Some sv"
    using assms by (auto simp: create_manual_compile_request_def split: option.splits)
  with assms obtain sha where sha: "manual_commit ce head sd sv = Inr sha"
    by (auto simp: create_manual_compile_request_def rbind_eq_Inr)
  define c1 where "c1 = (let c0 = on_version (sv_id sv) (\<lambda>v. if sv_commit v \<in> {None, Some []} \<and> sv_ref v \<noteq> []
      then v\<lparr>sv_commit := Some sha\<rparr> else v) c in c0\<lparr>cg_ids := Suc (cg_ids c0)\<rparr>)"
  define r where "r = new_request (ce_env ce) c1 ''manual'' (sv\<lparr>sv_skill := sd_id sd\<rparr>) sha
      (''compile:manual:'' @ sv_id sv @ '':'' @ sha @ '':'' @ en_uuid (ce_env ce) (cg_ids c))"
  have ids: "cg_ids (on_version i f c) = cg_ids c" for i f by (simp add: on_version_def)
  have "rbind (add_request r c1) (\<lambda>c2.
      rbind (build_publish_progress_payload (cg_iso c) (cr_id r) None (sd_id sd) (sv_id sv) sha) (\<lambda>p.
        add_compile_job (ce_env ce) (cr_id r) (''job:compile:'' @ cr_id r) (manual_payload p) c2)) = Inr d"
    using assms \<open>skill_of sid c = Some sd\<close> \<open>manual_version sd c = Some sv\<close> sha
    by (simp add: create_manual_compile_request_def Let_def r_def c1_def ids split: if_splits)
  then obtain c2 p where "add_request r c1 = Inr c2"
    and p: "build_publish_progress_payload (cg_iso c) (cr_id r) None (sd_id sd) (sv_id sv) sha = Inr p"
      "add_compile_job (ce_env ce) (cr_id r) (''job:compile:'' @ cr_id r) (manual_payload p) c2 = Inr d"
    by (auto simp: rbind_eq_Inr)
  moreover have "cr_status r \<noteq> ''succeeded''" by (simp add: r_def new_request_def)
  moreover have "adds c c1" by (rule adds_rest) (simp_all add: c1_def Let_def on_version_def)
  ultimately show ?thesis
    using add_request_adds add_compile_job_adds [OF p(2) manual_payload_stages [OF build_payload_stages [OF p(1)]]]
    by (blast intro: adds_trans)
qed

lemma accept_publish_adds: "adds c (accept_publish env sd draft reason c)"
  by (rule adds_rest) (simp_all add: accept_publish_def)

lemma freeze_adds:
  assumes "freeze env sd draft rec_id doc head c = Inr (cr, d)"
  shows "adds c d"
proof -
  obtain sv c1 where "c1 = on_record rec_id (\<lambda>r. r\<lparr>pr_version := sv_id sv, pr_commit := head\<rparr>) (add_version sv
      (on_version draft (\<lambda>v. v\<lparr>sv_commit := Some head, sv_manifest := JObj (manifest_snapshot doc),
             sv_policy := JObj (runtime_policy_snapshot doc)\<rparr>) c))"
    and r: "create_compile_request_for_publish env sv (Some rec_id) c1 = Inr (cr, d)"
    using assms unfolding freeze_def Let_def by blast
  then have "adds c c1" by (intro adds_rest) (simp_all add: on_record_def add_version_def on_version_def)
  with create_request_adds [OF r] show ?thesis by (blast intro: adds_trans)
qed

lemma small_edit_adds: "small_edit c d \<Longrightarrow> adds c d"
  by (simp add: small_edit_def adds_def publishes_def skill_of_def request_of_def)

context session_edits begin

lemma kept_computed:
  assumes "\<And>s x. K s \<Longrightarrow> g s = Inr x \<Longrightarrow> K (s\<lparr>cs_now := snd x\<rparr>)" "kept h"
  shows "kept (sbind (sasks g) (\<lambda>r. sbind (slift r) (\<lambda>x. sbind (edit_catalog (\<lambda>_. snd x)) (\<lambda>_. h))))"
proof (rule validI)
  fix s assume s: "K s"
  show "meets (sbind (sasks g) (\<lambda>r. sbind (slift r) (\<lambda>x. sbind (edit_catalog (\<lambda>_. snd x)) (\<lambda>_. h))) s) (\<lambda>_. K) K"
  proof (cases "g s")
    case (Inr x)
    have "meets (h (s\<lparr>cs_now := snd x\<rparr>)) (\<lambda>_. K) K" using assms(1) [OF s Inr] by (rule validD [OF assms(2)])
    then show ?thesis using Inr by (simp add: asks_then lift_then) (simp add: sbind_def edit_catalog_def)
  qed (simp add: sasks_def sbind_def slift_def s)
qed

end

lemma publish_skill_keeps:
  assumes stable: "\<And>c d. I c \<Longrightarrow> adds c d \<Longrightarrow> I d" and others: "\<And>n c. I c \<Longrightarrow> I (ce_others ce n c)" and "I c"
  shows "I (cs_saved (snd (publish_skill ce yaml sid reason (open_catalog lease c))))"
proof -
  let ?K = "uncommitted ce I I" and ?s = "open_catalog lease c"
  have law: "edit_law ce I" using stable small_edit_adds others unfolding edit_law_def by blast
  have edit: "?K (s\<lparr>cs_now := d\<rparr>)" if "?K s" "adds (cs_now s) d" for s :: csession and d
    using that stable [of "cs_now s" d] by (simp add: uncommitted_def)
  have kept_edit: "valid ?K (edit_catalog f) (\<lambda>_. ?K) ?K" if "\<And>c. adds c (f c)" for f
    using that edit by (simp add: valid_def edit_catalog_def)
  note rules = uncommitted.kept_bind uncommitted.kept_ret uncommitted.kept_commit uncommitted.kept_commit_and_begin
  have "valid ?K (publish_source ce yaml sd draft rec_id) (\<lambda>_. ?K) ?K" for sd draft rec_id
    unfolding publish_source_def
    by (intro valid_sbind [OF uncommitted.kept_ret(2)] uncommitted.kept_computed uncommitted.kept_commit edit)
      (auto intro: freeze_adds)
  moreover have "valid ?K roll_back (\<lambda>_. ?K) ?K"
    unfolding roll_back_def
    by (rule valid_sbind [OF _ uncommitted.kept_fence]) (simp add: valid_def uncommitted_def)
  then have "valid ?K (publish_failed ce rec_id e) (\<lambda>_. ?K) ?K" for rec_id e
    unfolding publish_failed_def
    by (auto intro!: rules kept_edit adds_rest simp: on_record_def)
  ultimately have publish: "valid ?K (sbind (edit_catalog (accept_publish env sd draft reason)) (\<lambda>_.
      sbind (commit_and_begin (ce_others ce)) (\<lambda>_.
        on_exception (publish_source ce yaml sd draft rec_id) (publish_failed ce rec_id)))) (\<lambda>_. ?K) ?K" for env sd draft rec_id
    by (intro rules kept_edit accept_publish_adds valid_on_exception)
  have s: "?K ?s" using law \<open>I c\<close> by (simp add: uncommitted_def open_catalog_def)
  have "meets (publish_skill ce yaml sid reason ?s) (\<lambda>_. ?K) ?K"
    using s validD [OF publish s] by (simp add: publish_skill_def Let_def split: option.split)
  from meets_same [OF this] show ?thesis by (simp add: uncommitted_def)
qed

lemma publish_leaves_alone:
  assumes "\<And>n c. leaves_alone (ce_env ce) i c (ce_others ce n c)"
  shows "leaves_alone (ce_env ce) i c (cs_saved (snd (publish_skill ce yaml sid reason (open_catalog lease c))))"
  using publish_skill_keeps [where I = "leaves_alone (ce_env ce) i c", OF _ _ leaves_alone_refl]
    assms adds_leaves_alone leaves_alone_trans by blast

section \<open>Corrections and exhausted jobs\<close>

lemma stamp_of_request_from_validator:
  "stamp_of_request rid vid c a = Inr b \<Longrightarrow> from_validator a \<Longrightarrow> from_validator b"
proof -
  assume b: "stamp_of_request rid vid c a = Inr b" and a: "from_validator a"
  have "from_validator (dset ''compile_request_id'' x a)" for x
    using a by (auto simp: from_validator_def STAMPED_KEYS_def)
  then show "from_validator b"
    using a b stamp_from_validator by (auto simp: stamp_of_request_def split: option.splits)
qed

lemma on_row_of_in: "x \<in> set rows \<Longrightarrow> (if key x = i then f x else x) \<in> set (on_row_of key i f rows)"
  unfolding on_row_of_def set_map by (rule imageI)

lemma replace_artifact_leaves_alone:
  assumes "replace_artifact env ea a c = Inr d" "from_validator a"
  shows "leaves_alone env i c d"
proof -
  obtain rev format graph capability where eq: "d = c\<lparr>cg_objects := on_row_of ob_id (ea_object ea)
        (\<lambda>ob. ob\<lparr>ob_content := JObj a, ob_size := int (length (dumps (sort_keys (JObj a)))),
          ob_checksum := en_sha env (dumps (sort_keys (JObj a)))\<rparr>) (cg_objects c),
      cg_artifacts := on_row_of ea_id (ea_id ea) (\<lambda>x. x\<lparr>ea_revision := rev, ea_format := format, ea_graph := graph,
        ea_capability := capability, ea_status := ''ready''\<rparr>) (cg_artifacts c)\<rparr>"
    using assms(1) by (auto simp: replace_artifact_def Let_def rbind_eq_Inr)
  have compiled: "compiled env i v d" if before: "compiled env i v c" for i v
  proof -
    obtain x ob where x: "x \<in> set (cg_artifacts c)" "ea_request x = i" "ea_version x = v" "ea_status x = ''ready''"
      and ob: "ob \<in> set (cg_objects c)" "ob_id ob = ea_object x" "sealed env ob"
      using before unfolding compiled_def by blast
    let ?f = "\<lambda>x. x\<lparr>ea_revision := rev, ea_format := format, ea_graph := graph, ea_capability := capability,
        ea_status := ''ready''\<rparr>"
    have artifact: "(if ea_id x = ea_id ea then ?f x else x) \<in> set (cg_artifacts d)"
    proof -
      have rows: "cg_artifacts d = on_row_of ea_id (ea_id ea) ?f (cg_artifacts c)" by (simp add: eq)
      show ?thesis unfolding rows by (rule on_row_of_in [OF x(1)])
    qed
    have "\<exists>x' \<in> set (cg_artifacts d). ea_request x' = i \<and> ea_version x' = v \<and> ea_status x' = ''ready'' \<and> ea_object x' = ea_object x"
      using x(2-4) by (intro bexI [OF _ artifact]) simp
    moreover have "\<exists>ob' \<in> set (cg_objects d). ob_id ob' = ob_id ob \<and> sealed env ob'"
    proof (cases "ob_id ob = ea_object ea")
      case True
      let ?ob = "ob\<lparr>ob_content := JObj a, ob_size := int (length (dumps (sort_keys (JObj a)))),
          ob_checksum := en_sha env (dumps (sort_keys (JObj a)))\<rparr>"
      have "?ob \<in> set (cg_objects d)"
        using True ob(1) by (force simp: eq set_on_row_of)
      moreover have "sealed env ?ob" using assms(2) by (simp add: sealed_def)
      ultimately show ?thesis by (intro bexI [of _ ?ob]) simp_all
    next
      case False
      then have "ob \<in> set (cg_objects d)"
        using ob(1) by (force simp: eq set_on_row_of)
      then show ?thesis using ob(3) by blast
    qed
    ultimately show ?thesis using ob(2) unfolding compiled_def by metis
  qed
  have same: "request_of j d = request_of j c" "skill_of j d = skill_of j c" "jobs_staged d = jobs_staged c" for j
    by (simp_all add: eq request_of_def skill_of_def jobs_staged_def)
  show ?thesis
    unfolding leaves_alone_def catalog_ok_def succeeded_compiled_def published_succeeded_def same using compiled by blast
qed

lemma update_artifact_leaves_alone:
  assumes "update_artifact env aid artifact c = Inr d"
  shows "leaves_alone env i c d"
proof -
  obtain ea a ds b where a: "validate_and_normalize_artifact artifact = Inr (Some a, ds)"
    and b: "stamp_of_request (ea_request ea) (ea_version ea) c a = Inr b" and d: "replace_artifact env ea b c = Inr d"
    using assms by (auto simp: update_artifact_def rbind_eq_Inr split: option.splits if_splits)
  have "from_validator a" using a by (auto simp: from_validator_def)
  from stamp_of_request_from_validator [OF b this] show ?thesis by (rule replace_artifact_leaves_alone [OF d])
qed

lemma exhausted_ok:
  assumes "catalog_ok env c" "finalize_exhausted_compile_job jid message c = (x, d)"
  shows "catalog_ok env d"
proof (cases "d = c")
  case False
  then obtain rec_id rid e cr where d: "d = on_record rec_id (\<lambda>r. if pr_status r = ''published'' then r
        else r\<lparr>pr_status := ''failed''\<rparr>) (end_request rid ''failed'' e c)"
    and cr: "request_of rid c = Some cr" "cr_status cr \<noteq> ''succeeded''"
    using assms(2) request_of_id by (auto simp: finalize_exhausted_compile_job_def split: option.splits if_splits)
  have "at_work env rid (cr_version cr) (end_request rid ''failed'' e c)"
    using assms(1) cr by (intro at_work_edit [OF _ request_edit_end]) (simp_all add: at_work_def)
  moreover have "adds (end_request rid ''failed'' e c) d" unfolding d by (rule adds_rest) (simp_all add: on_record_def)
  ultimately show ?thesis using adds_leaves_alone by (auto simp: at_work_def leaves_alone_def)
qed (use assms in simp)

section \<open>Histories\<close>

text \<open>
  The catalogs a deployment can have: whatever is done by the operations, with jobs changed by the
  workers and the time passing in between. While a job compiles, others may do anything that leaves its request alone.
\<close>

definition job_rows_kept :: "catalog \<Rightarrow> job list \<Rightarrow> bool" where
  "job_rows_kept c js \<longleftrightarrow> (\<forall>j \<in> set js. \<exists>x \<in> set (cg_jobs c). j_type j = j_type x \<and> j_payload j = j_payload x)"

definition no_catalog :: catalog where
  "no_catalog = \<lparr>cg_skills = [], cg_versions = [], cg_records = [], cg_requests = [], cg_diags = [], cg_objects = [],
     cg_artifacts = [], cg_jobs = [], cg_now = 0, cg_iso = [], cg_ids = 0\<rparr>"

inductive catalog_history :: "env \<Rightarrow> catalog \<Rightarrow> bool" for env where
  start: "catalog_history env no_catalog"
| time: "catalog_history env c \<Longrightarrow> catalog_history env (c\<lparr>cg_now := now, cg_iso := moment\<rparr>)"
| worker: "catalog_history env c \<Longrightarrow> job_rows_kept c js \<Longrightarrow> catalog_history env (c\<lparr>cg_jobs := js\<rparr>)"
| created: "catalog_history env c \<Longrightarrow> create_skill env group_path key name description project c = Inr d \<Longrightarrow> catalog_history env d"
| drafting: "catalog_history env c \<Longrightarrow> catalog_history env (dk_catalog (snd (perform w sid op \<lparr>dk_catalog = c, dk_calls = calls\<rparr>)))"
| publishing: "catalog_history env c \<Longrightarrow> ce_env ce = env \<Longrightarrow> (\<And>n c i. leaves_alone env i c (ce_others ce n c)) \<Longrightarrow>
    catalog_history env (cs_saved (snd (publish_skill ce yaml sid reason (open_catalog lease c))))"
| manual: "catalog_history env c \<Longrightarrow> ce_env ce = env \<Longrightarrow> create_manual_compile_request ce head sid c = Inr d \<Longrightarrow> catalog_history env d"
| compiling: "catalog_history env c \<Longrightarrow> ce_env ce = env \<Longrightarrow> (\<And>n c. leaves_alone env rid c (ce_others ce n c)) \<Longrightarrow>
    (\<And>j. job_of jid c = Some j \<Longrightarrow> job_request j = rid) \<Longrightarrow>
    catalog_history env (cs_saved (snd (process_compile_job ce jid (open_catalog lease c))))"
| correcting: "catalog_history env c \<Longrightarrow> update_artifact env aid artifact c = Inr d \<Longrightarrow> catalog_history env d"
| exhausted: "catalog_history env c \<Longrightarrow> finalize_exhausted_compile_job jid message c = (x, d) \<Longrightarrow> catalog_history env d"

lemma catalog_history_ok: "catalog_history env c \<Longrightarrow> catalog_ok env c"
proof (induction rule: catalog_history.induct)
  case start
  show ?case
    by (simp add: no_catalog_def catalog_ok_def succeeded_compiled_def published_succeeded_def jobs_staged_def request_of_def
      skill_of_def row_of_def)
next
  case (time c moment now)
  have "adds c (c\<lparr>cg_now := now, cg_iso := moment\<rparr>)" by (rule adds_rest) simp_all
  then show ?case using time adds_leaves_alone by (auto simp: leaves_alone_def)
next
  case (worker c js)
  have "small_edit c (c\<lparr>cg_jobs := js\<rparr>)" using worker(2) by (fastforce simp: small_edit_def jobs_staged_def job_rows_kept_def)
  then show ?case by (rule small_edit_ok [OF worker(3)])
next
  case (created c group_path key name description project d)
  then show ?case using adds_leaves_alone [OF create_skill_adds] by (auto simp: leaves_alone_def)
next
  case (drafting c w sid op calls)
  then show ?case
    using adds_leaves_alone [OF drafted_adds [OF perform_drafted [of "\<lparr>dk_catalog = c, dk_calls = calls\<rparr>" w sid op]]]
    by (auto simp: leaves_alone_def)
next
  case (publishing c ce yaml sid reason lease)
  then have "leaves_alone (ce_env ce) [] c (cs_saved (snd (publish_skill ce yaml sid reason (open_catalog lease c))))"
    by (intro publish_leaves_alone) simp
  then show ?case using publishing by (simp add: leaves_alone_def)
next
  case (manual c ce head sid d)
  then show ?case using adds_leaves_alone [OF manual_request_adds] by (auto simp: leaves_alone_def)
next
  case (compiling c ce rid jid lease)
  have "all_ok (ce_env ce) (open_catalog lease c)" using compiling by (simp add: all_ok_def open_catalog_def)
  then have "catalog_ok (ce_env ce) (cs_saved (snd (process_compile_job ce jid (open_catalog lease c))))"
    using compiling(2-4) by (intro process_job_ok [where rid = rid]) (simp_all add: open_catalog_def)
  then show ?case using compiling(2) by simp
next
  case (correcting c aid artifact d)
  then show ?case using update_artifact_leaves_alone by (auto simp: leaves_alone_def)
next
  case (exhausted c jid message x d)
  then show ?case by (auto intro: exhausted_ok)
qed

end
