(* ===== verification/CompileLive.thy ===== *)
theory CompileLive
  imports PublishSafety
begin

text \<open>
  A compile job that nobody disturbs and whose agent hands in a candidate that the validator accepts ends with
  the version published.
\<close>

section \<open>Undisturbed runs\<close>

definition runs :: "(catalog \<Rightarrow> bool) \<Rightarrow> 'a cact \<Rightarrow> ('a \<Rightarrow> catalog \<Rightarrow> bool) \<Rightarrow> bool" where
  "runs P f Q \<longleftrightarrow> valid (\<lambda>s. cs_lease s = None \<and> P (cs_now s)) f (\<lambda>x s. cs_lease s = None \<and> Q x (cs_now s)) (\<lambda>_. False)"

lemma runs_bind: "runs P f R \<Longrightarrow> (\<And>x. runs (R x) (g x) Q) \<Longrightarrow> runs P (sbind f g) Q"
  unfolding runs_def by (rule valid_sbind)

lemma lift_eq: "r = Inr x \<Longrightarrow> sbind (slift r) g = g x"
  by (rule ext) (simp add: lift_then)

lemma runs_slift: "r = Inr x \<Longrightarrow> (\<And>c. P c \<Longrightarrow> Q x c) \<Longrightarrow> runs P (slift r) Q"
  by (auto simp: runs_def intro: valid_slift)

lemma runs_sret: "(\<And>c. P c \<Longrightarrow> Q x c) \<Longrightarrow> runs P (sret x) Q"
  by (auto simp: runs_def intro: valid_sret)

lemma runs_edit: "(\<And>c. P c \<Longrightarrow> Q () (f c)) \<Longrightarrow> runs P (edit_catalog f) Q"
  by (simp add: runs_def valid_def edit_catalog_def)

lemma runs_sasks_step: "(\<And>n c. P c \<Longrightarrow> Q n c) \<Longrightarrow> runs P (sasks cs_step) Q"
  by (simp add: runs_def valid_def sasks_def)

lemma runs_weaken: "runs P f Q \<Longrightarrow> (\<And>c. P' c \<Longrightarrow> P c) \<Longrightarrow> (\<And>x c. Q x c \<Longrightarrow> Q' x c) \<Longrightarrow> runs P' f Q'"
  unfolding runs_def by (erule valid_weaken) auto

lemma runs_meets: "runs P f Q \<Longrightarrow> cs_lease s = None \<Longrightarrow> P (cs_now s) \<Longrightarrow>
    meets (f s) (\<lambda>x s. cs_lease s = None \<and> Q x (cs_now s)) (\<lambda>_. False)"
  unfolding runs_def by (drule validD) auto

lemma runsI: "(\<And>s. cs_lease s = None \<Longrightarrow> P (cs_now s) \<Longrightarrow>
    meets (f s) (\<lambda>x s. cs_lease s = None \<and> Q x (cs_now s)) (\<lambda>_. False)) \<Longrightarrow> runs P f Q"
  unfolding runs_def by (rule validI) auto

lemma runs_commit:
  assumes "\<And>c. P c \<Longrightarrow> Q () c"
  shows "runs P (commit_catalog (\<lambda>n c. c)) Q" "runs P (commit_and_begin (\<lambda>n c. c)) Q"
  using assms
  by (auto simp: runs_def valid_def commit_catalog_def commit_and_begin_def sbind_def cfence_def fence_error_def
      release_jobs_def Let_def)

section \<open>A job that is ready\<close>

definition job_stands :: "string \<Rightarrow> string \<Rightarrow> string \<Rightarrow> job \<Rightarrow> bool" where
  "job_stands jid rid rec_id j \<longleftrightarrow> j_id j = jid \<and> j_type j = ''compile'' \<and> job_request j = rid \<and> payload_record j = rec_id
     \<and> stages_ok (j_payload j)"

definition ready :: "bool \<Rightarrow> string \<Rightarrow> string \<Rightarrow> string \<Rightarrow> string \<Rightarrow> string \<Rightarrow> catalog \<Rightarrow> bool" where
  "ready emitted jid rid rec_id k v c \<longleftrightarrow>
     (\<exists>j. job_of jid c = Some j \<and> job_stands jid rid rec_id j)
   \<and> (\<exists>cr. request_of rid c = Some cr \<and> cr_skill cr = k \<and> cr_version cr = v)
   \<and> skill_of k c \<noteq> None \<and> record_of rec_id c \<noteq> None
   \<and> (emitted \<or> (\<forall>ea \<in> set (cg_artifacts c). ea_request ea \<noteq> rid))"

lemma job_of_on_cjob:
  assumes "\<And>j. j_id j = i \<Longrightarrow> j_id (f j) = i"
  shows "job_of i (on_cjob i f c) = map_option f (job_of i c)"
proof -
  have "find (\<lambda>j. j_id j = i) (on_row_of j_id i f js) = map_option f (find (\<lambda>j. j_id j = i) js)" for js
    using assms by (induction js) (auto simp: on_row_of_def)
  then show ?thesis by (simp add: job_of_def on_cjob_def by_id_def find_job_def)
qed

lemma ready_job:
  assumes "ready b jid rid rec_id k v c" "job_of jid c = Some j" "j_id (f j) = jid" "\<And>x. j_id x = jid \<Longrightarrow> j_id (f x) = jid"
    "job_stands jid rid rec_id (f j)"
  shows "ready b jid rid rec_id k v (on_cjob jid f c)"
  using assms job_of_on_cjob [OF assms(4)]
  by (auto simp: ready_def on_cjob_def request_of_def skill_of_def record_of_def)

lemma stands_payload:
  assumes "job_stands jid rid rec_id j" "stages_ok q" "\<And>k. k \<notin> set PROGRESS_KEYS \<Longrightarrow> dget q k = dget (j_payload j) k"
  shows "job_stands jid rid rec_id (j\<lparr>j_payload := q\<rparr>)"
proof -
  have "dget q ''compile_request_id'' = dget (j_payload j) ''compile_request_id''"
    "dget q ''publish_record_id'' = dget (j_payload j) ''publish_record_id''"
    by (rule assms(3), simp add: PROGRESS_KEYS_def)+
  then show ?thesis
    using assms(1,2) by (cases "j_request j") (auto simp: job_stands_def job_request_def payload_record_def split: if_splits)
qed

lemma runs_mark_progress:
  assumes "ce_others ce = (\<lambda>n c. c)"
  shows "runs (ready b jid rid rec_id k v) (mark_progress ce (Some jid) key status message error)
    (\<lambda>_. ready b jid rid rec_id k v)"
proof (rule runsI)
  fix s :: csession assume s: "cs_lease s = None" "ready b jid rid rec_id k v (cs_now s)"
  then obtain j where j: "job_of jid (cs_now s) = Some j" "job_stands jid rid rec_id j" by (auto simp: ready_def)
  obtain q where q: "mark_publish_stage (cg_iso (cs_now s)) (j_payload j) key status message None error = Inr q"
    using mark_total j(2) unfolding job_stands_def by blast
  let ?s = "s\<lparr>cs_now := on_cjob jid (\<lambda>j. j\<lparr>j_payload := q\<rparr>) (cs_now s)\<rparr>"
  have id: "j_id j = jid" using j(2) by (simp add: job_stands_def)
  have "ready b jid rid rec_id k v (cs_now ?s)"
    using stands_payload [OF j(2) mark_Inr(1,2) [OF q]] id
    by (simp add: ready_job [where f = "\<lambda>j. j\<lparr>j_payload := q\<rparr>", OF s(2) j(1)])
  then have "meets (commit_and_begin (ce_others ce) ?s) (\<lambda>x s. cs_lease s = None \<and> ready b jid rid rec_id k v (cs_now s)) (\<lambda>_. False)"
    unfolding assms using s(1) by (intro runs_meets [OF runs_commit(2) [where P = "ready b jid rid rec_id k v"]]) simp_all
  then show "meets (mark_progress ce (Some jid) key status message error s)
      (\<lambda>x s. cs_lease s = None \<and> ready b jid rid rec_id k v (cs_now s)) (\<lambda>_. False)"
    using j(1) q id by (simp add: mark_progress_def Let_def lift_then) (simp add: sbind_def edit_catalog_def)
qed

lemma ready_small:
  assumes "ready b jid rid rec_id k v c" "cg_jobs d = cg_jobs c" "cg_requests d = cg_requests c" "cg_skills d = cg_skills c"
    "cg_records d = cg_records c" "cg_artifacts d = cg_artifacts c"
  shows "ready b jid rid rec_id k v d"
  using assms by (simp add: ready_def job_of_def request_of_def skill_of_def record_of_def)

lemma store_images_frame:
  "cg_jobs (snd (store_images ce up sd sv cr ims c)) = cg_jobs c \<and> cg_requests (snd (store_images ce up sd sv cr ims c)) = cg_requests c
   \<and> cg_skills (snd (store_images ce up sd sv cr ims c)) = cg_skills c \<and> cg_records (snd (store_images ce up sd sv cr ims c)) = cg_records c
   \<and> cg_artifacts (snd (store_images ce up sd sv cr ims c)) = cg_artifacts c"
  by (induction ims arbitrary: c) (auto simp: Let_def add_object_def split: option.split)

lemma runs_images:
  "runs (ready b jid rid rec_id k v) (build_reference_assets ce sd sv cr source) (\<lambda>_. ready b jid rid rec_id k v)"
  by (rule runsI) (auto simp: build_reference_assets_def Let_def store_images_frame split: option.split intro: ready_small)

section \<open>The agent\<close>

lemma runs_attempt:
  assumes "ce_others ce = (\<lambda>n c. c)" "\<And>n x. ce_harness ce n x = Inr oc" "oc_status oc = ''succeeded''"
    "agent_token_usage [] (oc_events oc) = Inr []" "read_candidate (ce_invalid ce) oc = Inr ca"
    "validate_and_normalize_artifact (JObj (ca_artifact ca)) = Inr (Some a, ds)"
  shows "runs (ready b jid rid rec_id k v) (one_attempt ce (Some jid) dn context i repair)
    (\<lambda>r c. (\<exists>new. r = Accepted (accept_artifact dn oc a) new) \<and> ready b jid rid rec_id k v c)"
proof -
  note mark = runs_mark_progress [OF assms(1)]
  have charge: "runs (ready b jid rid rec_id k v) (charge_usage (Some jid) oc) (\<lambda>_. ready b jid rid rec_id k v)"
  proof (rule runsI)
    fix s :: csession assume s: "cs_lease s = None" "ready b jid rid rec_id k v (cs_now s)"
    then obtain j where j: "job_of jid (cs_now s) = Some j" "job_stands jid rid rec_id j" by (auto simp: ready_def)
    have "accumulate_job_usage (JObj []) j = Inr j" by (simp add: accumulate_job_usage_def)
    moreover have "ready b jid rid rec_id k v (on_cjob jid (\<lambda>_. j) (cs_now s))"
      using j by (intro ready_job [OF s(2) j(1)]) (simp_all add: job_stands_def)
    ultimately show "meets (charge_usage (Some jid) oc s) (\<lambda>x s. cs_lease s = None \<and> ready b jid rid rec_id k v (cs_now s)) (\<lambda>_. False)"
      using s(1) j by (simp add: charge_usage_def assms(4) lift_then edit_catalog_def job_stands_def)
  qed
  have check: "runs (ready b jid rid rec_id k v) (check_candidate ce (Some jid) dn oc ca)
      (\<lambda>r c. (\<exists>new. r = Accepted (accept_artifact dn oc a) new) \<and> ready b jid rid rec_id k v c)"
    unfolding check_candidate_def Let_def lift_eq [OF assms(6)]
    by (auto intro!: runs_bind [OF mark] runs_sret)
  have judge: "judge_outcome ce (Some jid) dn oc = check_candidate ce (Some jid) dn oc ca"
    by (simp add: judge_outcome_def assms(3,5))
  show ?thesis
    unfolding one_attempt_def
    unfolding lift_eq [OF assms(2)] judge
    by (rule runs_bind [OF mark], rule runs_bind [OF runs_sasks_step], assumption, rule runs_bind [OF charge check])
qed

lemma runs_agent:
  assumes "ce_others ce = (\<lambda>n c. c)" "\<And>n x. ce_harness ce n x = Inr oc" "oc_status oc = ''succeeded''"
    "agent_token_usage [] (oc_events oc) = Inr []" "read_candidate (ce_invalid ce) oc = Inr ca"
    "validate_and_normalize_artifact (JObj (ca_artifact ca)) = Inr (Some a, ds)"
  shows "runs (ready b jid rid rec_id k v) (compile_with_agent ce (Some jid) sd sv cr doc source assets)
    (\<lambda>r c. (\<exists>dn. fst r = Some (accept_artifact dn oc a)) \<and> ready b jid rid rec_id k v c)"
proof -
  have "runs (\<lambda>c. (\<exists>new. r = Accepted (accept_artifact dn oc a) new) \<and> ready b jid rid rec_id k v c)
      (case r of Accepted a new \<Rightarrow> sret (Some a, ds0 @ new) | Rejected stage message final new repair \<Rightarrow> g stage message final new repair)
      (\<lambda>r c. (\<exists>dn. fst r = Some (accept_artifact dn oc a)) \<and> ready b jid rid rec_id k v c)" for r dn ds0 g
    by (cases r) (auto simp: runs_def valid_def sret_def)
  then show ?thesis
    unfolding compile_with_agent_def Let_def compile_attempts.simps
    by (intro runs_bind [OF runs_attempt [OF assms]])
qed

section \<open>The artifact and the end\<close>

lemma finish_artifact_keys:
  "dhas (finish_artifact a) ''artifact_version''" "dhas (finish_artifact a) ''graph_summary''"
  "dhas (finish_artifact a) ''capability_summary''" "dhas (finish_artifact a) k \<longleftrightarrow> dhas a k
    \<or> k \<in> {''artifact_version'', ''graph_summary'', ''capability_summary''}"
  by (auto simp: finish_artifact_def)

lemma runs_write:
  assumes "dhas a ''formal_revision''" "dhas a ''artifact_version''" "dhas a ''graph_summary''" "dhas a ''capability_summary''"
    and "is_obj (dget_or a ''skill'' (JObj []))" "cr_id cr = rid"
  shows "runs (ready False jid rid rec_id k v) (write_artifact ce sd sv cr a) (\<lambda>_. ready True jid rid rec_id k v)"
proof (rule runsI)
  fix s :: csession assume s: "cs_lease s = None" "ready False jid rid rec_id k v (cs_now s)"
  obtain b where b: "stamp_artifact sd sv cr a = Inr b"
    using assms(5) by (auto simp: stamp_artifact_def Let_def dget_or_if dsetdefault_def split: if_splits elim!: is_obj.elims)
  have keys: "dhas b x" if "dhas a x" for x
    using b that by (auto simp: stamp_artifact_def Let_def split: if_obj_split_asm)
  have "\<not> list_ex (\<lambda>ea. ea_request ea = cr_id cr) (cg_artifacts (cs_now s))"
    using s(2) assms(6) by (auto simp: ready_def list_ex_iff)
  then obtain d where d: "emit_artifact ce sd sv cr b (cs_now s) = Inr d"
    using keys assms(1-4) by (simp add: emit_artifact_def Let_def need_def add_object_def)
  have "ready True jid rid rec_id k v d"
    using s(2) d by (auto simp: emit_artifact_def Let_def rbind_eq_Inr add_object_def ready_def job_of_def request_of_def
      skill_of_def record_of_def split: if_splits)
  then show "meets (write_artifact ce sd sv cr a s) (\<lambda>x s. cs_lease s = None \<and> ready True jid rid rec_id k v (cs_now s)) (\<lambda>_. False)"
    using b d s(1) by (simp add: write_artifact_eq)
qed

definition request_done :: "string \<Rightarrow> string \<Rightarrow> string \<Rightarrow> catalog \<Rightarrow> bool" where
  "request_done rid k v c \<longleftrightarrow> (\<exists>cr. request_of rid c = Some cr \<and> cr_skill cr = k \<and> cr_version cr = v \<and> cr_status cr = ''succeeded'')"

lemma runs_close:
  "runs (ready True jid rid rec_id k v) (edit_catalog (close_request False rid ''succeeded'' []))
    (\<lambda>_ c. ready True jid rid rec_id k v c \<and> request_done rid k v c)"
proof (rule runs_edit)
  fix c assume c: "ready True jid rid rec_id k v c"
  then obtain cr where cr: "request_of rid c = Some cr" "cr_skill cr = k" "cr_version cr = v" by (auto simp: ready_def)
  have "request_of rid (end_request rid ''succeeded'' [] c)
      = Some (cr\<lparr>cr_status := ''succeeded'', cr_error := [], cr_finished := Some (cg_now c)\<rparr>)"
    unfolding end_request_def by (subst request_of_edit) (simp_all add: cr)
  then show "ready True jid rid rec_id k v (close_request False rid ''succeeded'' [] c)
      \<and> request_done rid k v (close_request False rid ''succeeded'' [] c)"
    using c cr(2,3)
    by (auto simp: close_request_def Let_def ready_def request_done_def)
      (simp_all add: end_request_def on_request_def job_of_def skill_of_def record_of_def)
qed

lemma runs_emit:
  assumes "ce_others ce = (\<lambda>n c. c)" "dhas a ''formal_revision''" "dhas a ''artifact_version''" "dhas a ''graph_summary''"
    "dhas a ''capability_summary''" "is_obj (dget_or a ''skill'' (JObj []))" "cr_id cr = rid"
  shows "runs (ready False jid rid rec_id k v) (emit_and_close ce (Some jid) False sd sv cr a)
    (\<lambda>_ c. ready True jid rid rec_id k v c \<and> request_done rid k v c)"
  unfolding emit_and_close_def assms(1,7)
  by (rule runs_bind [OF runs_mark_progress [OF assms(1)] runs_bind [OF runs_write [OF assms(2-7)]
      runs_bind [OF runs_mark_progress [OF assms(1)] runs_bind [OF runs_close runs_commit(2)]]]])

section \<open>From the job to the published version\<close>

lemma runs_on_exception:
  assumes "runs P f Q"
  shows "runs P (on_exception f h) Q"
proof (rule runsI)
  fix s :: csession assume "cs_lease s = None" "P (cs_now s)"
  then have m: "meets (f s) (\<lambda>x s. cs_lease s = None \<and> Q x (cs_now s)) (\<lambda>_. False)" by (rule runs_meets [OF assms])
  obtain r t where "f s = (r, t)" by fastforce
  then show "meets (on_exception f h s) (\<lambda>x s. cs_lease s = None \<and> Q x (cs_now s)) (\<lambda>_. False)"
    using m by (cases r) (simp_all add: on_exception_def)
qed

lemma runs_source:
  assumes "ce_others ce = (\<lambda>n c. c)" "ce_source ce (sd_project sd) (cr_commit cr) = Inr source"
    "document_from_manifest_snapshot (ce_model ce) (sv_manifest sv) = Inr doc" "blocking (validate_document sd doc) = []"
    "\<And>n x. ce_harness ce n x = Inr oc" "oc_status oc = ''succeeded''"
    "agent_token_usage [] (oc_events oc) = Inr []" "read_candidate (ce_invalid ce) oc = Inr ca"
    "validate_and_normalize_artifact (JObj (ca_artifact ca)) = Inr (Some (finish_artifact a), ds)" "dhas a ''formal_revision''"
    "is_obj (dget_or (finish_artifact a) ''skill'' (JObj []))" "cr_id cr = rid"
  shows "runs (ready False jid rid rec_id k v) (compile_source ce (Some jid) False sd sv cr)
    (\<lambda>_ c. ready True jid rid rec_id k v c \<and> request_done rid k v c)"
proof -
  note mark = runs_mark_progress [OF assms(1)]
  have diags: "runs (ready b jid rid rec_id k v) (edit_catalog (add_diagnostics r x xs)) (\<lambda>_. ready b jid rid rec_id k v)" for b r x xs
    by (rule runs_edit) (auto simp: add_diagnostics_def intro: ready_small)
  have emit: "runs (ready False jid rid rec_id k v) (emit_and_close ce (Some jid) False sd sv cr (accept_artifact dn oc (finish_artifact a)))
      (\<lambda>_ c. ready True jid rid rec_id k v c \<and> request_done rid k v c)" for dn
    using assms(10-12) by (intro runs_emit assms(1)) (auto simp: accept_artifact_def finish_artifact_keys dget_or_if split: if_splits)
  have agent: "runs (ready False jid rid rec_id k v) (sbind (compile_with_agent ce (Some jid) sd sv cr doc source assets) (\<lambda>r.
      sbind (edit_catalog (add_diagnostics (cr_id cr) (sv_id sv) (snd r))) (\<lambda>_. case fst r of
          None \<Rightarrow> fail_request ce False (cr_id cr) (last_message (snd r))
        | Some a \<Rightarrow> emit_and_close ce (Some jid) False sd sv cr a)))
      (\<lambda>_ c. ready True jid rid rec_id k v c \<and> request_done rid k v c)" for assets
  proof (rule runs_bind [OF runs_agent [OF assms(1,5-9)]])
    fix r :: "dict option \<times> fdiag list"
    show "runs (\<lambda>c. (\<exists>dn. fst r = Some (accept_artifact dn oc (finish_artifact a))) \<and> ready False jid rid rec_id k v c)
        (sbind (edit_catalog (add_diagnostics (cr_id cr) (sv_id sv) (snd r))) (\<lambda>_. case fst r of
          None \<Rightarrow> fail_request ce False (cr_id cr) (last_message (snd r))
        | Some a \<Rightarrow> emit_and_close ce (Some jid) False sd sv cr a))
        (\<lambda>_ c. ready True jid rid rec_id k v c \<and> request_done rid k v c)"
    proof (cases "\<exists>dn. fst r = Some (accept_artifact dn oc (finish_artifact a))")
      case True
      then obtain dn where "fst r = Some (accept_artifact dn oc (finish_artifact a))" by blast
      then show ?thesis by simp (rule runs_weaken [OF runs_bind [OF diags emit]], auto)
    qed (simp add: runs_def valid_def)
  qed
  have document: "runs (ready False jid rid rec_id k v) (compile_document ce (Some jid) False sd sv cr doc source)
      (\<lambda>_ c. ready True jid rid rec_id k v c \<and> request_done rid k v c)"
    unfolding compile_document_def by (rule runs_bind [OF mark runs_bind [OF runs_images agent]])
  show ?thesis
    unfolding compile_source_def lift_eq [OF assms(2)] lift_eq [OF assms(3)] Let_def assms(4) list.case
    by (rule runs_bind [OF mark runs_bind [OF mark runs_bind [OF mark runs_bind [OF diags document]]]])
qed

definition published :: "string \<Rightarrow> string \<Rightarrow> string \<Rightarrow> string \<Rightarrow> string \<Rightarrow> catalog \<Rightarrow> bool" where
  "published jid rid rec_id k v c \<longleftrightarrow> request_done rid k v c
     \<and> (\<exists>sd. skill_of k c = Some sd \<and> sd_published sd = Some v)
     \<and> (\<exists>r. record_of rec_id c = Some r \<and> pr_status r = ''published'')
     \<and> (\<exists>j. job_of jid c = Some j \<and> j_status j = ''succeeded'' \<and> stages_ok (j_payload j)
          \<and> dget (j_payload j) ''terminal'' = JBool True)"

lemma finish_publish_published:
  assumes "ready True jid rid rec_id k v c" "request_done rid k v c" "request_of rid c = Some cr"
    "j_id j = jid" "j_status j = ''succeeded''" "stages_ok (j_payload j)" "dget (j_payload j) ''terminal'' = JBool True"
  shows "published jid rid rec_id k v (on_cjob jid (\<lambda>_. j) (finish_publish True rec_id cr c))"
proof -
  have cr: "cr_skill cr = k" "cr_version cr = v" "cr_status cr = ''succeeded''" using assms(2,3) by (auto simp: request_done_def)
  let ?d = "on_cjob jid (\<lambda>_. j) (finish_publish True rec_id cr c)"
  have job: "job_of jid ?d = map_option (\<lambda>_. j) (job_of jid c)"
    using assms(4) by (subst job_of_on_cjob) (simp_all add: finish_publish_def on_skill_def on_record_def job_of_def)
  have skill: "skill_of k ?d = map_option (\<lambda>r. if sd_id r = k then r\<lparr>sd_published := Some v\<rparr> else r) (skill_of k c)"
    by (simp add: cr finish_publish_def on_cjob_def on_skill_def on_record_def skill_of_def find_on_row_of [where key = sd_id])
  have rec: "record_of rec_id ?d = map_option (\<lambda>r. if pr_id r = rec_id then r\<lparr>pr_status := ''published''\<rparr> else r) (record_of rec_id c)"
    by (simp add: cr finish_publish_def on_cjob_def on_skill_def on_record_def record_of_def find_on_row_of [where key = pr_id])
  obtain sd r where rows: "skill_of k c = Some sd" "record_of rec_id c = Some r" using assms(1) by (auto simp: ready_def)
  then have "sd_id sd = k" "pr_id r = rec_id" by (auto simp: skill_of_def record_of_def row_of_def find_Some_iff)
  moreover have "request_done rid k v ?d"
    using assms(2) by (simp add: cr request_done_def finish_publish_def on_cjob_def on_skill_def on_record_def request_of_def)
  moreover have "job_of jid c \<noteq> None" using assms(1) by (auto simp: ready_def)
  ultimately show ?thesis using rows assms(5-7) by (auto simp: published_def job skill rec)
qed

lemma finalize_published:
  assumes "ce_others ce = (\<lambda>n c. c)" "rec_id \<noteq> []" and s: "cs_lease s = None"
    and c: "ready True jid rid rec_id k v (cs_now s)" "request_done rid k v (cs_now s)" "request_of rid (cs_now s) = Some cr"
  shows "\<exists>t. finalize_publish_job ce jid cr s = (Inr (), t) \<and> published jid rid rec_id k v (cs_saved t)"
proof -
  let ?c = "cs_now s"
  obtain j where j: "job_of jid ?c = Some j" "job_stands jid rid rec_id j" using c by (auto simp: ready_def)
  have cr: "cr_status cr = ''succeeded''" using c by (auto simp: request_done_def)
  have rec: "record_of rec_id ?c \<noteq> None" "payload_record j = rec_id" "stages_ok (j_payload j)"
    using c j by (auto simp: ready_def job_stands_def)
  obtain p where p: "mark_publish_stage (cg_iso ?c) (j_payload j) ''publish_finalizing'' ''running'' FINALIZING None [] = Inr p"
    using mark_total [OF rec(3)] by blast
  obtain q where q: "mark_publish_stage (cg_iso ?c) p ''publish_finalizing'' ''succeeded'' PUBLISHED_TEXT (Some ''succeeded'') [] = Inr q"
    using mark_total [OF mark_Inr(1) [OF p]] by blast
  define j' where "j' = (set_status (cg_now ?c) ''succeeded'' (j\<lparr>j_payload := p\<rparr>))\<lparr>j_error := [], j_payload := q\<rparr>"
  have row: "finish_job_row True cr (cg_now ?c) (cg_iso ?c) (j\<lparr>j_payload := p\<rparr>) = Inr j'"
    by (simp add: finish_job_row_def finish_error_def cr q j'_def Let_def)
  have "published jid rid rec_id k v (on_cjob jid (\<lambda>_. j') (finish_publish True rec_id cr ?c))"
    using c j(2) mark_Inr(1,4) [OF q]
    by (intro finish_publish_published) (auto simp: j'_def job_stands_def set_status_def sync_timestamps_def Let_def)
  moreover have "finalize_publish_job ce jid cr s = commit_catalog (ce_others ce)
      (s\<lparr>cs_now := on_cjob jid (\<lambda>_. j') (finish_publish True rec_id cr ?c)\<rparr>)"
    using j(1) rec(1,2) assms(2) p row
    by (simp add: finalize_publish_job_def Let_def lift_then) (simp add: sbind_def edit_catalog_def)
  ultimately show ?thesis
    using s by (simp add: assms(1) commit_catalog_def sbind_def cfence_def fence_error_def release_jobs_def Let_def)
qed

lemma job_publishes:
  assumes "ready False jid rid rec_id k v c" "rec_id \<noteq> []" "rid \<noteq> []"
    "request_of rid c = Some cr" "cr_status cr \<noteq> ''succeeded''" "skill_of k c = Some sd" "version_of v c = Some sv"
    "ce_others ce = (\<lambda>n c. c)" "ce_source ce (sd_project sd) (cr_commit cr) = Inr source"
    "document_from_manifest_snapshot (ce_model ce) (sv_manifest sv) = Inr doc" "blocking (validate_document sd doc) = []"
    "\<And>n x. ce_harness ce n x = Inr oc" "oc_status oc = ''succeeded''"
    "agent_token_usage [] (oc_events oc) = Inr []" "read_candidate (ce_invalid ce) oc = Inr ca"
    "validate_and_normalize_artifact (JObj (ca_artifact ca)) = Inr (Some (finish_artifact a), ds)" "dhas a ''formal_revision''"
    "is_obj (dget_or (finish_artifact a) ''skill'' (JObj []))"
  shows "fst (process_compile_job ce jid (open_catalog None c)) = Inr ()
    \<and> published jid rid rec_id k v (cs_saved (snd (process_compile_job ce jid (open_catalog None c))))"
proof -
  let ?s = "open_catalog None c"
  obtain j where j: "job_of jid c = Some j" "job_stands jid rid rec_id j" using assms(1) by (auto simp: ready_def)
  have cr: "cr_skill cr = k" "cr_version cr = v" "cr_id cr = rid"
    using assms(1,4) request_of_id [OF assms(4)] by (auto simp: ready_def)
  have s: "cs_lease ?s = None" "cs_now ?s = c" by (simp_all add: open_catalog_def)
  have start: "ready False jid rid rec_id k v (start_request rid c)" if "ready False jid rid rec_id k v c" for c
    using that unfolding ready_def start_request_def
    by (subst request_of_edit) (auto simp: on_request_def job_of_def skill_of_def record_of_def)
  have started: "runs (ready False jid rid rec_id k v) (edit_catalog (start_request rid)) (\<lambda>_. ready False jid rid rec_id k v)"
    by (rule runs_edit) (rule start)
  have "runs (ready False jid rid rec_id k v) (sbind (edit_catalog (start_request rid)) (\<lambda>_.
      on_exception (compile_source ce (Some jid) False sd sv cr) (request_failed ce (Some jid) False rid (sv_id sv))))
      (\<lambda>_ c. ready True jid rid rec_id k v c \<and> request_done rid k v c)"
    by (rule runs_bind [OF started runs_on_exception [OF runs_source [OF assms(8-18) cr(3)]]])
  from runs_meets [OF this s(1)] have request: "meets (process_compile_request ce (Some jid) False rid ?s)
      (\<lambda>x s. cs_lease s = None \<and> ready True jid rid rec_id k v (cs_now s) \<and> request_done rid k v (cs_now s)) (\<lambda>_. False)"
    using assms(1,4-7) cr s(2) by (simp add: process_compile_request_def Let_def)
  obtain r t where rt: "process_compile_request ce (Some jid) False rid ?s = (r, t)" by fastforce
  with request have t: "r = Inr ()" "cs_lease t = None" "ready True jid rid rec_id k v (cs_now t)" "request_done rid k v (cs_now t)"
    by (cases r; simp)+
  then obtain cr' where cr': "request_of rid (cs_now t) = Some cr'" by (auto simp: request_done_def)
  have "process_compile_job ce jid ?s = finalize_publish_job ce jid cr' t"
    using j s(2) assms(3) rt t(1) cr'
    by (simp add: process_compile_job_def job_stands_def sbind_def sasks_def)
  with finalize_published [OF assms(8,2) t(2-4) cr'] show ?thesis by auto
qed

section \<open>What publishing leaves for the worker\<close>

definition new_ids :: "env \<Rightarrow> catalog \<Rightarrow> bool" where
  "new_ids env c \<longleftrightarrow> inj (en_uuid env) \<and> (\<forall>n. en_uuid env n \<noteq> []) \<and> (\<forall>n \<ge> cg_ids c.
     record_of (en_uuid env n) c = None \<and> version_of (en_uuid env n) c = None \<and> request_of (en_uuid env n) c = None
     \<and> job_of (en_uuid env n) c = None \<and> (\<forall>ea \<in> set (cg_artifacts c). ea_request ea \<noteq> en_uuid env n))"

text \<open>The version, the request and the job of a publication, with the ids that come next.\<close>

definition frozen_version :: "env \<Rightarrow> skill_definition \<Rightarrow> dict \<Rightarrow> string \<Rightarrow> catalog \<Rightarrow> skill_version" where
  "frozen_version env sd doc head c =
     \<lparr>sv_id = en_uuid env (cg_ids c + 1), sv_skill = sd_id sd, sv_no = next_published_version_no (sd_id sd) c,
      sv_status = ''published'', sv_ref = sd_branch sd, sv_commit = Some head, sv_manifest = JObj (manifest_snapshot doc),
      sv_policy = JObj (runtime_policy_snapshot doc), sv_updated = cg_now c\<rparr>"

definition queued :: "env \<Rightarrow> skill_definition \<Rightarrow> skill_version \<Rightarrow> string \<Rightarrow> catalog \<Rightarrow> catalog \<Rightarrow> bool" where
  "queued env sd sv head c d \<longleftrightarrow>
     (let rec_id = en_uuid env (cg_ids c); rid = en_uuid env (cg_ids c + 2); jid = en_uuid env (cg_ids c + 3) in
      version_of (sv_id sv) d = Some sv
    \<and> (\<exists>r. record_of rec_id d = Some r \<and> pr_status r = ''compiling'' \<and> pr_version r = sv_id sv \<and> pr_commit r = head)
    \<and> (\<exists>cr. request_of rid d = Some cr \<and> cr_skill cr = sd_id sd \<and> cr_version cr = sv_id sv \<and> cr_commit cr = head
         \<and> cr_status cr = ''pending'')
    \<and> (\<exists>j. job_of jid d = Some j \<and> j_status j = ''pending'' \<and> j_attempt j = 0 \<and> job_stands jid rid rec_id j)
    \<and> (\<forall>ea \<in> set (cg_artifacts d). ea_request ea \<noteq> rid) \<and> (\<forall>i. skill_of i d = skill_of i c))"

lemma build_payload_frame:
  assumes "build_publish_progress_payload now rid rec_id sid vid sha = Inr p"
  shows "dget p ''publish_record_id'' = (case rec_id of None \<Rightarrow> JNull | Some i \<Rightarrow> JStr i)"
    "dget p ''compile_request_id'' = JStr rid"
proof -
  have out: "''publish_record_id'' \<notin> set PROGRESS_KEYS" "''compile_request_id'' \<notin> set PROGRESS_KEYS"
    by (simp_all add: PROGRESS_KEYS_def)
  show "dget p ''publish_record_id'' = (case rec_id of None \<Rightarrow> JNull | Some i \<Rightarrow> JStr i)" "dget p ''compile_request_id'' = JStr rid"
    using assms out by (auto simp: build_publish_progress_payload_def Let_def rbind_eq_Inr mark_Inr(2))
qed

lemma build_payload_total: "\<exists>p. build_publish_progress_payload now rid rec_id sid vid sha = Inr p"
proof -
  let ?p = "[(''compile_request_id'', JStr rid),
         (''publish_record_id'', (case rec_id of None \<Rightarrow> JNull | Some i \<Rightarrow> JStr i)),
         (''skill_definition_id'', JStr sid), (''skill_version_id'', JStr vid),
         (''published_commit_sha'', JStr sha), (''current_stage'', JStr ''source_frozen''),
         (''terminal'', JBool False), (''terminal_status'', JNull), (''error_message'', JStr []),
         (''progress_stages'', JArr (map (\<lambda>item. JObj (fresh_stage item)) PUBLISH_STAGES)),
         (''updated_at'', JStr now)]"
  have "stages_ok ?p"
    unfolding stages_ok_def
  proof (intro exI conjI)
    show "dget ?p ''progress_stages'' = JArr (map JObj (map fresh_stage PUBLISH_STAGES))" by (simp add: comp_def)
    show "list_all2 stage_ok PUBLISH_STAGES (map fresh_stage PUBLISH_STAGES)"
      by (simp add: list.rel_map(2)) (simp add: list.rel_refl stage_ok_def fresh_stage_def dhas_def dget_def)
  qed
  then obtain q where q: "mark_publish_stage now ?p ''source_frozen'' ''succeeded'' (FROZEN_TEXT sha) None [] = Inr q"
    using mark_total by blast
  obtain r where "mark_publish_stage now q ''compile_request_created'' ''succeeded'' REQUEST_CREATED_TEXT None [] = Inr r"
    using mark_total [OF mark_Inr(1) [OF q]] by blast
  with q show ?thesis by (simp add: build_publish_progress_payload_def)
qed

end
