(* ===== verification/PublishLive.thy ===== *)
theory PublishLive
  imports CompileLive
begin

text \<open>
  Publishing an undisturbed draft: the transaction that freezes the version leaves the request and the job that
  \<open>CompileLive\<close> shows to be published.
\<close>

lemma next_number_frozen:
  "next_published_version_no k (on_version i (\<lambda>v. v\<lparr>sv_commit := x, sv_manifest := m, sv_policy := p\<rparr>) (accept_publish env sd draft reason c))
   = next_published_version_no k c"
proof -
  have "map sv_no (filter (\<lambda>v. sv_skill v = k \<and> sv_status v = ''published'')
      (on_row_of sv_id i (changed_version n (\<lambda>v. v\<lparr>sv_commit := x, sv_manifest := m, sv_policy := p\<rparr>)) vs))
    = map sv_no (filter (\<lambda>v. sv_skill v = k \<and> sv_status v = ''published'') vs)" for n and vs :: "skill_version list"
    by (induction vs) (auto simp: on_row_of_def changed_version_def)
  then show ?thesis
    by (simp add: next_published_version_no_def published_numbers_def on_version_def accept_publish_def)
qed

lemma freeze_queues:
  fixes c :: catalog and env :: env and sd :: skill_definition and doc :: dict and head :: string
  defines "rec_id \<equiv> en_uuid env (cg_ids c)" and "sv \<equiv> frozen_version env sd doc head c"
  assumes "new_ids env c" "head \<noteq> []"
    and "\<forall>cr \<in> set (cg_requests c). cr_dedupe cr \<noteq> publish_dedupe sv head"
    and "\<forall>j \<in> set (cg_jobs c). j_dedupe j \<noteq> ''job:'' @ publish_dedupe sv head"
  shows "\<exists>cr d. freeze env sd (sv_id draft) rec_id doc head (accept_publish env sd draft reason c) = Inr (cr, d)
    \<and> queued env sd sv head c d"
proof -
  let ?rid = "en_uuid env (cg_ids c + 2)" and ?jid = "en_uuid env (cg_ids c + 3)"
  define f :: "skill_version \<Rightarrow> skill_version" where "f = (\<lambda>v. v\<lparr>sv_commit := Some head, sv_manifest := JObj (manifest_snapshot doc), sv_policy := JObj (runtime_policy_snapshot doc)\<rparr>)"
  define c1 where "c1 = on_version (sv_id draft) f (accept_publish env sd draft reason c)"
  define c2 where "c2 = on_record rec_id (\<lambda>r. r\<lparr>pr_version := sv_id sv, pr_commit := head\<rparr>) (add_version sv c1)"
  have ids: "cg_ids c1 = cg_ids c + 1" "cg_ids c2 = cg_ids c + 2"
    by (simp_all add: c1_def c2_def on_version_def accept_publish_def on_record_def add_version_def)
  have rows: "cg_requests c2 = cg_requests c" "cg_jobs c2 = cg_jobs c" "cg_artifacts c2 = cg_artifacts c" "cg_skills c2 = cg_skills c"
    "cg_iso c2 = cg_iso c" "cg_now c2 = cg_now c"
    by (simp_all add: c1_def c2_def on_version_def accept_publish_def on_record_def add_version_def)
  define cr where "cr = new_request env c2 ''publish'' sv head (publish_dedupe sv head)"
  obtain p where p: "build_publish_progress_payload (cg_iso c2) (cr_id cr) (Some rec_id) (cr_skill cr) (cr_version cr) head = Inr p"
    using build_payload_total by blast
  define c3 where "c3 = c2\<lparr>cg_requests := cg_requests c2 @ [cr], cg_ids := Suc (cg_ids c2)\<rparr>"
  define j where "j = \<lparr>j_id = fresh_id env c3, j_type = ''compile'', j_status = ''pending'', j_payload = p,
       j_run = None, j_request = Some (cr_id cr), j_worker = [], j_lease = None, j_available = cg_now c3,
       j_dedupe = ''job:'' @ publish_dedupe sv head, j_attempt = 0, j_max = en_max_attempts env, j_metrics = [], j_error = [],
       j_started = None, j_finished = None, j_created = cg_now c3\<rparr>"
  define d where "d = c3\<lparr>cg_jobs := cg_jobs c3 @ [j], cg_ids := Suc (cg_ids c3)\<rparr>"
  have sv: "\<lparr>sv_id = fresh_id env c1, sv_skill = sd_id sd, sv_no = next_published_version_no (sd_id sd) c1, sv_status = ''published'',
      sv_ref = sd_branch sd, sv_commit = Some head, sv_manifest = JObj (manifest_snapshot doc),
      sv_policy = JObj (runtime_policy_snapshot doc), sv_updated = cg_now (accept_publish env sd draft reason c)\<rparr> = sv"
    unfolding sv_def frozen_version_def fresh_id_def ids
    by (simp add: c1_def f_def next_number_frozen) (simp add: accept_publish_def)
  have "find (\<lambda>x. cr_dedupe x = publish_dedupe sv head) (cg_requests c2) = None"
    using assms(5) unfolding rows find_None_iff by blast
  moreover have "\<not> list_ex (\<lambda>x. cr_dedupe x = cr_dedupe cr) (cg_requests c2)"
    "\<not> list_ex (\<lambda>j. j_dedupe j = ''job:'' @ publish_dedupe sv head) (cg_jobs c3)"
    using assms(5,6) by (auto simp: rows list_ex_iff cr_def new_request_def c3_def)
  moreover have "sv_commit sv = Some head" by (simp add: sv_def frozen_version_def)
  ultimately have "create_compile_request_for_publish env sv (Some rec_id) c2 = Inr (cr, d)"
    using p assms(4)
    by (simp add: create_compile_request_for_publish_def Let_def add_request_def cr_def [symmetric] c3_def [symmetric]
      add_compile_job_def j_def d_def)
  then have "freeze env sd (sv_id draft) rec_id doc head (accept_publish env sd draft reason c) = Inr (cr, d)"
    unfolding freeze_def Let_def f_def [symmetric] c1_def [symmetric] sv c2_def [symmetric] .
  moreover have "queued env sd sv head c d"
    unfolding queued_def Let_def
  proof (intro conjI)
    have fresh: "record_of rec_id c = None" "version_of (sv_id sv) c = None" "request_of ?rid c = None" "job_of ?jid c = None"
      "\<forall>ea \<in> set (cg_artifacts c). ea_request ea \<noteq> ?rid"
      using assms(3) unfolding new_ids_def rec_id_def sv_def frozen_version_def by simp_all
    show "version_of (sv_id sv) d = Some sv"
      using fresh(2) unfolding version_of_def d_def c3_def c2_def c1_def
      by (simp add: on_record_def add_version_def on_version_def accept_publish_def row_of_append row_of_one
        find_on_row_of [where key = sv_id] f_def changed_version_def)
    show "\<exists>r. record_of (en_uuid env (cg_ids c)) d = Some r \<and> pr_status r = ''compiling'' \<and> pr_version r = sv_id sv \<and> pr_commit r = head"
      using fresh(1) unfolding record_of_def d_def c3_def c2_def c1_def rec_id_def
      by (simp add: on_record_def add_version_def on_version_def accept_publish_def row_of_append row_of_one
        find_on_row_of [where key = pr_id] fresh_id_def)
    show "\<exists>cr. request_of ?rid d = Some cr \<and> cr_skill cr = sd_id sd \<and> cr_version cr = sv_id sv \<and> cr_commit cr = head \<and> cr_status cr = ''pending''"
      using fresh(3) unfolding request_of_def
      by (simp add: d_def c3_def rows row_of_append row_of_one cr_def new_request_def fresh_id_def ids sv_def frozen_version_def)
    have "job_of ?jid d = Some j"
      using fresh(4) unfolding job_of_def by_id_def find_job_def
      by (simp add: d_def c3_def rows row_of_append [unfolded row_of_def] j_def fresh_id_def ids numeral_eq_Suc)
    moreover have "cr_id cr = ?rid" "?rid \<noteq> []" using assms(3) by (simp_all add: cr_def new_request_def fresh_id_def ids new_ids_def)
    ultimately show "\<exists>j. job_of ?jid d = Some j \<and> j_status j = ''pending'' \<and> j_attempt j = 0
        \<and> job_stands ?jid ?rid (en_uuid env (cg_ids c)) j"
      using build_payload_frame [OF p] build_payload_stages [OF p]
      by (simp add: j_def job_stands_def job_request_def payload_record_def rec_id_def fresh_id_def c3_def ids numeral_eq_Suc)
    show "\<forall>ea \<in> set (cg_artifacts d). ea_request ea \<noteq> ?rid" using fresh(5) by (simp add: d_def c3_def rows)
    show "\<forall>i. skill_of i d = skill_of i c" by (simp add: skill_of_def d_def c3_def rows)
  qed
  ultimately show ?thesis by blast
qed

lemma publish_queues:
  assumes "skill_of sid c = Some sd" "draft_version sd c = Some draft" "ce_others ce = (\<lambda>n c. c)"
    "ce_source ce (sd_project sd) (sd_branch sd) = Inr source" "frozen_document ce yaml sd draft source = Inr doc"
    "new_ids (ce_env ce) c" "so_head source \<noteq> []"
    "\<forall>cr \<in> set (cg_requests c). cr_dedupe cr \<noteq> publish_dedupe (frozen_version (ce_env ce) sd doc (so_head source) c) (so_head source)"
    "\<forall>j \<in> set (cg_jobs c). j_dedupe j \<noteq> ''job:'' @ publish_dedupe (frozen_version (ce_env ce) sd doc (so_head source) c) (so_head source)"
  shows "\<exists>t. publish_skill ce yaml sid reason (open_catalog None c) = (Inr (), t)
    \<and> queued (ce_env ce) sd (frozen_version (ce_env ce) sd doc (so_head source) c) (so_head source) c (cs_saved t)"
proof -
  obtain cr d where d: "freeze (ce_env ce) sd (sv_id draft) (en_uuid (ce_env ce) (cg_ids c)) doc (so_head source)
      (accept_publish (ce_env ce) sd draft reason c) = Inr (cr, d)"
    and q: "queued (ce_env ce) sd (frozen_version (ce_env ce) sd doc (so_head source) c) (so_head source) c d"
    using freeze_queues [OF assms(6-9)] by blast
  have commit: "commit_catalog (\<lambda>n c. c) s = (Inr (), s\<lparr>cs_saved := cs_now s, cs_step := Suc (cs_step s)\<rparr>)"
    "commit_and_begin (\<lambda>n c. c) s = (Inr (), s\<lparr>cs_saved := cs_now s, cs_step := Suc (cs_step s)\<rparr>)" if "cs_lease s = None" for s :: csession
    using that by (simp_all add: commit_catalog_def commit_and_begin_def sbind_def cfence_def fence_error_def release_jobs_def Let_def)
  define s1 where "s1 = \<lparr>cs_now = accept_publish (ce_env ce) sd draft reason c, cs_saved = accept_publish (ce_env ce) sd draft reason c,
      cs_lease = None, cs_healthy = True, cs_step = 1\<rparr>"
  have "publish_source ce yaml sd draft (en_uuid (ce_env ce) (cg_ids c)) s1
      = (Inr (), s1\<lparr>cs_now := d, cs_saved := d, cs_step := 2\<rparr>)"
    unfolding publish_source_def lift_eq [OF assms(4)] lift_eq [OF assms(5)]
    using d by (simp add: asks_then lift_then s1_def) (simp add: sbind_def edit_catalog_def assms(3) commit)
  then have "publish_skill ce yaml sid reason (open_catalog None c) = (Inr (), s1\<lparr>cs_now := d, cs_saved := d, cs_step := 2\<rparr>)"
    using assms(1,2)
    by (simp add: publish_skill_def Let_def open_catalog_def fresh_id_def sbind_def edit_catalog_def assms(3) commit s1_def on_exception_def)
  then show ?thesis using q by simp
qed

end
