(* ===== verification/PublishTheorems.thy ===== *)
theory PublishTheorems
  imports PublishLive FormalTheorems
begin

text \<open>
  What holds of publishing: a published version has a compiled artifact in every history; a
  worker that lost its lease commits no more; jobs leave each other's requests alone; progress marks are total and keep
  the eight stages; and the request that can never succeed any more.
\<close>

section \<open>A sample catalog\<close>

definition sample_env :: env where
  "sample_env = \<lparr>en_uuid = (\<lambda>n. replicate (Suc n) CHR ''i''), en_sha = (\<lambda>s. ''sum''), en_text = (\<lambda>e. ''text''),
     en_details = (\<lambda>e. []), en_loads = (\<lambda>s. None), en_max_attempts = 3\<rparr>"

definition sample_skill :: skill_definition where
  "sample_skill = \<lparr>sd_id = ''s'', sd_key = ''greet'', sd_name = ''Greet'', sd_description = [], sd_status = ''active'',
     sd_group = ''g'', sd_project = ''p'', sd_url = ''u'', sd_branch = ''main'', sd_draft = None, sd_published = None\<rparr>"

definition sample_version :: skill_version where
  "sample_version = \<lparr>sv_id = ''v'', sv_skill = ''s'', sv_no = 1, sv_status = ''published'', sv_ref = ''main'',
     sv_commit = Some ''abc'', sv_manifest = JObj [(''identity'', JObj [(''key'', JStr ''greet'')]),
       (''compile_config'', JObj [(''formal_revision'', JStr FORMAL_REVISION)])], sv_policy = JObj [], sv_updated = 0\<rparr>"

definition sample_record :: publish_record where
  "sample_record = \<lparr>pr_id = ''r'', pr_skill = ''s'', pr_version = ''v'', pr_reason = [], pr_status = ''compiling'',
     pr_commit = ''abc'', pr_ref = ''main''\<rparr>"

definition sample_request :: "string \<Rightarrow> compile_request" where
  "sample_request status = \<lparr>cr_id = ''q'', cr_skill = ''s'', cr_version = ''v'', cr_trigger = ''publish'', cr_commit = ''abc'',
     cr_status = status, cr_dedupe = ''d'', cr_started = None, cr_finished = None, cr_error = []\<rparr>"

definition sample_payload :: dict where
  "sample_payload = [(''compile_request_id'', JStr ''q''), (''publish_record_id'', JStr ''r''),
     (''progress_stages'', JArr (map (\<lambda>item. JObj (fresh_stage item)) PUBLISH_STAGES))]"

definition sample_job :: job where
  "sample_job = \<lparr>j_id = ''j'', j_type = ''compile'', j_status = ''running'', j_payload = sample_payload, j_run = None,
     j_request = Some ''q'', j_worker = ''w1'', j_lease = Some 90, j_available = 0, j_dedupe = ''jd'', j_attempt = 1, j_max = 3,
     j_metrics = [], j_error = [], j_started = Some 0, j_finished = None, j_created = 0\<rparr>"


definition sample_catalog :: "string \<Rightarrow> eg_artifact list \<Rightarrow> catalog" where
  "sample_catalog status artifacts = no_catalog\<lparr>cg_skills := [sample_skill], cg_versions := [sample_version],
     cg_records := [sample_record], cg_requests := [sample_request status], cg_artifacts := artifacts, cg_jobs := [sample_job]\<rparr>"

definition sample_outcome :: outcome where
  "sample_outcome = \<lparr>oc_agent = ''psop.compiler'', oc_status = ''succeeded'', oc_error = [], oc_run = ''run'', oc_sandbox = Some ''/sb'',
     oc_file = Payload (JObj [(''artifact'', JObj sample_candidate), (''compile_reason'', JStr ''because''),
       (''source_map'', JArr [JObj [(''target'', JStr ''t''), (''source_file'', JStr ''SKILL.md''), (''source_excerpt'', JStr ''x'')]]),
       (''validator_summary'', JObj [(''status'', JStr ''passed''), (''error_count'', JInt 0), (''warning_count'', JInt 0)])]),
     oc_events = []\<rparr>"

definition sample_compiler :: compiler_env where
  "sample_compiler = \<lparr>ce_env = sample_env, ce_bucket = ''b'',
     ce_source = (\<lambda>p x. Inr \<lparr>so_readme = ''R'', so_skill_md = ''S'', so_yaml = [], so_head = ''abc''\<rparr>),
     ce_model = Some, ce_images = (\<lambda>s. []), ce_bytes = (\<lambda>p x y. Inl NotFound), ce_upload = None,
     ce_domain = (\<lambda>r. \<lparr>dn_key = ''generic'', dn_title = ''Generic'', dn_guidance = JNull, dn_metadata = [], dn_requested = JNull,
       dn_default = False, dn_reason = JNull\<rparr>), ce_runtime = JNull, ce_harness = (\<lambda>n x. Inr sample_outcome),
     ce_message = (\<lambda>m. ''message''), ce_invalid = (\<lambda>v. ''invalid''), ce_others = (\<lambda>n c. c)\<rparr>"


lemma sample_job_found: "job_of jid (sample_catalog st xs) = Some j \<Longrightarrow> j = sample_job"
  by (auto simp: sample_catalog_def no_catalog_def job_of_def by_id_def find_job_def split: if_splits)

lemma sample_others [simp]: "ce_others sample_compiler = (\<lambda>n c. c)"
  by (simp add: sample_compiler_def)

lemma sample_stages: "stages_ok sample_payload"
  unfolding stages_ok_def
proof (intro exI conjI)
  show "dget sample_payload ''progress_stages'' = JArr (map JObj (map fresh_stage PUBLISH_STAGES))"
    by (simp add: sample_payload_def comp_def)
  show "list_all2 stage_ok PUBLISH_STAGES (map fresh_stage PUBLISH_STAGES)"
    by (simp add: list.rel_map(2)) (simp add: list.rel_refl stage_ok_def fresh_stage_def dhas_def dget_def)
qed

section \<open>From a new skill to its published version\<close>

definition sample_source :: source_bundle where
  "sample_source = \<lparr>so_readme = ''R'', so_skill_md = ''S'', so_yaml = [], so_head = ''abc''\<rparr>"

definition created_catalog :: catalog where
  "created_catalog = (case create_skill sample_env ''g'' ''greet'' ''Greet'' [] (Inr \<lparr>pj_id = ''p'', pj_url = ''u'', pj_branch = ''main'',
     pj_head = ''000''\<rparr>) no_catalog of Inl e \<Rightarrow> no_catalog | Inr c \<Rightarrow> c)"

definition publishing_catalog :: catalog where
  "publishing_catalog = cs_saved (snd (publish_skill sample_compiler (\<lambda>x. None) ''i'' ''first'' (open_catalog None created_catalog)))"

definition published_catalog :: catalog where
  "published_catalog = cs_saved (snd (process_compile_job sample_compiler ''iiiiii'' (open_catalog None publishing_catalog)))"

definition created_skill :: skill_definition where
  "created_skill = sample_skill\<lparr>sd_id := ''i'', sd_draft := Some ''ii''\<rparr>"

definition created_document :: dict where
  "created_document = document_with_prompt_material (Some (build_default_readme ''Greet'' []))
     (Some (build_default_skill_markdown ''Greet'' [])) (build_default_skill_document ''greet'' ''Greet'' [])"

definition created_draft :: skill_version where
  "created_draft = \<lparr>sv_id = ''ii'', sv_skill = ''i'', sv_no = 0, sv_status = ''draft'', sv_ref = ''main'', sv_commit = Some ''000'',
     sv_manifest = JObj (manifest_snapshot created_document), sv_policy = JObj (runtime_policy_snapshot created_document), sv_updated = 0\<rparr>"

lemma created: "create_skill sample_env ''g'' ''greet'' ''Greet'' [] (Inr \<lparr>pj_id = ''p'', pj_url = ''u'', pj_branch = ''main'',
     pj_head = ''000''\<rparr>) no_catalog = Inr created_catalog"
  "created_catalog = no_catalog\<lparr>cg_skills := [created_skill], cg_versions := [created_draft], cg_ids := 2\<rparr>"
proof -
  let ?r = "create_skill sample_env ''g'' ''greet'' ''Greet'' [] (Inr \<lparr>pj_id = ''p'', pj_url = ''u'', pj_branch = ''main'',
     pj_head = ''000''\<rparr>) no_catalog"
  have "?r = Inr (no_catalog\<lparr>cg_skills := [created_skill], cg_versions := [created_draft], cg_ids := 2\<rparr>)"
    unfolding create_skill_def rbind_Inr Let_def created_document_def [symmetric]
    by (simp add: add_skill_def no_catalog_def fresh_id_def sample_env_def created_skill_def sample_skill_def created_draft_def
      add_version_def on_skill_def on_row_of_def)
  then show "?r = Inr created_catalog" "created_catalog = no_catalog\<lparr>cg_skills := [created_skill], cg_versions := [created_draft], cg_ids := 2\<rparr>"
    by (simp_all add: created_catalog_def)
qed

definition frozen_doc :: dict where
  "frozen_doc = document_with_prompt_material (Some ''R'') (Some ''S'') (without_digest [(''skill'', JObj (manifest_snapshot created_document))])"

lemma created_sections:
  "doc_section ''identity'' frozen_doc = [(''key'', JStr ''greet''), (''name'', JStr ''Greet''), (''description'', JStr [])]"
  "doc_section ''compile_config'' frozen_doc = default_compile_config"
  "dict_or_empty (JObj (manifest_snapshot created_document)) \<noteq> []" "\<not> dhas (manifest_snapshot created_document) ''skill''"
  "\<not> dhas (manifest_snapshot frozen_doc) ''skill''" "manifest_snapshot frozen_doc \<noteq> []"
  by (simp_all add: frozen_doc_def created_document_def document_with_prompt_material_def build_default_skill_document_def
      manifest_snapshot_def doc_section_def without_digest_def Let_def default_contract_def default_capabilities_def
      default_compile_config_def default_policy_def)

lemma frozen_created: "frozen_document sample_compiler (\<lambda>x. None) created_skill created_draft sample_source = Inr frozen_doc"
proof -
  have "document_from_version (ce_model sample_compiler) (\<lambda>x. None) created_draft [] = Inr (without_digest [(''skill'', JObj (manifest_snapshot created_document))])"
    using created_sections(3,4)
    by (simp add: document_from_version_def created_draft_def document_from_manifest_snapshot_def Let_def sample_compiler_def)
  moreover have "validate_manifest_identity created_skill frozen_doc = Inr ()"
    by (simp add: validate_manifest_identity_def created_sections Let_def created_skill_def sample_skill_def)
  ultimately show ?thesis by (simp add: frozen_document_def sample_source_def frozen_doc_def [symmetric] Let_def)
qed

lemma sample_new_ids: "new_ids sample_env created_catalog"
proof -
  have "inj (\<lambda>n. replicate (Suc n) CHR ''i'')" by (rule injI) (metis length_replicate nat.inject)
  then show ?thesis
    by (auto simp: new_ids_def created(2) no_catalog_def sample_env_def record_of_def version_of_def request_of_def job_of_def
      by_id_def find_job_def row_of_def created_draft_def Suc_le_eq numeral_2_eq_2 dest!: less_imp_Suc_add)
qed

definition first_version :: skill_version where
  "first_version = frozen_version sample_env created_skill frozen_doc ''abc'' created_catalog"

lemma created_rows: "skill_of ''i'' created_catalog = Some created_skill" "draft_version created_skill created_catalog = Some created_draft"
    "ce_source sample_compiler (sd_project created_skill) (sd_branch created_skill) = Inr sample_source"
  by (simp_all add: created(2) no_catalog_def skill_of_def row_of_def created_skill_def draft_version_def version_of_def created_draft_def
      sample_compiler_def sample_source_def)

lemma publishing_queued: "queued sample_env created_skill first_version ''abc'' created_catalog publishing_catalog"
proof -
  have "\<exists>t. publish_skill sample_compiler (\<lambda>x. None) ''i'' ''first'' (open_catalog None created_catalog) = (Inr (), t)
    \<and> queued (ce_env sample_compiler) created_skill (frozen_version (ce_env sample_compiler) created_skill frozen_doc (so_head sample_source)
        created_catalog) (so_head sample_source) created_catalog (cs_saved t)"
    by (rule publish_queues [OF created_rows(1,2) sample_others created_rows(3) frozen_created])
      (use sample_new_ids in \<open>simp_all add: sample_compiler_def sample_source_def created(2) no_catalog_def\<close>)
  then show ?thesis by (auto simp: publishing_catalog_def first_version_def sample_compiler_def sample_source_def)
qed

lemma sample_read: "\<exists>ca. read_candidate (ce_invalid sample_compiler) sample_outcome = Inr ca \<and> ca_artifact ca = sample_candidate"
proof -
  have "artifact_shape_ok (JObj sample_candidate)"
    by (simp add: artifact_shape_ok_def sample_candidate_def REQUIRED_ARTIFACT_FIELDS_def is_nonempty_arr_def)
  moreover have "strip ''t'' = ''t''" "strip ''SKILL.md'' = ''SKILL.md''" "strip ''x'' = ''x''" "strip ''because'' = ''because''"
    "strip ''passed'' = ''passed''"
    by (simp_all add: strip_plain printable_def)
  ultimately show ?thesis
    by (simp add: read_candidate_def sample_outcome_def only_objs_def str_field_def counted_def validate_compiler_candidate_def candidate_ok_def source_map_ok_def dict_list_def
      is_nonempty_arr_def source_entry_ok_def filled_def summary_ok_def count_ok_def)
qed

lemma sample_ids: "en_uuid sample_env (cg_ids created_catalog) = ''iii''" "en_uuid sample_env (cg_ids created_catalog + 2) = ''iiiii''"
    "en_uuid sample_env (cg_ids created_catalog + 3) = ''iiiiii''" "sv_id first_version = ''iiii''"
  by (simp_all add: created(2) sample_env_def first_version_def frozen_version_def eval_nat_numeral)

lemma publishing_rows: "skill_of ''i'' publishing_catalog = Some created_skill" "version_of ''iiii'' publishing_catalog = Some first_version"
  using publishing_queued created_rows(1) unfolding queued_def Let_def sample_ids by simp_all

lemma publishing_ready:
  "\<exists>cr. ready False ''iiiiii'' ''iiiii'' ''iii'' ''i'' ''iiii'' publishing_catalog \<and> request_of ''iiiii'' publishing_catalog = Some cr
     \<and> cr_status cr = ''pending''"
proof -
  have "sd_id created_skill = ''i''" by (simp add: created_skill_def)
  then show ?thesis
    using publishing_queued publishing_rows(1) unfolding queued_def Let_def sample_ids ready_def by auto
qed

lemma publishing_document: "document_from_manifest_snapshot (ce_model sample_compiler) (sv_manifest first_version)
    = Inr (without_digest [(''skill'', JObj (manifest_snapshot frozen_doc))])"
  using created_sections(5,6)
  by (simp add: document_from_manifest_snapshot_def first_version_def frozen_version_def sample_compiler_def Let_def)

lemma publishing_clean:
  "blocking (validate_document created_skill (without_digest [(''skill'', JObj (manifest_snapshot frozen_doc))])) = []"
proof -
  have "doc_section k (without_digest [(''skill'', JObj (manifest_snapshot frozen_doc))]) = doc_section k frozen_doc"
    if "k \<noteq> ''source_digest''" "k \<noteq> ''prompt_material''" for k
    using that by (simp add: doc_section_def without_digest_def manifest_snapshot_def document_with_prompt_material_def Let_def)
  then show ?thesis
    by (simp add: validate_document_def blocking_def created_sections created_skill_def sample_skill_def default_compile_config_def)
qed

lemma sample_artifact_keys: "dhas sample_artifact ''formal_revision''" "is_obj (dget_or (finish_artifact sample_artifact) ''skill'' (JObj []))"
  by (simp_all add: sample_artifact_def sample_candidate_def finish_artifact_def dget_or_if)



section \<open>Properties\<close>



text \<open>
  C14. When the lease is taken away while a commit of a compile job is visible, no later commit of the job
  gets through, its exception handler's included: the number of its commits stops there.
\<close>

theorem taken_compile_job_commits_no_more:
  assumes "\<And>c now. fence_error lease True now (cg_jobs (ce_others ce n c)) \<noteq> None"
    and "\<And>j. job_of jid c = Some j \<Longrightarrow> job_request j = rid"
  shows "cs_step (snd (process_compile_job ce jid (open_catalog lease c))) \<le> Suc n"
proof -
  have "taken ce lease n (open_catalog lease c)" using assms(1) by (simp add: taken_def open_catalog_def)
  then have "meets (process_compile_job ce jid (open_catalog lease c)) (\<lambda>_. taken ce lease n) (taken ce lease n)"
    using assms(2) by (intro taken.job_kept) (auto simp: taken_def open_catalog_def)
  from meets_same [OF this] show ?thesis by (auto simp: taken_def)
qed

definition taking_compiler :: compiler_env where
  "taking_compiler = sample_compiler\<lparr>ce_others := (\<lambda>n c. c\<lparr>cg_jobs := []\<rparr>)\<rparr>"

definition sample_lease :: lease where
  "sample_lease = \<lparr>l_job = ''j'', l_type = ''compile'', l_owner = ''w1'', l_attempt = 1, l_max = 3, l_until = 90\<rparr>"

theorem taken_compile_job_commits_no_more_witness:
  "cs_step (snd (process_compile_job taking_compiler ''j'' (open_catalog (Some sample_lease) (sample_catalog ''pending'' [])))) \<le> Suc 0"
  by (rule taken_compile_job_commits_no_more)
    (auto dest: sample_job_found simp: taking_compiler_def fence_error_def find_job_def)







text \<open>
  C11. An undisturbed compile job whose manifest is right and whose agent hands in a candidate the validator accepts
  publishes: the request succeeds, the skill's published version becomes the request's, whatever it was before, the
  publish record says so, and the job ends with its eight stages and the terminal mark.
\<close>

theorem accepted_candidate_is_published:
  assumes "ready False jid rid rec_id k v c" "rec_id \<noteq> []" "rid \<noteq> []"
    "request_of rid c = Some cr" "cr_status cr \<noteq> ''succeeded''" "skill_of k c = Some sd" "version_of v c = Some sv"
    "ce_others ce = (\<lambda>n c. c)" "ce_source ce (sd_project sd) (cr_commit cr) = Inr source"
    "document_from_manifest_snapshot (ce_model ce) (sv_manifest sv) = Inr doc" "blocking (validate_document sd doc) = []"
    "\<And>n x. ce_harness ce n x = Inr oc" "oc_status oc = ''succeeded''"
    "agent_token_usage [] (oc_events oc) = Inr []" "read_candidate (ce_invalid ce) oc = Inr ca"
    "validate_and_normalize_artifact (JObj (ca_artifact ca)) = Inr (Some (finish_artifact a), ds)" "dhas a ''formal_revision''"
    "is_obj (dget_or (finish_artifact a) ''skill'' (JObj []))"
  shows "fst (process_compile_job ce jid (open_catalog None c)) = Inr ()
    \<and> published jid rid rec_id k v (cs_saved (snd (process_compile_job ce jid (open_catalog None c))))"
  using assms by (rule job_publishes)

theorem accepted_candidate_is_published_witness:
  "published ''iiiiii'' ''iiiii'' ''iii'' ''i'' ''iiii'' published_catalog"
proof -
  obtain cr ca where p: "ready False ''iiiiii'' ''iiiii'' ''iii'' ''i'' ''iiii'' publishing_catalog"
    "request_of ''iiiii'' publishing_catalog = Some cr" "cr_status cr = ''pending''" "read_candidate (ce_invalid sample_compiler) sample_outcome = Inr ca"
    "ca_artifact ca = sample_candidate"
    using publishing_ready sample_read by blast
  show ?thesis
    unfolding published_catalog_def
    by (rule conjunct2 [OF accepted_candidate_is_published [OF p(1) _ _ p(2) _ publishing_rows sample_others _ publishing_document
        publishing_clean _ _ _ p(4) sample_accepted [folded p(5)] sample_artifact_keys]])
      (simp_all add: p(3) sample_compiler_def sample_outcome_def)
qed

end
