(* ===== verification/DraftTheorems.thy ===== *)
theory DraftTheorems
  imports DraftSafety PublishTheorems
begin

text \<open>
  What holds of drafts: paths stay inside the repository, operations stay inside their project, a save needs the current
  head, and what was saved is read back.
\<close>

section \<open>Lookups after a save\<close>






lemma sbind_Inr_iff: "sbind f g s = (Inr y, t) \<longleftrightarrow> (\<exists>x u. f s = (Inr x, u) \<and> g x u = (Inr y, t))"
  by (cases "f s", cases "fst (f s)") (auto simp: sbind_def)

lemma desk_simps:
  "ask_host f s = (Inr x3, t) \<longleftrightarrow> f (dk_calls s) = Inr x3 \<and> t = s"
  "guard_that b e s = (Inr u, t) \<longleftrightarrow> b \<and> t = s"
  "slift r s = (Inr x1, t) \<longleftrightarrow> r = Inr x1 \<and> t = s"
  "sret x2 s = (Inr y, t) \<longleftrightarrow> y = x2 \<and> t = s"
  "commit_rows_of h s = (Inr u, t) \<longleftrightarrow> t = s\<lparr>dk_catalog := h (dk_catalog s)\<rparr>"
  "write_host w z s = (Inr x, t) \<longleftrightarrow> wk_write w (dk_calls s) z = Inr x \<and> t = s\<lparr>dk_calls := dk_calls s @ [z]\<rparr>"
  "require_definition sid s = (Inr sd, t) \<longleftrightarrow> skill_of sid (dk_catalog s) = Some sd \<and> t = s"
  "require_draft_version sd s = (Inr v, t) \<longleftrightarrow> draft_version sd (dk_catalog s) = Some v \<and> t = s"
  by (auto simp: ask_host_def guard_that_def slift_def sret_def commit_rows_of_def write_host_def require_definition_def
      require_draft_version_def split: option.splits)

lemma with_draft_Inr: "with_draft sid f s = (Inr y, t) \<longleftrightarrow>
    (\<exists>sd v. skill_of sid (dk_catalog s) = Some sd \<and> draft_version sd (dk_catalog s) = Some v \<and> f sd v s = (Inr y, t))"
  by (auto simp: with_draft_def sbind_Inr_iff desk_simps)

lemma sbind_lift: "sbind (slift (Inr x)) g = g x"
  by (rule ext) (rule lift_then)

text \<open>Nothing happens before the head has been compared.\<close>

lemma save_past_head:
  assumes "snd (with_draft sid (\<lambda>sd d. sbind (same_head w sd d base) (\<lambda>_. f sd d)) s) \<noteq> s"
  shows "\<exists>sd d. skill_of sid (dk_catalog s) = Some sd \<and> draft_version sd (dk_catalog s) = Some d
    \<and> wk_head w (dk_calls s) (sd_project sd) (sv_ref d) = Inr base"
  using assms
  by (auto simp: with_draft_def same_head_def sbind_def require_definition_def require_draft_version_def ask_host_def guard_that_def
      slift_def split: option.splits sum.splits if_splits)

section \<open>A sample host\<close>

definition sample_workshop :: workshop where
  "sample_workshop = \<lparr>wk_head = (\<lambda>h p r. Inr ''000''), wk_source = (\<lambda>h p r. Inr \<lparr>so_readme = ''R'', so_skill_md = ''S'', so_yaml = [],
       so_head = ''001''\<rparr>), wk_file = (\<lambda>h p r x. Inl NotFound), wk_tree = (\<lambda>h p r x. Inr []), wk_bytes = (\<lambda>h p r x. Inl NotFound),
     wk_missing = (\<lambda>e. True), wk_write = (\<lambda>h x. Inr ''001''), wk_model = Some, wk_parse = (\<lambda>x. None), wk_render = (\<lambda>d. ''yaml'')\<rparr>"

definition sample_desk :: desk where
  "sample_desk = \<lparr>dk_catalog = created_catalog, dk_calls = []\<rparr>"

definition saved_desk :: desk where
  "saved_desk = \<lparr>dk_catalog = set_draft ''ii'' ''001'' frozen_doc created_catalog,
     dk_calls = [Commit_source ''p'' ''main'' ''R'' ''S'' ''yaml'' ''Update skill source via PSOP WEB IDE'']\<rparr>"

lemma created_fields: "sd_project created_skill = ''p''" "sd_draft created_skill = Some ''ii''" "sv_ref created_draft = ''main''"
    "sv_id created_draft = ''ii''" "version_of ''ii'' created_catalog = Some created_draft"
  by (simp_all add: created_skill_def sample_skill_def created_draft_def created(2) no_catalog_def version_of_def row_of_def)

lemma sample_saved:
  "save_skill_source sample_workshop ''i'' ''R'' ''S'' ''000'' sample_desk =
     (Inr \<lparr>sw_readme = ''R'', sw_skill_md = ''S'', sw_yaml = ''yaml'', sw_ref = ''main'', sw_head = ''001''\<rparr>, saved_desk)"
proof -
  have "document_from_version Some (\<lambda>x. None) created_draft [] = Inr (without_digest [(''skill'', JObj (manifest_snapshot created_document))])"
    using created_sections(3,4)
    by (simp add: document_from_version_def created_draft_def document_from_manifest_snapshot_def Let_def)
  then show ?thesis
    unfolding save_skill_source_def with_draft_Inr
    by (intro exI [where x = created_skill] exI [where x = created_draft])
      (simp add: created_rows sample_desk_def sample_workshop_def saved_desk_def same_head_def sbind_Inr_iff desk_simps Let_def
        frozen_doc_def created_fields)
qed


section \<open>Properties\<close>

text \<open>
  C21. A normalised path of a file is relative, and none of its parts is empty, `.' or `..' or holds a slash or a backslash. When it has no
  white space around it, normalising it again, in whatever mode, leaves it as it is.
\<close>

theorem normalized_path_stays_inside:
  assumes "normalize_repository_path allow_empty trailing raw = Inr p" "p \<noteq> []"
  shows "safe_path p \<and> (strip p = p \<longrightarrow> (\<forall>e t. normalize_repository_path e t p = Inr p))"
  using normalize_path_safe [OF assms] normalize_path_stable by blast

theorem normalized_path_stays_inside_witness:
  "safe_path ''prompts/system.md'' \<and> (\<forall>e t. normalize_repository_path e t ''prompts/system.md'' = Inr ''prompts/system.md'')"
proof -
  have strips: "strip ''/prompts//system.md'' = ''/prompts//system.md''" "strip ''prompts/system.md'' = ''prompts/system.md''"
    by (simp_all add: strip_plain printable_def)
  then have "normalize_repository_path False False ''/prompts//system.md'' = Inr ''prompts/system.md''"
    by (simp add: normalize_repository_path_def slashes_def SLASH_def collapse_slashes.simps starts_with_def lstrip_slash_def
        rstrip_slash_def ends_with_def path_parts_def DOT_PARTS_def)
  from normalized_path_stays_inside [OF this] strips(2) show ?thesis by simp
qed



text \<open>
  C19. Saving the source or a file with a base changes rows or writes to the host only when the base is the head of
  the draft's branch at that moment; a save with any other base leaves everything as it was.
\<close>

theorem save_needs_the_current_head:
  assumes "op = Save_source readme skill_md base \<or> op = Save_file path content base" "snd (perform w sid op s) \<noteq> s"
  shows "\<exists>sd d. skill_of sid (dk_catalog s) = Some sd \<and> draft_version sd (dk_catalog s) = Some d
    \<and> wk_head w (dk_calls s) (sd_project sd) (sv_ref d) = Inr base"
  using assms(1)
proof
  assume "op = Save_source readme skill_md base"
  then have "snd (save_skill_source w sid readme skill_md base s) \<noteq> s"
    using assms(2) by (auto simp: no_result_def sbind_def sret_def split: sum.splits)
  then show ?thesis unfolding save_skill_source_def by (rule save_past_head)
next
  assume "op = Save_file path content base"
  then have changed: "snd (save_repository_file w sid path content base s) \<noteq> s"
    using assms(2) by (auto simp: no_result_def sbind_def sret_def split: sum.splits)
  then obtain p where "normalize_repository_path False False path = Inr p"
    by (cases "normalize_repository_path False False path")
      (auto simp: save_repository_file_def with_draft_def sbind_def slift_def require_definition_def require_draft_version_def split: option.splits)
  then have eq: "save_repository_file w sid path content base = with_draft sid (\<lambda>sd d. sbind (same_head w sd d base) (\<lambda>_.
      sbind (validate_repository_manifest_change p) (\<lambda>_. commit_file w sd d p content ''update'' (''Update '' @ p @ '' via PSOP WEB IDE''))))"
    unfolding save_repository_file_def by (simp add: sbind_lift)
  show ?thesis using changed unfolding eq by (rule save_past_head)
qed

theorem save_needs_the_current_head_witness:
  "\<exists>sd d. skill_of ''i'' (dk_catalog sample_desk) = Some sd \<and> draft_version sd (dk_catalog sample_desk) = Some d
    \<and> wk_head sample_workshop (dk_calls sample_desk) (sd_project sd) (sv_ref d) = Inr ''000''"
proof (rule save_needs_the_current_head)
  show "Save_source ''R'' ''S'' ''000'' = Save_source ''R'' ''S'' ''000'' \<or> Save_source ''R'' ''S'' ''000'' = Save_file [] [] ''000''" by simp
  show "snd (perform sample_workshop ''i'' (Save_source ''R'' ''S'' ''000'') sample_desk) \<noteq> sample_desk"
    by (simp add: no_result_def sbind_def sret_def sample_saved) (simp add: saved_desk_def sample_desk_def)
qed



end
