(* ===== verification/BuilderTexts.thy ===== *)
theory BuilderTexts
  imports Guards
begin

text \<open>
  The sentences of the builder's candidate schema (\<^verbatim>\<open>agent_harness/agents/psop/builder/schemas.py\<close>), as
  UTF-8 bytes with the interpolated values as arguments.
\<close>

definition B_INVALID_PATH :: "string \<Rightarrow> string" where
  "B_INVALID_PATH v = u8 [231, 148, 159, 230, 136, 144, 230, 150, 135, 228, 187, 182, 232, 183, 175, 229, 190, 132, 233, 157, 158, 230, 179, 149, 239, 188, 154] @
     v"

definition B_FILES_REQUIRED :: "string" where
  "B_FILES_REQUIRED = ''files '' @ u8 [229, 191, 133, 233, 161, 187, 230, 152, 175, 233, 157, 158, 231, 169,
     186, 229, 175, 185, 232, 177, 161, 227, 128, 130]"

definition B_DUPLICATE_PATH :: "string \<Rightarrow> string" where
  "B_DUPLICATE_PATH p = u8 [231, 148, 159, 230, 136, 144, 230, 150, 135, 228, 187, 182, 232, 183, 175, 229, 190, 132, 229, 189, 146, 228, 184, 128, 229, 140, 150, 229, 144, 142, 233, 135, 141, 229, 164, 141, 239, 188, 154] @
     p"

definition B_FORBIDDEN_FILE :: "string" where
  "B_FORBIDDEN_FILE = ''builder candidate '' @ u8 [228, 184, 141, 229, 190, 151, 229, 140, 133, 229, 144, 171] @
     '' skill.yaml'' @ u8 [227, 128, 130]"

definition B_EMPTY_FILE :: "string \<Rightarrow> string" where
  "B_EMPTY_FILE p = p @ '' '' @ u8 [229, 134, 133, 229, 174, 185, 228, 184, 141, 232, 131, 189, 228, 184, 186,
     231, 169, 186, 227, 128, 130]"

definition B_PLACEHOLDER :: "string \<Rightarrow> string \<Rightarrow> string" where
  "B_PLACEHOLDER p pat = p @ '' '' @ u8 [229, 140, 133, 229, 144, 171, 229, 141, 160, 228, 189, 141, 229, 134,
     133, 229, 174, 185, 239, 188, 154] @ pat"

definition B_MISSING_FILE :: "string \<Rightarrow> string" where
  "B_MISSING_FILE p = ''builder candidate '' @ u8 [231, 188, 186, 229, 176, 145, 229, 191, 133, 233, 156, 128,
     230, 150, 135, 228, 187, 182, 239, 188, 154] @ p"

definition B_MATERIAL_USAGE_REQUIRED :: "string" where
  "B_MATERIAL_USAGE_REQUIRED = ''material_usage '' @ u8 [229, 191, 133, 233, 161, 187, 233, 157, 158, 231, 169,
     186, 227, 128, 130]"

definition B_STAGE_ONE :: "string" where
  "B_STAGE_ONE = u8 [230, 148, 175, 230, 146, 145, 233, 152, 182, 230, 174, 181] @ '' 1'' @ u8 [227, 128, 130]"

definition B_ASSETS_REQUIRED :: "string" where
  "B_ASSETS_REQUIRED = ''selected_reference_assets '' @ u8 [229, 191, 133, 233, 161, 187, 232, 135, 179, 229,
     176, 145, 233, 128, 137, 230, 139, 169, 228, 184, 128, 233, 161, 185, 227, 128, 130]"

definition B_TOO_MANY_ASSETS :: "string" where
  "B_TOO_MANY_ASSETS = ''selected_reference_assets '' @ u8 [230, 149, 176, 233, 135, 143, 228, 184, 141, 232,
     131, 189, 232, 182, 133, 232, 191, 135] @ '' 12'' @ u8 [227, 128, 130]"

definition B_UNKNOWN_ASSET :: "string \<Rightarrow> string" where
  "B_UNKNOWN_ASSET i = ''selected_reference_assets '' @ u8 [229, 140, 133, 229, 144, 171, 233, 157, 158, 229,
     128, 153, 233, 128, 137, 232, 181, 132, 228, 186, 167, 239, 188, 154] @ i"

definition B_UNKNOWN_ASSET_PATH :: "string \<Rightarrow> string" where
  "B_UNKNOWN_ASSET_PATH p = ''selected_reference_assets '' @ u8 [229, 140, 133, 229, 144, 171, 233, 157, 158,
     229, 128, 153, 233, 128, 137] @ '' reference_path'' @ u8 [239, 188, 154] @ p"

definition B_COLLECTION_REQUIRED :: "string \<Rightarrow> string" where
  "B_COLLECTION_REQUIRED field = field @ '' '' @ u8 [229, 191, 133, 233, 161, 187, 233, 157, 158, 231, 169, 186,
     227, 128, 130]"

definition B_BLOCKING_NOTE :: "string" where
  "B_BLOCKING_NOTE = u8 [229, 173, 152, 229, 156, 168] @ '' blocking missing_questions '' @ u8 [230, 151, 182] @
     '' review_notes '' @ u8 [229, 191, 133, 233, 161, 187, 232, 175, 180, 230, 152, 142, 229, 174, 161, 233, 152,
     133, 233, 163, 142, 233, 153, 169, 227, 128, 130]"

definition B_ALL_STAGES_EMPTY :: "string" where
  "B_ALL_STAGES_EMPTY = ''scope=all_stages '' @ u8 [230, 151, 182] @ '' stage_ids '' @ u8 [229, 191, 133, 233,
     161, 187, 228, 184, 186, 231, 169, 186, 227, 128, 130]"

definition B_SELECTED_STAGES :: "string" where
  "B_SELECTED_STAGES = ''scope=selected_stages '' @ u8 [230, 151, 182] @ '' stage_ids '' @ u8 [229, 191, 133,
     233, 161, 187, 233, 157, 158, 231, 169, 186, 227, 128, 130]"

definition B_EVIDENCE_STAGE :: "string \<Rightarrow> string" where
  "B_EVIDENCE_STAGE i = ''expected evidence '' @ u8 [229, 188, 149, 231, 148, 168, 228, 186, 134, 230, 156, 170,
     229, 163, 176, 230, 152, 142, 231, 154, 132] @ '' stage_id'' @ u8 [239, 188, 154] @ i"

definition B_UNKNOWN_TARGET :: "string \<Rightarrow> string \<Rightarrow> string" where
  "B_UNKNOWN_TARGET t i = t @ '' '' @ u8 [229, 188, 149, 231, 148, 168, 228, 186, 134, 230, 156, 170, 229, 163,
     176, 230, 152, 142, 231, 154, 132] @ '' target_id'' @ u8 [239, 188, 154] @ i"

definition B_NO_HEADING :: "string \<Rightarrow> string \<Rightarrow> string" where
  "B_NO_HEADING i t = ''SKILL.md '' @ u8 [231, 188, 186, 229, 176, 145] @ '' workflow '' @ u8 [230, 160, 135,
     233, 162, 152, 239, 188, 154] @ ''['' @ i @ ''] '' @ t"

definition B_HEADING_TWICE :: "string \<Rightarrow> string" where
  "B_HEADING_TWICE i = ''SKILL.md '' @ u8 [228, 184, 173] @ '' stage_id '' @ u8 [233, 135, 141, 229, 164, 141,
     239, 188, 154] @ i"

definition B_TITLE_MISMATCH :: "string \<Rightarrow> string" where
  "B_TITLE_MISMATCH i = ''SKILL.md '' @ u8 [228, 184, 173] @ '' stage_id='' @ i @ '' '' @ u8 [231, 154, 132,
     230, 160, 135, 233, 162, 152, 228, 184, 142] @ '' candidate '' @ u8 [228, 184, 141, 228, 184, 128, 232, 135,
     180, 227, 128, 130]"

definition B_STAGE_LABEL :: "string" where
  "B_STAGE_LABEL = u8 [229, 183, 165, 228, 189, 156, 230, 181, 129, 233, 152, 182, 230, 174, 181]"

definition B_CONSTRAINT_LABEL :: "string" where
  "B_CONSTRAINT_LABEL = u8 [229, 174, 137, 229, 133, 168, 231, 186, 166, 230, 157, 159]"

definition B_REQUIREMENT_LABEL :: "string" where
  "B_REQUIREMENT_LABEL = u8 [233, 162, 132, 230, 156, 159, 232, 175, 129, 230, 141, 174, 232, 166, 129, 230, 177, 130]"

definition B_UNSUPPORTED :: "string \<Rightarrow> string \<Rightarrow> string \<Rightarrow> string" where
  "B_UNSUPPORTED l i srcs = l @ '' '' @ i @ '' '' @ u8 [228, 187, 133, 231, 148, 177, 228, 184, 141, 229, 143,
     175, 233, 170, 140, 232, 175, 129, 230, 157, 165, 230, 186, 144, 230, 148, 175, 230, 146, 145, 239, 188,
     154] @ srcs @ u8 [239, 188, 155, 229, 188, 186, 229, 136, 182, 231, 155, 174, 230, 160, 135, 229, 191, 133,
     233, 161, 187, 229, 188, 149, 231, 148, 168, 231, 148, 168, 230, 136, 183, 231, 161, 174, 232, 174, 164, 227,
     128, 129, 231, 180, 160, 230, 157, 144, 229, 136, 134, 230, 158, 144, 227, 128, 129, 229, 143, 130, 232, 128,
     131, 232, 181, 132, 228, 186, 167, 230, 136, 150, 229, 143, 175, 232, 191, 189, 230, 186, 175, 232, 161, 140,
     228, 184, 154, 230, 160, 135, 229, 135, 134, 227, 128, 130]"

definition B_UNCOVERED :: "string \<Rightarrow> string \<Rightarrow> string" where
  "B_UNCOVERED l i = l @ u8 [231, 188, 186, 229, 176, 145, 229, 143, 175, 233, 170, 140, 232, 175, 129] @
     '' evidence_map.used_in '' @ u8 [232, 166, 134, 231, 155, 150, 239, 188, 154] @ i"

definition B_NOT_IN_SKILL :: "string \<Rightarrow> string" where
  "B_NOT_IN_SKILL p = u8 [233, 128, 137, 228, 184, 173, 231, 154, 132] @ '' reference_path '' @ u8 [230, 156,
     170, 232, 162, 171] @ '' SKILL.md '' @ u8 [230, 181, 129, 231, 168, 139, 229, 134, 133, 229, 174, 185, 229,
     188, 149, 231, 148, 168, 239, 188, 154] @ p"

definition B_NOT_IN_DOCS :: "string \<Rightarrow> string" where
  "B_NOT_IN_DOCS p = u8 [233, 128, 137, 228, 184, 173, 231, 154, 132] @ '' reference_path '' @ u8 [230, 156,
     170, 232, 162, 171, 229, 128, 153, 233, 128, 137, 230, 150, 135, 230, 161, 163, 229, 188, 149, 231, 148, 168,
     239, 188, 154] @ p"

definition B_ID_TWICE :: "string \<Rightarrow> string \<Rightarrow> string" where
  "B_ID_TWICE field i = field @ '' '' @ u8 [229, 191, 133, 233, 161, 187, 229, 148, 175, 228, 184, 128, 239,
     188, 154] @ i"

definition B_UNKNOWN_STAGE :: "string \<Rightarrow> string" where
  "B_UNKNOWN_STAGE i = u8 [229, 188, 149, 231, 148, 168, 228, 186, 134, 230, 156, 170, 229, 163, 176, 230, 152, 142, 231, 154, 132] @
     '' stage_id'' @ u8 [239, 188, 154] @ i"

definition B_RENAMED_ID :: "string \<Rightarrow> string \<Rightarrow> string" where
  "B_RENAMED_ID t i = u8 [230, 156, 170, 229, 143, 152, 229, 140, 150, 231, 154, 132] @ '' '' @ t @ '' '' @
     u8 [228, 184, 141, 229, 190, 151, 233, 135, 141, 229, 145, 189, 229, 144, 141, 231, 168, 179, 229, 174,
     154] @ '' ID'' @ u8 [239, 188, 155, 232, 175, 183, 230, 129, 162, 229, 164, 141, 229, 142, 159] @ '' ID'' @
     u8 [239, 188, 154] @ i"

definition B_TODO_PATTERN :: "string" where
  "B_TODO_PATTERN = ''^'' @ u8 [92] @ ''s*(?:[-*+]'' @ u8 [92] @ ''s*)?(?:'' @ u8 [92] @ ''[[ xX]'' @ u8 [92] @
     '']'' @ u8 [92] @ ''s*)?TODO(?:'' @ u8 [92] @ ''s*[:'' @ u8 [239, 188, 154] @ '']|'' @ u8 [92] @ ''s*$)''"

definition B_FILL_IN_PATTERN :: "string" where
  "B_FILL_IN_PATTERN = ''^'' @ u8 [92] @ ''s*(?:[-*+]'' @ u8 [92] @ ''s*)?'' @ u8 [229, 190, 133, 232, 161, 165,
     229, 133, 133] @ ''(?:'' @ u8 [92] @ ''s*[:'' @ u8 [239, 188, 154] @ '']|'' @ u8 [92] @ ''s*$)''"

definition B_SAMPLE_PATH_PATTERN :: "string" where
  "B_SAMPLE_PATH_PATTERN = u8 [231, 164, 186, 228, 190, 139, 232, 183, 175, 229, 190, 132]"

definition B_DOTS_PATTERN :: "string" where
  "B_DOTS_PATTERN = ''references/'' @ u8 [92] @ ''.'' @ u8 [92] @ ''.'' @ u8 [92] @ ''.''"

definition B_FILL_IN :: "string" where
  "B_FILL_IN = u8 [229, 190, 133, 232, 161, 165, 229, 133, 133]"

definition B_WIDE_COLON :: "string" where
  "B_WIDE_COLON = u8 [239, 188, 154]"

definition B_NO_DIAGNOSTICS :: "string" where
  "B_NO_DIAGNOSTICS = ''builder candidate '' @ u8 [230, 160, 161, 233, 170, 140, 229, 164, 177, 232, 180, 165,
     227, 128, 130]"

definition B_FIRST_DIAGNOSTIC :: "string \<Rightarrow> string \<Rightarrow> string \<Rightarrow> string" where
  "B_FIRST_DIAGNOSTIC n p m = ''builder candidate '' @ u8 [230, 160, 161, 233, 170, 140, 229, 164, 177, 232,
     180, 165, 239, 188, 136, 229, 133, 177] @ '' '' @ n @ '' '' @ u8 [233, 161, 185, 239, 188, 137, 239, 188,
     154] @ p @ u8 [239, 188, 154] @ m"

definition B_SAMPLE_QUESTION :: "string" where
  "B_SAMPLE_QUESTION = u8 [230, 142, 165, 229, 143, 163, 229, 158, 139, 229, 143, 183, 230, 152, 175, 229, 144, 166, 229, 183, 178, 231, 161, 174, 232, 174, 164, 239, 188, 159]"

definition B_SAMPLE_REASON :: "string" where
  "B_SAMPLE_REASON = u8 [231, 180, 160, 230, 157, 144, 230, 156, 170, 230, 152, 190, 231, 164, 186, 230, 160, 135, 231, 173, 190, 227, 128, 130]"

definition B_CANDIDATE_INVALID :: "string" where
  "B_CANDIDATE_INVALID = u8 [229, 128, 153, 233, 128, 137, 228, 186, 167, 231, 137, 169, 228, 184, 141, 231, 172, 166, 229, 144, 136] @
     '' schema'' @ u8 [227, 128, 130]"

definition B_FIELD_INVALID :: "string" where
  "B_FIELD_INVALID = u8 [229, 128, 153, 233, 128, 137, 229, 173, 151, 230, 174, 181, 230, 151, 160, 230, 149, 136, 227, 128, 130]"

end
