(* ===== verification/BuilderCandidate.thy ===== *)
theory BuilderCandidate
  imports BuilderTexts PyJson RepositoryPath "HOL-Library.Product_Lexorder"
begin

text \<open>
  What the builder agent hands in (\<^verbatim>\<open>agent_harness/agents/psop/builder/schemas.py\<close>): the candidate with its evidence, the diagnostics, the
  order they are shown in, and the paths of its files.
\<close>

section \<open>The candidate\<close>

record source_ref =
  er_type :: string
  er_ref :: string
  er_material :: string
  er_asset :: string
  er_standard :: string
  er_clause :: string

record usage_target =
  ut_type :: string
  ut_id :: string

record evidence_item =
  em_claim :: string
  em_level :: string
  em_sources :: "source_ref list"
  em_used :: "usage_target list"

record material_usage =
  mu_material :: string
  mu_usage :: string

record standard_usage =
  su_standard :: string
  su_clause :: string
  su_usage :: string
  su_used :: "usage_target list"

record selected_asset =
  ra_asset :: string
  ra_material :: string
  ra_path :: string
  ra_reason :: string
  ra_stages :: "string list"

record missing_question =
  mq_question :: string
  mq_reason :: string
  mq_level :: string

record safety_constraint =
  sf_id :: string
  sf_scope :: string
  sf_stages :: "string list"
  sf_constraint :: string
  sf_risk :: string
  sf_action :: string

record workflow_step =
  ws_id :: string
  ws_title :: string

record expected_requirement =
  xr_id :: string
  xr_stage :: string
  xr_type :: string
  xr_criteria :: string

record builder_candidate =
  bc_tree :: string
  bc_files :: "(string \<times> string) list"
  bc_reason :: string
  bc_notes :: "string list"
  bc_materials :: "material_usage list"
  bc_standards :: "standard_usage list"
  bc_assets :: "selected_asset list"
  bc_evidence :: "evidence_item list"
  bc_questions :: "missing_question list"
  bc_constraints :: "safety_constraint list"
  bc_steps :: "workflow_step list"
  bc_requirements :: "expected_requirement list"

text \<open>\<^verbatim>\<open>_require_type_specific_reference\<close>: what a source must point at. \<open>dot_free\<close>: \<^verbatim>\<open>.+\<close> stops at a line's end.\<close>

definition current_source_ref :: "string \<Rightarrow> bool" where
  "current_source_ref s \<longleftrightarrow> list_ex (\<lambda>p. s = p \<or>
     starts_with (p @ ''#'') s \<and> length s > length p + 1 \<and> CHR 0x0A \<notin> set (drop (length p + 1) s)) [''README.md'', ''SKILL.md'']"

definition source_ref_ok :: "source_ref \<Rightarrow> bool" where
  "source_ref_ok r \<longleftrightarrow>
     \<not> (er_type r = ''material_analysis'' \<and> er_material r = [] \<and> er_ref r = [])
     \<and> \<not> (er_type r = ''reference_asset'' \<and> er_asset r = [] \<and> er_ref r = [])
     \<and> \<not> (er_type r = ''industry_standard'' \<and> er_standard r = [] \<and> er_ref r = [])
     \<and> \<not> (er_type r \<in> {''user_description'', ''current_source'', ''builder_inference'', ''human_confirmation_required''} \<and> er_ref r = [])
     \<and> (er_type r = ''current_source'' \<longrightarrow> current_source_ref (er_ref r))"

section \<open>Diagnostics\<close>

record bdiag =
  bd_path :: string
  bd_code :: string
  bd_message :: string
  bd_allowed :: "json list"
  bd_example :: json

definition diagnostic :: "string \<Rightarrow> string \<Rightarrow> string \<Rightarrow> bdiag" where
  "diagnostic path code message = \<lparr>bd_path = path, bd_code = code, bd_message = message, bd_allowed = [], bd_example = JNull\<rparr>"

definition with_example :: "json \<Rightarrow> bdiag \<Rightarrow> bdiag" where
  "with_example x d = d\<lparr>bd_example := x\<rparr>"

definition allowing :: "string list \<Rightarrow> bdiag \<Rightarrow> bdiag" where
  "allowing xs d = d\<lparr>bd_allowed := map JStr xs\<rparr>"

definition diag_key :: "bdiag \<Rightarrow> string \<times> string \<times> string" where
  "diag_key d = (text_or (bd_path d) ''candidate'', text_or (bd_code d) ''invalid_candidate'', text_or (bd_message d) B_FIELD_INVALID)"

text \<open>The first diagnostic of each key, in the order of the keys.\<close>

fun first_by :: "('a \<Rightarrow> 'k) \<Rightarrow> 'k list \<Rightarrow> 'a list \<Rightarrow> 'a list" where
  "first_by f seen [] = []"
| "first_by f seen (x # xs) = (if f x \<in> set seen then first_by f seen xs else x # first_by f (f x # seen) xs)"

definition sort_diagnostics :: "bdiag list \<Rightarrow> bdiag list" where
  "sort_diagnostics ds = sort_key diag_key (first_by diag_key [] ds)"

definition diagnostics_message :: "bdiag list \<Rightarrow> string" where
  "diagnostics_message ds =
     (case ds of
        [] \<Rightarrow> B_NO_DIAGNOSTICS
      | d # _ \<Rightarrow> B_FIRST_DIAGNOSTIC (nat_str (length ds)) (text_or (bd_path d) ''candidate'') (text_or (bd_message d) B_FIELD_INVALID))"

text \<open>What pydantic reports of a field: its location, the message and the type of the error.\<close>

record field_error =
  fe_loc :: "string list"
  fe_msg :: string
  fe_type :: string

definition PLATFORM_BUILDER_FIELDS :: "string list" where
  "PLATFORM_BUILDER_FIELDS =
     [''materialized_reference_image_count'', ''materialized_reference_images'', ''linked_reference_images'', ''revision_provenance'']"

type_synonym builder_model = "dict \<Rightarrow> field_error list + builder_candidate"

definition parse_builder_candidate :: "builder_model \<Rightarrow> dict \<Rightarrow> field_error list + builder_candidate" where
  "parse_builder_candidate model payload = model (filter (\<lambda>p. fst p \<notin> set PLATFORM_BUILDER_FIELDS) payload)"

definition ALLOWED_EVIDENCE_SOURCE_TYPES :: "string list" where
  "ALLOWED_EVIDENCE_SOURCE_TYPES =
     [''user_description'', ''current_source'', ''material_analysis'', ''reference_asset'', ''industry_standard'', ''builder_inference'',
      ''human_confirmation_required'']"

definition ALLOWED_EVIDENCE_TARGET_TYPES :: "string list" where
  "ALLOWED_EVIDENCE_TARGET_TYPES = [''workflow_stage'', ''safety_constraint'', ''expected_evidence'', ''review_notes'']"

definition SUPPORT_LEVELS :: "string list" where
  "SUPPORT_LEVELS =
     [''observed_fact'', ''standard_reference'', ''current_source_fact'', ''builder_inference'', ''human_confirmation_required'',
      ''confirmed_instruction'']"

definition hint_of :: "string \<Rightarrow> string list \<times> json" where
  "hint_of path =
     (if ends_with ''source_type'' path then
        (sort ALLOWED_EVIDENCE_SOURCE_TYPES, JObj [(''source_type'', JStr ''current_source''), (''ref'', JStr ''SKILL.md'')])
      else if ends_with ''target_type'' path then
        (sort ALLOWED_EVIDENCE_TARGET_TYPES, JObj [(''target_type'', JStr ''workflow_stage''), (''target_id'', JStr ''stage_01_inventory'')])
      else if ends_with ''support_level'' path then (SUPPORT_LEVELS, JStr ''observed_fact'')
      else if path = ''schema_version'' then ([''2.0''], JStr ''2.0'')
      else if ends_with ''.scope'' path then ([''all_stages'', ''selected_stages''], JStr ''selected_stages'')
      else if starts_with ''material_usage'' path then
        ([], JObj [(''material_id'', JStr ''material-1''), (''usage'', JStr B_STAGE_ONE)])
      else if starts_with ''missing_questions'' path then
        ([], JObj [(''question'', JStr B_SAMPLE_QUESTION), (''reason'', JStr B_SAMPLE_REASON), (''blocking_level'', JStr ''non_blocking'')])
      else ([], JNull))"

definition pydantic_diagnostic :: "field_error \<Rightarrow> bdiag" where
  "pydantic_diagnostic e =
     (let path = text_or (join_with ''.'' (fe_loc e)) ''candidate'' in
      \<lparr>bd_path = path, bd_code = text_or (fe_type e) ''schema_validation'', bd_message = text_or (fe_msg e) B_CANDIDATE_INVALID,
       bd_allowed = map JStr (fst (hint_of path)), bd_example = snd (hint_of path)\<rparr>)"

section \<open>Files\<close>

definition normalize_builder_path :: "string \<Rightarrow> string option" where
  "normalize_builder_path v =
     (let parts = path_parts (collapse_slashes (lstrip_slash (slashes (strip v)))) in
      if parts = [] \<or> list_ex (\<lambda>p. p \<in> set DOT_PARTS) parts then None else Some (join_with [SLASH] parts))"

end
