(* ===== verification/BuilderMarkdown.thy ===== *)
theory BuilderMarkdown
  imports BuilderCandidate
begin

text \<open>
  The regular expressions of the builder's schema (\<^verbatim>\<open>agent_harness/agents/psop/builder/schemas.py\<close>) as scanners: placeholders, the headings
  of workflow stages, the bodies under them, and titles compared without punctuation. \<^verbatim>\<open>^\<close> and \<^verbatim>\<open>$\<close> stand at the
  ends of lines, \<^verbatim>\<open>\s\<close> is what \<^verbatim>\<open>strip()\<close> removes, and \<^verbatim>\<open>.\<close> is anything but a newline.
\<close>

section \<open>White space and lines\<close>

definition LF :: char where
  "LF = CHR 0x0A"

definition skip_ws :: "string \<Rightarrow> string" where
  "skip_ws s = strip_front ws_codes s"

definition ws_run :: "string \<Rightarrow> string" where
  "ws_run s = take (length s - length (skip_ws s)) s"

definition rstrip_ws :: "string \<Rightarrow> string" where
  "rstrip_ws s = rev (strip_front (map rev ws_codes) (rev s))"

definition this_line :: "string \<Rightarrow> string" where
  "this_line s = takeWhile (\<lambda>c. c \<noteq> LF) s"

text \<open>The rests of a string that begin at the start of a line.\<close>

fun line_starts :: "bool \<Rightarrow> string \<Rightarrow> string list" where
  "line_starts bol [] = (if bol then [[]] else [])"
| "line_starts bol (c # s) = (if bol then [c # s] else []) @ line_starts (c = LF) s"

definition after_ws_line_end :: "string \<Rightarrow> bool" where
  "after_ws_line_end s \<longleftrightarrow> LF \<in> set (ws_run s) \<or> skip_ws s = []"

definition after_ws_colon :: "string \<Rightarrow> bool" where
  "after_ws_colon s \<longleftrightarrow> starts_with '':'' (skip_ws s) \<or> starts_with B_WIDE_COLON (skip_ws s)"

section \<open>Placeholders\<close>

definition skip_bullet :: "string \<Rightarrow> string" where
  "skip_bullet s = (if s \<noteq> [] \<and> hd s \<in> {CHR ''-'', CHR ''*'', CHR ''+''} then skip_ws (tl s) else s)"

definition skip_box :: "string \<Rightarrow> string" where
  "skip_box s = (if take 3 s \<in> {''[ ]'', ''[x]'', ''[X]''} then skip_ws (drop 3 s) else s)"

definition marked_at :: "string \<Rightarrow> string \<Rightarrow> bool" where
  "marked_at word s \<longleftrightarrow> lower (take (length word) s) = lower word \<and>
     (after_ws_colon (drop (length word) s) \<or> after_ws_line_end (drop (length word) s))"

definition placeholder_patterns :: "(string \<times> (string \<Rightarrow> bool)) list" where
  "placeholder_patterns =
     [(B_TODO_PATTERN, \<lambda>s. list_ex (\<lambda>l. marked_at ''TODO'' (skip_box (skip_bullet (skip_ws l)))) (line_starts True s)),
      (B_FILL_IN_PATTERN, \<lambda>s. list_ex (\<lambda>l. marked_at B_FILL_IN (skip_bullet (skip_ws l))) (line_starts True s)),
      (B_SAMPLE_PATH_PATTERN, \<lambda>s. str_contains B_SAMPLE_PATH_PATTERN s),
      (B_DOTS_PATTERN, \<lambda>s. str_contains ''references/...'' (lower s))]"

section \<open>Headings of stages\<close>

text \<open>One to six number signs, then white space, which may go on over the end of the line.\<close>

definition heading_marks :: "string \<Rightarrow> (nat \<times> string) option" where
  "heading_marks s =
     (let n = length (takeWhile (\<lambda>c. c = CHR ''#'') s); r = drop n s in
      if 1 \<le> n \<and> n \<le> 6 \<and> skip_ws r \<noteq> r then Some (n, skip_ws r) else None)"

definition lower_letter :: "char \<Rightarrow> bool" where
  "lower_letter c \<longleftrightarrow> CHR ''a'' \<le> c \<and> c \<le> CHR ''z''"

definition id_char :: "char \<Rightarrow> bool" where
  "id_char c \<longleftrightarrow> lower_letter c \<or> is_digit c \<or> c = CHR ''_''"

definition bracketed_id :: "string \<Rightarrow> (string \<times> string) option" where
  "bracketed_id s =
     (case s of
        [] \<Rightarrow> None
      | c # t \<Rightarrow>
          (let i = takeWhile id_char t; r = drop (length i) t in
           if c = CHR ''['' \<and> 2 \<le> length i \<and> length i \<le> 64 \<and> lower_letter (hd i) \<and> starts_with '']'' r then Some (i, tl r) else None))"

text \<open>
  The title starts behind the white space and ends before the white space that runs to the end of its line; when
  nothing else follows, one character of the white space itself, not a newline, is the title, which is empty when stripped.
\<close>

definition heading_title :: "string \<Rightarrow> (string \<times> string) option" where
  "heading_title s =
     (let r = skip_ws s in
      if r = s then None
      else if r \<noteq> [] then Some (strip (rstrip_ws (this_line r)), dropWhile (\<lambda>c. c \<noteq> LF) r)
      else (case find (\<lambda>w. w \<noteq> [] \<and> starts_with w s) ws_codes of
          None \<Rightarrow> None
        | Some w \<Rightarrow> if list_ex (\<lambda>c. c \<noteq> LF) (drop (length w) s) then Some ([], []) else None))"

definition workflow_heading :: "string \<Rightarrow> (string \<times> string \<times> string) option" where
  "workflow_heading s =
     (case heading_marks (skip_ws s) of
        None \<Rightarrow> None
      | Some (n, r) \<Rightarrow> (case bracketed_id r of
          None \<Rightarrow> None
        | Some (i, t) \<Rightarrow> (case heading_title t of None \<Rightarrow> None | Some (title, u) \<Rightarrow> Some (i, title, u))))"

text \<open>\<^verbatim>\<open>finditer\<close>: from the left, each match after the end of the one before.\<close>

lemma skip_ws_le: "length (skip_ws s) \<le> length s"
  by (simp add: skip_ws_def length_strip_front_le)

lemma heading_marks_shorter: "heading_marks s = Some (n, r) \<Longrightarrow> length r < length s"
proof -
  let ?n = "length (takeWhile (\<lambda>c. c = CHR ''#'') s)"
  assume "heading_marks s = Some (n, r)"
  then have "1 \<le> ?n" "r = skip_ws (drop ?n s)" by (auto simp: heading_marks_def Let_def split: if_splits)
  moreover have "?n \<le> length s" by (rule length_takeWhile_le)
  ultimately show ?thesis using skip_ws_le [of "drop ?n s"] by simp
qed

lemma bracketed_id_shorter: "bracketed_id s = Some (i, r) \<Longrightarrow> length r < length s"
  by (auto simp: bracketed_id_def Let_def split: list.splits if_splits)

lemma heading_title_le: "heading_title s = Some (t, r) \<Longrightarrow> length r \<le> length s"
  using skip_ws_le [of s] length_dropWhile_le [of "\<lambda>c. c \<noteq> LF" "skip_ws s"]
  by (auto simp: heading_title_def Let_def split: if_splits option.splits)

lemma workflow_heading_shorter: "workflow_heading s = Some (i, t, r) \<Longrightarrow> length r < length s"
  using skip_ws_le [of s]
  by (fastforce simp: workflow_heading_def split: option.splits prod.splits
      dest: heading_marks_shorter bracketed_id_shorter heading_title_le)

function find_headings :: "bool \<Rightarrow> string \<Rightarrow> (string \<times> string) list" where
  "find_headings bol [] = []"
| "find_headings bol (c # s) =
     (case (if bol then workflow_heading (c # s) else None) of
        Some (i, title, rest) \<Rightarrow> (i, title) # find_headings False rest
      | None \<Rightarrow> find_headings (c = LF) s)"
  by pat_completeness auto

termination
  by (relation "measure (\<lambda>(bol, s). length s)") (auto split: if_splits dest: workflow_heading_shorter)

definition heading_titles :: "string \<Rightarrow> string \<Rightarrow> string list" where
  "heading_titles skill_md i = map snd (filter (\<lambda>h. fst h = i) (find_headings True skill_md))"

text \<open>The characters that a comparison of titles leaves out, beside white space.\<close>

definition PUNCTUATION_CODES :: "string list" where
  "PUNCTUATION_CODES =
     ['':'', B_WIDE_COLON, ''-'', u8 [226, 128, 148], ''_'', ''/'', u8 [227, 128, 129], u8 [239, 188, 140], '','', u8 [227, 128, 130],
      ''.'', ''('', '')'', u8 [239, 188, 136], u8 [239, 188, 137]]"

fun without_codes :: "string list \<Rightarrow> nat \<Rightarrow> string \<Rightarrow> string" where
  "without_codes ws n [] = []"
| "without_codes ws (Suc n) (c # s) = without_codes ws n s"
| "without_codes ws 0 (c # s) =
     (case find (\<lambda>w. w \<noteq> [] \<and> starts_with w (c # s)) ws of
        Some w \<Rightarrow> without_codes ws (length w - 1) s
      | None \<Rightarrow> c # without_codes ws 0 s)"

definition normalize_match_text :: "string \<Rightarrow> string" where
  "normalize_match_text s = without_codes (ws_codes @ PUNCTUATION_CODES) 0 (lower s)"

section \<open>Bodies of stages\<close>

fun unix_lines :: "string \<Rightarrow> string" where
  "unix_lines (a # b # s) =
     (if a = CHR 0x0D \<and> b = LF then LF # unix_lines s else (if a = CHR 0x0D then LF else a) # unix_lines (b # s))"
| "unix_lines [a] = [if a = CHR 0x0D then LF else a]"
| "unix_lines [] = []"

text \<open>A heading of any kind: its level, its text, what follows it, and the text from its start on.\<close>

record heading =
  hg_level :: nat
  hg_text :: string
  hg_after :: string
  hg_from :: string

definition heading_here :: "string \<Rightarrow> heading option" where
  "heading_here s =
     (case heading_marks s of
        None \<Rightarrow> None
      | Some (n, r) \<Rightarrow>
          (let after = drop (length (this_line r)) r in
           Some \<lparr>hg_level = n, hg_text = take (length s - length after) s, hg_after = after, hg_from = s\<rparr>))"

lemma heading_here_shorter: "heading_here s = Some h \<Longrightarrow> length (hg_after h) < length s"
  by (auto simp: heading_here_def Let_def split: option.splits prod.splits dest!: heading_marks_shorter)

function all_headings :: "bool \<Rightarrow> string \<Rightarrow> heading list" where
  "all_headings bol [] = []"
| "all_headings bol (c # s) =
     (case (if bol then heading_here (c # s) else None) of
        Some h \<Rightarrow> h # all_headings False (hg_after h)
      | None \<Rightarrow> all_headings (c = LF) s)"
  by pat_completeness auto

termination
  by (relation "measure (\<lambda>(bol, s). length s)") (auto split: if_splits dest: heading_here_shorter)

text \<open>\<^verbatim>\<open>fullmatch\<close>: the identifier, white space, and one more character at least, all in the heading's own line.\<close>

definition stage_of_heading :: "string \<Rightarrow> string option" where
  "stage_of_heading text =
     (case heading_marks text of
        None \<Rightarrow> None
      | Some (n, r) \<Rightarrow> (case bracketed_id r of
          None \<Rightarrow> None
        | Some (i, t) \<Rightarrow> (case find (\<lambda>w. w \<noteq> [] \<and> starts_with w t) ws_codes of
            None \<Rightarrow> None
          | Some w \<Rightarrow> if drop (length w) t = [] then None else Some i)))"

fun stage_bodies :: "heading list \<Rightarrow> (string \<times> string) list" where
  "stage_bodies [] = []"
| "stage_bodies (h # hs) =
     (let rest = stage_bodies hs in
      case stage_of_heading (hg_text h) of
        None \<Rightarrow> rest
      | Some i \<Rightarrow>
          (let end_rest = (case find (\<lambda>g. hg_level g \<le> hg_level h) hs of None \<Rightarrow> 0 | Some g \<Rightarrow> length (hg_from g)) in
           (i, strip (take (length (hg_after h) - end_rest) (hg_after h))) # rest))"

text \<open>A later heading with the same identifier replaces the body of an earlier one.\<close>

definition workflow_stage_bodies :: "string \<Rightarrow> string \<Rightarrow> string" where
  "workflow_stage_bodies skill_md i =
     (case map_of (rev (stage_bodies (all_headings True (unix_lines skill_md)))) i of None \<Rightarrow> [] | Some b \<Rightarrow> b)"

end
