(* ===== verification/BuilderValidate.thy ===== *)
theory BuilderValidate
  imports BuilderMarkdown
begin

text \<open>
  The checks of a builder's candidate (\<^verbatim>\<open>agent_harness/agents/psop/builder/schemas.py\<close>), in the order of
  \<^verbatim>\<open>validate_builder_candidate\<close>. Each returns its diagnostics; pydantic's part is the parameter \<open>model\<close>.
\<close>

section \<open>Files\<close>

definition REQUIRED_BUILDER_FILES :: "string list" where
  "REQUIRED_BUILDER_FILES =
     [''README.md'', ''SKILL.md'', ''prompts/system.md'', ''references/README.md'', ''examples/input.md'', ''examples/expected-output.md'',
      ''tests/checklist.md'']"

definition FORBIDDEN_BUILDER_FILES :: "string list" where
  "FORBIDDEN_BUILDER_FILES = [''skill.yaml'']"

type_synonym files = "(string \<times> string) list"

definition file_text :: "files \<Rightarrow> string \<Rightarrow> string" where
  "file_text fs p = (case map_of fs p of None \<Rightarrow> [] | Some s \<Rightarrow> s)"

definition content_diagnostics :: "string \<Rightarrow> string \<Rightarrow> string \<Rightarrow> bdiag list" where
  "content_diagnostics raw path content =
     (if path \<in> set FORBIDDEN_BUILDER_FILES then [diagnostic (''files.'' @ raw) ''forbidden_file'' B_FORBIDDEN_FILE] else [])
     @ (if strip content = [] then [diagnostic (''files.'' @ raw) ''empty_file'' (B_EMPTY_FILE path)] else [])
     @ map (\<lambda>p. diagnostic (''files.'' @ raw) ''placeholder_content'' (B_PLACEHOLDER path (fst p)))
         (filter (\<lambda>p. snd p content) placeholder_patterns)"

fun scan_files :: "files \<Rightarrow> files \<Rightarrow> files \<times> bdiag list" where
  "scan_files normalized [] = (normalized, [])"
| "scan_files normalized ((raw, content) # fs) =
     (case normalize_builder_path raw of
        None \<Rightarrow> (let r = scan_files normalized fs in
          (fst r, diagnostic (''files.'' @ raw) ''invalid_path'' (B_INVALID_PATH raw) # snd r))
      | Some path \<Rightarrow>
          if path \<in> fst ` set normalized
          then (let r = scan_files normalized fs in
            (fst r, diagnostic (''files.'' @ raw) ''duplicate_path'' (B_DUPLICATE_PATH path) # snd r))
          else (let r = scan_files (normalized @ [(path, content)]) fs in (fst r, content_diagnostics raw path content @ snd r)))"

definition missing_files :: "files \<Rightarrow> bdiag list" where
  "missing_files normalized =
     map (\<lambda>p. diagnostic (''files.'' @ p) ''missing_required_file'' (B_MISSING_FILE p))
       (filter (\<lambda>p. file_text normalized p = []) REQUIRED_BUILDER_FILES)"

definition validate_files :: "files \<Rightarrow> files \<times> bdiag list" where
  "validate_files fs =
     (if fs = [] then ([], [diagnostic ''files'' ''required'' B_FILES_REQUIRED])
      else (let r = scan_files [] fs in (fst r, snd r @ missing_files (fst r))))"

section \<open>Materials, assets, collections, questions\<close>

definition validate_material_usage :: "material_usage list \<Rightarrow> bdiag list" where
  "validate_material_usage items =
     (if items \<noteq> [] then []
      else [with_example (JObj [(''material_id'', JStr ''material-1''), (''usage'', JStr B_STAGE_ONE)])
              (diagnostic ''material_usage'' ''required'' B_MATERIAL_USAGE_REQUIRED)])"

definition MAX_BUILDER_REFERENCE_ASSETS :: nat where
  "MAX_BUILDER_REFERENCE_ASSETS = 12"

definition indexed :: "string \<Rightarrow> nat \<Rightarrow> string \<Rightarrow> string" where
  "indexed field i sub = field @ ''.'' @ nat_str i @ (if sub = [] then [] else ''.'' @ sub)"

text \<open>The identifiers of the candidate assets; a candidate without one gives the empty string.\<close>

definition candidate_asset_id :: "dict \<Rightarrow> string" where
  "candidate_asset_id d = strip (str_or (py_or (dget d ''asset_id'') (dget d ''id'')))"

definition candidate_asset_path :: "dict \<Rightarrow> string" where
  "candidate_asset_path d = strip (str_or (dget d ''reference_path''))"

definition unknown_assets :: "dict list \<Rightarrow> nat \<times> selected_asset \<Rightarrow> bdiag list" where
  "unknown_assets candidates x =
     (if candidates \<noteq> [] \<and> ra_asset (snd x) \<notin> candidate_asset_id ` set candidates
      then [diagnostic (indexed ''selected_reference_assets'' (fst x) ''asset_id'') ''unknown_reference_asset'' (B_UNKNOWN_ASSET (ra_asset (snd x)))]
      else [])
     @ (if candidates \<noteq> [] \<and> ra_path (snd x) \<notin> candidate_asset_path ` set candidates
        then [diagnostic (indexed ''selected_reference_assets'' (fst x) ''reference_path'') ''unknown_reference_path''
                (B_UNKNOWN_ASSET_PATH (ra_path (snd x)))]
        else [])"

definition validate_selected_reference_assets :: "selected_asset list \<Rightarrow> dict list \<Rightarrow> bdiag list" where
  "validate_selected_reference_assets items candidates =
     (if items = [] then [diagnostic ''selected_reference_assets'' ''required'' B_ASSETS_REQUIRED] else [])
     @ (if length items > MAX_BUILDER_REFERENCE_ASSETS then [diagnostic ''selected_reference_assets'' ''max_items'' B_TOO_MANY_ASSETS] else [])
     @ concat (map (unknown_assets candidates) (enumerate 0 items))"

definition validate_required_collections :: "builder_candidate \<Rightarrow> bdiag list" where
  "validate_required_collections c =
     map (\<lambda>x. diagnostic (fst x) ''required'' (B_COLLECTION_REQUIRED (fst x)))
       (filter snd [(''evidence_map'', bc_evidence c = []), (''safety_constraints'', bc_constraints c = []),
          (''workflow_step_candidates'', bc_steps c = []), (''expected_evidence_requirements'', bc_requirements c = [])])"

definition validate_missing_questions :: "missing_question list \<Rightarrow> string list \<Rightarrow> bdiag list" where
  "validate_missing_questions items notes =
     (if list_ex (\<lambda>q. mq_level q = ''blocking'') items \<and> notes = []
      then [diagnostic ''review_notes'' ''missing_blocking_review_note'' B_BLOCKING_NOTE] else [])"

section \<open>Identifiers and references\<close>

fun duplicates_from :: "string list \<Rightarrow> nat \<Rightarrow> string list \<Rightarrow> (nat \<times> string) list" where
  "duplicates_from seen n [] = []"
| "duplicates_from seen n (v # vs) =
     (if v \<in> set seen then [(n, v)] else []) @ duplicates_from (v # seen) (Suc n) vs"

definition duplicate_id_diagnostics :: "string \<Rightarrow> string \<Rightarrow> string list \<Rightarrow> bdiag list" where
  "duplicate_id_diagnostics field id_field values =
     map (\<lambda>x. diagnostic (indexed field (fst x) id_field) ''duplicate_id'' (B_ID_TWICE id_field (snd x))) (duplicates_from [] 0 values)"

definition unknown_ids :: "string \<Rightarrow> string list \<Rightarrow> string list \<Rightarrow> string \<Rightarrow> bdiag list" where
  "unknown_ids path values known code =
     map (\<lambda>v. diagnostic path code (B_UNKNOWN_STAGE v)) (filter (\<lambda>v. v \<notin> set known) values)"

definition stage_ids :: "builder_candidate \<Rightarrow> string list" where
  "stage_ids c = map ws_id (bc_steps c)"

definition constraint_diagnostics :: "string list \<Rightarrow> nat \<times> safety_constraint \<Rightarrow> bdiag list" where
  "constraint_diagnostics stages x =
     (let path = indexed ''safety_constraints'' (fst x) ''stage_ids''; item = snd x in
      (if sf_scope item = ''all_stages'' \<and> sf_stages item \<noteq> []
       then [with_example (JArr []) (diagnostic path ''invalid_scope_stage_ids'' B_ALL_STAGES_EMPTY)] else [])
      @ (if sf_scope item = ''selected_stages'' \<and> sf_stages item = []
         then [with_example (JArr [JStr ''stage_01_inventory'']) (diagnostic path ''missing_stage_ids'' B_SELECTED_STAGES)] else [])
      @ unknown_ids path (sf_stages item) stages ''unknown_stage_id'')"

definition requirement_diagnostics :: "string list \<Rightarrow> nat \<times> expected_requirement \<Rightarrow> bdiag list" where
  "requirement_diagnostics stages x =
     (if xr_stage (snd x) \<notin> set stages
      then [diagnostic (indexed ''expected_evidence_requirements'' (fst x) ''stage_id'') ''unknown_stage_id'' (B_EVIDENCE_STAGE (xr_stage (snd x)))]
      else [])"

definition asset_stage_diagnostics :: "string list \<Rightarrow> nat \<times> selected_asset \<Rightarrow> bdiag list" where
  "asset_stage_diagnostics stages x =
     unknown_ids (indexed ''selected_reference_assets'' (fst x) ''stage_ids'') (ra_stages (snd x)) stages ''unknown_stage_id''"

text \<open>The identifiers that a target of a type may name.\<close>

definition known_targets :: "builder_candidate \<Rightarrow> string \<Rightarrow> string list" where
  "known_targets c t =
     (if t = ''workflow_stage'' then stage_ids c
      else if t = ''safety_constraint'' then map sf_id (bc_constraints c)
      else if t = ''expected_evidence'' then map xr_id (bc_requirements c)
      else [''review_notes''])"

definition target_diagnostics :: "builder_candidate \<Rightarrow> string \<Rightarrow> nat \<times> usage_target list \<Rightarrow> bdiag list" where
  "target_diagnostics c field x =
     concat (map (\<lambda>y. if ut_id (snd y) \<in> set (known_targets c (ut_type (snd y))) then []
         else [diagnostic (indexed field (fst x) (''used_in.'' @ nat_str (fst y) @ ''.target_id'')) ''unknown_evidence_target''
                 (B_UNKNOWN_TARGET (ut_type (snd y)) (ut_id (snd y)))])
       (enumerate 0 (snd x)))"

definition validate_identifiers_and_references :: "builder_candidate \<Rightarrow> bdiag list" where
  "validate_identifiers_and_references c =
     duplicate_id_diagnostics ''workflow_step_candidates'' ''stage_id'' (stage_ids c)
     @ duplicate_id_diagnostics ''safety_constraints'' ''constraint_id'' (map sf_id (bc_constraints c))
     @ duplicate_id_diagnostics ''expected_evidence_requirements'' ''requirement_id'' (map xr_id (bc_requirements c))
     @ concat (map (constraint_diagnostics (stage_ids c)) (enumerate 0 (bc_constraints c)))
     @ concat (map (requirement_diagnostics (stage_ids c)) (enumerate 0 (bc_requirements c)))
     @ concat (map (asset_stage_diagnostics (stage_ids c)) (enumerate 0 (bc_assets c)))
     @ concat (map (target_diagnostics c ''evidence_map'') (enumerate 0 (map em_used (bc_evidence c))))
     @ concat (map (target_diagnostics c ''industry_standard_usage'') (enumerate 0 (map su_used (bc_standards c))))"

section \<open>The workflow in SKILL.md\<close>

definition stage_heading :: "workflow_step \<Rightarrow> json" where
  "stage_heading s = JStr (''### ['' @ ws_id s @ ''] '' @ ws_title s)"

definition step_diagnostics :: "string \<Rightarrow> nat \<times> workflow_step \<Rightarrow> bdiag list" where
  "step_diagnostics skill_md x =
     (let item = snd x; titles = heading_titles skill_md (ws_id item); id_path = indexed ''workflow_step_candidates'' (fst x) ''stage_id'' in
      if titles = []
      then [with_example (stage_heading item) (diagnostic id_path ''workflow_not_in_skill'' (B_NO_HEADING (ws_id item) (ws_title item)))]
      else (if length titles > 1 then [diagnostic id_path ''duplicate_workflow_heading'' (B_HEADING_TWICE (ws_id item))] else [])
        @ (if list_ex (\<lambda>t. normalize_match_text t = normalize_match_text (ws_title item)) titles then []
           else [with_example (stage_heading item)
             (diagnostic (indexed ''workflow_step_candidates'' (fst x) ''title'') ''workflow_title_mismatch'' (B_TITLE_MISMATCH (ws_id item)))]))"

definition validate_workflow :: "workflow_step list \<Rightarrow> string \<Rightarrow> bdiag list" where
  "validate_workflow steps skill_md = concat (map (step_diagnostics skill_md) (enumerate 0 steps))"

section \<open>Coverage by evidence\<close>

definition SUPPORTED_REQUIRED_EVIDENCE_SOURCE_TYPES :: "string list" where
  "SUPPORTED_REQUIRED_EVIDENCE_SOURCE_TYPES = [''user_description'', ''material_analysis'', ''reference_asset'', ''industry_standard'']"

definition evidence_item_has_supported_source :: "evidence_item \<Rightarrow> bool" where
  "evidence_item_has_supported_source e \<longleftrightarrow> list_ex (\<lambda>r. er_type r \<in> set SUPPORTED_REQUIRED_EVIDENCE_SOURCE_TYPES) (em_sources e)"

definition target_pair :: "usage_target \<Rightarrow> string \<times> string" where
  "target_pair t = (ut_type t, ut_id t)"

definition supported_targets :: "evidence_item list \<Rightarrow> (string \<times> string) list" where
  "supported_targets es = concat (map (\<lambda>e. map target_pair (em_used e)) (filter evidence_item_has_supported_source es))"

record required_target =
  rt_field :: string
  rt_index :: nat
  rt_type :: string
  rt_id :: string
  rt_label :: string

definition required_targets :: "builder_candidate \<Rightarrow> required_target list" where
  "required_targets c =
     map (\<lambda>x. \<lparr>rt_field = ''workflow_step_candidates'', rt_index = fst x, rt_type = ''workflow_stage'', rt_id = snd x, rt_label = B_STAGE_LABEL\<rparr>)
       (enumerate 0 (stage_ids c))
     @ map (\<lambda>x. \<lparr>rt_field = ''safety_constraints'', rt_index = fst x, rt_type = ''safety_constraint'', rt_id = snd x, rt_label = B_CONSTRAINT_LABEL\<rparr>)
         (enumerate 0 (map sf_id (bc_constraints c)))
     @ map (\<lambda>x. \<lparr>rt_field = ''expected_evidence_requirements'', rt_index = fst x, rt_type = ''expected_evidence'', rt_id = snd x,
             rt_label = B_REQUIREMENT_LABEL\<rparr>)
         (enumerate 0 (map xr_id (bc_requirements c)))"

definition target_json :: "required_target \<Rightarrow> json" where
  "target_json t = JObj [(''target_type'', JStr (rt_type t)), (''target_id'', JStr (rt_id t))]"

definition unsupported_diagnostic :: "required_target \<Rightarrow> nat \<times> evidence_item \<Rightarrow> bdiag" where
  "unsupported_diagnostic t x =
     with_example (JObj [(''source_refs'', JArr [JObj [(''source_type'', JStr ''material_analysis''), (''material_id'', JStr ''material-1'')]]),
         (''used_in'', JArr [target_json t])])
       (allowing (sort SUPPORTED_REQUIRED_EVIDENCE_SOURCE_TYPES)
         (diagnostic (indexed ''evidence_map'' (fst x) ''source_refs'') ''unsupported_evidence_source_for_required_target''
           (B_UNSUPPORTED (rt_label t) (rt_id t) (py_repr (JArr (map JStr (sort (remdups (map er_type (em_sources (snd x))))))))))) "

definition coverage_diagnostics :: "builder_candidate \<Rightarrow> required_target \<Rightarrow> bdiag list" where
  "coverage_diagnostics c t =
     (if (rt_type t, rt_id t) \<in> set (supported_targets (bc_evidence c)) then []
      else (case find (\<lambda>x. (rt_type t, rt_id t) \<in> set (map target_pair (em_used (snd x)))) (enumerate 0 (bc_evidence c)) of
          Some x \<Rightarrow> [unsupported_diagnostic t x]
        | None \<Rightarrow> [with_example (target_json t)
            (diagnostic (indexed (rt_field t) (rt_index t) []) ''missing_evidence_coverage'' (B_UNCOVERED (rt_label t) (rt_id t)))]))"

definition validate_evidence_coverage :: "builder_candidate \<Rightarrow> bdiag list" where
  "validate_evidence_coverage c = concat (map (coverage_diagnostics c) (required_targets c))"

section \<open>The candidate\<close>

definition reference_diagnostics :: "string \<Rightarrow> string \<Rightarrow> nat \<times> selected_asset \<Rightarrow> bdiag list" where
  "reference_diagnostics skill_md docs x =
     (let path = indexed ''selected_reference_assets'' (fst x) ''reference_path''; p = ra_path (snd x) in
      (if str_contains p skill_md then [] else [diagnostic path ''reference_not_in_skill'' (B_NOT_IN_SKILL p)])
      @ (if str_contains p docs then [] else [diagnostic path ''reference_not_in_docs'' (B_NOT_IN_DOCS p)]))"

definition validate_reference_paths_used :: "selected_asset list \<Rightarrow> files \<Rightarrow> bdiag list" where
  "validate_reference_paths_used items fs =
     concat (map (reference_diagnostics (file_text fs ''SKILL.md'')
       (join_with [LF] [file_text fs ''SKILL.md'', file_text fs ''references/README.md''])) (enumerate 0 items))"

definition candidate_diagnostics :: "builder_candidate \<Rightarrow> dict list \<Rightarrow> bdiag list" where
  "candidate_diagnostics c assets =
     snd (validate_files (bc_files c))
     @ validate_material_usage (bc_materials c)
     @ validate_selected_reference_assets (bc_assets c) assets
     @ validate_required_collections c
     @ validate_missing_questions (bc_questions c) (bc_notes c)
     @ validate_identifiers_and_references c
     @ validate_workflow (bc_steps c) (file_text (fst (validate_files (bc_files c))) ''SKILL.md'')
     @ validate_evidence_coverage c
     @ validate_reference_paths_used (bc_assets c) (fst (validate_files (bc_files c)))"

text \<open>The error carries its message and its diagnostics.\<close>

definition builder_error :: "bdiag list \<Rightarrow> string \<times> bdiag list" where
  "builder_error ds = (diagnostics_message ds, ds)"

definition validate_builder_candidate :: "builder_model \<Rightarrow> dict \<Rightarrow> dict list \<Rightarrow> (string \<times> bdiag list) + builder_candidate" where
  "validate_builder_candidate model payload assets =
     (case parse_builder_candidate model payload of
        Inl errors \<Rightarrow> Inl (builder_error (sort_diagnostics (map pydantic_diagnostic errors)))
      | Inr c \<Rightarrow>
          (let ds = sort_diagnostics (candidate_diagnostics c assets) in
           if ds \<noteq> [] then Inl (builder_error ds)
           else Inr (c\<lparr>bc_files := fst (validate_files (bc_files c))\<rparr>)))"

end
