(* ===== verification/BuilderReconcile.thy ===== *)
theory BuilderReconcile
  imports BuilderValidate
begin

text \<open>
  A revised candidate against the candidate it revises (\<^verbatim>\<open>reconcile_builder_candidate\<close>): what has not changed
  inherits the evidence and the standards of the baseline, and an unchanged target must keep its identifier.
\<close>

section \<open>What changed\<close>

text \<open>\<^verbatim>\<open>{item.id: item for item in items}\<close>: the place of the first, the value of the last.\<close>

definition by_ident :: "('a \<Rightarrow> string) \<Rightarrow> 'a list \<Rightarrow> (string \<times> 'a) list" where
  "by_ident f items = fold (\<lambda>x d. AList.update (f x) x d) items []"

record changes =
  ch_type :: string
  ch_inherited :: "string list"
  ch_changed :: "string list"
  ch_added :: "string list"
  ch_removed :: "string list"
  ch_renamed :: "bdiag list"

definition target_collection_name :: "string \<Rightarrow> string" where
  "target_collection_name t =
     (if t = ''workflow_stage'' then ''workflow_step_candidates''
      else if t = ''safety_constraint'' then ''safety_constraints''
      else ''expected_evidence_requirements'')"

definition renamed_diagnostic :: "string \<Rightarrow> string \<Rightarrow> string \<Rightarrow> bdiag" where
  "renamed_diagnostic t new old =
     with_example (JStr old) (diagnostic (target_collection_name t @ ''.'' @ new) ''stable_id_changed'' (B_RENAMED_ID t old))"

definition renamed_from :: "('a \<Rightarrow> 'a \<Rightarrow> bool) \<Rightarrow> (string \<times> 'a) list \<Rightarrow> (string \<times> 'a) list \<Rightarrow> 'a \<Rightarrow> string" where
  "renamed_from same cur base x =
     (case find (\<lambda>y. fst y \<notin> fst ` set cur \<and> same x (snd y)) base of None \<Rightarrow> [] | Some y \<Rightarrow> fst y)"

definition classify :: "string \<Rightarrow> ('a \<Rightarrow> 'a \<Rightarrow> bool) \<Rightarrow> (string \<times> 'a) list \<Rightarrow> (string \<times> 'a) list \<Rightarrow> changes" where
  "classify t same cur base =
     \<lparr>ch_type = t,
      ch_inherited = map fst (filter (\<lambda>x. case map_of base (fst x) of None \<Rightarrow> False | Some y \<Rightarrow> same (snd x) y) cur),
      ch_changed = map fst (filter (\<lambda>x. case map_of base (fst x) of None \<Rightarrow> False | Some y \<Rightarrow> \<not> same (snd x) y) cur),
      ch_added = map fst (filter (\<lambda>x. map_of base (fst x) = None) cur),
      ch_removed = sort (filter (\<lambda>i. i \<notin> fst ` set cur) (map fst base)),
      ch_renamed = concat (map (\<lambda>x. if map_of base (fst x) = None \<and> renamed_from same cur base (snd x) \<noteq> []
          then [renamed_diagnostic t (fst x) (renamed_from same cur base (snd x))] else []) cur)\<rparr>"

text \<open>The business values: title and body of a stage, everything but the identifier of the others.\<close>

definition same_stage :: "(string \<Rightarrow> string) \<Rightarrow> (string \<Rightarrow> string) \<Rightarrow> workflow_step \<Rightarrow> workflow_step \<Rightarrow> bool" where
  "same_stage cur base x y \<longleftrightarrow> ws_title x = ws_title y \<and> cur (ws_id x) = base (ws_id y)"

definition same_constraint :: "safety_constraint \<Rightarrow> safety_constraint \<Rightarrow> bool" where
  "same_constraint x y \<longleftrightarrow> x\<lparr>sf_id := []\<rparr> = y\<lparr>sf_id := []\<rparr>"

definition same_requirement :: "expected_requirement \<Rightarrow> expected_requirement \<Rightarrow> bool" where
  "same_requirement x y \<longleftrightarrow> x\<lparr>xr_id := []\<rparr> = y\<lparr>xr_id := []\<rparr>"

definition bodies_of :: "builder_candidate \<Rightarrow> string \<Rightarrow> string" where
  "bodies_of c = workflow_stage_bodies (file_text (bc_files c) ''SKILL.md'')"

definition compare_targets :: "builder_candidate \<Rightarrow> builder_candidate \<Rightarrow> changes list" where
  "compare_targets c base =
     [classify ''workflow_stage'' (same_stage (bodies_of c) (bodies_of base)) (by_ident ws_id (bc_steps c)) (by_ident ws_id (bc_steps base)),
      classify ''safety_constraint'' same_constraint (by_ident sf_id (bc_constraints c)) (by_ident sf_id (bc_constraints base)),
      classify ''expected_evidence'' same_requirement (by_ident xr_id (bc_requirements c)) (by_ident xr_id (bc_requirements base))]"

section \<open>What is inherited\<close>

definition inherited_targets :: "changes list \<Rightarrow> (string \<times> string) list" where
  "inherited_targets chs = concat (map (\<lambda>ch. map (Pair (ch_type ch)) (ch_inherited ch)) chs)"

definition selected_targets :: "(string \<times> string) list \<Rightarrow> usage_target list \<Rightarrow> usage_target list" where
  "selected_targets missing ts = filter (\<lambda>t. target_pair t \<in> set missing) ts"

definition inherited_evidence :: "(string \<times> string) list \<Rightarrow> evidence_item list \<Rightarrow> evidence_item list" where
  "inherited_evidence missing es =
     map (\<lambda>e. e\<lparr>em_used := selected_targets missing (em_used e)\<rparr>) (filter (\<lambda>e. selected_targets missing (em_used e) \<noteq> []) es)"

definition inherited_standards :: "(string \<times> string) list \<Rightarrow> standard_usage list \<Rightarrow> standard_usage list" where
  "inherited_standards missing ss =
     map (\<lambda>e. e\<lparr>su_used := selected_targets missing (su_used e)\<rparr>) (filter (\<lambda>e. selected_targets missing (su_used e) \<noteq> []) ss)"

definition missing_evidence_targets :: "changes list \<Rightarrow> builder_candidate \<Rightarrow> (string \<times> string) list" where
  "missing_evidence_targets chs c = filter (\<lambda>t. t \<notin> set (supported_targets (bc_evidence c))) (inherited_targets chs)"

definition missing_standard_targets :: "changes list \<Rightarrow> builder_candidate \<Rightarrow> (string \<times> string) list" where
  "missing_standard_targets chs c =
     filter (\<lambda>t. t \<notin> set (concat (map (\<lambda>s. map target_pair (su_used s)) (bc_standards c)))) (inherited_targets chs)"

definition carry_over :: "changes list \<Rightarrow> builder_candidate \<Rightarrow> builder_candidate \<Rightarrow> builder_candidate" where
  "carry_over chs base c =
     c\<lparr>bc_evidence := bc_evidence c @ inherited_evidence (missing_evidence_targets chs c) (bc_evidence base),
       bc_standards := bc_standards c @ inherited_standards (missing_standard_targets chs c) (bc_standards base)\<rparr>"

section \<open>Provenance\<close>

record provenance =
  pv_generation :: string
  pv_commit :: string
  pv_hash :: string
  pv_inherited :: "(string \<times> string list) list"
  pv_changed :: "(string \<times> string list) list"
  pv_added :: "(string \<times> string list) list"
  pv_removed :: "(string \<times> string list) list"
  pv_evidence :: nat
  pv_standards :: nat

definition by_type :: "(changes \<Rightarrow> string list) \<Rightarrow> changes list \<Rightarrow> (string \<times> string list) list" where
  "by_type f chs = map (\<lambda>ch. (ch_type ch, sort (f ch))) chs"

definition revision_provenance ::
    "string \<Rightarrow> string \<Rightarrow> string \<Rightarrow> changes list \<Rightarrow> builder_candidate \<Rightarrow> builder_candidate \<Rightarrow> provenance" where
  "revision_provenance generation commit digest chs base c =
     \<lparr>pv_generation = generation, pv_commit = commit, pv_hash = digest,
      pv_inherited = by_type ch_inherited chs, pv_changed = by_type ch_changed chs, pv_added = by_type ch_added chs,
      pv_removed = by_type ch_removed chs,
      pv_evidence = sum_list (map (\<lambda>e. length (em_used e)) (inherited_evidence (missing_evidence_targets chs c) (bc_evidence base))),
      pv_standards = sum_list (map (\<lambda>s. length (su_used s)) (inherited_standards (missing_standard_targets chs c) (bc_standards base)))\<rparr>"

text \<open>\<^verbatim>\<open>None\<close>: one of the payloads is no candidate, so the payload comes back as it is and without provenance.\<close>

definition reconcile_builder_candidate ::
    "builder_model \<Rightarrow> dict \<Rightarrow> dict \<Rightarrow> string \<Rightarrow> string \<Rightarrow> string \<Rightarrow> (string \<times> bdiag list) + (builder_candidate \<times> provenance) option" where
  "reconcile_builder_candidate model payload baseline generation commit digest =
     (case (parse_builder_candidate model payload, parse_builder_candidate model baseline) of
        (Inr c, Inr base) \<Rightarrow>
          (let chs = compare_targets c base; ds = concat (map ch_renamed chs) in
           if ds \<noteq> [] then Inl (builder_error (sort_diagnostics ds))
           else Inr (Some (carry_over chs base c, revision_provenance generation commit digest chs base c)))
      | _ \<Rightarrow> Inr None)"

end
