(* ===== verification/BuilderSound.thy ===== *)
theory BuilderSound
  imports BuilderReconcile
begin

text \<open>
  What an accepted candidate of the builder is, said without diagnostics, and that the checks are silent exactly on it.
\<close>

section \<open>Well-formed candidates\<close>

definition file_path_of :: "string \<times> string \<Rightarrow> string" where
  "file_path_of f = (case normalize_builder_path (fst f) of None \<Rightarrow> [] | Some p \<Rightarrow> p)"

definition normal_files :: "files \<Rightarrow> files" where
  "normal_files fs = map (\<lambda>f. (file_path_of f, snd f)) fs"

definition wf_file :: "string \<times> string \<Rightarrow> bool" where
  "wf_file f \<longleftrightarrow> normalize_builder_path (fst f) \<noteq> None \<and> file_path_of f \<notin> set FORBIDDEN_BUILDER_FILES \<and> strip (snd f) \<noteq> []
     \<and> (\<forall>p \<in> set placeholder_patterns. \<not> snd p (snd f))"

definition wf_files :: "files \<Rightarrow> bool" where
  "wf_files fs \<longleftrightarrow> fs \<noteq> [] \<and> (\<forall>f \<in> set fs. wf_file f) \<and> distinct (map file_path_of fs)
     \<and> (\<forall>p \<in> set REQUIRED_BUILDER_FILES. file_text (normal_files fs) p \<noteq> [])"

definition wf_assets :: "string \<Rightarrow> string list \<Rightarrow> dict list \<Rightarrow> selected_asset list \<Rightarrow> bool" where
  "wf_assets skill_md stages candidates items \<longleftrightarrow> items \<noteq> [] \<and> length items \<le> 12 \<and> (\<forall>x \<in> set items.
     (candidates \<noteq> [] \<longrightarrow> ra_asset x \<in> candidate_asset_id ` set candidates \<and> ra_path x \<in> candidate_asset_path ` set candidates)
     \<and> set (ra_stages x) \<subseteq> set stages \<and> str_contains (ra_path x) skill_md)"

definition wf_constraint :: "string list \<Rightarrow> safety_constraint \<Rightarrow> bool" where
  "wf_constraint stages x \<longleftrightarrow> (sf_scope x = ''all_stages'' \<longrightarrow> sf_stages x = []) \<and> (sf_scope x = ''selected_stages'' \<longrightarrow> sf_stages x \<noteq> [])
     \<and> set (sf_stages x) \<subseteq> set stages"

definition wf_stage :: "string \<Rightarrow> workflow_step \<Rightarrow> bool" where
  "wf_stage skill_md x \<longleftrightarrow> (\<exists>t. heading_titles skill_md (ws_id x) = [t] \<and> normalize_match_text t = normalize_match_text (ws_title x))"

definition wf_targets :: "builder_candidate \<Rightarrow> usage_target list \<Rightarrow> bool" where
  "wf_targets c ts \<longleftrightarrow> (\<forall>t \<in> set ts. ut_id t \<in> set (known_targets c (ut_type t)))"

definition required_pairs :: "builder_candidate \<Rightarrow> (string \<times> string) set" where
  "required_pairs c = Pair ''workflow_stage'' ` set (stage_ids c) \<union> Pair ''safety_constraint'' ` sf_id ` set (bc_constraints c)
     \<union> Pair ''expected_evidence'' ` xr_id ` set (bc_requirements c)"

definition wf_builder :: "builder_candidate \<Rightarrow> dict list \<Rightarrow> bool" where
  "wf_builder c assets \<longleftrightarrow>
     (let skill_md = file_text (normal_files (bc_files c)) ''SKILL.md'' in
      wf_files (bc_files c) \<and> bc_materials c \<noteq> [] \<and> wf_assets skill_md (stage_ids c) assets (bc_assets c)
      \<and> bc_evidence c \<noteq> [] \<and> bc_constraints c \<noteq> [] \<and> bc_steps c \<noteq> [] \<and> bc_requirements c \<noteq> []
      \<and> ((\<exists>q \<in> set (bc_questions c). mq_level q = ''blocking'') \<longrightarrow> bc_notes c \<noteq> [])
      \<and> distinct (stage_ids c) \<and> distinct (map sf_id (bc_constraints c)) \<and> distinct (map xr_id (bc_requirements c))
      \<and> (\<forall>x \<in> set (bc_constraints c). wf_constraint (stage_ids c) x)
      \<and> (\<forall>x \<in> set (bc_requirements c). xr_stage x \<in> set (stage_ids c))
      \<and> (\<forall>e \<in> set (bc_evidence c). wf_targets c (em_used e)) \<and> (\<forall>s \<in> set (bc_standards c). wf_targets c (su_used s))
      \<and> (\<forall>x \<in> set (bc_steps c). wf_stage skill_md x)
      \<and> required_pairs c \<subseteq> set (supported_targets (bc_evidence c)))"

text \<open>A plain path is its own normal form.\<close>

lemma builder_path_stable:
  assumes "safe_path p \<and> strip p = p"
  shows "normalize_builder_path p = Some p"
proof -
  have safe: "safe_path p" using assms by blast
  note shape = safe_path_shape [OF safe]
  have parts: "p \<noteq> []" "\<forall>q \<in> set (split_on SLASH p). q \<noteq> [] \<and> q \<notin> set DOT_PARTS"
    using safe by (auto simp: safe_path_def plain_part_def list_all_iff)
  have "slashes p = p" using shape(1) by (auto simp: slashes_def intro: map_idI)
  moreover have "collapse_slashes p = p" using shape(2) by (subst collapse_slashes.simps) simp
  moreover have "lstrip_slash p = p" using shape(3) parts(1) by (cases p) (auto simp: lstrip_slash_def)
  moreover have "path_parts p = split_on SLASH p" using parts(2) by (auto simp: path_parts_def intro: filter_True)
  ultimately show ?thesis
    using assms parts by (auto simp: normalize_builder_path_def Let_def join_split list_ex_iff)
qed

text \<open>
  Pydantic runs \<^verbatim>\<open>_require_type_specific_reference\<close> on every source, so what it returns has passed it; a source
  names what it is when it refers to something.
\<close>

definition sources_checked :: "builder_model \<Rightarrow> bool" where
  "sources_checked model \<longleftrightarrow> (\<forall>d c. model d = Inr c \<longrightarrow> (\<forall>e \<in> set (bc_evidence c). \<forall>r \<in> set (em_sources e). source_ref_ok r))"

definition source_named :: "source_ref \<Rightarrow> bool" where
  "source_named r \<longleftrightarrow> er_ref r \<noteq> [] \<or> er_type r = ''material_analysis'' \<and> er_material r \<noteq> []
     \<or> er_type r = ''reference_asset'' \<and> er_asset r \<noteq> [] \<or> er_type r = ''industry_standard'' \<and> er_standard r \<noteq> []"

lemma supported_source_named: "source_ref_ok r \<Longrightarrow> er_type r \<in> set SUPPORTED_REQUIRED_EVIDENCE_SOURCE_TYPES \<Longrightarrow> source_named r"
  by (auto simp: source_ref_ok_def source_named_def SUPPORTED_REQUIRED_EVIDENCE_SOURCE_TYPES_def)

section \<open>Silence\<close>

lemma first_by_Nil: "first_by f [] xs = [] \<longleftrightarrow> xs = []"
  by (cases xs) auto

lemma sort_diagnostics_Nil: "sort_diagnostics ds = [] \<longleftrightarrow> ds = []"
proof -
  have "sort_key f xs = [] \<longleftrightarrow> xs = []" for f :: "bdiag \<Rightarrow> string \<times> string \<times> string" and xs
    by (metis length_0_conv length_sort)
  then show ?thesis by (simp add: sort_diagnostics_def first_by_Nil)
qed

lemma concat_indexed_Nil:
  assumes "\<And>i x. f (i, x) = [] \<longleftrightarrow> Q x"
  shows "concat (map f (enumerate n xs)) = [] \<longleftrightarrow> (\<forall>x \<in> set xs. Q x)"
  using assms by (induction xs arbitrary: n) auto

lemma content_Nil: "content_diagnostics raw p content = [] \<longleftrightarrow>
    p \<notin> set FORBIDDEN_BUILDER_FILES \<and> strip content \<noteq> [] \<and> (\<forall>q \<in> set placeholder_patterns. \<not> snd q content)"
  by (auto simp: content_diagnostics_def filter_empty_conv)

lemma scan_files_Nil:
  "snd (scan_files acc fs) = [] \<longleftrightarrow> (\<forall>f \<in> set fs. wf_file f) \<and> distinct (map file_path_of fs)
     \<and> (\<forall>f \<in> set fs. file_path_of f \<notin> fst ` set acc)"
proof (induction acc fs rule: scan_files.induct)
  case (2 acc raw content fs)
  show ?case
  proof (cases "normalize_builder_path raw")
    case None
    then show ?thesis by (simp add: wf_file_def Let_def)
  next
    case (Some path)
    then have p: "file_path_of (raw, content) = path" by (simp add: file_path_of_def)
    show ?thesis
    proof (cases "path \<in> fst ` set acc")
      case True
      then show ?thesis using Some p by (simp add: Let_def)
    next
      case False
      then show ?thesis using "2.IH"(3) Some p by (auto simp: Let_def content_Nil wf_file_def image_iff)
    qed
  qed
qed simp

lemma scan_files_result: "snd (scan_files acc fs) = [] \<Longrightarrow> fst (scan_files acc fs) = acc @ normal_files fs"
proof (induction acc fs rule: scan_files.induct)
  case (2 acc raw content fs)
  then show ?case by (auto simp: Let_def normal_files_def file_path_of_def split: option.splits if_splits)
qed (simp add: normal_files_def)

lemma validate_files_Nil: "snd (validate_files fs) = [] \<longleftrightarrow> wf_files fs"
  and validate_files_result: "wf_files fs \<Longrightarrow> fst (validate_files fs) = normal_files fs"
proof -
  have scan: "snd (scan_files [] fs) = [] \<longleftrightarrow> (\<forall>f \<in> set fs. wf_file f) \<and> distinct (map file_path_of fs)"
    by (simp add: scan_files_Nil)
  have result: "fst (scan_files [] fs) = normal_files fs" if "snd (scan_files [] fs) = []"
    using scan_files_result [OF that] by simp
  show "snd (validate_files fs) = [] \<longleftrightarrow> wf_files fs"
    using scan result by (auto simp: validate_files_def wf_files_def Let_def missing_files_def filter_empty_conv)
  show "fst (validate_files fs) = normal_files fs" if "wf_files fs"
    using that scan result by (simp add: validate_files_def wf_files_def Let_def)
qed

lemma duplicates_Nil: "duplicates_from seen n vs = [] \<longleftrightarrow> distinct vs \<and> set vs \<inter> set seen = {}"
  by (induction seen n vs rule: duplicates_from.induct) auto

lemma duplicate_ids_Nil: "duplicate_id_diagnostics field id_field vs = [] \<longleftrightarrow> distinct vs"
  by (simp add: duplicate_id_diagnostics_def duplicates_Nil)

lemma unknown_ids_Nil: "unknown_ids path vs known code = [] \<longleftrightarrow> set vs \<subseteq> set known"
  by (auto simp: unknown_ids_def filter_empty_conv)

lemma targets_Nil: "concat (map (target_diagnostics c field) (enumerate 0 xs)) = [] \<longleftrightarrow> (\<forall>ts \<in> set xs. wf_targets c ts)"
proof (rule concat_indexed_Nil)
  fix i ts
  show "target_diagnostics c field (i, ts) = [] \<longleftrightarrow> wf_targets c ts"
    unfolding target_diagnostics_def wf_targets_def by (subst concat_indexed_Nil [where Q = "\<lambda>t. ut_id t \<in> set (known_targets c (ut_type t))"]) auto
qed

lemma identifiers_Nil: "validate_identifiers_and_references c = [] \<longleftrightarrow>
    distinct (stage_ids c) \<and> distinct (map sf_id (bc_constraints c)) \<and> distinct (map xr_id (bc_requirements c))
    \<and> (\<forall>x \<in> set (bc_constraints c). wf_constraint (stage_ids c) x) \<and> (\<forall>x \<in> set (bc_requirements c). xr_stage x \<in> set (stage_ids c))
    \<and> (\<forall>x \<in> set (bc_assets c). set (ra_stages x) \<subseteq> set (stage_ids c))
    \<and> (\<forall>e \<in> set (bc_evidence c). wf_targets c (em_used e)) \<and> (\<forall>s \<in> set (bc_standards c). wf_targets c (su_used s))"
proof -
  have constraints: "concat (map (constraint_diagnostics (stage_ids c)) (enumerate 0 xs)) = [] \<longleftrightarrow> (\<forall>x \<in> set xs. wf_constraint (stage_ids c) x)" for xs
    by (rule concat_indexed_Nil) (auto simp: constraint_diagnostics_def Let_def unknown_ids_Nil wf_constraint_def)
  have requirements: "concat (map (requirement_diagnostics (stage_ids c)) (enumerate 0 xs)) = [] \<longleftrightarrow> (\<forall>x \<in> set xs. xr_stage x \<in> set (stage_ids c))" for xs
    by (rule concat_indexed_Nil) (simp add: requirement_diagnostics_def)
  have assets: "concat (map (asset_stage_diagnostics (stage_ids c)) (enumerate 0 xs)) = [] \<longleftrightarrow> (\<forall>x \<in> set xs. set (ra_stages x) \<subseteq> set (stage_ids c))" for xs
    by (rule concat_indexed_Nil) (simp add: asset_stage_diagnostics_def unknown_ids_Nil)
  show ?thesis
    unfolding validate_identifiers_and_references_def append_is_Nil_conv duplicate_ids_Nil targets_Nil constraints requirements assets by simp
qed

lemma workflow_Nil: "validate_workflow steps skill_md = [] \<longleftrightarrow> (\<forall>x \<in> set steps. wf_stage skill_md x)"
  unfolding validate_workflow_def
proof (rule concat_indexed_Nil)
  fix i x
  show "step_diagnostics skill_md (i, x) = [] \<longleftrightarrow> wf_stage skill_md x"
    by (cases "heading_titles skill_md (ws_id x)") (auto simp: step_diagnostics_def Let_def wf_stage_def)
qed

lemma set_enumerate_indexed: "snd ` set (enumerate n xs) = set xs"
  by (induction xs arbitrary: n) auto

lemma coverage_Nil: "validate_evidence_coverage c = [] \<longleftrightarrow> required_pairs c \<subseteq> set (supported_targets (bc_evidence c))"
proof -
  have one: "coverage_diagnostics c t = [] \<longleftrightarrow> (rt_type t, rt_id t) \<in> set (supported_targets (bc_evidence c))" for t
    by (simp add: coverage_diagnostics_def split: option.split)
  have pairs: "(\<lambda>t. (rt_type t, rt_id t)) ` set (required_targets c) = required_pairs c"
  proof -
    have "(\<lambda>x. (k, snd x)) ` set (enumerate n xs) = Pair k ` set xs" for k :: string and n and xs :: "string list"
      unfolding set_enumerate_indexed [of n xs, symmetric] image_image ..
    then show ?thesis unfolding required_targets_def required_pairs_def set_append image_Un set_map image_image by (simp add: image_image Un_assoc)
  qed
  have "validate_evidence_coverage c = [] \<longleftrightarrow> (\<forall>t \<in> set (required_targets c). (rt_type t, rt_id t) \<in> set (supported_targets (bc_evidence c)))"
    by (simp add: validate_evidence_coverage_def one)
  then show ?thesis unfolding pairs [symmetric] image_subset_iff .
qed

lemma contains_longer: "str_contains p s \<Longrightarrow> str_contains p (s @ t)"
  unfolding str_contains_iff by (metis append_assoc)

lemma assets_Nil:
  "validate_selected_reference_assets items candidates = [] \<and> validate_reference_paths_used items fs = []
      \<and> (\<forall>x \<in> set items. set (ra_stages x) \<subseteq> set stages)
    \<longleftrightarrow> wf_assets (file_text fs ''SKILL.md'') stages candidates items"
proof -
  have "concat (map (unknown_assets candidates) (enumerate 0 items)) = [] \<longleftrightarrow> (\<forall>x \<in> set items. candidates \<noteq> [] \<longrightarrow>
      ra_asset x \<in> candidate_asset_id ` set candidates \<and> ra_path x \<in> candidate_asset_path ` set candidates)"
    by (rule concat_indexed_Nil) (auto simp: unknown_assets_def)
  moreover have "validate_reference_paths_used items fs = [] \<longleftrightarrow> (\<forall>x \<in> set items. str_contains (ra_path x) (file_text fs ''SKILL.md''))"
    unfolding validate_reference_paths_used_def
    by (rule concat_indexed_Nil) (auto simp: reference_diagnostics_def Let_def contains_longer)
  ultimately show ?thesis
    by (auto simp: validate_selected_reference_assets_def MAX_BUILDER_REFERENCE_ASSETS_def wf_assets_def)
qed

lemma candidate_diagnostics_Nil: "candidate_diagnostics c assets = [] \<longleftrightarrow> wf_builder c assets"
proof (cases "wf_files (bc_files c)")
  case True
  have parts: "validate_material_usage ms = [] \<longleftrightarrow> ms \<noteq> []"
    "validate_required_collections c = [] \<longleftrightarrow> bc_evidence c \<noteq> [] \<and> bc_constraints c \<noteq> [] \<and> bc_steps c \<noteq> [] \<and> bc_requirements c \<noteq> []"
    "validate_missing_questions qs ns = [] \<longleftrightarrow> ((\<exists>q \<in> set qs. mq_level q = ''blocking'') \<longrightarrow> ns \<noteq> [])" for ms qs ns
    by (auto simp: validate_material_usage_def validate_required_collections_def validate_missing_questions_def list_ex_iff)
  show ?thesis
    using assets_Nil [of "bc_assets c" assets "normal_files (bc_files c)" "stage_ids c"] True
    unfolding candidate_diagnostics_def append_is_Nil_conv validate_files_Nil validate_files_result [OF True] parts identifiers_Nil
      workflow_Nil coverage_Nil wf_builder_def Let_def
    by argo
next
  case False
  then show ?thesis by (simp add: candidate_diagnostics_def validate_files_Nil wf_builder_def Let_def)
qed

end
