(* ===== verification/BuilderTheorems.thy ===== *)
theory BuilderTheorems
  imports BuilderSound
begin

text \<open>
  What holds of the builder's candidates: which ones are accepted, how a refusal looks, and that a revision keeps the
  evidence of what it did not change.
\<close>

section \<open>Refusals\<close>



section \<open>Revisions\<close>

lemma by_ident_keys: "fst ` set (by_ident f xs) = f ` set xs"
proof -
  have "fst ` set (fold (\<lambda>x d. AList.update (f x) x d) xs d) = fst ` set d \<union> f ` set xs" for d
    by (induction xs arbitrary: d) (auto simp: dom_update [symmetric] dom_map_of_conv_image_fst [symmetric] update_conv)
  then show ?thesis by (simp add: by_ident_def)
qed

lemma classify_inherited: "i \<in> set (ch_inherited (classify t same cur base)) \<Longrightarrow> i \<in> fst ` set base"
  by (auto simp: classify_def split: option.splits dest!: map_of_SomeD) (metis fst_conv image_eqI)

lemma inherited_required: "set (inherited_targets (compare_targets c b)) \<subseteq> required_pairs b"
proof -
  have "i \<in> f ` set xs" if "i \<in> set (ch_inherited (classify t same cur (by_ident f xs)))" for i t same cur xs and f :: "'a \<Rightarrow> string"
    using classify_inherited [OF that] by (simp add: by_ident_keys)
  then have "i \<in> f ` set xs" if "x \<in> set (ch_inherited (classify t same cur (by_ident f xs)))" "x = i" for i x t same cur xs and f :: "'a \<Rightarrow> string"
    using that by blast
  note stages = classify_inherited [of _ "''workflow_stage''" "same_stage (bodies_of c) (bodies_of b)" "by_ident ws_id (bc_steps c)" "by_ident ws_id (bc_steps b)"]
    and constraints = classify_inherited [of _ "''safety_constraint''" same_constraint "by_ident sf_id (bc_constraints c)" "by_ident sf_id (bc_constraints b)"]
    and requirements = classify_inherited [of _ "''expected_evidence''" same_requirement "by_ident xr_id (bc_requirements c)" "by_ident xr_id (bc_requirements b)"]
  have types: "ch_type (classify t same cur base) = t" for t same cur base by (simp add: classify_def)
  show ?thesis
    using stages constraints requirements
    by (auto simp: inherited_targets_def compare_targets_def types required_pairs_def stage_ids_def by_ident_keys)
qed

lemma supported_append: "supported_targets (xs @ ys) = supported_targets xs @ supported_targets ys"
  by (simp add: supported_targets_def)

lemma inherited_supports:
  assumes "t \<in> set (supported_targets es)" "t \<in> set missing"
  shows "t \<in> set (supported_targets (inherited_evidence missing es))"
proof -
  obtain e u where e: "e \<in> set es" "evidence_item_has_supported_source e" and u: "u \<in> set (em_used e)" "target_pair u = t"
    using assms(1) by (auto simp: supported_targets_def)
  let ?e = "e\<lparr>em_used := selected_targets missing (em_used e)\<rparr>"
  have "u \<in> set (selected_targets missing (em_used e))" using u assms(2) by (simp add: selected_targets_def)
  then have "?e \<in> set (inherited_evidence missing es)" using e(1) by (force simp: inherited_evidence_def)
  moreover have "evidence_item_has_supported_source ?e" using e(2) by (simp add: evidence_item_has_supported_source_def)
  moreover have "t \<in> set (map target_pair (em_used ?e))" using u assms(2) by (force simp: selected_targets_def)
  ultimately show ?thesis by (force simp: supported_targets_def)
qed

lemma carry_over_supports:
  assumes "t \<in> set (inherited_targets chs)" "t \<in> set (supported_targets (bc_evidence b))"
  shows "t \<in> set (supported_targets (bc_evidence (carry_over chs b c)))"
  using assms inherited_supports [OF assms(2), of "missing_evidence_targets chs c"]
  by (auto simp: carry_over_def supported_append missing_evidence_targets_def)

lemma compare_carried: "compare_targets (carry_over chs b c) b = compare_targets c b"
  by (simp add: compare_targets_def carry_over_def bodies_of_def)

lemma inherited_standards_used:
  "\<lbrakk>s \<in> set ss; u \<in> set (su_used s); target_pair u \<in> set missing\<rbrakk>
    \<Longrightarrow> target_pair u \<in> set (concat (map (\<lambda>s. map target_pair (su_used s)) (inherited_standards missing ss)))"
proof -
  assume s: "s \<in> set ss" "u \<in> set (su_used s)" "target_pair u \<in> set missing"
  let ?s = "s\<lparr>su_used := selected_targets missing (su_used s)\<rparr>"
  have u: "u \<in> set (selected_targets missing (su_used s))" using s by (simp add: selected_targets_def)
  then have "?s \<in> set (inherited_standards missing ss)" using s(1) by (force simp: inherited_standards_def)
  then have "map target_pair (su_used ?s) \<in> set (map (\<lambda>s. map target_pair (su_used s)) (inherited_standards missing ss))"
    unfolding set_map by (rule imageI)
  moreover have "target_pair u \<in> set (map target_pair (su_used ?s))" using u by simp
  ultimately show ?thesis unfolding set_concat by (rule UN_I)
qed

lemma carry_over_again:
  assumes "set (inherited_targets chs) \<subseteq> set (supported_targets (bc_evidence b))"
  shows "inherited_evidence (missing_evidence_targets chs (carry_over chs b c)) (bc_evidence b) = []"
    "inherited_standards (missing_standard_targets chs (carry_over chs b c)) (bc_standards b) = []"
proof -
  have "missing_evidence_targets chs (carry_over chs b c) = []"
    using assms carry_over_supports by (auto simp: missing_evidence_targets_def filter_empty_conv)
  then show "inherited_evidence (missing_evidence_targets chs (carry_over chs b c)) (bc_evidence b) = []"
    by (simp add: inherited_evidence_def selected_targets_def)
  have "target_pair u \<notin> set (missing_standard_targets chs (carry_over chs b c))" if "s \<in> set (bc_standards b)" "u \<in> set (su_used s)" for s u
  proof
    let ?used = "\<lambda>ss. set (concat (map (\<lambda>s. map target_pair (su_used s)) ss))"
    assume "target_pair u \<in> set (missing_standard_targets chs (carry_over chs b c))"
    then have u: "target_pair u \<in> set (inherited_targets chs)" "target_pair u \<notin> ?used (bc_standards c)"
        "target_pair u \<notin> ?used (inherited_standards (missing_standard_targets chs c) (bc_standards b))"
      unfolding missing_standard_targets_def [of chs "carry_over chs b c"] set_filter mem_Collect_eq
      by (simp_all add: carry_over_def)
    then have "target_pair u \<in> set (missing_standard_targets chs c)" by (auto simp: missing_standard_targets_def)
    from inherited_standards_used [OF that this] u(3) show False by contradiction
  qed
  then show "inherited_standards (missing_standard_targets chs (carry_over chs b c)) (bc_standards b) = []"
    by (auto simp: inherited_standards_def selected_targets_def filter_empty_conv)
qed

lemma reconcile_Some:
  "reconcile_builder_candidate model payload baseline g k d = Inr (Some (c', pv)) \<longleftrightarrow>
    (\<exists>c b. parse_builder_candidate model payload = Inr c \<and> parse_builder_candidate model baseline = Inr b
      \<and> concat (map ch_renamed (compare_targets c b)) = [] \<and> c' = carry_over (compare_targets c b) b c
      \<and> pv = revision_provenance g k d (compare_targets c b) b c)"
  unfolding reconcile_builder_candidate_def Let_def by (auto simp del: concat_eq_Nil_conv split: sum.splits)

lemma provenance_inherited:
  "(ty, ids) \<in> set (pv_inherited (revision_provenance g k d chs b c)) \<Longrightarrow> i \<in> set ids \<Longrightarrow> (ty, i) \<in> set (inherited_targets chs)"
  by (force simp: revision_provenance_def by_type_def inherited_targets_def)

lemma accepted_iff:
  "validate_builder_candidate model payload assets = Inr c' \<longleftrightarrow>
    (\<exists>c. parse_builder_candidate model payload = Inr c \<and> wf_builder c assets \<and> c' = c\<lparr>bc_files := normal_files (bc_files c)\<rparr>)"
proof -
  have "fst (validate_files (bc_files c)) = normal_files (bc_files c)" if "wf_builder c assets" for c
    using that by (simp add: wf_builder_def Let_def validate_files_result)
  then show ?thesis
    by (auto simp: validate_builder_candidate_def Let_def sort_diagnostics_Nil candidate_diagnostics_Nil split: sum.splits)
qed

section \<open>A sample candidate\<close>

definition sample_skill_md :: string where
  "sample_skill_md = ''# [ab] T''"

definition sample_builder :: builder_candidate where
  "sample_builder =
     \<lparr>bc_tree = ''x'', bc_files = map (\<lambda>p. (p, if p = ''SKILL.md'' then sample_skill_md else ''x'')) REQUIRED_BUILDER_FILES,
      bc_reason = ''x'', bc_notes = [], bc_materials = [\<lparr>mu_material = ''m'', mu_usage = ''u''\<rparr>], bc_standards = [],
      bc_assets = [\<lparr>ra_asset = ''a'', ra_material = ''m'', ra_path = ''T'', ra_reason = ''r'', ra_stages = [''ab'']\<rparr>],
      bc_evidence = [\<lparr>em_claim = ''c'', em_level = ''observed_fact'',
        em_sources = [\<lparr>er_type = ''user_description'', er_ref = ''r'', er_material = [], er_asset = [], er_standard = [], er_clause = []\<rparr>],
        em_used = [\<lparr>ut_type = ''workflow_stage'', ut_id = ''ab''\<rparr>, \<lparr>ut_type = ''safety_constraint'', ut_id = ''cd''\<rparr>,
          \<lparr>ut_type = ''expected_evidence'', ut_id = ''ef''\<rparr>]\<rparr>],
      bc_questions = [], bc_constraints = [\<lparr>sf_id = ''cd'', sf_scope = ''all_stages'', sf_stages = [], sf_constraint = ''c'', sf_risk = ''r'',
        sf_action = ''a''\<rparr>], bc_steps = [\<lparr>ws_id = ''ab'', ws_title = ''T''\<rparr>],
      bc_requirements = [\<lparr>xr_id = ''ef'', xr_stage = ''ab'', xr_type = ''t'', xr_criteria = ''c''\<rparr>]\<rparr>"

lemma skip_ws_plain: "printable c \<Longrightarrow> skip_ws (c # s) = c # s"
  unfolding skip_ws_def by (rule strip_front_plain) (simp_all add: ws_codes_ends)

lemma skip_ws_blank: "skip_ws (CHR '' '' # s) = skip_ws s"
proof -
  have "find (\<lambda>w. w \<noteq> [] \<and> starts_with w (CHR '' '' # s)) ws_codes = Some '' ''"
    by (simp add: ws_codes_def starts_with_def char_of_def bit_0)
  then show ?thesis unfolding skip_ws_def by (subst strip_front.simps) simp
qed

lemma rstrip_ws_plain: "rstrip_ws ''T'' = ''T''"
proof -
  have "w \<noteq> [] \<and> \<not> printable (hd w)" if "w \<in> set (map rev ws_codes)" for w
    using that ws_codes_ends by (auto simp: hd_rev)
  then have "strip_front (map rev ws_codes) (CHR ''T'' # []) = CHR ''T'' # []"
    by (intro strip_front_plain) (auto simp: printable_def)
  then show ?thesis by (simp add: rstrip_ws_def)
qed

lemma sample_texts: "strip ''x'' = ''x''" "strip sample_skill_md = sample_skill_md" "strip ''T'' = ''T''"
  by (simp_all add: strip_plain printable_def sample_skill_md_def)

lemma sample_heading: "heading_titles sample_skill_md ''ab'' = [''T'']"
proof -
  have "heading_title '' T'' = Some (''T'', [])"
    by (simp add: heading_title_def Let_def skip_ws_blank skip_ws_plain printable_def this_line_def LF_def rstrip_ws_plain sample_texts)
  moreover have "bracketed_id ''[ab] T'' = Some (''ab'', '' T'')"
    by (simp add: bracketed_id_def Let_def id_char_def lower_letter_def is_digit_def starts_with_def)
  moreover have "heading_marks ''# [ab] T'' = Some (1, ''[ab] T'')"
    by (simp add: heading_marks_def Let_def skip_ws_blank skip_ws_plain printable_def)
  ultimately have "workflow_heading ''# [ab] T'' = Some (''ab'', ''T'', [])"
    by (simp add: workflow_heading_def skip_ws_plain printable_def)
  then show ?thesis by (simp add: heading_titles_def sample_skill_md_def)
qed

lemma sample_placeholders: "\<forall>p \<in> set placeholder_patterns. \<not> snd p ''x'' \<and> \<not> snd p sample_skill_md"
  by (simp add: placeholder_patterns_def sample_skill_md_def LF_def skip_ws_plain printable_def skip_bullet_def skip_box_def marked_at_def
      lower_def lower_char_def B_FILL_IN_def u8_def B_SAMPLE_PATH_PATTERN_def starts_with_def char_of_def)

lemma required_paths: "\<forall>p \<in> set REQUIRED_BUILDER_FILES. normalize_builder_path p = Some p"
proof -
  have "safe_path p \<and> strip p = p" if "p \<in> set REQUIRED_BUILDER_FILES" for p
    using that by (auto simp: REQUIRED_BUILDER_FILES_def safe_path_def plain_part_def SLASH_def DOT_PARTS_def intro: strip_plain simp: printable_def)
  then show ?thesis by (simp add: builder_path_stable)
qed

lemma sample_files: "wf_files (bc_files sample_builder)" "normal_files (bc_files sample_builder) = bc_files sample_builder"
    "file_text (bc_files sample_builder) ''SKILL.md'' = sample_skill_md"
proof -
  have paths: "file_path_of (p, t) = p" if "p \<in> set REQUIRED_BUILDER_FILES" for p t
    using that required_paths by (simp add: file_path_of_def)
  then show n: "normal_files (bc_files sample_builder) = bc_files sample_builder"
    by (simp add: normal_files_def sample_builder_def)
  show "file_text (bc_files sample_builder) ''SKILL.md'' = sample_skill_md"
    by (simp add: sample_builder_def REQUIRED_BUILDER_FILES_def file_text_def)
  have "map file_path_of (bc_files sample_builder) = REQUIRED_BUILDER_FILES"
    using paths by (simp add: sample_builder_def comp_def map_idI)
  moreover have "distinct REQUIRED_BUILDER_FILES" by (simp add: REQUIRED_BUILDER_FILES_def)
  moreover have "wf_file f" if f_in: "f \<in> set (bc_files sample_builder)" for f
  proof -
    obtain p where f: "f = (p, if p = ''SKILL.md'' then sample_skill_md else ''x'')" "p \<in> set REQUIRED_BUILDER_FILES"
      using f_in unfolding sample_builder_def builder_candidate.simps set_map by blast
    have "p \<noteq> ''skill.yaml''" using f(2) by (auto simp: REQUIRED_BUILDER_FILES_def)
    then show ?thesis
      using f required_paths paths sample_placeholders sample_texts by (auto simp: wf_file_def FORBIDDEN_BUILDER_FILES_def sample_skill_md_def)
  qed
  moreover have "file_text (bc_files sample_builder) p \<noteq> []" if "p \<in> set REQUIRED_BUILDER_FILES" for p
    using that by (auto simp: sample_builder_def REQUIRED_BUILDER_FILES_def file_text_def sample_skill_md_def)
  ultimately show "wf_files (bc_files sample_builder)" unfolding wf_files_def n by (auto simp: sample_builder_def REQUIRED_BUILDER_FILES_def)
qed

lemma sample_builder_ok: "wf_builder sample_builder []"
proof -
  have "str_contains ''T'' sample_skill_md" by (simp add: sample_skill_md_def starts_with_def)
  then show ?thesis
    unfolding wf_builder_def Let_def sample_files
    by (simp add: sample_files(1)) (simp add: sample_builder_def wf_assets_def stage_ids_def wf_constraint_def wf_targets_def
        known_targets_def wf_stage_def sample_heading required_pairs_def supported_targets_def evidence_item_has_supported_source_def
        SUPPORTED_REQUIRED_EVIDENCE_SOURCE_TYPES_def target_pair_def)
qed

definition sample_builder_model :: builder_model where
  "sample_builder_model d = (if d = [] then Inr sample_builder
     else if dhas d ''bad'' then Inl [\<lparr>fe_loc = [''files''], fe_msg = [], fe_type = ''missing''\<rparr>]
     else Inr (sample_builder\<lparr>bc_evidence := []\<rparr>))"

lemma sample_parse:
  "parse_builder_candidate sample_builder_model [] = Inr sample_builder"
  "parse_builder_candidate sample_builder_model [(''x'', JNull)] = Inr (sample_builder\<lparr>bc_evidence := []\<rparr>)"
  by (simp_all add: parse_builder_candidate_def PLATFORM_BUILDER_FIELDS_def sample_builder_model_def)

lemma sample_validated: "validate_builder_candidate sample_builder_model [] [] = Inr sample_builder"
proof -
  have "sample_builder\<lparr>bc_files := bc_files sample_builder\<rparr> = sample_builder" by simp
  then show ?thesis unfolding accepted_iff using sample_parse(1) sample_builder_ok sample_files(2) by metis
qed

lemma sample_changes:
  "map ch_type (compare_targets (sample_builder\<lparr>bc_evidence := []\<rparr>) sample_builder) = [''workflow_stage'', ''safety_constraint'', ''expected_evidence'']"
  "map ch_inherited (compare_targets (sample_builder\<lparr>bc_evidence := []\<rparr>) sample_builder) = [[''ab''], [''cd''], [''ef'']]"
  "map ch_renamed (compare_targets (sample_builder\<lparr>bc_evidence := []\<rparr>) sample_builder) = [[], [], []]"
proof -
  have "bodies_of (sample_builder\<lparr>bc_evidence := []\<rparr>) = bodies_of sample_builder" by (simp add: bodies_of_def)
  then have "compare_targets (sample_builder\<lparr>bc_evidence := []\<rparr>) sample_builder = compare_targets sample_builder sample_builder"
    by (simp add: compare_targets_def)
  moreover have "bc_steps sample_builder = [\<lparr>ws_id = ''ab'', ws_title = ''T''\<rparr>]"
    "\<exists>x. bc_constraints sample_builder = [x] \<and> sf_id x = ''cd''" "\<exists>x. bc_requirements sample_builder = [x] \<and> xr_id x = ''ef''"
    by (simp_all add: sample_builder_def)
  ultimately show "map ch_type (compare_targets (sample_builder\<lparr>bc_evidence := []\<rparr>) sample_builder)
        = [''workflow_stage'', ''safety_constraint'', ''expected_evidence'']"
      "map ch_inherited (compare_targets (sample_builder\<lparr>bc_evidence := []\<rparr>) sample_builder) = [[''ab''], [''cd''], [''ef'']]"
      "map ch_renamed (compare_targets (sample_builder\<lparr>bc_evidence := []\<rparr>) sample_builder) = [[], [], []]"
    by (auto simp: compare_targets_def classify_def by_ident_def same_stage_def same_constraint_def same_requirement_def)
qed

lemma sample_revision:
  "\<exists>pv. reconcile_builder_candidate sample_builder_model [(''x'', JNull)] [] ''g'' ''k'' ''d'' = Inr (Some (sample_builder, pv))
    \<and> (''workflow_stage'', [''ab'']) \<in> set (pv_inherited pv)"
proof -
  define chs where "chs = compare_targets (sample_builder\<lparr>bc_evidence := []\<rparr>) sample_builder"
  obtain x y z where xyz: "chs = [x, y, z]" "ch_type x = ''workflow_stage''" "ch_inherited x = [''ab'']" "ch_type y = ''safety_constraint''"
      "ch_inherited y = [''cd'']" "ch_type z = ''expected_evidence''" "ch_inherited z = [''ef'']"
    using sample_changes(1,2) unfolding chs_def [symmetric] by (auto simp: map_eq_Cons_conv)
  then have "inherited_targets chs = [(''workflow_stage'', ''ab''), (''safety_constraint'', ''cd''), (''expected_evidence'', ''ef'')]"
    by (simp add: inherited_targets_def)
  then have "carry_over chs sample_builder (sample_builder\<lparr>bc_evidence := []\<rparr>) = sample_builder"
    by (simp add: carry_over_def missing_evidence_targets_def supported_targets_def inherited_evidence_def inherited_standards_def
        selected_targets_def sample_builder_def target_pair_def)
  moreover have "concat (map ch_renamed chs) = []" using sample_changes(3) unfolding chs_def by simp
  ultimately have "reconcile_builder_candidate sample_builder_model [(''x'', JNull)] [] ''g'' ''k'' ''d''
      = Inr (Some (sample_builder, revision_provenance ''g'' ''k'' ''d'' chs sample_builder (sample_builder\<lparr>bc_evidence := []\<rparr>)))"
    unfolding reconcile_Some using sample_parse chs_def by metis
  moreover have "(''workflow_stage'', [''ab'']) \<in> set (by_type ch_inherited chs)" using xyz(1-3) by (simp add: by_type_def)
  ultimately show ?thesis by (auto simp: revision_provenance_def)
qed

section \<open>Properties\<close>




text \<open>
  C23. Every stage, safety constraint and evidence requirement of an accepted candidate is used by a piece of evidence with a
  source that the user, a material, a reference asset or a standard stands behind, and the source says which.
\<close>

theorem accepted_targets_are_traceable:
  assumes "sources_checked model" "validate_builder_candidate model payload assets = Inr c" "t \<in> required_pairs c"
  shows "\<exists>e \<in> set (bc_evidence c). t \<in> set (map target_pair (em_used e))
    \<and> (\<exists>r \<in> set (em_sources e). er_type r \<in> set SUPPORTED_REQUIRED_EVIDENCE_SOURCE_TYPES \<and> source_named r)"
proof -
  obtain c0 where c0: "parse_builder_candidate model payload = Inr c0" "wf_builder c0 assets" "c = c0\<lparr>bc_files := normal_files (bc_files c0)\<rparr>"
    using assms(2) by (auto simp: accepted_iff)
  then have "t \<in> required_pairs c0" using assms(3) by (simp add: required_pairs_def stage_ids_def)
  then have "t \<in> set (supported_targets (bc_evidence c))" using c0 by (auto simp: wf_builder_def Let_def)
  then obtain e where e: "e \<in> set (bc_evidence c)" "evidence_item_has_supported_source e" "t \<in> set (map target_pair (em_used e))"
    by (auto simp: supported_targets_def)
  then obtain r where r: "r \<in> set (em_sources e)" "er_type r \<in> set SUPPORTED_REQUIRED_EVIDENCE_SOURCE_TYPES"
    by (auto simp: evidence_item_has_supported_source_def list_ex_iff)
  have "source_ref_ok r"
    using assms(1) c0(1,3) e(1) r(1) unfolding sources_checked_def parse_builder_candidate_def by simp
  then show ?thesis using e r supported_source_named by blast
qed

theorem accepted_targets_are_traceable_witness:
  "\<exists>e \<in> set (bc_evidence sample_builder). (''workflow_stage'', ''ab'') \<in> set (map target_pair (em_used e))
    \<and> (\<exists>r \<in> set (em_sources e). er_type r \<in> set SUPPORTED_REQUIRED_EVIDENCE_SOURCE_TYPES \<and> source_named r)"
proof (rule accepted_targets_are_traceable [OF _ sample_validated])
  show "sources_checked sample_builder_model"
    by (auto simp: sources_checked_def sample_builder_model_def sample_builder_def source_ref_ok_def)
  show "(''workflow_stage'', ''ab'') \<in> required_pairs sample_builder" by (simp add: required_pairs_def stage_ids_def sample_builder_def)
qed

text \<open>
  C24. A revision loses no evidence: a target that it inherits and that the baseline backs with a source that can be
  checked is backed in the result, too.
\<close>

theorem revision_keeps_coverage:
  assumes "reconcile_builder_candidate model payload baseline g k d = Inr (Some (c', pv))" "parse_builder_candidate model baseline = Inr b"
    "(ty, ids) \<in> set (pv_inherited pv)" "i \<in> set ids" "(ty, i) \<in> set (supported_targets (bc_evidence b))"
  shows "(ty, i) \<in> set (supported_targets (bc_evidence c'))"
  using assms provenance_inherited carry_over_supports by (auto simp: reconcile_Some)

theorem revision_keeps_coverage_witness:
  "(''workflow_stage'', ''ab'') \<in> set (supported_targets (bc_evidence sample_builder))"
proof -
  obtain pv where pv: "reconcile_builder_candidate sample_builder_model [(''x'', JNull)] [] ''g'' ''k'' ''d'' = Inr (Some (sample_builder, pv))"
      "(''workflow_stage'', [''ab'']) \<in> set (pv_inherited pv)"
    using sample_revision by blast
  have "(''workflow_stage'', ''ab'') \<in> required_pairs sample_builder" by (simp add: required_pairs_def stage_ids_def sample_builder_def)
  then have "(''workflow_stage'', ''ab'') \<in> set (supported_targets (bc_evidence sample_builder))"
    using sample_builder_ok by (auto simp: wf_builder_def Let_def)
  from revision_keeps_coverage [OF pv(1) sample_parse(1) pv(2) _ this] show ?thesis by simp
qed

text \<open>
  C25. Reconciling the result of a revision with the same accepted baseline again gives it back and inherits nothing more.
\<close>

theorem revision_is_stable:
  assumes "validate_builder_candidate model baseline assets = Inr b'"
    "reconcile_builder_candidate model payload baseline g k d = Inr (Some (c', pv))" "parse_builder_candidate model payload' = Inr c'"
  shows "\<exists>pv'. reconcile_builder_candidate model payload' baseline g k d = Inr (Some (c', pv')) \<and> pv_evidence pv' = 0 \<and> pv_standards pv' = 0"
proof -
  obtain c b where c: "parse_builder_candidate model baseline = Inr b" "concat (map ch_renamed (compare_targets c b)) = []"
      "c' = carry_over (compare_targets c b) b c"
    using assms(2) by (auto simp: reconcile_Some simp del: concat_eq_Nil_conv)
  then have "required_pairs b \<subseteq> set (supported_targets (bc_evidence b))"
    using assms(1) by (auto simp: accepted_iff wf_builder_def Let_def)
  then have "set (inherited_targets (compare_targets c b)) \<subseteq> set (supported_targets (bc_evidence b))"
    using inherited_required [of c b] by blast
  note none = carry_over_again [OF this, of c, folded c(3)]
  have same: "compare_targets c' b = compare_targets c b" unfolding c(3) by (rule compare_carried)
  have "carry_over (compare_targets c' b) b c' = c'" unfolding same carry_over_def none by simp
  moreover have "pv_evidence (revision_provenance g k d (compare_targets c' b) b c') = 0"
      "pv_standards (revision_provenance g k d (compare_targets c' b) b c') = 0"
    unfolding revision_provenance_def same by (simp_all add: none)
  ultimately show ?thesis using assms(3) c(1,2) same by (auto simp: reconcile_Some simp del: concat_eq_Nil_conv)
qed

theorem revision_is_stable_witness:
  "\<exists>pv'. reconcile_builder_candidate sample_builder_model [] [] ''g'' ''k'' ''d'' = Inr (Some (sample_builder, pv'))
    \<and> pv_evidence pv' = 0 \<and> pv_standards pv' = 0"
proof -
  obtain pv where "reconcile_builder_candidate sample_builder_model [(''x'', JNull)] [] ''g'' ''k'' ''d'' = Inr (Some (sample_builder, pv))"
    using sample_revision by blast
  from revision_is_stable [OF sample_validated this sample_parse(1)] show ?thesis .
qed

end
