(* ===== verification/Spec2Isabelle.thy ===== *)
theory Spec2Isabelle
  imports FormalTheorems RuntimeTheorems JobTheorems SkillTestTheorems PublishTheorems DraftTheorems BuilderTheorems
begin

text \<open>
  A verification development for the PSOP backend (\<^verbatim>\<open>src/backend/app\<close>), which compiles skills to graphs
  of nodes, runs them step by step with an LLM agent behind some of the nodes, and tests them against
  timelines. The models follow the Python code function by function and keep its names.

  \<^bold>\<open>The program's parts and how they interact.\<close>
  A builder agent drafts skills; its candidates are checked (\<^verbatim>\<open>agents/psop/builder/schemas.py\<close>) before they become a draft.
  The compiler's validator (\<^verbatim>\<open>domain/compiler/formal_v5.py\<close>) turns a candidate into an artifact or a list of
  diagnostics. The runtime (\<^verbatim>\<open>domain/runtime/service.py\<close>) executes an artifact: a token, a JSON object, moves from
  node to node; each step appends a snapshot, a trace event and possibly terminal events, and the
  run waits at checkpoints for terminal inputs. Turns of a run are jobs of one table
  (\<^verbatim>\<open>domain/jobs\<close>): a worker claims a job under a lease, every commit is fenced by the lease, and a
  supervisor recovers expired leases. A skill test (\<^verbatim>\<open>domain/skill_tests/service.py\<close>) has two jobs beside the
  run's: the driver appends the timeline's inputs to the run's terminal when they are due, the
  finalizer asks a model to judge what the run put out and gives the verdict. Publishing a skill
  (\<^verbatim>\<open>domain/skills/service.py\<close>) freezes its draft as a version and queues a compile job; the worker lets the compiler
  (\<^verbatim>\<open>domain/compiler/service.py\<close>) ask an agent for a candidate, validate it, write the artifact and make the version the
  published one.

  \<^bold>\<open>Theories and code.\<close>
  \<^item> Prelude, PyStr, PyJson: exceptions and results; Python strings as UTF-8; JSON values with Python's
    truth value, equality, \<^verbatim>\<open>str\<close>, \<^verbatim>\<open>int\<close>, \<^verbatim>\<open>json.dumps\<close> and dictionary operations. Dictionaries are association
    lists in insertion order.
  \<^item> TokenPath, Guards, Texts, Observation, Evidence: \<^verbatim>\<open>_get_path\<close> and \<^verbatim>\<open>_set_path\<close>, guards and the choice of the next
    node, the user-visible sentences, \<^verbatim>\<open>_execute_node\<close> and \<^verbatim>\<open>_merge_observation\<close>, evidence progress
    (all of \<^verbatim>\<open>runtime/service.py\<close>).
  \<^item> FormalNormalize, FormalDiag, FormalContract, FormalValidate: \<^verbatim>\<open>formal_v5.py\<close> in its order. FormalSound,
    FormalAccept and FormalWorkflow say without diagnostics what an accepted artifact is.
  \<^item> Jobs, JobQueue: the job table with its operations (\<^verbatim>\<open>jobs/repository.py\<close>, \<^verbatim>\<open>worker.py\<close>) and the queue as a state
    machine whose steps are the transactions of any workers in any order.
  \<^item> Terminal, RunState: terminal events as the token sees them (\<^verbatim>\<open>_sync_terminal_events\<close>) and the rows of
    a run: \<open>world\<close> is the run with its three logs, session and jobs.
  \<^item> Turn, Interaction, Failure, TurnEnd, RunLoop: a turn as actions on the token, the rows and the last
    commit; node interactions and checkpoints; what a failed turn writes; finishing, cancelling,
    the API's append and the lease fence; \<^verbatim>\<open>process_run\<close>.
  \<^item> Timeline, Judge, Scenario, Session, Driver, Finalizer: \<^verbatim>\<open>skill_tests/service.py\<close>: timelines and forks; the judge's
    prompt and answer; the scenario run's row, jobs, summary and verdict; the worker's session with
    its fence (\<^verbatim>\<open>worker.py\<close>); \<^verbatim>\<open>process_driver_job\<close>; \<^verbatim>\<open>process_finalizer_job\<close>, the exhausted jobs, cancelling
    and \<^verbatim>\<open>request_evaluation\<close>.
  \<^item> Actions, PublishProgress, Candidate: handlers as actions that keep what they did before an exception, with
    triples; the eight stages of a compile job (\<^verbatim>\<open>jobs/progress.py\<close>); a candidate and its fields
    (\<^verbatim>\<open>agents/psop/compiler/schemas.py\<close>) and the reading of the agent's file.
  \<^item> Catalog: the rows of skills, versions, requests, artifacts and publish records (\<open>catalog\<close>) and the worker's session
    over them (\<open>csession\<close>): its own view, the committed rows, and the fence at the commit.
  \<^item> CompileTexts, Compile, CompileRun, Publish: \<^verbatim>\<open>compiler/service.py\<close> from the frozen source over the two attempts of the
    agent to the artifact, its failures and the job; creating and publishing skills, requests by hand and
    corrected artifacts.
  \<^item> RepositoryPath, Drafts: paths in a skill's repository; metadata, deletion, source and files of a draft
    (\<^verbatim>\<open>skills/service.py\<close>), saved through the source host, which answers as a parameter that knows what was written to it.
  \<^item> BuilderTexts, BuilderCandidate, BuilderMarkdown, BuilderValidate, BuilderReconcile: the builder agent's candidate
    (\<^verbatim>\<open>agents/psop/builder/schemas.py\<close>): its checks in their order, its regular expressions as scanners, and the revision of an
    earlier candidate. BuilderSound says without diagnostics what an accepted one is.

  \<^bold>\<open>What the lemmas show.\<close>
  FormalTheorems: the validator accepts exactly the well-formed candidates, when it raises, and what
  its guards are. RuntimeTheorems: a step's choice of node, merge, usage, evidence and input
  synchronisation. JobTheorems: the queue's invariant over all histories, claims, lost leases, retries.
  TurnTheorems: the logs only grow under any schedule of other transactions, a lost lease or a cancellation stops every later
  commit, no input is left behind, committed steps are resumed, failures are redacted and return to
  the checkpoint. SkillTestTheorems: timelines are normalised once and for all; the driver
  never runs ahead of the log (DriverFacts); the finalizer refines an abstract examiner
  (Grading) and ends (Progress). PublishTheorems: in every history of the catalog a published version has an artifact
  that came from the validator (CompileSafety, PublishSafety); a job leaves the requests of others alone and commits nothing once its lease is
  taken (CompileFrame); an accepted candidate of an undisturbed job is published (CompileLive, PublishLive).
  DraftTheorems: operations on drafts stay in their project and change nothing that publishing relies on (DraftSafety), a save needs
  the current head, and what was saved is read back. BuilderTheorems: which candidates of the builder are accepted, that their
  evidence can be traced, and that a revision keeps the evidence of what it did not change.
  The interfaces are locales interpreted on the code's own operations: \<open>path_store\<close>,
  \<open>fenced_write\<close>, \<open>seq_log\<close>, \<open>kept_by_steps\<close>, \<open>fenced\<close>, and in CompileLaws \<open>session_edits\<close>, \<open>session_kept\<close> and
  \<open>request_kept\<close>, each the one before with more laws: what a predicate on sessions must survive to be kept by a
  compile job, used for the catalog's invariant, for what is uncommitted and for a lost lease; \<open>desk_kept\<close> is the same for
  operations on drafts.

  \<^bold>\<open>Bounds and fuel.\<close>
  \<open>run_steps\<close> counts down the run's \<^verbatim>\<open>max_steps\<close>, which is the loop's own bound, so \<open>process_run\<close> is
  total and needs no other fuel; the driver recurs on the remaining events. The finalizer ends after at most one pass per
  missing evaluation and one more, provided the answers can be read and nobody else writes.

  \<^bold>\<open>Simplifications.\<close>
  \<^item> Parameters are what is not code of the repository: the agent harness, the model's completion and its
    prompt pack, UUIDs, SHA-256, \<^verbatim>\<open>json.loads\<close>, the texts and details of exceptions, \<^verbatim>\<open>float()\<close>, ISO times; for publishing
    also Pydantic, YAML, the source host, the object store, the domain packs, the images found in Markdown and the generation of keys.
  \<^item> \<^verbatim>\<open>lower\<close> folds ASCII letters only. Diagnostic messages are constructors with their
    interpolated values, not the Chinese sentences.
  \<^item> The clock is read once per operation or transaction; in the driver, \<open>de_lag\<close> is time that passes within one. Other
    transactions act between commits only (\<open>st_others\<close>, \<open>de_others\<close>, \<open>fe_pause\<close>, \<open>ce_others\<close>; what the safety of a
    compile job asks of them is a hypothesis, as in rely and guarantee); concurrent API writes to the row of a
    scenario run in the middle of a driver's session are not modelled.
  \<^item> JSON values are copied where Python may share them; \<open>unshared_writes\<close> is the condition
    under which the difference is invisible to a merge.
  \<^item> A failed \<^verbatim>\<open>IntegrityError\<close> leaves a transaction that no later operation uses. An operation that
    raises keeps the caller's rows where the source rolls back.
  \<^item> Skill tests run with the workers enabled, so a driver never processes the run itself.

  \<^bold>\<open>Not modelled.\<close>
  Publication of events to clients, spans and metrics of the observability layer, the errors of rows that are
  missing although their key was just read, the length limits of request schemas. Of the runtime
  service: \<^verbatim>\<open>create_invocation\<close> and forks, the runner's context, task status, replays. Of skill tests: the scenarios'
  CRUD, \<^verbatim>\<open>start_run\<close>, the review's stage outputs and cursor anchors, the evaluation inside a request. Of the skill
  service: listings, raw materials and their generation jobs. Of the
  compiler service: the path without a harness and the read-only responses. The supervisor's threads, the agents' tools,
  the agent harness, the gateways and the HTTP routes.
\<close>

end
